(* ===== verification/Prelude.thy ===== *)
theory Prelude
  imports Main "HOL-Library.Word" "HOL-Library.AList" "HOL-Library.Multiset"
begin

text \<open>
  The prelude of the development: names for the machine types, Rust's three-valued
  comparison, saturating time arithmetic, decimal printing and parsing of integers, and
  the hash map that several components keep, with the contract its clients rely on.

  \<^item> A point in time (\<^verbatim>\<open>std::time::Instant\<close>) and a span
    (\<^verbatim>\<open>std::time::Duration\<close>) are natural numbers of nanoseconds.
    \<^verbatim>\<open>Instant::duration_since\<close> returns zero for a later argument,
    which is what subtraction on \<open>nat\<close> does.
  \<^item> Unsigned machine integers are words of their width; their \<open>+\<close> and \<open>*\<close> wrap
    around, as a release build of the crates does.
  \<^item> A \<^verbatim>\<open>HashMap\<close> is an association list with distinct keys. The order of the list stands for
    the iteration order, which the standard library leaves open: no theorem of the
    development depends on it.
\<close>

section \<open>Machine types\<close>

type_synonym u8 = "8 word"
type_synonym u32 = "32 word"
type_synonym u64 = "64 word"
type_synonym usize = "64 word"
type_synonym instant = nat
type_synonym duration = nat
type_synonym bytes = "u8 list"

text \<open>Facts about the time window of a component, and about the shape of its state.\<close>

named_theorems window_simps
named_theorems state_defs

definition duration_since :: "instant \<Rightarrow> instant \<Rightarrow> duration" where
  "duration_since now earlier = now - earlier"

definition from_millis :: "nat \<Rightarrow> duration" where
  "from_millis ms = ms * 1000000"

definition as_millis :: "duration \<Rightarrow> nat" where
  "as_millis d = d div 1000000"

lemma as_millis_from_millis [simp]: "as_millis (from_millis ms) = ms"
  by (simp add: as_millis_def from_millis_def)

section \<open>Rust's comparison\<close>

datatype ordering = Less | Equal | Greater

definition cmp :: "'a::linorder \<Rightarrow> 'a \<Rightarrow> ordering" where
  "cmp a b = (if a < b then Less else if a = b then Equal else Greater)"

fun then_cmp :: "ordering \<Rightarrow> ordering \<Rightarrow> ordering" where
  "then_cmp Equal o2 = o2"
| "then_cmp o1 o2 = o1"

lemma cmp_Less [simp]: "cmp a b = Less \<longleftrightarrow> a < b"
  by (simp add: cmp_def)

lemma cmp_Equal [simp]: "cmp a b = Equal \<longleftrightarrow> a = b"
  by (auto simp: cmp_def)

lemma cmp_Greater [simp]: "cmp a b = Greater \<longleftrightarrow> b < a"
  by (auto simp: cmp_def)

lemma then_cmp_eq_Less [simp]: "then_cmp a b = Less \<longleftrightarrow> a = Less \<or> a = Equal \<and> b = Less"
  by (cases a) auto

lemma then_cmp_eq_Equal [simp]: "then_cmp a b = Equal \<longleftrightarrow> a = Equal \<and> b = Equal"
  by (cases a) auto

lemma then_cmp_eq_Greater [simp]:
  "then_cmp a b = Greater \<longleftrightarrow> a = Greater \<or> a = Equal \<and> b = Greater"
  by (cases a) auto

section \<open>Decimal printing and parsing\<close>

definition digit_char :: "nat \<Rightarrow> char" where
  "digit_char d = char_of (48 + d)"

definition is_digit :: "char \<Rightarrow> bool" where
  "is_digit c \<longleftrightarrow> 48 \<le> (of_char c :: nat) \<and> (of_char c :: nat) \<le> 57"

definition digit_val :: "char \<Rightarrow> nat" where
  "digit_val c = of_char c - 48"

fun show_nat :: "nat \<Rightarrow> string" where
  "show_nat n = (if n < 10 then [digit_char n] else show_nat (n div 10) @ [digit_char (n mod 10)])"

declare show_nat.simps [simp del]

text \<open>The digit loop of the standard library's integer parser, with its overflow check
  against the largest value of the target type.\<close>

fun parse_digits :: "nat \<Rightarrow> nat \<Rightarrow> string \<Rightarrow> nat option" where
  "parse_digits bound acc [] = Some acc"
| "parse_digits bound acc (c # cs) =
     (if is_digit c
      then (let acc' = acc * 10 + digit_val c
            in if acc' < bound then parse_digits bound acc' cs else None)
      else None)"

definition digits_value :: "string \<Rightarrow> nat" where
  "digits_value s = foldl (\<lambda>a c. a * 10 + digit_val c) 0 s"

lemma of_char_digit_char [simp]: "d < 10 \<Longrightarrow> (of_char (digit_char d) :: nat) = 48 + d"
  by (simp add: digit_char_def)

lemma is_digit_digit_char [simp]: "d < 10 \<Longrightarrow> is_digit (digit_char d)"
  by (simp add: is_digit_def)

lemma digit_val_digit_char [simp]: "d < 10 \<Longrightarrow> digit_val (digit_char d) = d"
  by (simp add: digit_val_def)

lemma digit_char_digit_val: "is_digit c \<Longrightarrow> digit_char (digit_val c) = c"
  by (simp add: is_digit_def digit_char_def digit_val_def)

lemma digit_val_less: "is_digit c \<Longrightarrow> digit_val c < 10"
  by (auto simp: is_digit_def digit_val_def)

lemma char_of_48 [simp]: "char_of (48::nat) = CHR ''0''"
  by code_simp

lemma digit_val_zero: "is_digit c \<Longrightarrow> digit_val c = 0 \<longleftrightarrow> c = CHR ''0''"
  using digit_char_digit_val [of c] by (auto simp: digit_char_def digit_val_def)

lemma show_nat_small: "n < 10 \<Longrightarrow> show_nat n = [digit_char n]"
  by (simp add: show_nat.simps)

lemma show_nat_snoc: "10 \<le> n \<Longrightarrow> show_nat n = show_nat (n div 10) @ [digit_char (n mod 10)]"
  by (simp add: show_nat.simps)

lemma show_nat_not_Nil [simp]: "show_nat n \<noteq> []"
  by (simp add: show_nat.simps)

lemma show_nat_digits: "c \<in> set (show_nat n) \<Longrightarrow> is_digit c"
proof (induction n rule: show_nat.induct)
  case (1 n)
  then show ?case
    by (cases "n < 10") (auto simp: show_nat_small show_nat_snoc)
qed

lemma digits_value_Nil [simp]: "digits_value [] = 0"
  by (simp add: digits_value_def)

lemma digits_value_snoc [simp]: "digits_value (s @ [c]) = digits_value s * 10 + digit_val c"
  by (simp add: digits_value_def)

lemma digits_value_show_nat [simp]: "digits_value (show_nat n) = n"
proof (induction n rule: show_nat.induct)
  case (1 n)
  then show ?case
    by (cases "n < 10") (simp_all add: show_nat_small show_nat_snoc digits_value_def)
qed

lemma foldl_digits_ge: "(a::nat) \<le> foldl (\<lambda>a c. a * 10 + digit_val c) a s"
proof (induction s arbitrary: a)
  case (Cons c s)
  have "a \<le> a * 10 + digit_val c" by simp
  also have "\<dots> \<le> foldl (\<lambda>a c. a * 10 + digit_val c) (a * 10 + digit_val c) s"
    by (rule Cons.IH)
  finally show ?case by simp
qed simp

text \<open>The parser accepts exactly the digit strings whose value is below the bound.\<close>

lemma parse_digits_eq:
  "acc < bound \<Longrightarrow> parse_digits bound acc s =
     (let v = foldl (\<lambda>a c. a * 10 + digit_val c) acc s
      in if (\<forall>c \<in> set s. is_digit c) \<and> v < bound then Some v else None)"
proof (induction s arbitrary: acc)
  case (Cons c s)
  show ?case
  proof (cases "is_digit c \<and> acc * 10 + digit_val c < bound")
    case True
    then show ?thesis using Cons.IH [of "acc * 10 + digit_val c"] by (auto simp: Let_def)
  next
    case False
    then show ?thesis
      using foldl_digits_ge [of "acc * 10 + digit_val c" s] by (auto simp: Let_def)
  qed
qed simp

text \<open>A digit string with no superfluous leading zero is the print-out of its value.\<close>

lemma digits_value_pos: "s \<noteq> [] \<Longrightarrow> digit_val (hd s) \<noteq> 0 \<Longrightarrow> digits_value s \<noteq> 0"
  using foldl_digits_ge [of "digit_val (hd s)" "tl s"]
  by (cases s) (auto simp: digits_value_def)

lemma show_nat_digits_value:
  assumes "\<forall>c \<in> set s. is_digit c" and "s \<noteq> []" and "length s = 1 \<or> hd s \<noteq> CHR ''0''"
  shows "show_nat (digits_value s) = s"
  using assms
proof (induction s rule: rev_induct)
  case (snoc c s)
  have d: "digit_val c < 10" using snoc.prems(1) by (simp add: digit_val_less)
  show ?case
  proof (cases "s = []")
    case True
    then show ?thesis
      using d snoc.prems(1) by (simp add: digits_value_def show_nat_small digit_char_digit_val)
  next
    case False
    with snoc.prems(3) have hd: "hd s \<noteq> CHR ''0''" by simp
    from False snoc.prems(1) have "is_digit (hd s)" by simp
    with hd have "digit_val (hd s) \<noteq> 0" by (simp add: digit_val_zero)
    then have "digits_value s \<noteq> 0" using False by (rule digits_value_pos [rotated])
    then have "10 \<le> digits_value s * 10 + digit_val c" by simp
    moreover have "show_nat (digits_value s) = s"
      using snoc.IH snoc.prems(1) False hd by simp
    ultimately show ?thesis
      using d snoc.prems(1) by (simp add: show_nat_snoc digit_char_digit_val)
  qed
qed simp

section \<open>Hash maps\<close>

type_synonym ('k, 'v) hashmap = "('k \<times> 'v) list"

definition hm_empty :: "('k, 'v) hashmap" where
  "hm_empty = []"

definition hm_get :: "('k, 'v) hashmap \<Rightarrow> 'k \<Rightarrow> 'v option" where
  "hm_get m k = map_of m k"

definition hm_insert :: "'k \<Rightarrow> 'v \<Rightarrow> ('k, 'v) hashmap \<Rightarrow> ('k, 'v) hashmap" where
  "hm_insert k v m = AList.update k v m"

definition hm_remove :: "'k \<Rightarrow> ('k, 'v) hashmap \<Rightarrow> ('k, 'v) hashmap" where
  "hm_remove k m = AList.delete k m"

definition hm_keys :: "('k, 'v) hashmap \<Rightarrow> 'k list" where
  "hm_keys m = map fst m"

definition hm_values :: "('k, 'v) hashmap \<Rightarrow> 'v list" where
  "hm_values m = map snd m"

definition hm_wf :: "('k, 'v) hashmap \<Rightarrow> bool" where
  "hm_wf m \<longleftrightarrow> distinct (map fst m)"

text \<open>\<^verbatim>\<open>entry(k).or_insert(d)\<close>: the map with \<open>k\<close> bound, and the bound value.\<close>

definition hm_entry :: "'k \<Rightarrow> 'v \<Rightarrow> ('k, 'v) hashmap \<Rightarrow> 'v" where
  "hm_entry k d m = (case hm_get m k of Some v \<Rightarrow> v | None \<Rightarrow> d)"

text \<open>What the clients of a map rely on: lookups after every operation, and the view of
  the keys that counting and iterating give.\<close>

locale hash_map =
  fixes empty :: 'm
    and get :: "'m \<Rightarrow> 'k \<Rightarrow> 'v option"
    and insert :: "'k \<Rightarrow> 'v \<Rightarrow> 'm \<Rightarrow> 'm"
    and remove :: "'k \<Rightarrow> 'm \<Rightarrow> 'm"
    and keys :: "'m \<Rightarrow> 'k list"
    and wf :: "'m \<Rightarrow> bool"
  assumes get_empty: "get empty k = None"
    and get_insert: "get (insert k v m) k' = (if k' = k then Some v else get m k')"
    and get_remove: "get (remove k m) k' = (if k' = k then None else get m k')"
    and keys_get: "set (keys m) = {k. get m k \<noteq> None}"
    and wf_empty: "wf empty"
    and wf_insert: "wf m \<Longrightarrow> wf (insert k v m)"
    and wf_remove: "wf m \<Longrightarrow> wf (remove k m)"
    and wf_keys: "wf m \<Longrightarrow> distinct (keys m)"
begin

lemma keys_iff: "k \<in> set (keys m) \<longleftrightarrow> get m k \<noteq> None"
  by (simp add: keys_get)

lemma get_insert_same: "get (insert k v m) k = Some v"
  by (simp add: get_insert)

lemma get_insert_other: "k' \<noteq> k \<Longrightarrow> get (insert k v m) k' = get m k'"
  by (simp add: get_insert)

lemma get_remove_insert: "get m k = None \<Longrightarrow> get (remove k (insert k v m)) = get m"
  by (auto simp: get_insert get_remove)

lemma keys_insert: "set (keys (insert k v m)) = Set.insert k (set (keys m))"
  by (auto simp: keys_get get_insert)

lemma keys_remove: "set (keys (remove k m)) = set (keys m) - {k}"
  by (auto simp: keys_get get_remove)

lemma length_keys_insert:
  "wf m \<Longrightarrow> length (keys (insert k v m)) = (if get m k = None then Suc (length (keys m)) else length (keys m))"
proof -
  assume "wf m"
  then have "distinct (keys m)" "distinct (keys (insert k v m))"
    by (auto intro: wf_keys wf_insert)
  then have "length (keys m) = card (set (keys m))"
    and "length (keys (insert k v m)) = card (Set.insert k (set (keys m)))"
    by (metis distinct_card, metis distinct_card keys_insert)
  then show ?thesis by (simp add: card_insert_if keys_iff)
qed

lemma length_keys_remove:
  "wf m \<Longrightarrow> length (keys (remove k m)) = (if get m k = None then length (keys m) else length (keys m) - 1)"
proof -
  assume "wf m"
  then have "distinct (keys m)" "distinct (keys (remove k m))"
    by (auto intro: wf_keys wf_remove)
  then have "length (keys m) = card (set (keys m))"
    and "length (keys (remove k m)) = card (set (keys m) - {k})"
    by (metis distinct_card, metis distinct_card keys_remove)
  then show ?thesis by (simp add: card_Diff_singleton_if keys_iff)
qed

end

interpretation hm: hash_map hm_empty hm_get hm_insert hm_remove hm_keys hm_wf
proof unfold_locales
  fix k k' :: 'a and v :: 'b and m :: "('a, 'b) hashmap"
  show "hm_get hm_empty k = None"
    by (simp add: hm_get_def hm_empty_def)
  show "hm_get (hm_insert k v m) k' = (if k' = k then Some v else hm_get m k')"
    by (simp add: hm_get_def hm_insert_def update_conv)
  show "hm_get (hm_remove k m) k' = (if k' = k then None else hm_get m k')"
    by (simp add: hm_get_def hm_remove_def delete_conv)
  show "set (hm_keys m) = {k. hm_get m k \<noteq> None}"
    by (simp add: hm_keys_def hm_get_def dom_map_of_conv_image_fst [symmetric] dom_def)
  show "hm_wf (hm_empty :: ('a, 'b) hashmap)"
    by (simp add: hm_wf_def hm_empty_def)
  show "hm_wf m \<Longrightarrow> hm_wf (hm_insert k v m)"
    by (simp add: hm_wf_def hm_insert_def distinct_update)
  show "hm_wf m \<Longrightarrow> hm_wf (hm_remove k m)"
    by (simp add: hm_wf_def hm_remove_def distinct_delete)
  show "hm_wf m \<Longrightarrow> distinct (hm_keys m)"
    by (simp add: hm_wf_def hm_keys_def)
qed

lemmas hm_simps [simp] = hm.get_empty hm.get_insert hm.get_remove
lemmas hm_wf_intros [intro, simp] = hm.wf_empty hm.wf_insert hm.wf_remove

lemma hm_length_keys: "length (hm_keys m) = length m"
  by (simp add: hm_keys_def)

lemma set_hm_values: "hm_wf m \<Longrightarrow> v \<in> set (hm_values m) \<longleftrightarrow> (\<exists>k. hm_get m k = Some v)"
  by (force simp: hm_values_def hm_get_def hm_wf_def dest: map_of_SomeD)

text \<open>Filling a map from a list of elements, some of which give an entry.\<close>

definition hm_collect :: "('x \<Rightarrow> ('k \<times> 'v) option) \<Rightarrow> 'x list \<Rightarrow> ('k, 'v) hashmap" where
  "hm_collect f xs = foldl (\<lambda>m x. case f x of Some (k, v) \<Rightarrow> hm_insert k v m | None \<Rightarrow> m) hm_empty xs"

lemma hm_collect_snoc:
  "hm_collect f (xs @ [x]) = (case f x of Some (k, v) \<Rightarrow> hm_insert k v (hm_collect f xs) | None \<Rightarrow> hm_collect f xs)"
  unfolding hm_collect_def by simp

lemma hm_collect_wf: "hm_wf (hm_collect f xs)"
  by (induction xs rule: rev_induct) (auto simp: hm_collect_snoc hm_collect_def split: option.splits)

lemma hm_collect_get:
  assumes "\<And>x y k v v'. x \<in> set xs \<Longrightarrow> y \<in> set xs \<Longrightarrow> f x = Some (k, v) \<Longrightarrow> f y = Some (k, v') \<Longrightarrow> v = v'"
  shows "hm_get (hm_collect f xs) k = Some v \<longleftrightarrow> (\<exists>x \<in> set xs. f x = Some (k, v))"
  using assms
proof (induction xs rule: rev_induct)
  case Nil
  then show ?case by (simp add: hm_collect_def)
next
  case (snoc x xs)
  have IH: "hm_get (hm_collect f xs) k = Some v \<longleftrightarrow> (\<exists>x \<in> set xs. f x = Some (k, v))"
    by (rule snoc.IH) (use snoc.prems in \<open>simp, blast\<close>)
  show ?case
  proof (cases "f x")
    case None
    then show ?thesis using IH by (simp add: hm_collect_snoc)
  next
    case (Some kv)
    obtain k1 v1 where kv: "kv = (k1, v1)" by force
    have "v = v1" if "y \<in> set xs" "f y = Some (k1, v)" for y
      using snoc.prems [of y x k1 v v1] that Some kv by simp
    then show ?thesis using IH Some kv by (auto simp: hm_collect_snoc)
  qed
qed

section \<open>Fallible results\<close>

text \<open>A result is a sum with the error on the left; \<open>rbind\<close> is the \<^verbatim>\<open>?\<close> operator, \<open>map_err\<close> the
  method of that name.\<close>

fun rbind :: "'e + 'a \<Rightarrow> ('a \<Rightarrow> 'e + 'b) \<Rightarrow> 'e + 'b" where
  "rbind (Inl e) f = Inl e"
| "rbind (Inr x) f = f x"

fun map_err :: "('e \<Rightarrow> 'f) \<Rightarrow> 'e + 'a \<Rightarrow> 'f + 'a" where
  "map_err f (Inl e) = Inl (f e)"
| "map_err f (Inr x) = Inr x"

fun ok_or :: "'e \<Rightarrow> 'a option \<Rightarrow> 'e + 'a" where
  "ok_or e None = Inl e"
| "ok_or e (Some x) = Inr x"

lemma rbind_Inr: "rbind r f = Inr y \<longleftrightarrow> (\<exists>x. r = Inr x \<and> f x = Inr y)"
  by (cases r) simp_all

end
