(* ===== verification/Core_Types.thy ===== *)
theory Core_Types
  imports Prelude
begin

text \<open>
  The vocabulary the components share: identities (\<^verbatim>\<open>node.rs\<close>), error values
  (\<^verbatim>\<open>errors.rs\<close>, the error of \<^verbatim>\<open>actor.rs\<close>), send modes, dispositions and outcomes of
  interceptors (\<^verbatim>\<open>interceptor.rs\<close>), message priorities (\<^verbatim>\<open>message.rs\<close>) and the wire
  envelope (\<^verbatim>\<open>remote.rs\<close>).
\<close>

section \<open>Identities\<close>

datatype node_id = NodeId (node_name: string)

datatype actor_id = ActorId (aid_node: node_id) (aid_local: u64)

definition node_id_display :: "node_id \<Rightarrow> string" where
  "node_id_display n = ''Node('' @ node_name n @ '')''"

definition actor_id_display :: "actor_id \<Rightarrow> string" where
  "actor_id_display a =
     ''Actor('' @ node_name (aid_node a) @ ''/'' @ show_nat (unat (aid_local a)) @ '')''"

section \<open>Errors\<close>

datatype error_code =
    Internal | InvalidArgument | NotFound | Unavailable | Timeout | PermissionDenied
  | FailedPrecondition | ResourceExhausted | Unimplemented | Unknown | Cancelled

datatype actor_error = ActorError
  (ae_code: error_code) (ae_message: string) (ae_details: "string option")
  (ae_cause: "actor_error option")

definition actor_error_new :: "error_code \<Rightarrow> string \<Rightarrow> actor_error" where
  "actor_error_new c m = ActorError c m None None"

definition actor_error_internal :: "string \<Rightarrow> actor_error" where
  "actor_error_internal m = actor_error_new Internal m"

definition actor_error_with_details :: "actor_error \<Rightarrow> string \<Rightarrow> actor_error" where
  "actor_error_with_details e d = ActorError (ae_code e) (ae_message e) (Some d) (ae_cause e)"

definition actor_error_with_cause :: "actor_error \<Rightarrow> actor_error \<Rightarrow> actor_error" where
  "actor_error_with_cause e c = ActorError (ae_code e) (ae_message e) (ae_details e) (Some c)"

datatype actor_send_error = ActorSendError (send_error_text: string)

definition actor_send_error_display :: "actor_send_error \<Rightarrow> string" where
  "actor_send_error_display e = ''actor send failed: '' @ send_error_text e"

datatype error_action = Resume | Restart | Stop | Escalate

datatype not_supported_error = NotSupportedError (ns_capability: string) (ns_message: string)

datatype runtime_error =
    RE_Send actor_send_error
  | RE_ActorNotFound string
  | RE_Timeout
  | RE_Rejected string string
  | RE_RetryAfter string duration
  | RE_Actor actor_error
  | RE_Cancelled
  | RE_NotSupported not_supported_error
  | RE_SpawnFailed string

section \<open>Interceptor vocabulary\<close>

datatype send_mode = Tell | Ask | Expand | Reduce | Transform

datatype disposition = Continue | Delay duration | Drop | Reject string | Retry duration

datatype 'r outcome =
    TellSuccess
  | AskSuccess 'r
  | HandlerError actor_error
  | StreamCompleted u64
  | StreamCancelled u64

fun is_handler_error :: "'r outcome \<Rightarrow> bool" where
  "is_handler_error (HandlerError _) = True"
| "is_handler_error _ = False"

section \<open>Priorities\<close>

datatype priority = Priority (priority_value: u8)

definition CRITICAL :: priority where "CRITICAL = Priority 0"
definition HIGH :: priority where "HIGH = Priority 64"
definition NORMAL :: priority where "NORMAL = Priority 128"
definition LOW :: priority where "LOW = Priority 192"
definition BACKGROUND :: priority where "BACKGROUND = Priority 255"

definition priority_header_name :: string where
  "priority_header_name = ''dactor.Priority''"

definition priority_to_bytes :: "priority \<Rightarrow> bytes option" where
  "priority_to_bytes p = Some [priority_value p]"

section \<open>Wire envelopes\<close>

type_synonym uuid = "128 word"
type_synonym wire_headers = "(string, bytes) hashmap"

definition wh_new :: wire_headers where
  "wh_new = hm_empty"

definition wh_insert :: "wire_headers \<Rightarrow> string \<Rightarrow> bytes \<Rightarrow> wire_headers" where
  "wh_insert h n v = hm_insert n v h"

definition wh_get :: "wire_headers \<Rightarrow> string \<Rightarrow> bytes option" where
  "wh_get h n = hm_get h n"

definition wh_is_empty :: "wire_headers \<Rightarrow> bool" where
  "wh_is_empty h \<longleftrightarrow> h = []"

definition wh_len :: "wire_headers \<Rightarrow> nat" where
  "wh_len h = length h"

record wire_envelope =
  we_target :: actor_id
  we_target_name :: string
  we_message_type :: string
  we_send_mode :: send_mode
  we_headers :: wire_headers
  we_body :: bytes
  we_request_id :: "uuid option"
  we_version :: "u32 option"

end
