(* ===== verification/Time_Window.thy ===== *)
theory Time_Window
  imports Prelude
begin

text \<open>
  Sliding windows over the times of past events. Two components evict old times from a list before
  they count it: the circuit breaker pops from the front, the restart tracker filters the
  whole list. Both meet one contract, stated as a locale.
\<close>

definition in_window :: "duration \<Rightarrow> instant \<Rightarrow> instant \<Rightarrow> bool" where
  "in_window w now t \<longleftrightarrow> duration_since now t \<le> w"

text \<open>The contract: on a list of times in the order they were recorded, eviction keeps exactly
  the times inside the window.\<close>

locale sliding_window =
  fixes evict :: "duration \<Rightarrow> instant \<Rightarrow> instant list \<Rightarrow> instant list"
  assumes evict_filter: "sorted ts \<Longrightarrow> evict w now ts = filter (in_window w now) ts"
begin

lemma evict_sorted: "sorted ts \<Longrightarrow> sorted (evict w now ts)"
  by (simp add: evict_filter sorted_wrt_filter)

lemma evict_subset: "sorted ts \<Longrightarrow> set (evict w now ts) \<subseteq> set ts"
  by (auto simp: evict_filter)

lemma evict_length: "sorted ts \<Longrightarrow> length (evict w now ts) \<le> length ts"
  by (simp add: evict_filter)

lemma evict_evict:
  assumes "sorted ts" and "now \<le> now'"
  shows "evict w now' (evict w now ts) = evict w now' ts"
proof -
  have "evict w now' (evict w now ts) =
      filter (\<lambda>t. in_window w now t \<and> in_window w now' t) ts"
    using assms(1) by (simp add: evict_filter sorted_wrt_filter)
  also have "\<dots> = filter (in_window w now') ts"
    using assms(2) by (intro filter_cong) (auto simp: in_window_def duration_since_def)
  finally show ?thesis using assms(1) by (simp add: evict_filter)
qed

lemma evict_snoc_now:
  assumes "sorted ts" and "\<forall>t \<in> set ts. t \<le> now"
  shows "evict w now (ts @ [now]) = evict w now ts @ [now]"
proof -
  have "sorted (ts @ [now])" using assms by (simp add: sorted_append)
  then show ?thesis using assms
    by (simp add: evict_filter in_window_def duration_since_def)
qed

end

end
