(* ===== verification/Circuit_Breaker.thy ===== *)
theory Circuit_Breaker
  imports Core_Types Time_Window
begin

text \<open>
  The circuit breaker of \<^verbatim>\<open>dactor/src/circuit_breaker.rs\<close>. The interceptor keeps one
  \<^verbatim>\<open>CircuitBreakerState\<close> per actor behind a mutex; \<^verbatim>\<open>on_receive\<close> and
  \<^verbatim>\<open>on_complete\<close> lock it, read the clock and run to the end, so each is one atomic
  step of the model that takes the time read as an argument.
\<close>

section \<open>State\<close>

datatype circuit_state = Closed | Open | HalfOpen

record cb_state =
  cb_status :: circuit_state
  cb_error_timestamps :: "instant list"
  cb_opened_at :: "instant option"
  cb_probe_in_flight :: bool

definition cb_state_new :: cb_state where
  "cb_state_new = \<lparr>cb_status = Closed, cb_error_timestamps = [], cb_opened_at = None,
     cb_probe_in_flight = False\<rparr>"

text \<open>\<^verbatim>\<open>prune_errors\<close>: pops the front of the queue while it is outside the window.\<close>

fun prune_queue :: "duration \<Rightarrow> instant \<Rightarrow> instant list \<Rightarrow> instant list" where
  "prune_queue window now [] = []"
| "prune_queue window now (front # rest) =
     (if duration_since now front > window then prune_queue window now rest else front # rest)"

definition prune_errors :: "cb_state \<Rightarrow> duration \<Rightarrow> instant \<Rightarrow> cb_state" where
  "prune_errors s window now =
     s\<lparr>cb_error_timestamps := prune_queue window now (cb_error_timestamps s)\<rparr>"

record circuit_breaker =
  error_threshold :: u32
  error_window :: duration
  cooldown :: duration
  cb_states :: "actor_id \<rightharpoonup> cb_state"

definition cb_new :: "u32 \<Rightarrow> duration \<Rightarrow> duration \<Rightarrow> circuit_breaker" where
  "cb_new threshold window cool =
     \<lparr>error_threshold = threshold, error_window = window, cooldown = cool, cb_states = Map.empty\<rparr>"

definition state_for :: "circuit_breaker \<Rightarrow> actor_id \<Rightarrow> circuit_state" where
  "state_for cb a = (case cb_states cb a of None \<Rightarrow> Closed | Some s \<Rightarrow> cb_status s)"

definition cb_entry :: "circuit_breaker \<Rightarrow> actor_id \<Rightarrow> cb_state" where
  "cb_entry cb a = (case cb_states cb a of None \<Rightarrow> cb_state_new | Some s \<Rightarrow> s)"

section \<open>The two handlers\<close>

definition cb_reject :: "string \<Rightarrow> disposition" where
  "cb_reject actor_name = Reject (''circuit breaker open: '' @ actor_name)"

definition cb_receive_entry ::
  "duration \<Rightarrow> instant \<Rightarrow> string \<Rightarrow> cb_state \<Rightarrow> disposition \<times> cb_state" where
  "cb_receive_entry cool now actor_name s =
     (case cb_status s of
        Closed \<Rightarrow> (Continue, s)
      | Open \<Rightarrow>
          (case cb_opened_at s of
             Some opened_at \<Rightarrow>
               (if duration_since now opened_at \<ge> cool
                then (Continue, s\<lparr>cb_status := HalfOpen, cb_probe_in_flight := True\<rparr>)
                else (cb_reject actor_name, s))
           | None \<Rightarrow> (cb_reject actor_name, s))
      | HalfOpen \<Rightarrow>
          (if cb_probe_in_flight s then (cb_reject actor_name, s)
           else (Continue, s\<lparr>cb_probe_in_flight := True\<rparr>)))"

definition cb_on_receive ::
  "circuit_breaker \<Rightarrow> instant \<Rightarrow> actor_id \<Rightarrow> string \<Rightarrow> disposition \<times> circuit_breaker" where
  "cb_on_receive cb now a actor_name =
     (let (d, s) = cb_receive_entry (cooldown cb) now actor_name (cb_entry cb a)
      in (d, cb\<lparr>cb_states := (cb_states cb)(a \<mapsto> s)\<rparr>))"

definition cb_record_error :: "duration \<Rightarrow> instant \<Rightarrow> cb_state \<Rightarrow> cb_state" where
  "cb_record_error window now s =
     prune_errors (s\<lparr>cb_error_timestamps := cb_error_timestamps s @ [now]\<rparr>) window now"

text \<open>The length of the queue is cast to 32 bits before it is compared with the threshold.\<close>

definition cb_complete_entry ::
  "u32 \<Rightarrow> duration \<Rightarrow> instant \<Rightarrow> bool \<Rightarrow> cb_state \<Rightarrow> cb_state" where
  "cb_complete_entry threshold window now is_error s =
     (case cb_status s of
        Closed \<Rightarrow>
          (if is_error
           then (let s1 = cb_record_error window now s in
                 if (of_nat (length (cb_error_timestamps s1)) :: u32) \<ge> threshold
                 then s1\<lparr>cb_status := Open, cb_opened_at := Some now\<rparr>
                 else s1)
           else s)
      | HalfOpen \<Rightarrow>
          (let s1 = s\<lparr>cb_probe_in_flight := False\<rparr> in
           if is_error
           then cb_record_error window now (s1\<lparr>cb_status := Open, cb_opened_at := Some now\<rparr>)
           else s1\<lparr>cb_status := Closed, cb_error_timestamps := [], cb_opened_at := None\<rparr>)
      | Open \<Rightarrow> (if is_error then cb_record_error window now s else s))"

definition cb_on_complete ::
  "circuit_breaker \<Rightarrow> instant \<Rightarrow> actor_id \<Rightarrow> 'r outcome \<Rightarrow> circuit_breaker" where
  "cb_on_complete cb now a outcome =
     cb\<lparr>cb_states := (cb_states cb)(a \<mapsto>
       cb_complete_entry (error_threshold cb) (error_window cb) now
         (is_handler_error outcome) (cb_entry cb a))\<rparr>"

section \<open>Runs\<close>

text \<open>A history of the interceptor: handler calls in the order the mutex serialised them.\<close>

datatype 'r cb_event =
    CbReceive (ev_time: instant) (ev_actor: actor_id) (ev_name: string)
  | CbComplete (ev_time: instant) (ev_actor: actor_id) (ev_outcome: "'r outcome")

fun cb_step :: "circuit_breaker \<Rightarrow> 'r cb_event \<Rightarrow> disposition option \<times> circuit_breaker" where
  "cb_step cb (CbReceive t a n) = (let (d, cb') = cb_on_receive cb t a n in (Some d, cb'))"
| "cb_step cb (CbComplete t a out) = (None, cb_on_complete cb t a out)"

fun cb_run ::
  "circuit_breaker \<Rightarrow> 'r cb_event list \<Rightarrow> (actor_id \<times> disposition option) list \<times> circuit_breaker" where
  "cb_run cb [] = ([], cb)"
| "cb_run cb (e # es) =
     (let (d, cb1) = cb_step cb e; (ds, cb2) = cb_run cb1 es
      in ((ev_actor e, d) # ds, cb2))"

definition times_from :: "instant \<Rightarrow> 'r cb_event list \<Rightarrow> bool" where
  "times_from now es \<longleftrightarrow> sorted (now # map ev_time es)"

section \<open>The specification: all errors since the circuit was last closed\<close>

text \<open>
  The specification never forgets an error before the circuit closes again, counts those inside
  the window at the moment of each completion, and has no probe flag: half-open means that the probe is out.
\<close>

record cb_spec =
  sp_status :: circuit_state
  sp_errors :: "instant list"
  sp_opened_at :: instant

definition cb_spec_init :: cb_spec where
  "cb_spec_init = \<lparr>sp_status = Closed, sp_errors = [], sp_opened_at = 0\<rparr>"

definition cb_spec_receive ::
  "duration \<Rightarrow> instant \<Rightarrow> string \<Rightarrow> cb_spec \<Rightarrow> disposition \<times> cb_spec" where
  "cb_spec_receive cool now name s =
     (if sp_status s = Closed then (Continue, s)
      else if sp_status s = Open \<and> sp_opened_at s + cool \<le> now
        then (Continue, s\<lparr>sp_status := HalfOpen\<rparr>)
      else (cb_reject name, s))"

definition recent_errors :: "duration \<Rightarrow> instant \<Rightarrow> instant list \<Rightarrow> nat" where
  "recent_errors w now ts = length (filter (\<lambda>t. now \<le> t + w) ts)"

definition cb_spec_complete :: "nat \<Rightarrow> duration \<Rightarrow> instant \<Rightarrow> bool \<Rightarrow> cb_spec \<Rightarrow> cb_spec" where
  "cb_spec_complete threshold w now failed s =
     (let errs = sp_errors s @ [now] in
      if failed
      then (if sp_status s = HalfOpen \<or> sp_status s = Closed \<and> threshold \<le> recent_errors w now errs
            then s\<lparr>sp_status := Open, sp_errors := errs, sp_opened_at := now\<rparr>
            else s\<lparr>sp_errors := errs\<rparr>)
      else (if sp_status s = HalfOpen then cb_spec_init else s))"

fun cb_spec_run ::
  "nat \<Rightarrow> duration \<Rightarrow> duration \<Rightarrow> cb_spec \<Rightarrow> 'r cb_event list \<Rightarrow> disposition option list" where
  "cb_spec_run th w c s [] = []"
| "cb_spec_run th w c s (CbReceive t a n # es) =
     (let (d, s') = cb_spec_receive c t n s in Some d # cb_spec_run th w c s' es)"
| "cb_spec_run th w c s (CbComplete t a out # es) =
     None # cb_spec_run th w c (cb_spec_complete th w t (is_handler_error out) s) es"

section \<open>Invariant\<close>

text \<open>The fields of an entry agree with its state, and a closed circuit has fewer
  recorded errors than the threshold (none at all for a threshold of zero).\<close>

definition cb_entry_ok :: "u32 \<Rightarrow> instant \<Rightarrow> cb_state \<Rightarrow> bool" where
  "cb_entry_ok threshold now s \<longleftrightarrow>
     sorted (cb_error_timestamps s) \<and> (\<forall>t \<in> set (cb_error_timestamps s). t \<le> now) \<and>
     (cb_probe_in_flight s \<longleftrightarrow> cb_status s = HalfOpen) \<and>
     (cb_opened_at s = None \<longleftrightarrow> cb_status s = Closed) \<and>
     (\<forall>t. cb_opened_at s = Some t \<longrightarrow> t \<le> now) \<and>
     (cb_status s = Closed \<longrightarrow> length (cb_error_timestamps s) < max 1 (unat threshold))"

definition cb_ok :: "circuit_breaker \<Rightarrow> instant \<Rightarrow> bool" where
  "cb_ok cb now \<longleftrightarrow> (\<forall>a s. cb_states cb a = Some s \<longrightarrow> cb_entry_ok (error_threshold cb) now s)"

text \<open>Popping from the front of a queue in time order meets the window contract.\<close>

interpretation cbw: sliding_window prune_queue
proof
  fix ts :: "instant list" and w :: duration and now :: instant
  show "sorted ts \<Longrightarrow> prune_queue w now ts = filter (in_window w now) ts"
  proof (induction ts)
    case (Cons t ts)
    show ?case
    proof (cases "in_window w now t")
      case True
      then have "\<forall>u \<in> set ts. in_window w now u"
        using Cons.prems by (auto simp: in_window_def duration_since_def)
      with True show ?thesis by (simp add: in_window_def)
    next
      case False
      then show ?thesis using Cons by (simp add: in_window_def)
    qed
  qed simp
qed

lemma cb_entry_ok_new: "cb_entry_ok th now cb_state_new"
  by (simp add: cb_entry_ok_def cb_state_new_def)

lemma cb_entry_ok_later: "cb_entry_ok th now s \<Longrightarrow> now \<le> now' \<Longrightarrow> cb_entry_ok th now' s"
  by (auto simp: cb_entry_ok_def)

lemma cb_receive_entry_ok:
  "cb_entry_ok th now s \<Longrightarrow> cb_entry_ok th now (snd (cb_receive_entry c now n s))"
  by (auto simp: cb_entry_ok_def cb_receive_entry_def split: circuit_state.splits option.splits)

lemma cb_record_error_timestamps:
  assumes "cb_entry_ok th now s"
  shows "cb_error_timestamps (cb_record_error w now s) =
    filter (in_window w now) (cb_error_timestamps s) @ [now]"
  using assms cbw.evict_snoc_now [of "cb_error_timestamps s" now w]
  by (simp add: cb_record_error_def prune_errors_def cb_entry_ok_def cbw.evict_filter)

lemma cb_record_error_simps [simp]:
  "cb_status (cb_record_error w now s) = cb_status s"
  "cb_opened_at (cb_record_error w now s) = cb_opened_at s"
  "cb_probe_in_flight (cb_record_error w now s) = cb_probe_in_flight s"
  by (simp_all add: cb_record_error_def prune_errors_def)

lemma cb_record_error_update [simp]:
  "cb_error_timestamps (cb_record_error w now (s\<lparr>cb_status := x, cb_opened_at := y, cb_probe_in_flight := z\<rparr>))
     = cb_error_timestamps (cb_record_error w now s)"
  "cb_error_timestamps (cb_record_error w now (s\<lparr>cb_probe_in_flight := z, cb_status := x, cb_opened_at := y\<rparr>))
     = cb_error_timestamps (cb_record_error w now s)"
  by (simp_all add: cb_record_error_def prune_errors_def)

text \<open>The 32-bit cast of the length is exact while the circuit is closed.\<close>

lemma cb_length_cast:
  assumes "cb_entry_ok th now s" and "cb_status s = Closed"
  shows "unat (of_nat (length (cb_error_timestamps (cb_record_error w now s))) :: u32) =
    length (cb_error_timestamps (cb_record_error w now s))"
proof -
  let ?n = "length (cb_error_timestamps (cb_record_error w now s))"
  have "length (filter (in_window w now) (cb_error_timestamps s)) \<le> length (cb_error_timestamps s)"
    by simp
  then have "?n \<le> Suc (length (cb_error_timestamps s))"
    using cb_record_error_timestamps [OF assms(1)] by simp
  also have "\<dots> \<le> max 1 (unat th)" using assms by (auto simp: cb_entry_ok_def)
  also have "\<dots> < 2 ^ 32" using unsigned_less [of th, where ?'a = nat] by simp
  finally show ?thesis by (simp add: unat_of_nat)
qed

lemma cb_complete_entry_ok:
  assumes ok: "cb_entry_ok th now s"
  shows "cb_entry_ok th now (cb_complete_entry th w now failed s)"
proof (cases failed)
  case False
  then show ?thesis using ok
    by (auto simp: cb_entry_ok_def cb_complete_entry_def split: circuit_state.splits)
next
  case True
  have ts: "sorted (filter (in_window w now) (cb_error_timestamps s) @ [now])"
      "\<forall>t \<in> set (filter (in_window w now) (cb_error_timestamps s) @ [now]). t \<le> now"
    using ok by (auto simp: cb_entry_ok_def sorted_append sorted_wrt_filter)
  show ?thesis
  proof (cases "cb_status s")
    case Closed
    then show ?thesis
      using True ok ts cb_length_cast [OF ok Closed, of w] cb_record_error_timestamps [OF ok, of w]
      by (auto simp: cb_entry_ok_def cb_complete_entry_def Let_def word_le_nat_alt)
  next
    case Open
    then show ?thesis using True ok ts cb_record_error_timestamps [OF ok, of w]
      by (auto simp: cb_entry_ok_def cb_complete_entry_def)
  next
    case HalfOpen
    then show ?thesis using True ok ts cb_record_error_timestamps [OF ok, of w]
      by (auto simp: cb_entry_ok_def cb_complete_entry_def Let_def)
  qed
qed

section \<open>Isolation of actors\<close>

lemma cb_on_receive_params [simp]:
  "error_threshold (snd (cb_on_receive cb t a n)) = error_threshold cb"
  "error_window (snd (cb_on_receive cb t a n)) = error_window cb"
  "cooldown (snd (cb_on_receive cb t a n)) = cooldown cb"
  by (simp_all add: cb_on_receive_def split_beta)

lemma cb_on_complete_params [simp]:
  "error_threshold (cb_on_complete cb t a out) = error_threshold cb"
  "error_window (cb_on_complete cb t a out) = error_window cb"
  "cooldown (cb_on_complete cb t a out) = cooldown cb"
  by (simp_all add: cb_on_complete_def)

lemma cb_on_receive_entry:
  "fst (cb_on_receive cb t a n) = fst (cb_receive_entry (cooldown cb) t n (cb_entry cb a))"
  "cb_entry (snd (cb_on_receive cb t a n)) b =
     (if b = a then snd (cb_receive_entry (cooldown cb) t n (cb_entry cb a)) else cb_entry cb b)"
  by (simp_all add: cb_on_receive_def cb_entry_def split_beta)

lemma cb_on_complete_entry:
  "cb_entry (cb_on_complete cb t a out) b =
     (if b = a then cb_complete_entry (error_threshold cb) (error_window cb) t
        (is_handler_error out) (cb_entry cb a) else cb_entry cb b)"
  by (simp add: cb_on_complete_def cb_entry_def)

lemma cb_ok_entry: "cb_ok cb now \<Longrightarrow> cb_entry_ok (error_threshold cb) now (cb_entry cb a)"
  by (auto simp: cb_ok_def cb_entry_def cb_entry_ok_new split: option.splits)

section \<open>Refinement of the specification\<close>

text \<open>Two lists of times that no count from \<open>now\<close> on can tell apart.\<close>

definition same_window :: "duration \<Rightarrow> instant \<Rightarrow> instant list \<Rightarrow> instant list \<Rightarrow> bool" where
  "same_window w now ts us \<longleftrightarrow>
     (\<forall>now' \<ge> now. filter (in_window w now') ts = filter (in_window w now') us)"

definition cb_abs :: "u32 \<Rightarrow> duration \<Rightarrow> instant \<Rightarrow> cb_state \<Rightarrow> cb_spec \<Rightarrow> bool" where
  "cb_abs th w now s sp \<longleftrightarrow>
     cb_entry_ok th now s \<and> sp_status sp = cb_status s \<and>
     (\<forall>t. cb_opened_at s = Some t \<longrightarrow> sp_opened_at sp = t) \<and>
     sorted (sp_errors sp) \<and> (\<forall>t \<in> set (sp_errors sp). t \<le> now) \<and>
     same_window w now (cb_error_timestamps s) (sp_errors sp)"

lemma recent_errors_window: "recent_errors w now ts = length (filter (in_window w now) ts)"
proof -
  have "(\<lambda>t. now \<le> t + w) = in_window w now"
    by (auto simp: in_window_def duration_since_def fun_eq_iff)
  then show ?thesis by (simp add: recent_errors_def)
qed

lemma same_window_refl [simp]: "same_window w now ts ts"
  by (simp add: same_window_def)

lemma same_window_later: "same_window w now ts us \<Longrightarrow> now \<le> now' \<Longrightarrow> same_window w now' ts us"
  by (simp add: same_window_def)

lemma cb_abs_init: "cb_abs th w now cb_state_new cb_spec_init"
  by (simp add: cb_abs_def cb_entry_ok_new) (simp add: cb_spec_init_def cb_state_new_def)

lemma cb_abs_later: "cb_abs th w now s sp \<Longrightarrow> now \<le> now' \<Longrightarrow> cb_abs th w now' s sp"
  unfolding cb_abs_def using cb_entry_ok_later same_window_later by (meson order_trans)

lemma cb_abs_receive:
  assumes "cb_abs th w now s sp"
  shows "fst (cb_receive_entry c now n s) = fst (cb_spec_receive c now n sp)"
    and "cb_abs th w now (snd (cb_receive_entry c now n s)) (snd (cb_spec_receive c now n sp))"
proof -
  have "fst (cb_receive_entry c now n s) = fst (cb_spec_receive c now n sp) \<and>
      cb_abs th w now (snd (cb_receive_entry c now n s)) (snd (cb_spec_receive c now n sp))"
  proof (cases "cb_status s")
    case Open
    then obtain t where "cb_opened_at s = Some t" "t \<le> now" "sp_opened_at sp = t"
      using assms by (cases "cb_opened_at s") (auto simp: cb_abs_def cb_entry_ok_def)
    with Open assms show ?thesis
      by (auto simp: cb_abs_def cb_entry_ok_def cb_receive_entry_def cb_spec_receive_def
          duration_since_def)
  qed (use assms in \<open>auto simp: cb_abs_def cb_entry_ok_def cb_receive_entry_def cb_spec_receive_def\<close>)
  then show "fst (cb_receive_entry c now n s) = fst (cb_spec_receive c now n sp)"
    and "cb_abs th w now (snd (cb_receive_entry c now n s)) (snd (cb_spec_receive c now n sp))"
    by simp_all
qed

text \<open>Forgetting errors that have left the window does not change later counts.\<close>

lemma window_forget:
  assumes "now \<le> now'"
  shows "filter (in_window w now') (filter (in_window w now) ts) = filter (in_window w now') ts"
  using assms by (auto simp: in_window_def duration_since_def intro!: filter_cong)

lemma in_window_now [simp]: "in_window w now now"
  by (simp add: in_window_def duration_since_def)

lemma cb_abs_record:
  assumes "cb_abs th w now s sp"
  shows "same_window w now (cb_error_timestamps (cb_record_error w now s)) (sp_errors sp @ [now])"
  using assms
  by (auto simp: cb_abs_def same_window_def cb_record_error_timestamps window_forget
      simp del: filter_filter)

lemma cb_abs_recent:
  assumes "cb_abs th w now s sp"
  shows "recent_errors w now (sp_errors sp @ [now]) =
    length (cb_error_timestamps (cb_record_error w now s))"
proof -
  have "cb_entry_ok th now s" using assms by (simp add: cb_abs_def)
  note ts = cb_record_error_timestamps [OF this, of w]
  have "filter (in_window w now) (sp_errors sp @ [now]) =
      filter (in_window w now) (cb_error_timestamps (cb_record_error w now s))"
    using cb_abs_record [OF assms] by (simp add: same_window_def)
  also have "\<dots> = cb_error_timestamps (cb_record_error w now s)"
    using in_window_now [of w now] by (simp add: ts)
  finally show ?thesis by (simp add: recent_errors_window)
qed

lemma cb_abs_complete:
  assumes abs: "cb_abs th w now s sp"
  shows "cb_abs th w now (cb_complete_entry th w now failed s)
    (cb_spec_complete (unat th) w now failed sp)"
proof -
  have ok: "cb_entry_ok th now s" using abs by (simp add: cb_abs_def)
  note ok' = cb_complete_entry_ok [OF ok, of w failed]
  note rec = cb_abs_recent [OF abs]
  have errs: "sorted (sp_errors sp @ [now])" "\<forall>t \<in> set (sp_errors sp @ [now]). t \<le> now"
    using abs by (auto simp: cb_abs_def sorted_append)
  show ?thesis
  proof (cases "cb_status s")
    case Closed
    then show ?thesis
      using abs ok' errs rec cb_abs_record [OF abs] cb_length_cast [OF ok Closed, of w]
      by (auto simp: cb_abs_def cb_complete_entry_def cb_spec_complete_def Let_def word_le_nat_alt)
  next
    case Open
    then show ?thesis using abs ok' errs cb_abs_record [OF abs]
      by (auto simp: cb_abs_def cb_complete_entry_def cb_spec_complete_def Let_def)
  next
    case HalfOpen
    then show ?thesis using abs ok' errs cb_abs_record [OF abs]
      by (auto simp: cb_abs_def cb_complete_entry_def cb_spec_complete_def Let_def cb_spec_init_def)
  qed
qed

lemma times_from_Cons:
  "times_from now (e # es) \<longleftrightarrow> now \<le> ev_time e \<and> times_from (ev_time e) es"
  by (auto simp: times_from_def)

lemma cb_run_refines:
  assumes "cb_abs (error_threshold cb) (error_window cb) now (cb_entry cb a) sp"
    and "times_from now es"
  shows "map snd (filter (\<lambda>r. fst r = a) (fst (cb_run cb es))) =
    cb_spec_run (unat (error_threshold cb)) (error_window cb) (cooldown cb) sp
      (filter (\<lambda>e. ev_actor e = a) es)"
  using assms
proof (induction es arbitrary: cb now sp)
  case (Cons e es)
  from Cons.prems have abs:
      "cb_abs (error_threshold cb) (error_window cb) (ev_time e) (cb_entry cb a) sp"
    and tf: "times_from (ev_time e) es"
    by (auto simp: times_from_Cons intro: cb_abs_later)
  show ?case
  proof (cases e)
    case (CbReceive t b n)
    let ?cb = "snd (cb_on_receive cb t b n)"
    let ?sp = "if b = a then snd (cb_spec_receive (cooldown cb) t n sp) else sp"
    have "cb_abs (error_threshold ?cb) (error_window ?cb) t (cb_entry ?cb a) ?sp"
      using abs cb_abs_receive(2) CbReceive by (simp add: cb_on_receive_entry)
    note ih = Cons.IH [OF this]
    show ?thesis
    proof (cases "b = a")
      case True
      then show ?thesis
        using ih tf CbReceive cb_abs_receive(1) [OF abs, of "cooldown cb" n]
        by (simp add: split_beta cb_on_receive_entry)
    next
      case False
      then show ?thesis using ih tf CbReceive by (simp add: split_beta)
    qed
  next
    case (CbComplete t b out)
    let ?cb = "cb_on_complete cb t b out"
    let ?sp = "if b = a then cb_spec_complete (unat (error_threshold cb)) (error_window cb) t
        (is_handler_error out) sp else sp"
    have "cb_abs (error_threshold ?cb) (error_window ?cb) t (cb_entry ?cb a) ?sp"
      using abs cb_abs_complete CbComplete by (simp add: cb_on_complete_entry)
    from Cons.IH [OF this] tf CbComplete show ?thesis
      by (cases "b = a") (simp_all add: split_beta)
  qed
qed simp

lemma cb_new_abs: "cb_abs th w now (cb_entry (cb_new th w c) a) cb_spec_init"
  by (simp add: cb_entry_def cb_new_def cb_abs_init)

lemma cb_new_params [simp]:
  "error_threshold (cb_new th w c) = th" "error_window (cb_new th w c) = w" "cooldown (cb_new th w c) = c"
  by (simp_all add: cb_new_def)

section \<open>Reachable states\<close>

text \<open>The breaker looks only at whether the outcome is an error, so replies of type \<open>unit\<close> stand for all.\<close>

inductive cb_reachable :: "circuit_breaker \<Rightarrow> circuit_breaker \<Rightarrow> instant \<Rightarrow> bool" for cb0 where
  init: "cb_reachable cb0 cb0 0"
| receive: "cb_reachable cb0 cb t \<Longrightarrow> t \<le> now \<Longrightarrow> cb_reachable cb0 (snd (cb_on_receive cb now a n)) now"
| complete: "cb_reachable cb0 cb t \<Longrightarrow> t \<le> now \<Longrightarrow> cb_reachable cb0 (cb_on_complete cb now a (out :: unit outcome)) now"

lemma cb_ok_later: "cb_ok cb t \<Longrightarrow> t \<le> now \<Longrightarrow> cb_ok cb now"
  unfolding cb_ok_def using cb_entry_ok_later by blast

lemma cb_ok_receive: "cb_ok cb now \<Longrightarrow> cb_ok (snd (cb_on_receive cb now a n)) now"
  using cb_receive_entry_ok [OF cb_ok_entry]
  by (auto simp: cb_ok_def cb_on_receive_def split_beta)

lemma cb_ok_complete: "cb_ok cb now \<Longrightarrow> cb_ok (cb_on_complete cb now a out) now"
  using cb_complete_entry_ok [OF cb_ok_entry] by (auto simp: cb_ok_def cb_on_complete_def)

lemma cb_reachable_ok: "cb_reachable (cb_new th w c) cb now \<Longrightarrow> cb_ok cb now"
proof (induction rule: cb_reachable.induct)
  case init
  show ?case by (simp add: cb_ok_def cb_new_def)
qed (blast intro: cb_ok_later cb_ok_receive cb_ok_complete)+

lemma cb_entry_half_open_receive:
  "cb_entry_ok th t s \<Longrightarrow> cb_status s = HalfOpen \<Longrightarrow> cb_receive_entry c now n s = (cb_reject n, s)"
  by (simp add: cb_entry_ok_def cb_receive_entry_def)

section \<open>Properties\<close>

text \<open>C26. Whatever calls the interceptor has seen, for whatever actors, the state it keeps
  of each actor is consistent: the error queue is in time order and no error is later than the last
  call, a probe is in flight exactly in the half-open state, an opening time, not later than the last
  call either, is recorded exactly when the circuit is not closed, and a closed circuit holds fewer
  errors than the threshold.\<close>

theorem cb_invariant:
  assumes "cb_reachable (cb_new th w c) cb now" and "cb_states cb a = Some s"
  shows "sorted (cb_error_timestamps s) \<and> (\<forall>t \<in> set (cb_error_timestamps s). t \<le> now) \<and>
    (cb_probe_in_flight s \<longleftrightarrow> cb_status s = HalfOpen) \<and>
    (cb_opened_at s = None \<longleftrightarrow> cb_status s = Closed) \<and> (\<forall>t. cb_opened_at s = Some t \<longrightarrow> t \<le> now) \<and>
    (cb_status s = Closed \<longrightarrow> length (cb_error_timestamps s) < max 1 (unat (error_threshold cb)))"
  using cb_reachable_ok [OF assms(1)] assms(2) by (auto simp: cb_ok_def cb_entry_ok_def)

theorem cb_invariant_witness:
  "cb_reachable (cb_new 1 60 30)
     (cb_on_complete (cb_new 1 60 30) 5 (ActorId (NodeId ''n'') 1) (HandlerError (actor_error_internal ''e'') :: unit outcome)) 5 \<and>
   cb_opened_at (cb_entry
     (cb_on_complete (cb_new 1 60 30) 5 (ActorId (NodeId ''n'') 1) (HandlerError (actor_error_internal ''e'') :: unit outcome))
     (ActorId (NodeId ''n'') 1)) \<noteq> None"
proof -
  let ?a = "ActorId (NodeId ''n'') 1"
  let ?cb = "cb_on_complete (cb_new 1 60 30) 5 ?a (HandlerError (actor_error_internal ''e'') :: unit outcome)"
  have r: "cb_reachable (cb_new 1 60 30) ?cb 5"
    by (rule cb_reachable.complete [OF cb_reachable.init]) simp
  have s: "cb_states ?cb ?a = Some (cb_entry ?cb ?a)"
    by (simp add: cb_on_complete_def cb_entry_def)
  have "cb_status (cb_entry ?cb ?a) = Open"
    by (simp add: cb_on_complete_def cb_complete_entry_def cb_entry_def cb_new_def cb_state_new_def
        cb_record_error_def prune_errors_def Let_def duration_since_def)
  then show ?thesis using r cb_invariant [OF r s] by simp
qed

text \<open>C5. The breaker implements its specification, actor by actor: in any history whose clock
  does not run backwards, the decisions for an actor are those of the specification run on the
  calls for that actor alone. The specification keeps every error since the circuit was
  last closed and opens when at least \<open>threshold\<close> of them lie within the window at the moment of a failure;
  so pruning from the front, the 32-bit length comparison and the probe flag lose nothing,
  and one actor's failures never affect another.\<close>

theorem cb_refines_spec:
  assumes "times_from now es"
  shows "map snd (filter (\<lambda>r. fst r = a) (fst (cb_run (cb_new th w c) es))) =
    cb_spec_run (unat th) w c cb_spec_init (filter (\<lambda>e. ev_actor e = a) es)"
  using cb_run_refines [OF _ assms, of "cb_new th w c" a cb_spec_init] cb_new_abs [of th w now c a]
  by simp

theorem cb_refines_spec_witness:
  "let a = ActorId (NodeId ''n'') 1; f = HandlerError (actor_error_internal ''e'') :: unit outcome;
       es = [CbComplete 1 a f, CbComplete 2 a f, CbReceive 3 a ''x'', CbReceive 40 a ''x'']
   in times_from 0 es \<and>
      map snd (filter (\<lambda>r. fst r = a) (fst (cb_run (cb_new 2 60 30) es))) =
        [None, None, Some (Reject ''circuit breaker open: x''), Some Continue]"
proof -
  let ?a = "ActorId (NodeId ''n'') 1"
  let ?f = "HandlerError (actor_error_internal ''e'') :: unit outcome"
  let ?es = "[CbComplete 1 ?a ?f, CbComplete 2 ?a ?f, CbReceive 3 ?a ''x'', CbReceive 40 ?a ''x'']"
  have t: "times_from 0 ?es" by (simp add: times_from_def)
  have "cb_spec_run (unat (2::u32)) 60 30 cb_spec_init (filter (\<lambda>e. ev_actor e = ?a) ?es) =
      [None, None, Some (Reject ''circuit breaker open: x''), Some Continue]"
    by (simp add: cb_spec_init_def cb_spec_complete_def cb_spec_receive_def recent_errors_def
        Let_def cb_reject_def)
  then show ?thesis using t cb_refines_spec [OF t, of ?a 2 60 30] by (simp add: Let_def)
qed

text \<open>Half-open lets one message through: from the moment the probe is out until some
  handler completes, every further message for the actor is rejected, however many arrive and however long it
  takes. The breaker has no time-out of its own for the probe.\<close>

theorem cb_single_probe:
  assumes "cb_reachable (cb_new th w c) cb now" and "state_for cb a = HalfOpen"
    and "\<forall>e \<in> set es. \<exists>t n. e = CbReceive t a n"
  shows "snd (cb_run cb es) = cb \<and>
    (\<forall>r \<in> set (fst (cb_run cb es)). \<exists>reason. snd r = Some (Reject reason))"
  using assms(3)
proof (induction es)
  case (Cons e es)
  obtain s where s: "cb_states cb a = Some s" "cb_status s = HalfOpen"
    using assms(2) by (auto simp: state_for_def split: option.splits)
  from Cons.prems obtain t n where e: "e = CbReceive t a n" by auto
  have "cb_receive_entry (cooldown cb) t n s = (cb_reject n, s)"
    using cb_reachable_ok [OF assms(1)] s unfolding cb_ok_def
    by (blast intro: cb_entry_half_open_receive)
  then have "cb_on_receive cb t a n = (cb_reject n, cb)"
    using s by (simp add: cb_on_receive_def cb_entry_def map_upd_triv)
  moreover obtain reason where "cb_reject n = Reject reason" by (simp add: cb_reject_def)
  ultimately show ?case using Cons e by (simp add: split_beta)
qed simp

theorem cb_single_probe_witness:
  "let a = ActorId (NodeId ''n'') 1; f = HandlerError (actor_error_internal ''e'') :: unit outcome;
       cb = snd (cb_on_receive (cb_on_complete (cb_new 1 60 30) 5 a f) 35 a ''x'')
   in cb_reachable (cb_new 1 60 30) cb 35 \<and> state_for cb a = HalfOpen \<and>
      snd (cb_run cb [CbReceive 99 a ''y'' :: unit cb_event]) = cb"
proof -
  let ?a = "ActorId (NodeId ''n'') 1"
  let ?f = "HandlerError (actor_error_internal ''e'') :: unit outcome"
  let ?cb1 = "cb_on_complete (cb_new 1 60 30) 5 ?a ?f"
  let ?cb = "snd (cb_on_receive ?cb1 35 ?a ''x'')"
  have r: "cb_reachable (cb_new 1 60 30) ?cb 35"
    by (rule cb_reachable.receive [OF cb_reachable.complete [OF cb_reachable.init]]) simp_all
  have h: "state_for ?cb ?a = HalfOpen"
    by (simp add: state_for_def cb_on_complete_def cb_on_receive_def cb_receive_entry_def
        cb_complete_entry_def cb_entry_def cb_new_def cb_state_new_def
        cb_record_error_def prune_errors_def Let_def duration_since_def)
  have "\<forall>e \<in> set [CbReceive 99 ?a ''y'' :: unit cb_event]. \<exists>t n. e = CbReceive t ?a n" by simp
  from cb_single_probe [OF r h this] show ?thesis using r h by (simp add: Let_def)
qed

text \<open>An open circuit recovers: once the cooldown has passed since it opened, the next message is let
  through as the probe, and when its handler succeeds the circuit is closed again with an
  empty error queue.\<close>

theorem cb_recovers:
  assumes "cb_states cb a = Some s" and "cb_status s = Open" and "cb_opened_at s = Some t"
    and "t + cooldown cb \<le> now" and "\<not> is_handler_error out"
  shows "fst (cb_on_receive cb now a n) = Continue \<and>
    state_for (snd (cb_on_receive cb now a n)) a = HalfOpen \<and>
    state_for (cb_on_complete (snd (cb_on_receive cb now a n)) later a out) a = Closed \<and>
    cb_error_timestamps
      (cb_entry (cb_on_complete (snd (cb_on_receive cb now a n)) later a out) a) = []"
  using assms
  by (auto simp: cb_on_receive_def cb_on_complete_def cb_receive_entry_def cb_complete_entry_def
      cb_entry_def state_for_def duration_since_def)

theorem cb_recovers_witness:
  "let a = ActorId (NodeId ''n'') 1; s = \<lparr>cb_status = Open, cb_error_timestamps = [5],
         cb_opened_at = Some 5, cb_probe_in_flight = False\<rparr>;
       cb = (cb_new 1 60 30)\<lparr>cb_states := [a \<mapsto> s]\<rparr>
   in fst (cb_on_receive cb 35 a ''x'') = Continue \<and>
      state_for (cb_on_complete (snd (cb_on_receive cb 35 a ''x'')) 36 a (TellSuccess :: unit outcome)) a = Closed"
proof -
  let ?a = "ActorId (NodeId ''n'') 1"
  let ?s = "\<lparr>cb_status = Open, cb_error_timestamps = [5], cb_opened_at = Some 5, cb_probe_in_flight = False\<rparr>"
  let ?cb = "(cb_new 1 60 30)\<lparr>cb_states := [?a \<mapsto> ?s]\<rparr>"
  show ?thesis
    using cb_recovers [of ?cb ?a ?s 5 35 "TellSuccess :: unit outcome" "''x''" 36]
    by (simp add: cb_new_def Let_def)
qed

end
