(* ===== verification/Supervision.thy ===== *)
theory Supervision
  imports Core_Types Time_Window
begin

text \<open>
  The supervision strategies of \<^verbatim>\<open>dactor/src/supervision.rs\<close>: the restart tracker and the
  three built-in strategies. A call that reads the clock takes the time as an argument; the theorems
  assume that calls are serialised in the order of their times.
\<close>

section \<open>Model\<close>

datatype child_terminated = ChildTerminated
  (ct_child_id: actor_id) (ct_child_name: string) (ct_reason: "string option")

datatype supervision_action = SA_Restart | SA_Stop | SA_Escalate

record restart_tracker =
  rt_max_restarts :: u32
  rt_within :: duration
  rt_timestamps :: "(actor_id, instant list) hashmap"

definition rt_new :: "u32 \<Rightarrow> duration \<Rightarrow> restart_tracker" where
  "rt_new max_restarts within =
     \<lparr>rt_max_restarts = max_restarts, rt_within = within, rt_timestamps = hm_empty\<rparr>"

definition rt_retain :: "duration \<Rightarrow> instant \<Rightarrow> instant list \<Rightarrow> instant list" where
  "rt_retain within now entries = filter (\<lambda>t. duration_since now t \<le> within) entries"

definition rt_record :: "restart_tracker \<Rightarrow> instant \<Rightarrow> actor_id \<Rightarrow> bool \<times> restart_tracker" where
  "rt_record rt now child_id =
     (let entries = rt_retain (rt_within rt) now (hm_entry child_id [] (rt_timestamps rt))
      in if (of_nat (length entries) :: u32) \<ge> rt_max_restarts rt
         then (False, rt\<lparr>rt_timestamps := hm_insert child_id entries (rt_timestamps rt)\<rparr>)
         else (True, rt\<lparr>rt_timestamps := hm_insert child_id (entries @ [now]) (rt_timestamps rt)\<rparr>))"

definition rt_sentinel :: actor_id where
  "rt_sentinel = ActorId (NodeId ''__supervision_group__'') 0"

definition rt_record_global :: "restart_tracker \<Rightarrow> instant \<Rightarrow> bool \<times> restart_tracker" where
  "rt_record_global rt now = rt_record rt now rt_sentinel"

record one_for_one =
  ofo_tracker :: restart_tracker

definition ofo_new :: "u32 \<Rightarrow> duration \<Rightarrow> one_for_one" where
  "ofo_new max_restarts within = \<lparr>ofo_tracker = rt_new max_restarts within\<rparr>"

definition ofo_on_child_failed ::
  "one_for_one \<Rightarrow> instant \<Rightarrow> actor_id \<Rightarrow> string \<Rightarrow> actor_error \<Rightarrow> supervision_action \<times> one_for_one" where
  "ofo_on_child_failed s now child_id child_name err =
     (case rt_record (ofo_tracker s) now child_id of
        (True, rt) \<Rightarrow> (SA_Restart, s\<lparr>ofo_tracker := rt\<rparr>)
      | (False, rt) \<Rightarrow> (SA_Stop, s\<lparr>ofo_tracker := rt\<rparr>))"

record all_for_one =
  afo_tracker :: restart_tracker

definition afo_new :: "u32 \<Rightarrow> duration \<Rightarrow> all_for_one" where
  "afo_new max_restarts within = \<lparr>afo_tracker = rt_new max_restarts within\<rparr>"

definition afo_on_child_failed ::
  "all_for_one \<Rightarrow> instant \<Rightarrow> actor_id \<Rightarrow> string \<Rightarrow> actor_error \<Rightarrow> supervision_action \<times> all_for_one" where
  "afo_on_child_failed s now child_id child_name err =
     (case rt_record_global (afo_tracker s) now of
        (True, rt) \<Rightarrow> (SA_Restart, s\<lparr>afo_tracker := rt\<rparr>)
      | (False, rt) \<Rightarrow> (SA_Stop, s\<lparr>afo_tracker := rt\<rparr>))"

record rest_for_one =
  rfo_tracker :: restart_tracker
  rfo_children :: "actor_id list"

definition rfo_new :: "u32 \<Rightarrow> duration \<Rightarrow> rest_for_one" where
  "rfo_new max_restarts within = \<lparr>rfo_tracker = rt_new max_restarts within, rfo_children = []\<rparr>"

definition rfo_register_child :: "rest_for_one \<Rightarrow> actor_id \<Rightarrow> rest_for_one" where
  "rfo_register_child s child_id = s\<lparr>rfo_children := rfo_children s @ [child_id]\<rparr>"

fun position :: "('a \<Rightarrow> bool) \<Rightarrow> 'a list \<Rightarrow> nat option" where
  "position P [] = None"
| "position P (x # xs) = (if P x then Some 0 else map_option Suc (position P xs))"

definition rfo_children_to_restart :: "rest_for_one \<Rightarrow> actor_id \<Rightarrow> actor_id list" where
  "rfo_children_to_restart s failed_id =
     (case position (\<lambda>i. i = failed_id) (rfo_children s) of
        Some pos \<Rightarrow> drop pos (rfo_children s)
      | None \<Rightarrow> [failed_id])"

definition rfo_on_child_failed ::
  "rest_for_one \<Rightarrow> instant \<Rightarrow> actor_id \<Rightarrow> string \<Rightarrow> actor_error \<Rightarrow> supervision_action \<times> rest_for_one" where
  "rfo_on_child_failed s now child_id child_name err =
     (case rt_record_global (rfo_tracker s) now of
        (True, rt) \<Rightarrow> (SA_Restart, s\<lparr>rfo_tracker := rt\<rparr>)
      | (False, rt) \<Rightarrow> (SA_Stop, s\<lparr>rfo_tracker := rt\<rparr>))"

section \<open>Runs and their specification\<close>

datatype failure = Failure (f_time: instant) (f_child: actor_id) (f_name: string) (f_error: actor_error)

fun failures_run ::
  "('s \<Rightarrow> instant \<Rightarrow> actor_id \<Rightarrow> string \<Rightarrow> actor_error \<Rightarrow> supervision_action \<times> 's) \<Rightarrow> 's \<Rightarrow> failure list
    \<Rightarrow> supervision_action list \<times> 's" where
  "failures_run on_failed s [] = ([], s)"
| "failures_run on_failed s (f # fs) =
     (case on_failed s (f_time f) (f_child f) (f_name f) (f_error f) of (a, s1) \<Rightarrow>
        (case failures_run on_failed s1 fs of (as, s2) \<Rightarrow> (a # as, s2)))"

text \<open>The specification keeps every granted restart with the budget it was charged to, and grants one
  if fewer than the maximum were charged to the same budget within the window.\<close>

definition charged :: "duration \<Rightarrow> instant \<Rightarrow> actor_id \<Rightarrow> (instant \<times> actor_id) list \<Rightarrow> nat" where
  "charged w now k granted = length (filter (\<lambda>(t, k'). k' = k \<and> in_window w now t) granted)"

fun supervision_spec ::
  "nat \<Rightarrow> duration \<Rightarrow> (actor_id \<Rightarrow> actor_id) \<Rightarrow> (instant \<times> actor_id) list \<Rightarrow> failure list \<Rightarrow> supervision_action list" where
  "supervision_spec m w budget granted [] = []"
| "supervision_spec m w budget granted (f # fs) =
     (if charged w (f_time f) (budget (f_child f)) granted < m
      then SA_Restart # supervision_spec m w budget (granted @ [(f_time f, budget (f_child f))]) fs
      else SA_Stop # supervision_spec m w budget granted fs)"

text \<open>The restarts that a run granted.\<close>

definition restarts :: "failure list \<Rightarrow> supervision_action list \<Rightarrow> failure list" where
  "restarts fs as = map fst (filter (\<lambda>(f, a). a = SA_Restart) (zip fs as))"

section \<open>The tracker implements the specification\<close>

interpretation rtw: sliding_window rt_retain
  by unfold_locales (simp add: rt_retain_def in_window_def [abs_def])

abbreviation rt_entries :: "restart_tracker \<Rightarrow> actor_id \<Rightarrow> instant list" where
  "rt_entries rt k \<equiv> hm_entry k [] (rt_timestamps rt)"

abbreviation times_of :: "actor_id \<Rightarrow> (instant \<times> actor_id) list \<Rightarrow> instant list" where
  "times_of k granted \<equiv> map fst (filter (\<lambda>g. snd g = k) granted)"

text \<open>Up to \<open>now\<close>, the entries of a budget are ordered, bounded by the maximum, and count the same
  restarts as the log in every window from \<open>now\<close> on.\<close>

definition rt_abs :: "restart_tracker \<Rightarrow> instant \<Rightarrow> (instant \<times> actor_id) list \<Rightarrow> bool" where
  "rt_abs rt now granted \<longleftrightarrow>
     (\<forall>k. sorted (rt_entries rt k) \<and> (\<forall>t \<in> set (rt_entries rt k). t \<le> now) \<and>
        sorted (times_of k granted) \<and> (\<forall>t \<in> set (times_of k granted). t \<le> now) \<and>
        length (rt_entries rt k) \<le> unat (rt_max_restarts rt) \<and>
        (\<forall>now' \<ge> now. rt_retain (rt_within rt) now' (rt_entries rt k) =
           rt_retain (rt_within rt) now' (times_of k granted)))"

lemma charged_times: "charged w now k granted = length (rt_retain w now (times_of k granted))"
  by (induction granted) (auto simp: charged_def rt_retain_def in_window_def)

lemma rt_new_abs: "rt_abs (rt_new m w) now []"
  by (simp add: rt_abs_def rt_new_def hm_entry_def rt_retain_def)

lemma hm_entry_insert: "hm_entry k d (hm_insert k' v m) = (if k = k' then v else hm_entry k d m)"
  by (simp add: hm_entry_def)

lemma rt_abs_mono: "rt_abs rt t granted \<Longrightarrow> t \<le> now \<Longrightarrow> rt_abs rt now granted"
  unfolding rt_abs_def by (meson order_trans)

lemma rt_record_spec:
  assumes abs: "rt_abs rt t granted" and "t \<le> now" and rec: "rt_record rt now k = (ok, rt')"
  shows "ok \<longleftrightarrow> charged (rt_within rt) now k granted < unat (rt_max_restarts rt)"
    and "rt_abs rt' now (if ok then granted @ [(now, k)] else granted)"
    and "rt_within rt' = rt_within rt" and "rt_max_restarts rt' = rt_max_restarts rt"
proof -
  let ?w = "rt_within rt" and ?m = "rt_max_restarts rt"
  let ?kept = "rt_retain ?w now (rt_entries rt k)"
  note abs' = rt_abs_mono [OF abs \<open>t \<le> now\<close>]
  have len: "length ?kept \<le> unat ?m"
    using abs rtw.evict_length [of "rt_entries rt k" ?w now] unfolding rt_abs_def by (meson order_trans)
  then have "length ?kept < 2 ^ 32" using unsigned_less [of ?m, where ?'a = nat] by simp
  then have nat: "unat (of_nat (length ?kept) :: u32) = length ?kept" by (simp add: unat_of_nat)
  have ok: "ok \<longleftrightarrow> length ?kept < unat ?m"
    using rec nat by (auto simp: rt_record_def Let_def word_le_nat_alt not_le split: if_splits)
  have "?kept = rt_retain ?w now (times_of k granted)" using abs' by (simp add: rt_abs_def)
  then show "ok \<longleftrightarrow> charged ?w now k granted < unat ?m" using ok by (simp add: charged_times)
  show "rt_within rt' = ?w" "rt_max_restarts rt' = ?m"
    using rec by (auto simp: rt_record_def Let_def split: if_splits)
  have kept: "sorted ?kept" "\<forall>t \<in> set ?kept. t \<le> now"
    "\<forall>now' \<ge> now. rt_retain ?w now' ?kept = rt_retain ?w now' (times_of k granted)"
    using abs' rtw.evict_sorted rtw.evict_subset [of "rt_entries rt k" ?w now] rtw.evict_evict
    by (auto simp: rt_abs_def)
  show "rt_abs rt' now (if ok then granted @ [(now, k)] else granted)"
  proof (cases ok)
    case True
    then have e: "rt_entries rt' j = (if j = k then ?kept @ [now] else rt_entries rt j)" for j
      using rec by (auto simp: rt_record_def Let_def hm_entry_insert split: if_splits)
    have "rt_retain ?w now' (?kept @ [now]) = rt_retain ?w now' (times_of k (granted @ [(now, k)]))"
      if "now' \<ge> now" for now'
      using kept(3) that by (simp add: rt_retain_def)
    then show ?thesis
      using True abs' kept(1,2) len ok \<open>rt_within rt' = ?w\<close> \<open>rt_max_restarts rt' = ?m\<close>
      by (simp add: rt_abs_def e sorted_append)
  next
    case False
    then have e: "rt_entries rt' j = (if j = k then ?kept else rt_entries rt j)" for j
      using rec by (auto simp: rt_record_def Let_def hm_entry_insert split: if_splits)
    show ?thesis
      using False abs' kept len \<open>rt_within rt' = ?w\<close> \<open>rt_max_restarts rt' = ?m\<close>
      by (simp add: rt_abs_def e)
  qed
qed

section \<open>Strategies\<close>

text \<open>What every strategy does: it charges each failure to one budget of its tracker and restarts
  exactly if the tracker allows it.\<close>

locale supervision_strategy =
  fixes on_failed :: "'s \<Rightarrow> instant \<Rightarrow> actor_id \<Rightarrow> string \<Rightarrow> actor_error \<Rightarrow> supervision_action \<times> 's"
    and tracker :: "'s \<Rightarrow> restart_tracker"
    and budget :: "actor_id \<Rightarrow> actor_id"
  assumes on_failed_record: "\<exists>ok rt. rt_record (tracker s) now (budget c) = (ok, rt) \<and>
    fst (on_failed s now c n e) = (if ok then SA_Restart else SA_Stop) \<and>
    tracker (snd (on_failed s now c n e)) = rt"
begin

lemma run_spec:
  assumes "rt_abs (tracker s) t granted" and "sorted (t # map f_time fs)"
  shows "fst (failures_run on_failed s fs) =
    supervision_spec (unat (rt_max_restarts (tracker s))) (rt_within (tracker s)) budget granted fs"
  using assms
proof (induction fs arbitrary: s t granted)
  case (Cons f fs)
  obtain ok rt where rec: "rt_record (tracker s) (f_time f) (budget (f_child f)) = (ok, rt)"
    and act: "fst (on_failed s (f_time f) (f_child f) (f_name f) (f_error f)) = (if ok then SA_Restart else SA_Stop)"
    and tr: "tracker (snd (on_failed s (f_time f) (f_child f) (f_name f) (f_error f))) = rt"
    using on_failed_record by blast
  have "t \<le> f_time f" using Cons.prems(2) by simp
  note step = rt_record_spec [OF Cons.prems(1) this rec]
  have "sorted (f_time f # map f_time fs)" using Cons.prems(2) by simp
  from Cons.IH [OF _ this] show ?case
    using step act tr by (simp add: split_beta)
qed simp

end

interpretation ofo: supervision_strategy ofo_on_child_failed ofo_tracker "\<lambda>c. c"
  by unfold_locales (auto simp: ofo_on_child_failed_def split: prod.splits bool.splits)

interpretation afo: supervision_strategy afo_on_child_failed afo_tracker "\<lambda>_. rt_sentinel"
  by unfold_locales (auto simp: afo_on_child_failed_def rt_record_global_def split: prod.splits bool.splits)

interpretation rfo: supervision_strategy rfo_on_child_failed rfo_tracker "\<lambda>_. rt_sentinel"
  by unfold_locales (auto simp: rfo_on_child_failed_def rt_record_global_def split: prod.splits bool.splits)

section \<open>The budget\<close>

text \<open>In a run of the specification no span of the window's length holds more than the maximal number
  of restarts charged to one budget.\<close>

abbreviation spanned :: "instant \<Rightarrow> duration \<Rightarrow> instant \<Rightarrow> bool" where
  "spanned a w t \<equiv> a \<le> t \<and> t \<le> a + w"

lemma restarts_Cons:
  "restarts (f # fs) (a # as) = (if a = SA_Restart then f # restarts fs as else restarts fs as)"
  by (simp add: restarts_def)

lemma spanned_charged:
  assumes "\<forall>g \<in> set granted. fst g \<le> now" and "spanned a w now"
  shows "length (filter (\<lambda>g. snd g = k \<and> spanned a w (fst g)) granted) \<le> charged w now k granted"
proof -
  have "filter (\<lambda>g. snd g = k \<and> spanned a w (fst g)) granted =
      filter (\<lambda>g. snd g = k \<and> spanned a w (fst g)) (filter (\<lambda>(t, k'). k' = k \<and> in_window w now t) granted)"
    unfolding filter_filter
    by (rule filter_cong [OF refl]) (use assms in \<open>auto simp: in_window_def duration_since_def split: prod.splits\<close>)
  then show ?thesis unfolding charged_def by (simp only: length_filter_le)
qed

lemma spec_budget:
  assumes "sorted (t # map f_time fs)" and "\<forall>g \<in> set granted. fst g \<le> t"
    and "length (filter (\<lambda>g. snd g = k \<and> spanned a w (fst g)) granted) \<le> m"
  shows "length (filter (\<lambda>g. snd g = k \<and> spanned a w (fst g)) granted) +
    length (filter (\<lambda>f. budget (f_child f) = k \<and> spanned a w (f_time f))
      (restarts fs (supervision_spec m w budget granted fs))) \<le> m"
  using assms
proof (induction fs arbitrary: t granted)
  case Nil
  then show ?case by (simp add: restarts_def)
next
  case (Cons f fs)
  have sorted: "sorted (f_time f # map f_time fs)" and le: "\<forall>g \<in> set granted. fst g \<le> f_time f"
    using Cons.prems(1,2) by auto
  let ?k = "budget (f_child f)"
  show ?case
  proof (cases "charged w (f_time f) ?k granted < m")
    case True
    let ?granted = "granted @ [(f_time f, ?k)]"
    have "length (filter (\<lambda>g. snd g = k \<and> spanned a w (fst g)) ?granted) \<le> m"
      using Cons.prems(3) True spanned_charged [OF le, of a w k] by auto
    from Cons.IH [OF sorted _ this] show ?thesis
      using True le by (auto simp: restarts_Cons)
  next
    case False
    then show ?thesis using Cons.IH [OF sorted le Cons.prems(3)] by (simp add: restarts_Cons)
  qed
qed

lemma spec_budget_init:
  assumes "sorted (map f_time fs)"
  shows "length (filter (\<lambda>f. budget (f_child f) = k \<and> spanned a w (f_time f))
    (restarts fs (supervision_spec m w budget [] fs))) \<le> m"
  using spec_budget [of 0 fs "[]" k a w m budget] assms by simp

lemma initial_runs:
  assumes "sorted (map f_time fs)"
  shows "fst (failures_run ofo_on_child_failed (ofo_new m w) fs) = supervision_spec (unat m) w (\<lambda>c. c) [] fs"
    and "fst (failures_run afo_on_child_failed (afo_new m w) fs) =
      supervision_spec (unat m) w (\<lambda>_. rt_sentinel) [] fs"
    and "fst (failures_run rfo_on_child_failed (foldl rfo_register_child (rfo_new m w) cs) fs) =
      supervision_spec (unat m) w (\<lambda>_. rt_sentinel) [] fs"
proof -
  have sorted: "sorted (0 # map f_time fs)" using assms by simp
  show "fst (failures_run ofo_on_child_failed (ofo_new m w) fs) = supervision_spec (unat m) w (\<lambda>c. c) [] fs"
    using ofo.run_spec [of "ofo_new m w" 0 "[]", OF _ sorted] rt_new_abs [of m w]
    by (simp add: ofo_new_def rt_new_def)
  show "fst (failures_run afo_on_child_failed (afo_new m w) fs) =
      supervision_spec (unat m) w (\<lambda>_. rt_sentinel) [] fs"
    using afo.run_spec [of "afo_new m w" 0 "[]", OF _ sorted] rt_new_abs [of m w]
    by (simp add: afo_new_def rt_new_def)
  have tr: "rfo_tracker (foldl rfo_register_child s cs) = rfo_tracker s" for s
    by (induction cs arbitrary: s) (simp_all add: rfo_register_child_def)
  show "fst (failures_run rfo_on_child_failed (foldl rfo_register_child (rfo_new m w) cs) fs) =
      supervision_spec (unat m) w (\<lambda>_. rt_sentinel) [] fs"
    using rfo.run_spec [of "foldl rfo_register_child (rfo_new m w) cs" 0 "[]", OF _ sorted] rt_new_abs [of m w]
    by (simp add: tr rfo_new_def rt_new_def)
qed

section \<open>Children to restart\<close>

lemma position_append: "x \<notin> set pre \<Longrightarrow> position (\<lambda>i. i = x) (pre @ x # post) = Some (length pre)"
  by (induction pre) auto

lemma position_None: "position P xs = None \<longleftrightarrow> (\<forall>x \<in> set xs. \<not> P x)"
  by (induction xs) auto

lemma registered: "rfo_children (foldl rfo_register_child s cs) = rfo_children s @ cs"
  by (induction cs arbitrary: s) (simp_all add: rfo_register_child_def)

section \<open>Properties\<close>

text \<open>C7. Each strategy decides by its restart budget and nothing else: with failures reported in the order
  of their times, a failure is answered by Restart exactly if fewer than \<open>max_restarts\<close> restarts were
  granted within the window before it, counted per child (one-for-one) or for the whole group
  (all-for-one, rest-for-one), and by Stop otherwise.\<close>

theorem supervision_refines_spec:
  assumes "sorted (map f_time fs)"
  shows "fst (failures_run ofo_on_child_failed (ofo_new m w) fs) = supervision_spec (unat m) w (\<lambda>c. c) [] fs \<and>
    fst (failures_run afo_on_child_failed (afo_new m w) fs) =
      supervision_spec (unat m) w (\<lambda>_. rt_sentinel) [] fs \<and>
    fst (failures_run rfo_on_child_failed (foldl rfo_register_child (rfo_new m w) cs) fs) =
      supervision_spec (unat m) w (\<lambda>_. rt_sentinel) [] fs"
  using initial_runs [OF assms] by blast

definition sample_failure :: "instant \<Rightarrow> u64 \<Rightarrow> failure" where
  "sample_failure t n = Failure t (ActorId (NodeId ''n'') n) ''child'' (actor_error_internal ''boom'')"

theorem supervision_refines_spec_witness:
  "fst (failures_run ofo_on_child_failed (ofo_new 1 10) [sample_failure 5 1, sample_failure 9 1, sample_failure 16 1]) =
    [SA_Restart, SA_Stop, SA_Restart]"
proof -
  have "supervision_spec (unat (1 :: u32)) 10 (\<lambda>c. c) [] [sample_failure 5 1, sample_failure 9 1, sample_failure 16 1] =
      [SA_Restart, SA_Stop, SA_Restart]" by code_simp
  then show ?thesis
    using supervision_refines_spec [of "[sample_failure 5 1, sample_failure 9 1, sample_failure 16 1]" 1 10]
    by (simp add: sample_failure_def)
qed

text \<open>C35. The restart rate is bounded: in every span of time as long as the window, one-for-one grants a
  child at most \<open>max_restarts\<close> restarts, and all-for-one and rest-for-one grant the whole group at most
  as many.\<close>

theorem supervision_budget:
  assumes "sorted (map f_time fs)"
  shows "length (filter (\<lambda>f. f_child f = c \<and> a \<le> f_time f \<and> f_time f \<le> a + w)
      (restarts fs (fst (failures_run ofo_on_child_failed (ofo_new m w) fs)))) \<le> unat m \<and>
    length (filter (\<lambda>f. a \<le> f_time f \<and> f_time f \<le> a + w)
      (restarts fs (fst (failures_run afo_on_child_failed (afo_new m w) fs)))) \<le> unat m \<and>
    length (filter (\<lambda>f. a \<le> f_time f \<and> f_time f \<le> a + w)
      (restarts fs (fst (failures_run rfo_on_child_failed (rfo_new m w) fs)))) \<le> unat m"
  using initial_runs(1,2) [OF assms, of m w] initial_runs(3) [OF assms, of m w "[]"]
    spec_budget_init [OF assms, of "\<lambda>c. c" c a w "unat m"]
    spec_budget_init [OF assms, of "\<lambda>_. rt_sentinel" rt_sentinel a w "unat m"]
  by simp

theorem supervision_budget_witness:
  "length (filter (\<lambda>f. f_child f = ActorId (NodeId ''n'') 1 \<and> 5 \<le> f_time f \<and> f_time f \<le> 5 + 10)
     (restarts [sample_failure 5 1, sample_failure 9 1]
       (fst (failures_run ofo_on_child_failed (ofo_new 1 10) [sample_failure 5 1, sample_failure 9 1])))) \<le> 1"
  using supervision_budget [of "[sample_failure 5 1, sample_failure 9 1]" "ActorId (NodeId ''n'') 1" 5 10 1]
  by (simp add: sample_failure_def)

text \<open>Rest-for-one restarts the right children: after the children were registered in the order
  \<open>pre\<close>, the failed one, \<open>post\<close>, exactly the failed child and those registered after it are
  restarted, in order; a child that was never registered is restarted alone.\<close>

theorem rest_for_one_children:
  assumes "failed \<notin> set pre"
  shows "rfo_children_to_restart (foldl rfo_register_child (rfo_new m w) (pre @ failed # post)) failed =
      failed # post \<and>
    rfo_children_to_restart (foldl rfo_register_child (rfo_new m w) pre) failed = [failed]"
  using position_append [OF assms, of post] position_None [of "\<lambda>i. i = failed" pre] assms
  by (auto simp: rfo_children_to_restart_def registered rfo_new_def simp del: foldl_append)

theorem rest_for_one_children_witness:
  "rfo_children_to_restart (foldl rfo_register_child (rfo_new 3 10)
     ([ActorId (NodeId ''n'') 1] @ ActorId (NodeId ''n'') 2 # [ActorId (NodeId ''n'') 3])) (ActorId (NodeId ''n'') 2) =
   [ActorId (NodeId ''n'') 2, ActorId (NodeId ''n'') 3]"
  using rest_for_one_children [of "ActorId (NodeId ''n'') 2" "[ActorId (NodeId ''n'') 1]" 3 10 "[ActorId (NodeId ''n'') 3]"]
  by simp

end
