(* ===== verification/Rate_Limit.thy ===== *)
theory Rate_Limit
  imports Core_Types
begin

text \<open>
  The two rate limiters: \<^verbatim>\<open>ActorRateLimiter\<close> of \<^verbatim>\<open>dactor/src/throttle.rs\<close>, an outbound
  interceptor with one counter per target actor, and \<^verbatim>\<open>RateLimitWireInterceptor\<close> of
  \<^verbatim>\<open>dactor/src/wire_interceptor.rs\<close> with one counter for all envelopes. Both count in a
  tumbling window that restarts at the first message after it expired. Each call locks the state and reads the
  clock once.
\<close>

section \<open>The standard library's debug print-out of a duration\<close>

fun strip_zeros :: "string \<Rightarrow> string" where
  "strip_zeros s = rev (dropWhile (\<lambda>c. c = CHR ''0'') (rev s))"

definition fmt_decimal :: "nat \<Rightarrow> nat \<Rightarrow> nat \<Rightarrow> string" where
  "fmt_decimal int_part frac width =
     show_nat int_part @
     (if frac = 0 then []
      else CHR ''.'' # strip_zeros (replicate (width - length (show_nat frac)) (CHR ''0'') @ show_nat frac))"

definition duration_debug :: "duration \<Rightarrow> string" where
  "duration_debug d =
     (if d \<ge> 1000000000 then fmt_decimal (d div 1000000000) (d mod 1000000000) 9 @ ''s''
      else if d \<ge> 1000000 then fmt_decimal (d div 1000000) (d mod 1000000) 6 @ ''ms''
      else if d \<ge> 1000 then fmt_decimal (d div 1000) (d mod 1000) 3 @ [CHR 0xC2, CHR 0xB5] @ ''s''
      else show_nat d @ ''ns'')"

section \<open>ActorRateLimiter\<close>

record actor_rate_limiter =
  rl_max_rate :: u64
  rl_window :: duration
  rl_counts :: "actor_id \<rightharpoonup> u64 \<times> instant"

definition rl_new :: "u64 \<Rightarrow> duration \<Rightarrow> actor_rate_limiter" where
  "rl_new max_rate window = \<lparr>rl_max_rate = max_rate, rl_window = window, rl_counts = Map.empty\<rparr>"

definition rl_count_message :: "duration \<Rightarrow> instant \<Rightarrow> u64 \<times> instant \<Rightarrow> u64 \<times> instant" where
  "rl_count_message window now entry =
     (if duration_since now (snd entry) > window then (1, now) else (fst entry + 1, snd entry))"

definition rl_decide :: "u64 \<Rightarrow> string \<Rightarrow> u64 \<Rightarrow> disposition" where
  "rl_decide max_rate target_name cnt =
     (if cnt > max_rate * 2
      then Reject (''actor '' @ target_name @ '' exceeded 2'' @ [CHR 0xC3, CHR 0x97] @ '' rate limit (''
             @ show_nat (unat cnt) @ '' messages, limit '' @ show_nat (unat max_rate) @ '')'')
      else if cnt > max_rate
      then Delay (from_millis (unat (min ((cnt - max_rate) * 10) 1000)))
      else Continue)"

definition rl_on_send ::
  "actor_rate_limiter \<Rightarrow> instant \<Rightarrow> actor_id \<Rightarrow> string \<Rightarrow> disposition \<times> actor_rate_limiter" where
  "rl_on_send rl now target_id target_name =
     (let entry = (case rl_counts rl target_id of None \<Rightarrow> (0, now) | Some e \<Rightarrow> e);
          entry' = rl_count_message (rl_window rl) now entry
      in (rl_decide (rl_max_rate rl) target_name (fst entry'),
          rl\<lparr>rl_counts := (rl_counts rl)(target_id \<mapsto> entry')\<rparr>))"

fun rl_run :: "actor_rate_limiter \<Rightarrow> actor_id \<Rightarrow> string \<Rightarrow> instant list \<Rightarrow> disposition list" where
  "rl_run rl a n [] = []"
| "rl_run rl a n (t # ts) = (let (d, rl') = rl_on_send rl t a n in d # rl_run rl' a n ts)"

section \<open>RateLimitWireInterceptor\<close>

datatype wire_disposition = WAccept | WDelay duration | WReject string | WDrop

record rate_limit_wire =
  rlw_max_per_window :: u64
  rlw_window :: duration
  rlw_count :: u64
  rlw_window_start :: instant

definition rlw_new :: "u64 \<Rightarrow> duration \<Rightarrow> instant \<Rightarrow> rate_limit_wire" where
  "rlw_new max_per_window window now =
     \<lparr>rlw_max_per_window = max_per_window, rlw_window = window, rlw_count = 0, rlw_window_start = now\<rparr>"

definition rlw_on_receive :: "rate_limit_wire \<Rightarrow> instant \<Rightarrow> wire_disposition \<times> rate_limit_wire" where
  "rlw_on_receive s now =
     (let s1 = (if duration_since now (rlw_window_start s) \<ge> rlw_window s
                then s\<lparr>rlw_count := 0, rlw_window_start := now\<rparr> else s);
          s2 = s1\<lparr>rlw_count := rlw_count s1 + 1\<rparr>
      in if rlw_count s2 > rlw_max_per_window s2
         then (WReject (''rate limit exceeded: '' @ show_nat (unat (rlw_count s2)) @ '' > ''
                 @ show_nat (unat (rlw_max_per_window s2)) @ '' per '' @ duration_debug (rlw_window s2)), s2)
         else (WAccept, s2))"

text \<open>The times of the envelopes that a run of the limiter accepts.\<close>

fun rlw_accepted :: "rate_limit_wire \<Rightarrow> instant list \<Rightarrow> instant list" where
  "rlw_accepted s [] = []"
| "rlw_accepted s (t # ts) =
     (let (d, s') = rlw_on_receive s t in
      (if d = WAccept then [t] else []) @ rlw_accepted s' ts)"

section \<open>Lemmas: the actor limiter\<close>

text \<open>The intended decision for the k-th message of a window, over unbounded numbers.\<close>

definition rl_intended :: "nat \<Rightarrow> string \<Rightarrow> nat \<Rightarrow> disposition" where
  "rl_intended max_rate name k =
     (if k \<le> max_rate then Continue
      else if k \<le> 2 * max_rate then Delay (from_millis (min (10 * (k - max_rate)) 1000))
      else Reject (''actor '' @ name @ '' exceeded 2'' @ [CHR 0xC3, CHR 0x97] @ '' rate limit (''
             @ show_nat k @ '' messages, limit '' @ show_nat max_rate @ '')''))"

lemma unat_times2: "unat (m::u64) < 2 ^ 63 \<Longrightarrow> unat (m * 2) = 2 * unat m"
  by (simp add: unat_word_ariths)

lemma unat_backoff:
  assumes "unat (d::u64) < 2 ^ 60"
  shows "unat (min (d * 10) 1000) = min (10 * unat d) 1000"
proof -
  have "unat (d * 10) = 10 * unat d" using assms by (simp add: unat_word_ariths)
  then show ?thesis by (auto simp: min_def word_le_nat_alt)
qed

lemma rl_decide_intended:
  assumes "unat m < 2 ^ 60"
  shows "rl_decide m n c = rl_intended (unat m) n (unat c)"
proof -
  have m2: "unat (m * 2) = 2 * unat m" using assms by (simp add: unat_times2)
  show ?thesis
  proof (cases "m < c \<and> c \<le> m * 2")
    case True
    then have sub: "unat (c - m) = unat c - unat m"
      by (simp add: unat_sub order.strict_implies_order)
    then have "unat (c - m) < 2 ^ 60" using True assms m2 by (auto simp: word_le_nat_alt)
    from unat_backoff [OF this] show ?thesis
      using True sub m2 by (auto simp: rl_decide_def rl_intended_def word_less_nat_alt word_le_nat_alt)
  next
    case False
    then show ?thesis
      using m2 by (auto simp: rl_decide_def rl_intended_def word_less_nat_alt word_le_nat_alt)
  qed
qed

lemma rl_run_window:
  assumes "unat (rl_max_rate rl) < 2 ^ 60" and "rl_counts rl a = Some (c, start)"
    and "\<forall>t \<in> set ts. t - start \<le> rl_window rl" and "unat c + length ts < 2 ^ 64"
  shows "rl_run rl a n ts =
    map (\<lambda>k. rl_intended (unat (rl_max_rate rl)) n (unat c + k)) [1..<Suc (length ts)]"
  using assms
proof (induction ts arbitrary: rl c)
  case (Cons t ts)
  let ?rl = "rl\<lparr>rl_counts := (rl_counts rl)(a \<mapsto> (c + 1, start))\<rparr>"
  have c1: "unat (c + 1) = unat c + 1"
    using Cons.prems(4) by (simp add: unat_word_ariths)
  have step: "rl_on_send rl t a n = (rl_intended (unat (rl_max_rate rl)) n (unat c + 1), ?rl)"
    using Cons.prems c1
    by (simp add: rl_on_send_def rl_count_message_def duration_since_def rl_decide_intended)
  have "rl_run ?rl a n ts =
      map (\<lambda>k. rl_intended (unat (rl_max_rate ?rl)) n (unat (c + 1) + k)) [1..<Suc (length ts)]"
    by (rule Cons.IH) (use Cons.prems c1 in simp_all)
  also have "\<dots> = map (\<lambda>k. rl_intended (unat (rl_max_rate rl)) n (unat c + k)) [2..<Suc (Suc (length ts))]"
  proof -
    have "[2..<Suc (Suc (length ts))] = map Suc [1..<Suc (length ts)]"
      by (simp only: map_Suc_upt) (simp add: numeral_2_eq_2)
    then show ?thesis by (simp add: c1 o_def del: upt_Suc)
  qed
  finally show ?case
    by (simp add: step upt_conv_Cons numeral_2_eq_2 del: upt_Suc)
qed simp

section \<open>Lemmas: the wire limiter\<close>

lemma rlw_params [simp]:
  "rlw_max_per_window (snd (rlw_on_receive s t)) = rlw_max_per_window s"
  "rlw_window (snd (rlw_on_receive s t)) = rlw_window s"
  by (simp_all add: rlw_on_receive_def Let_def)

lemma rlw_fst:
  "fst (rlw_on_receive s t) = WAccept \<longleftrightarrow>
     rlw_count (snd (rlw_on_receive s t)) \<le> rlw_max_per_window s"
  by (auto simp: rlw_on_receive_def Let_def not_less)

lemma rlw_snd:
  "rlw_count (snd (rlw_on_receive s t)) =
     (if t - rlw_window_start s \<ge> rlw_window s then 1 else rlw_count s + 1)"
  "rlw_window_start (snd (rlw_on_receive s t)) =
     (if t - rlw_window_start s \<ge> rlw_window s then t else rlw_window_start s)"
  by (simp_all add: rlw_on_receive_def Let_def duration_since_def)

lemma rlw_accepted_Cons:
  "rlw_accepted s (t # ts) =
     (if rlw_count (snd (rlw_on_receive s t)) \<le> rlw_max_per_window s then [t] else [])
     @ rlw_accepted (snd (rlw_on_receive s t)) ts"
  by (simp add: split_beta rlw_fst)

lemma rlw_accepted_subset: "set (rlw_accepted s ts) \<subseteq> set ts"
  by (induction ts arbitrary: s) (auto simp: rlw_accepted_Cons simp del: rlw_accepted.simps(2))

text \<open>Until its window expires, the limiter accepts no more than the rest of its budget.\<close>

lemma rlw_budget:
  assumes "unat (rlw_count s) + length ts < 2 ^ 64" and "sorted (rlw_window_start s # ts)"
  shows "length (filter (\<lambda>t. t < rlw_window_start s + rlw_window s) (rlw_accepted s ts))
    \<le> unat (rlw_max_per_window s) - unat (rlw_count s)"
  using assms
proof (induction ts arbitrary: s)
  case (Cons t ts)
  let ?s = "snd (rlw_on_receive s t)"
  show ?case
  proof (cases "t < rlw_window_start s + rlw_window s")
    case True
    then have ws: "rlw_window_start ?s = rlw_window_start s" and c: "rlw_count ?s = rlw_count s + 1"
      using Cons.prems(2) by (auto simp: rlw_snd)
    have c1: "unat (rlw_count ?s) = unat (rlw_count s) + 1"
      using Cons.prems(1) by (simp add: c unat_word_ariths)
    have "length (filter (\<lambda>t. t < rlw_window_start ?s + rlw_window ?s) (rlw_accepted ?s ts))
        \<le> unat (rlw_max_per_window ?s) - unat (rlw_count ?s)"
      by (rule Cons.IH) (use Cons.prems c1 ws in simp_all)
    then show ?thesis
      using True c1 by (auto simp: rlw_accepted_Cons ws word_le_nat_alt simp del: rlw_accepted.simps(2))
  next
    case False
    then have "\<forall>u \<in> set (t # ts). \<not> u < rlw_window_start s + rlw_window s"
      using Cons.prems(2) by auto
    then have "filter (\<lambda>u. u < rlw_window_start s + rlw_window s) (rlw_accepted s (t # ts)) = []"
      using rlw_accepted_subset [of s "t # ts"] by (auto simp: filter_empty_conv)
    then show ?thesis by simp
  qed
qed simp

text \<open>From any state on, an interval no longer than the window sees at most one restart, hence
  two budgets.\<close>

lemma rlw_interval:
  assumes "unat (rlw_count s) + length ts < 2 ^ 64" and "sorted (rlw_window_start s # ts)"
    and "\<forall>t \<in> set ts. x \<le> t"
  shows "length (filter (\<lambda>t. t < x + rlw_window s) (rlw_accepted s ts))
    \<le> (unat (rlw_max_per_window s) - unat (rlw_count s)) + unat (rlw_max_per_window s)"
  using assms
proof (induction ts arbitrary: s)
  case (Cons t ts)
  let ?s = "snd (rlw_on_receive s t)"
  have len: "length (filter (\<lambda>u. u < x + rlw_window s) (rlw_accepted s (t # ts))) \<le>
      (if rlw_count ?s \<le> rlw_max_per_window s then 1 else 0) +
      length (filter (\<lambda>u. u < x + rlw_window s) (rlw_accepted ?s ts))"
    by (simp add: rlw_accepted_Cons del: rlw_accepted.simps(2))
  show ?case
  proof (cases "t - rlw_window_start s \<ge> rlw_window s")
    case True
    then have ws: "rlw_window_start ?s = t" and c: "rlw_count ?s = 1" by (simp_all add: rlw_snd)
    have "x \<le> t" using Cons.prems(3) by simp
    then have "length (filter (\<lambda>u. u < x + rlw_window s) (rlw_accepted ?s ts)) \<le>
        length (filter (\<lambda>u. u < rlw_window_start ?s + rlw_window ?s) (rlw_accepted ?s ts))"
      by (simp add: ws length_filter_conv_card) (rule card_mono, auto)
    also have "\<dots> \<le> unat (rlw_max_per_window ?s) - unat (rlw_count ?s)"
      by (rule rlw_budget) (use Cons.prems ws c in simp_all)
    finally show ?thesis using len c
      by (simp add: word_le_nat_alt del: rlw_accepted.simps(2) split: if_splits)
  next
    case False
    then have ws: "rlw_window_start ?s = rlw_window_start s" and c: "rlw_count ?s = rlw_count s + 1"
      by (simp_all add: rlw_snd)
    have c1: "unat (rlw_count ?s) = unat (rlw_count s) + 1"
      using Cons.prems(1) by (simp add: c unat_word_ariths)
    have "length (filter (\<lambda>u. u < x + rlw_window ?s) (rlw_accepted ?s ts)) \<le>
        (unat (rlw_max_per_window ?s) - unat (rlw_count ?s)) + unat (rlw_max_per_window ?s)"
      by (rule Cons.IH) (use Cons.prems c1 ws in simp_all)
    then show ?thesis using len c1
      by (simp add: word_le_nat_alt del: rlw_accepted.simps(2) split: if_splits)
  qed
qed simp

lemma rlw_run_interval:
  assumes "unat (rlw_count s) + length ts < 2 ^ 64" and "sorted (rlw_window_start s # ts)"
  shows "length (filter (\<lambda>t. x \<le> t \<and> t < x + rlw_window s) (rlw_accepted s ts))
    \<le> 2 * unat (rlw_max_per_window s)"
  using assms
proof (induction ts arbitrary: s)
  case (Cons t ts)
  let ?s = "snd (rlw_on_receive s t)"
  show ?case
  proof (cases "x \<le> t")
    case True
    then have all: "\<forall>u \<in> set (t # ts). x \<le> u" using Cons.prems(2) by auto
    then have "filter (\<lambda>u. x \<le> u \<and> u < x + rlw_window s) (rlw_accepted s (t # ts)) =
        filter (\<lambda>u. u < x + rlw_window s) (rlw_accepted s (t # ts))"
      using rlw_accepted_subset [of s "t # ts"] by (intro filter_cong) auto
    then show ?thesis using rlw_interval [OF Cons.prems all] by simp
  next
    case False
    have "unat (rlw_count ?s) \<le> unat (rlw_count s) + 1"
      using Cons.prems(1) by (auto simp: rlw_snd unat_word_ariths)
    moreover have "sorted (rlw_window_start ?s # ts)"
      using Cons.prems(2) by (auto simp: rlw_snd)
    ultimately have "length (filter (\<lambda>u. x \<le> u \<and> u < x + rlw_window ?s) (rlw_accepted ?s ts))
        \<le> 2 * unat (rlw_max_per_window ?s)"
      using Cons.prems(1) by (intro Cons.IH) auto
    then show ?thesis
      using False by (simp add: rlw_accepted_Cons del: rlw_accepted.simps(2))
  qed
qed simp

section \<open>Properties\<close>

text \<open>Within one window the actor limiter decides as documented: the k-th message to a target
  continues up to the limit, is delayed by ten milliseconds per message over the limit, at most a
  second, up to twice the limit, and is rejected beyond. It holds for every limit below
  $2^{60}$, for which the 64-bit products do not wrap around.\<close>

theorem rl_window_decisions:
  assumes "unat (rl_max_rate rl) < 2 ^ 60" and "rl_counts rl a = None"
    and "sorted (t # ts)" and "\<forall>u \<in> set ts. u \<le> t + rl_window rl" and "length (t # ts) < 2 ^ 64"
  shows "rl_run rl a n (t # ts) =
    map (rl_intended (unat (rl_max_rate rl)) n) [1..<Suc (length (t # ts))]"
proof -
  let ?rl = "rl\<lparr>rl_counts := (rl_counts rl)(a \<mapsto> (1, t))\<rparr>"
  have "rl_on_send rl t a n = (rl_intended (unat (rl_max_rate rl)) n 1, ?rl)"
    using assms(1,2)
    by (simp add: rl_on_send_def rl_count_message_def duration_since_def rl_decide_intended)
  moreover have "rl_run ?rl a n ts =
      map (\<lambda>k. rl_intended (unat (rl_max_rate ?rl)) n (unat (1::u64) + k)) [1..<Suc (length ts)]"
    by (rule rl_run_window) (use assms in auto)
  moreover have "[1..<Suc (length (t # ts))] = 1 # map Suc [1..<Suc (length ts)]"
    by (simp only: map_Suc_upt) (simp add: upt_conv_Cons del: upt_Suc)
  ultimately show ?thesis by (simp add: o_def del: upt_Suc)
qed

theorem rl_window_decisions_witness:
  "rl_run (rl_new 1 100) (ActorId (NodeId ''n'') 1) ''x'' [5, 6] =
     [Continue, Delay (from_millis 10)]"
proof -
  have "rl_run (rl_new 1 100) (ActorId (NodeId ''n'') 1) ''x'' [5, 6] =
      map (rl_intended (unat (rl_max_rate (rl_new 1 100))) ''x'') [1..<Suc (length [5::nat, 6])]"
    by (rule rl_window_decisions) (simp_all add: rl_new_def)
  also have "\<dots> = [Continue, Delay (from_millis 10)]"
    by (simp add: rl_new_def rl_intended_def numeral_2_eq_2)
  finally show ?thesis .
qed

text \<open>The doubled limit wraps around: a limiter whose limit is $2^{63}$ rejects the very first message to
  every target, in the release profile in which 64-bit multiplication wraps. (With overflow checks the same call panics.)\<close>

theorem rl_limit_overflow:
  "fst (rl_on_send (rl_new 0x8000000000000000 w) now a n) \<noteq> Continue \<and>
   (\<exists>reason. fst (rl_on_send (rl_new 0x8000000000000000 w) now a n) = Reject reason)"
  by (simp add: rl_on_send_def rl_new_def rl_count_message_def rl_decide_def duration_since_def)

text \<open>The wire limiter enforces its rate: whatever the arrival times, any half-open
  interval no longer than the configured window sees at most twice the allowed number of accepted
  envelopes, and the bound is twice and not once only because the window tumbles. Runs are shorter than
  $2^{64}$ envelopes, so the counter does not wrap around.\<close>

theorem rlw_rate_bound:
  assumes "sorted (t0 # ts)" and "length ts < 2 ^ 64"
  shows "length (filter (\<lambda>t. x \<le> t \<and> t < x + w) (rlw_accepted (rlw_new max_per_window w t0) ts))
    \<le> 2 * unat max_per_window"
  using rlw_run_interval [of "rlw_new max_per_window w t0" ts x] assms by (simp add: rlw_new_def)

theorem rlw_rate_bound_witness:
  "length (filter (\<lambda>t. (8::nat) \<le> t \<and> t < 8 + 10)
     (rlw_accepted (rlw_new 1 10 0) [9, 9, 10, 11])) \<le> 2 * unat (1::u64) \<and>
   rlw_accepted (rlw_new 1 10 0) [9, 9, 10, 11] = [9, 10]"
proof -
  have "length (filter (\<lambda>t. (8::nat) \<le> t \<and> t < 8 + 10)
     (rlw_accepted (rlw_new 1 10 0) [9, 9, 10, 11])) \<le> 2 * unat (1::u64)"
    by (rule rlw_rate_bound) simp_all
  moreover have "rlw_accepted (rlw_new 1 10 0) [9, 9, 10, 11] = [9, 10]"
    by (simp add: rlw_on_receive_def rlw_new_def duration_since_def Let_def)
  ultimately show ?thesis by simp
qed

end
