(* ===== verification/Wire_Interceptor.thy ===== *)
theory Wire_Interceptor
  imports Rate_Limit
begin

text \<open>
  The envelope-level pipeline of \<^verbatim>\<open>dactor/src/wire_interceptor.rs\<close>. An interceptor is a boxed trait
  object with state of its own behind a mutex: here, an object that answers an envelope with a disposition
  and its successor. The two built-in interceptors are such objects. The clock a pipeline run
  reads is a function of the position of the interceptor that reads it.
\<close>

section \<open>Interceptors as objects\<close>

codatatype wire_interceptor = WireInterceptor
  (wi_name: string)
  (wi_on_receive: "instant \<Rightarrow> wire_envelope \<Rightarrow> wire_disposition \<times> wire_interceptor")

definition max_body_size_on_receive :: "usize \<Rightarrow> wire_envelope \<Rightarrow> wire_disposition" where
  "max_body_size_on_receive max_bytes envelope =
     (if length (we_body envelope) > unat max_bytes
      then WReject (''body size '' @ show_nat (length (we_body envelope)) @ '' exceeds limit ''
             @ show_nat (unat max_bytes))
      else WAccept)"

primcorec max_body_size :: "usize \<Rightarrow> wire_interceptor" where
  "max_body_size max_bytes = WireInterceptor ''max-body-size''
     (\<lambda>now envelope. map_prod id (\<lambda>_. max_body_size max_bytes)
        (max_body_size_on_receive max_bytes envelope, ()))"

primcorec rate_limit :: "rate_limit_wire \<Rightarrow> wire_interceptor" where
  "rate_limit s = WireInterceptor ''rate-limit''
     (\<lambda>now envelope. map_prod id rate_limit (rlw_on_receive s now))"

section \<open>The pipeline\<close>

type_synonym wire_pipeline = "wire_interceptor list"

definition wp_new :: wire_pipeline where
  "wp_new = []"

definition wp_add :: "wire_pipeline \<Rightarrow> wire_interceptor \<Rightarrow> wire_pipeline" where
  "wp_add p i = p @ [i]"

fun wp_process_from ::
  "(nat \<Rightarrow> instant) \<Rightarrow> nat \<Rightarrow> wire_pipeline \<Rightarrow> wire_envelope
     \<Rightarrow> (wire_disposition \<times> string option) \<times> wire_pipeline" where
  "wp_process_from clock k [] envelope = ((WAccept, None), [])"
| "wp_process_from clock k (i # is) envelope =
     (case wi_on_receive i (clock k) envelope of
        (WAccept, i') \<Rightarrow>
          (let (r, is') = wp_process_from clock (Suc k) is envelope in (r, i' # is'))
      | (other, i') \<Rightarrow> ((other, Some (wi_name i)), i' # is))"

definition wp_process ::
  "(nat \<Rightarrow> instant) \<Rightarrow> wire_pipeline \<Rightarrow> wire_envelope
     \<Rightarrow> (wire_disposition \<times> string option) \<times> wire_pipeline" where
  "wp_process clock p envelope = wp_process_from clock 0 p envelope"

datatype wire_process_result = Accepted | Delayed duration | Dropped

datatype wire_reject_error = WireRejectError (wre_interceptor: string) (wre_reason: string)

definition wp_result ::
  "wire_disposition \<times> string option \<Rightarrow> wire_reject_error + wire_process_result" where
  "wp_result r =
     (case r of (disposition, interceptor_name) \<Rightarrow>
       (case disposition of
          WAccept \<Rightarrow> Inr Accepted
        | WDelay d \<Rightarrow> Inr (Delayed d)
        | WReject reason \<Rightarrow> Inl (WireRejectError
            (case interceptor_name of Some n \<Rightarrow> n | None \<Rightarrow> ''unknown'') reason)
        | WDrop \<Rightarrow> Inr Dropped))"

definition wp_process_envelope ::
  "(nat \<Rightarrow> instant) \<Rightarrow> wire_pipeline \<Rightarrow> wire_envelope
     \<Rightarrow> (wire_reject_error + wire_process_result) \<times> wire_pipeline" where
  "wp_process_envelope clock p envelope =
     (let (r, p') = wp_process clock p envelope in (wp_result r, p'))"

definition wp_len :: "wire_pipeline \<Rightarrow> nat" where
  "wp_len p = length p"

definition wp_is_empty :: "wire_pipeline \<Rightarrow> bool" where
  "wp_is_empty p \<longleftrightarrow> p = []"

definition wire_reject_display :: "wire_reject_error \<Rightarrow> string" where
  "wire_reject_display e =
     ''wire interceptor '' @ [CHR 0x27] @ wre_interceptor e @ [CHR 0x27] @ '' rejected: '' @ wre_reason e"

section \<open>Lemmas\<close>

text \<open>The objects that have answered an envelope, each at its own clock reading.\<close>

fun wp_advance :: "(nat \<Rightarrow> instant) \<Rightarrow> nat \<Rightarrow> wire_pipeline \<Rightarrow> wire_envelope \<Rightarrow> wire_pipeline" where
  "wp_advance clock k [] e = []"
| "wp_advance clock k (i # is) e = snd (wi_on_receive i (clock k) e) # wp_advance clock (Suc k) is e"

fun wp_all_accept :: "(nat \<Rightarrow> instant) \<Rightarrow> nat \<Rightarrow> wire_pipeline \<Rightarrow> wire_envelope \<Rightarrow> bool" where
  "wp_all_accept clock k [] e = True"
| "wp_all_accept clock k (i # is) e =
     (fst (wi_on_receive i (clock k) e) = WAccept \<and> wp_all_accept clock (Suc k) is e)"

lemma wp_process_from_accept:
  "wp_all_accept clock k is e \<Longrightarrow>
     wp_process_from clock k is e = ((WAccept, None), wp_advance clock k is e)"
  by (induction clock k "is" e rule: wp_process_from.induct) (auto split: prod.splits)

lemma wp_process_from_stop:
  assumes "wp_all_accept clock k pre e"
    and "fst (wi_on_receive i (clock (k + length pre)) e) \<noteq> WAccept"
  shows "wp_process_from clock k (pre @ i # post) e =
    ((fst (wi_on_receive i (clock (k + length pre)) e), Some (wi_name i)),
     wp_advance clock k pre e @ snd (wi_on_receive i (clock (k + length pre)) e) # post)"
  using assms
proof (induction pre arbitrary: k)
  case Nil
  then show ?case by (cases "wi_on_receive i (clock k) e"; cases "fst (wi_on_receive i (clock k) e)") auto
next
  case (Cons j pre)
  then show ?case by (cases "wi_on_receive j (clock k) e") simp
qed

lemma wp_first_reject:
  "wp_all_accept clock k is e \<or>
   (\<exists>pre i post. is = pre @ i # post \<and> wp_all_accept clock k pre e \<and>
      fst (wi_on_receive i (clock (k + length pre)) e) \<noteq> WAccept)"
proof (induction "is" arbitrary: k)
  case (Cons j "is")
  show ?case
  proof (cases "fst (wi_on_receive j (clock k) e) = WAccept")
    case True
    from Cons [of "Suc k"] show ?thesis
    proof
      assume "\<exists>pre i post. is = pre @ i # post \<and> wp_all_accept clock (Suc k) pre e \<and>
        fst (wi_on_receive i (clock (Suc k + length pre)) e) \<noteq> WAccept"
      then obtain pre i post where "is = pre @ i # post" "wp_all_accept clock (Suc k) pre e"
        "fst (wi_on_receive i (clock (Suc k + length pre)) e) \<noteq> WAccept" by blast
      with True have "j # is = (j # pre) @ i # post \<and> wp_all_accept clock k (j # pre) e \<and>
        fst (wi_on_receive i (clock (k + length (j # pre))) e) \<noteq> WAccept" by simp
      then show ?thesis by blast
    qed (use True in simp)
  next
    case False
    then have "j # is = [] @ j # is \<and> wp_all_accept clock k [] e \<and>
      fst (wi_on_receive j (clock (k + length [])) e) \<noteq> WAccept" by simp
    then show ?thesis by blast
  qed
qed simp

lemma max_body_size_receive [simp]:
  "wi_on_receive (max_body_size m) now e = (max_body_size_on_receive m e, max_body_size m)"
  by simp

lemma rate_limit_receive [simp]:
  "wi_on_receive (rate_limit s) now e =
     (fst (rlw_on_receive s now), rate_limit (snd (rlw_on_receive s now)))"
  by (simp add: map_prod_def split_beta)

section \<open>Properties\<close>

text \<open>The pipeline short-circuits: its result is either an acceptance, after every interceptor has
  accepted in turn, or the disposition and the name of the first interceptor that did not accept; the
  interceptors behind that one never see the envelope and keep their state.\<close>

theorem wp_short_circuit:
  "(wp_all_accept clock 0 p e \<and> wp_process clock p e = ((WAccept, None), wp_advance clock 0 p e)) \<or>
   (\<exists>pre i post. p = pre @ i # post \<and> wp_all_accept clock 0 pre e \<and>
      fst (wi_on_receive i (clock (length pre)) e) \<noteq> WAccept \<and>
      wp_process clock p e =
        ((fst (wi_on_receive i (clock (length pre)) e), Some (wi_name i)),
         wp_advance clock 0 pre e @ snd (wi_on_receive i (clock (length pre)) e) # post))"
proof -
  consider "wp_all_accept clock 0 p e"
    | pre i post where "p = pre @ i # post" "wp_all_accept clock 0 pre e"
        "fst (wi_on_receive i (clock (length pre)) e) \<noteq> WAccept"
    using wp_first_reject [of clock 0 p e] by auto
  then show ?thesis
  proof cases
    case 1
    then show ?thesis by (simp add: wp_process_def wp_process_from_accept)
  next
    case 2
    then show ?thesis using wp_process_from_stop [of clock 0 pre e i post] by (auto simp: wp_process_def)
  qed
qed

text \<open>A size check placed before the rate limiter protects its budget: an envelope with too large
  a body is rejected under the name of the size check and leaves the rate limiter as it
  was, while every other envelope is decided by the limiter.\<close>

theorem wp_size_check_first:
  "wp_process_envelope clock [max_body_size m, rate_limit s] e =
    (if length (we_body e) > unat m
     then (Inl (WireRejectError ''max-body-size''
             (''body size '' @ show_nat (length (we_body e)) @ '' exceeds limit '' @ show_nat (unat m))),
           [max_body_size m, rate_limit s])
     else (case fst (rlw_on_receive s (clock 1)) of
             WAccept \<Rightarrow> Inr Accepted
           | WReject r \<Rightarrow> Inl (WireRejectError ''rate-limit'' r)
           | WDelay d \<Rightarrow> Inr (Delayed d)
           | WDrop \<Rightarrow> Inr Dropped,
           [max_body_size m, rate_limit (snd (rlw_on_receive s (clock 1)))]))"
  by (auto simp: wp_process_envelope_def wp_process_def wp_result_def max_body_size_on_receive_def
      split_beta split: wire_disposition.splits)

end
