(* ===== verification/Outbound_Queue.thy ===== *)
theory Outbound_Queue
  imports Core_Types "HOL-Library.Product_Lexorder"
begin

text \<open>
  The per-destination outbound queue of \<^verbatim>\<open>dactor/src/outbound_queue.rs\<close>: five priority
  lanes or a pluggable comparer for tell and ask envelopes, a FIFO of its own for stream items, an
  optional capacity. Sizes and counters (\<^verbatim>\<open>usize\<close>) are natural numbers: they count
  envelopes held in memory, and the invariant shows that no subtraction goes below zero.
  A call that reads the clock takes the time as an argument.
\<close>

section \<open>Metadata and comparers\<close>

definition LANE_COUNT :: nat where
  "LANE_COUNT = 5"

definition PRIORITY_HEADER_NAME :: string where
  "PRIORITY_HEADER_NAME = ''dactor.Priority''"

datatype envelope_metadata = EnvelopeMetadata (em_priority: u8) (em_enqueued_at: instant)

type_synonym wire_comparer = "envelope_metadata \<Rightarrow> envelope_metadata \<Rightarrow> instant \<Rightarrow> ordering"

definition strict_priority_compare :: wire_comparer where
  "strict_priority_compare a b now = cmp (em_priority a) (em_priority b)"

definition aging_compare :: "duration \<Rightarrow> wire_comparer" where
  "aging_compare max_age a b now =
     (let a_aged = duration_since now (em_enqueued_at a) \<ge> max_age;
          b_aged = duration_since now (em_enqueued_at b) \<ge> max_age
      in case (a_aged, b_aged) of
           (True, False) \<Rightarrow> Less
         | (False, True) \<Rightarrow> Greater
         | (True, True) \<Rightarrow> cmp (em_enqueued_at a) (em_enqueued_at b)
         | (False, False) \<Rightarrow> cmp (em_priority a) (em_priority b))"

definition extract_priority :: "wire_envelope \<Rightarrow> u8" where
  "extract_priority envelope =
     (case wh_get (we_headers envelope) PRIORITY_HEADER_NAME of
        Some (b # _) \<Rightarrow> b
      | _ \<Rightarrow> priority_value NORMAL)"

definition lane_index_from_priority :: "u8 \<Rightarrow> nat" where
  "lane_index_from_priority p =
     (if p \<le> 63 then 0 else if p \<le> 127 then 1 else if p \<le> 191 then 2 else if p \<le> 254 then 3 else 4)"

section \<open>The queue\<close>

record outbound_queue =
  oq_lanes :: "wire_envelope list list"
  oq_max_consecutive :: nat
  oq_consecutive_from_lane :: nat
  oq_current_lane :: nat
  oq_comparer :: "wire_comparer option"
  oq_sorted :: "(wire_envelope \<times> envelope_metadata) list"
  oq_stream_fifo :: "wire_envelope list"
  oq_total :: nat
  oq_capacity :: nat

definition oq_new :: outbound_queue where
  "oq_new = \<lparr>oq_lanes = replicate LANE_COUNT [], oq_max_consecutive = 0,
     oq_consecutive_from_lane = 0, oq_current_lane = 0, oq_comparer = None, oq_sorted = [],
     oq_stream_fifo = [], oq_total = 0, oq_capacity = 0\<rparr>"

definition oq_with_config :: "nat \<Rightarrow> nat \<Rightarrow> outbound_queue" where
  "oq_with_config cap max_consecutive =
     oq_new\<lparr>oq_capacity := cap, oq_max_consecutive := max_consecutive\<rparr>"

definition oq_with_comparer :: "wire_comparer \<Rightarrow> nat \<Rightarrow> outbound_queue" where
  "oq_with_comparer c cap = oq_new\<lparr>oq_comparer := Some c, oq_capacity := cap\<rparr>"

definition oq_is_comparer_mode :: "outbound_queue \<Rightarrow> bool" where
  "oq_is_comparer_mode q \<longleftrightarrow> oq_comparer q \<noteq> None"

definition is_stream_mode :: "send_mode \<Rightarrow> bool" where
  "is_stream_mode m \<longleftrightarrow> m = Expand \<or> m = Reduce"

definition oq_push ::
  "outbound_queue \<Rightarrow> instant \<Rightarrow> wire_envelope \<Rightarrow> (wire_envelope + unit) \<times> outbound_queue" where
  "oq_push q now envelope =
     (if oq_capacity q > 0 \<and> oq_total q \<ge> oq_capacity q then (Inl envelope, q)
      else
        (let q1 =
           (if is_stream_mode (we_send_mode envelope)
            then q\<lparr>oq_stream_fifo := oq_stream_fifo q @ [envelope]\<rparr>
            else if oq_is_comparer_mode q
            then q\<lparr>oq_sorted := oq_sorted q @ [(envelope, EnvelopeMetadata (extract_priority envelope) now)]\<rparr>
            else (let lane = lane_index_from_priority (extract_priority envelope)
                  in q\<lparr>oq_lanes := (oq_lanes q)[lane := oq_lanes q ! lane @ [envelope]]\<rparr>))
         in (Inr (), q1\<lparr>oq_total := oq_total q1 + 1\<rparr>)))"

definition oq_pop_stream :: "outbound_queue \<Rightarrow> wire_envelope option \<times> outbound_queue" where
  "oq_pop_stream q =
     (case oq_stream_fifo q of
        [] \<Rightarrow> (None, q)
      | e # rest \<Rightarrow> (Some e, q\<lparr>oq_stream_fifo := rest, oq_total := oq_total q - 1\<rparr>))"

text \<open>The scan for the best entry: a later entry replaces the best so far only if it compares \<open>Less\<close>.\<close>

definition find_best :: "('a \<Rightarrow> 'a \<Rightarrow> bool) \<Rightarrow> 'a list \<Rightarrow> nat" where
  "find_best lt xs = foldl (\<lambda>best i. if lt (xs ! i) (xs ! best) then i else best) 0 [1..<length xs]"

definition remove_at :: "nat \<Rightarrow> 'a list \<Rightarrow> 'a list" where
  "remove_at i xs = take i xs @ drop (Suc i) xs"

definition oq_pop_comparer :: "outbound_queue \<Rightarrow> instant \<Rightarrow> wire_envelope option \<times> outbound_queue" where
  "oq_pop_comparer q now =
     (case oq_comparer q of
        None \<Rightarrow> (None, q)
      | Some compare \<Rightarrow>
          (if oq_sorted q = [] then (None, q)
           else
             (let best = find_best (\<lambda>a b. compare (snd a) (snd b) now = Less)
                           (oq_sorted q);
                  entry = oq_sorted q ! best
              in (Some (fst entry),
                  q\<lparr>oq_sorted := remove_at best (oq_sorted q), oq_total := oq_total q - 1\<rparr>))))"

text \<open>The first lane with an envelope, and the lanes without it.\<close>

fun pop_first_lane :: "'a list list \<Rightarrow> 'a option \<times> 'a list list" where
  "pop_first_lane [] = (None, [])"
| "pop_first_lane ([] # ls) = (let (r, ls') = pop_first_lane ls in (r, [] # ls'))"
| "pop_first_lane ((e # es) # ls) = (Some e, es # ls)"

definition oq_pop_strict :: "outbound_queue \<Rightarrow> wire_envelope option \<times> outbound_queue" where
  "oq_pop_strict q =
     (case pop_first_lane (oq_lanes q) of
        (None, _) \<Rightarrow> (None, q)
      | (Some e, lanes') \<Rightarrow> (Some e, q\<lparr>oq_lanes := lanes', oq_total := oq_total q - 1\<rparr>))"

definition oq_next_non_empty_lane :: "outbound_queue \<Rightarrow> nat \<Rightarrow> nat option" where
  "oq_next_non_empty_lane q start =
     find (\<lambda>idx. oq_lanes q ! idx \<noteq> []) (map (\<lambda>i. (start + i) mod LANE_COUNT) [0..<LANE_COUNT])"

definition oq_take_current :: "outbound_queue \<Rightarrow> wire_envelope option \<times> outbound_queue" where
  "oq_take_current q =
     (case oq_lanes q ! oq_current_lane q of
        [] \<Rightarrow> (None, q)
      | e # rest \<Rightarrow>
          (Some e, q\<lparr>oq_lanes := (oq_lanes q)[oq_current_lane q := rest],
             oq_total := oq_total q - 1,
             oq_consecutive_from_lane := oq_consecutive_from_lane q + 1\<rparr>))"

definition oq_pop_fair :: "outbound_queue \<Rightarrow> wire_envelope option \<times> outbound_queue" where
  "oq_pop_fair q =
     (if oq_consecutive_from_lane q \<ge> oq_max_consecutive q
      then (let q1 = q\<lparr>oq_consecutive_from_lane := 0\<rparr> in
            (case oq_next_non_empty_lane q1 (oq_current_lane q1 + 1) of
               None \<Rightarrow> (None, q1)
             | Some l \<Rightarrow> oq_take_current (q1\<lparr>oq_current_lane := l\<rparr>)))
      else if oq_lanes q ! oq_current_lane q = []
      then (let q1 = q\<lparr>oq_consecutive_from_lane := 0\<rparr> in
            (case oq_next_non_empty_lane q1 0 of
               None \<Rightarrow> (None, q1)
             | Some l \<Rightarrow> oq_take_current (q1\<lparr>oq_current_lane := l\<rparr>)))
      else oq_take_current q)"

definition oq_pop_priority :: "outbound_queue \<Rightarrow> instant \<Rightarrow> wire_envelope option \<times> outbound_queue" where
  "oq_pop_priority q now =
     (if oq_comparer q \<noteq> None then oq_pop_comparer q now
      else if oq_max_consecutive q = 0 then oq_pop_strict q
      else oq_pop_fair q)"

definition oq_has_priority :: "outbound_queue \<Rightarrow> bool" where
  "oq_has_priority q \<longleftrightarrow>
     (if oq_is_comparer_mode q then oq_sorted q \<noteq> [] else list_ex (\<lambda>l. l \<noteq> []) (oq_lanes q))"

definition oq_pop :: "outbound_queue \<Rightarrow> instant \<Rightarrow> wire_envelope option \<times> outbound_queue" where
  "oq_pop q now =
     (if oq_total q = 0 then (None, q)
      else
        (let has_stream = (oq_stream_fifo q \<noteq> []); has_priority = oq_has_priority q in
         if has_stream \<and> \<not> has_priority then oq_pop_stream q
         else if \<not> has_stream \<and> has_priority then oq_pop_priority q now
         else if oq_total q mod 2 = 0
         then (case oq_pop_stream q of
                 (Some e, q') \<Rightarrow> (Some e, q')
               | (None, q') \<Rightarrow> oq_pop_priority q' now)
         else (case oq_pop_priority q now of
                 (Some e, q') \<Rightarrow> (Some e, q')
               | (None, q') \<Rightarrow> oq_pop_stream q')))"

definition oq_peek :: "outbound_queue \<Rightarrow> wire_envelope option" where
  "oq_peek q =
     (case oq_stream_fifo q of
        e # _ \<Rightarrow> Some e
      | [] \<Rightarrow>
          (if oq_is_comparer_mode q
           then (if oq_sorted q = [] then None
                 else Some (fst (oq_sorted q ! find_best (\<lambda>a b. em_priority (snd a) < em_priority (snd b))
                                  (oq_sorted q))))
           else fst (pop_first_lane (oq_lanes q))))"

definition oq_drain_ordered :: "outbound_queue \<Rightarrow> wire_envelope list \<times> outbound_queue" where
  "oq_drain_ordered q =
     (oq_stream_fifo q @
        (if oq_is_comparer_mode q
         then map fst (sort_key (\<lambda>e. (em_priority (snd e), em_enqueued_at (snd e))) (oq_sorted q))
         else concat (oq_lanes q)),
      (if oq_is_comparer_mode q then q\<lparr>oq_sorted := []\<rparr>
       else q\<lparr>oq_lanes := map (\<lambda>_. []) (oq_lanes q)\<rparr>)
        \<lparr>oq_stream_fifo := [], oq_total := 0, oq_consecutive_from_lane := 0\<rparr>)"

definition oq_len :: "outbound_queue \<Rightarrow> nat" where
  "oq_len q = oq_total q"

definition oq_is_empty :: "outbound_queue \<Rightarrow> bool" where
  "oq_is_empty q \<longleftrightarrow> oq_total q = 0"

definition oq_lane_counts :: "outbound_queue \<Rightarrow> nat list" where
  "oq_lane_counts q = map length (oq_lanes q)"

definition oq_comparer_count :: "outbound_queue \<Rightarrow> nat" where
  "oq_comparer_count q = length (oq_sorted q)"

definition oq_fifo_count :: "outbound_queue \<Rightarrow> nat" where
  "oq_fifo_count q = length (oq_stream_fifo q)"

definition oq_clear :: "outbound_queue \<Rightarrow> outbound_queue" where
  "oq_clear q = q\<lparr>oq_lanes := map (\<lambda>_. []) (oq_lanes q), oq_sorted := [], oq_stream_fifo := [],
     oq_total := 0, oq_consecutive_from_lane := 0\<rparr>"

section \<open>Invariant and contents\<close>

definition oq_contents :: "outbound_queue \<Rightarrow> wire_envelope list" where
  "oq_contents q = oq_stream_fifo q @ concat (oq_lanes q) @ map fst (oq_sorted q)"

definition env_lane :: "wire_envelope \<Rightarrow> nat" where
  "env_lane e = lane_index_from_priority (extract_priority e)"

definition env_stream :: "wire_envelope \<Rightarrow> bool" where
  "env_stream e \<longleftrightarrow> is_stream_mode (we_send_mode e)"

definition oq_lanes_empty :: "outbound_queue \<Rightarrow> bool" where
  "oq_lanes_empty q \<longleftrightarrow> (\<forall>i < LANE_COUNT. oq_lanes q ! i = [])"

text \<open>The counters agree with the contents, and each mode uses its own store.\<close>

definition oq_shape :: "outbound_queue \<Rightarrow> bool" where
  "oq_shape q \<longleftrightarrow>
     length (oq_lanes q) = LANE_COUNT \<and> oq_current_lane q < LANE_COUNT \<and>
     oq_total q = length (oq_contents q) \<and>
     (oq_capacity q > 0 \<longrightarrow> oq_total q \<le> oq_capacity q) \<and>
     (oq_comparer q = None \<longrightarrow> oq_sorted q = []) \<and>
     (oq_comparer q \<noteq> None \<longrightarrow> oq_lanes_empty q)"

text \<open>Every envelope is in the store its send mode and priority call for.\<close>

definition oq_typed :: "outbound_queue \<Rightarrow> bool" where
  "oq_typed q \<longleftrightarrow>
     (\<forall>e \<in> set (oq_stream_fifo q). env_stream e) \<and>
     (\<forall>i < LANE_COUNT. \<forall>e \<in> set (oq_lanes q ! i). env_lane e = i \<and> \<not> env_stream e) \<and>
     (\<forall>e \<in> set (oq_sorted q). \<not> env_stream (fst e) \<and> em_priority (snd e) = extract_priority (fst e))"

definition oq_ok :: "outbound_queue \<Rightarrow> bool" where
  "oq_ok q \<longleftrightarrow> oq_shape q \<and> oq_typed q"

lemma LANE_COUNT_simps [simp]: "LANE_COUNT = 5"
  by (simp add: LANE_COUNT_def)

lemma lane_index_less [simp]: "lane_index_from_priority p < 5"
  by (simp add: lane_index_from_priority_def)

lemma env_lane_less [simp]: "env_lane e < 5"
  by (simp add: env_lane_def)

lemma set_concat_nth: "x \<in> set (concat ls) \<longleftrightarrow> (\<exists>i < length ls. x \<in> set (ls ! i))"
  by (metis UN_iff in_set_conv_nth set_concat)

text \<open>What changing one lane does to the flattened lanes.\<close>

lemma length_concat_upd:
  "i < length ls \<Longrightarrow> length (concat (ls[i := l])) + length (ls ! i) = length (concat ls) + length l"
proof (induction ls arbitrary: i)
  case (Cons a ls)
  show ?case
  proof (cases i)
    case (Suc j)
    then show ?thesis using Cons.IH [of j] Cons.prems by simp
  qed simp
qed simp

lemma mset_concat_upd:
  "i < length ls \<Longrightarrow> mset (concat (ls[i := l])) + mset (ls ! i) = mset (concat ls) + mset l"
proof (induction ls arbitrary: i)
  case (Cons a ls)
  show ?case
  proof (cases i)
    case 0
    then show ?thesis by (simp add: add.commute add.left_commute)
  next
    case (Suc j)
    then show ?thesis using Cons.IH [of j] Cons.prems by (simp add: add.assoc)
  qed
qed simp

lemma oq_lanes_empty_concat:
  "length (oq_lanes q) = LANE_COUNT \<Longrightarrow> oq_lanes_empty q \<longleftrightarrow> concat (oq_lanes q) = []"
  unfolding oq_lanes_empty_def by (metis concat_eq_Nil_conv in_set_conv_nth)

text \<open>The strict scan pops from the first non-empty lane.\<close>

lemma pop_first_lane_None: "fst (pop_first_lane ls) = None \<longleftrightarrow> concat ls = []"
  by (induction ls rule: pop_first_lane.induct) (auto simp: split_beta)

lemma pop_first_lane_Some:
  assumes "pop_first_lane ls = (Some e, ls')"
  shows "\<exists>i rest. i < length ls \<and> ls ! i = e # rest \<and> ls' = ls[i := rest] \<and> (\<forall>j < i. ls ! j = [])"
  using assms
proof (induction ls arbitrary: ls' rule: pop_first_lane.induct)
  case (2 ls)
  then obtain ls1 where r: "pop_first_lane ls = (Some e, ls1)" and ls': "ls' = [] # ls1"
    by (cases "pop_first_lane ls") auto
  from "2.IH" [OF r] obtain i rest where
    "i < length ls" "ls ! i = e # rest" "ls1 = ls[i := rest]" "\<forall>j < i. ls ! j = []" by blast
  then have "Suc i < length ([] # ls) \<and> ([] # ls) ! Suc i = e # rest \<and>
      ls' = ([] # ls)[Suc i := rest] \<and> (\<forall>j < Suc i. ([] # ls) ! j = [])"
    using ls' by (auto simp: nth_Cons split: nat.splits)
  then show ?case by blast
next
  case (3 e1 es ls)
  then have "0 < length ((e1 # es) # ls) \<and> ((e1 # es) # ls) ! 0 = e # es \<and>
      ls' = ((e1 # es) # ls)[0 := es] \<and> (\<forall>j < 0. ((e1 # es) # ls) ! j = [])" by simp
  then show ?case by blast
qed simp

text \<open>The rotating scan finds a non-empty lane exactly when there is one.\<close>

lemma next_lane_Some:
  "oq_next_non_empty_lane q start = Some l \<Longrightarrow> l < 5 \<and> oq_lanes q ! l \<noteq> []"
  by (auto simp: oq_next_non_empty_lane_def find_Some_iff)

lemma next_lane_None:
  assumes "oq_next_non_empty_lane q start = None" and "i < 5"
  shows "oq_lanes q ! i = []"
proof -
  let ?k = "(i + 5 - start mod 5) mod 5"
  have "start mod 5 + (i + 5 - start mod 5) = i + 5"
    using assms(2) mod_less_divisor [of 5 start] by linarith
  moreover have "(start + ?k) mod 5 = (start mod 5 + (i + 5 - start mod 5)) mod 5"
    by (simp only: mod_add_right_eq mod_add_left_eq)
  ultimately have "(start + ?k) mod 5 = i" using assms(2) by simp
  moreover have "(start + ?k) mod LANE_COUNT \<in> (\<lambda>k. (start + k) mod LANE_COUNT) ` set [0..<LANE_COUNT]"
    by (rule imageI) simp
  ultimately have "i \<in> set (map (\<lambda>k. (start + k) mod LANE_COUNT) [0..<LANE_COUNT])" by simp
  then show ?thesis
    using assms(1) by (auto simp: oq_next_non_empty_lane_def find_None_iff)
qed

text \<open>The scan for the best entry: nothing beats it, and it beats everything before it.\<close>

locale entry_order =
  fixes lt :: "'a \<Rightarrow> 'a \<Rightarrow> bool"
  assumes asym: "lt a b \<Longrightarrow> \<not> lt b a"
    and incomp_trans: "\<not> lt a b \<Longrightarrow> \<not> lt b c \<Longrightarrow> \<not> lt a c"
begin

lemma lt_not_lt_trans: "lt a b \<Longrightarrow> \<not> lt c b \<Longrightarrow> lt a c"
  using incomp_trans [of a c b] by blast

lemma trans: "lt a b \<Longrightarrow> lt b c \<Longrightarrow> lt a c"
  using asym lt_not_lt_trans by blast

lemma find_best_upto:
  assumes "0 < n" and "n \<le> length xs"
    and "b = foldl (\<lambda>best i. if lt (xs ! i) (xs ! best) then i else best) 0 [1..<n]"
  shows "b < n \<and> (\<forall>j < n. \<not> lt (xs ! j) (xs ! b)) \<and> (\<forall>j < b. lt (xs ! b) (xs ! j))"
  using assms
proof (induction n arbitrary: b)
  case (Suc n)
  show ?case
  proof (cases "n = 0")
    case True
    then show ?thesis using asym by (auto simp: Suc.prems(3))
  next
    case False
    define b' where "b' = foldl (\<lambda>best i. if lt (xs ! i) (xs ! best) then i else best) 0 [1..<n]"
    have ih: "b' < n" "\<forall>j < n. \<not> lt (xs ! j) (xs ! b')" "\<forall>j < b'. lt (xs ! b') (xs ! j)"
      using Suc.IH [OF _ _ b'_def] False Suc.prems(2) by auto
    have b: "b = (if lt (xs ! n) (xs ! b') then n else b')"
      using False by (simp add: Suc.prems(3) b'_def)
    show ?thesis
    proof (cases "lt (xs ! n) (xs ! b')")
      case True
      then have "\<forall>j < n. lt (xs ! n) (xs ! j)" using ih(2) lt_not_lt_trans by blast
      then show ?thesis using True b asym by (auto simp: less_Suc_eq)
    next
      case False
      then show ?thesis using ih b by (auto simp: less_Suc_eq)
    qed
  qed
qed simp

lemma find_best:
  assumes "xs \<noteq> []"
  shows "find_best lt xs < length xs"
    and "j < length xs \<Longrightarrow> \<not> lt (xs ! j) (xs ! find_best lt xs)"
    and "j < find_best lt xs \<Longrightarrow> lt (xs ! find_best lt xs) (xs ! j)"
  using find_best_upto [of "length xs" xs "find_best lt xs"] assms by (auto simp: find_best_def)

end

section \<open>What a pop removes\<close>

definition after_pop :: "outbound_queue \<Rightarrow> outbound_queue \<Rightarrow> bool" where
  "after_pop q q' \<longleftrightarrow> oq_capacity q' = oq_capacity q \<and> oq_comparer q' = oq_comparer q \<and>
     oq_max_consecutive q' = oq_max_consecutive q \<and> oq_total q' = oq_total q - 1 \<and>
     oq_current_lane q' < LANE_COUNT"

inductive oq_removes :: "outbound_queue \<Rightarrow> wire_envelope \<Rightarrow> outbound_queue \<Rightarrow> bool" where
  from_stream: "oq_stream_fifo q = e # oq_stream_fifo q' \<Longrightarrow> oq_lanes q' = oq_lanes q \<Longrightarrow>
     oq_sorted q' = oq_sorted q \<Longrightarrow> after_pop q q' \<Longrightarrow> oq_removes q e q'"
| from_lane: "i < LANE_COUNT \<Longrightarrow> oq_lanes q ! i = e # rest \<Longrightarrow> oq_lanes q' = (oq_lanes q)[i := rest] \<Longrightarrow>
     oq_stream_fifo q' = oq_stream_fifo q \<Longrightarrow> oq_sorted q' = oq_sorted q \<Longrightarrow> after_pop q q' \<Longrightarrow>
     oq_removes q e q'"
| from_sorted: "i < length (oq_sorted q) \<Longrightarrow> fst (oq_sorted q ! i) = e \<Longrightarrow>
     oq_sorted q' = remove_at i (oq_sorted q) \<Longrightarrow> oq_lanes q' = oq_lanes q \<Longrightarrow>
     oq_stream_fifo q' = oq_stream_fifo q \<Longrightarrow> after_pop q q' \<Longrightarrow> oq_removes q e q'"

lemma remove_at_mset: "i < length xs \<Longrightarrow> mset xs = add_mset (xs ! i) (mset (remove_at i xs))"
proof -
  assume "i < length xs"
  then have "mset xs = mset (take i xs @ xs ! i # drop (Suc i) xs)" by (simp add: id_take_nth_drop [symmetric])
  then show ?thesis by (simp add: remove_at_def)
qed

lemma set_remove_at: "set (remove_at i xs) \<subseteq> set xs"
  using set_take_subset [of i xs] set_drop_subset [of "Suc i" xs] by (auto simp: remove_at_def)

lemma oq_removes_contents:
  assumes "oq_removes q e q'" and "oq_ok q"
  shows "mset (oq_contents q) = add_mset e (mset (oq_contents q'))"
  using assms(1)
proof cases
  case from_stream
  then show ?thesis by (simp add: oq_contents_def)
next
  case (from_lane i rest)
  then have "i < length (oq_lanes q)" using assms(2) by (simp add: oq_ok_def oq_shape_def)
  from mset_concat_upd [OF this, of rest] show ?thesis
    using from_lane by (simp add: oq_contents_def)
next
  case (from_sorted i)
  then show ?thesis using arg_cong [OF remove_at_mset, of i "oq_sorted q" "image_mset fst"]
    by (simp add: oq_contents_def)
qed

lemma oq_removes_total:
  assumes "oq_removes q e q'" and "oq_ok q"
  shows "oq_total q' = length (oq_contents q')" and "oq_total q = Suc (oq_total q')"
proof -
  have "size (mset (oq_contents q)) = Suc (size (mset (oq_contents q')))"
    using oq_removes_contents [OF assms] by simp
  moreover have "oq_total q' = oq_total q - 1"
    using assms(1) by cases (simp_all add: after_pop_def)
  moreover have "oq_total q = length (oq_contents q)" using assms(2) by (simp add: oq_ok_def oq_shape_def)
  ultimately show "oq_total q' = length (oq_contents q')" "oq_total q = Suc (oq_total q')"
    by simp_all
qed

lemma oq_removes_shape:
  assumes r: "oq_removes q e q'" and ok: "oq_ok q"
  shows "oq_shape q'"
proof -
  note tot = oq_removes_total [OF r ok]
  have sh: "oq_shape q" using ok by (simp add: oq_ok_def)
  have cfg: "after_pop q q'" using r by cases
  have "length (oq_lanes q') = LANE_COUNT" using r sh by cases (simp_all add: oq_shape_def)
  moreover have "oq_comparer q = None \<longrightarrow> oq_sorted q' = []"
    using r sh by cases (auto simp: oq_shape_def)
  moreover have "oq_comparer q \<noteq> None \<longrightarrow> oq_lanes_empty q'"
    using r sh by cases (auto simp: oq_shape_def oq_lanes_empty_def)
  ultimately show ?thesis
    using sh cfg tot by (auto simp: oq_shape_def after_pop_def)
qed

lemma oq_removes_typed:
  assumes r: "oq_removes q e q'" and ok: "oq_ok q"
  shows "oq_typed q'"
proof -
  have len: "length (oq_lanes q) = LANE_COUNT" using ok by (simp add: oq_ok_def oq_shape_def)
  have "set (oq_stream_fifo q') \<subseteq> set (oq_stream_fifo q)" using r by cases auto
  moreover have "set (oq_sorted q') \<subseteq> set (oq_sorted q)"
    using r by cases (auto dest: set_remove_at [THEN subsetD])
  moreover have "\<forall>j < LANE_COUNT. set (oq_lanes q' ! j) \<subseteq> set (oq_lanes q ! j)"
    using r len by cases (auto simp: nth_list_update)
  ultimately show ?thesis using ok unfolding oq_ok_def oq_typed_def by blast
qed

lemma oq_removes_ok: "oq_removes q e q' \<Longrightarrow> oq_ok q \<Longrightarrow> oq_ok q'"
  by (simp add: oq_ok_def [of q'] oq_removes_shape oq_removes_typed)

lemma oq_ok_lanes: "oq_ok q \<Longrightarrow> length (oq_lanes q) = LANE_COUNT \<and> oq_current_lane q < LANE_COUNT"
  by (simp add: oq_ok_def oq_shape_def)

lemma oq_pop_stream_removes:
  "oq_pop_stream q = (Some e, q') \<Longrightarrow> oq_ok q \<Longrightarrow> oq_removes q e q'"
  using oq_ok_lanes [of q]
  by (intro oq_removes.from_stream) (auto simp: oq_pop_stream_def after_pop_def split: list.splits)

lemma oq_pop_strict_removes:
  assumes "oq_pop_strict q = (Some e, q')" and "oq_ok q"
  shows "oq_removes q e q'"
proof -
  from assms(1) obtain ls where ls: "pop_first_lane (oq_lanes q) = (Some e, ls)"
    and q': "q' = q\<lparr>oq_lanes := ls, oq_total := oq_total q - 1\<rparr>"
    by (auto simp: oq_pop_strict_def split: prod.splits option.splits)
  from pop_first_lane_Some [OF ls] obtain i rest where
    "i < length (oq_lanes q)" "oq_lanes q ! i = e # rest" "ls = (oq_lanes q)[i := rest]" by blast
  then show ?thesis using oq_ok_lanes [OF assms(2)] q'
    by (intro oq_removes.from_lane [of i]) (auto simp: after_pop_def)
qed

lemma oq_take_current_removes:
  assumes "oq_take_current (q\<lparr>oq_consecutive_from_lane := c, oq_current_lane := l\<rparr>) = (Some e, q')"
    and "l < LANE_COUNT"
  shows "oq_removes q e q'"
proof -
  from assms(1) obtain rest where r: "oq_lanes q ! l = e # rest"
    by (auto simp: oq_take_current_def split: list.splits)
  show ?thesis
    by (rule oq_removes.from_lane [OF assms(2) r])
      (use assms r in \<open>auto simp: oq_take_current_def after_pop_def\<close>)
qed

lemma oq_pop_fair_cases:
  assumes "oq_ok q" and "oq_pop_fair q = (r, q')"
  shows "(\<exists>c l. l < LANE_COUNT \<and> oq_lanes q ! l \<noteq> [] \<and>
      oq_take_current (q\<lparr>oq_consecutive_from_lane := c, oq_current_lane := l\<rparr>) = (r, q')) \<or>
    (r = None \<and> oq_lanes_empty q)"
proof -
  let ?q = "q\<lparr>oq_consecutive_from_lane := 0\<rparr>"
  have next_lane: "(\<exists>l. oq_next_non_empty_lane ?q st = Some l \<and> l < LANE_COUNT \<and> oq_lanes q ! l \<noteq> []) \<or>
      oq_next_non_empty_lane ?q st = None \<and> oq_lanes_empty q" for st
    using next_lane_None [of ?q st] next_lane_Some [of ?q st]
    by (cases "oq_next_non_empty_lane ?q st") (auto simp: oq_lanes_empty_def)
  show ?thesis
  proof (cases "oq_consecutive_from_lane q < oq_max_consecutive q \<and> oq_lanes q ! oq_current_lane q \<noteq> []")
    case True
    then have "oq_take_current (q\<lparr>oq_consecutive_from_lane := oq_consecutive_from_lane q,
        oq_current_lane := oq_current_lane q\<rparr>) = (r, q')"
      using assms(2) by (simp add: oq_pop_fair_def)
    with True oq_ok_lanes [OF assms(1)] show ?thesis by blast
  next
    case False
    then obtain st where pf: "oq_pop_fair q = (case oq_next_non_empty_lane ?q st of
        None \<Rightarrow> (None, ?q) | Some l \<Rightarrow> oq_take_current (?q\<lparr>oq_current_lane := l\<rparr>))"
      by (cases "oq_max_consecutive q \<le> oq_consecutive_from_lane q")
        (auto simp: oq_pop_fair_def Let_def)
    from next_lane [of st] show ?thesis
    proof
      assume "\<exists>l. oq_next_non_empty_lane ?q st = Some l \<and> l < LANE_COUNT \<and> oq_lanes q ! l \<noteq> []"
      then obtain l where "oq_next_non_empty_lane ?q st = Some l" "l < LANE_COUNT" "oq_lanes q ! l \<noteq> []"
        by blast
      then show ?thesis using pf assms(2) by auto
    next
      assume "oq_next_non_empty_lane ?q st = None \<and> oq_lanes_empty q"
      then show ?thesis using pf assms(2) by auto
    qed
  qed
qed

lemma oq_take_current_Some:
  "oq_lanes q ! l \<noteq> [] \<Longrightarrow>
   fst (oq_take_current (q\<lparr>oq_consecutive_from_lane := c, oq_current_lane := l\<rparr>)) \<noteq> None"
  by (auto simp: oq_take_current_def split: list.splits)

lemma oq_pop_fair_removes:
  "oq_ok q \<Longrightarrow> oq_pop_fair q = (Some e, q') \<Longrightarrow> oq_removes q e q'"
  using oq_pop_fair_cases [of q "Some e" q'] oq_take_current_removes by auto

lemma oq_pop_fair_None:
  "oq_ok q \<Longrightarrow> fst (oq_pop_fair q) = None \<longleftrightarrow> oq_lanes_empty q"
proof -
  assume ok: "oq_ok q"
  from oq_pop_fair_cases [OF ok surjective_pairing] show ?thesis
  proof (elim disjE exE conjE)
    fix c l
    assume "l < LANE_COUNT" and l: "oq_lanes q ! l \<noteq> []"
      and t: "oq_take_current (q\<lparr>oq_consecutive_from_lane := c, oq_current_lane := l\<rparr>) =
        (fst (oq_pop_fair q), snd (oq_pop_fair q))"
    then have "fst (oq_pop_fair q) \<noteq> None" using oq_take_current_Some [OF l, of c] by simp
    moreover have "\<not> oq_lanes_empty q" using \<open>l < LANE_COUNT\<close> l by (auto simp: oq_lanes_empty_def)
    ultimately show ?thesis by simp
  qed simp_all
qed

lemma find_best_less: "xs \<noteq> [] \<Longrightarrow> find_best lt xs < length xs"
proof -
  have "foldl (\<lambda>best i. if lt (xs ! i) (xs ! best) then i else best) b is < length xs"
    if "b < length xs" "\<forall>i \<in> set is. i < length xs" for b "is"
    using that by (induction "is" arbitrary: b) auto
  then show "xs \<noteq> [] \<Longrightarrow> ?thesis" by (simp add: find_best_def)
qed

lemma oq_pop_comparer_removes:
  assumes "oq_ok q" and "oq_pop_comparer q now = (Some e, q')"
  shows "oq_removes q e q'"
proof -
  from assms(2) obtain c where c: "oq_comparer q = Some c" and ne: "oq_sorted q \<noteq> []"
    by (auto simp: oq_pop_comparer_def split: option.splits if_splits)
  show ?thesis
    by (rule oq_removes.from_sorted [OF find_best_less [OF ne]])
      (use assms c ne oq_ok_lanes [OF assms(1)] in
        \<open>auto simp: oq_pop_comparer_def Let_def after_pop_def\<close>)
qed

lemma oq_pop_strict_None:
  "oq_ok q \<Longrightarrow> fst (oq_pop_strict q) = None \<longleftrightarrow> oq_lanes_empty q"
  using pop_first_lane_None [of "oq_lanes q"] oq_lanes_empty_concat [of q] oq_ok_lanes [of q]
  by (auto simp: oq_pop_strict_def split: prod.splits option.splits)

lemma oq_pop_priority_removes:
  "oq_ok q \<Longrightarrow> oq_pop_priority q now = (Some e, q') \<Longrightarrow> oq_removes q e q'"
  by (auto simp: oq_pop_priority_def oq_pop_comparer_removes oq_pop_strict_removes
      oq_pop_fair_removes split: if_splits)

lemma oq_has_priority_iff:
  assumes "oq_ok q"
  shows "oq_has_priority q \<longleftrightarrow> oq_sorted q \<noteq> [] \<or> \<not> oq_lanes_empty q"
proof -
  have "list_ex (\<lambda>l. l \<noteq> []) (oq_lanes q) \<longleftrightarrow> \<not> oq_lanes_empty q"
    using oq_ok_lanes [OF assms] oq_lanes_empty_concat [of q] by (auto simp: list_ex_iff)
  then show ?thesis
    using assms by (auto simp: oq_has_priority_def oq_is_comparer_mode_def oq_ok_def oq_shape_def)
qed

lemma oq_pop_priority_None:
  assumes "oq_ok q"
  shows "fst (oq_pop_priority q now) = None \<longleftrightarrow> \<not> oq_has_priority q"
proof (cases "oq_comparer q")
  case None
  then have "oq_sorted q = []" using assms by (simp add: oq_ok_def oq_shape_def)
  then show ?thesis using None assms
    by (simp add: oq_pop_priority_def oq_has_priority_iff oq_pop_strict_None oq_pop_fair_None)
next
  case (Some c)
  then show ?thesis
    by (simp add: oq_pop_priority_def oq_pop_comparer_def oq_has_priority_def
        oq_is_comparer_mode_def Let_def)
qed

lemma oq_contents_Nil:
  "oq_ok q \<Longrightarrow> oq_contents q = [] \<longleftrightarrow> oq_stream_fifo q = [] \<and> \<not> oq_has_priority q"
  using oq_lanes_empty_concat [of q] oq_ok_lanes [of q] oq_has_priority_iff [of q]
  by (auto simp: oq_contents_def)

lemma oq_total_contents: "oq_ok q \<Longrightarrow> oq_total q = length (oq_contents q)"
  by (simp add: oq_ok_def oq_shape_def)

text \<open>The whole pop: it removes one envelope, and returns nothing only from an empty queue.\<close>

lemma oq_pop_removes:
  assumes "oq_ok q" and "oq_pop q now = (Some e, q')"
  shows "oq_removes q e q'"
proof -
  have "oq_pop_stream q = (Some e, q') \<or> oq_pop_priority q now = (Some e, q')"
    using assms oq_pop_priority_None [OF assms(1), of now] oq_contents_Nil [OF assms(1)]
      oq_total_contents [OF assms(1)]
    by (auto simp: oq_pop_def Let_def oq_pop_stream_def split: if_splits option.splits list.splits
        prod.splits)
  then show ?thesis using oq_pop_stream_removes oq_pop_priority_removes assms(1) by blast
qed

lemma oq_pop_None:
  assumes "oq_ok q"
  shows "fst (oq_pop q now) = None \<longleftrightarrow> oq_contents q = []"
  using assms oq_pop_priority_None [OF assms, of now] oq_contents_Nil [OF assms]
    oq_total_contents [OF assms]
  by (auto simp: oq_pop_def Let_def oq_pop_stream_def split: option.splits list.splits prod.splits)

lemma oq_pop_empty: "oq_ok q \<Longrightarrow> oq_contents q = [] \<Longrightarrow> oq_pop q now = (None, q)"
  by (simp add: oq_pop_def oq_total_contents)

section \<open>Push, drain and clear\<close>

definition oq_full :: "outbound_queue \<Rightarrow> bool" where
  "oq_full q \<longleftrightarrow> oq_capacity q > 0 \<and> oq_total q \<ge> oq_capacity q"

lemma oq_push_full: "oq_full q \<Longrightarrow> oq_push q now e = (Inl e, q)"
  by (simp add: oq_push_def oq_full_def)

lemma oq_push_accept: "\<not> oq_full q \<Longrightarrow> fst (oq_push q now e) = Inr ()"
  by (auto simp: oq_push_def oq_full_def Let_def)

lemma oq_push_stores:
  assumes "\<not> oq_full q"
  shows "oq_stream_fifo (snd (oq_push q now e)) = oq_stream_fifo q @ (if env_stream e then [e] else [])"
    and "length (oq_lanes q) = LANE_COUNT \<Longrightarrow> i < LANE_COUNT \<Longrightarrow>
      oq_lanes (snd (oq_push q now e)) ! i =
        oq_lanes q ! i @ (if \<not> env_stream e \<and> oq_comparer q = None \<and> env_lane e = i then [e] else [])"
    and "oq_sorted (snd (oq_push q now e)) = oq_sorted q @
        (if \<not> env_stream e \<and> oq_comparer q \<noteq> None
         then [(e, EnvelopeMetadata (extract_priority e) now)] else [])"
    and "length (oq_lanes (snd (oq_push q now e))) = length (oq_lanes q)"
    and "oq_total (snd (oq_push q now e)) = oq_total q + 1"
    and "oq_capacity (snd (oq_push q now e)) = oq_capacity q"
    and "oq_comparer (snd (oq_push q now e)) = oq_comparer q"
    and "oq_max_consecutive (snd (oq_push q now e)) = oq_max_consecutive q"
    and "oq_current_lane (snd (oq_push q now e)) = oq_current_lane q"
    and "oq_consecutive_from_lane (snd (oq_push q now e)) = oq_consecutive_from_lane q"
  using assms
  by (auto simp: oq_push_def oq_full_def Let_def env_stream_def env_lane_def
      oq_is_comparer_mode_def nth_list_update)

lemma oq_push_contents:
  assumes "oq_ok q" and "\<not> oq_full q"
  shows "mset (oq_contents (snd (oq_push q now e))) = add_mset e (mset (oq_contents q))"
proof -
  have len: "env_lane e < length (oq_lanes q)" using oq_ok_lanes [OF assms(1)] by simp
  from mset_concat_upd [OF this, of "oq_lanes q ! env_lane e @ [e]"]
  have "mset (concat ((oq_lanes q)[env_lane e := oq_lanes q ! env_lane e @ [e]])) =
      add_mset e (mset (concat (oq_lanes q)))" by simp
  then show ?thesis
    using assms(2) by (simp add: oq_push_def oq_full_def Let_def oq_contents_def env_lane_def)
qed

lemma oq_push_ok:
  assumes ok: "oq_ok q"
  shows "oq_ok (snd (oq_push q now e))"
proof (cases "oq_full q")
  case True
  then show ?thesis using ok by (simp add: oq_push_full)
next
  case False
  let ?q = "snd (oq_push q now e)"
  note st = oq_push_stores [OF False, where now = now and e = e] and ln = oq_ok_lanes [OF ok]
  have "size (mset (oq_contents ?q)) = Suc (size (mset (oq_contents q)))"
    using oq_push_contents [OF ok False] by simp
  then have "oq_total ?q = length (oq_contents ?q)"
    using oq_total_contents [OF ok] st(5) by simp
  moreover have "oq_capacity ?q > 0 \<longrightarrow> oq_total ?q \<le> oq_capacity ?q"
    using False st(5,6) by (auto simp: oq_full_def)
  ultimately have "oq_shape ?q"
    using ok ln st by (auto simp: oq_ok_def oq_shape_def oq_lanes_empty_def)
  moreover have "oq_typed ?q"
    using ok ln st by (auto simp: oq_ok_def oq_typed_def)
  ultimately show ?thesis by (simp add: oq_ok_def)
qed

lemma oq_clear_ok: "oq_ok q \<Longrightarrow> oq_ok (oq_clear q)"
  using oq_ok_lanes [of q]
  by (auto simp: oq_ok_def oq_shape_def oq_typed_def oq_clear_def oq_contents_def oq_lanes_empty_def
      concat_eq_Nil_conv)

lemma oq_drain_ok: "oq_ok q \<Longrightarrow> oq_ok (snd (oq_drain_ordered q))"
  using oq_ok_lanes [of q] oq_lanes_empty_concat [of q]
  by (auto simp: oq_ok_def oq_shape_def oq_typed_def oq_drain_ordered_def oq_contents_def
      oq_lanes_empty_def oq_is_comparer_mode_def concat_eq_Nil_conv)

lemma oq_ok_modes:
  assumes "oq_ok q"
  shows "oq_comparer q = None \<Longrightarrow> oq_sorted q = []" and "oq_comparer q \<noteq> None \<Longrightarrow> concat (oq_lanes q) = []"
  using assms oq_lanes_empty_concat [of q] by (simp_all add: oq_ok_def oq_shape_def)

lemma oq_ok_stream:
  assumes "oq_ok q"
  shows "filter env_stream (oq_stream_fifo q) = oq_stream_fifo q"
    and "filter env_stream (concat (oq_lanes q)) = []"
    and "filter (\<lambda>e. \<not> env_stream e \<and> P e) (oq_stream_fifo q) = []"
    and "\<forall>e \<in> set (oq_sorted q). \<not> env_stream (fst e)"
proof -
  have "\<forall>e \<in> set (concat (oq_lanes q)). \<not> env_stream e"
    using assms oq_ok_lanes [OF assms] unfolding set_concat_nth Ball_def oq_ok_def oq_typed_def by metis
  then show "filter env_stream (concat (oq_lanes q)) = []" by (simp add: filter_empty_conv)
qed (use assms in \<open>auto simp: oq_ok_def oq_typed_def filter_empty_conv intro: filter_True\<close>)

lemma oq_drain_contents: "oq_ok q \<Longrightarrow> mset (fst (oq_drain_ordered q)) = mset (oq_contents q)"
  using oq_ok_modes [of q]
  by (cases "oq_comparer q") (simp_all add: oq_drain_ordered_def oq_contents_def oq_is_comparer_mode_def)

lemma oq_drain_stream:
  "oq_ok q \<Longrightarrow> filter env_stream (fst (oq_drain_ordered q)) = oq_stream_fifo q"
  using oq_ok_stream [of q]
  by (cases "oq_is_comparer_mode q") (simp_all add: oq_drain_ordered_def filter_empty_conv)

lemma filter_lane:
  assumes "\<forall>j < length ls. \<forall>e \<in> set (ls ! j). P e \<longleftrightarrow> j = i" and "i < length ls"
  shows "filter P (concat ls) = ls ! i"
proof -
  have "filter P (ls ! j) = (if j = i then ls ! j else [])" if "j < length ls" for j
    using assms(1) that by (simp add: filter_empty_conv)
  then have "map (filter P) ls = map (\<lambda>j. if j = i then ls ! j else []) [0..<length ls]"
    by (intro nth_equalityI) (simp_all del: map_eq_conv)
  also have "\<dots> = map (\<lambda>j. if j = i then ls ! j else []) ([0..<i] @ i # [Suc i..<length ls])"
    using assms(2) upt_add_eq_append [of 0 i "length ls - i"] upt_conv_Cons [of i "length ls"] by simp
  finally have "filter P (concat ls) = concat (map (\<lambda>j. if j = i then ls ! j else []) [0..<i]) @ ls ! i @
      concat (map (\<lambda>j. if j = i then ls ! j else []) [Suc i..<length ls])"
    by (simp add: filter_concat)
  moreover have "concat (map (\<lambda>j. if j = i then ls ! j else []) [0..<i]) = []"
    and "concat (map (\<lambda>j. if j = i then ls ! j else []) [Suc i..<length ls]) = []"
    by (simp_all add: concat_eq_Nil_conv)
  ultimately show ?thesis by simp
qed

lemma oq_concat_lane:
  assumes "oq_ok q" and "i < LANE_COUNT"
  shows "filter (\<lambda>e. \<not> env_stream e \<and> env_lane e = i) (concat (oq_lanes q)) = oq_lanes q ! i"
  using assms oq_ok_lanes [OF assms(1)] by (intro filter_lane) (auto simp: oq_ok_def oq_typed_def)

lemma oq_drain_lane:
  assumes "oq_ok q" and "oq_comparer q = None" and "i < LANE_COUNT"
  shows "filter (\<lambda>e. \<not> env_stream e \<and> env_lane e = i) (fst (oq_drain_ordered q)) = oq_lanes q ! i"
  using assms(2) oq_concat_lane [OF assms(1,3)] oq_ok_stream(3) [OF assms(1)]
  by (simp add: oq_drain_ordered_def oq_is_comparer_mode_def)

lemma oq_contents_classes:
  assumes "oq_ok q"
  shows "filter env_stream (oq_contents q) = oq_stream_fifo q"
    and "oq_comparer q = None \<Longrightarrow> i < LANE_COUNT \<Longrightarrow>
      filter (\<lambda>e. \<not> env_stream e \<and> env_lane e = i) (oq_contents q) = oq_lanes q ! i"
  using oq_ok_stream [OF assms] oq_ok_modes(1) [OF assms] oq_concat_lane [OF assms]
  by (simp_all add: oq_contents_def filter_empty_conv)

text \<open>What a drain and a clear leave: an empty queue of the same mode.\<close>

definition oq_emptied :: "outbound_queue \<Rightarrow> outbound_queue \<Rightarrow> bool" where
  "oq_emptied q q' \<longleftrightarrow> oq_contents q' = [] \<and> oq_comparer q' = oq_comparer q \<and>
     oq_max_consecutive q' = oq_max_consecutive q \<and> oq_capacity q' = oq_capacity q"

lemma oq_drain_emptied: "oq_ok q \<Longrightarrow> oq_emptied q (snd (oq_drain_ordered q))"
  using oq_ok_modes [of q]
  by (cases "oq_comparer q")
    (simp_all add: oq_emptied_def oq_drain_ordered_def oq_contents_def oq_is_comparer_mode_def)

lemma oq_clear_emptied: "oq_emptied q (oq_clear q)"
  by (auto simp: oq_emptied_def oq_clear_def oq_contents_def concat_eq_Nil_conv)

lemma oq_emptied_stores:
  "oq_emptied q q' \<Longrightarrow> oq_ok q' \<Longrightarrow> i < LANE_COUNT \<Longrightarrow> oq_lanes q' ! i = []"
  "oq_emptied q q' \<Longrightarrow> oq_stream_fifo q' = []"
  using oq_ok_lanes [of q'] by (auto simp: oq_emptied_def oq_contents_def concat_eq_Nil_conv)

lemma oq_new_ok: "oq_ok oq_new" "oq_ok (oq_with_config cap m)" "oq_ok (oq_with_comparer c cap)"
  by (simp_all add: oq_ok_def oq_shape_def oq_typed_def oq_new_def oq_with_config_def
      oq_with_comparer_def oq_contents_def oq_lanes_empty_def)

section \<open>Histories\<close>

text \<open>Every call that changes a queue. An envelope leaves it by being handed to the caller of
  \<open>pop\<close> or \<open>drain_ordered\<close>, or by being discarded by \<open>clear\<close>.\<close>

datatype oq_op = Push instant wire_envelope | Pop instant | Drain | Clear

datatype oq_exit = Handed (oe_env: wire_envelope) | Discarded (oe_env: wire_envelope)

text \<open>The envelopes a history accepted, those that left and how, both in order, and the queue after it.\<close>

fun oq_run :: "outbound_queue \<Rightarrow> oq_op list \<Rightarrow> wire_envelope list \<times> oq_exit list \<times> outbound_queue" where
  "oq_run q [] = ([], [], q)"
| "oq_run q (Push now e # ops) =
     (case oq_push q now e of (r, q') \<Rightarrow>
       (case oq_run q' ops of (acc, out, q2) \<Rightarrow>
          ((case r of Inl _ \<Rightarrow> acc | Inr _ \<Rightarrow> e # acc), out, q2)))"
| "oq_run q (Pop now # ops) =
     (case oq_pop q now of (r, q') \<Rightarrow>
       (case oq_run q' ops of (acc, out, q2) \<Rightarrow>
          (acc, (case r of None \<Rightarrow> out | Some e \<Rightarrow> Handed e # out), q2)))"
| "oq_run q (Drain # ops) =
     (case oq_drain_ordered q of (es, q') \<Rightarrow>
       (case oq_run q' ops of (acc, out, q2) \<Rightarrow> (acc, map Handed es @ out, q2)))"
| "oq_run q (Clear # ops) =
     (case oq_run (oq_clear q) ops of (acc, out, q2) \<Rightarrow> (acc, map Discarded (oq_contents q) @ out, q2))"

abbreviation oq_accepted :: "outbound_queue \<Rightarrow> oq_op list \<Rightarrow> wire_envelope list" where
  "oq_accepted q ops \<equiv> fst (oq_run q ops)"

abbreviation oq_exits :: "outbound_queue \<Rightarrow> oq_op list \<Rightarrow> oq_exit list" where
  "oq_exits q ops \<equiv> fst (snd (oq_run q ops))"

abbreviation oq_left :: "outbound_queue \<Rightarrow> oq_op list \<Rightarrow> wire_envelope list" where
  "oq_left q ops \<equiv> map oe_env (oq_exits q ops)"

abbreviation oq_popped :: "outbound_queue \<Rightarrow> oq_op list \<Rightarrow> wire_envelope list" where
  "oq_popped q ops \<equiv> map oe_env (filter is_Handed (oq_exits q ops))"

abbreviation oq_cleared :: "outbound_queue \<Rightarrow> oq_op list \<Rightarrow> wire_envelope list" where
  "oq_cleared q ops \<equiv> map oe_env (filter (\<lambda>x. \<not> is_Handed x) (oq_exits q ops))"

abbreviation oq_final :: "outbound_queue \<Rightarrow> oq_op list \<Rightarrow> outbound_queue" where
  "oq_final q ops \<equiv> snd (snd (oq_run q ops))"

lemma oq_pop_ok: "oq_ok q \<Longrightarrow> oq_ok (snd (oq_pop q now))"
  using oq_pop_removes [of q now] oq_removes_ok oq_pop_None [of q now] oq_pop_empty [of q now]
  by (cases "oq_pop q now"; cases "fst (oq_pop q now)") auto

text \<open>What one pop does to the store of each class of envelopes.\<close>

lemma oq_removes_stream:
  "oq_removes q e q' \<Longrightarrow> oq_ok q \<Longrightarrow> oq_stream_fifo q = (if env_stream e then [e] else []) @ oq_stream_fifo q'"
  by (cases rule: oq_removes.cases) (auto simp: oq_ok_def oq_typed_def)

lemma oq_removes_lane:
  assumes "oq_removes q e q'" and "oq_ok q" and "oq_comparer q = None" and "i < LANE_COUNT"
  shows "oq_lanes q ! i = (if \<not> env_stream e \<and> env_lane e = i then [e] else []) @ oq_lanes q' ! i"
  using assms(1)
proof cases
  case from_stream
  then show ?thesis using assms(2) by (auto simp: oq_ok_def oq_typed_def)
next
  case (from_lane j rest)
  then have "env_lane e = j" "\<not> env_stream e" using assms(2) by (auto simp: oq_ok_def oq_typed_def)
  then show ?thesis using from_lane oq_ok_lanes [OF assms(2)] by (auto simp: nth_list_update)
next
  case (from_sorted j)
  then show ?thesis using assms(2,3) by (simp add: oq_ok_def oq_shape_def)
qed

lemma oq_removes_comparer: "oq_removes q e q' \<Longrightarrow> oq_comparer q' = oq_comparer q"
  by (cases rule: oq_removes.cases) (auto simp: after_pop_def)

lemma oq_pop_split:
  assumes "oq_ok q"
  obtains (empty) "oq_contents q = []" "oq_pop q now = (None, q)"
  | (pop) e q' where "oq_pop q now = (Some e, q')" "oq_removes q e q'" "oq_ok q'"
proof (cases "fst (oq_pop q now)")
  case None
  then show ?thesis using assms oq_pop_None oq_pop_empty empty by blast
next
  case (Some e)
  then have "oq_pop q now = (Some e, snd (oq_pop q now))" by (metis prod.collapse)
  then show ?thesis using assms oq_pop_removes oq_removes_ok pop by blast
qed

lemma oq_run_full: "oq_full q \<Longrightarrow> oq_run q (Push now e # ops) = oq_run q ops"
  by (simp add: oq_push_full split_beta)

lemma oq_run_push:
  "\<not> oq_full q \<Longrightarrow> oq_run q (Push now e # ops) =
     (e # oq_accepted (snd (oq_push q now e)) ops, oq_exits (snd (oq_push q now e)) ops,
      oq_final (snd (oq_push q now e)) ops)"
  by (simp add: oq_push_accept split_beta)

lemma oq_run_pop_empty: "oq_pop q now = (None, q) \<Longrightarrow> oq_run q (Pop now # ops) = oq_run q ops"
  by (simp add: split_beta)

lemma oq_run_pop:
  "oq_pop q now = (Some e, q') \<Longrightarrow> oq_run q (Pop now # ops) =
     (oq_accepted q' ops, Handed e # oq_exits q' ops, oq_final q' ops)"
  by (simp add: split_beta)

lemma oq_run_drain:
  "oq_drain_ordered q = (es, q') \<Longrightarrow> oq_run q (Drain # ops) =
     (oq_accepted q' ops, map Handed es @ oq_exits q' ops, oq_final q' ops)"
  by (simp add: split_beta)

lemma oq_run_clear:
  "oq_run q (Clear # ops) =
     (oq_accepted (oq_clear q) ops, map Discarded (oq_contents q) @ oq_exits (oq_clear q) ops,
      oq_final (oq_clear q) ops)"
  by (simp add: split_beta)

lemmas oq_run_steps = oq_run_full oq_run_push oq_run_pop_empty oq_run_pop oq_run_drain oq_run_clear

lemmas oq_exit_maps [simp] = comp_def filter_map

text \<open>Induction along a history: each operation is refused, stores, finds nothing or removes.\<close>

lemma oq_history_induct [consumes 1, case_names stop full push empty pop drain clear]:
  assumes ok: "oq_ok q"
    and stop: "\<And>q. oq_ok q \<Longrightarrow> P q []"
    and full: "\<And>q now e ops. oq_ok q \<Longrightarrow> oq_full q \<Longrightarrow> P q ops \<Longrightarrow> P q (Push now e # ops)"
    and push: "\<And>q now e ops. oq_ok q \<Longrightarrow> \<not> oq_full q \<Longrightarrow> oq_ok (snd (oq_push q now e)) \<Longrightarrow>
      P (snd (oq_push q now e)) ops \<Longrightarrow> P q (Push now e # ops)"
    and empty: "\<And>q now ops. oq_ok q \<Longrightarrow> oq_pop q now = (None, q) \<Longrightarrow> P q ops \<Longrightarrow> P q (Pop now # ops)"
    and pop: "\<And>q now e q' ops. oq_ok q \<Longrightarrow> oq_pop q now = (Some e, q') \<Longrightarrow> oq_removes q e q' \<Longrightarrow>
      oq_ok q' \<Longrightarrow> P q' ops \<Longrightarrow> P q (Pop now # ops)"
    and drain: "\<And>q es q' ops. oq_ok q \<Longrightarrow> oq_drain_ordered q = (es, q') \<Longrightarrow> oq_emptied q q' \<Longrightarrow>
      oq_ok q' \<Longrightarrow> P q' ops \<Longrightarrow> P q (Drain # ops)"
    and clear: "\<And>q ops. oq_ok q \<Longrightarrow> oq_emptied q (oq_clear q) \<Longrightarrow> oq_ok (oq_clear q) \<Longrightarrow>
      P (oq_clear q) ops \<Longrightarrow> P q (Clear # ops)"
  shows "P q ops"
  using ok
proof (induction ops arbitrary: q)
  case Nil
  then show ?case by (rule stop)
next
  case (Cons x ops)
  show ?case
  proof (cases x)
    case (Push now e)
    show ?thesis
    proof (cases "oq_full q")
      case True
      then show ?thesis using Push Cons full by simp
    next
      case False
      then show ?thesis
        using Push push [OF Cons.prems False oq_push_ok [OF Cons.prems]] Cons.IH oq_push_ok [OF Cons.prems]
        by simp
    qed
  next
    case (Pop now)
    from Cons.prems show ?thesis
    proof (rule oq_pop_split [where now = now])
      assume "oq_pop q now = (None, q)"
      then show ?thesis using Pop Cons empty by simp
    next
      fix e q'
      assume "oq_pop q now = (Some e, q')" "oq_removes q e q'" "oq_ok q'"
      then show ?thesis using Pop Cons pop by blast
    qed
  next
    case Drain
    then show ?thesis
      using drain [OF Cons.prems surjective_pairing oq_drain_emptied [OF Cons.prems] oq_drain_ok [OF Cons.prems]]
        Cons.IH [OF oq_drain_ok [OF Cons.prems]] by simp
  next
    case Clear
    then show ?thesis
      using clear [OF Cons.prems oq_clear_emptied oq_clear_ok [OF Cons.prems]]
        Cons.IH [OF oq_clear_ok [OF Cons.prems]] by simp
  qed
qed

lemma oq_run_ok: "oq_ok q \<Longrightarrow> oq_ok (oq_final q ops)"
  by (induction q ops rule: oq_history_induct) (simp_all add: oq_run_steps del: oq_run.simps(2-5))

lemma oq_run_contents:
  "oq_ok q \<Longrightarrow> mset (oq_contents q) + mset (oq_accepted q ops) =
     mset (oq_popped q ops) + mset (oq_cleared q ops) + mset (oq_contents (oq_final q ops))"
proof (induction q ops rule: oq_history_induct)
  case (drain q es q' ops)
  then show ?case
    using oq_drain_contents [OF drain(1)]
    by (simp add: oq_run_steps oq_emptied_def ac_simps del: oq_run.simps(2-5))
qed (simp_all add: oq_run_steps oq_push_contents oq_removes_contents oq_emptied_def ac_simps
      del: oq_run.simps(2-5))

lemma oq_run_no_clear:
  "oq_ok q \<Longrightarrow> Clear \<notin> set ops \<Longrightarrow> list_all is_Handed (oq_exits q ops)"
  by (induction q ops rule: oq_history_induct)
    (simp_all add: oq_run_steps list_all_iff ball_Un del: oq_run.simps(2-5))

lemma oq_run_stream:
  "oq_ok q \<Longrightarrow> filter env_stream (oq_left q ops) @ oq_stream_fifo (oq_final q ops) =
     oq_stream_fifo q @ filter env_stream (oq_accepted q ops)"
proof (induction q ops rule: oq_history_induct)
  case (pop q now e q' ops)
  then show ?case
    using oq_removes_stream [OF pop(3,1)] by (auto simp: oq_run_steps simp del: oq_run.simps(2-5))
next
  case (drain q es q' ops)
  then show ?case
    using oq_drain_stream [OF drain(1)] oq_emptied_stores(2) [OF drain(3)]
    by (simp add: oq_run_steps del: oq_run.simps(2-5))
next
  case (clear q ops)
  then show ?case
    using oq_contents_classes(1) [OF clear(1)] oq_emptied_stores(2) [OF clear(2)]
    by (simp add: oq_run_steps del: oq_run.simps(2-5))
qed (simp_all add: oq_run_steps oq_push_stores(1) del: oq_run.simps(2-5))

lemma oq_run_lane:
  assumes "i < LANE_COUNT"
  shows "oq_ok q \<Longrightarrow> oq_comparer q = None \<longrightarrow>
     filter (\<lambda>e. \<not> env_stream e \<and> env_lane e = i) (oq_left q ops) @ oq_lanes (oq_final q ops) ! i =
     oq_lanes q ! i @ filter (\<lambda>e. \<not> env_stream e \<and> env_lane e = i) (oq_accepted q ops)"
proof (induction q ops rule: oq_history_induct)
  case (push q now e ops)
  then show ?case
    using assms oq_ok_lanes [OF push(1)]
    by (auto simp: oq_run_steps oq_push_stores simp del: oq_run.simps(2-5))
next
  case (pop q now e q' ops)
  then show ?case
    using oq_removes_lane [OF pop(3,1) _ assms] oq_removes_comparer [OF pop(3)]
    by (auto simp: oq_run_steps simp del: oq_run.simps(2-5))
next
  case (drain q es q' ops)
  then show ?case
    using oq_drain_lane [OF drain(1) _ assms] oq_emptied_stores(1) [OF drain(3,4) assms]
    by (simp add: oq_run_steps oq_emptied_def del: oq_run.simps(2-5))
next
  case (clear q ops)
  then show ?case
    using oq_contents_classes(2) [OF clear(1) _ assms] oq_emptied_stores(1) [OF clear(2,3) assms]
    by (simp add: oq_run_steps oq_emptied_def del: oq_run.simps(2-5))
qed (simp_all add: oq_run_steps del: oq_run.simps(2-5))

section \<open>Comparers\<close>

text \<open>What the comparer mode needs of a comparer: at every fixed time it is a strict weak order. The
  scan of the queue then finds an entry that no other entry beats, the earliest such.\<close>

locale comparer_contract =
  fixes compare :: wire_comparer
  assumes compare_asym: "compare a b now = Less \<Longrightarrow> compare b a now \<noteq> Less"
    and compare_trans: "compare a b now \<noteq> Less \<Longrightarrow> compare b c now \<noteq> Less \<Longrightarrow> compare a c now \<noteq> Less"

sublocale comparer_contract \<subseteq> entries: entry_order "\<lambda>(a :: wire_envelope \<times> envelope_metadata) b. compare (snd a) (snd b) now = Less" for now
  by unfold_locales (use compare_asym compare_trans in blast)+

context comparer_contract
begin

lemma pop_comparer_best:
  assumes "oq_comparer q = Some compare" and "oq_pop_comparer q now = (Some e, q')"
  obtains i where "i < length (oq_sorted q)" and "fst (oq_sorted q ! i) = e"
    and "oq_sorted q' = remove_at i (oq_sorted q)"
    and "\<forall>x \<in> set (oq_sorted q). compare (snd x) (snd (oq_sorted q ! i)) now \<noteq> Less"
    and "\<forall>j < i. compare (snd (oq_sorted q ! i)) (snd (oq_sorted q ! j)) now = Less"
proof -
  let ?b = "find_best (\<lambda>a b. compare (snd a) (snd b) now = Less) (oq_sorted q)"
  have ne: "oq_sorted q \<noteq> []"
    using assms by (auto simp: oq_pop_comparer_def split: if_splits)
  note best = entries.find_best [OF ne]
  show ?thesis
  proof (rule that [of ?b])
    show "\<forall>x \<in> set (oq_sorted q). compare (snd x) (snd (oq_sorted q ! ?b)) now \<noteq> Less"
      using best(2) by (metis in_set_conv_nth)
  qed (use assms ne best in \<open>auto simp: oq_pop_comparer_def Let_def\<close>)
qed

end

interpretation strict_cmp: comparer_contract strict_priority_compare
  by unfold_locales (auto simp: strict_priority_compare_def)

interpretation aging_cmp: comparer_contract "aging_compare max_age" for max_age
proof unfold_locales
  fix a b c :: envelope_metadata and now :: instant
  show "aging_compare max_age a b now = Less \<Longrightarrow> aging_compare max_age b a now \<noteq> Less"
    by (auto simp: aging_compare_def Let_def split: bool.splits)
  show "aging_compare max_age a b now \<noteq> Less \<Longrightarrow> aging_compare max_age b c now \<noteq> Less \<Longrightarrow>
      aging_compare max_age a c now \<noteq> Less"
    by (auto simp: aging_compare_def Let_def split: bool.splits if_splits)
qed

text \<open>A best entry of the aging comparer: once any envelope has aged, the oldest of all.\<close>

lemma aging_best:
  assumes "\<forall>x \<in> X. aging_compare max_age x m now \<noteq> Less" and "m \<in> X"
  shows "if \<exists>x \<in> X. duration_since now (em_enqueued_at x) \<ge> max_age
    then \<forall>x \<in> X. em_enqueued_at m \<le> em_enqueued_at x
    else \<forall>x \<in> X. em_priority m \<le> em_priority x"
proof (cases "\<exists>x \<in> X. duration_since now (em_enqueued_at x) \<ge> max_age")
  case True
  then have "duration_since now (em_enqueued_at m) \<ge> max_age"
    using assms by (auto simp: aging_compare_def Let_def split: bool.splits)
  then have "\<forall>x \<in> X. em_enqueued_at m \<le> em_enqueued_at x"
    using assms(1) by (fastforce simp: aging_compare_def Let_def duration_since_def split: bool.splits)
  then show ?thesis using True by simp
next
  case False
  then show ?thesis
    using assms by (auto simp: aging_compare_def Let_def not_less split: bool.splits)
qed

section \<open>Sample envelopes\<close>

text \<open>Envelopes for the concrete instances: one priority byte in the headers.\<close>

definition sample_env :: "send_mode \<Rightarrow> u8 \<Rightarrow> wire_envelope" where
  "sample_env m p = \<lparr>we_target = ActorId (NodeId ''n'') 1, we_target_name = ''a'', we_message_type = ''m'',
     we_send_mode = m, we_headers = wh_insert wh_new ''dactor.Priority'' [p], we_body = [],
     we_request_id = None, we_version = None\<rparr>"

lemma sample_env_simps [simp]:
  "we_send_mode (sample_env m p) = m" "extract_priority (sample_env m p) = p"
  "env_stream (sample_env m p) \<longleftrightarrow> is_stream_mode m"
  "env_lane (sample_env m p) = lane_index_from_priority p"
  by (simp_all add: sample_env_def extract_priority_def PRIORITY_HEADER_NAME_def wh_get_def
      wh_insert_def env_stream_def env_lane_def)

lemma sample_env_eq [simp]: "sample_env m p = sample_env m' p' \<longleftrightarrow> m = m' \<and> p = p'"
  by (metis sample_env_simps(1,2))

lemmas oq_eval = oq_push_def oq_pop_def oq_pop_stream_def oq_pop_priority_def oq_pop_strict_def
  oq_pop_fair_def oq_take_current_def oq_next_non_empty_lane_def oq_has_priority_def
  oq_is_comparer_mode_def oq_with_config_def oq_new_def is_stream_mode_def
  lane_index_from_priority_def Let_def

section \<open>Properties\<close>

text \<open>C3. No envelope is lost, duplicated or invented: after any history of pushes, pops, drains and
  clears on a fresh queue of either mode, the accepted envelopes are exactly those handed out, those a
  clear discarded and those still queued, and without a clear nothing is discarded; the length the
  queue reports is the number still queued, and never exceeds the capacity.\<close>

theorem oq_conservation:
  assumes "q = oq_with_config cap m \<or> q = oq_with_comparer c cap"
  shows "mset (oq_accepted q ops) =
      mset (oq_popped q ops) + mset (oq_cleared q ops) + mset (oq_contents (oq_final q ops)) \<and>
    (Clear \<notin> set ops \<longrightarrow> oq_cleared q ops = []) \<and>
    oq_len (oq_final q ops) = length (oq_contents (oq_final q ops)) \<and>
    (oq_capacity (oq_final q ops) > 0 \<longrightarrow> oq_len (oq_final q ops) \<le> oq_capacity (oq_final q ops))"
proof -
  have ok: "oq_ok q" using assms oq_new_ok by auto
  have "oq_contents q = []"
    using assms by (auto simp: oq_with_config_def oq_with_comparer_def oq_new_def oq_contents_def)
  moreover have "Clear \<notin> set ops \<longrightarrow> oq_cleared q ops = []"
    using oq_run_no_clear [OF ok, of ops] by (simp add: filter_empty_conv list_all_iff)
  ultimately show ?thesis
    using oq_run_contents [OF ok, of ops] oq_run_ok [OF ok, of ops]
    by (auto simp: oq_len_def oq_ok_def oq_shape_def)
qed

theorem oq_conservation_witness:
  "let q = oq_with_config 1 0; ops = [Push 1 (sample_env Tell 0), Push 2 (sample_env Ask 0)]
   in oq_accepted q ops = [sample_env Tell 0] \<and>
      mset (oq_accepted q ops) =
        mset (oq_popped q ops) + mset (oq_cleared q ops) + mset (oq_contents (oq_final q ops))"
proof -
  have "oq_accepted (oq_with_config 1 0) [Push 1 (sample_env Tell 0), Push 2 (sample_env Ask 0)] =
      [sample_env Tell 0]"
    by code_simp
  then show ?thesis
    using oq_conservation [of "oq_with_config 1 0" 1 0 strict_priority_compare
        "[Push 1 (sample_env Tell 0), Push 2 (sample_env Ask 0)]"]
    unfolding Let_def by blast
qed

text \<open>C11. Order within a class is kept: in every mode stream items leave in exactly the order they were
  accepted, and in lane mode so do the tell and ask envelopes of each lane, whatever the interleaving
  of pushes, pops, drains and clears and whatever the fairness setting. Without a clear, everything
  that left was handed out.\<close>

theorem oq_fifo_order:
  assumes "q = oq_with_config cap m \<or> q = oq_with_comparer c cap" and "i < LANE_COUNT"
  shows "filter env_stream (oq_accepted q ops) =
      filter env_stream (oq_left q ops) @ oq_stream_fifo (oq_final q ops) \<and>
    (q = oq_with_config cap m \<longrightarrow>
      filter (\<lambda>e. \<not> env_stream e \<and> env_lane e = i) (oq_accepted q ops) =
      filter (\<lambda>e. \<not> env_stream e \<and> env_lane e = i) (oq_left q ops) @ oq_lanes (oq_final q ops) ! i) \<and>
    (Clear \<notin> set ops \<longrightarrow> oq_left q ops = oq_popped q ops)"
proof -
  have ok: "oq_ok q" using assms oq_new_ok by auto
  have "oq_stream_fifo q = []" and "q = oq_with_config cap m \<longrightarrow> oq_comparer q = None \<and> oq_lanes q ! i = []"
    using assms by (auto simp: oq_with_config_def oq_with_comparer_def oq_new_def)
  moreover have "Clear \<notin> set ops \<longrightarrow> oq_left q ops = oq_popped q ops"
    using oq_run_no_clear [OF ok, of ops] by (simp add: list_all_iff)
  ultimately show ?thesis
    using oq_run_stream [OF ok, of ops] oq_run_lane [OF assms(2) ok, of ops]
    by (intro conjI impI) (simp_all del: oq_exit_maps)
qed

theorem oq_fifo_order_witness:
  "let q = oq_with_comparer strict_priority_compare 0;
       ops = [Push 1 (sample_env Expand 9), Push 2 (sample_env Reduce 0), Push 2 (sample_env Tell 0), Pop 3, Drain]
   in filter env_stream (oq_accepted q ops) = [sample_env Expand 9, sample_env Reduce 0] \<and>
      filter env_stream (oq_accepted q ops) =
        filter env_stream (oq_left q ops) @ oq_stream_fifo (oq_final q ops)"
proof -
  let ?ops = "[Push 1 (sample_env Expand 9), Push 2 (sample_env Reduce 0), Push 2 (sample_env Tell 0), Pop 3, Drain]"
  have "filter env_stream (oq_accepted (oq_with_comparer strict_priority_compare 0) ?ops) =
      [sample_env Expand 9, sample_env Reduce 0]"
    by code_simp
  moreover have "0 < LANE_COUNT" by simp
  ultimately show ?thesis
    using oq_fifo_order [of "oq_with_comparer strict_priority_compare 0" 0 0 strict_priority_compare 0 ?ops]
    unfolding Let_def by blast
qed

text \<open>C33. Pop makes progress: after any history of pushes, pops, drains and clears it returns an envelope if and only if the queue
  is not empty, in lane, fair and comparer mode alike.\<close>

theorem oq_pop_progress:
  assumes "q = oq_with_config cap m \<or> q = oq_with_comparer c cap"
  shows "(\<exists>e q'. oq_pop (oq_final q ops) now = (Some e, q')) \<longleftrightarrow> \<not> oq_is_empty (oq_final q ops)"
proof -
  have "oq_ok (oq_final q ops)" using assms oq_new_ok oq_run_ok by blast
  then show ?thesis
    using oq_pop_None [of "oq_final q ops" now] oq_total_contents [of "oq_final q ops"]
    by (cases "oq_pop (oq_final q ops) now"; cases "fst (oq_pop (oq_final q ops) now)")
      (auto simp: oq_is_empty_def)
qed

theorem oq_pop_progress_witness:
  "\<exists>e q'. oq_pop (oq_final (oq_with_config 0 3) [Push 1 (sample_env Tell 9)]) 7 = (Some e, q')"
proof -
  have "\<not> oq_is_empty (oq_final (oq_with_config 0 3) [Push 1 (sample_env Tell 9)])"
    by code_simp
  then show ?thesis
    using oq_pop_progress [of "oq_with_config 0 3" 0 3 strict_priority_compare
        "[Push 1 (sample_env Tell 9)]" 7]
    by blast
qed

end
