(* ===== verification/Outbound_Scheduling.thy ===== *)
theory Outbound_Scheduling
  imports Outbound_Queue
begin

text \<open>
  Which envelope of \<^verbatim>\<open>outbound_queue.rs\<close> goes next: the order in lane mode, in comparer mode and
  in a drain, and the limits of the two starvation measures.
\<close>

section \<open>Lane mode\<close>

lemma strict_pop_least_lane:
  assumes ok: "oq_ok q" and mode: "oq_comparer q = None" "oq_max_consecutive q = 0"
    and pop: "oq_pop q now = (Some e, q')" and e: "\<not> env_stream e"
    and x: "x \<in> set (oq_contents q)" "\<not> env_stream x"
  shows "env_lane e \<le> env_lane x"
proof -
  have "oq_pop_stream q = (Some e, q') \<or> oq_pop_strict q = (Some e, q')"
    using pop mode oq_pop_priority_None [OF ok, of now] oq_contents_Nil [OF ok] oq_total_contents [OF ok]
    by (auto simp: oq_pop_def Let_def oq_pop_stream_def oq_pop_priority_def
        split: if_splits option.splits list.splits prod.splits)
  moreover have "oq_pop_stream q \<noteq> (Some e, q')"
    using e ok by (auto simp: oq_pop_stream_def oq_ok_def oq_typed_def split: list.splits)
  ultimately obtain ls where "pop_first_lane (oq_lanes q) = (Some e, ls)"
    by (auto simp: oq_pop_strict_def split: prod.splits option.splits)
  from pop_first_lane_Some [OF this] obtain i rest where i: "i < length (oq_lanes q)"
      "oq_lanes q ! i = e # rest" "\<forall>j < i. oq_lanes q ! j = []" by blast
  have ty: "oq_typed q" and "oq_sorted q = []"
    using ok mode by (auto simp: oq_ok_def oq_shape_def)
  then have "x \<in> set (concat (oq_lanes q))"
    using x by (auto simp: oq_contents_def oq_typed_def)
  then obtain j where j: "j < length (oq_lanes q)" "x \<in> set (oq_lanes q ! j)"
    using set_concat_nth by metis
  have "env_lane e = i" using ty i oq_ok_lanes [OF ok] by (auto simp: oq_typed_def)
  moreover have "env_lane x = j" using ty j oq_ok_lanes [OF ok] by (auto simp: oq_typed_def)
  moreover have "i \<le> j" using i(3) j(2) by (metis empty_iff list.set(1) not_le)
  ultimately show ?thesis by simp
qed

section \<open>Draining\<close>

lemma drain_contents:
  assumes "oq_ok q"
  shows "mset (fst (oq_drain_ordered q)) = mset (oq_contents q)"
proof (cases "oq_comparer q")
  case None
  then have "oq_sorted q = []" using assms by (simp add: oq_ok_def oq_shape_def)
  then show ?thesis using None
    by (simp add: oq_drain_ordered_def oq_is_comparer_mode_def oq_contents_def)
next
  case (Some c)
  then have "concat (oq_lanes q) = []"
    using assms oq_lanes_empty_concat [of q] by (simp add: oq_ok_def oq_shape_def)
  then show ?thesis using Some
    by (simp add: oq_drain_ordered_def oq_is_comparer_mode_def oq_contents_def)
qed

lemma sorted_concat_lanes:
  "(\<forall>i < length ls. \<forall>e \<in> set (ls ! i). f e = i + k) \<Longrightarrow> sorted (map f (concat ls))"
proof (induction ls arbitrary: k)
  case (Cons l ls)
  have "\<forall>i < length ls. \<forall>e \<in> set (ls ! i). f e = i + Suc k" using Cons.prems by fastforce
  then have "sorted (map f (concat ls))" "\<forall>e \<in> set (concat ls). Suc k \<le> f e"
    using Cons.IH by (auto simp: set_concat_nth simp del: set_concat)
  moreover have "\<forall>e \<in> set l. f e = k" using Cons.prems by fastforce
  ultimately show ?case
    by (auto simp: sorted_append map_eq_conv simp del: set_concat) (metis sorted_replicate map_replicate_const map_eq_conv)
qed simp

lemma sorted_map_fst_by_priority:
  assumes "\<forall>x \<in> set xs. em_priority (snd x) = extract_priority (fst x)"
  shows "sorted (map extract_priority (map fst
    (sort_key (\<lambda>e. (em_priority (snd e), em_enqueued_at (snd e))) xs)))"
proof -
  let ?k = "\<lambda>e :: wire_envelope \<times> envelope_metadata. (em_priority (snd e), em_enqueued_at (snd e))"
  have "sorted (map fst (map ?k (sort_key ?k xs)))"
    using sorted_sort_key [of ?k xs] by (auto simp: sorted_iff_nth_mono less_eq_prod_def le_less)
  moreover have "map fst (map ?k (sort_key ?k xs)) = map extract_priority (map fst (sort_key ?k xs))"
    using assms by simp
  ultimately show ?thesis by metis
qed

section \<open>The mode of a queue never changes\<close>

lemma oq_push_mode:
  "oq_comparer (snd (oq_push q now e)) = oq_comparer q \<and>
   oq_max_consecutive (snd (oq_push q now e)) = oq_max_consecutive q"
  by (simp add: oq_push_def Let_def)

lemma oq_removes_mode: "oq_removes q e q' \<Longrightarrow> oq_max_consecutive q' = oq_max_consecutive q"
  by (cases rule: oq_removes.cases) (auto simp: after_pop_def)

lemma oq_run_mode:
  "oq_ok q \<Longrightarrow> oq_comparer (oq_final q ops) = oq_comparer q \<and>
     oq_max_consecutive (oq_final q ops) = oq_max_consecutive q"
  by (induction q ops rule: oq_history_induct)
    (simp_all add: oq_run_steps oq_push_mode oq_removes_mode oq_removes_comparer oq_emptied_def del: oq_run.simps(2-5))

section \<open>Starvation runs\<close>

text \<open>One waiting tell envelope and one stream item make the length even; each pop takes the stream
  item, and the next stream item restores the parity.\<close>

definition mixed_queue :: "wire_envelope \<Rightarrow> wire_envelope \<Rightarrow> outbound_queue" where
  "mixed_queue p s = oq_final oq_new [Push 0 p, Push 0 s]"

lemma mixed_queue_eq:
  assumes "\<not> env_stream p" "env_stream s"
  shows "mixed_queue p s = oq_new\<lparr>oq_lanes := (replicate 5 [])[env_lane p := [p]],
    oq_stream_fifo := [s], oq_total := 2\<rparr>"
  using assms by (simp add: mixed_queue_def oq_push_def oq_new_def env_stream_def env_lane_def
      oq_is_comparer_mode_def)

lemma mixed_queue_round:
  assumes "\<not> env_stream p" "env_stream s"
  shows "oq_run (mixed_queue p s) (Pop t # Push t' s # ops) =
    (s # oq_accepted (mixed_queue p s) ops, Handed s # oq_exits (mixed_queue p s) ops,
     oq_final (mixed_queue p s) ops)"
proof -
  have "oq_pop (mixed_queue p s) t =
      (Some s, (mixed_queue p s)\<lparr>oq_stream_fifo := [], oq_total := 1\<rparr>)"
  proof -
    have "oq_has_priority (mixed_queue p s)"
      unfolding oq_has_priority_def list_ex_iff mixed_queue_eq [OF assms]
      by (auto simp: oq_new_def oq_is_comparer_mode_def set_conv_nth nth_list_update intro!: exI [of _ "env_lane p"])
    then show ?thesis
      using mixed_queue_eq [OF assms] by (simp add: oq_pop_def Let_def oq_pop_stream_def)
  qed
  moreover have "oq_push ((mixed_queue p s)\<lparr>oq_stream_fifo := [], oq_total := 1\<rparr>) t' s =
      (Inr (), mixed_queue p s)"
    using assms by (simp add: mixed_queue_eq oq_push_def oq_new_def env_stream_def)
  ultimately show ?thesis by (simp add: split_beta)
qed

lemma mixed_queue_rounds:
  assumes "\<not> env_stream p" "env_stream s"
  shows "oq_popped (mixed_queue p s) (concat (replicate n [Pop t, Push t' s])) = replicate n s"
  by (induction n) (simp_all add: mixed_queue_round [OF assms] del: oq_run.simps(2-5))

text \<open>In fair mode a lane that runs empty resets the consecutive counter and restarts the scan at the
  most urgent lane, so two alternating urgent lanes keep the quota from ever being reached.\<close>

definition fair_queue :: "nat \<Rightarrow> wire_envelope \<Rightarrow> nat \<Rightarrow> nat \<Rightarrow> outbound_queue" where
  "fair_queue m b lane n = (oq_with_config 0 m)\<lparr>oq_lanes := [[], [], [], [], [b]], oq_total := 1,
     oq_current_lane := lane, oq_consecutive_from_lane := n\<rparr>"

lemma fair_queue_init:
  assumes "\<not> env_stream b" "env_lane b = 4"
  shows "oq_final (oq_with_config 0 m) [Push t b] = fair_queue m b 0 0"
  using assms by (simp add: fair_queue_def oq_push_def oq_with_config_def oq_new_def env_stream_def
      env_lane_def oq_is_comparer_mode_def numeral_eq_Suc)

lemma five_lanes: "[0..<5] = [0, 1, 2, 3, 4 :: nat]"
  by (simp add: upt_rec)

lemma fair_queue_push:
  assumes "\<not> env_stream a" "env_lane a = l'"
  shows "oq_push (fair_queue m b l n) t a =
    (Inr (), (fair_queue m b l n)\<lparr>oq_lanes := [[], [], [], [], [b]][l' := [[], [], [], [], [b]] ! l' @ [a]],
      oq_total := 2\<rparr>)"
  using assms by (simp add: fair_queue_def oq_push_def oq_with_config_def oq_new_def env_stream_def
      env_lane_def oq_is_comparer_mode_def)

lemmas fair_defs = fair_queue_def oq_pop_def Let_def oq_pop_priority_def oq_pop_fair_def
  oq_take_current_def oq_next_non_empty_lane_def oq_has_priority_def oq_is_comparer_mode_def
  oq_with_config_def oq_new_def five_lanes

lemma fair_queue_pop:
  "2 \<le> m \<Longrightarrow> oq_pop ((fair_queue m b 0 0)\<lparr>oq_lanes := [[a], [], [], [], [b]], oq_total := 2\<rparr>) t =
     (Some a, fair_queue m b 0 1)"
  "2 \<le> m \<Longrightarrow> oq_pop ((fair_queue m b 0 1)\<lparr>oq_lanes := [[], [a], [], [], [b]], oq_total := 2\<rparr>) t =
     (Some a, fair_queue m b 1 1)"
  "2 \<le> m \<Longrightarrow> oq_pop ((fair_queue m b 1 1)\<lparr>oq_lanes := [[a], [], [], [], [b]], oq_total := 2\<rparr>) t =
     (Some a, fair_queue m b 0 1)"
  by (simp_all add: fair_defs)

lemma fair_queue_step:
  assumes "\<not> env_stream a" "env_lane a = l'" "(l, n, l') \<in> {(0, 0, 0), (0, 1, 1), (1, 1, 0)}" "2 \<le> m"
  shows "oq_run (fair_queue m b l n) (Push t a # Pop t' # ops) =
    (a # oq_accepted (fair_queue m b l' 1) ops, Handed a # oq_exits (fair_queue m b l' 1) ops,
     oq_final (fair_queue m b l' 1) ops)"
proof -
  have "oq_pop (snd (oq_push (fair_queue m b l n) t a)) t' = (Some a, fair_queue m b l' 1)"
    using assms fair_queue_pop [OF assms(4)] fair_queue_push [OF assms(1,2)] by auto
  then show ?thesis using fair_queue_push [OF assms(1,2), of m b l n t] by (simp add: split_beta)
qed

lemma fair_queue_rounds:
  assumes "\<not> env_stream a" "env_lane a = 0" "\<not> env_stream c" "env_lane c = 1" "2 \<le> m"
    and "(l, n) \<in> {(0, 0), (1, 1)}"
  shows "oq_popped (fair_queue m b l n) (concat (replicate k [Push t a, Pop t', Push t c, Pop t'])) =
    concat (replicate k [a, c])"
  using assms(6)
proof (induction k arbitrary: l n)
  case (Suc k)
  have 1: "(l, n, 0) \<in> {(0, 0, 0), (0, 1, 1), (1, 1, 0)}" using Suc.prems by auto
  have 2: "(0, 1, 1) \<in> {(0, 0, 0), (0, 1, 1), (1, 1, 0 :: nat)}" by simp
  show ?case
    using Suc.IH [of 1 1] fair_queue_step [OF assms(1,2) 1 assms(5)]
      fair_queue_step [OF assms(3,4) 2 assms(5)]
    by (simp del: oq_run.simps(2-5))
qed simp

section \<open>Properties\<close>

text \<open>Strict lane mode serves by urgency: on every reachable queue with \<open>max_consecutive = 0\<close>, a
  popped tell or ask envelope is of the most urgent lane that any waiting tell or ask has.\<close>

theorem oq_strict_lane_order:
  assumes "oq_pop (oq_final (oq_with_config cap 0) ops) now = (Some e, q')" and "\<not> env_stream e"
    and "x \<in> set (oq_contents (oq_final (oq_with_config cap 0) ops))" and "\<not> env_stream x"
  shows "env_lane e \<le> env_lane x"
proof (rule strict_pop_least_lane [OF _ _ _ assms])
  have ok: "oq_ok (oq_with_config cap 0)" by (simp add: oq_new_ok)
  then show "oq_ok (oq_final (oq_with_config cap 0) ops)" by (rule oq_run_ok)
  show "oq_comparer (oq_final (oq_with_config cap 0) ops) = None"
    "oq_max_consecutive (oq_final (oq_with_config cap 0) ops) = 0"
    using oq_run_mode [OF ok] by (simp_all add: oq_with_config_def oq_new_def)
qed

theorem oq_strict_lane_order_witness:
  "env_lane (sample_env Tell 0) \<le> env_lane (sample_env Ask 255)"
proof (rule oq_strict_lane_order)
  let ?q = "oq_final (oq_with_config 0 0) [Push 1 (sample_env Ask 255), Push 2 (sample_env Tell 0)]"
  have "fst (oq_pop ?q 3) = Some (sample_env Tell 0)" by code_simp
  then show "oq_pop ?q 3 = (Some (sample_env Tell 0), snd (oq_pop ?q 3))" by (metis prod.collapse)
  show "sample_env Ask 255 \<in> set (oq_contents ?q)" by code_simp
qed (simp_all add: is_stream_mode_def)

text \<open>The aging comparer bounds waiting: on every reachable queue it drives, a popped tell or ask
  envelope is the oldest of all waiting ones as soon as any of them has reached the maximal age, and
  otherwise one of the most urgent.\<close>

theorem oq_aging_order:
  assumes "q = oq_final (oq_with_comparer (aging_compare max_age) cap) ops"
    and "oq_pop_priority q now = (Some e, q')"
  shows "\<exists>m. (e, m) \<in> set (oq_sorted q) \<and>
    (if \<exists>x \<in> snd ` set (oq_sorted q). duration_since now (em_enqueued_at x) \<ge> max_age
     then \<forall>x \<in> snd ` set (oq_sorted q). em_enqueued_at m \<le> em_enqueued_at x
     else \<forall>x \<in> snd ` set (oq_sorted q). em_priority m \<le> em_priority x)"
proof -
  have "oq_ok (oq_with_comparer (aging_compare max_age) cap)" by (simp add: oq_new_ok)
  then have mode: "oq_comparer q = Some (aging_compare max_age)"
    using oq_run_mode assms(1) by (simp add: oq_with_comparer_def)
  then have "oq_pop_comparer q now = (Some e, q')" using assms(2) by (simp add: oq_pop_priority_def)
  from aging_cmp.pop_comparer_best [OF mode this] obtain i where
    i: "i < length (oq_sorted q)" "fst (oq_sorted q ! i) = e"
    "\<forall>x \<in> set (oq_sorted q). aging_compare max_age (snd x) (snd (oq_sorted q ! i)) now \<noteq> Less"
    by metis
  then have "(e, snd (oq_sorted q ! i)) \<in> set (oq_sorted q)" by (metis nth_mem prod.collapse)
  moreover have "\<forall>x \<in> snd ` set (oq_sorted q). aging_compare max_age x (snd (oq_sorted q ! i)) now \<noteq> Less"
    using i(3) by blast
  moreover have "snd (oq_sorted q ! i) \<in> snd ` set (oq_sorted q)" using i(1) by simp
  ultimately show ?thesis using aging_best by blast
qed

theorem oq_aging_order_witness:
  "let q = oq_final (oq_with_comparer (aging_compare 5) 0) [Push 1 (sample_env Ask 255), Push 4 (sample_env Tell 0)]
   in fst (oq_pop_priority q 6) = Some (sample_env Ask 255) \<and>
      (\<exists>m. (sample_env Ask 255, m) \<in> set (oq_sorted q) \<and> em_enqueued_at m \<le> 1)"
proof -
  let ?q = "oq_final (oq_with_comparer (aging_compare 5) 0) [Push 1 (sample_env Ask 255), Push 4 (sample_env Tell 0)]"
  have pop: "fst (oq_pop_priority ?q 6) = Some (sample_env Ask 255)" by code_simp
  then have "oq_pop_priority ?q 6 = (Some (sample_env Ask 255), snd (oq_pop_priority ?q 6))"
    by (metis prod.collapse)
  note aged = oq_aging_order [OF refl this]
  have "oq_sorted ?q = [(sample_env Ask 255, EnvelopeMetadata 255 1), (sample_env Tell 0, EnvelopeMetadata 0 4)]"
    by code_simp
  then show ?thesis using pop aged by (auto simp: duration_since_def Let_def)
qed

text \<open>A drain hands over everything, in order: for every reachable queue it returns the stream items in
  their order followed by exactly the other envelopes, by lane (lane mode) or by priority (comparer
  mode), and leaves an empty queue.\<close>

theorem oq_drain_complete:
  assumes "q0 = oq_with_config cap m \<or> q0 = oq_with_comparer c cap" and "q = oq_final q0 ops"
    and "oq_drain_ordered q = (out, q')"
  shows "mset out = mset (oq_contents q) \<and> oq_contents q' = [] \<and> oq_is_empty q' \<and>
    (\<exists>rest. out = oq_stream_fifo q @ rest \<and>
       (if oq_is_comparer_mode q then sorted (map extract_priority rest) else sorted (map env_lane rest)))"
proof -
  have ok: "oq_ok q" using assms(1,2) oq_new_ok oq_run_ok by blast
  have len: "length (oq_lanes q) = LANE_COUNT" using ok by (simp add: oq_ok_def oq_shape_def)
  have ty: "oq_typed q" using ok by (simp add: oq_ok_def)
  have "mset out = mset (oq_contents q)" using drain_contents [OF ok] assms(3) by simp
  moreover have "oq_contents q' = []" "oq_is_empty q'"
    using assms(3) ok
    by (auto simp: oq_drain_ordered_def oq_contents_def oq_is_empty_def oq_ok_def oq_shape_def
        oq_is_comparer_mode_def oq_lanes_empty_concat split: if_splits)
  moreover have "sorted (map env_lane (concat (oq_lanes q)))"
    using sorted_concat_lanes [of "oq_lanes q" env_lane 0] ty len by (simp add: oq_typed_def)
  moreover have "sorted (map extract_priority (map fst
      (sort_key (\<lambda>e. (em_priority (snd e), em_enqueued_at (snd e))) (oq_sorted q))))"
    by (rule sorted_map_fst_by_priority) (use ty in \<open>simp add: oq_typed_def\<close>)
  moreover have "\<exists>rest. out = oq_stream_fifo q @ rest \<and> rest =
      (if oq_is_comparer_mode q
       then map fst (sort_key (\<lambda>e. (em_priority (snd e), em_enqueued_at (snd e))) (oq_sorted q))
       else concat (oq_lanes q))"
    using assms(3) by (simp add: oq_drain_ordered_def)
  ultimately show ?thesis by fastforce
qed

theorem oq_drain_complete_witness:
  "let q = oq_final (oq_with_config 0 0) [Push 1 (sample_env Ask 255), Push 2 (sample_env Tell 0)]
   in fst (oq_drain_ordered q) = [sample_env Tell 0, sample_env Ask 255] \<and>
      mset (fst (oq_drain_ordered q)) = mset (oq_contents q)"
  unfolding Let_def
proof (rule conjI, code_simp)
  show "mset (fst (oq_drain_ordered (oq_final (oq_with_config 0 0)
        [Push 1 (sample_env Ask 255), Push 2 (sample_env Tell 0)]))) =
      mset (oq_contents (oq_final (oq_with_config 0 0)
        [Push 1 (sample_env Ask 255), Push 2 (sample_env Tell 0)]))"
    using oq_drain_complete [OF disjI1 [OF refl] refl surjective_pairing] by blast
qed

text \<open>Interleaving by the parity of the length does not keep stream traffic from starving a tell or
  ask: with one such envelope waiting, a producer that adds one stream item after each pop has every
  pop return a stream item, for as long as it goes on.\<close>

theorem oq_parity_starvation:
  assumes "\<not> env_stream p" and "env_stream s"
  shows "oq_popped oq_new ([Push 0 p, Push 0 s] @ concat (replicate n [Pop t, Push t' s])) = replicate n s"
  using mixed_queue_rounds [OF assms, of n t t'] by (simp add: mixed_queue_def split_beta)

theorem oq_parity_starvation_witness:
  "oq_popped oq_new ([Push 0 (sample_env Tell 0), Push 0 (sample_env Expand 0)] @
     concat (replicate 100 [Pop 1, Push 1 (sample_env Expand 0)])) = replicate 100 (sample_env Expand 0)"
  by (rule oq_parity_starvation) (simp_all add: is_stream_mode_def)

text \<open>The consecutive-pop limit does not keep a background envelope from starving: for every limit of
  two or more, envelopes that alternate between the two most urgent lanes are served one after the
  other for ever while the background envelope waits.\<close>

theorem oq_fair_starvation:
  assumes "\<not> env_stream b" "env_lane b = 4" "\<not> env_stream a" "env_lane a = 0"
    "\<not> env_stream c" "env_lane c = 1" "2 \<le> m"
  shows "oq_popped (oq_with_config 0 m)
      (Push t b # concat (replicate k [Push t a, Pop t', Push t c, Pop t'])) = concat (replicate k [a, c])"
  using fair_queue_rounds [OF assms(3-7), of 0 0 b k t t'] fair_queue_init [OF assms(1,2), of m t]
  by (simp add: split_beta)

theorem oq_fair_starvation_witness:
  "oq_popped (oq_with_config 0 3) (Push 1 (sample_env Tell 255) # concat (replicate 100
      [Push 1 (sample_env Tell 0), Pop 2, Push 1 (sample_env Tell 100), Pop 2])) =
    concat (replicate 100 [sample_env Tell 0, sample_env Tell 100])"
  by (rule oq_fair_starvation) (simp_all add: is_stream_mode_def lane_index_from_priority_def)

end
