(* ===== verification/Registries.thy ===== *)
theory Registries
  imports Core_Types
begin

text \<open>
  The registries of the library: \<^verbatim>\<open>registry.rs\<close> (actors by name) and
  \<^verbatim>\<open>type_registry.rs\<close> (deserializers and actor factories by type name). A value of type
  \<^verbatim>\<open>Box<dyn Any>\<close> is of a type parameter; a downcast is a function argument. The contract that
  all registries share, that a lookup sees the last write, is a locale.
\<close>

section \<open>Keyed stores\<close>

datatype ('k, 'v) store_op = Put 'k 'v | Del 'k

text \<open>What a lookup of \<open>k\<close> should give after a history of writes, from the value before it.\<close>

fun last_write :: "'k \<Rightarrow> 'v option \<Rightarrow> ('k, 'v) store_op list \<Rightarrow> 'v option" where
  "last_write k v [] = v"
| "last_write k v (Put k' v' # ops) = last_write k (if k' = k then Some v' else v) ops"
| "last_write k v (Del k' # ops) = last_write k (if k' = k then None else v) ops"

fun store_apply :: "('s \<Rightarrow> 'k \<Rightarrow> 'v \<Rightarrow> 's) \<Rightarrow> ('s \<Rightarrow> 'k \<Rightarrow> 's) \<Rightarrow> 's \<Rightarrow> ('k, 'v) store_op \<Rightarrow> 's" where
  "store_apply put del s (Put k v) = put s k v"
| "store_apply put del s (Del k) = del s k"

locale keyed_store =
  fixes empty :: 's
    and get :: "'s \<Rightarrow> 'k \<Rightarrow> 'v option"
    and put :: "'s \<Rightarrow> 'k \<Rightarrow> 'v \<Rightarrow> 's"
    and del :: "'s \<Rightarrow> 'k \<Rightarrow> 's"
  assumes get_empty: "get empty k = None"
    and get_put: "get (put s k v) k' = (if k = k' then Some v else get s k')"
    and get_del: "get (del s k) k' = (if k = k' then None else get s k')"
begin

lemma get_history_from: "get (foldl (store_apply put del) s ops) k = last_write k (get s k) ops"
proof (induction ops arbitrary: s)
  case (Cons x ops)
  then show ?case by (cases x) (simp_all add: get_put get_del)
qed simp

lemma get_history: "get (foldl (store_apply put del) empty ops) k = last_write k None ops"
  by (simp add: get_history_from get_empty)

end

lemma last_write_untouched:
  "\<forall>x \<in> set ops. (\<forall>v. x \<noteq> Put k v) \<and> x \<noteq> Del k \<Longrightarrow> last_write k v ops = v"
  by (induction k v ops rule: last_write.induct) auto

lemma last_write_append: "last_write k v (ops @ ops') = last_write k (last_write k v ops) ops'"
  by (induction k v ops rule: last_write.induct) auto

section \<open>Actors by name\<close>

record 'r actor_registry =
  ar_entries :: "(string, 'r) hashmap"

definition ar_new :: "'r actor_registry" where
  "ar_new = \<lparr>ar_entries = hm_empty\<rparr>"

definition ar_register :: "'r actor_registry \<Rightarrow> string \<Rightarrow> 'r \<Rightarrow> 'r actor_registry" where
  "ar_register r name actor_ref = r\<lparr>ar_entries := hm_insert name actor_ref (ar_entries r)\<rparr>"

definition ar_lookup :: "('r \<Rightarrow> 'a option) \<Rightarrow> 'r actor_registry \<Rightarrow> string \<Rightarrow> 'a option" where
  "ar_lookup downcast_ref r name = Option.bind (hm_get (ar_entries r) name) downcast_ref"

definition ar_unregister :: "'r actor_registry \<Rightarrow> string \<Rightarrow> bool \<times> 'r actor_registry" where
  "ar_unregister r name =
     (hm_get (ar_entries r) name \<noteq> None, r\<lparr>ar_entries := hm_remove name (ar_entries r)\<rparr>)"

definition ar_contains :: "'r actor_registry \<Rightarrow> string \<Rightarrow> bool" where
  "ar_contains r name \<longleftrightarrow> hm_get (ar_entries r) name \<noteq> None"

definition ar_len :: "'r actor_registry \<Rightarrow> nat" where
  "ar_len r = length (hm_keys (ar_entries r))"

definition ar_is_empty :: "'r actor_registry \<Rightarrow> bool" where
  "ar_is_empty r \<longleftrightarrow> ar_entries r = []"

definition ar_names :: "'r actor_registry \<Rightarrow> string list" where
  "ar_names r = hm_keys (ar_entries r)"

interpretation ars: keyed_store ar_new "ar_lookup Some" ar_register "\<lambda>r name. snd (ar_unregister r name)"
  by unfold_locales (auto simp: ar_new_def ar_lookup_def ar_register_def ar_unregister_def)

abbreviation ar_history :: "(string, 'r) store_op list \<Rightarrow> 'r actor_registry" where
  "ar_history \<equiv> foldl (store_apply ar_register (\<lambda>r name. snd (ar_unregister r name))) ar_new"

lemma ar_history_wf: "hm_wf (ar_entries (ar_history ops))"
proof -
  have "hm_wf (ar_entries r) \<Longrightarrow>
      hm_wf (ar_entries (foldl (store_apply ar_register (\<lambda>r name. snd (ar_unregister r name))) r ops))"
    for r :: "'a actor_registry"
  proof (induction ops arbitrary: r)
    case (Cons x ops)
    then show ?case by (cases x) (simp_all add: ar_register_def ar_unregister_def)
  qed simp
  then show ?thesis by (simp add: ar_new_def)
qed

section \<open>Types and factories\<close>

datatype serialization_error = SerializationError (se_message: string)

definition serialization_error_display :: "serialization_error \<Rightarrow> string" where
  "serialization_error_display e = ''serialization error: '' @ se_message e"

type_synonym 'm deserializer_fn = "bytes \<Rightarrow> serialization_error + 'm"

record ('m, 'd) type_registry =
  tr_deserializers :: "(string, 'm deserializer_fn) hashmap"
  tr_factories :: "(string, 'm deserializer_fn) hashmap"
  tr_actor_factories :: "(string, bytes \<Rightarrow> 'd \<Rightarrow> serialization_error + 'm) hashmap"

definition tr_new :: "('m, 'd) type_registry" where
  "tr_new = \<lparr>tr_deserializers = hm_empty, tr_factories = hm_empty, tr_actor_factories = hm_empty\<rparr>"

definition tr_register :: "('m, 'd) type_registry \<Rightarrow> string \<Rightarrow> 'm deserializer_fn \<Rightarrow> ('m, 'd) type_registry" where
  "tr_register r type_name deserializer =
     r\<lparr>tr_deserializers := hm_insert type_name deserializer (tr_deserializers r)\<rparr>"

text \<open>The convenience registrations wrap a serde decoder, which either fails with a text or returns
  the decoded value (\<^verbatim>\<open>serde_json::from_slice\<close>, a parameter).\<close>

definition tr_register_type ::
  "(bytes \<Rightarrow> string + 'm) \<Rightarrow> ('m, 'd) type_registry \<Rightarrow> string \<Rightarrow> ('m, 'd) type_registry" where
  "tr_register_type from_slice r type_name =
     r\<lparr>tr_deserializers := hm_insert type_name
         (\<lambda>bytes. case from_slice bytes of
            Inl e \<Rightarrow> Inl (SerializationError (''failed to deserialize '' @ type_name @ '': '' @ e))
          | Inr v \<Rightarrow> Inr v)
         (tr_deserializers r)\<rparr>"

definition tr_deserialize :: "('m, 'd) type_registry \<Rightarrow> string \<Rightarrow> bytes \<Rightarrow> serialization_error + 'm" where
  "tr_deserialize r type_name bytes =
     (case hm_get (tr_deserializers r) type_name of
        None \<Rightarrow> Inl (SerializationError (''no deserializer registered for '' @ [CHR 0x27] @ type_name @ [CHR 0x27]))
      | Some deserializer \<Rightarrow> deserializer bytes)"

definition tr_has_type :: "('m, 'd) type_registry \<Rightarrow> string \<Rightarrow> bool" where
  "tr_has_type r type_name \<longleftrightarrow> hm_get (tr_deserializers r) type_name \<noteq> None"

definition tr_type_count :: "('m, 'd) type_registry \<Rightarrow> nat" where
  "tr_type_count r = length (hm_keys (tr_deserializers r))"

definition tr_register_factory ::
  "('m, 'd) type_registry \<Rightarrow> string \<Rightarrow> 'm deserializer_fn \<Rightarrow> ('m, 'd) type_registry" where
  "tr_register_factory r type_name factory =
     r\<lparr>tr_factories := hm_insert type_name factory (tr_factories r)\<rparr>"

definition tr_register_actor ::
  "(bytes \<Rightarrow> string + 'args) \<Rightarrow> ('args \<Rightarrow> 'deps \<Rightarrow> 'm) \<Rightarrow> ('m, 'd) type_registry \<Rightarrow> string \<Rightarrow> 'deps
    \<Rightarrow> ('m, 'd) type_registry" where
  "tr_register_actor from_slice create r type_name deps =
     r\<lparr>tr_factories := hm_insert type_name
         (\<lambda>bytes. case from_slice bytes of
            Inl e \<Rightarrow> Inl (SerializationError (''failed to deserialize args for '' @ type_name @ '': '' @ e))
          | Inr args \<Rightarrow> Inr (create args deps))
         (tr_factories r)\<rparr>"

definition tr_create_actor :: "('m, 'd) type_registry \<Rightarrow> string \<Rightarrow> bytes \<Rightarrow> serialization_error + 'm" where
  "tr_create_actor r type_name args_bytes =
     (case hm_get (tr_factories r) type_name of
        None \<Rightarrow> Inl (SerializationError (''no actor factory registered for '' @ [CHR 0x27] @ type_name @ [CHR 0x27]))
      | Some factory \<Rightarrow> factory args_bytes)"

definition tr_has_factory :: "('m, 'd) type_registry \<Rightarrow> string \<Rightarrow> bool" where
  "tr_has_factory r type_name \<longleftrightarrow>
     hm_get (tr_factories r) type_name \<noteq> None \<or> hm_get (tr_actor_factories r) type_name \<noteq> None"

definition tr_factory_count :: "('m, 'd) type_registry \<Rightarrow> nat" where
  "tr_factory_count r = length (hm_keys (tr_factories r)) + length (hm_keys (tr_actor_factories r))"

definition tr_register_actor_factory ::
  "('m, 'd) type_registry \<Rightarrow> string \<Rightarrow> (bytes \<Rightarrow> 'd \<Rightarrow> serialization_error + 'm) \<Rightarrow> ('m, 'd) type_registry" where
  "tr_register_actor_factory r type_name factory =
     r\<lparr>tr_actor_factories := hm_insert type_name factory (tr_actor_factories r)\<rparr>"

definition tr_create_actor_with_deps ::
  "('m, 'd) type_registry \<Rightarrow> string \<Rightarrow> bytes \<Rightarrow> 'd \<Rightarrow> serialization_error + 'm" where
  "tr_create_actor_with_deps r type_name args_bytes deps =
     (case hm_get (tr_actor_factories r) type_name of
        None \<Rightarrow> Inl (SerializationError
          (''no actor factory (trait-based) registered for '' @ [CHR 0x27] @ type_name @ [CHR 0x27]))
      | Some factory \<Rightarrow> factory args_bytes deps)"

text \<open>The JSON factory: arguments are decoded with serde, dependencies are downcast first.\<close>

definition json_create_from_bytes ::
  "(bytes \<Rightarrow> string + 'args) \<Rightarrow> ('args \<Rightarrow> 'deps \<Rightarrow> 'a) \<Rightarrow> string \<Rightarrow> bytes \<Rightarrow> 'deps \<Rightarrow> serialization_error + 'a" where
  "json_create_from_bytes from_slice create type_name args_bytes deps =
     (case from_slice args_bytes of
        Inl e \<Rightarrow> Inl (SerializationError (''failed to deserialize args for '' @ type_name @ '': '' @ e))
      | Inr args \<Rightarrow> Inr (create args deps))"

definition json_create_erased ::
  "(bytes \<Rightarrow> string + 'args) \<Rightarrow> ('args \<Rightarrow> 'deps \<Rightarrow> 'a) \<Rightarrow> ('d \<Rightarrow> 'deps option) \<Rightarrow> string \<Rightarrow> string \<Rightarrow> bytes \<Rightarrow> 'd
    \<Rightarrow> serialization_error + 'a" where
  "json_create_erased from_slice create downcast type_name deps_type args_bytes deps =
     (case downcast deps of
        None \<Rightarrow> Inl (SerializationError (''deps type mismatch for '' @ type_name @ '': expected '' @ deps_type))
      | Some deps' \<Rightarrow> json_create_from_bytes from_slice create type_name args_bytes deps')"

section \<open>Properties\<close>

text \<open>The actor registry is a faithful directory: after any history of registrations and removals, a
  lookup gives exactly the last reference registered under the name and not removed since, provided it
  is of the requested type; the names are listed once each, and they are the registered ones.\<close>

theorem actor_registry_directory:
  "ar_lookup downcast (ar_history ops) name = Option.bind (last_write name None ops) downcast \<and>
   (ar_contains (ar_history ops) name \<longleftrightarrow> last_write name None ops \<noteq> None) \<and>
   distinct (ar_names (ar_history ops)) \<and>
   set (ar_names (ar_history ops)) = {n. last_write n None ops \<noteq> None} \<and>
   ar_len (ar_history ops) = card {n. last_write n None ops \<noteq> None}"
proof -
  have get: "hm_get (ar_entries (ar_history ops)) n = last_write n None ops" for n
    using ars.get_history [of ops n] by (simp add: ar_lookup_def)
  have wf: "distinct (ar_names (ar_history ops))"
    unfolding ar_names_def by (rule hm.wf_keys [OF ar_history_wf])
  have names: "set (ar_names (ar_history ops)) = {n. last_write n None ops \<noteq> None}"
    by (simp add: ar_names_def hm.keys_get get)
  moreover have "ar_len (ar_history ops) = card {n. last_write n None ops \<noteq> None}"
    using distinct_card [OF wf] names by (simp add: ar_len_def ar_names_def)
  ultimately show ?thesis using wf by (simp add: ar_lookup_def ar_contains_def get)
qed

end
