(* ===== verification/Wire_Version.thy ===== *)
theory Wire_Version
  imports Prelude
begin

text \<open>
  The wire protocol version of \<^verbatim>\<open>dactor/src/version.rs\<close>: the parser of
  \<^verbatim>\<open>MAJOR.MINOR.PATCH\<close> strings, the printer, the ordering and the compatibility
  policy. Strings are lists of bytes, as Rust's \<^verbatim>\<open>str\<close> is; every character the parser looks
  at is ASCII.
\<close>

section \<open>Data\<close>

datatype wire_version = WireVersion (major: u32) (minor: u32) (patch: u32)

datatype parse_wire_version_error = ParseWireVersionError (pe_input: string) (pe_reason: string)

definition DACTOR_WIRE_VERSION :: string where
  "DACTOR_WIRE_VERSION = ''0.2.0''"

definition parse_error_display :: "parse_wire_version_error \<Rightarrow> string" where
  "parse_error_display e =
     ''invalid wire version '' @ [CHR 0x22] @ pe_input e @ [CHR 0x22] @ '': '' @ pe_reason e"

section \<open>Parsing and printing\<close>

text \<open>The standard library's \<^verbatim>\<open>str::split\<close> on one character.\<close>

fun split_on :: "char \<Rightarrow> string \<Rightarrow> string list" where
  "split_on c [] = [[]]"
| "split_on c (x # xs) =
     (if x = c then [] # split_on c xs
      else (case split_on c xs of [] \<Rightarrow> [[x]] | y # ys \<Rightarrow> (x # y) # ys))"

text \<open>The standard library's \<^verbatim>\<open>u32::from_str\<close>.\<close>

definition parse_u32 :: "string \<Rightarrow> u32 option" where
  "parse_u32 s =
     (if s = [] \<or> s = ''+'' \<or> s = ''-'' then None
      else map_option of_nat
             (parse_digits (2 ^ 32) 0 (if hd s = CHR ''+'' then tl s else s)))"

definition parse_segment :: "string \<Rightarrow> string \<Rightarrow> parse_wire_version_error + u32" where
  "parse_segment s seg =
     (if seg = [] then Inl (ParseWireVersionError s ''empty version segment'')
      else if length seg > 1 \<and> hd seg = CHR ''0''
        then Inl (ParseWireVersionError s ''leading zeros are not allowed'')
      else if hd seg = CHR ''+''
        then Inl (ParseWireVersionError s ''leading '+' sign is not allowed'')
      else (case parse_u32 seg of
              None \<Rightarrow> Inl (ParseWireVersionError s ''version segment is not a valid u32 integer'')
            | Some n \<Rightarrow> Inr n))"

definition wire_version_from_str :: "string \<Rightarrow> parse_wire_version_error + wire_version" where
  "wire_version_from_str s =
     (let parts = split_on (CHR ''.'') s in
      if length parts \<noteq> 3
      then Inl (ParseWireVersionError s
             ''expected exactly 3 dot-separated segments (MAJOR.MINOR.PATCH)'')
      else (case parse_segment s (parts ! 0) of Inl e \<Rightarrow> Inl e | Inr a \<Rightarrow>
           (case parse_segment s (parts ! 1) of Inl e \<Rightarrow> Inl e | Inr b \<Rightarrow>
           (case parse_segment s (parts ! 2) of Inl e \<Rightarrow> Inl e | Inr c \<Rightarrow>
              Inr (WireVersion a b c)))))"

definition wire_version_parse :: "string \<Rightarrow> parse_wire_version_error + wire_version" where
  "wire_version_parse s = wire_version_from_str s"

definition wire_version_display :: "wire_version \<Rightarrow> string" where
  "wire_version_display v =
     show_nat (unat (major v)) @ ''.'' @ show_nat (unat (minor v)) @ ''.'' @ show_nat (unat (patch v))"

section \<open>Compatibility and order\<close>

definition is_compatible :: "wire_version \<Rightarrow> wire_version \<Rightarrow> bool" where
  "is_compatible a b \<longleftrightarrow> major a = major b"

definition wire_version_cmp :: "wire_version \<Rightarrow> wire_version \<Rightarrow> ordering" where
  "wire_version_cmp a b =
     then_cmp (then_cmp (cmp (major a) (major b)) (cmp (minor a) (minor b)))
       (cmp (patch a) (patch b))"

definition wire_version_partial_cmp :: "wire_version \<Rightarrow> wire_version \<Rightarrow> ordering option" where
  "wire_version_partial_cmp a b = Some (wire_version_cmp a b)"

text \<open>Rust's \<^verbatim>\<open>Ord\<close> instance is a linear order; the library's order class makes
  sorting and minima apply to versions.\<close>

instantiation wire_version :: linorder
begin

definition less_wire_version :: "wire_version \<Rightarrow> wire_version \<Rightarrow> bool" where
  "less_wire_version a b \<longleftrightarrow> wire_version_cmp a b = Less"

definition less_eq_wire_version :: "wire_version \<Rightarrow> wire_version \<Rightarrow> bool" where
  "less_eq_wire_version a b \<longleftrightarrow> wire_version_cmp a b \<noteq> Greater"

instance
proof
  fix x y z :: wire_version
  have le: "a \<le> b \<longleftrightarrow> a < b \<or> a = b" for a b :: wire_version
    by (cases "wire_version_cmp a b"; cases a; cases b)
      (auto simp: less_wire_version_def less_eq_wire_version_def wire_version_cmp_def)
  have lt: "a < b \<longleftrightarrow> major a < major b \<or> major a = major b \<and>
      (minor a < minor b \<or> minor a = minor b \<and> patch a < patch b)" for a b :: wire_version
    by (auto simp: less_wire_version_def wire_version_cmp_def)
  show "x < y \<longleftrightarrow> x \<le> y \<and> \<not> y \<le> x" by (auto simp: le lt)
  show "x \<le> x" by (simp add: le)
  show "x \<le> y \<Longrightarrow> y \<le> z \<Longrightarrow> x \<le> z" by (auto simp: le lt)
  show "x \<le> y \<Longrightarrow> y \<le> x \<Longrightarrow> x = y" by (auto simp: le lt)
  show "x \<le> y \<or> y \<le> x" by (cases x; cases y) (auto simp: le lt)
qed

end

section \<open>Lemmas\<close>

lemma split_on_no_sep: "c \<notin> set s \<Longrightarrow> split_on c s = [s]"
  by (induction s) auto

lemma split_on_sep: "c \<notin> set a \<Longrightarrow> split_on c (a @ c # s) = a # split_on c s"
  by (induction a) auto

fun join_with :: "char \<Rightarrow> string list \<Rightarrow> string" where
  "join_with c [] = []"
| "join_with c [x] = x"
| "join_with c (x # xs) = x @ c # join_with c xs"

lemma split_on_not_Nil [simp]: "split_on c s \<noteq> []"
  by (cases s) (auto split: list.splits)

lemma join_with_split_on: "join_with c (split_on c s) = s"
proof (induction s)
  case (Cons x s)
  obtain y ys where "split_on c s = y # ys" by (cases "split_on c s") auto
  with Cons show ?case by (cases ys) auto
qed simp

lemma dot_not_digit: "\<not> is_digit (CHR ''.'')"
  by code_simp

lemma dot_notin_show_nat [simp]: "CHR ''.'' \<notin> set (show_nat n)"
  using show_nat_digits dot_not_digit by blast

lemma plus_not_digit: "\<not> is_digit (CHR ''+'')"
  by code_simp

lemma minus_not_digit: "\<not> is_digit (CHR ''-'')"
  by code_simp

lemma hd_show_nat_digit: "is_digit (hd (show_nat n))"
  by (rule show_nat_digits) (rule hd_in_set, simp)

lemma hd_show_nat_zero: "hd (show_nat n) = CHR ''0'' \<Longrightarrow> length (show_nat n) = 1"
proof (induction n rule: show_nat.induct)
  case (1 n)
  show ?case
  proof (cases "n < 10")
    case True
    then show ?thesis by (simp add: show_nat_small)
  next
    case False
    with "1.prems" have h: "hd (show_nat (n div 10)) = CHR ''0''"
      by (simp add: show_nat_snoc)
    with "1.IH" False obtain c where "show_nat (n div 10) = [c]"
      by (auto simp: length_Suc_conv)
    with h have "show_nat (n div 10) = ''0''" by simp
    then have "n div 10 = 0"
      using digits_value_show_nat [of "n div 10"] by (simp add: digits_value_def digit_val_def)
    with False show ?thesis by simp
  qed
qed

text \<open>A segment parses exactly when it is the canonical decimal print-out of a 32-bit value.\<close>

lemma parse_segment_show: "parse_segment s (show_nat (unat (n::u32))) = Inr n"
proof -
  let ?d = "show_nat (unat n)"
  have hd: "is_digit (hd ?d)" by (rule hd_show_nat_digit)
  have "parse_digits (2 ^ 32) 0 ?d = Some (unat n)"
    using unsigned_less [of n, where ?'a = nat] show_nat_digits digits_value_show_nat [of "unat n"]
    by (auto simp: parse_digits_eq Let_def digits_value_def [symmetric])
  moreover have "hd ?d \<noteq> CHR ''+''" using hd plus_not_digit by metis
  moreover have "?d \<noteq> ''+''" "?d \<noteq> ''-''"
    using hd plus_not_digit minus_not_digit by (metis list.sel(1))+
  ultimately show ?thesis
    using hd_show_nat_zero [of "unat n"] by (auto simp: parse_segment_def parse_u32_def)
qed

lemma parse_segment_canonical:
  assumes "parse_segment s seg = Inr n"
  shows "seg = show_nat (unat n)"
proof -
  from assms have ne: "seg \<noteq> []" and z: "length seg = 1 \<or> hd seg \<noteq> CHR ''0''"
    and p: "hd seg \<noteq> CHR ''+''" and u: "parse_u32 seg = Some n"
    by (cases seg; auto simp: parse_segment_def split: if_splits option.splits)+
  from u p obtain v where v: "parse_digits (2 ^ 32) 0 seg = Some v" and n: "n = of_nat v"
    by (auto simp: parse_u32_def split: if_splits)
  then have dig: "\<forall>c \<in> set seg. is_digit c" and val: "v = digits_value seg" and lt: "v < 2 ^ 32"
    by (auto simp: parse_digits_eq Let_def digits_value_def split: if_splits)
  have "unat n = digits_value seg" using lt n val by (simp add: unat_of_nat)
  then show ?thesis using show_nat_digits_value [OF dig ne z] by simp
qed

lemma split_display:
  "split_on (CHR ''.'') (wire_version_display v) =
     [show_nat (unat (major v)), show_nat (unat (minor v)), show_nat (unat (patch v))]"
  by (simp add: wire_version_display_def split_on_sep split_on_no_sep)

lemma from_str_display: "wire_version_from_str (wire_version_display v) = Inr v"
  by (cases v) (simp add: wire_version_from_str_def Let_def split_display parse_segment_show)

lemma from_str_canonical:
  assumes "wire_version_from_str s = Inr v"
  shows "s = wire_version_display v"
proof -
  obtain a b c where parts: "split_on (CHR ''.'') s = [a, b, c]"
    using assms
    by (auto simp: wire_version_from_str_def Let_def length_Suc_conv numeral_3_eq_3
        split: if_splits)
  with assms have "a = show_nat (unat (major v))" "b = show_nat (unat (minor v))"
      "c = show_nat (unat (patch v))"
    by (auto simp: wire_version_from_str_def Let_def split: sum.splits
        dest: parse_segment_canonical)
  moreover have "s = join_with (CHR ''.'') [a, b, c]"
    using join_with_split_on [of "CHR ''.''" s] parts by simp
  ultimately show ?thesis by (simp add: wire_version_display_def)
qed

lemma dactor_wire_version_valid: "wire_version_parse DACTOR_WIRE_VERSION = Inr (WireVersion 0 2 0)"
proof -
  have "wire_version_display (WireVersion 0 2 0) = DACTOR_WIRE_VERSION"
    by code_simp
  then show ?thesis using from_str_display [of "WireVersion 0 2 0"]
    by (simp add: wire_version_parse_def)
qed

section \<open>Properties\<close>

text \<open>C28. The parser accepts exactly the print-outs of versions and inverts the printer:
  parsing a string succeeds with \<open>v\<close> if and only if the string is \<open>v\<close>'s canonical form.
  So no two strings parse to one version, no leading zero, sign, space or missing or extra segment
  gets through, and the whole 32-bit range of every segment is accepted.\<close>

theorem wire_version_parse_iff_display:
  "wire_version_parse s = Inr v \<longleftrightarrow> s = wire_version_display v"
  using from_str_display from_str_canonical by (auto simp: wire_version_parse_def)

end
