(* ===== verification/Remote.thy ===== *)
theory Remote
  imports Registries Wire_Version
begin

text \<open>
  Headers and envelopes on their way between nodes: the typed headers of \<^verbatim>\<open>message.rs\<close>, and of
  \<^verbatim>\<open>remote.rs\<close> their wire form, the header registry, the envelope builders, the receive side with
  version migration, cluster state and static discovery. Rust's \<^verbatim>\<open>TypeId\<close> is a natural
  number; a header object is what its trait methods give, with a payload of any type.
\<close>

section \<open>Typed headers\<close>

type_synonym type_id = nat

datatype 'p header_value = HeaderValue
  (hv_type: type_id) (hv_name: string) (hv_bytes: "bytes option") (hv_payload: 'p)

record 'p headers =
  hd_map :: "(type_id, 'p header_value) hashmap"

definition hd_new :: "'p headers" where
  "hd_new = \<lparr>hd_map = hm_empty\<rparr>"

definition hd_insert :: "'p headers \<Rightarrow> 'p header_value \<Rightarrow> 'p headers" where
  "hd_insert h v = h\<lparr>hd_map := hm_insert (hv_type v) v (hd_map h)\<rparr>"

definition hd_get :: "'p headers \<Rightarrow> type_id \<Rightarrow> 'p header_value option" where
  "hd_get h t =
     (case hm_get (hd_map h) t of
        Some v \<Rightarrow> (if hv_type v = t then Some v else None)
      | None \<Rightarrow> None)"

definition hd_remove :: "'p headers \<Rightarrow> type_id \<Rightarrow> 'p header_value option \<times> 'p headers" where
  "hd_remove h t = (hm_get (hd_map h) t, h\<lparr>hd_map := hm_remove t (hd_map h)\<rparr>)"

definition hd_insert_boxed :: "'p headers \<Rightarrow> 'p header_value \<Rightarrow> 'p headers" where
  "hd_insert_boxed h v = h\<lparr>hd_map := hm_insert (hv_type v) v (hd_map h)\<rparr>"

definition hd_is_empty :: "'p headers \<Rightarrow> bool" where
  "hd_is_empty h \<longleftrightarrow> hd_map h = []"

definition hd_len :: "'p headers \<Rightarrow> nat" where
  "hd_len h = length (hm_keys (hd_map h))"

definition hd_to_wire :: "'p headers \<Rightarrow> wire_headers" where
  "hd_to_wire h =
     foldl (\<lambda>wire v. case hv_bytes v of Some b \<Rightarrow> wh_insert wire (hv_name v) b | None \<Rightarrow> wire)
       wh_new (hm_values (hd_map h))"

section \<open>Header registry\<close>

record 'p header_registry =
  hr_deserializers :: "(string, bytes \<Rightarrow> 'p header_value option) hashmap"

definition hr_new :: "'p header_registry" where
  "hr_new = \<lparr>hr_deserializers = hm_empty\<rparr>"

definition hr_register ::
  "'p header_registry \<Rightarrow> string \<Rightarrow> (bytes \<Rightarrow> 'p header_value option) \<Rightarrow> 'p header_registry" where
  "hr_register r header_name deserializer =
     r\<lparr>hr_deserializers := hm_insert header_name deserializer (hr_deserializers r)\<rparr>"

definition hr_deserialize :: "'p header_registry \<Rightarrow> string \<Rightarrow> bytes \<Rightarrow> 'p header_value option" where
  "hr_deserialize r header_name bytes =
     (case hm_get (hr_deserializers r) header_name of None \<Rightarrow> None | Some deser \<Rightarrow> deser bytes)"

definition hr_len :: "'p header_registry \<Rightarrow> nat" where
  "hr_len r = length (hm_keys (hr_deserializers r))"

definition hr_is_empty :: "'p header_registry \<Rightarrow> bool" where
  "hr_is_empty r \<longleftrightarrow> hr_deserializers r = []"

definition wh_to_headers :: "'p header_registry \<Rightarrow> wire_headers \<Rightarrow> 'p headers" where
  "wh_to_headers registry wire =
     foldl (\<lambda>h (name, bytes). case hr_deserialize registry name bytes of
              Some v \<Rightarrow> hd_insert_boxed h v
            | None \<Rightarrow> h)
       hd_new wire"

section \<open>Envelopes\<close>

text \<open>The serde encoder of the body is a parameter: it fails with a text or gives bytes.\<close>

definition json_serialize_typed :: "('m \<Rightarrow> string + bytes) \<Rightarrow> 'm \<Rightarrow> serialization_error + bytes" where
  "json_serialize_typed to_vec v =
     (case to_vec v of
        Inl e \<Rightarrow> Inl (SerializationError (''json serialize: '' @ e))
      | Inr b \<Rightarrow> Inr b)"

definition json_deserialize_typed :: "(bytes \<Rightarrow> string + 'm) \<Rightarrow> bytes \<Rightarrow> serialization_error + 'm" where
  "json_deserialize_typed from_slice b =
     (case from_slice b of
        Inl e \<Rightarrow> Inl (SerializationError (''json deserialize: '' @ e))
      | Inr v \<Rightarrow> Inr v)"

definition build_wire_envelope ::
  "('m \<Rightarrow> string + bytes) \<Rightarrow> string \<Rightarrow> actor_id \<Rightarrow> string \<Rightarrow> 'm \<Rightarrow> send_mode \<Rightarrow> wire_headers \<Rightarrow> uuid option
    \<Rightarrow> u32 option \<Rightarrow> serialization_error + wire_envelope" where
  "build_wire_envelope to_vec type_name target target_name msg mode headers request_id version =
     (case json_serialize_typed to_vec msg of
        Inl e \<Rightarrow> Inl e
      | Inr body \<Rightarrow> Inr
         \<lparr>we_target = target, we_target_name = target_name, we_message_type = type_name,
          we_send_mode = mode, we_headers = headers, we_body = body, we_request_id = request_id,
          we_version = version\<rparr>)"

definition build_tell_envelope ::
  "('m \<Rightarrow> string + bytes) \<Rightarrow> string \<Rightarrow> actor_id \<Rightarrow> string \<Rightarrow> 'm \<Rightarrow> wire_headers
    \<Rightarrow> serialization_error + wire_envelope" where
  "build_tell_envelope to_vec type_name target target_name msg headers =
     (case json_serialize_typed to_vec msg of
        Inl e \<Rightarrow> Inl e
      | Inr body \<Rightarrow> Inr
         \<lparr>we_target = target, we_target_name = target_name, we_message_type = type_name,
          we_send_mode = Tell, we_headers = headers, we_body = body, we_request_id = None,
          we_version = None\<rparr>)"

definition build_ask_envelope ::
  "('m \<Rightarrow> string + bytes) \<Rightarrow> string \<Rightarrow> actor_id \<Rightarrow> string \<Rightarrow> 'm \<Rightarrow> wire_headers \<Rightarrow> uuid
    \<Rightarrow> serialization_error + wire_envelope" where
  "build_ask_envelope to_vec type_name target target_name msg headers request_id =
     (case json_serialize_typed to_vec msg of
        Inl e \<Rightarrow> Inl e
      | Inr body \<Rightarrow> Inr
         \<lparr>we_target = target, we_target_name = target_name, we_message_type = type_name,
          we_send_mode = Ask, we_headers = headers, we_body = body, we_request_id = Some request_id,
          we_version = None\<rparr>)"

definition receive_envelope_body :: "wire_envelope \<Rightarrow> ('m, 'd) type_registry \<Rightarrow> serialization_error + 'm" where
  "receive_envelope_body envelope registry =
     tr_deserialize registry (we_message_type envelope) (we_body envelope)"

text \<open>A version handler is its migration function: payload, from and to version.\<close>

type_synonym version_handler = "bytes \<Rightarrow> u32 \<Rightarrow> u32 \<Rightarrow> bytes option"

definition cannot_migrate :: "string \<Rightarrow> u32 \<Rightarrow> u32 \<Rightarrow> serialization_error" where
  "cannot_migrate message_type received expected = SerializationError
     (message_type @ '': cannot migrate from v'' @ show_nat (unat received) @ '' to v'' @ show_nat (unat expected))"

definition receive_envelope_body_versioned ::
  "wire_envelope \<Rightarrow> ('m, 'd) type_registry \<Rightarrow> (string, version_handler) hashmap \<Rightarrow> u32 option
    \<Rightarrow> serialization_error + 'm" where
  "receive_envelope_body_versioned envelope registry version_handlers expected_version =
     (let body =
        (case (we_version envelope, expected_version) of
           (Some received, Some expected) \<Rightarrow>
             (if received \<noteq> expected
              then (case hm_get version_handlers (we_message_type envelope) of
                      Some migrate \<Rightarrow>
                        (case migrate (we_body envelope) received expected of
                           None \<Rightarrow> Inl (cannot_migrate (we_message_type envelope) received expected)
                         | Some b \<Rightarrow> Inr b)
                    | None \<Rightarrow> Inr (we_body envelope))
              else Inr (we_body envelope))
         | _ \<Rightarrow> Inr (we_body envelope))
      in case body of
           Inl e \<Rightarrow> Inl e
         | Inr b \<Rightarrow> tr_deserialize registry (we_message_type envelope) b)"

section \<open>Cluster state and discovery\<close>

datatype peer_version_info = PeerVersionInfo
  (pvi_wire_version: wire_version) (pvi_app_version: "string option") (pvi_adapter: string)

record cluster_state =
  cs_local_node :: node_id
  cs_nodes :: "node_id list"
  cs_is_leader :: bool
  cs_wire_version :: wire_version
  cs_app_version :: "string option"
  cs_peer_versions :: "(node_id, peer_version_info) hashmap"

text \<open>The parse of the frozen constant; \<^verbatim>\<open>expect\<close> would panic on an error, which the parse
  never gives (\<open>own_version\<close>).\<close>

definition own_wire_version :: wire_version where
  "own_wire_version = (case wire_version_parse DACTOR_WIRE_VERSION of Inr v \<Rightarrow> v | Inl _ \<Rightarrow> WireVersion 0 0 0)"

definition cs_new :: "node_id \<Rightarrow> node_id list \<Rightarrow> cluster_state" where
  "cs_new local_node nodes = \<lparr>cs_local_node = local_node, cs_nodes = nodes, cs_is_leader = False,
     cs_wire_version = own_wire_version, cs_app_version = None, cs_peer_versions = hm_empty\<rparr>"

definition cs_node_count :: "cluster_state \<Rightarrow> nat" where
  "cs_node_count s = length (cs_nodes s)"

definition cs_contains :: "cluster_state \<Rightarrow> node_id \<Rightarrow> bool" where
  "cs_contains s n \<longleftrightarrow> n \<in> set (cs_nodes s)"

definition cs_peer_version :: "cluster_state \<Rightarrow> node_id \<Rightarrow> peer_version_info option" where
  "cs_peer_version s n = hm_get (cs_peer_versions s) n"

datatype discovered_peer = DiscoveredPeer (dp_node_id: node_id) (dp_address: string)

definition dp_from_address :: "string \<Rightarrow> discovered_peer" where
  "dp_from_address addr = DiscoveredPeer (NodeId addr) addr"

definition static_seeds_new :: "string list \<Rightarrow> discovered_peer list" where
  "static_seeds_new addresses = map dp_from_address addresses"

definition static_seeds_discover :: "discovered_peer list \<Rightarrow> string + discovered_peer list" where
  "static_seeds_discover peers = Inr peers"

section \<open>Header lemmas\<close>

lemma hd_insert_boxed_eq [simp]: "hd_insert_boxed = hd_insert"
  by (simp add: fun_eq_iff hd_insert_boxed_def hd_insert_def)

abbreviation to_wire_entry :: "'p header_value \<Rightarrow> (string \<times> bytes) option" where
  "to_wire_entry v \<equiv> map_option (\<lambda>b. (hv_name v, b)) (hv_bytes v)"

abbreviation from_wire_entry :: "'p header_registry \<Rightarrow> string \<times> bytes \<Rightarrow> (type_id \<times> 'p header_value) option" where
  "from_wire_entry r e \<equiv> map_option (\<lambda>v. (hv_type v, v)) (hr_deserialize r (fst e) (snd e))"

lemma hd_to_wire_collect: "hd_to_wire h = hm_collect to_wire_entry (hm_values (hd_map h))"
  unfolding hd_to_wire_def hm_collect_def
  by (rule foldl_cong) (auto simp: wh_new_def wh_insert_def split: option.splits)

lemma wh_to_headers_collect: "hd_map (wh_to_headers r w) = hm_collect (from_wire_entry r) w"
proof -
  have "hd_map (foldl (\<lambda>h (name, bytes). case hr_deserialize r name bytes of
              Some v \<Rightarrow> hd_insert_boxed h v | None \<Rightarrow> h) h0 w) =
      foldl (\<lambda>m x. case from_wire_entry r x of Some (k, v) \<Rightarrow> hm_insert k v m | None \<Rightarrow> m) (hd_map h0) w" for h0
    by (induction w arbitrary: h0) (auto simp: hd_insert_def split: option.splits)
  then show ?thesis by (simp add: wh_to_headers_def hm_collect_def hd_new_def)
qed

text \<open>Headers that were filled by inserting values: every value is stored under its own type.\<close>

abbreviation hd_of :: "'p header_value list \<Rightarrow> 'p headers" where
  "hd_of vs \<equiv> foldl hd_insert hd_new vs"

lemma hd_of_inv:
  "hm_wf (hd_map (hd_of vs)) \<and> (\<forall>t v. hm_get (hd_map (hd_of vs)) t = Some v \<longrightarrow> hv_type v = t \<and> v \<in> set vs)"
  by (induction vs rule: rev_induct) (auto simp: hd_new_def hd_insert_def split: if_splits)

lemma hd_get_of: "hd_get (hd_of vs) t = hm_get (hd_map (hd_of vs)) t"
  using hd_of_inv [of vs] by (auto simp: hd_get_def split: option.splits)

lemma hd_get_mem: "hd_get (hd_of vs) t = Some v \<Longrightarrow> hv_type v = t \<and> v \<in> set vs"
  using hd_of_inv [of vs] unfolding hd_get_of by blast

lemma map_get_in_set: "hm_wf m \<Longrightarrow> (k, v) \<in> set m \<longleftrightarrow> hm_get m k = Some v"
  by (simp add: hm_get_def hm_wf_def)

lemma headers_wire:
  assumes names: "\<And>u v. u \<in> set vs \<Longrightarrow> v \<in> set vs \<Longrightarrow> hv_bytes u \<noteq> None \<Longrightarrow> hv_bytes v \<noteq> None \<Longrightarrow>
      hv_name u = hv_name v \<Longrightarrow> hv_type u = hv_type v"
  shows "(n, b) \<in> set (hd_to_wire (hd_of vs)) \<longleftrightarrow>
    (\<exists>v. hd_get (hd_of vs) (hv_type v) = Some v \<and> hv_name v = n \<and> hv_bytes v = Some b)"
proof -
  note inv = hd_of_inv [of vs]
  have vals: "v \<in> set (hm_values (hd_map (hd_of vs))) \<longleftrightarrow> hd_get (hd_of vs) (hv_type v) = Some v" for v
    using inv set_hm_values [of "hd_map (hd_of vs)" v] by (auto simp: hd_get_of)
  have one: "b1 = b2" if "x \<in> set (hm_values (hd_map (hd_of vs)))" "y \<in> set (hm_values (hd_map (hd_of vs)))"
      "to_wire_entry x = Some (k, b1)" "to_wire_entry y = Some (k, b2)" for x y k b1 b2
  proof -
    have "x \<in> set vs" "y \<in> set vs" using that(1,2) hd_get_mem unfolding vals by blast+
    moreover have "hv_bytes x = Some b1" "hv_bytes y = Some b2" "hv_name x = hv_name y" using that(3,4) by auto
    ultimately have "hv_type x = hv_type y" using names [of x y] by simp
    then have "x = y" using that(1) [unfolded vals] that(2) [unfolded vals] by (metis option.inject)
    then show ?thesis using that by simp
  qed
  have wf: "hm_wf (hd_to_wire (hd_of vs))" by (simp add: hd_to_wire_collect hm_collect_wf)
  have "(n, b) \<in> set (hd_to_wire (hd_of vs)) \<longleftrightarrow>
      (\<exists>x \<in> set (hm_values (hd_map (hd_of vs))). to_wire_entry x = Some (n, b))"
    unfolding map_get_in_set [OF wf] unfolding hd_to_wire_collect
    by (rule hm_collect_get) (rule one)
  then show ?thesis by (auto simp: vals)
qed

lemma own_version: "wire_version_parse DACTOR_WIRE_VERSION = Inr own_wire_version"
  by (simp add: own_wire_version_def dactor_wire_version_valid)

section \<open>Properties\<close>

text \<open>Headers survive the wire: if the sender's headers have one wire name per header type and the
  receiver's registry decodes what each header encodes to, then converting to wire form and back
  gives, under every type, the same header if it has a wire form and nothing if it is local-only.\<close>

theorem headers_roundtrip:
  assumes "\<And>u v. u \<in> set vs \<Longrightarrow> v \<in> set vs \<Longrightarrow> hv_bytes u \<noteq> None \<Longrightarrow> hv_bytes v \<noteq> None \<Longrightarrow>
      hv_name u = hv_name v \<Longrightarrow> hv_type u = hv_type v"
    and "\<And>v b. v \<in> set vs \<Longrightarrow> hv_bytes v = Some b \<Longrightarrow> hr_deserialize registry (hv_name v) b = Some v"
  shows "hd_get (wh_to_headers registry (hd_to_wire (hd_of vs))) t =
    (case hd_get (hd_of vs) t of Some v \<Rightarrow> (if hv_bytes v = None then None else Some v) | None \<Rightarrow> None)"
proof -
  note wire = headers_wire [of vs, OF assms(1)]
  note inv = hd_of_inv [of vs]
  let ?w = "hd_to_wire (hd_of vs)"
  have dec: "e \<in> set ?w \<and> from_wire_entry registry e = Some (t, v) \<longleftrightarrow>
      hd_get (hd_of vs) t = Some v \<and> hv_type v = t \<and> hv_bytes v = Some (snd e) \<and> hv_name v = fst e" for e t v
  proof
    assume e: "e \<in> set ?w \<and> from_wire_entry registry e = Some (t, v)"
    then obtain u where u: "hd_get (hd_of vs) (hv_type u) = Some u" "hv_name u = fst e" "hv_bytes u = Some (snd e)"
      using wire [of "fst e" "snd e"] unfolding prod.collapse by blast
    then have "hr_deserialize registry (fst e) (snd e) = Some u"
      using assms(2) [of u "snd e"] hd_get_mem by metis
    then show "hd_get (hd_of vs) t = Some v \<and> hv_type v = t \<and> hv_bytes v = Some (snd e) \<and> hv_name v = fst e"
      using e u by auto
  next
    assume v: "hd_get (hd_of vs) t = Some v \<and> hv_type v = t \<and> hv_bytes v = Some (snd e) \<and> hv_name v = fst e"
    then have "(fst e, snd e) \<in> set ?w" using wire [of "fst e" "snd e"] by blast
    moreover have "hr_deserialize registry (fst e) (snd e) = Some v"
      using assms(2) [of v "snd e"] hd_get_mem v by metis
    ultimately show "e \<in> set ?w \<and> from_wire_entry registry e = Some (t, v)" using v by simp
  qed
  have "hm_get (hm_collect (from_wire_entry registry) ?w) t = Some v \<longleftrightarrow>
      (\<exists>e \<in> set ?w. from_wire_entry registry e = Some (t, v))" for v
  proof (rule hm_collect_get)
    fix x y k v1 v2
    assume "x \<in> set ?w" "y \<in> set ?w" "from_wire_entry registry x = Some (k, v1)"
      "from_wire_entry registry y = Some (k, v2)"
    then have "hd_get (hd_of vs) k = Some v1" "hd_get (hd_of vs) k = Some v2" using dec by blast+
    then show "v1 = v2" by simp
  qed
  moreover have "(\<exists>e \<in> set ?w. from_wire_entry registry e = Some (t, v)) \<longleftrightarrow>
      hd_get (hd_of vs) t = Some v \<and> hv_type v = t \<and> hv_bytes v \<noteq> None" for v
  proof
    assume "\<exists>e \<in> set ?w. from_wire_entry registry e = Some (t, v)"
    then show "hd_get (hd_of vs) t = Some v \<and> hv_type v = t \<and> hv_bytes v \<noteq> None" using dec by blast
  next
    assume "hd_get (hd_of vs) t = Some v \<and> hv_type v = t \<and> hv_bytes v \<noteq> None"
    then obtain b where "hd_get (hd_of vs) t = Some v" "hv_type v = t" "hv_bytes v = Some b" by blast
    then show "\<exists>e \<in> set ?w. from_wire_entry registry e = Some (t, v)"
      using dec [of "(hv_name v, b)" t v] by (intro bexI [of _ "(hv_name v, b)"]) simp_all
  qed
  ultimately have "hm_get (hd_map (wh_to_headers registry ?w)) t = Some v \<longleftrightarrow>
      hd_get (hd_of vs) t = Some v \<and> hv_type v = t \<and> hv_bytes v \<noteq> None" for v
    unfolding wh_to_headers_collect by blast
  then have "hd_get (wh_to_headers registry ?w) t = Some v \<longleftrightarrow>
      hd_get (hd_of vs) t = Some v \<and> hv_bytes v \<noteq> None" for v
    using inv by (auto simp: hd_get_def split: option.splits if_splits)
  then show ?thesis by (auto split: option.splits) (metis not_None_eq)+
qed

theorem headers_roundtrip_witness:
  "let vs = [HeaderValue 1 ''dactor.Priority'' (Some [64]) (), HeaderValue 2 ''local'' None ()];
       registry = hr_register hr_new ''dactor.Priority'' (\<lambda>b. Some (HeaderValue 1 ''dactor.Priority'' (Some b) ()))
   in hd_get (wh_to_headers registry (hd_to_wire (hd_of vs))) 1 = Some (HeaderValue 1 ''dactor.Priority'' (Some [64]) ()) \<and>
      hd_get (wh_to_headers registry (hd_to_wire (hd_of vs))) 2 = None"
proof -
  let ?vs = "[HeaderValue 1 ''dactor.Priority'' (Some [64]) (), HeaderValue 2 ''local'' None ()]"
  let ?r = "hr_register hr_new ''dactor.Priority'' (\<lambda>b. Some (HeaderValue 1 ''dactor.Priority'' (Some b) ()))"
  have "hd_get (wh_to_headers ?r (hd_to_wire (hd_of ?vs))) t =
      (case hd_get (hd_of ?vs) t of Some v \<Rightarrow> (if hv_bytes v = None then None else Some v) | None \<Rightarrow> None)" for t
    by (rule headers_roundtrip) (auto simp: hr_deserialize_def hr_register_def hr_new_def)
  then show ?thesis by (simp add: hd_get_def hd_insert_def hd_new_def)
qed

text \<open>C22. A message sent is the message received: for a body codec that decodes what it encodes, an
  envelope built by any builder and received by a node whose registry has the type gives the original
  message if the versions agree, if either side has none or if no version handler is registered for
  the type; otherwise it is the handler's migrated payload that is decoded, or a migration error, but
  never the unmigrated body.\<close>

theorem envelope_roundtrip:
  assumes "to_vec msg = Inr b" and "from_slice b = Inr msg" and "r = tr_register_type from_slice r0 ty"
    and "build_wire_envelope to_vec ty target name msg mode h rid v = Inr env"
  shows "receive_envelope_body env r = Inr msg \<and>
    ((v = None \<or> expected = None \<or> v = expected \<or> hm_get handlers ty = None) \<longrightarrow>
       receive_envelope_body_versioned env r handlers expected = Inr msg) \<and>
    (\<forall>received wanted migrate.
       v = Some received \<and> expected = Some wanted \<and> received \<noteq> wanted \<and> hm_get handlers ty = Some migrate \<longrightarrow>
       receive_envelope_body_versioned env r handlers expected =
         (case migrate b received wanted of
            None \<Rightarrow> Inl (cannot_migrate ty received wanted)
          | Some b' \<Rightarrow> tr_deserialize r ty b'))"
proof -
  have env: "we_message_type env = ty" "we_body env = b" "we_version env = v"
    using assms(1,4) by (auto simp: build_wire_envelope_def json_serialize_typed_def)
  have "tr_deserialize r ty b = Inr msg"
    using assms(2,3) by (simp add: tr_deserialize_def tr_register_type_def)
  then show ?thesis
    by (auto simp: receive_envelope_body_def receive_envelope_body_versioned_def env Let_def
        split: option.splits)
qed

theorem envelope_roundtrip_witness:
  "let to_vec = (\<lambda>n. Inr [n] :: string + bytes);
       from_slice = (\<lambda>b. if length b = 1 then Inr (hd b) else Inl ''length'');
       r = tr_register_type from_slice (tr_new :: (u8, unit) type_registry) ''u8''
   in (case build_wire_envelope to_vec ''u8'' (ActorId (NodeId ''n'') 1) ''a'' 7 Ask wh_new None (Some 2) of
         Inl _ \<Rightarrow> False
       | Inr env \<Rightarrow> receive_envelope_body_versioned env r hm_empty (Some 3) = Inr 7)"
proof -
  let ?to_vec = "\<lambda>n. Inr [n] :: string + bytes"
  let ?from_slice = "\<lambda>b. if length b = 1 then Inr (hd b) else Inl ''length''"
  let ?r = "tr_register_type ?from_slice (tr_new :: (u8, unit) type_registry) ''u8''"
  obtain env where env: "build_wire_envelope ?to_vec ''u8'' (ActorId (NodeId ''n'') 1) ''a'' 7 Ask wh_new None (Some 2) = Inr env"
    by (simp add: build_wire_envelope_def json_serialize_typed_def)
  have "receive_envelope_body_versioned env ?r hm_empty (Some 3) = Inr 7"
    using envelope_roundtrip [OF _ _ refl env, of "[7]" ?from_slice "tr_new :: (u8, unit) type_registry" "Some 3" hm_empty] by simp
  then show ?thesis using env by (simp add: Let_def)
qed

end
