(* ===== verification/System_Actors.thy ===== *)
theory System_Actors
  imports Registries Remote
begin

text \<open>
  The system actors of \<^verbatim>\<open>system_actors.rs\<close> (spawn, watch and cancel managers, node directory, version
  handshake) and the message type check of \<^verbatim>\<open>system_router.rs\<close>. A hash set is a list
  without duplicates. A cancellation token is of a type parameter, and cancelling it is an output of
  the call.
\<close>

section \<open>System message types\<close>

definition SYSTEM_MSG_TYPE_SPAWN :: string where
  "SYSTEM_MSG_TYPE_SPAWN = ''dactor::system_actors::SpawnRequest''"
definition SYSTEM_MSG_TYPE_WATCH :: string where
  "SYSTEM_MSG_TYPE_WATCH = ''dactor::system_actors::WatchRequest''"
definition SYSTEM_MSG_TYPE_UNWATCH :: string where
  "SYSTEM_MSG_TYPE_UNWATCH = ''dactor::system_actors::UnwatchRequest''"
definition SYSTEM_MSG_TYPE_CANCEL :: string where
  "SYSTEM_MSG_TYPE_CANCEL = ''dactor::system_actors::CancelRequest''"
definition SYSTEM_MSG_TYPE_CONNECT_PEER :: string where
  "SYSTEM_MSG_TYPE_CONNECT_PEER = ''dactor::system_actors::ConnectPeer''"
definition SYSTEM_MSG_TYPE_DISCONNECT_PEER :: string where
  "SYSTEM_MSG_TYPE_DISCONNECT_PEER = ''dactor::system_actors::DisconnectPeer''"

lemmas system_msg_types = SYSTEM_MSG_TYPE_SPAWN_def SYSTEM_MSG_TYPE_WATCH_def
  SYSTEM_MSG_TYPE_UNWATCH_def SYSTEM_MSG_TYPE_CANCEL_def SYSTEM_MSG_TYPE_CONNECT_PEER_def
  SYSTEM_MSG_TYPE_DISCONNECT_PEER_def

definition is_system_message_type :: "string \<Rightarrow> bool" where
  "is_system_message_type message_type \<longleftrightarrow>
     message_type = SYSTEM_MSG_TYPE_SPAWN \<or> message_type = SYSTEM_MSG_TYPE_WATCH \<or>
     message_type = SYSTEM_MSG_TYPE_UNWATCH \<or> message_type = SYSTEM_MSG_TYPE_CANCEL \<or>
     message_type = SYSTEM_MSG_TYPE_CONNECT_PEER \<or> message_type = SYSTEM_MSG_TYPE_DISCONNECT_PEER"

datatype routing_error = RoutingError (rerr_message: string)

datatype routing_outcome =
    SpawnCompleted string actor_id
  | SpawnFailed string string
  | Acknowledged
  | CancelAcknowledged
  | CancelNotFound string

definition validate_system_message_type :: "string \<Rightarrow> routing_error + unit" where
  "validate_system_message_type message_type =
     (if is_system_message_type message_type then Inr ()
      else Inl (RoutingError (''unknown system message type: '' @ message_type)))"

section \<open>Spawn manager\<close>

datatype spawn_request = SpawnRequest
  (sr_type_name: string) (sr_args_bytes: bytes) (sr_name: string) (sr_request_id: string)

datatype spawn_response = SpawnSuccess string actor_id | SpawnFailure string string

record ('m, 'd) spawn_manager =
  sm_type_registry :: "('m, 'd) type_registry"
  sm_spawned :: "actor_id list"

definition sm_new :: "('m, 'd) type_registry \<Rightarrow> ('m, 'd) spawn_manager" where
  "sm_new registry = \<lparr>sm_type_registry = registry, sm_spawned = []\<rparr>"

definition sm_create_actor :: "('m, 'd) spawn_manager \<Rightarrow> spawn_request \<Rightarrow> serialization_error + 'm" where
  "sm_create_actor sm request = tr_create_actor (sm_type_registry sm) (sr_type_name request) (sr_args_bytes request)"

definition sm_record_spawn :: "('m, 'd) spawn_manager \<Rightarrow> actor_id \<Rightarrow> ('m, 'd) spawn_manager" where
  "sm_record_spawn sm i = sm\<lparr>sm_spawned := sm_spawned sm @ [i]\<rparr>"

definition sm_spawned_actors :: "('m, 'd) spawn_manager \<Rightarrow> actor_id list" where
  "sm_spawned_actors sm = sm_spawned sm"

section \<open>Watch manager\<close>

datatype watch_notification = WatchNotification (wn_terminated: actor_id) (wn_watcher: actor_id)

record watch_manager =
  wm_watchers :: "(actor_id, actor_id list) hashmap"

definition wm_new :: watch_manager where
  "wm_new = \<lparr>wm_watchers = hm_empty\<rparr>"

definition hs_insert :: "'a \<Rightarrow> 'a list \<Rightarrow> 'a list" where
  "hs_insert x s = (if x \<in> set s then s else s @ [x])"

definition hs_remove :: "'a \<Rightarrow> 'a list \<Rightarrow> 'a list" where
  "hs_remove x s = filter (\<lambda>y. y \<noteq> x) s"

definition wm_watch :: "watch_manager \<Rightarrow> actor_id \<Rightarrow> actor_id \<Rightarrow> watch_manager" where
  "wm_watch wm target watcher = wm\<lparr>wm_watchers :=
     hm_insert target (hs_insert watcher (hm_entry target [] (wm_watchers wm))) (wm_watchers wm)\<rparr>"

definition wm_unwatch :: "watch_manager \<Rightarrow> actor_id \<Rightarrow> actor_id \<Rightarrow> watch_manager" where
  "wm_unwatch wm target watcher =
     (case hm_get (wm_watchers wm) target of
        None \<Rightarrow> wm
      | Some s \<Rightarrow>
          (let s' = hs_remove watcher s in
           if s' = [] then wm\<lparr>wm_watchers := hm_remove target (wm_watchers wm)\<rparr>
           else wm\<lparr>wm_watchers := hm_insert target s' (wm_watchers wm)\<rparr>))"

definition wm_on_terminated :: "watch_manager \<Rightarrow> actor_id \<Rightarrow> watch_notification list \<times> watch_manager" where
  "wm_on_terminated wm terminated =
     (map (WatchNotification terminated) (hm_entry terminated [] (wm_watchers wm)),
      wm\<lparr>wm_watchers := hm_remove terminated (wm_watchers wm)\<rparr>)"

definition wm_watchers_of :: "watch_manager \<Rightarrow> actor_id \<Rightarrow> actor_id list" where
  "wm_watchers_of wm target = hm_entry target [] (wm_watchers wm)"

definition wm_watched_count :: "watch_manager \<Rightarrow> nat" where
  "wm_watched_count wm = length (hm_keys (wm_watchers wm))"

section \<open>Cancel manager\<close>

datatype cancel_request = CancelRequest (cr_target: actor_id) (cr_request_id: "string option")

datatype cancel_response = CancelAck | CancelUnknown string

record 't cancel_manager =
  cm_tokens :: "(string, 't) hashmap"

definition cm_new :: "'t cancel_manager" where
  "cm_new = \<lparr>cm_tokens = hm_empty\<rparr>"

definition cm_register :: "'t cancel_manager \<Rightarrow> string \<Rightarrow> 't \<Rightarrow> 't cancel_manager" where
  "cm_register cm request_id token = cm\<lparr>cm_tokens := hm_insert request_id token (cm_tokens cm)\<rparr>"

text \<open>The response, the token that was cancelled, and the manager after the call.\<close>

definition cm_cancel :: "'t cancel_manager \<Rightarrow> string \<Rightarrow> cancel_response \<times> 't option \<times> 't cancel_manager" where
  "cm_cancel cm request_id =
     (case hm_get (cm_tokens cm) request_id of
        Some token \<Rightarrow> (CancelAck, Some token, cm\<lparr>cm_tokens := hm_remove request_id (cm_tokens cm)\<rparr>)
      | None \<Rightarrow> (CancelUnknown (''no active request with id '' @ [CHR 0x27] @ request_id @ [CHR 0x27]), None, cm))"

definition cm_remove :: "'t cancel_manager \<Rightarrow> string \<Rightarrow> 't cancel_manager" where
  "cm_remove cm request_id = cm\<lparr>cm_tokens := hm_remove request_id (cm_tokens cm)\<rparr>"

definition cm_active_count :: "'t cancel_manager \<Rightarrow> nat" where
  "cm_active_count cm = length (hm_keys (cm_tokens cm))"

section \<open>Node directory\<close>

datatype peer_status = Connecting | Connected | Unreachable | Disconnected

datatype peer_info = PeerInfo (pi_node_id: node_id) (pi_status: peer_status) (pi_address: "string option")

record node_directory =
  nd_peers :: "(node_id, peer_info) hashmap"

definition nd_new :: node_directory where
  "nd_new = \<lparr>nd_peers = hm_empty\<rparr>"

definition nd_add_peer :: "node_directory \<Rightarrow> node_id \<Rightarrow> string option \<Rightarrow> node_directory" where
  "nd_add_peer nd n address = nd\<lparr>nd_peers := hm_insert n (PeerInfo n Connecting address) (nd_peers nd)\<rparr>"

definition nd_set_status :: "node_directory \<Rightarrow> node_id \<Rightarrow> peer_status \<Rightarrow> node_directory" where
  "nd_set_status nd n status =
     (case hm_get (nd_peers nd) n of
        None \<Rightarrow> nd
      | Some info \<Rightarrow> nd\<lparr>nd_peers := hm_insert n (PeerInfo (pi_node_id info) status (pi_address info)) (nd_peers nd)\<rparr>)"

definition nd_remove_peer :: "node_directory \<Rightarrow> node_id \<Rightarrow> node_directory" where
  "nd_remove_peer nd n = nd\<lparr>nd_peers := hm_remove n (nd_peers nd)\<rparr>"

definition nd_get_peer :: "node_directory \<Rightarrow> node_id \<Rightarrow> peer_info option" where
  "nd_get_peer nd n = hm_get (nd_peers nd) n"

definition nd_peer_nodes :: "node_directory \<Rightarrow> node_id list" where
  "nd_peer_nodes nd = hm_keys (nd_peers nd)"

definition nd_peers_with_status :: "node_directory \<Rightarrow> peer_status \<Rightarrow> peer_info list" where
  "nd_peers_with_status nd status = filter (\<lambda>p. pi_status p = status) (hm_values (nd_peers nd))"

definition nd_peer_count :: "node_directory \<Rightarrow> nat" where
  "nd_peer_count nd = length (hm_keys (nd_peers nd))"

definition nd_connected_count :: "node_directory \<Rightarrow> nat" where
  "nd_connected_count nd = length (filter (\<lambda>p. pi_status p = Connected) (hm_values (nd_peers nd)))"

definition nd_is_connected :: "node_directory \<Rightarrow> node_id \<Rightarrow> bool" where
  "nd_is_connected nd n =
     (case hm_get (nd_peers nd) n of Some p \<Rightarrow> pi_status p = Connected | None \<Rightarrow> False)"

section \<open>Handshake\<close>

datatype handshake_request = HandshakeRequest
  (hs_node_id: node_id) (hs_wire_version: wire_version) (hs_app_version: "string option") (hs_adapter: string)

definition hs_from_runtime :: "node_id \<Rightarrow> string option \<Rightarrow> string \<Rightarrow> handshake_request" where
  "hs_from_runtime n app_version adapter = HandshakeRequest n own_wire_version app_version adapter"

datatype rejection_reason = IncompatibleProtocol | IncompatibleAdapter

datatype handshake_response =
    HsAccepted node_id wire_version "string option" string
  | HsRejected node_id wire_version rejection_reason string

definition rejection_reason_display :: "rejection_reason \<Rightarrow> string" where
  "rejection_reason_display r =
     (case r of IncompatibleProtocol \<Rightarrow> ''incompatible wire protocol''
      | IncompatibleAdapter \<Rightarrow> ''incompatible adapter'')"

definition validate_handshake :: "handshake_request \<Rightarrow> handshake_request \<Rightarrow> handshake_response" where
  "validate_handshake l r =
     (if \<not> is_compatible (hs_wire_version l) (hs_wire_version r)
      then HsRejected (hs_node_id l) (hs_wire_version l) IncompatibleProtocol
        (''wire version '' @ wire_version_display (hs_wire_version r) @ '' is incompatible with local '' @
         wire_version_display (hs_wire_version l) @ '' (different MAJOR version)'')
      else if hs_adapter l \<noteq> hs_adapter r
      then HsRejected (hs_node_id l) (hs_wire_version l) IncompatibleAdapter
        (''adapter '' @ [CHR 0x22] @ hs_adapter r @ [CHR 0x22] @ '' does not match local '' @
         [CHR 0x22] @ hs_adapter l @ [CHR 0x22])
      else HsAccepted (hs_node_id l) (hs_wire_version l) (hs_app_version l) (hs_adapter l))"

definition verify_peer_identity :: "node_id \<Rightarrow> handshake_response \<Rightarrow> string + unit" where
  "verify_peer_identity expected response =
     (case response of
        HsAccepted n _ _ _ \<Rightarrow>
          (if n \<noteq> expected
           then Inl (''peer identity mismatch: expected '' @ node_id_display expected @ '', got '' @ node_id_display n)
           else Inr ())
      | HsRejected _ _ _ _ \<Rightarrow> Inr ())"

section \<open>Configuration\<close>

datatype overflow_strategy = Block | RejectWithError | DropNewest

datatype mailbox_config = Unbounded | Bounded usize overflow_strategy

definition mailbox_bounded :: "usize \<Rightarrow> overflow_strategy \<Rightarrow> mailbox_config option" where
  "mailbox_bounded capacity overflow = (if capacity > 0 then Some (Bounded capacity overflow) else None)"

record system_actor_config =
  sac_spawn_manager_mailbox :: mailbox_config
  sac_spawn_manager_pool_size :: "usize option"
  sac_control_plane_mailbox :: mailbox_config

definition sac_default :: system_actor_config where
  "sac_default = \<lparr>sac_spawn_manager_mailbox = Unbounded, sac_spawn_manager_pool_size = None,
     sac_control_plane_mailbox = Unbounded\<rparr>"

definition sac_with_spawn_manager_mailbox :: "system_actor_config \<Rightarrow> mailbox_config \<Rightarrow> system_actor_config" where
  "sac_with_spawn_manager_mailbox c mailbox = c\<lparr>sac_spawn_manager_mailbox := mailbox\<rparr>"

definition sac_with_spawn_manager_pool_size :: "system_actor_config \<Rightarrow> usize \<Rightarrow> system_actor_config" where
  "sac_with_spawn_manager_pool_size c size' = c\<lparr>sac_spawn_manager_pool_size := Some size'\<rparr>"

definition sac_with_control_plane_mailbox :: "system_actor_config \<Rightarrow> mailbox_config \<Rightarrow> system_actor_config" where
  "sac_with_control_plane_mailbox c mailbox = c\<lparr>sac_control_plane_mailbox := mailbox\<rparr>"

section \<open>Watches as a relation\<close>

datatype watch_op = OpWatch actor_id actor_id | OpUnwatch actor_id actor_id | OpTerminated actor_id

fun wm_apply :: "watch_manager \<Rightarrow> watch_op \<Rightarrow> watch_manager" where
  "wm_apply wm (OpWatch t w) = wm_watch wm t w"
| "wm_apply wm (OpUnwatch t w) = wm_unwatch wm t w"
| "wm_apply wm (OpTerminated t) = snd (wm_on_terminated wm t)"

fun watch_spec :: "(actor_id \<times> actor_id) set \<Rightarrow> watch_op \<Rightarrow> (actor_id \<times> actor_id) set" where
  "watch_spec R (OpWatch t w) = insert (t, w) R"
| "watch_spec R (OpUnwatch t w) = R - {(t, w)}"
| "watch_spec R (OpTerminated t) = {p \<in> R. fst p \<noteq> t}"

definition wm_ok :: "watch_manager \<Rightarrow> bool" where
  "wm_ok wm \<longleftrightarrow> hm_wf (wm_watchers wm) \<and>
     (\<forall>t s. hm_get (wm_watchers wm) t = Some s \<longrightarrow> s \<noteq> [] \<and> distinct s)"

definition wm_abs :: "watch_manager \<Rightarrow> (actor_id \<times> actor_id) set" where
  "wm_abs wm = {(t, w). w \<in> set (wm_watchers_of wm t)}"

lemma hs_simps [simp]:
  "set (hs_insert x s) = insert x (set s)" "set (hs_remove x s) = set s - {x}"
  "distinct s \<Longrightarrow> distinct (hs_insert x s)" "distinct s \<Longrightarrow> distinct (hs_remove x s)"
  "hs_insert x s \<noteq> []" "hs_remove x s = [] \<longleftrightarrow> set s \<subseteq> {x}"
  by (auto simp: hs_insert_def hs_remove_def filter_empty_conv)

lemma wm_new_ok: "wm_ok wm_new" "wm_abs wm_new = {}"
  by (auto simp: wm_ok_def wm_new_def wm_abs_def wm_watchers_of_def hm_entry_def)

lemma wm_apply_ok: "wm_ok wm \<Longrightarrow> wm_ok (wm_apply wm x)"
  by (cases x) (auto simp: wm_ok_def wm_watch_def wm_unwatch_def wm_on_terminated_def hm_entry_def Let_def
      split: option.splits)

lemma wm_apply_abs: "wm_abs (wm_apply wm x) = watch_spec (wm_abs wm) x"
  by (cases x) (auto simp: wm_abs_def wm_watchers_of_def wm_watch_def wm_unwatch_def
      wm_on_terminated_def hm_entry_def Let_def split: option.splits if_splits)

lemma wm_history: "wm_ok wm \<Longrightarrow>
    wm_ok (foldl wm_apply wm ops) \<and> wm_abs (foldl wm_apply wm ops) = foldl watch_spec (wm_abs wm) ops"
  by (induction ops arbitrary: wm) (simp_all add: wm_apply_ok wm_apply_abs)

lemma wm_watched_abs: "wm_ok wm \<Longrightarrow> wm_watched_count wm = card (fst ` wm_abs wm)"
proof -
  assume ok: "wm_ok wm"
  have "fst ` wm_abs wm = set (hm_keys (wm_watchers wm))"
  proof (rule set_eqI)
    fix t
    have "t \<in> fst ` wm_abs wm \<longleftrightarrow> wm_watchers_of wm t \<noteq> []"
      by (cases "wm_watchers_of wm t") (auto simp: wm_abs_def image_iff)
    also have "\<dots> \<longleftrightarrow> hm_get (wm_watchers wm) t \<noteq> None"
      using ok by (auto simp: wm_watchers_of_def hm_entry_def wm_ok_def split: option.splits)
    finally show "t \<in> fst ` wm_abs wm \<longleftrightarrow> t \<in> set (hm_keys (wm_watchers wm))" by (simp add: hm.keys_iff)
  qed
  moreover have "distinct (hm_keys (wm_watchers wm))" using ok by (simp add: wm_ok_def hm.wf_keys)
  ultimately show ?thesis by (simp add: wm_watched_count_def distinct_card)
qed

section \<open>Cancellations\<close>

datatype 't cm_op = CmRegister string 't | CmCancel string | CmComplete string

fun cm_apply :: "'t cancel_manager \<Rightarrow> 't cm_op \<Rightarrow> 't cancel_manager" where
  "cm_apply cm (CmRegister r t) = cm_register cm r t"
| "cm_apply cm (CmCancel r) = snd (snd (cm_cancel cm r))"
| "cm_apply cm (CmComplete r) = cm_remove cm r"

fun cm_write :: "'t cm_op \<Rightarrow> (string, 't) store_op" where
  "cm_write (CmRegister r t) = Put r t"
| "cm_write (CmCancel r) = Del r"
| "cm_write (CmComplete r) = Del r"

interpretation cms: keyed_store cm_new "\<lambda>cm. hm_get (cm_tokens cm)" cm_register cm_remove
  by unfold_locales (simp_all add: cm_new_def cm_register_def cm_remove_def)

lemma cm_cancel_removes: "hm_get (cm_tokens (snd (snd (cm_cancel cm r)))) k = hm_get (cm_tokens (cm_remove cm r)) k"
  by (simp add: cm_cancel_def cm_remove_def split: option.splits)

lemma cm_history: "hm_get (cm_tokens (foldl cm_apply cm ops)) r = last_write r (hm_get (cm_tokens cm) r) (map cm_write ops)"
proof (induction ops arbitrary: cm)
  case (Cons x ops)
  then show ?case by (cases x) (simp_all add: cm_cancel_removes cms.get_put cms.get_del)
qed simp

section \<open>Directory histories\<close>

datatype nd_op = NdAdd node_id "string option" | NdStatus node_id peer_status | NdRemove node_id

fun nd_apply :: "node_directory \<Rightarrow> nd_op \<Rightarrow> node_directory" where
  "nd_apply nd (NdAdd n a) = nd_add_peer nd n a"
| "nd_apply nd (NdStatus n s) = nd_set_status nd n s"
| "nd_apply nd (NdRemove n) = nd_remove_peer nd n"

definition nd_ok :: "node_directory \<Rightarrow> bool" where
  "nd_ok nd \<longleftrightarrow> hm_wf (nd_peers nd) \<and> (\<forall>n p. hm_get (nd_peers nd) n = Some p \<longrightarrow> pi_node_id p = n)"

lemma nd_apply_ok: "nd_ok nd \<Longrightarrow> nd_ok (nd_apply nd x)"
  by (cases x) (auto simp: nd_ok_def nd_add_peer_def nd_set_status_def nd_remove_peer_def split: option.splits)

lemma nd_history_ok: "nd_ok nd \<Longrightarrow> nd_ok (foldl nd_apply nd ops)"
  by (induction ops arbitrary: nd) (simp_all add: nd_apply_ok)

lemma nd_new_ok: "nd_ok nd_new"
  by (simp add: nd_ok_def nd_new_def)

text \<open>In a well-formed map, counting the values with a property counts the keys that have it.\<close>

lemma hm_count_values:
  assumes "hm_wf m"
  shows "length (filter P (hm_values m)) = card {k. \<exists>v. hm_get m k = Some v \<and> P v}"
proof -
  have "length (filter P (hm_values m)) = length (map fst (filter (\<lambda>kv. P (snd kv)) m))"
    by (simp add: hm_values_def filter_map o_def)
  also have "\<dots> = card (set (map fst (filter (\<lambda>kv. P (snd kv)) m)))"
    using assms by (intro distinct_card [symmetric]) (auto simp: hm_wf_def distinct_map intro: inj_on_subset)
  also have "set (map fst (filter (\<lambda>kv. P (snd kv)) m)) = {k. \<exists>v. hm_get m k = Some v \<and> P v}"
    using assms by (force simp: hm_get_def hm_wf_def dest: map_of_SomeD)
  finally show ?thesis .
qed

section \<open>Properties\<close>

text \<open>C10. The watch manager is the watch relation: after any history of watches, unwatches and
  terminations its subscriptions are exactly the pairs watched and neither unwatched nor notified since;
  a termination notifies each current watcher exactly once and nobody else, and the count is the
  number of watched actors, so no empty subscription is left behind.\<close>

theorem watch_manager_refines_relation:
  "let wm = foldl wm_apply wm_new ops; R = foldl watch_spec {} ops
   in set (wm_watchers_of wm t) = {w. (t, w) \<in> R} \<and>
      distinct (fst (wm_on_terminated wm t)) \<and>
      set (fst (wm_on_terminated wm t)) = {WatchNotification t w | w. (t, w) \<in> R} \<and>
      wm_watched_count wm = card (fst ` R)"
proof -
  define wm where "wm = foldl wm_apply wm_new ops"
  have ok: "wm_ok wm" and abs: "wm_abs wm = foldl watch_spec {} ops"
    using wm_history [OF wm_new_ok(1), of ops] by (simp_all add: wm_def wm_new_ok(2))
  have mem: "set (wm_watchers_of wm t) = {w. (t, w) \<in> wm_abs wm}" by (simp add: wm_abs_def)
  have sent: "fst (wm_on_terminated wm t) = map (WatchNotification t) (wm_watchers_of wm t)"
    by (simp add: wm_on_terminated_def wm_watchers_of_def)
  have "distinct (wm_watchers_of wm t)"
    using ok by (auto simp: wm_ok_def wm_watchers_of_def hm_entry_def split: option.splits)
  then have "distinct (fst (wm_on_terminated wm t))" by (auto simp: sent distinct_map inj_on_def)
  moreover have "set (fst (wm_on_terminated wm t)) = {WatchNotification t w | w. (t, w) \<in> wm_abs wm}"
    using mem by (auto simp: sent)
  ultimately show ?thesis
    using mem wm_watched_abs [OF ok] by (simp add: Let_def wm_def [symmetric] abs [symmetric])
qed

text \<open>A cancellation reaches exactly the active request: after any history, cancelling a request signals
  the token last registered for it if it was neither cancelled nor completed since, and is answered by
  not-found otherwise; cancelling again then signals nothing.\<close>

theorem cancel_manager_active:
  "let cm = foldl cm_apply cm_new ops; active = last_write r None (map cm_write ops)
   in fst (snd (cm_cancel cm r)) = active \<and>
      (fst (cm_cancel cm r) = CancelAck \<longleftrightarrow> active \<noteq> None) \<and>
      fst (snd (cm_cancel (snd (snd (cm_cancel cm r))) r)) = None"
proof -
  have "hm_get (cm_tokens (foldl cm_apply cm_new ops)) r = last_write r None (map cm_write ops)"
    using cm_history [of cm_new ops r] by (simp add: cms.get_empty)
  then show ?thesis by (auto simp: cm_cancel_def Let_def split: option.splits)
qed

text \<open>The node directory stays consistent under every history of its operations: each peer is stored
  once and under its own id, the connected count is the number of nodes reported as connected, the
  peer count the number of known nodes, and a status change of an unknown peer changes nothing.\<close>

theorem node_directory_consistent:
  "let nd = foldl nd_apply nd_new ops
   in (case nd_get_peer nd n of Some p \<Rightarrow> pi_node_id p = n | None \<Rightarrow> nd_set_status nd n s = nd) \<and>
      distinct (nd_peer_nodes nd) \<and>
      nd_connected_count nd = card {n. nd_is_connected nd n} \<and>
      nd_peer_count nd = card {n. nd_get_peer nd n \<noteq> None} \<and>
      nd_connected_count nd \<le> nd_peer_count nd"
proof -
  define nd where "nd = foldl nd_apply nd_new ops"
  have ok: "nd_ok nd" unfolding nd_def by (rule nd_history_ok [OF nd_new_ok])
  then have wf: "hm_wf (nd_peers nd)" by (simp add: nd_ok_def)
  have "nd_connected_count nd = card {n. nd_is_connected nd n}"
    unfolding nd_connected_count_def hm_count_values [OF wf]
    by (rule arg_cong [where f = card]) (auto simp: nd_is_connected_def split: option.splits)
  moreover have "nd_peer_count nd = card {n. nd_get_peer nd n \<noteq> None}"
    using distinct_card [OF hm.wf_keys [OF wf]] by (simp add: nd_peer_count_def nd_get_peer_def hm.keys_get)
  moreover have "nd_connected_count nd \<le> nd_peer_count nd"
    by (simp add: nd_connected_count_def nd_peer_count_def hm_keys_def hm_values_def
        order_trans [OF length_filter_le])
  moreover have "case nd_get_peer nd n of Some p \<Rightarrow> pi_node_id p = n | None \<Rightarrow> nd_set_status nd n s = nd"
    using ok by (auto simp: nd_get_peer_def nd_ok_def nd_set_status_def split: option.splits)
  ultimately show ?thesis
    using hm.wf_keys [OF wf] by (simp add: Let_def nd_def [symmetric] nd_peer_nodes_def)
qed

text \<open>The handshake is symmetric and safe: one side accepts if and only if the other does, which
  is when major wire versions and adapters agree; a rejection names the protocol whenever that is
  incompatible; an accepted answer passes the identity check exactly for the responder's own id; and two
  nodes running this library with the same adapter always accept each other.\<close>

theorem handshake_symmetric:
  "((\<exists>n v a d. validate_handshake l r = HsAccepted n v a d) \<longleftrightarrow>
      (\<exists>n v a d. validate_handshake r l = HsAccepted n v a d)) \<and>
   ((\<exists>n v a d. validate_handshake l r = HsAccepted n v a d) \<longleftrightarrow>
      major (hs_wire_version l) = major (hs_wire_version r) \<and> hs_adapter l = hs_adapter r) \<and>
   ((\<exists>n v d. validate_handshake l r = HsRejected n v IncompatibleProtocol d) \<longleftrightarrow>
      major (hs_wire_version l) \<noteq> major (hs_wire_version r)) \<and>
   (validate_handshake l r = HsAccepted n v a d \<longrightarrow>
      (verify_peer_identity expected (validate_handshake l r) = Inr () \<longleftrightarrow> expected = hs_node_id l)) \<and>
   validate_handshake (hs_from_runtime n1 a1 ad) (hs_from_runtime n2 a2 ad) = HsAccepted n1 own_wire_version a1 ad"
  by (auto simp: validate_handshake_def is_compatible_def verify_peer_identity_def hs_from_runtime_def)

theorem handshake_symmetric_witness:
  "verify_peer_identity (NodeId ''b'') (validate_handshake (hs_from_runtime (NodeId ''b'') None ''ractor'')
     (hs_from_runtime (NodeId ''a'') None ''ractor'')) = Inr ()"
  using handshake_symmetric [of "hs_from_runtime (NodeId ''b'') None ''ractor''"
      "hs_from_runtime (NodeId ''a'') None ''ractor''" "NodeId ''b''" own_wire_version None "''ractor''"
      "NodeId ''b''" "NodeId ''b''" None "''ractor''" "NodeId ''a''" None]
  by (simp add: hs_from_runtime_def)

end
