(* ===== verification/Cluster.thy ===== *)
theory Cluster
  imports System_Actors
begin

text \<open>
  Cluster membership events: the event types and the emitter of \<^verbatim>\<open>dactor/src/cluster.rs\<close>, and the
  emitter of the adapters (\<^verbatim>\<open>dactor-ractor/src/cluster.rs\<close>; those of the kameo and coerce adapters are
  the same code). A callback is a value of any type; an emission gives the callbacks it invoked, in
  order, and which callbacks panic is an argument.
\<close>

section \<open>Events\<close>

datatype node_rejection_reason = NrIncompatibleProtocol | NrIncompatibleAdapter | NrConnectionFailed

datatype cluster_event =
    NodeJoined node_id
  | NodeLeft node_id
  | NodeRejected node_id node_rejection_reason string

definition node_rejection_reason_display :: "node_rejection_reason \<Rightarrow> string" where
  "node_rejection_reason_display r =
     (case r of NrIncompatibleProtocol \<Rightarrow> ''incompatible wire protocol''
      | NrIncompatibleAdapter \<Rightarrow> ''incompatible adapter''
      | NrConnectionFailed \<Rightarrow> ''connection failed'')"

definition node_rejection_reason_from :: "rejection_reason \<Rightarrow> node_rejection_reason" where
  "node_rejection_reason_from r =
     (case r of IncompatibleProtocol \<Rightarrow> NrIncompatibleProtocol | IncompatibleAdapter \<Rightarrow> NrIncompatibleAdapter)"

datatype subscription_id = SubscriptionId (sub_raw: u64)

section \<open>The emitter of the core crate\<close>

record 'cb event_emitter =
  em_next_id :: u64
  em_subscribers :: "(subscription_id, 'cb) hashmap"

definition em_new :: "'cb event_emitter" where
  "em_new = \<lparr>em_next_id = 1, em_subscribers = hm_empty\<rparr>"

definition em_subscribe :: "'cb event_emitter \<Rightarrow> 'cb \<Rightarrow> subscription_id \<times> 'cb event_emitter" where
  "em_subscribe em on_event =
     (let i = SubscriptionId (em_next_id em)
      in (i, em\<lparr>em_next_id := em_next_id em + 1, em_subscribers := hm_insert i on_event (em_subscribers em)\<rparr>))"

definition em_unsubscribe :: "'cb event_emitter \<Rightarrow> subscription_id \<Rightarrow> 'cb event_emitter" where
  "em_unsubscribe em i = em\<lparr>em_subscribers := hm_remove i (em_subscribers em)\<rparr>"

text \<open>A panicking callback unwinds out of the loop: the callbacks after it are not invoked.\<close>

fun invoke_until_panic :: "('cb \<Rightarrow> bool) \<Rightarrow> 'cb list \<Rightarrow> 'cb list" where
  "invoke_until_panic panics [] = []"
| "invoke_until_panic panics (c # cs) = (if panics c then [c] else c # invoke_until_panic panics cs)"

definition em_emit :: "('cb \<Rightarrow> bool) \<Rightarrow> 'cb event_emitter \<Rightarrow> 'cb list" where
  "em_emit panics em = invoke_until_panic panics (hm_values (em_subscribers em))"

definition em_subscriber_count :: "'cb event_emitter \<Rightarrow> nat" where
  "em_subscriber_count em = length (hm_keys (em_subscribers em))"

section \<open>The emitter of the adapters\<close>

record 'cb adapter_events =
  ae_subscribers :: "(subscription_id, 'cb) hashmap"
  ae_next_id :: u64

definition ae_new :: "'cb adapter_events" where
  "ae_new = \<lparr>ae_subscribers = hm_empty, ae_next_id = 1\<rparr>"

text \<open>Every callback of the snapshot is invoked under \<^verbatim>\<open>catch_unwind\<close>.\<close>

definition ae_emit :: "'cb adapter_events \<Rightarrow> 'cb list" where
  "ae_emit ev = hm_values (ae_subscribers ev)"

definition ae_subscribe :: "'cb adapter_events \<Rightarrow> 'cb \<Rightarrow> (string + subscription_id) \<times> 'cb adapter_events" where
  "ae_subscribe ev on_event =
     (let i = SubscriptionId (ae_next_id ev)
      in (Inr i, ev\<lparr>ae_next_id := ae_next_id ev + 1, ae_subscribers := hm_insert i on_event (ae_subscribers ev)\<rparr>))"

definition ae_unsubscribe :: "'cb adapter_events \<Rightarrow> subscription_id \<Rightarrow> (string + unit) \<times> 'cb adapter_events" where
  "ae_unsubscribe ev i = (Inr (), ev\<lparr>ae_subscribers := hm_remove i (ae_subscribers ev)\<rparr>)"

section \<open>Subscriptions over time\<close>

datatype 'cb sub_op = Sub 'cb | Unsub subscription_id

text \<open>The writes a history amounts to, and the ids it handed out, from the next id on.\<close>

fun sub_writes :: "u64 \<Rightarrow> 'cb sub_op list \<Rightarrow> (subscription_id, 'cb) store_op list" where
  "sub_writes n [] = []"
| "sub_writes n (Sub c # ops) = Put (SubscriptionId n) c # sub_writes (n + 1) ops"
| "sub_writes n (Unsub i # ops) = Del i # sub_writes n ops"

fun sub_ids :: "u64 \<Rightarrow> 'cb sub_op list \<Rightarrow> subscription_id list" where
  "sub_ids n [] = []"
| "sub_ids n (Sub c # ops) = SubscriptionId n # sub_ids (n + 1) ops"
| "sub_ids n (Unsub i # ops) = sub_ids n ops"

fun sub_run :: "('s \<Rightarrow> 'cb \<Rightarrow> subscription_id \<times> 's) \<Rightarrow> ('s \<Rightarrow> subscription_id \<Rightarrow> 's) \<Rightarrow> 's \<Rightarrow> 'cb sub_op list
    \<Rightarrow> subscription_id list \<times> 's" where
  "sub_run subscribe unsubscribe s [] = ([], s)"
| "sub_run subscribe unsubscribe s (Sub c # ops) =
     (case subscribe s c of (i, s1) \<Rightarrow>
        (case sub_run subscribe unsubscribe s1 ops of (is, s2) \<Rightarrow> (i # is, s2)))"
| "sub_run subscribe unsubscribe s (Unsub i # ops) = sub_run subscribe unsubscribe (unsubscribe s i) ops"

text \<open>What both emitters promise: ids are handed out in sequence, a subscription is active until it is
  removed, and the active callbacks can be listed.\<close>

locale event_source =
  fixes new :: 's
    and subscribe :: "'s \<Rightarrow> 'cb \<Rightarrow> subscription_id \<times> 's"
    and unsubscribe :: "'s \<Rightarrow> subscription_id \<Rightarrow> 's"
    and subscribers :: "'s \<Rightarrow> (subscription_id, 'cb) hashmap"
    and next_id :: "'s \<Rightarrow> u64"
  assumes new_state: "subscribers new = hm_empty" "next_id new = 1"
    and subscribe_id: "fst (subscribe s c) = SubscriptionId (next_id s)"
    and subscribe_state: "subscribers (snd (subscribe s c)) = hm_insert (SubscriptionId (next_id s)) c (subscribers s)"
      "next_id (snd (subscribe s c)) = next_id s + 1"
    and unsubscribe_state: "subscribers (unsubscribe s i) = hm_remove i (subscribers s)"
      "next_id (unsubscribe s i) = next_id s"
begin

lemma run_ids: "fst (sub_run subscribe unsubscribe s ops) = sub_ids (next_id s) ops"
proof (induction ops arbitrary: s)
  case (Cons x ops)
  then show ?case
    by (cases x) (simp_all add: subscribe_id subscribe_state unsubscribe_state split_beta)
qed simp

lemma run_subscribers:
  "hm_get (subscribers (snd (sub_run subscribe unsubscribe s ops))) i =
     last_write i (hm_get (subscribers s) i) (sub_writes (next_id s) ops)"
proof (induction ops arbitrary: s)
  case (Cons x ops)
  then show ?case
    by (cases x) (simp_all add: subscribe_id subscribe_state unsubscribe_state split_beta)
qed simp

lemma run_wf: "hm_wf (subscribers s) \<Longrightarrow> hm_wf (subscribers (snd (sub_run subscribe unsubscribe s ops)))"
proof (induction ops arbitrary: s)
  case (Cons x ops)
  then show ?case by (cases x) (simp_all add: subscribe_state unsubscribe_state split_beta)
qed simp

text \<open>The active callbacks, one for each active subscription.\<close>

lemma active_callbacks:
  assumes "s = snd (sub_run subscribe unsubscribe new ops)"
  shows "\<exists>is. distinct is \<and> set is = {i. last_write i None (sub_writes 1 ops) \<noteq> None} \<and>
    map Some (hm_values (subscribers s)) = map (\<lambda>i. last_write i None (sub_writes 1 ops)) is"
proof (intro exI conjI)
  have wf: "hm_wf (subscribers s)" using run_wf [of new ops] assms by (simp add: new_state)
  have get: "hm_get (subscribers s) i = last_write i None (sub_writes 1 ops)" for i
    using run_subscribers [of new ops i] assms by (simp add: new_state)
  show "distinct (hm_keys (subscribers s))" by (rule hm.wf_keys [OF wf])
  show "set (hm_keys (subscribers s)) = {i. last_write i None (sub_writes 1 ops) \<noteq> None}"
    by (simp add: hm.keys_get get)
  show "map Some (hm_values (subscribers s)) = map (\<lambda>i. last_write i None (sub_writes 1 ops)) (hm_keys (subscribers s))"
    unfolding get [symmetric]
    by (rule nth_equalityI) (use wf in \<open>auto simp: hm_values_def hm_keys_def hm_get_def hm_wf_def\<close>)
qed

end

interpretation ems: event_source em_new em_subscribe em_unsubscribe em_subscribers em_next_id
  by unfold_locales (simp_all add: em_new_def em_subscribe_def em_unsubscribe_def Let_def)

text \<open>The adapters' calls never fail, so their results can be taken out of the sum.\<close>

definition ae_subscribe_ok :: "'cb adapter_events \<Rightarrow> 'cb \<Rightarrow> subscription_id \<times> 'cb adapter_events" where
  "ae_subscribe_ok ev c = (case ae_subscribe ev c of (Inr i, ev') \<Rightarrow> (i, ev') | (Inl _, ev') \<Rightarrow> (SubscriptionId 0, ev'))"

abbreviation ae_unsubscribe_ok :: "'cb adapter_events \<Rightarrow> subscription_id \<Rightarrow> 'cb adapter_events" where
  "ae_unsubscribe_ok ev i \<equiv> snd (ae_unsubscribe ev i)"

interpretation aes: event_source ae_new ae_subscribe_ok ae_unsubscribe_ok ae_subscribers ae_next_id
  by unfold_locales (simp_all add: ae_new_def ae_subscribe_def ae_subscribe_ok_def ae_unsubscribe_def Let_def)

fun is_sub :: "'cb sub_op \<Rightarrow> bool" where
  "is_sub (Sub _) = True"
| "is_sub (Unsub _) = False"

lemma sub_ids_eq: "sub_ids n ops = map (\<lambda>k. SubscriptionId (n + of_nat k)) [0..<length (filter is_sub ops)]"
proof (induction n ops rule: sub_ids.induct)
  case (2 n c ops)
  have "map (\<lambda>k. SubscriptionId (n + of_nat k)) [0..<Suc m] =
      SubscriptionId n # map (\<lambda>k. SubscriptionId (n + 1 + of_nat k)) [0..<m]" for m
    by (simp add: upt_conv_Cons map_Suc_upt [symmetric] add.assoc del: upt_Suc)
  then show ?case using 2 by simp
qed simp_all

lemma sub_ids_distinct:
  assumes "length (filter is_sub ops) \<le> 2 ^ 64"
  shows "distinct (sub_ids n ops)"
proof -
  have "i = j" if "i < 2 ^ 64" "j < 2 ^ 64" "(of_nat i :: u64) = of_nat j" for i j :: nat
  proof -
    have "unat (of_nat i :: u64) = i" "unat (of_nat j :: u64) = j" using that(1,2) by (simp_all add: unat_of_nat)
    then show ?thesis using that(3) by metis
  qed
  then show ?thesis using assms by (auto simp: sub_ids_eq distinct_map inj_on_def)
qed

section \<open>Properties\<close>

text \<open>Every active subscriber hears every event exactly once: after any history of subscriptions and
  cancellations, an emission invokes one callback per subscription that is active, the one it was
  made with, and no other, in the core emitter (unless a callback panics) and in the adapters'; and no id is
  handed out twice in the first \<open>2 ^ 64\<close> subscriptions.\<close>

theorem cluster_emit_delivery:
  "let em = sub_run em_subscribe em_unsubscribe em_new ops;
       ev = sub_run ae_subscribe_ok ae_unsubscribe_ok ae_new ops;
       active = (\<lambda>i. last_write i None (sub_writes 1 ops))
   in (\<exists>is. distinct is \<and> set is = {i. active i \<noteq> None} \<and> map Some (em_emit (\<lambda>_. False) (snd em)) = map active is) \<and>
      (\<exists>is. distinct is \<and> set is = {i. active i \<noteq> None} \<and> map Some (ae_emit (snd ev)) = map active is) \<and>
      (length (filter is_sub ops) \<le> 2 ^ 64 \<longrightarrow> distinct (fst em) \<and> distinct (fst ev))"
proof -
  have all: "invoke_until_panic (\<lambda>_. False) cs = cs" for cs :: "'a list" by (induction cs) simp_all
  show ?thesis
    using ems.active_callbacks [OF refl, of ops] aes.active_callbacks [OF refl, of ops]
      ems.run_ids [of em_new ops] aes.run_ids [of ae_new ops] sub_ids_distinct [of ops]
    by (simp add: Let_def em_emit_def ae_emit_def all)
qed

theorem cluster_emit_delivery_witness:
  "distinct (fst (sub_run em_subscribe em_unsubscribe em_new [Sub ''a'', Sub ''b'', Unsub (SubscriptionId 1)]))"
  using cluster_emit_delivery [of "[Sub ''a'', Sub ''b'', Unsub (SubscriptionId 1)]"]
  by (simp add: Let_def del: sub_run.simps)

end
