(* ===== verification/Proto.thy ===== *)
theory Proto
  imports System_Actors
begin

text \<open>
  The protobuf layer of \<^verbatim>\<open>dactor/src/proto.rs\<close> over the messages of \<^verbatim>\<open>dactor/proto/system.proto\<close>:
  conversions, required fields and size limits of every system message, the handshake and the wire
  envelope. The bytes themselves are prost's: its encoder and decoder of each message type are
  arguments, a decoder failing with a text, and likewise the text form of a UUID.
\<close>

section \<open>Messages of the schema\<close>

datatype actor_id_proto = ActorIdProto (aip_node_id: string) (aip_local: u64)

datatype spawn_request_proto = SpawnRequestProto
  (srp_type_name: string) (srp_args_bytes: bytes) (srp_name: string) (srp_request_id: string)

datatype spawn_result_proto =
    SpawnSuccessProto string "actor_id_proto option"
  | SpawnFailureProto string string

datatype watch_request_proto = WatchRequestProto (wrp_target: "actor_id_proto option") (wrp_watcher: "actor_id_proto option")

datatype cancel_request_proto = CancelRequestProto (crp_target: "actor_id_proto option") (crp_request_id: "string option")

datatype cancel_result_proto = CancelAcknowledgedProto | CancelNotFoundProto string

datatype connect_peer_proto = ConnectPeerProto (cpp_node_id: string) (cpp_address: "string option")

datatype handshake_request_proto = HandshakeRequestProto
  (hrp_node_id: string) (hrp_wire_version: string) (hrp_app_version: "string option") (hrp_adapter: string)

datatype handshake_result_proto =
    HandshakeAcceptedProto string string "string option" string
  | HandshakeRejectedProto string string int string

record wire_envelope_proto =
  wep_target :: "actor_id_proto option"
  wep_target_name :: string
  wep_message_type :: string
  wep_send_mode :: int
  wep_headers :: "(string, bytes) hashmap"
  wep_body :: bytes
  wep_request_id :: "string option"
  wep_version :: "u32 option"

section \<open>Limits and fields\<close>

definition MAX_SYSTEM_MSG_SIZE :: nat where
  "MAX_SYSTEM_MSG_SIZE = 4 * 1024 * 1024"

definition MAX_WIRE_ENVELOPE_SIZE :: nat where
  "MAX_WIRE_ENVELOPE_SIZE = 64 * 1024 * 1024"

definition check_size :: "bytes \<Rightarrow> nat \<Rightarrow> string \<Rightarrow> serialization_error + unit" where
  "check_size bytes limit what =
     (if length bytes > limit
      then Inl (SerializationError (what @ '': payload too large ('' @ show_nat (length bytes) @ '' bytes, max '' @
             show_nat limit @ '')''))
      else Inr ())"

text \<open>The first two steps of every decoder: the size check and prost's decoder.\<close>

definition decode_checked :: "nat \<Rightarrow> string \<Rightarrow> (bytes \<Rightarrow> string + 'p) \<Rightarrow> bytes \<Rightarrow> serialization_error + 'p" where
  "decode_checked limit what decode bytes =
     rbind (check_size bytes limit what)
       (\<lambda>_. map_err (\<lambda>e. SerializationError (''decode '' @ what @ '': '' @ e)) (decode bytes))"

definition require_non_empty :: "string \<Rightarrow> string \<Rightarrow> serialization_error + unit" where
  "require_non_empty field s = (if s = [] then Inl (SerializationError (field @ '' must not be empty'')) else Inr ())"

definition actor_id_to_proto :: "actor_id \<Rightarrow> actor_id_proto" where
  "actor_id_to_proto i = ActorIdProto (node_name (aid_node i)) (aid_local i)"

definition actor_id_from_proto :: "actor_id_proto \<Rightarrow> serialization_error + actor_id" where
  "actor_id_from_proto p =
     (if aip_node_id p = [] then Inl (SerializationError ''ActorId: node_id must not be empty'')
      else Inr (ActorId (NodeId (aip_node_id p)) (aip_local p)))"

definition require_actor_id :: "actor_id_proto option \<Rightarrow> string \<Rightarrow> serialization_error + actor_id" where
  "require_actor_id field name =
     rbind (ok_or (SerializationError (''missing required field: '' @ name)) field) actor_id_from_proto"

section \<open>Spawn\<close>

definition spawn_request_to_proto :: "spawn_request \<Rightarrow> spawn_request_proto" where
  "spawn_request_to_proto req =
     SpawnRequestProto (sr_type_name req) (sr_args_bytes req) (sr_name req) (sr_request_id req)"

definition encode_spawn_request :: "(spawn_request_proto \<Rightarrow> bytes) \<Rightarrow> spawn_request \<Rightarrow> bytes" where
  "encode_spawn_request encode req = encode (spawn_request_to_proto req)"

definition decode_spawn_request ::
  "(bytes \<Rightarrow> string + spawn_request_proto) \<Rightarrow> bytes \<Rightarrow> serialization_error + spawn_request" where
  "decode_spawn_request decode bytes =
     rbind (decode_checked MAX_SYSTEM_MSG_SIZE ''SpawnRequest'' decode bytes) (\<lambda>p.
     rbind (require_non_empty ''SpawnRequest: type_name'' (srp_type_name p)) (\<lambda>_.
     rbind (require_non_empty ''SpawnRequest: request_id'' (srp_request_id p)) (\<lambda>_.
       Inr (SpawnRequest (srp_type_name p) (srp_args_bytes p) (srp_name p) (srp_request_id p)))))"

definition encode_spawn_response :: "(spawn_result_proto option \<Rightarrow> bytes) \<Rightarrow> spawn_response \<Rightarrow> bytes" where
  "encode_spawn_response encode resp =
     encode (Some (case resp of
        SpawnSuccess request_id i \<Rightarrow> SpawnSuccessProto request_id (Some (actor_id_to_proto i))
      | SpawnFailure request_id e \<Rightarrow> SpawnFailureProto request_id e))"

definition decode_spawn_response ::
  "(bytes \<Rightarrow> string + spawn_result_proto option) \<Rightarrow> bytes \<Rightarrow> serialization_error + spawn_response" where
  "decode_spawn_response decode bytes =
     rbind (decode_checked MAX_SYSTEM_MSG_SIZE ''SpawnResponse'' decode bytes) (\<lambda>p. case p of
        Some (SpawnSuccessProto request_id i) \<Rightarrow>
          rbind (require_actor_id i ''SpawnSuccess.actor_id'') (\<lambda>i. Inr (SpawnSuccess request_id i))
      | Some (SpawnFailureProto request_id e) \<Rightarrow> Inr (SpawnFailure request_id e)
      | None \<Rightarrow> Inl (SerializationError ''SpawnResponse: missing oneof result''))"

section \<open>Watch and cancel\<close>

datatype watch_request = WatchRequest (wr_target: actor_id) (wr_watcher: actor_id)
datatype unwatch_request = UnwatchRequest (uwr_target: actor_id) (uwr_watcher: actor_id)

text \<open>The three watch messages have the same two fields.\<close>

definition decode_pair ::
  "string \<Rightarrow> string \<Rightarrow> (actor_id \<Rightarrow> actor_id \<Rightarrow> 'm) \<Rightarrow> (bytes \<Rightarrow> string + watch_request_proto) \<Rightarrow> bytes
    \<Rightarrow> serialization_error + 'm" where
  "decode_pair what first mk decode bytes =
     rbind (decode_checked MAX_SYSTEM_MSG_SIZE what decode bytes) (\<lambda>p.
     rbind (require_actor_id (wrp_target p) (what @ ''.'' @ first)) (\<lambda>t.
     rbind (require_actor_id (wrp_watcher p) (what @ ''.watcher'')) (\<lambda>w. Inr (mk t w))))"

definition pair_to_proto :: "actor_id \<Rightarrow> actor_id \<Rightarrow> watch_request_proto" where
  "pair_to_proto t w = WatchRequestProto (Some (actor_id_to_proto t)) (Some (actor_id_to_proto w))"

definition encode_watch_request :: "(watch_request_proto \<Rightarrow> bytes) \<Rightarrow> watch_request \<Rightarrow> bytes" where
  "encode_watch_request encode req = encode (pair_to_proto (wr_target req) (wr_watcher req))"

definition decode_watch_request ::
  "(bytes \<Rightarrow> string + watch_request_proto) \<Rightarrow> bytes \<Rightarrow> serialization_error + watch_request" where
  "decode_watch_request = decode_pair ''WatchRequest'' ''target'' WatchRequest"

definition encode_unwatch_request :: "(watch_request_proto \<Rightarrow> bytes) \<Rightarrow> unwatch_request \<Rightarrow> bytes" where
  "encode_unwatch_request encode req = encode (pair_to_proto (uwr_target req) (uwr_watcher req))"

definition decode_unwatch_request ::
  "(bytes \<Rightarrow> string + watch_request_proto) \<Rightarrow> bytes \<Rightarrow> serialization_error + unwatch_request" where
  "decode_unwatch_request = decode_pair ''UnwatchRequest'' ''target'' UnwatchRequest"

definition encode_watch_notification :: "(watch_request_proto \<Rightarrow> bytes) \<Rightarrow> watch_notification \<Rightarrow> bytes" where
  "encode_watch_notification encode n = encode (pair_to_proto (wn_terminated n) (wn_watcher n))"

definition decode_watch_notification ::
  "(bytes \<Rightarrow> string + watch_request_proto) \<Rightarrow> bytes \<Rightarrow> serialization_error + watch_notification" where
  "decode_watch_notification = decode_pair ''WatchNotification'' ''terminated'' WatchNotification"

definition encode_cancel_request :: "(cancel_request_proto \<Rightarrow> bytes) \<Rightarrow> cancel_request \<Rightarrow> bytes" where
  "encode_cancel_request encode req =
     encode (CancelRequestProto (Some (actor_id_to_proto (cr_target req))) (cr_request_id req))"

definition decode_cancel_request ::
  "(bytes \<Rightarrow> string + cancel_request_proto) \<Rightarrow> bytes \<Rightarrow> serialization_error + cancel_request" where
  "decode_cancel_request decode bytes =
     rbind (decode_checked MAX_SYSTEM_MSG_SIZE ''CancelRequest'' decode bytes) (\<lambda>p.
     rbind (require_actor_id (crp_target p) ''CancelRequest.target'') (\<lambda>t.
       Inr (CancelRequest t (crp_request_id p))))"

definition encode_cancel_response :: "(cancel_result_proto option \<Rightarrow> bytes) \<Rightarrow> cancel_response \<Rightarrow> bytes" where
  "encode_cancel_response encode resp =
     encode (Some (case resp of CancelAck \<Rightarrow> CancelAcknowledgedProto | CancelUnknown reason \<Rightarrow> CancelNotFoundProto reason))"

definition decode_cancel_response ::
  "(bytes \<Rightarrow> string + cancel_result_proto option) \<Rightarrow> bytes \<Rightarrow> serialization_error + cancel_response" where
  "decode_cancel_response decode bytes =
     rbind (decode_checked MAX_SYSTEM_MSG_SIZE ''CancelResponse'' decode bytes) (\<lambda>p. case p of
        Some CancelAcknowledgedProto \<Rightarrow> Inr CancelAck
      | Some (CancelNotFoundProto reason) \<Rightarrow> Inr (CancelUnknown reason)
      | None \<Rightarrow> Inl (SerializationError ''CancelResponse: missing oneof result''))"

section \<open>Peers\<close>

definition encode_connect_peer :: "(connect_peer_proto \<Rightarrow> bytes) \<Rightarrow> node_id \<Rightarrow> string option \<Rightarrow> bytes" where
  "encode_connect_peer encode n address = encode (ConnectPeerProto (node_name n) address)"

definition decode_connect_peer ::
  "(bytes \<Rightarrow> string + connect_peer_proto) \<Rightarrow> bytes \<Rightarrow> serialization_error + (node_id \<times> string option)" where
  "decode_connect_peer decode bytes =
     rbind (decode_checked MAX_SYSTEM_MSG_SIZE ''ConnectPeer'' decode bytes) (\<lambda>p.
     rbind (require_non_empty ''ConnectPeer: node_id'' (cpp_node_id p)) (\<lambda>_.
       Inr (NodeId (cpp_node_id p), cpp_address p)))"

definition encode_disconnect_peer :: "(string \<Rightarrow> bytes) \<Rightarrow> node_id \<Rightarrow> bytes" where
  "encode_disconnect_peer encode n = encode (node_name n)"

definition decode_disconnect_peer :: "(bytes \<Rightarrow> string + string) \<Rightarrow> bytes \<Rightarrow> serialization_error + node_id" where
  "decode_disconnect_peer decode bytes =
     rbind (decode_checked MAX_SYSTEM_MSG_SIZE ''DisconnectPeer'' decode bytes) (\<lambda>p.
     rbind (require_non_empty ''DisconnectPeer: node_id'' p) (\<lambda>_. Inr (NodeId p)))"

section \<open>Handshake\<close>

definition parse_version_field :: "string \<Rightarrow> string \<Rightarrow> serialization_error + wire_version" where
  "parse_version_field what s =
     map_err (\<lambda>e. SerializationError (what @ '': invalid wire_version: '' @ parse_error_display e)) (wire_version_parse s)"

definition handshake_request_to_proto :: "handshake_request \<Rightarrow> handshake_request_proto" where
  "handshake_request_to_proto req = HandshakeRequestProto (node_name (hs_node_id req))
     (wire_version_display (hs_wire_version req)) (hs_app_version req) (hs_adapter req)"

definition encode_handshake_request :: "(handshake_request_proto \<Rightarrow> bytes) \<Rightarrow> handshake_request \<Rightarrow> bytes" where
  "encode_handshake_request encode req = encode (handshake_request_to_proto req)"

definition decode_handshake_request ::
  "(bytes \<Rightarrow> string + handshake_request_proto) \<Rightarrow> bytes \<Rightarrow> serialization_error + handshake_request" where
  "decode_handshake_request decode bytes =
     rbind (decode_checked MAX_SYSTEM_MSG_SIZE ''HandshakeRequest'' decode bytes) (\<lambda>p.
     rbind (require_non_empty ''HandshakeRequest: node_id'' (hrp_node_id p)) (\<lambda>_.
     rbind (require_non_empty ''HandshakeRequest: wire_version'' (hrp_wire_version p)) (\<lambda>_.
     rbind (require_non_empty ''HandshakeRequest: adapter'' (hrp_adapter p)) (\<lambda>_.
     rbind (parse_version_field ''HandshakeRequest'' (hrp_wire_version p)) (\<lambda>v.
       Inr (HandshakeRequest (NodeId (hrp_node_id p)) v (hrp_app_version p) (hrp_adapter p)))))))"

definition rejection_reason_to_proto :: "rejection_reason \<Rightarrow> int" where
  "rejection_reason_to_proto r = (case r of IncompatibleProtocol \<Rightarrow> 0 | IncompatibleAdapter \<Rightarrow> 1)"

definition show_int :: "int \<Rightarrow> string" where
  "show_int i = (if i < 0 then CHR ''-'' # show_nat (nat (- i)) else show_nat (nat i))"

definition rejection_reason_from_proto :: "int \<Rightarrow> serialization_error + rejection_reason" where
  "rejection_reason_from_proto i =
     (if i = 0 then Inr IncompatibleProtocol else if i = 1 then Inr IncompatibleAdapter
      else Inl (SerializationError (''unknown RejectionReason value: '' @ show_int i)))"

definition handshake_response_to_proto :: "handshake_response \<Rightarrow> handshake_result_proto" where
  "handshake_response_to_proto resp =
     (case resp of
        HsAccepted n v app adapter \<Rightarrow> HandshakeAcceptedProto (node_name n) (wire_version_display v) app adapter
      | HsRejected n v reason detail \<Rightarrow>
          HandshakeRejectedProto (node_name n) (wire_version_display v) (rejection_reason_to_proto reason) detail)"

definition encode_handshake_response :: "(handshake_result_proto option \<Rightarrow> bytes) \<Rightarrow> handshake_response \<Rightarrow> bytes" where
  "encode_handshake_response encode resp = encode (Some (handshake_response_to_proto resp))"

definition decode_handshake_response ::
  "(bytes \<Rightarrow> string + handshake_result_proto option) \<Rightarrow> bytes \<Rightarrow> serialization_error + handshake_response" where
  "decode_handshake_response decode bytes =
     rbind (decode_checked MAX_SYSTEM_MSG_SIZE ''HandshakeResponse'' decode bytes) (\<lambda>p. case p of
        Some (HandshakeAcceptedProto n v app adapter) \<Rightarrow>
          rbind (require_non_empty ''HandshakeAccepted: node_id'' n) (\<lambda>_.
          rbind (require_non_empty ''HandshakeAccepted: wire_version'' v) (\<lambda>_.
          rbind (require_non_empty ''HandshakeAccepted: adapter'' adapter) (\<lambda>_.
          rbind (parse_version_field ''HandshakeAccepted'' v) (\<lambda>v. Inr (HsAccepted (NodeId n) v app adapter)))))
      | Some (HandshakeRejectedProto n v reason detail) \<Rightarrow>
          rbind (require_non_empty ''HandshakeRejected: node_id'' n) (\<lambda>_.
          rbind (require_non_empty ''HandshakeRejected: wire_version'' v) (\<lambda>_.
          rbind (parse_version_field ''HandshakeRejected'' v) (\<lambda>v.
          rbind (rejection_reason_from_proto reason) (\<lambda>reason. Inr (HsRejected (NodeId n) v reason detail)))))
      | None \<Rightarrow> Inl (SerializationError ''HandshakeResponse: missing oneof result''))"

section \<open>Wire envelope\<close>

definition send_mode_to_proto :: "send_mode \<Rightarrow> int" where
  "send_mode_to_proto m = (case m of Tell \<Rightarrow> 0 | Ask \<Rightarrow> 1 | Expand \<Rightarrow> 2 | Reduce \<Rightarrow> 3 | Transform \<Rightarrow> 4)"

definition send_mode_from_proto :: "int \<Rightarrow> serialization_error + send_mode" where
  "send_mode_from_proto i =
     (if i = 0 then Inr Tell else if i = 1 then Inr Ask else if i = 2 then Inr Expand
      else if i = 3 then Inr Reduce else if i = 4 then Inr Transform
      else Inl (SerializationError (''unknown SendMode value: '' @ show_int i)))"

definition wire_envelope_to_proto :: "(uuid \<Rightarrow> string) \<Rightarrow> wire_envelope \<Rightarrow> wire_envelope_proto" where
  "wire_envelope_to_proto uuid_show env =
     \<lparr>wep_target = Some (actor_id_to_proto (we_target env)), wep_target_name = we_target_name env,
       wep_message_type = we_message_type env, wep_send_mode = send_mode_to_proto (we_send_mode env),
       wep_headers = we_headers env, wep_body = we_body env,
       wep_request_id = map_option uuid_show (we_request_id env), wep_version = we_version env\<rparr>"

definition encode_wire_envelope ::
  "(wire_envelope_proto \<Rightarrow> bytes) \<Rightarrow> (uuid \<Rightarrow> string) \<Rightarrow> wire_envelope \<Rightarrow> bytes" where
  "encode_wire_envelope encode uuid_show env = encode (wire_envelope_to_proto uuid_show env)"

definition parse_request_id :: "(string \<Rightarrow> string + uuid) \<Rightarrow> string option \<Rightarrow> serialization_error + uuid option" where
  "parse_request_id uuid_parse r =
     (case r of None \<Rightarrow> Inr None
      | Some s \<Rightarrow> rbind (map_err (\<lambda>e. SerializationError (''invalid request_id UUID: '' @ e)) (uuid_parse s)) (\<lambda>u. Inr (Some u)))"

definition decode_wire_envelope ::
  "(bytes \<Rightarrow> string + wire_envelope_proto) \<Rightarrow> (string \<Rightarrow> string + uuid) \<Rightarrow> bytes
    \<Rightarrow> serialization_error + wire_envelope" where
  "decode_wire_envelope decode uuid_parse bytes =
     rbind (decode_checked MAX_WIRE_ENVELOPE_SIZE ''WireEnvelope'' decode bytes) (\<lambda>p.
     rbind (require_actor_id (wep_target p) ''WireEnvelope.target'') (\<lambda>target.
     rbind (send_mode_from_proto (wep_send_mode p)) (\<lambda>mode.
     rbind (parse_request_id uuid_parse (wep_request_id p)) (\<lambda>request_id.
       Inr \<lparr>we_target = target, we_target_name = wep_target_name p, we_message_type = wep_message_type p,
         we_send_mode = mode, we_headers = wep_headers p, we_body = wep_body p,
         we_request_id = request_id, we_version = wep_version p\<rparr>))))"

section \<open>Round trips\<close>

lemma check_size_simps [simp]:
  "length b \<le> limit \<Longrightarrow> check_size b limit what = Inr ()"
  by (simp add: check_size_def)

lemma decode_checked_ok [simp]:
  "length b \<le> limit \<Longrightarrow> decode b = Inr p \<Longrightarrow> decode_checked limit what decode b = Inr p"
  by (simp add: decode_checked_def)

text \<open>A payload over the limit never reaches prost's decoder: any two decoders give the same error.\<close>

lemma decode_checked_large:
  "length b > limit \<Longrightarrow> decode_checked limit what decode b = Inl (SerializationError
     (what @ '': payload too large ('' @ show_nat (length b) @ '' bytes, max '' @ show_nat limit @ '')''))"
  by (simp add: decode_checked_def check_size_def)

lemma require_non_empty_simps [simp]:
  "s \<noteq> [] \<Longrightarrow> require_non_empty f s = Inr ()" "require_non_empty f [] = Inl (SerializationError (f @ '' must not be empty''))"
  by (simp_all add: require_non_empty_def)

definition named :: "actor_id \<Rightarrow> bool" where
  "named i \<longleftrightarrow> node_name (aid_node i) \<noteq> []"

lemma require_actor_id_proto [simp]:
  "named i \<Longrightarrow> require_actor_id (Some (actor_id_to_proto i)) f = Inr i"
  by (cases i; cases "aid_node i") (auto simp: named_def require_actor_id_def actor_id_from_proto_def actor_id_to_proto_def)

lemma require_actor_id_unnamed:
  "\<not> named i \<Longrightarrow> require_actor_id (Some (actor_id_to_proto i)) f = Inl (SerializationError ''ActorId: node_id must not be empty'')"
  by (auto simp: named_def require_actor_id_def actor_id_from_proto_def actor_id_to_proto_def)

lemma version_field_display [simp]: "parse_version_field what (wire_version_display v) = Inr v"
  by (simp add: parse_version_field_def wire_version_parse_def from_str_display)

lemma version_display_non_empty [simp]: "wire_version_display v \<noteq> []"
  by (simp add: wire_version_display_def)

lemma enum_roundtrips [simp]:
  "rejection_reason_from_proto (rejection_reason_to_proto r) = Inr r"
  "send_mode_from_proto (send_mode_to_proto m) = Inr m"
  by (cases r; simp add: rejection_reason_from_proto_def rejection_reason_to_proto_def)
    (cases m; simp add: send_mode_from_proto_def send_mode_to_proto_def)

lemma watch_messages_roundtrip:
  assumes "decode (encode (pair_to_proto t w)) = Inr (pair_to_proto t w)"
    and "length (encode (pair_to_proto t w)) \<le> MAX_SYSTEM_MSG_SIZE" and "named t" and "named w"
  shows "decode_watch_request decode (encode_watch_request encode (WatchRequest t w)) = Inr (WatchRequest t w)"
    and "decode_unwatch_request decode (encode_unwatch_request encode (UnwatchRequest t w)) = Inr (UnwatchRequest t w)"
    and "decode_watch_notification decode (encode_watch_notification encode (WatchNotification t w)) =
      Inr (WatchNotification t w)"
  using assms
  by (simp_all add: decode_watch_request_def encode_watch_request_def decode_unwatch_request_def
      encode_unwatch_request_def decode_watch_notification_def encode_watch_notification_def decode_pair_def)
    (simp_all add: pair_to_proto_def)

fun response_named :: "handshake_response \<Rightarrow> bool" where
  "response_named (HsAccepted n v app adapter) \<longleftrightarrow> node_name n \<noteq> [] \<and> adapter \<noteq> []"
| "response_named (HsRejected n v reason detail) \<longleftrightarrow> node_name n \<noteq> []"

lemma node_name_id [simp]: "NodeId (node_name n) = n"
  by (cases n) simp

lemma handshake_response_roundtrip:
  assumes "decode (encode_handshake_response encode resp) = Inr (Some (handshake_response_to_proto resp))"
    and "length (encode_handshake_response encode resp) \<le> MAX_SYSTEM_MSG_SIZE" and "response_named resp"
  shows "decode_handshake_response decode (encode_handshake_response encode resp) = Inr resp"
proof -
  have "decode_checked MAX_SYSTEM_MSG_SIZE ''HandshakeResponse'' decode (encode_handshake_response encode resp) =
      Inr (Some (handshake_response_to_proto resp))"
    using assms(1,2) by simp
  then show ?thesis
    using assms(3) by (cases resp) (simp_all add: decode_handshake_response_def handshake_response_to_proto_def)
qed

lemma validate_handshake_named:
  "node_name (hs_node_id l) \<noteq> [] \<Longrightarrow> hs_adapter l \<noteq> [] \<Longrightarrow> response_named (validate_handshake l q)"
  by (auto simp: validate_handshake_def)

section \<open>Properties\<close>

text \<open>System messages survive the wire exactly when they carry their required fields: for a payload within the size
  limit that prost decodes to the message that was encoded, a spawn request is decoded to itself
  if its type name and request id are not empty, and refused otherwise; and a watch request if and only if
  both actors are on named nodes.\<close>

theorem proto_request_roundtrip:
  assumes "dec_s (enc_s (spawn_request_to_proto r)) = Inr (spawn_request_to_proto r)"
    and "dec_w (enc_w (pair_to_proto t w)) = Inr (pair_to_proto t w)"
    and "length (enc_s (spawn_request_to_proto r)) \<le> MAX_SYSTEM_MSG_SIZE"
    and "length (enc_w (pair_to_proto t w)) \<le> MAX_SYSTEM_MSG_SIZE"
  shows "(decode_spawn_request dec_s (encode_spawn_request enc_s r) = Inr r \<longleftrightarrow>
      sr_type_name r \<noteq> [] \<and> sr_request_id r \<noteq> []) \<and>
    (decode_watch_request dec_w (encode_watch_request enc_w (WatchRequest t w)) = Inr (WatchRequest t w) \<longleftrightarrow>
      named t \<and> named w)"
proof -
  have "decode_checked MAX_SYSTEM_MSG_SIZE ''SpawnRequest'' dec_s (encode_spawn_request enc_s r) =
      Inr (spawn_request_to_proto r)"
    using assms(1,3) by (simp add: encode_spawn_request_def)
  then have "decode_spawn_request dec_s (encode_spawn_request enc_s r) = Inr r \<longleftrightarrow>
      sr_type_name r \<noteq> [] \<and> sr_request_id r \<noteq> []"
    by (cases r) (auto simp: decode_spawn_request_def spawn_request_to_proto_def rbind_Inr require_non_empty_def)
  moreover have "decode_checked MAX_SYSTEM_MSG_SIZE ''WatchRequest'' dec_w
      (encode_watch_request enc_w (WatchRequest t w)) = Inr (pair_to_proto t w)"
    using assms(2,4) by (simp add: encode_watch_request_def)
  then have "decode_watch_request dec_w (encode_watch_request enc_w (WatchRequest t w)) = Inr (WatchRequest t w) \<longleftrightarrow>
      named t \<and> named w"
    by (cases "named t"; cases "named w")
      (simp_all add: decode_watch_request_def decode_pair_def pair_to_proto_def require_actor_id_unnamed)
  ultimately show ?thesis by blast
qed

theorem proto_request_roundtrip_witness:
  "let r = SpawnRequest ''app::Counter'' [1, 2] ''c'' ''req-1'';
       dec = (\<lambda>_. Inr (spawn_request_to_proto r)); enc = (\<lambda>_. [7])
   in decode_spawn_request dec (encode_spawn_request enc r) = Inr r"
  using proto_request_roundtrip [of "\<lambda>_. Inr (spawn_request_to_proto (SpawnRequest ''app::Counter'' [1, 2] ''c'' ''req-1''))"
      "\<lambda>_. [7]" "SpawnRequest ''app::Counter'' [1, 2] ''c'' ''req-1''"
      "\<lambda>_. Inr (pair_to_proto (ActorId (NodeId ''n'') 1) (ActorId (NodeId ''m'') 2))" "\<lambda>_. [7]"
      "ActorId (NodeId ''n'') 1" "ActorId (NodeId ''m'') 2"]
  by (simp add: MAX_SYSTEM_MSG_SIZE_def)

text \<open>The handshake messages survive the wire: for every request and every answer to it whose node ids and adapters are not
  empty, decoding the encoded message gives it back, wire version and rejection reason included.\<close>

lemma proto_handshake_roundtrip:
  assumes "dec_q (enc_q (handshake_request_to_proto q)) = Inr (handshake_request_to_proto q)"
    and "dec_r (encode_handshake_response enc_r (validate_handshake l q)) =
      Inr (Some (handshake_response_to_proto (validate_handshake l q)))"
    and "length (enc_q (handshake_request_to_proto q)) \<le> MAX_SYSTEM_MSG_SIZE"
    and "length (encode_handshake_response enc_r (validate_handshake l q)) \<le> MAX_SYSTEM_MSG_SIZE"
    and "node_name (hs_node_id q) \<noteq> []" "hs_adapter q \<noteq> []" "node_name (hs_node_id l) \<noteq> []" "hs_adapter l \<noteq> []"
  shows "decode_handshake_request dec_q (encode_handshake_request enc_q q) = Inr q \<and>
    decode_handshake_response dec_r (encode_handshake_response enc_r (validate_handshake l q)) =
      Inr (validate_handshake l q)"
proof -
  have "decode_checked MAX_SYSTEM_MSG_SIZE ''HandshakeRequest'' dec_q (encode_handshake_request enc_q q) =
      Inr (handshake_request_to_proto q)"
    using assms(1,3) by (simp add: encode_handshake_request_def)
  then have "decode_handshake_request dec_q (encode_handshake_request enc_q q) = Inr q"
    using assms(5,6) by (cases q) (simp add: decode_handshake_request_def handshake_request_to_proto_def)
  then show ?thesis
    using handshake_response_roundtrip [of dec_r enc_r "validate_handshake l q"] assms(2,4)
      validate_handshake_named [OF assms(7,8)] by blast
qed

text \<open>C36. The handshake over the wire. Between two nodes with non-empty ids and adapters, whose messages prost decodes as they were encoded and which fit the
  size limit, the initiator decodes exactly the responder's decision on its own request. An acceptance carries the responder's id, versions and
  adapter, is given only if major wire versions and adapters agree, and then the initiator would accept the responder in the same way; a
  rejection carries the reason, a different major version before a different adapter, and then the initiator would reject the responder for
  the same reason. The identity check of an acceptance passes for the responder's id alone; a rejection it lets pass.\<close>

theorem handshake_exchange:
  assumes "dec_q (enc_q (handshake_request_to_proto q)) = Inr (handshake_request_to_proto q)"
    and "dec_r (encode_handshake_response enc_r (validate_handshake l q)) =
      Inr (Some (handshake_response_to_proto (validate_handshake l q)))"
    and "length (enc_q (handshake_request_to_proto q)) \<le> MAX_SYSTEM_MSG_SIZE"
    and "length (encode_handshake_response enc_r (validate_handshake l q)) \<le> MAX_SYSTEM_MSG_SIZE"
    and "node_name (hs_node_id q) \<noteq> []" "hs_adapter q \<noteq> []" "node_name (hs_node_id l) \<noteq> []" "hs_adapter l \<noteq> []"
  shows "\<exists>resp. rbind (decode_handshake_request dec_q (encode_handshake_request enc_q q))
      (\<lambda>q'. decode_handshake_response dec_r (encode_handshake_response enc_r (validate_handshake l q'))) = Inr resp \<and>
    (case resp of
       HsAccepted n v app adapter \<Rightarrow>
         HandshakeRequest n v app adapter = l \<and> major v = major (hs_wire_version q) \<and> adapter = hs_adapter q \<and>
         validate_handshake q l = HsAccepted (hs_node_id q) (hs_wire_version q) (hs_app_version q) (hs_adapter q)
     | HsRejected n v reason detail \<Rightarrow>
         n = hs_node_id l \<and> v = hs_wire_version l \<and>
         (case reason of
            IncompatibleProtocol \<Rightarrow> major v \<noteq> major (hs_wire_version q)
          | IncompatibleAdapter \<Rightarrow> major v = major (hs_wire_version q) \<and> hs_adapter l \<noteq> hs_adapter q) \<and>
         (\<exists>detail'. validate_handshake q l = HsRejected (hs_node_id q) (hs_wire_version q) reason detail')) \<and>
    (verify_peer_identity expected resp = Inr () \<longleftrightarrow> (\<exists>n v reason detail. resp = HsRejected n v reason detail) \<or> expected = hs_node_id l)"
proof -
  note rt = proto_handshake_roundtrip [of dec_q enc_q q dec_r enc_r l, OF assms]
  have decision: "case validate_handshake l q of
       HsAccepted n v app adapter \<Rightarrow>
         HandshakeRequest n v app adapter = l \<and> major v = major (hs_wire_version q) \<and> adapter = hs_adapter q \<and>
         validate_handshake q l = HsAccepted (hs_node_id q) (hs_wire_version q) (hs_app_version q) (hs_adapter q)
     | HsRejected n v reason detail \<Rightarrow>
         n = hs_node_id l \<and> v = hs_wire_version l \<and>
         (case reason of
            IncompatibleProtocol \<Rightarrow> major v \<noteq> major (hs_wire_version q)
          | IncompatibleAdapter \<Rightarrow> major v = major (hs_wire_version q) \<and> hs_adapter l \<noteq> hs_adapter q) \<and>
         (\<exists>detail'. validate_handshake q l = HsRejected (hs_node_id q) (hs_wire_version q) reason detail')"
    by (cases l) (auto simp: validate_handshake_def is_compatible_def)
  have identity: "verify_peer_identity expected (validate_handshake l q) = Inr () \<longleftrightarrow>
      (\<exists>n v reason detail. validate_handshake l q = HsRejected n v reason detail) \<or> expected = hs_node_id l"
    by (auto simp: validate_handshake_def verify_peer_identity_def)
  show ?thesis using rt decision identity by (intro exI [of _ "validate_handshake l q"]) simp
qed

theorem handshake_exchange_witness:
  "let q = HandshakeRequest (NodeId ''a'') (WireVersion 1 0 0) None ''kameo'';
       l = HandshakeRequest (NodeId ''b'') (WireVersion 0 2 0) None ''ractor'';
       dec_q = (\<lambda>_. Inr (handshake_request_to_proto q));
       dec_r = (\<lambda>_. Inr (Some (handshake_response_to_proto (validate_handshake l q))))
   in \<exists>resp. rbind (decode_handshake_request dec_q (encode_handshake_request (\<lambda>_. [1]) q))
       (\<lambda>q'. decode_handshake_response dec_r (encode_handshake_response (\<lambda>_. [1]) (validate_handshake l q'))) = Inr resp \<and>
     verify_peer_identity (NodeId ''c'') resp = Inr ()"
proof -
  let ?q = "HandshakeRequest (NodeId ''a'') (WireVersion 1 0 0) None ''kameo''"
  let ?l = "HandshakeRequest (NodeId ''b'') (WireVersion 0 2 0) None ''ractor''"
  let ?dec_q = "\<lambda>_ :: bytes. Inr (handshake_request_to_proto ?q) :: string + handshake_request_proto"
  let ?dec_r = "\<lambda>_ :: bytes. Inr (Some (handshake_response_to_proto (validate_handshake ?l ?q))) :: string + handshake_result_proto option"
  have p: "?dec_q [1] = Inr (handshake_request_to_proto ?q)"
    "?dec_r (encode_handshake_response (\<lambda>_. [1]) (validate_handshake ?l ?q)) = Inr (Some (handshake_response_to_proto (validate_handshake ?l ?q)))"
    "length [1 :: u8] \<le> MAX_SYSTEM_MSG_SIZE"
    "length (encode_handshake_response (\<lambda>_. [1]) (validate_handshake ?l ?q)) \<le> MAX_SYSTEM_MSG_SIZE"
    "node_name (hs_node_id ?q) \<noteq> []" "hs_adapter ?q \<noteq> []" "node_name (hs_node_id ?l) \<noteq> []" "hs_adapter ?l \<noteq> []"
    by (simp_all add: MAX_SYSTEM_MSG_SIZE_def encode_handshake_response_def)
  from handshake_exchange [of ?dec_q "\<lambda>_. [1]" ?q ?dec_r "\<lambda>_. [1]" ?l "NodeId ''c''", OF p]
  obtain resp where r: "rbind (decode_handshake_request ?dec_q (encode_handshake_request (\<lambda>_. [1]) ?q))
      (\<lambda>q'. decode_handshake_response ?dec_r (encode_handshake_response (\<lambda>_. [1]) (validate_handshake ?l q'))) = Inr resp"
    and c: "case resp of
       HsAccepted n v app adapter \<Rightarrow> HandshakeRequest n v app adapter = ?l \<and> major v = major (hs_wire_version ?q) \<and> adapter = hs_adapter ?q \<and>
         validate_handshake ?q ?l = HsAccepted (hs_node_id ?q) (hs_wire_version ?q) (hs_app_version ?q) (hs_adapter ?q)
     | HsRejected n v reason detail \<Rightarrow> n = hs_node_id ?l \<and> v = hs_wire_version ?l \<and>
         (case reason of IncompatibleProtocol \<Rightarrow> major v \<noteq> major (hs_wire_version ?q)
          | IncompatibleAdapter \<Rightarrow> major v = major (hs_wire_version ?q) \<and> hs_adapter ?l \<noteq> hs_adapter ?q) \<and>
         (\<exists>detail'. validate_handshake ?q ?l = HsRejected (hs_node_id ?q) (hs_wire_version ?q) reason detail')"
    and v: "verify_peer_identity (NodeId ''c'') resp = Inr () \<longleftrightarrow> (\<exists>n v reason detail. resp = HsRejected n v reason detail) \<or> NodeId ''c'' = hs_node_id ?l"
    by blast
  have "\<exists>n v reason detail. resp = HsRejected n v reason detail" using c by (cases resp) auto
  then show ?thesis using r v unfolding Let_def by blast
qed

text \<open>C30. An envelope survives framing if its target's node has a name: if prost and the UUID text form decode what was encoded, a frame within the
  limit decodes to the same envelope, with its headers, send mode, request id and version, when the node id of its target is not empty, and is
  refused for that reason when it is; a frame over the limit is refused whatever prost would make of it.\<close>

theorem proto_envelope_roundtrip:
  assumes "dec (enc (wire_envelope_to_proto uuid_show env)) = Inr (wire_envelope_to_proto uuid_show env)"
    and "\<And>u. we_request_id env = Some u \<Longrightarrow> uuid_parse (uuid_show u) = Inr u"
  shows "if length (encode_wire_envelope enc uuid_show env) \<le> MAX_WIRE_ENVELOPE_SIZE
    then decode_wire_envelope dec uuid_parse (encode_wire_envelope enc uuid_show env) =
      (if named (we_target env) then Inr env else Inl (SerializationError ''ActorId: node_id must not be empty''))
    else \<exists>e. \<forall>dec'. decode_wire_envelope dec' uuid_parse (encode_wire_envelope enc uuid_show env) = Inl e"
proof (cases "length (encode_wire_envelope enc uuid_show env) \<le> MAX_WIRE_ENVELOPE_SIZE")
  case True
  then have "decode_checked MAX_WIRE_ENVELOPE_SIZE ''WireEnvelope'' dec (encode_wire_envelope enc uuid_show env) =
      Inr (wire_envelope_to_proto uuid_show env)"
    using assms(1) by (simp add: encode_wire_envelope_def)
  moreover have "parse_request_id uuid_parse (map_option uuid_show (we_request_id env)) = Inr (we_request_id env)"
    using assms(2) by (cases "we_request_id env") (simp_all add: parse_request_id_def)
  ultimately have "decode_wire_envelope dec uuid_parse (encode_wire_envelope enc uuid_show env) =
      (if named (we_target env) then Inr env else Inl (SerializationError ''ActorId: node_id must not be empty''))"
    by (simp add: decode_wire_envelope_def wire_envelope_to_proto_def require_actor_id_unnamed)
  then show ?thesis using True by simp
next
  case False
  then show ?thesis by (simp add: decode_wire_envelope_def decode_checked_large)
qed

definition sample_wire_envelope :: wire_envelope where
  "sample_wire_envelope = \<lparr>we_target = ActorId (NodeId ''n'') 1, we_target_name = ''a'', we_message_type = ''m'',
     we_send_mode = Ask, we_headers = wh_new, we_body = [5], we_request_id = Some 9, we_version = Some 2\<rparr>"

theorem proto_envelope_roundtrip_witness:
  "decode_wire_envelope (\<lambda>_. Inr (wire_envelope_to_proto (\<lambda>_. ''9'') sample_wire_envelope)) (\<lambda>_. Inr 9)
     (encode_wire_envelope (\<lambda>_. [1]) (\<lambda>_. ''9'') sample_wire_envelope) = Inr sample_wire_envelope"
  using proto_envelope_roundtrip [of "\<lambda>_. Inr (wire_envelope_to_proto (\<lambda>_. ''9'') sample_wire_envelope)"
      "\<lambda>_. [1]" "\<lambda>_. ''9''" sample_wire_envelope "\<lambda>_. Inr 9"]
  by (simp add: sample_wire_envelope_def named_def encode_wire_envelope_def MAX_WIRE_ENVELOPE_SIZE_def)

end
