(* ===== verification/Ractor_Node.thy ===== *)
theory Ractor_Node
  imports Cluster Proto
begin

text \<open>
  A node of the ractor adapter (\<^verbatim>\<open>dactor-ractor/src/runtime.rs\<close> and \<^verbatim>\<open>system_actors.rs\<close>): the
  managers held by the runtime itself, the system actors started beside them, and the routing of
  system envelopes to the latter. Each system actor handles its mailbox in order, so the model applies
  a message where it is cast. What the ractor library decides, whether a cast is accepted and whether a reply
  arrives, is an argument.
\<close>

section \<open>System actors\<close>

text \<open>The three messages of the spawn manager actor; the id counter is shared with the runtime.\<close>

definition sma_handle_request ::
  "node_id \<Rightarrow> u64 \<Rightarrow> ('m, 'd) spawn_manager \<Rightarrow> spawn_request
    \<Rightarrow> (spawn_response + actor_id \<times> 'm) \<times> u64 \<times> ('m, 'd) spawn_manager" where
  "sma_handle_request n next_local sm request =
     (case sm_create_actor sm request of
        Inr actor \<Rightarrow>
          (let i = ActorId n next_local in (Inr (i, actor), next_local + 1, sm_record_spawn sm i))
      | Inl e \<Rightarrow>
          (Inl (SpawnFailure (sr_request_id request) (serialization_error_display e)), next_local, sm))"

definition sma_register_factory ::
  "('m, 'd) spawn_manager \<Rightarrow> string \<Rightarrow> 'm deserializer_fn \<Rightarrow> ('m, 'd) spawn_manager" where
  "sma_register_factory sm type_name factory =
     sm\<lparr>sm_type_registry := tr_register_factory (sm_type_registry sm) type_name factory\<rparr>"

definition sma_get_spawned_actors :: "('m, 'd) spawn_manager \<Rightarrow> actor_id list" where
  "sma_get_spawned_actors sm = sm_spawned_actors sm"

datatype watch_manager_msg = WmWatch actor_id actor_id | WmUnwatch actor_id actor_id | WmOnTerminated actor_id

fun wma_handle :: "watch_manager \<Rightarrow> watch_manager_msg \<Rightarrow> watch_notification list \<times> watch_manager" where
  "wma_handle wm (WmWatch t w) = ([], wm_watch wm t w)"
| "wma_handle wm (WmUnwatch t w) = ([], wm_unwatch wm t w)"
| "wma_handle wm (WmOnTerminated t) = wm_on_terminated wm t"

datatype 't cancel_manager_msg = CmaRegister string 't | CmaCancel string | CmaComplete string

fun cma_handle ::
  "'t cancel_manager \<Rightarrow> 't cancel_manager_msg \<Rightarrow> cancel_response option \<times> 't option \<times> 't cancel_manager" where
  "cma_handle cm (CmaRegister r t) = (None, None, cm_register cm r t)"
| "cma_handle cm (CmaCancel r) = (case cm_cancel cm r of (resp, tok, cm') \<Rightarrow> (Some resp, tok, cm'))"
| "cma_handle cm (CmaComplete r) = (None, None, cm_remove cm r)"

text \<open>Connecting a peer, as the directory actor and the runtime both do it.\<close>

definition nd_connect :: "node_directory \<Rightarrow> node_id \<Rightarrow> string option \<Rightarrow> node_directory" where
  "nd_connect nd peer address =
     nd_set_status
       (case nd_get_peer nd peer of
          Some existing \<Rightarrow>
            (let resolved = (case address of Some a \<Rightarrow> Some a | None \<Rightarrow> pi_address existing)
             in nd_add_peer (nd_remove_peer nd peer) peer resolved)
        | None \<Rightarrow> nd_add_peer nd peer address)
       peer Connected"

datatype node_directory_msg = NdConnectPeer node_id "string option" | NdDisconnectPeer node_id

fun nda_handle :: "node_directory \<Rightarrow> node_directory_msg \<Rightarrow> node_directory" where
  "nda_handle nd (NdConnectPeer p a) = nd_connect nd p a"
| "nda_handle nd (NdDisconnectPeer p) = nd_set_status nd p Disconnected"

section \<open>The runtime\<close>

text \<open>A single spawn manager actor, or a round-robin pool with its message counter.\<close>

datatype ('m, 'd) system_actor_handle =
    Single "('m, 'd) spawn_manager"
  | Pool "('m, 'd) spawn_manager list" u64

record ('m, 'd, 't) system_actor_refs =
  sar_spawn_manager :: "('m, 'd) system_actor_handle"
  sar_watch_manager :: watch_manager
  sar_cancel_manager :: "'t cancel_manager"
  sar_node_directory :: node_directory

record ('m, 'd, 't, 'cb) ractor_runtime =
  rr_node_id :: node_id
  rr_next_local :: u64
  rr_cluster_events :: "'cb adapter_events"
  rr_spawn_manager :: "('m, 'd) spawn_manager"
  rr_watch_manager :: watch_manager
  rr_cancel_manager :: "'t cancel_manager"
  rr_node_directory :: node_directory
  rr_system_actors :: "('m, 'd, 't) system_actor_refs option"
  rr_app_version :: "string option"

definition rr_create :: "node_id \<Rightarrow> ('m, 'd, 't, 'cb) ractor_runtime" where
  "rr_create n = \<lparr>rr_node_id = n, rr_next_local = 1, rr_cluster_events = ae_new,
     rr_spawn_manager = sm_new tr_new, rr_watch_manager = wm_new, rr_cancel_manager = cm_new,
     rr_node_directory = nd_new, rr_system_actors = None, rr_app_version = None\<rparr>"

definition rr_with_app_version :: "('m, 'd, 't, 'cb) ractor_runtime \<Rightarrow> string \<Rightarrow> ('m, 'd, 't, 'cb) ractor_runtime" where
  "rr_with_app_version rt version = rt\<lparr>rr_app_version := Some version\<rparr>"

definition rr_handshake_request :: "('m, 'd, 't, 'cb) ractor_runtime \<Rightarrow> handshake_request" where
  "rr_handshake_request rt = hs_from_runtime (rr_node_id rt) (rr_app_version rt) ''ractor''"

definition rr_start_system_actors_with_config ::
  "('m, 'd, 't, 'cb) ractor_runtime \<Rightarrow> system_actor_config \<Rightarrow> ('m, 'd, 't, 'cb) ractor_runtime" where
  "rr_start_system_actors_with_config rt config =
     (let pool_size = max (case sac_spawn_manager_pool_size config of Some n \<Rightarrow> unat n | None \<Rightarrow> 1) 1;
          spawn_refs = replicate pool_size (sm_new tr_new)
      in rt\<lparr>rr_system_actors := Some
           \<lparr>sar_spawn_manager = (if length spawn_refs = 1 then Single (last spawn_refs) else Pool spawn_refs 0),
            sar_watch_manager = wm_new, sar_cancel_manager = cm_new, sar_node_directory = nd_new\<rparr>\<rparr>)"

definition rr_start_system_actors :: "('m, 'd, 't, 'cb) ractor_runtime \<Rightarrow> ('m, 'd, 't, 'cb) ractor_runtime" where
  "rr_start_system_actors rt = rr_start_system_actors_with_config rt sac_default"

fun handle_register :: "string \<Rightarrow> 'm deserializer_fn \<Rightarrow> ('m, 'd) system_actor_handle \<Rightarrow> ('m, 'd) system_actor_handle" where
  "handle_register ty f (Single sm) = Single (sma_register_factory sm ty f)"
| "handle_register ty f (Pool workers c) = Pool (map (\<lambda>sm. sma_register_factory sm ty f) workers) c"

definition rr_register_factory ::
  "('m, 'd, 't, 'cb) ractor_runtime \<Rightarrow> string \<Rightarrow> 'm deserializer_fn \<Rightarrow> ('m, 'd, 't, 'cb) ractor_runtime" where
  "rr_register_factory rt type_name factory =
     rt\<lparr>rr_spawn_manager := sma_register_factory (rr_spawn_manager rt) type_name factory,
        rr_system_actors := map_option
          (\<lambda>a. a\<lparr>sar_spawn_manager := handle_register type_name factory (sar_spawn_manager a)\<rparr>) (rr_system_actors rt)\<rparr>"

definition rr_handle_spawn_request ::
  "('m, 'd, 't, 'cb) ractor_runtime \<Rightarrow> spawn_request
    \<Rightarrow> (spawn_response + actor_id \<times> 'm) \<times> ('m, 'd, 't, 'cb) ractor_runtime" where
  "rr_handle_spawn_request rt request =
     (case sm_create_actor (rr_spawn_manager rt) request of
        Inr actor \<Rightarrow>
          (let i = ActorId (rr_node_id rt) (rr_next_local rt)
           in (Inr (i, actor), rt\<lparr>rr_next_local := rr_next_local rt + 1,
                 rr_spawn_manager := sm_record_spawn (rr_spawn_manager rt) i\<rparr>))
      | Inl e \<Rightarrow> (Inl (SpawnFailure (sr_request_id request) (serialization_error_display e)), rt))"

text \<open>The id a local spawn takes (the start of \<^verbatim>\<open>spawn_internal\<close>).\<close>

definition rr_take_local_id ::
  "('m, 'd, 't, 'cb) ractor_runtime \<Rightarrow> actor_id \<times> ('m, 'd, 't, 'cb) ractor_runtime" where
  "rr_take_local_id rt =
     (ActorId (rr_node_id rt) (rr_next_local rt), rt\<lparr>rr_next_local := rr_next_local rt + 1\<rparr>)"

definition rr_remote_watch ::
  "('m, 'd, 't, 'cb) ractor_runtime \<Rightarrow> actor_id \<Rightarrow> actor_id \<Rightarrow> ('m, 'd, 't, 'cb) ractor_runtime" where
  "rr_remote_watch rt target watcher = rt\<lparr>rr_watch_manager := wm_watch (rr_watch_manager rt) target watcher\<rparr>"

definition rr_remote_unwatch ::
  "('m, 'd, 't, 'cb) ractor_runtime \<Rightarrow> actor_id \<Rightarrow> actor_id \<Rightarrow> ('m, 'd, 't, 'cb) ractor_runtime" where
  "rr_remote_unwatch rt target watcher = rt\<lparr>rr_watch_manager := wm_unwatch (rr_watch_manager rt) target watcher\<rparr>"

definition rr_notify_terminated ::
  "('m, 'd, 't, 'cb) ractor_runtime \<Rightarrow> actor_id \<Rightarrow> watch_notification list \<times> ('m, 'd, 't, 'cb) ractor_runtime" where
  "rr_notify_terminated rt terminated =
     (case wm_on_terminated (rr_watch_manager rt) terminated of (ns, wm) \<Rightarrow> (ns, rt\<lparr>rr_watch_manager := wm\<rparr>))"

definition rr_register_cancel ::
  "('m, 'd, 't, 'cb) ractor_runtime \<Rightarrow> string \<Rightarrow> 't \<Rightarrow> ('m, 'd, 't, 'cb) ractor_runtime" where
  "rr_register_cancel rt request_id token = rt\<lparr>rr_cancel_manager := cm_register (rr_cancel_manager rt) request_id token\<rparr>"

definition rr_cancel_request ::
  "('m, 'd, 't, 'cb) ractor_runtime \<Rightarrow> string \<Rightarrow> cancel_response \<times> 't option \<times> ('m, 'd, 't, 'cb) ractor_runtime" where
  "rr_cancel_request rt request_id =
     (case cm_cancel (rr_cancel_manager rt) request_id of (resp, tok, cm) \<Rightarrow> (resp, tok, rt\<lparr>rr_cancel_manager := cm\<rparr>))"

definition rr_complete_request ::
  "('m, 'd, 't, 'cb) ractor_runtime \<Rightarrow> string \<Rightarrow> ('m, 'd, 't, 'cb) ractor_runtime" where
  "rr_complete_request rt request_id = rt\<lparr>rr_cancel_manager := cm_remove (rr_cancel_manager rt) request_id\<rparr>"

definition rr_is_peer_connected :: "('m, 'd, 't, 'cb) ractor_runtime \<Rightarrow> node_id \<Rightarrow> bool" where
  "rr_is_peer_connected rt peer = nd_is_connected (rr_node_directory rt) peer"

text \<open>The events emitted by a call, and the runtime after it.\<close>

definition rr_connect_peer ::
  "('m, 'd, 't, 'cb) ractor_runtime \<Rightarrow> node_id \<Rightarrow> string option
    \<Rightarrow> cluster_event list \<times> ('m, 'd, 't, 'cb) ractor_runtime" where
  "rr_connect_peer rt peer address =
     (let was_connected = nd_is_connected (rr_node_directory rt) peer
      in (if was_connected then [] else [NodeJoined peer],
          rt\<lparr>rr_node_directory := nd_connect (rr_node_directory rt) peer address\<rparr>))"

definition rr_disconnect_peer ::
  "('m, 'd, 't, 'cb) ractor_runtime \<Rightarrow> node_id \<Rightarrow> cluster_event list \<times> ('m, 'd, 't, 'cb) ractor_runtime" where
  "rr_disconnect_peer rt peer =
     (let was_connected = nd_is_connected (rr_node_directory rt) peer
      in (if was_connected then [NodeLeft peer] else [],
          rt\<lparr>rr_node_directory := nd_set_status (rr_node_directory rt) peer Disconnected\<rparr>))"

section \<open>Routing\<close>

text \<open>The prost decoders of the system messages, and what the ractor library does with casts and replies.\<close>

record system_codecs =
  sc_spawn :: "bytes \<Rightarrow> string + spawn_request_proto"
  sc_watch :: "bytes \<Rightarrow> string + watch_request_proto"
  sc_cancel :: "bytes \<Rightarrow> string + cancel_request_proto"
  sc_connect :: "bytes \<Rightarrow> string + connect_peer_proto"
  sc_disconnect :: "bytes \<Rightarrow> string + string"

record ractor_env =
  re_cast_error :: "string \<Rightarrow> string option"
  re_reply_dropped :: "string \<Rightarrow> bool"

definition decode_step :: "string \<Rightarrow> serialization_error + 'a \<Rightarrow> routing_error + 'a" where
  "decode_step what r = map_err (\<lambda>e. RoutingError (''decode '' @ what @ '': '' @ serialization_error_display e)) r"

definition cast_step :: "ractor_env \<Rightarrow> string \<Rightarrow> routing_error + unit" where
  "cast_step env actor =
     (case re_cast_error env actor of None \<Rightarrow> Inr () | Some e \<Rightarrow> Inl (RoutingError (actor @ '' mailbox: '' @ e)))"

definition reply_step :: "ractor_env \<Rightarrow> string \<Rightarrow> routing_error + unit" where
  "reply_step env actor =
     (if re_reply_dropped env actor then Inl (RoutingError (actor @ '' reply dropped'')) else Inr ())"

text \<open>One spawn request to the handle: the pool picks a worker by its counter, modulo its length.\<close>

fun handle_cast_request ::
  "node_id \<Rightarrow> u64 \<Rightarrow> ('m, 'd) system_actor_handle \<Rightarrow> spawn_request
    \<Rightarrow> (spawn_response + actor_id \<times> 'm) \<times> u64 \<times> ('m, 'd) system_actor_handle" where
  "handle_cast_request n next_local (Single sm) req =
     (case sma_handle_request n next_local sm req of (r, nl, sm') \<Rightarrow> (r, nl, Single sm'))"
| "handle_cast_request n next_local (Pool workers c) req =
     (let idx = unat c mod length workers
      in case sma_handle_request n next_local (workers ! idx) req of
           (r, nl, sm') \<Rightarrow> (r, nl, Pool (workers[idx := sm']) (c + 1)))"

text \<open>The last case is \<^verbatim>\<open>unreachable!\<close> in the code; \<open>sma_fails_with_failure\<close> shows that it is.\<close>

definition spawn_outcome :: "string \<Rightarrow> spawn_response + actor_id \<times> 'm \<Rightarrow> routing_outcome" where
  "spawn_outcome req_id r =
     (case r of
        Inr (i, _) \<Rightarrow> SpawnCompleted req_id i
      | Inl (SpawnFailure request_id e) \<Rightarrow> SpawnFailed request_id e
      | Inl (SpawnSuccess request_id i) \<Rightarrow> SpawnCompleted request_id i)"

text \<open>The result of a routed message, the token it cancelled, and the runtime after it. One definition per arm of the
  code's match.\<close>

type_synonym ('m, 'd, 't, 'cb) routed = "(routing_error + routing_outcome) \<times> 't option \<times> ('m, 'd, 't, 'cb) ractor_runtime"

definition rr_route_spawn :: "system_codecs \<Rightarrow> ractor_env \<Rightarrow> ('m, 'd, 't, 'cb) ractor_runtime \<Rightarrow> ('m, 'd, 't) system_actor_refs \<Rightarrow> bytes
    \<Rightarrow> ('m, 'd, 't, 'cb) routed" where
  "rr_route_spawn codecs env rt refs body =
     (case rbind (decode_step ''SpawnRequest'' (decode_spawn_request (sc_spawn codecs) body))
             (\<lambda>request. rbind (cast_step env ''SpawnManager'') (\<lambda>_. Inr request)) of
        Inl e \<Rightarrow> (Inl e, None, rt)
      | Inr request \<Rightarrow>
          (case handle_cast_request (rr_node_id rt) (rr_next_local rt) (sar_spawn_manager refs) request of
             (r, nl, h) \<Rightarrow>
               (rbind (reply_step env ''SpawnManager'') (\<lambda>_. Inr (spawn_outcome (sr_request_id request) r)),
                None,
                rt\<lparr>rr_next_local := nl, rr_system_actors := Some (refs\<lparr>sar_spawn_manager := h\<rparr>)\<rparr>)))"

definition rr_route_watch :: "system_codecs \<Rightarrow> ractor_env \<Rightarrow> ('m, 'd, 't, 'cb) ractor_runtime \<Rightarrow> ('m, 'd, 't) system_actor_refs \<Rightarrow> bytes
    \<Rightarrow> ('m, 'd, 't, 'cb) routed" where
  "rr_route_watch codecs env rt refs body =
     (case rbind (decode_step ''WatchRequest'' (decode_watch_request (sc_watch codecs) body))
             (\<lambda>request. rbind (cast_step env ''WatchManager'') (\<lambda>_. Inr request)) of
        Inl e \<Rightarrow> (Inl e, None, rt)
      | Inr request \<Rightarrow> (Inr Acknowledged, None, rt\<lparr>rr_system_actors := Some (refs\<lparr>sar_watch_manager :=
          snd (wma_handle (sar_watch_manager refs) (WmWatch (wr_target request) (wr_watcher request)))\<rparr>)\<rparr>))"

definition rr_route_unwatch :: "system_codecs \<Rightarrow> ractor_env \<Rightarrow> ('m, 'd, 't, 'cb) ractor_runtime \<Rightarrow> ('m, 'd, 't) system_actor_refs \<Rightarrow> bytes
    \<Rightarrow> ('m, 'd, 't, 'cb) routed" where
  "rr_route_unwatch codecs env rt refs body =
     (case rbind (decode_step ''UnwatchRequest'' (decode_unwatch_request (sc_watch codecs) body))
             (\<lambda>request. rbind (cast_step env ''WatchManager'') (\<lambda>_. Inr request)) of
        Inl e \<Rightarrow> (Inl e, None, rt)
      | Inr request \<Rightarrow> (Inr Acknowledged, None, rt\<lparr>rr_system_actors := Some (refs\<lparr>sar_watch_manager :=
          snd (wma_handle (sar_watch_manager refs) (WmUnwatch (uwr_target request) (uwr_watcher request)))\<rparr>)\<rparr>))"

definition rr_route_cancel :: "system_codecs \<Rightarrow> ractor_env \<Rightarrow> ('m, 'd, 't, 'cb) ractor_runtime \<Rightarrow> ('m, 'd, 't) system_actor_refs \<Rightarrow> bytes
    \<Rightarrow> ('m, 'd, 't, 'cb) routed" where
  "rr_route_cancel codecs env rt refs body =
     (case rbind (decode_step ''CancelRequest'' (decode_cancel_request (sc_cancel codecs) body))
             (\<lambda>request. rbind (ok_or (RoutingError ''CancelRequest missing request_id'') (cr_request_id request))
             (\<lambda>i. rbind (cast_step env ''CancelManager'') (\<lambda>_. Inr i))) of
        Inl e \<Rightarrow> (Inl e, None, rt)
      | Inr i \<Rightarrow>
          (case cm_cancel (sar_cancel_manager refs) i of (resp, tok, cm) \<Rightarrow>
             (rbind (reply_step env ''CancelManager'')
                (\<lambda>_. Inr (case resp of CancelAck \<Rightarrow> CancelAcknowledged | CancelUnknown reason \<Rightarrow> CancelNotFound reason)),
              tok, rt\<lparr>rr_system_actors := Some (refs\<lparr>sar_cancel_manager := cm\<rparr>)\<rparr>)))"

definition rr_route_connect :: "system_codecs \<Rightarrow> ractor_env \<Rightarrow> ('m, 'd, 't, 'cb) ractor_runtime \<Rightarrow> ('m, 'd, 't) system_actor_refs \<Rightarrow> bytes
    \<Rightarrow> ('m, 'd, 't, 'cb) routed" where
  "rr_route_connect codecs env rt refs body =
     (case rbind (decode_step ''ConnectPeer'' (decode_connect_peer (sc_connect codecs) body))
             (\<lambda>request. rbind (cast_step env ''NodeDirectory'') (\<lambda>_. Inr request)) of
        Inl e \<Rightarrow> (Inl e, None, rt)
      | Inr (peer, address) \<Rightarrow> (Inr Acknowledged, None, rt\<lparr>rr_system_actors := Some (refs\<lparr>sar_node_directory :=
          nda_handle (sar_node_directory refs) (NdConnectPeer peer address)\<rparr>)\<rparr>))"

definition rr_route_disconnect :: "system_codecs \<Rightarrow> ractor_env \<Rightarrow> ('m, 'd, 't, 'cb) ractor_runtime \<Rightarrow> ('m, 'd, 't) system_actor_refs \<Rightarrow> bytes
    \<Rightarrow> ('m, 'd, 't, 'cb) routed" where
  "rr_route_disconnect codecs env rt refs body =
     (case rbind (decode_step ''DisconnectPeer'' (decode_disconnect_peer (sc_disconnect codecs) body))
             (\<lambda>peer. rbind (cast_step env ''NodeDirectory'') (\<lambda>_. Inr peer)) of
        Inl e \<Rightarrow> (Inl e, None, rt)
      | Inr peer \<Rightarrow> (Inr Acknowledged, None, rt\<lparr>rr_system_actors := Some (refs\<lparr>sar_node_directory :=
          nda_handle (sar_node_directory refs) (NdDisconnectPeer peer)\<rparr>)\<rparr>))"

definition rr_route_system_envelope ::
  "system_codecs \<Rightarrow> ractor_env \<Rightarrow> ('m, 'd, 't, 'cb) ractor_runtime \<Rightarrow> wire_envelope \<Rightarrow> ('m, 'd, 't, 'cb) routed" where
  "rr_route_system_envelope codecs env rt envelope =
     (let ty = we_message_type envelope; body = we_body envelope
      in case rbind (validate_system_message_type ty)
                (\<lambda>_. ok_or (RoutingError ''system actors not started'') (rr_system_actors rt)) of
        Inl e \<Rightarrow> (Inl e, None, rt)
      | Inr refs \<Rightarrow>
         if ty = SYSTEM_MSG_TYPE_SPAWN then rr_route_spawn codecs env rt refs body
         else if ty = SYSTEM_MSG_TYPE_WATCH then rr_route_watch codecs env rt refs body
         else if ty = SYSTEM_MSG_TYPE_UNWATCH then rr_route_unwatch codecs env rt refs body
         else if ty = SYSTEM_MSG_TYPE_CANCEL then rr_route_cancel codecs env rt refs body
         else if ty = SYSTEM_MSG_TYPE_CONNECT_PEER then rr_route_connect codecs env rt refs body
         else if ty = SYSTEM_MSG_TYPE_DISCONNECT_PEER then rr_route_disconnect codecs env rt refs body
         else (Inl (RoutingError (''unhandled system message type: '' @ ty)), None, rt))"

section \<open>Peer events\<close>

datatype peer_op = PeerConnect node_id "string option" | PeerDisconnect node_id

fun peer_run :: "('m, 'd, 't, 'cb) ractor_runtime \<Rightarrow> peer_op list \<Rightarrow> cluster_event list \<times> ('m, 'd, 't, 'cb) ractor_runtime" where
  "peer_run rt [] = ([], rt)"
| "peer_run rt (x # ops) =
     (case (case x of PeerConnect p a \<Rightarrow> rr_connect_peer rt p a | PeerDisconnect p \<Rightarrow> rr_disconnect_peer rt p) of
        (es, rt1) \<Rightarrow> (case peer_run rt1 ops of (es', rt2) \<Rightarrow> (es @ es', rt2)))"

fun about :: "node_id \<Rightarrow> cluster_event \<Rightarrow> bool" where
  "about n (NodeJoined p) \<longleftrightarrow> p = n"
| "about n (NodeLeft p) \<longleftrightarrow> p = n"
| "about n (NodeRejected p _ _) \<longleftrightarrow> p = n"

text \<open>Joins and leaves in turn, starting with a leave if the peer is connected already.\<close>

fun alternating :: "bool \<Rightarrow> node_id \<Rightarrow> nat \<Rightarrow> cluster_event list" where
  "alternating c p 0 = []"
| "alternating c p (Suc n) = (if c then NodeLeft p else NodeJoined p) # alternating (\<not> c) p n"

lemma nd_connect_connected [simp]: "nd_is_connected (nd_connect nd p a) q \<longleftrightarrow> q = p \<or> nd_is_connected nd q"
  by (auto simp: nd_is_connected_def nd_connect_def nd_set_status_def nd_get_peer_def nd_add_peer_def
      nd_remove_peer_def split: option.splits)

lemma nd_disconnect_connected [simp]:
  "nd_is_connected (nd_set_status nd p Disconnected) q \<longleftrightarrow> q \<noteq> p \<and> nd_is_connected nd q"
  by (auto simp: nd_is_connected_def nd_set_status_def split: option.splits)

text \<open>What a runtime promises about its peers: an event for each change of the connection state, and none otherwise.\<close>

fun peer_fold :: "('r \<Rightarrow> node_id \<Rightarrow> string option \<Rightarrow> cluster_event list \<times> 'r) \<Rightarrow> ('r \<Rightarrow> node_id \<Rightarrow> cluster_event list \<times> 'r) \<Rightarrow> 'r \<Rightarrow> peer_op list
    \<Rightarrow> cluster_event list \<times> 'r" where
  "peer_fold connect disconnect rt [] = ([], rt)"
| "peer_fold connect disconnect rt (x # ops) =
     (case (case x of PeerConnect p a \<Rightarrow> connect rt p a | PeerDisconnect p \<Rightarrow> disconnect rt p) of
        (es, rt1) \<Rightarrow> (case peer_fold connect disconnect rt1 ops of (es', rt2) \<Rightarrow> (es @ es', rt2)))"

locale peer_runtime =
  fixes connect :: "'r \<Rightarrow> node_id \<Rightarrow> string option \<Rightarrow> cluster_event list \<times> 'r"
    and disconnect :: "'r \<Rightarrow> node_id \<Rightarrow> cluster_event list \<times> 'r"
    and connected :: "'r \<Rightarrow> node_id \<Rightarrow> bool"
  assumes connect_events: "fst (connect rt p a) = (if connected rt p then [] else [NodeJoined p])"
    and connect_state: "connected (snd (connect rt p a)) q \<longleftrightarrow> q = p \<or> connected rt q"
    and disconnect_events: "fst (disconnect rt p) = (if connected rt p then [NodeLeft p] else [])"
    and disconnect_state: "connected (snd (disconnect rt p)) q \<longleftrightarrow> q \<noteq> p \<and> connected rt q"
begin

lemma step_events:
  assumes "r = (case x of PeerConnect q a \<Rightarrow> connect rt q a | PeerDisconnect q \<Rightarrow> disconnect rt q)"
  shows "filter (about p) (fst r) = [] \<and> connected (snd r) p = connected rt p \<or>
    filter (about p) (fst r) = alternating (connected rt p) p 1 \<and> connected (snd r) p = (\<not> connected rt p)"
  using assms by (cases x) (auto simp: connect_events connect_state disconnect_events disconnect_state)

lemma run_events:
  "\<exists>k. filter (about p) (fst (peer_fold connect disconnect rt ops)) = alternating (connected rt p) p k \<and>
     (connected (snd (peer_fold connect disconnect rt ops)) p \<longleftrightarrow> (connected rt p \<noteq> odd k))"
proof (induction ops arbitrary: rt)
  case Nil
  show ?case by (rule exI [of _ 0]) simp
next
  case (Cons x ops)
  define r where "r = (case x of PeerConnect p a \<Rightarrow> connect rt p a | PeerDisconnect p \<Rightarrow> disconnect rt p)"
  have run: "peer_fold connect disconnect rt (x # ops) =
      (fst r @ fst (peer_fold connect disconnect (snd r) ops), snd (peer_fold connect disconnect (snd r) ops))"
    by (simp add: r_def split_beta)
  obtain k where k: "filter (about p) (fst (peer_fold connect disconnect (snd r) ops)) = alternating (connected (snd r) p) p k"
    "connected (snd (peer_fold connect disconnect (snd r) ops)) p \<longleftrightarrow> (connected (snd r) p \<noteq> odd k)"
    using Cons.IH by blast
  from step_events [OF r_def, of p] show ?case
  proof
    assume "filter (about p) (fst r) = [] \<and> connected (snd r) p = connected rt p"
    then show ?thesis using k run by auto
  next
    assume "filter (about p) (fst r) = alternating (connected rt p) p 1 \<and> connected (snd r) p = (\<not> connected rt p)"
    then show ?thesis using k run by (intro exI [of _ "Suc k"]) auto
  qed
qed

end

interpretation ractor_peers: peer_runtime rr_connect_peer rr_disconnect_peer rr_is_peer_connected
  by unfold_locales (auto simp: rr_connect_peer_def rr_disconnect_peer_def rr_is_peer_connected_def Let_def)

lemma peer_run_fold: "peer_run rt ops = peer_fold rr_connect_peer rr_disconnect_peer rt ops"
  by (induction ops arbitrary: rt) (simp_all cong: prod.case_cong)

lemma peer_run_events:
  "\<exists>k. filter (about p) (fst (peer_run rt ops)) = alternating (rr_is_peer_connected rt p) p k \<and>
     (rr_is_peer_connected (snd (peer_run rt ops)) p \<longleftrightarrow> (rr_is_peer_connected rt p \<noteq> odd k))"
  unfolding peer_run_fold by (rule ractor_peers.run_events)

section \<open>Routing lemmas\<close>

lemma sma_fails_with_failure: "sma_handle_request n nl sm req = (Inl r, nl', sm') \<Longrightarrow> \<exists>i e. r = SpawnFailure i e"
  by (auto simp: sma_handle_request_def Let_def split: sum.splits)

lemma system_types_distinct [simp]:
  "SYSTEM_MSG_TYPE_WATCH \<noteq> SYSTEM_MSG_TYPE_SPAWN" "is_system_message_type SYSTEM_MSG_TYPE_SPAWN"
  "is_system_message_type SYSTEM_MSG_TYPE_WATCH"
  by (simp_all add: system_msg_types is_system_message_type_def)

lemma start_actors: "\<exists>refs. rr_system_actors (rr_start_system_actors_with_config rt config) = Some refs \<and>
    sar_watch_manager refs = wm_new \<and>
    (sar_spawn_manager refs = Single (sm_new tr_new) \<or>
     (\<exists>n \<ge> 2. sar_spawn_manager refs = Pool (replicate n (sm_new tr_new)) 0))"
  by (auto simp: rr_start_system_actors_with_config_def Let_def last_replicate intro!: exI)

text \<open>A spawn that gets through to the spawn manager actors.\<close>

lemma route_spawn:
  assumes "we_message_type envelope = SYSTEM_MSG_TYPE_SPAWN" "rr_system_actors rt = Some refs"
    "decode_spawn_request (sc_spawn codecs) (we_body envelope) = Inr request"
    "re_cast_error env ''SpawnManager'' = None" "\<not> re_reply_dropped env ''SpawnManager''"
    "handle_cast_request (rr_node_id rt) (rr_next_local rt) (sar_spawn_manager refs) request = (r, nl, h)"
  shows "fst (rr_route_system_envelope codecs env rt envelope) = Inr (spawn_outcome (sr_request_id request) r)"
  using assms
  by (simp add: rr_route_system_envelope_def rr_route_spawn_def Let_def validate_system_message_type_def
      decode_step_def cast_step_def reply_step_def)

text \<open>Whether a handle knows a type: every worker of a pool does.\<close>

fun handle_workers :: "('m, 'd) system_actor_handle \<Rightarrow> ('m, 'd) spawn_manager list" where
  "handle_workers (Single sm) = [sm]"
| "handle_workers (Pool ws c) = ws"

lemma handle_cast_worker:
  assumes "handle_workers h \<noteq> []"
  obtains sm where "sm \<in> set (handle_workers h)"
    and "fst (handle_cast_request n nl h req) = fst (sma_handle_request n nl sm req)"
proof (cases h)
  case (Single sm)
  then show ?thesis using that [of sm] by (simp add: split_beta)
next
  case (Pool ws c)
  then have "ws ! (unat c mod length ws) \<in> set ws" using assms by simp
  then show ?thesis using that Pool by (simp add: Let_def split_beta)
qed

lemma handle_workers_register:
  "handle_workers (handle_register ty f h) = map (\<lambda>sm. sma_register_factory sm ty f) (handle_workers h)"
  by (cases h) simp_all

lemma create_not_connected [simp]: "\<not> rr_is_peer_connected (rr_create n) p"
  by (simp add: rr_is_peer_connected_def rr_create_def nd_is_connected_def nd_new_def)

text \<open>The workers after starting, and after registering a factory on a started node.\<close>

lemma started_workers:
  "\<exists>refs. rr_system_actors (rr_start_system_actors_with_config rt config) = Some refs \<and>
     handle_workers (sar_spawn_manager refs) \<noteq> [] \<and>
     (\<forall>sm \<in> set (handle_workers (sar_spawn_manager refs)). sm = sm_new tr_new)"
  using start_actors [of rt config] by fastforce

lemma registered_workers:
  "\<exists>refs. rr_system_actors (rr_register_factory (rr_start_system_actors_with_config rt config) ty f) = Some refs \<and>
     handle_workers (sar_spawn_manager refs) \<noteq> [] \<and>
     (\<forall>sm \<in> set (handle_workers (sar_spawn_manager refs)). \<exists>sm0. sm = sma_register_factory sm0 ty f)"
proof -
  obtain refs where refs: "rr_system_actors (rr_start_system_actors_with_config rt config) = Some refs"
      "handle_workers (sar_spawn_manager refs) \<noteq> []"
    using started_workers by blast
  then show ?thesis by (auto simp: rr_register_factory_def handle_workers_register)
qed

lemma handle_cast_result:
  "fst (handle_cast_request n nl h req) = r \<Longrightarrow> \<exists>nl' h'. handle_cast_request n nl h req = (r, nl', h')"
  by (cases "handle_cast_request n nl h req") auto

section \<open>Actor ids\<close>

text \<open>The ways an actor gets an id on a node: a local spawn, a spawn request handled by the runtime, and
  one routed to the spawn manager actors. The result is the id handed out, if any.\<close>

datatype spawn_way = LocalSpawn | DirectSpawn spawn_request | RoutedSpawn wire_envelope

fun spawn_step :: "system_codecs \<Rightarrow> ractor_env \<Rightarrow> ('m, 'd, 't, 'cb) ractor_runtime \<Rightarrow> spawn_way
    \<Rightarrow> actor_id option \<times> ('m, 'd, 't, 'cb) ractor_runtime" where
  "spawn_step codecs env rt LocalSpawn = map_prod Some (\<lambda>rt. rt) (rr_take_local_id rt)"
| "spawn_step codecs env rt (DirectSpawn req) =
     (case rr_handle_spawn_request rt req of (Inr (i, _), rt') \<Rightarrow> (Some i, rt') | (Inl _, rt') \<Rightarrow> (None, rt'))"
| "spawn_step codecs env rt (RoutedSpawn envelope) =
     (case rr_route_system_envelope codecs env rt envelope of
        (Inr (SpawnCompleted _ i), _, rt') \<Rightarrow> (Some i, rt')
      | (_, _, rt') \<Rightarrow> (None, rt'))"

fun spawn_run :: "system_codecs \<Rightarrow> ractor_env \<Rightarrow> ('m, 'd, 't, 'cb) ractor_runtime \<Rightarrow> spawn_way list \<Rightarrow> actor_id list" where
  "spawn_run codecs env rt [] = []"
| "spawn_run codecs env rt (x # xs) =
     (case spawn_step codecs env rt x of (i, rt') \<Rightarrow>
        (case i of Some i \<Rightarrow> i # spawn_run codecs env rt' xs | None \<Rightarrow> spawn_run codecs env rt' xs))"

lemma sma_ids:
  "sma_handle_request n nl sm req = (r, nl', sm') \<Longrightarrow>
     (case r of Inr (i, _) \<Rightarrow> i = ActorId n nl \<and> nl' = nl + 1 | Inl f \<Rightarrow> nl' = nl \<and> (\<exists>a b. f = SpawnFailure a b))"
  by (auto simp: sma_handle_request_def Let_def split: sum.splits)

lemma handle_cast_ids:
  "handle_cast_request n nl h req = (r, nl', h') \<Longrightarrow>
     (case r of Inr (i, _) \<Rightarrow> i = ActorId n nl \<and> nl' = nl + 1 | Inl f \<Rightarrow> nl' = nl \<and> (\<exists>a b. f = SpawnFailure a b))"
  by (cases h) (auto simp: Let_def dest!: sma_ids split: prod.splits sum.splits)

text \<open>Routing an envelope fails and changes nothing, or is answered by the spawn managers, or changes a
  system actor other than those and answers with something else.\<close>

lemma route_cases:
  obtains (spawn) refs where "rr_system_actors rt = Some refs"
      "rr_route_system_envelope codecs env rt envelope = rr_route_spawn codecs env rt refs (we_body envelope)"
  | (other) r tok a where "rr_route_system_envelope codecs env rt envelope = (r, tok, rt\<lparr>rr_system_actors := a\<rparr>)"
      "\<And>q i. r \<noteq> Inr (SpawnCompleted q i)"
proof -
  let ?ty = "we_message_type envelope" and ?b = "we_body envelope"
  note defs = rr_route_watch_def rr_route_unwatch_def rr_route_cancel_def rr_route_connect_def rr_route_disconnect_def
  have fails: "\<exists>r a. (Inl e, None, rt) = (r, None, rt\<lparr>rr_system_actors := a\<rparr>) \<and> (\<forall>q i. r \<noteq> Inr (SpawnCompleted q i))" for e
    by (intro exI [of _ "Inl e"] exI [of _ "rr_system_actors rt"]) simp
  have arms: "\<exists>r tok a. f codecs env rt refs ?b = (r, tok, rt\<lparr>rr_system_actors := a\<rparr>) \<and> (\<forall>q i. r \<noteq> Inr (SpawnCompleted q i))"
    if "f \<in> {rr_route_watch, rr_route_unwatch, rr_route_cancel, rr_route_connect, rr_route_disconnect}" for f refs
    using that fails
    by (elim insertE emptyE) (auto simp: defs rbind_Inr split: sum.splits prod.splits cancel_response.splits)
  show ?thesis
  proof (cases "rbind (validate_system_message_type ?ty)
      (\<lambda>_. ok_or (RoutingError ''system actors not started'') (rr_system_actors rt))")
    case (Inl e)
    then show ?thesis using other fails [of e] by (auto simp: rr_route_system_envelope_def)
  next
    case (Inr refs)
    then have refs: "rr_system_actors rt = Some refs"
      by (auto simp: rbind_Inr elim: ok_or.elims)
    show ?thesis
    proof (cases "?ty = SYSTEM_MSG_TYPE_SPAWN")
      case True
      then show ?thesis using spawn [OF refs] Inr by (simp add: rr_route_system_envelope_def)
    next
      case False
      have "\<exists>r tok a. rr_route_system_envelope codecs env rt envelope = (r, tok, rt\<lparr>rr_system_actors := a\<rparr>) \<and>
          (\<forall>q i. r \<noteq> Inr (SpawnCompleted q i))"
        using False Inr arms fails by (simp add: rr_route_system_envelope_def Let_def)
      then show ?thesis using other by blast
    qed
  qed
qed

lemma route_spawn_ids:
  assumes "rr_route_spawn codecs env rt refs body = (r, tok, rt')"
  shows "rr_node_id rt' = rr_node_id rt \<and>
    (rr_next_local rt' = rr_next_local rt \<and> (\<forall>q i. r \<noteq> Inr (SpawnCompleted q i)) \<or>
     rr_next_local rt' = rr_next_local rt + 1 \<and>
       (\<forall>q i. r = Inr (SpawnCompleted q i) \<longrightarrow> i = ActorId (rr_node_id rt) (rr_next_local rt)))"
  using assms
  by (auto simp: rr_route_spawn_def spawn_outcome_def rbind_Inr dest!: handle_cast_ids
      split: sum.splits prod.splits)

lemma spawn_step_ids:
  assumes "spawn_step codecs env rt x = (i, rt')"
  shows "rr_node_id rt' = rr_node_id rt \<and>
    (rr_next_local rt' = rr_next_local rt \<and> i = None \<or>
     rr_next_local rt' = rr_next_local rt + 1 \<and> (i = None \<or> i = Some (ActorId (rr_node_id rt) (rr_next_local rt))))"
proof (cases x)
  case LocalSpawn
  then show ?thesis using assms by (auto simp: rr_take_local_id_def)
next
  case (DirectSpawn req)
  then show ?thesis using assms by (auto simp: rr_handle_spawn_request_def Let_def split: sum.splits)
next
  case (RoutedSpawn envelope)
  obtain r tok rt1 where r: "rr_route_system_envelope codecs env rt envelope = (r, tok, rt1)"
    by (metis prod_cases3)
  have "rr_node_id rt1 = rr_node_id rt \<and>
    (rr_next_local rt1 = rr_next_local rt \<and> (\<forall>q i. r \<noteq> Inr (SpawnCompleted q i)) \<or>
     rr_next_local rt1 = rr_next_local rt + 1 \<and>
       (\<forall>q i. r = Inr (SpawnCompleted q i) \<longrightarrow> i = ActorId (rr_node_id rt) (rr_next_local rt)))"
  proof (rule route_cases [of rt codecs env envelope])
    fix refs
    assume "rr_route_system_envelope codecs env rt envelope = rr_route_spawn codecs env rt refs (we_body envelope)"
    then have "rr_route_spawn codecs env rt refs (we_body envelope) = (r, tok, rt1)" using r by simp
    from route_spawn_ids [OF this] show ?thesis .
  next
    fix r' tok' a
    assume "rr_route_system_envelope codecs env rt envelope = (r', tok', rt\<lparr>rr_system_actors := a\<rparr>)"
      "\<And>q i. r' \<noteq> Inr (SpawnCompleted q i)"
    then show ?thesis using r by simp
  qed
  then show ?thesis using assms RoutedSpawn r by (auto split: sum.splits routing_outcome.splits)
qed

lemma spawn_run_ids:
  "rr_next_local rt = 1 + of_nat k \<Longrightarrow> \<exists>ks. sorted_wrt (<) ks \<and> set ks \<subseteq> {k..<k + length xs} \<and>
     spawn_run codecs env rt xs = map (\<lambda>k. ActorId (rr_node_id rt) (1 + of_nat k)) ks"
proof (induction xs arbitrary: rt k)
  case Nil
  then show ?case by simp
next
  case (Cons x xs)
  obtain i rt' where step: "spawn_step codecs env rt x = (i, rt')" by force
  note ids = spawn_step_ids [OF step]
  consider (same) "rr_next_local rt' = rr_next_local rt" "i = None"
    | (skip) "rr_next_local rt' = rr_next_local rt + 1" "i = None"
    | (take) "rr_next_local rt' = rr_next_local rt + 1" "i = Some (ActorId (rr_node_id rt) (rr_next_local rt))"
    using ids by blast
  then show ?case
  proof cases
    case same
    then obtain ks where "sorted_wrt (<) ks" "set ks \<subseteq> {k..<k + length xs}"
        "spawn_run codecs env rt' xs = map (\<lambda>k. ActorId (rr_node_id rt) (1 + of_nat k)) ks"
      using Cons.IH [of rt' k] Cons.prems ids by auto
    then show ?thesis using step same by (intro exI [of _ ks]) auto
  next
    case skip
    then obtain ks where "sorted_wrt (<) ks" "set ks \<subseteq> {Suc k..<Suc k + length xs}"
        "spawn_run codecs env rt' xs = map (\<lambda>k. ActorId (rr_node_id rt) (1 + of_nat k)) ks"
      using Cons.IH [of rt' "Suc k"] Cons.prems ids by auto
    then show ?thesis using step skip by (intro exI [of _ ks]) auto
  next
    case take
    then obtain ks where "sorted_wrt (<) ks" "set ks \<subseteq> {Suc k..<Suc k + length xs}"
        "spawn_run codecs env rt' xs = map (\<lambda>k. ActorId (rr_node_id rt) (1 + of_nat k)) ks"
      using Cons.IH [of rt' "Suc k"] Cons.prems ids by auto
    then show ?thesis using step take Cons.prems by (intro exI [of _ "k # ks"]) auto
  qed
qed

section \<open>A sample node\<close>

text \<open>Codecs, library behaviour and envelopes for the concrete instances.\<close>

definition sample_codecs :: system_codecs where
  "sample_codecs = \<lparr>sc_spawn = (\<lambda>_. Inr (SpawnRequestProto ''T'' [1] ''a'' ''r1'')),
     sc_watch = (\<lambda>_. Inr (pair_to_proto (ActorId (NodeId ''n'') 1) (ActorId (NodeId ''m'') 2))),
     sc_cancel = (\<lambda>_. Inl ''eof''), sc_connect = (\<lambda>_. Inl ''eof''), sc_disconnect = (\<lambda>_. Inl ''eof'')\<rparr>"

definition sample_ractor :: ractor_env where
  "sample_ractor = \<lparr>re_cast_error = (\<lambda>_. None), re_reply_dropped = (\<lambda>_. False)\<rparr>"

definition sample_system_envelope :: "string \<Rightarrow> wire_envelope" where
  "sample_system_envelope ty = \<lparr>we_target = ActorId (NodeId ''n'') 0, we_target_name = ''system'', we_message_type = ty,
     we_send_mode = Ask, we_headers = wh_new, we_body = [1], we_request_id = None, we_version = None\<rparr>"

lemma sample_simps:
  "we_message_type (sample_system_envelope ty) = ty" "we_body (sample_system_envelope ty) = [1]"
  "re_cast_error sample_ractor x = None" "\<not> re_reply_dropped sample_ractor x"
  by (simp_all add: sample_system_envelope_def sample_ractor_def)

lemma sample_decodes:
  "decode_spawn_request (sc_spawn sample_codecs) [1] = Inr (SpawnRequest ''T'' [1] ''a'' ''r1'')"
  "decode_watch_request (sc_watch sample_codecs) [1] =
     Inr (WatchRequest (ActorId (NodeId ''n'') 1) (ActorId (NodeId ''m'') 2))"
  by (simp_all add: decode_spawn_request_def decode_watch_request_def decode_pair_def sample_codecs_def
      MAX_SYSTEM_MSG_SIZE_def)
    (simp add: pair_to_proto_def named_def)

type_synonym sample_runtime = "(nat, unit, unit, unit) ractor_runtime"

section \<open>Properties\<close>

text \<open>C8. Membership events tell the truth: over any sequence of connects and disconnects of peers, the events a node
  emits about one peer are joins and leaves in turn, starting with a join, and the peer is
  reported as connected exactly if its last event was a join.\<close>

theorem peer_events_alternate:
  "let (events, rt) = peer_run (rr_create n) ops
   in \<exists>k. filter (about p) events = alternating False p k \<and> (rr_is_peer_connected rt p \<longleftrightarrow> odd k)"
  using peer_run_events [of p "rr_create n" ops] by (simp add: split_beta)

text \<open>C24. Actor ids are never reused on a node: local spawns, requests handled by the runtime and requests routed
  to the spawn manager actors, in any order and with any pool of workers, hand out distinct ids
  as long as there are at most \<open>2 ^ 64\<close> of them.\<close>

theorem actor_ids_unique:
  assumes "length xs \<le> 2 ^ 64" and "rr_next_local rt = 1"
  shows "distinct (spawn_run codecs env rt xs)"
proof -
  obtain ks where ks: "sorted_wrt (<) ks" "set ks \<subseteq> {0..<length xs}"
    and run: "spawn_run codecs env rt xs = map (\<lambda>k. ActorId (rr_node_id rt) (1 + of_nat k)) ks"
    using spawn_run_ids [of rt 0 xs codecs env] assms(2) by auto
  have "inj_on (\<lambda>k. ActorId (rr_node_id rt) (1 + of_nat k)) (set ks)"
  proof (rule inj_onI)
    fix i j assume ij: "i \<in> set ks" "j \<in> set ks" and eq: "ActorId (rr_node_id rt) (1 + of_nat i) = ActorId (rr_node_id rt) (1 + of_nat j)"
    have lt: "i < 2 ^ 64" "j < 2 ^ 64" using ij ks(2) assms(1) by auto
    have "unat (of_nat i :: u64) = i" "unat (of_nat j :: u64) = j" using lt by (simp_all add: unat_of_nat)
    then show "i = j" using eq by (metis actor_id.inject add_left_cancel)
  qed
  then show ?thesis using run ks(1) by (simp add: distinct_map strict_sorted_iff)
qed

theorem actor_ids_unique_witness:
  "distinct (spawn_run sample_codecs sample_ractor (rr_create (NodeId ''n'') :: (unit, unit, unit, unit) ractor_runtime) [LocalSpawn, LocalSpawn])"
  by (rule actor_ids_unique) (simp_all add: rr_create_def)

text \<open>Remote spawn works once the factory is registered on a running node: whatever the size of the spawn manager pool,
  a routed request for a type registered after the system actors were started, with arguments the
  factory accepts, is answered by an actor id of this node.\<close>

theorem routed_spawn_after_start:
  assumes "rt = rr_register_factory (rr_start_system_actors_with_config (rr_create n) config) ty f"
    and "we_message_type envelope = SYSTEM_MSG_TYPE_SPAWN"
    and "decode_spawn_request (sc_spawn codecs) (we_body envelope) = Inr request" and "sr_type_name request = ty"
    and "f (sr_args_bytes request) = Inr actor"
    and "re_cast_error env ''SpawnManager'' = None" "\<not> re_reply_dropped env ''SpawnManager''"
  shows "fst (rr_route_system_envelope codecs env rt envelope) = Inr (SpawnCompleted (sr_request_id request) (ActorId n 1))"
proof -
  obtain refs where refs: "rr_system_actors rt = Some refs" "handle_workers (sar_spawn_manager refs) \<noteq> []"
    "\<forall>sm \<in> set (handle_workers (sar_spawn_manager refs)). \<exists>sm0. sm = sma_register_factory sm0 ty f"
    using registered_workers [of "rr_create n" config ty f] assms(1) by blast
  have rt: "rr_node_id rt = n" "rr_next_local rt = 1"
    using assms(1) by (simp_all add: rr_register_factory_def rr_start_system_actors_with_config_def rr_create_def Let_def)
  obtain sm where sm: "sm \<in> set (handle_workers (sar_spawn_manager refs))"
    and cast: "fst (handle_cast_request n 1 (sar_spawn_manager refs) request) = fst (sma_handle_request n 1 sm request)"
    by (rule handle_cast_worker [OF refs(2)])
  then obtain sm0 where "sm = sma_register_factory sm0 ty f" using refs(3) by blast
  then have "sm_create_actor sm request = Inr actor"
    using assms(4,5) by (simp add: sm_create_actor_def tr_create_actor_def sma_register_factory_def tr_register_factory_def)
  then have "fst (handle_cast_request n 1 (sar_spawn_manager refs) request) = Inr (ActorId n 1, actor)"
    using cast by (simp add: sma_handle_request_def Let_def)
  then obtain nl h where "handle_cast_request (rr_node_id rt) (rr_next_local rt) (sar_spawn_manager refs) request =
      (Inr (ActorId n 1, actor), nl, h)"
    unfolding rt using handle_cast_result by blast
  from route_spawn [OF assms(2) refs(1) assms(3,6,7) this] show ?thesis by (simp add: spawn_outcome_def)
qed

theorem routed_spawn_after_start_witness:
  "fst (rr_route_system_envelope sample_codecs sample_ractor
      (rr_register_factory (rr_start_system_actors_with_config (rr_create (NodeId ''n'') :: sample_runtime)
         (sac_with_spawn_manager_pool_size sac_default 4)) ''T'' (\<lambda>_. Inr 5))
      (sample_system_envelope SYSTEM_MSG_TYPE_SPAWN)) = Inr (SpawnCompleted ''r1'' (ActorId (NodeId ''n'') 1))"
  using routed_spawn_after_start [OF refl, of "sample_system_envelope SYSTEM_MSG_TYPE_SPAWN" sample_codecs
      "SpawnRequest ''T'' [1] ''a'' ''r1''" "''T''" "\<lambda>_. Inr 5" 5 sample_ractor "NodeId ''n''"
      "sac_with_spawn_manager_pool_size sac_default 4"]
  by (simp add: sample_simps sample_decodes)

text \<open>Factories registered before the system actors are started are lost to them: a node on which a type was registered
  and the system actors were then started answers a routed spawn request for the type with a failure,
  while the runtime's own handler of the same request succeeds.\<close>

theorem factories_not_forwarded_at_start:
  assumes "rt = rr_start_system_actors_with_config (rr_register_factory (rr_create n) ty f) config"
    and "we_message_type envelope = SYSTEM_MSG_TYPE_SPAWN"
    and "decode_spawn_request (sc_spawn codecs) (we_body envelope) = Inr request" and "sr_type_name request = ty"
    and "f (sr_args_bytes request) = Inr actor"
    and "re_cast_error env ''SpawnManager'' = None" "\<not> re_reply_dropped env ''SpawnManager''"
  shows "fst (rr_handle_spawn_request rt request) = Inr (ActorId n 1, actor) \<and>
    (\<exists>e. fst (rr_route_system_envelope codecs env rt envelope) = Inr (SpawnFailed (sr_request_id request) e))"
proof
  show "fst (rr_handle_spawn_request rt request) = Inr (ActorId n 1, actor)"
    using assms(1,4,5)
    by (simp add: rr_handle_spawn_request_def rr_start_system_actors_with_config_def rr_register_factory_def
        rr_create_def sm_create_actor_def tr_create_actor_def sma_register_factory_def tr_register_factory_def Let_def)
  obtain refs where refs: "rr_system_actors rt = Some refs" "handle_workers (sar_spawn_manager refs) \<noteq> []"
    "\<forall>sm \<in> set (handle_workers (sar_spawn_manager refs)). sm = sm_new tr_new"
    using started_workers [of "rr_register_factory (rr_create n) ty f" config] assms(1) by blast
  obtain sm where sm: "sm \<in> set (handle_workers (sar_spawn_manager refs))"
    and cast: "fst (handle_cast_request (rr_node_id rt) (rr_next_local rt) (sar_spawn_manager refs) request) =
      fst (sma_handle_request (rr_node_id rt) (rr_next_local rt) sm request)"
    by (rule handle_cast_worker [OF refs(2)])
  have "sm = sm_new tr_new" using sm refs(3) by blast
  then have "\<exists>e. fst (sma_handle_request (rr_node_id rt) (rr_next_local rt) sm request) =
      Inl (SpawnFailure (sr_request_id request) e)"
    by (simp add: sma_handle_request_def sm_create_actor_def tr_create_actor_def sm_new_def tr_new_def)
  then obtain e where "fst (handle_cast_request (rr_node_id rt) (rr_next_local rt) (sar_spawn_manager refs) request) =
      Inl (SpawnFailure (sr_request_id request) e)"
    using cast by auto
  then obtain nl h where "handle_cast_request (rr_node_id rt) (rr_next_local rt) (sar_spawn_manager refs) request =
      (Inl (SpawnFailure (sr_request_id request) e), nl, h)"
    using handle_cast_result by blast
  from route_spawn [OF assms(2) refs(1) assms(3,6,7) this]
  show "\<exists>e. fst (rr_route_system_envelope codecs env rt envelope) = Inr (SpawnFailed (sr_request_id request) e)"
    by (simp add: spawn_outcome_def)
qed

theorem factories_not_forwarded_at_start_witness:
  "\<exists>e. fst (rr_route_system_envelope sample_codecs sample_ractor
      (rr_start_system_actors_with_config (rr_register_factory (rr_create (NodeId ''n'') :: sample_runtime)
         ''T'' (\<lambda>_. Inr 5)) sac_default)
      (sample_system_envelope SYSTEM_MSG_TYPE_SPAWN)) = Inr (SpawnFailed ''r1'' e)"
  using factories_not_forwarded_at_start [where rt = "rr_start_system_actors_with_config
        (rr_register_factory (rr_create (NodeId ''n'') :: sample_runtime) ''T'' (\<lambda>_. Inr 5)) sac_default",
      OF refl, of "sample_system_envelope SYSTEM_MSG_TYPE_SPAWN" sample_codecs
      "SpawnRequest ''T'' [1] ''a'' ''r1''" 5 sample_ractor]
  by (simp add: sample_simps sample_decodes)

text \<open>A watch that arrives over the wire is not served by the runtime's termination call: after a routed watch request was
  acknowledged, the subscription is with the watch manager actor only, and the runtime's own
  \<open>notify_terminated\<close> returns no notification for the watcher.\<close>

theorem routed_watch_not_notified:
  assumes "rt = rr_start_system_actors_with_config (rr_create n) config"
    and "we_message_type envelope = SYSTEM_MSG_TYPE_WATCH"
    and "decode_watch_request (sc_watch codecs) (we_body envelope) = Inr (WatchRequest t w)"
    and "re_cast_error env ''WatchManager'' = None"
    and "rr_route_system_envelope codecs env rt envelope = (r, tok, rt')"
  shows "r = Inr Acknowledged \<and> fst (rr_notify_terminated rt' t) = [] \<and>
    (\<exists>refs. rr_system_actors rt' = Some refs \<and>
       fst (wma_handle (sar_watch_manager refs) (WmOnTerminated t)) = [WatchNotification t w])"
proof -
  obtain refs where refs: "rr_system_actors rt = Some refs" "sar_watch_manager refs = wm_new"
    using start_actors [of "rr_create n" config] assms(1) by blast
  have own: "rr_watch_manager rt = wm_new"
    using assms(1) by (simp add: rr_start_system_actors_with_config_def rr_create_def Let_def)
  have "r = Inr Acknowledged" "rt' = rt\<lparr>rr_system_actors := Some (refs\<lparr>sar_watch_manager := wm_watch wm_new t w\<rparr>)\<rparr>"
    using assms(2-5) refs
    by (simp_all add: rr_route_system_envelope_def rr_route_watch_def validate_system_message_type_def
        decode_step_def cast_step_def)
  then show ?thesis
    using own by (simp add: rr_notify_terminated_def wm_on_terminated_def wm_new_def wm_watch_def hm_entry_def hs_insert_def)
qed

theorem routed_watch_not_notified_witness:
  "fst (rr_notify_terminated (snd (snd (rr_route_system_envelope sample_codecs sample_ractor
      (rr_start_system_actors_with_config (rr_create (NodeId ''n'') :: sample_runtime) sac_default)
      (sample_system_envelope SYSTEM_MSG_TYPE_WATCH)))) (ActorId (NodeId ''n'') 1)) = []"
proof -
  let ?rt = "rr_start_system_actors_with_config (rr_create (NodeId ''n'') :: sample_runtime) sac_default"
  obtain r tok rt' where r: "rr_route_system_envelope sample_codecs sample_ractor ?rt
      (sample_system_envelope SYSTEM_MSG_TYPE_WATCH) = (r, tok, rt')"
    by (metis prod_cases3)
  show ?thesis
    using routed_watch_not_notified [OF refl _ _ _ r]
    by (simp add: r sample_simps sample_decodes)
qed

end
