(* ===== verification/Persistence.thy ===== *)
theory Persistence
  imports Registries
begin

text \<open>
  Persistence of \<^verbatim>\<open>dactor/src/persistence.rs\<close>: journal, snapshot and state storage with the in-memory
  implementation, the provided methods of event-sourced and durable-state actors, and recovery with its
  failure policies. A storage is a record of its operations on a state; a user's actor is a record of the
  trait methods it implements. Sequence ids (\<^verbatim>\<open>i64\<close>) are integers: one is used up per event.
\<close>

section \<open>Data\<close>

type_synonym persistence_id = string

definition persistence_id_new :: "string \<Rightarrow> string \<Rightarrow> persistence_id" where
  "persistence_id_new entity_type entity_id = entity_type @ '':'' @ entity_id"

type_synonym sequence_id = int

definition seq_next :: "sequence_id \<Rightarrow> sequence_id" where
  "seq_next s = s + 1"

datatype journal_entry = JournalEntry (je_seq: sequence_id) (je_type: string) (je_payload: bytes)

datatype snapshot_entry = SnapshotEntry (se_seq: sequence_id) (se_payload: bytes)

datatype persist_error =
    StorageUnavailable string
  | SerializationFailed string
  | CorruptEntry sequence_id string
  | NotConfigured

datatype recovery_failure_policy =
    RecStop
  | RecRetry "u32 option" duration
  | RecSkipAndStart

type_synonym 's effect = "(persist_error + unit) \<times> 's"

record 's journal_storage =
  js_write_event :: "'s \<Rightarrow> persistence_id \<Rightarrow> sequence_id \<Rightarrow> string \<Rightarrow> bytes \<Rightarrow> 's effect"
  js_write_event_batch :: "'s \<Rightarrow> persistence_id \<Rightarrow> (sequence_id \<times> string \<times> bytes) list \<Rightarrow> 's effect"
  js_read_events :: "'s \<Rightarrow> persistence_id \<Rightarrow> sequence_id \<Rightarrow> (persist_error + journal_entry list) \<times> 's"

record 's snapshot_storage =
  ss_save_snapshot :: "'s \<Rightarrow> persistence_id \<Rightarrow> sequence_id \<Rightarrow> bytes \<Rightarrow> 's effect"
  ss_load_latest_snapshot :: "'s \<Rightarrow> persistence_id \<Rightarrow> (persist_error + snapshot_entry option) \<times> 's"

record 's state_storage =
  sts_save_state :: "'s \<Rightarrow> persistence_id \<Rightarrow> bytes \<Rightarrow> 's effect"
  sts_load_state :: "'s \<Rightarrow> persistence_id \<Rightarrow> (persist_error + bytes option) \<times> 's"

section \<open>In-memory storage\<close>

record in_memory_storage =
  ims_journals :: "(string, journal_entry list) hashmap"
  ims_snapshots :: "(string, snapshot_entry list) hashmap"
  ims_states :: "(string, bytes) hashmap"

definition ims_new :: in_memory_storage where
  "ims_new = \<lparr>ims_journals = hm_empty, ims_snapshots = hm_empty, ims_states = hm_empty\<rparr>"

definition ims_write_event ::
  "in_memory_storage \<Rightarrow> persistence_id \<Rightarrow> sequence_id \<Rightarrow> string \<Rightarrow> bytes \<Rightarrow> in_memory_storage effect" where
  "ims_write_event s pid seq event_type payload =
     (Inr (), s\<lparr>ims_journals := hm_insert pid
        (hm_entry pid [] (ims_journals s) @ [JournalEntry seq event_type payload]) (ims_journals s)\<rparr>)"

definition ims_write_event_batch ::
  "in_memory_storage \<Rightarrow> persistence_id \<Rightarrow> (sequence_id \<times> string \<times> bytes) list \<Rightarrow> in_memory_storage effect" where
  "ims_write_event_batch s pid batch =
     (Inr (), s\<lparr>ims_journals := hm_insert pid
        (hm_entry pid [] (ims_journals s) @ map (\<lambda>(seq, ty, p). JournalEntry seq ty p) batch) (ims_journals s)\<rparr>)"

definition ims_read_events ::
  "in_memory_storage \<Rightarrow> persistence_id \<Rightarrow> sequence_id \<Rightarrow> (persist_error + journal_entry list) \<times> in_memory_storage" where
  "ims_read_events s pid from_sequence =
     (Inr (case hm_get (ims_journals s) pid of
             Some entries \<Rightarrow> filter (\<lambda>e. je_seq e \<ge> from_sequence) entries
           | None \<Rightarrow> []), s)"

definition ims_read_highest_sequence :: "in_memory_storage \<Rightarrow> persistence_id \<Rightarrow> persist_error + sequence_id option" where
  "ims_read_highest_sequence s pid =
     Inr (case hm_get (ims_journals s) pid of
            Some entries \<Rightarrow> (if entries = [] then None else Some (je_seq (last entries)))
          | None \<Rightarrow> None)"

definition ims_delete_events_to :: "in_memory_storage \<Rightarrow> persistence_id \<Rightarrow> sequence_id \<Rightarrow> in_memory_storage effect" where
  "ims_delete_events_to s pid to_sequence =
     (Inr (), case hm_get (ims_journals s) pid of
        Some entries \<Rightarrow> s\<lparr>ims_journals := hm_insert pid (filter (\<lambda>e. je_seq e > to_sequence) entries) (ims_journals s)\<rparr>
      | None \<Rightarrow> s)"

definition ims_save_snapshot ::
  "in_memory_storage \<Rightarrow> persistence_id \<Rightarrow> sequence_id \<Rightarrow> bytes \<Rightarrow> in_memory_storage effect" where
  "ims_save_snapshot s pid seq payload =
     (Inr (), s\<lparr>ims_snapshots := hm_insert pid
        (hm_entry pid [] (ims_snapshots s) @ [SnapshotEntry seq payload]) (ims_snapshots s)\<rparr>)"

definition ims_load_latest_snapshot ::
  "in_memory_storage \<Rightarrow> persistence_id \<Rightarrow> (persist_error + snapshot_entry option) \<times> in_memory_storage" where
  "ims_load_latest_snapshot s pid =
     (Inr (case hm_get (ims_snapshots s) pid of
             Some entries \<Rightarrow> (if entries = [] then None else Some (last entries))
           | None \<Rightarrow> None), s)"

definition ims_delete_snapshots_before ::
  "in_memory_storage \<Rightarrow> persistence_id \<Rightarrow> sequence_id \<Rightarrow> in_memory_storage effect" where
  "ims_delete_snapshots_before s pid seq =
     (Inr (), case hm_get (ims_snapshots s) pid of
        Some entries \<Rightarrow> s\<lparr>ims_snapshots := hm_insert pid (filter (\<lambda>e. se_seq e \<ge> seq) entries) (ims_snapshots s)\<rparr>
      | None \<Rightarrow> s)"

definition ims_save_state :: "in_memory_storage \<Rightarrow> persistence_id \<Rightarrow> bytes \<Rightarrow> in_memory_storage effect" where
  "ims_save_state s pid payload = (Inr (), s\<lparr>ims_states := hm_insert pid payload (ims_states s)\<rparr>)"

definition ims_load_state ::
  "in_memory_storage \<Rightarrow> persistence_id \<Rightarrow> (persist_error + bytes option) \<times> in_memory_storage" where
  "ims_load_state s pid = (Inr (hm_get (ims_states s) pid), s)"

definition ims_delete_state :: "in_memory_storage \<Rightarrow> persistence_id \<Rightarrow> in_memory_storage effect" where
  "ims_delete_state s pid = (Inr (), s\<lparr>ims_states := hm_remove pid (ims_states s)\<rparr>)"

definition ims_journal_ops :: "in_memory_storage journal_storage" where
  "ims_journal_ops = \<lparr>js_write_event = ims_write_event, js_write_event_batch = ims_write_event_batch,
     js_read_events = ims_read_events\<rparr>"

definition ims_snapshot_ops :: "in_memory_storage snapshot_storage" where
  "ims_snapshot_ops = \<lparr>ss_save_snapshot = ims_save_snapshot, ss_load_latest_snapshot = ims_load_latest_snapshot\<rparr>"

definition ims_state_ops :: "in_memory_storage state_storage" where
  "ims_state_ops = \<lparr>sts_save_state = ims_save_state, sts_load_state = ims_load_state\<rparr>"

section \<open>Actors\<close>

record ('a, 'e) event_sourced =
  es_pid :: "'a \<Rightarrow> persistence_id"
  es_pre_recovery :: "'a \<Rightarrow> 'a"
  es_post_recovery :: "'a \<Rightarrow> 'a"
  es_policy :: "'a \<Rightarrow> recovery_failure_policy"
  es_apply :: "'e \<Rightarrow> 'a \<Rightarrow> 'a"
  es_deserialize_event :: "'a \<Rightarrow> bytes \<Rightarrow> persist_error + 'e"
  es_serialize_event :: "'a \<Rightarrow> 'e \<Rightarrow> persist_error + bytes"
  es_restore_snapshot :: "bytes \<Rightarrow> 'a \<Rightarrow> 'a effect"
  es_snapshot_payload :: "'a \<Rightarrow> persist_error + bytes"
  es_last_seq :: "'a \<Rightarrow> sequence_id"
  es_set_last_seq :: "sequence_id \<Rightarrow> 'a \<Rightarrow> 'a"
  es_event_type :: string

definition es_persist ::
  "('a, 'e) event_sourced \<Rightarrow> 's journal_storage \<Rightarrow> 's \<Rightarrow> 'a \<Rightarrow> 'e \<Rightarrow> (persist_error + sequence_id) \<times> 's \<times> 'a" where
  "es_persist A journal s a event =
     (let next_seq = seq_next (es_last_seq A a)
      in case es_serialize_event A a event of
           Inl e \<Rightarrow> (Inl e, s, a)
         | Inr payload \<Rightarrow>
             (case js_write_event journal s (es_pid A a) next_seq (es_event_type A) payload of
                (Inl e, s') \<Rightarrow> (Inl e, s', a)
              | (Inr _, s') \<Rightarrow> (Inr next_seq, s', es_set_last_seq A next_seq (es_apply A event a))))"

fun es_serialize_batch ::
  "('a, 'e) event_sourced \<Rightarrow> 'a \<Rightarrow> sequence_id \<Rightarrow> 'e list
    \<Rightarrow> persist_error + ((sequence_id \<times> string \<times> bytes) list \<times> sequence_id)" where
  "es_serialize_batch A a seq [] = Inr ([], seq)"
| "es_serialize_batch A a seq (event # events) =
     rbind (es_serialize_event A a event) (\<lambda>payload.
     rbind (es_serialize_batch A a (seq_next seq) events) (\<lambda>(batch, last).
       Inr ((seq_next seq, es_event_type A, payload) # batch, last)))"

definition es_persist_batch ::
  "('a, 'e) event_sourced \<Rightarrow> 's journal_storage \<Rightarrow> 's \<Rightarrow> 'a \<Rightarrow> 'e list \<Rightarrow> (persist_error + sequence_id) \<times> 's \<times> 'a" where
  "es_persist_batch A journal s a events =
     (if events = [] then (Inr (es_last_seq A a), s, a)
      else case es_serialize_batch A a (es_last_seq A a) events of
           Inl e \<Rightarrow> (Inl e, s, a)
         | Inr (batch, seq) \<Rightarrow>
             (case js_write_event_batch journal s (es_pid A a) batch of
                (Inl e, s') \<Rightarrow> (Inl e, s', a)
              | (Inr _, s') \<Rightarrow> (Inr seq, s', es_set_last_seq A seq (fold (es_apply A) events a))))"

definition es_snapshot :: "('a, 'e) event_sourced \<Rightarrow> 's snapshot_storage \<Rightarrow> 's \<Rightarrow> 'a \<Rightarrow> 's effect" where
  "es_snapshot A snapshots s a =
     (case es_snapshot_payload A a of
        Inl e \<Rightarrow> (Inl e, s)
      | Inr payload \<Rightarrow> ss_save_snapshot snapshots s (es_pid A a) (es_last_seq A a) payload)"

record 'a durable_state =
  ds_pid :: "'a \<Rightarrow> persistence_id"
  ds_pre_recovery :: "'a \<Rightarrow> 'a"
  ds_post_recovery :: "'a \<Rightarrow> 'a"
  ds_policy :: "'a \<Rightarrow> recovery_failure_policy"
  ds_serialize_state :: "'a \<Rightarrow> persist_error + bytes"
  ds_restore_state :: "bytes \<Rightarrow> 'a \<Rightarrow> 'a effect"

definition ds_save_state :: "'a durable_state \<Rightarrow> 's state_storage \<Rightarrow> 's \<Rightarrow> 'a \<Rightarrow> 's effect" where
  "ds_save_state A storage s a =
     (case ds_serialize_state A a of
        Inl e \<Rightarrow> (Inl e, s)
      | Inr payload \<Rightarrow> sts_save_state storage s (ds_pid A a) payload)"

section \<open>Recovery\<close>

type_synonym ('s, 'a) recovery = "(persist_error + unit) \<times> 's \<times> 'a"

fun decode_all :: "(bytes \<Rightarrow> persist_error + 'e) \<Rightarrow> journal_entry list \<Rightarrow> persist_error + (sequence_id \<times> 'e) list" where
  "decode_all deser [] = Inr []"
| "decode_all deser (entry # entries) =
     rbind (deser (je_payload entry)) (\<lambda>event.
     rbind (decode_all deser entries) (\<lambda>rest. Inr ((je_seq entry, event) # rest)))"

text \<open>The snapshot step of a recovery, and the replay of the journal after it.\<close>

definition recover_from_snapshot ::
  "('a, 'e) event_sourced \<Rightarrow> 's snapshot_storage \<Rightarrow> 's \<Rightarrow> persistence_id \<Rightarrow> 'a \<Rightarrow> ('s, 'a) recovery" where
  "recover_from_snapshot A snapshots s pid a =
     (case ss_load_latest_snapshot snapshots s pid of
        (Inl e, s1) \<Rightarrow> (Inl e, s1, a)
      | (Inr None, s1) \<Rightarrow> (Inr (), s1, a)
      | (Inr (Some snap), s1) \<Rightarrow>
          (case es_restore_snapshot A (se_payload snap) a of
             (Inl e, a1) \<Rightarrow> (Inl e, s1, a1)
           | (Inr _, a1) \<Rightarrow> (Inr (), s1, es_set_last_seq A (se_seq snap) a1)))"

definition replay :: "('a, 'e) event_sourced \<Rightarrow> (sequence_id \<times> 'e) list \<Rightarrow> 'a \<Rightarrow> 'a" where
  "replay A = fold (\<lambda>(seq, event) a. es_set_last_seq A seq (es_apply A event a))"

definition recover_event_sourced_inner ::
  "('a, 'e) event_sourced \<Rightarrow> 's journal_storage \<Rightarrow> 's snapshot_storage \<Rightarrow> 's \<Rightarrow> 'a \<Rightarrow> ('s, 'a) recovery" where
  "recover_event_sourced_inner A journal snapshots s a =
     (let a0 = es_pre_recovery A a; pid = es_pid A a0
      in case recover_from_snapshot A snapshots s pid a0 of
           (Inl e, s1, a1) \<Rightarrow> (Inl e, s1, a1)
         | (Inr _, s1, a1) \<Rightarrow>
             (case js_read_events journal s1 pid (seq_next (es_last_seq A a1)) of
                (Inl e, s2) \<Rightarrow> (Inl e, s2, a1)
              | (Inr entries, s2) \<Rightarrow>
                  (case decode_all (es_deserialize_event A a1) entries of
                     Inl e \<Rightarrow> (Inl e, s2, a1)
                   | Inr deserialized \<Rightarrow> (Inr (), s2, es_post_recovery A (replay A deserialized a1)))))"

text \<open>The failure policy, shared by both kinds of actors: \<^verbatim>\<open>attempts\<close> calls at most, with a doubled delay
  capped at thirty seconds between them. The third component collects the delays slept.\<close>

definition next_delay :: "duration \<Rightarrow> duration" where
  "next_delay d = from_millis (min (min (unat (of_nat (as_millis d) :: u64) * 2) (2 ^ 64 - 1)) 30000)"

fun retry_loop :: "nat \<Rightarrow> duration \<Rightarrow> ('s \<Rightarrow> 'a \<Rightarrow> ('s, 'a) recovery) \<Rightarrow> persist_error \<Rightarrow> 's \<Rightarrow> 'a
    \<Rightarrow> ('s, 'a) recovery \<times> duration list" where
  "retry_loop 0 d inner e s a = ((Inl e, s, a), [])"
| "retry_loop (Suc n) d inner e s a =
     (case inner s a of
        (Inr _, s1, a1) \<Rightarrow> ((Inr (), s1, a1), [d])
      | (Inl _, s1, a1) \<Rightarrow>
          (case retry_loop n (next_delay d) inner e s1 a1 of (r, ds) \<Rightarrow> (r, d # ds)))"

definition recover_with_policy ::
  "recovery_failure_policy \<Rightarrow> ('a \<Rightarrow> 'a) \<Rightarrow> ('s \<Rightarrow> 'a \<Rightarrow> ('s, 'a) recovery) \<Rightarrow> 's \<Rightarrow> 'a
    \<Rightarrow> ('s, 'a) recovery \<times> duration list" where
  "recover_with_policy policy post inner s a =
     (case inner s a of
        (Inr _, s1, a1) \<Rightarrow> ((Inr (), s1, a1), [])
      | (Inl e, s1, a1) \<Rightarrow>
          (case policy of
             RecStop \<Rightarrow> ((Inl e, s1, a1), [])
           | RecRetry max_attempts initial_delay \<Rightarrow>
               (let attempts = unat (case max_attempts of Some n \<Rightarrow> n | None \<Rightarrow> 3)
                in retry_loop (attempts - 1) initial_delay inner e s1 a1)
           | RecSkipAndStart \<Rightarrow> ((Inr (), s1, post a1), [])))"

definition recover_event_sourced ::
  "('a, 'e) event_sourced \<Rightarrow> 's journal_storage \<Rightarrow> 's snapshot_storage \<Rightarrow> 's \<Rightarrow> 'a
    \<Rightarrow> ('s, 'a) recovery \<times> duration list" where
  "recover_event_sourced A journal snapshots s a =
     recover_with_policy (es_policy A a) (es_post_recovery A) (recover_event_sourced_inner A journal snapshots) s a"

definition recover_durable_state_inner ::
  "'a durable_state \<Rightarrow> 's state_storage \<Rightarrow> 's \<Rightarrow> 'a \<Rightarrow> ('s, 'a) recovery" where
  "recover_durable_state_inner A storage s a =
     (let a0 = ds_pre_recovery A a; pid = ds_pid A a0
      in case sts_load_state storage s pid of
           (Inl e, s1) \<Rightarrow> (Inl e, s1, a0)
         | (Inr None, s1) \<Rightarrow> (Inr (), s1, ds_post_recovery A a0)
         | (Inr (Some payload), s1) \<Rightarrow>
             (case ds_restore_state A payload a0 of
                (Inl e, a1) \<Rightarrow> (Inl e, s1, a1)
              | (Inr _, a1) \<Rightarrow> (Inr (), s1, ds_post_recovery A a1)))"

definition recover_durable_state ::
  "'a durable_state \<Rightarrow> 's state_storage \<Rightarrow> 's \<Rightarrow> 'a \<Rightarrow> ('s, 'a) recovery \<times> duration list" where
  "recover_durable_state A storage s a =
     recover_with_policy (ds_policy A a) (ds_post_recovery A) (recover_durable_state_inner A storage) s a"

section \<open>What recovery relies on\<close>

text \<open>A user's actor is lawful for a view of its state if applying an event, restoring a snapshot and setting the
  sequence id act on the view as the trait's documentation asks, and decoding undoes encoding.\<close>

definition es_lawful :: "('a, 'e) event_sourced \<Rightarrow> ('a \<Rightarrow> 'v) \<Rightarrow> ('e \<Rightarrow> 'v \<Rightarrow> 'v) \<Rightarrow> bool" where
  "es_lawful A view step \<longleftrightarrow>
     (\<forall>q a. es_last_seq A (es_set_last_seq A q a) = q \<and> view (es_set_last_seq A q a) = view a \<and>
        es_pid A (es_set_last_seq A q a) = es_pid A a) \<and>
     (\<forall>e a. view (es_apply A e a) = step e (view a) \<and> es_last_seq A (es_apply A e a) = es_last_seq A a \<and>
        es_pid A (es_apply A e a) = es_pid A a) \<and>
     (\<forall>a. view (es_pre_recovery A a) = view a \<and> es_last_seq A (es_pre_recovery A a) = es_last_seq A a \<and>
        es_pid A (es_pre_recovery A a) = es_pid A a) \<and>
     (\<forall>a. view (es_post_recovery A a) = view a \<and> es_last_seq A (es_post_recovery A a) = es_last_seq A a) \<and>
     (\<forall>a a' e b. es_serialize_event A a e = Inr b \<longrightarrow> es_deserialize_event A a' b = Inr e) \<and>
     (\<forall>a a' b. es_snapshot_payload A a = Inr b \<longrightarrow>
        (\<exists>a''. es_restore_snapshot A b a' = (Inr (), a'') \<and> view a'' = view a \<and> es_pid A a'' = es_pid A a'))"

text \<open>A journal that records a log of events, from sequence id one on; and snapshots of its prefixes.\<close>

definition journal_of :: "('a, 'e) event_sourced \<Rightarrow> 'e list \<Rightarrow> journal_entry list \<Rightarrow> bool" where
  "journal_of A log evs \<longleftrightarrow> length evs = length log \<and>
     (\<forall>i < length log. je_seq (evs ! i) = int i + 1 \<and> (\<forall>a. es_deserialize_event A a (je_payload (evs ! i)) = Inr (log ! i)))"

definition snapshot_of :: "('a, 'e) event_sourced \<Rightarrow> ('a \<Rightarrow> 'v) \<Rightarrow> ('e \<Rightarrow> 'v \<Rightarrow> 'v) \<Rightarrow> 'v \<Rightarrow> 'e list \<Rightarrow> snapshot_entry \<Rightarrow> bool" where
  "snapshot_of A view step v0 log sn \<longleftrightarrow>
     (\<exists>m \<le> length log. se_seq sn = int m \<and>
        (\<forall>a. \<exists>a'. es_restore_snapshot A (se_payload sn) a = (Inr (), a') \<and>
           view a' = fold step (take m log) v0 \<and> es_pid A a' = es_pid A a))"

lemma journal_of_snoc:
  assumes "journal_of A log evs" and "\<And>a. es_deserialize_event A a b = Inr e"
  shows "journal_of A (log @ [e]) (evs @ [JournalEntry (int (length log) + 1) ty b])"
  using assms by (auto simp: journal_of_def nth_append less_Suc_eq)

lemma snapshot_of_append: "snapshot_of A view step v0 log sn \<Longrightarrow> snapshot_of A view step v0 (log @ log') sn"
  unfolding snapshot_of_def by (metis (no_types, lifting) append_Nil2 diff_is_0_eq' le_trans length_append le_add1 take0 take_append)

lemma journal_of_suffix:
  assumes "journal_of A log evs" and "m \<le> length log"
  shows "filter (\<lambda>e. je_seq e \<ge> int m + 1) evs = drop m evs"
proof -
  have len: "length evs = length log" using assms(1) by (simp add: journal_of_def)
  have "filter (\<lambda>e. je_seq e \<ge> int m + 1) (take m evs) = []"
    using assms len by (auto simp: filter_empty_conv in_set_conv_nth journal_of_def)
  moreover have "filter (\<lambda>e. je_seq e \<ge> int m + 1) (drop m evs) = drop m evs"
    using assms len by (auto simp: filter_id_conv in_set_conv_nth journal_of_def)
  ultimately show ?thesis by (metis append_Nil append_take_drop_id filter_append)
qed

lemma decode_all_ok:
  assumes "length es = length log" and "\<forall>i < length log. deser (je_payload (es ! i)) = Inr (log ! i)"
  shows "decode_all deser es = Inr (zip (map je_seq es) log)"
  using assms
proof (induction es log rule: list_induct2)
  case (Cons x xs y ys)
  have "deser (je_payload x) = Inr y" using Cons.prems by force
  moreover have "\<forall>i < length ys. deser (je_payload (xs ! i)) = Inr (ys ! i)" using Cons.prems by fastforce
  ultimately show ?case using Cons.IH by simp
qed simp

lemma journal_of_decode:
  assumes "journal_of A log evs" and "m \<le> length log"
  shows "decode_all (es_deserialize_event A a) (drop m evs) = Inr (zip (map je_seq (drop m evs)) (drop m log))"
  by (rule decode_all_ok) (use assms in \<open>auto simp: journal_of_def\<close>)

lemma replay_view:
  assumes "es_lawful A view step" and "length seqs = length log"
  shows "view (replay A (zip seqs log) a) = fold step log (view a)"
    and "es_last_seq A (replay A (zip seqs log) a) = (if log = [] then es_last_seq A a else last seqs)"
  using assms(2)
proof (induction seqs log arbitrary: a rule: list_induct2)
  case (Cons x xs y ys)
  {
    case 1
    show ?case using Cons.IH assms(1) by (simp add: replay_def es_lawful_def)
  next
    case 2
    show ?case using Cons assms(1) by (auto simp: replay_def es_lawful_def)
  }
qed (simp_all add: replay_def)

lemma fold_apply_view:
  assumes "es_lawful A view step"
  shows "view (fold (es_apply A) es a) = fold step es (view a)" and "es_pid A (fold (es_apply A) es a) = es_pid A a"
  using assms by (induction es arbitrary: a) (simp_all add: es_lawful_def)

lemma serialize_batch_journal:
  assumes law: "es_lawful A view step"
    and "es_serialize_batch A a (int (length log)) es = Inr (batch, q)"
  shows "q = int (length log) + int (length es)"
    and "journal_of A log evs \<Longrightarrow> journal_of A (log @ es) (evs @ map (\<lambda>(q, ty, b). JournalEntry q ty b) batch)"
  using assms(2)
proof (induction es arbitrary: log batch q evs)
  case (Cons e es)
  {
    case 1
    then obtain b batch' where b: "es_serialize_event A a e = Inr b"
        "es_serialize_batch A a (int (length (log @ [e]))) es = Inr (batch', q)"
      by (auto simp: rbind_Inr seq_next_def add.commute split: prod.splits)
    show ?case using Cons.IH(1) [OF b(2)] by simp
  next
    case 2
    then obtain b batch' where b: "es_serialize_event A a e = Inr b"
        "es_serialize_batch A a (int (length (log @ [e]))) es = Inr (batch', q)"
        "batch = (int (length log) + 1, es_event_type A, b) # batch'"
      by (auto simp: rbind_Inr seq_next_def add.commute split: prod.splits)
    have "\<And>a'. es_deserialize_event A a' b = Inr e" using law b(1) unfolding es_lawful_def by blast
    from Cons.IH(2) [OF journal_of_snoc [OF 2(1) this, where ty = "es_event_type A"] b(2)] b(3)
    show ?case by simp
  }
qed simp_all

section \<open>The storage contract\<close>

text \<open>A storage may fail at any call; a failed call changes nothing, a successful write appends, and reads return what
  was appended.\<close>

locale event_store =
  fixes journal :: "'s journal_storage"
    and snapshots :: "'s snapshot_storage"
    and events :: "'s \<Rightarrow> persistence_id \<Rightarrow> journal_entry list"
    and snaps :: "'s \<Rightarrow> persistence_id \<Rightarrow> snapshot_entry list"
  assumes write_event: "js_write_event journal s pid q ty b = (r, s') \<Longrightarrow>
      events s' = (if r = Inr () then (events s)(pid := events s pid @ [JournalEntry q ty b]) else events s) \<and> snaps s' = snaps s"
    and write_batch: "js_write_event_batch journal s pid batch = (r, s') \<Longrightarrow>
      events s' = (if r = Inr () then (events s)(pid := events s pid @ map (\<lambda>(q, ty, b). JournalEntry q ty b) batch) else events s)
      \<and> snaps s' = snaps s"
    and read_events: "js_read_events journal s pid q = (re, s') \<Longrightarrow>
      events s' = events s \<and> snaps s' = snaps s \<and> (\<forall>es. re = Inr es \<longrightarrow> es = filter (\<lambda>e. je_seq e \<ge> q) (events s pid))"
    and save_snapshot: "ss_save_snapshot snapshots s pid q b = (r, s') \<Longrightarrow>
      snaps s' = (if r = Inr () then (snaps s)(pid := snaps s pid @ [SnapshotEntry q b]) else snaps s) \<and> events s' = events s"
    and load_snapshot: "ss_load_latest_snapshot snapshots s pid = (rl, s') \<Longrightarrow>
      events s' = events s \<and> snaps s' = snaps s \<and>
      (\<forall>sn. rl = Inr sn \<longrightarrow> sn = (if snaps s pid = [] then None else Some (last (snaps s pid))))"
begin

text \<open>A live actor and its storage agree on a log.\<close>

definition in_sync :: "('a, 'e) event_sourced \<Rightarrow> ('a \<Rightarrow> 'v) \<Rightarrow> ('e \<Rightarrow> 'v \<Rightarrow> 'v) \<Rightarrow> 'v \<Rightarrow> persistence_id \<Rightarrow> 'e list \<Rightarrow> 's \<Rightarrow> 'a \<Rightarrow> bool" where
  "in_sync A view step v0 pid log s a \<longleftrightarrow>
     es_pid A a = pid \<and> es_last_seq A a = int (length log) \<and> view a = fold step log v0 \<and>
     journal_of A log (events s pid) \<and> (\<forall>sn \<in> set (snaps s pid). snapshot_of A view step v0 log sn)"

lemma persist_in_sync:
  assumes law: "es_lawful A view step" and sync: "in_sync A view step v0 pid log s a"
    and run: "es_persist A journal s a e = (r, s', a')"
  shows "case r of Inl _ \<Rightarrow> a' = a \<and> in_sync A view step v0 pid log s' a | Inr _ \<Rightarrow> in_sync A view step v0 pid (log @ [e]) s' a'"
proof (cases "es_serialize_event A a e")
  case (Inl err)
  then show ?thesis using run sync by (auto simp: es_persist_def)
next
  case (Inr b)
  obtain r1 s1 where w: "js_write_event journal s (es_pid A a) (es_last_seq A a + 1) (es_event_type A) b = (r1, s1)"
    by force
  have dec: "\<And>a'. es_deserialize_event A a' b = Inr e" using law Inr unfolding es_lawful_def by blast
  show ?thesis
  proof (cases r1)
    case (Inl err)
    then show ?thesis using run sync Inr w write_event [OF w] by (auto simp: es_persist_def seq_next_def in_sync_def)
  next
    case (Inr u)
    then have res: "r = Inr (es_last_seq A a + 1)" "s' = s1" "a' = es_set_last_seq A (es_last_seq A a + 1) (es_apply A e a)"
      using run \<open>es_serialize_event A a e = Inr b\<close> w by (simp_all add: es_persist_def seq_next_def Let_def)
    have st: "events s1 = (events s)(pid := events s pid @ [JournalEntry (int (length log) + 1) (es_event_type A) b])" "snaps s1 = snaps s"
      using write_event [OF w] Inr sync by (simp_all add: in_sync_def)
    have a': "es_pid A a' = pid" "es_last_seq A a' = int (length log) + 1" "view a' = step e (fold step log v0)"
      using law sync res(3) by (simp_all add: es_lawful_def in_sync_def)
    have "in_sync A view step v0 pid (log @ [e]) s' a'"
      using sync journal_of_snoc [OF _ dec, where ty = "es_event_type A" and log = log] a' st res(2)
        snapshot_of_append [where log' = "[e]" and log = log and A = A and view = view and step = step and ?v0.0 = v0]
      by (auto simp: in_sync_def)
    then show ?thesis using res(1) by simp
  qed
qed

lemma batch_in_sync:
  assumes law: "es_lawful A view step" and sync: "in_sync A view step v0 pid log s a"
    and run: "es_persist_batch A journal s a es = (r, s', a')"
  shows "case r of Inl _ \<Rightarrow> a' = a \<and> in_sync A view step v0 pid log s' a | Inr _ \<Rightarrow> in_sync A view step v0 pid (log @ es) s' a'"
proof (cases "es = []")
  case True
  then show ?thesis using run sync by (auto simp: es_persist_batch_def)
next
  case ne: False
  show ?thesis
  proof (cases "es_serialize_batch A a (es_last_seq A a) es")
    case (Inl err)
    then show ?thesis using run sync ne by (auto simp: es_persist_batch_def)
  next
    case (Inr bq)
    obtain batch q where bq: "bq = (batch, q)" by force
    obtain r1 s1 where w: "js_write_event_batch journal s pid batch = (r1, s1)" by force
    have pid: "es_pid A a = pid" and seq: "es_last_seq A a = int (length log)" using sync by (simp_all add: in_sync_def)
    note batch = serialize_batch_journal [OF law Inr [unfolded bq seq]]
    show ?thesis
    proof (cases r1)
      case (Inl err)
      then show ?thesis using run sync ne Inr bq w pid \<open>es_serialize_batch _ _ _ _ = _\<close> write_batch [OF w]
        by (auto simp: es_persist_batch_def in_sync_def)
    next
      case (Inr u)
      then have res: "r = Inr q" "s' = s1" "a' = es_set_last_seq A q (fold (es_apply A) es a)"
        using run ne bq w pid \<open>es_serialize_batch _ _ _ _ = _\<close> by (simp_all add: es_persist_batch_def)
      have st: "events s1 = (events s)(pid := events s pid @ map (\<lambda>(q, ty, b). JournalEntry q ty b) batch)" "snaps s1 = snaps s"
        using write_batch [OF w] Inr by simp_all
      have a': "es_pid A a' = pid" "es_last_seq A a' = int (length (log @ es))" "view a' = fold step es (fold step log v0)"
        using law sync res(3) batch(1) fold_apply_view [OF law, of es a] by (simp_all add: es_lawful_def in_sync_def)
      have "in_sync A view step v0 pid (log @ es) s' a'"
        using sync batch(2) a' st res(2) snapshot_of_append [where log' = es and log = log and A = A and view = view and step = step and ?v0.0 = v0]
        by (auto simp: in_sync_def)
      then show ?thesis using res(1) by simp
    qed
  qed
qed

lemma snapshot_in_sync:
  assumes law: "es_lawful A view step" and sync: "in_sync A view step v0 pid log s a"
    and run: "es_snapshot A snapshots s a = (r, s')"
  shows "in_sync A view step v0 pid log s' a"
proof (cases "es_snapshot_payload A a")
  case (Inl e)
  then show ?thesis using run sync by (simp add: es_snapshot_def)
next
  case (Inr b)
  then have w: "ss_save_snapshot snapshots s pid (int (length log)) b = (r, s')"
    using run sync by (simp add: es_snapshot_def in_sync_def)
  have "\<forall>a'. \<exists>a''. es_restore_snapshot A b a' = (Inr (), a'') \<and> view a'' = view a \<and> es_pid A a'' = es_pid A a'"
    using law Inr unfolding es_lawful_def by blast
  then have "snapshot_of A view step v0 log (SnapshotEntry (int (length log)) b)"
    using sync by (auto simp: snapshot_of_def in_sync_def intro!: exI [of _ "length log"])
  then show ?thesis using save_snapshot [OF w] sync by (auto simp: in_sync_def)
qed

text \<open>The snapshot step puts a fresh actor at some prefix of the log.\<close>

lemma snapshot_step:
  assumes law: "es_lawful A view step" and sync: "in_sync A view step v0 pid log s a"
    and fresh: "view b = v0" "es_last_seq A b = 0"
    and load: "ss_load_latest_snapshot snapshots s pid = (Inr sn, s1)"
  shows "\<exists>b1 m. recover_from_snapshot A snapshots s pid b = (Inr (), s1, b1) \<and> m \<le> length log \<and>
    es_last_seq A b1 = int m \<and> view b1 = fold step (take m log) v0 \<and> events s1 = events s"
proof (cases "snaps s pid = []")
  case True
  then show ?thesis using load load_snapshot [OF load] fresh by (simp add: recover_from_snapshot_def exI [of _ 0])
next
  case False
  then have "snapshot_of A view step v0 log (last (snaps s pid))" using sync by (simp add: in_sync_def)
  then obtain m b1 where m: "m \<le> length log" "se_seq (last (snaps s pid)) = int m"
    "es_restore_snapshot A (se_payload (last (snaps s pid))) b = (Inr (), b1)" "view b1 = fold step (take m log) v0"
    unfolding snapshot_of_def by blast
  then have "recover_from_snapshot A snapshots s pid b = (Inr (), s1, es_set_last_seq A (int m) b1)"
    using load load_snapshot [OF load] False by (simp add: recover_from_snapshot_def)
  then show ?thesis using m law load_snapshot [OF load] by (simp add: es_lawful_def)
qed

text \<open>Recovery of a fresh actor from a storage in sync with a live one gives the live state, unless a storage call
  fails.\<close>

lemma recover_in_sync:
  assumes law: "es_lawful A view step" and sync: "in_sync A view step v0 pid log s a"
    and fresh: "es_pid A b = pid" "view b = v0" "es_last_seq A b = 0"
    and load: "ss_load_latest_snapshot snapshots s pid = (Inr sn, s1)"
    and read: "\<And>q. \<exists>es s2. js_read_events journal s1 pid q = (Inr es, s2)"
  shows "\<exists>s' b'. recover_event_sourced_inner A journal snapshots s b = (Inr (), s', b') \<and>
    view b' = view a \<and> es_last_seq A b' = es_last_seq A a"
proof -
  let ?b0 = "es_pre_recovery A b"
  have b0: "es_pid A ?b0 = pid" "view ?b0 = v0" "es_last_seq A ?b0 = 0"
    using law fresh by (simp_all add: es_lawful_def)
  have j: "journal_of A log (events s pid)" using sync by (simp add: in_sync_def)
  obtain b1 m where snap: "recover_from_snapshot A snapshots s pid ?b0 = (Inr (), s1, b1)"
    and m: "m \<le> length log" "es_last_seq A b1 = int m" "view b1 = fold step (take m log) v0" and s1: "events s1 = events s"
    using snapshot_step [OF law sync b0(2,3) load] by blast
  obtain es s2 where rd: "js_read_events journal s1 pid (int m + 1) = (Inr es, s2)" using read by blast
  let ?es = "drop m (events s pid)"
  have "es = ?es" using read_events [OF rd] s1 journal_of_suffix [OF j m(1)] by simp
  then have run: "recover_event_sourced_inner A journal snapshots s b =
      (Inr (), s2, es_post_recovery A (replay A (zip (map je_seq ?es) (drop m log)) b1))"
    using b0(1) snap rd m(2) journal_of_decode [OF j m(1)]
    by (simp add: recover_event_sourced_inner_def Let_def seq_next_def)
  have len: "length (map je_seq ?es) = length (drop m log)" using j by (simp add: journal_of_def)
  note replayed = replay_view [OF law len, of b1]
  have "fold step (drop m log) (fold step (take m log) v0) = fold step log v0"
    by (metis append_take_drop_id comp_apply fold_append)
  moreover have "last (map je_seq ?es) = int (length log)" if "drop m log \<noteq> []"
    using that j by (simp add: last_map last_drop last_conv_nth journal_of_def)
  then have "es_last_seq A (replay A (zip (map je_seq ?es) (drop m log)) b1) = int (length log)"
    using replayed(2) m by (cases "drop m log = []") simp_all
  ultimately show ?thesis using run replayed(1) law m(3) sync by (simp add: es_lawful_def in_sync_def)
qed

end

definition ims_events :: "in_memory_storage \<Rightarrow> persistence_id \<Rightarrow> journal_entry list" where
  "ims_events s pid = hm_entry pid [] (ims_journals s)"

definition ims_snaps :: "in_memory_storage \<Rightarrow> persistence_id \<Rightarrow> snapshot_entry list" where
  "ims_snaps s pid = hm_entry pid [] (ims_snapshots s)"

interpretation ims: event_store ims_journal_ops ims_snapshot_ops ims_events ims_snaps
  by unfold_locales (auto simp: fun_eq_iff ims_journal_ops_def ims_snapshot_ops_def ims_write_event_def
      ims_write_event_batch_def ims_read_events_def ims_save_snapshot_def ims_load_latest_snapshot_def
      ims_events_def ims_snaps_def hm_entry_def split: option.splits)

section \<open>Histories\<close>

datatype 'e es_op = OpPersist 'e | OpBatch "'e list" | OpSnapshot

fun es_run :: "('a, 'e) event_sourced \<Rightarrow> in_memory_storage \<Rightarrow> 'a \<Rightarrow> 'e es_op list \<Rightarrow> in_memory_storage \<times> 'a" where
  "es_run A s a [] = (s, a)"
| "es_run A s a (OpPersist e # ops) = (case es_persist A ims_journal_ops s a e of (_, s', a') \<Rightarrow> es_run A s' a' ops)"
| "es_run A s a (OpBatch es # ops) = (case es_persist_batch A ims_journal_ops s a es of (_, s', a') \<Rightarrow> es_run A s' a' ops)"
| "es_run A s a (OpSnapshot # ops) = (case es_snapshot A ims_snapshot_ops s a of (_, s') \<Rightarrow> es_run A s' a ops)"

lemma es_run_in_sync:
  assumes "es_lawful A view step" and "ims.in_sync A view step v0 pid log s a" and "es_run A s a ops = (s', a')"
  shows "\<exists>log'. ims.in_sync A view step v0 pid log' s' a'"
  using assms(2,3)
proof (induction ops arbitrary: s a log)
  case (Cons x ops)
  show ?case
  proof (cases x)
    case (OpPersist e)
    obtain r s1 a1 where r: "es_persist A ims_journal_ops s a e = (r, s1, a1)" by (metis prod_cases3)
    then have "\<exists>log'. ims.in_sync A view step v0 pid log' s1 a1"
      using ims.persist_in_sync [OF assms(1) Cons.prems(1) r] by (cases r) auto
    then show ?thesis using Cons.IH Cons.prems(2) OpPersist r by auto
  next
    case (OpBatch es)
    obtain r s1 a1 where r: "es_persist_batch A ims_journal_ops s a es = (r, s1, a1)" by (metis prod_cases3)
    then have "\<exists>log'. ims.in_sync A view step v0 pid log' s1 a1"
      using ims.batch_in_sync [OF assms(1) Cons.prems(1) r] by (cases r) auto
    then show ?thesis using Cons.IH Cons.prems(2) OpBatch r by auto
  next
    case OpSnapshot
    obtain r s1 where r: "es_snapshot A ims_snapshot_ops s a = (r, s1)" by force
    show ?thesis
      using Cons.IH [OF ims.snapshot_in_sync [OF assms(1) Cons.prems(1) r]] Cons.prems(2) OpSnapshot r by simp
  qed
qed auto


lemma ims_initial_sync:
  assumes "es_last_seq A a = 0"
  shows "ims.in_sync A view step (view a) (es_pid A a) [] ims_new a"
  using assms by (simp add: ims.in_sync_def ims_new_def ims_events_def ims_snaps_def hm_entry_def journal_of_def)

text \<open>Reading does not change the in-memory storage.\<close>

lemma ims_recover_keeps_storage:
  assumes "recover_event_sourced_inner A ims_journal_ops ims_snapshot_ops s b = (r, s', b')"
  shows "s' = s"
  using assms by (auto simp: recover_event_sourced_inner_def recover_from_snapshot_def Let_def ims_journal_ops_def
      ims_snapshot_ops_def ims_read_events_def ims_load_latest_snapshot_def
      split: sum.splits prod.splits option.splits if_splits)

lemma ims_recover:
  assumes "es_lawful A view step" and "ims.in_sync A view step v0 pid log s a"
    and "es_pid A b = pid" "view b = v0" "es_last_seq A b = 0"
  shows "\<exists>b'. recover_event_sourced_inner A ims_journal_ops ims_snapshot_ops s b = (Inr (), s, b') \<and>
    view b' = view a \<and> es_last_seq A b' = es_last_seq A a"
proof -
  have "\<exists>sn. ss_load_latest_snapshot ims_snapshot_ops s pid = (Inr sn, s)"
    by (simp add: ims_snapshot_ops_def ims_load_latest_snapshot_def)
  then obtain sn where load: "ss_load_latest_snapshot ims_snapshot_ops s pid = (Inr sn, s)" ..
  have read: "\<exists>es s2. js_read_events ims_journal_ops s pid q = (Inr es, s2)" for q
    by (simp add: ims_journal_ops_def ims_read_events_def)
  obtain s' b' where
    "recover_event_sourced_inner A ims_journal_ops ims_snapshot_ops s b = (Inr (), s', b')"
    "view b' = view a \<and> es_last_seq A b' = es_last_seq A a"
    using ims.recover_in_sync [OF assms load read] by blast
  moreover from this(1) have "s' = s" by (rule ims_recover_keeps_storage)
  ultimately show ?thesis by simp
qed

section \<open>Properties\<close>

text \<open>C1. Recovery is the inverse of persisting: after any history of single persists, batch persists and
  snapshots of an event-sourced actor on an empty in-memory storage, recovering a fresh actor with the same
  persistence id succeeds at the first attempt, leaves the storage alone, and rebuilds the live actor's state
  and last sequence id.\<close>

theorem persist_recover_roundtrip:
  assumes "es_lawful A view step" and "es_last_seq A a0 = 0" and "es_run A ims_new a0 ops = (s, a)"
    and "es_pid A b = es_pid A a0" and "view b = view a0" and "es_last_seq A b = 0"
  shows "\<exists>b'. recover_event_sourced A ims_journal_ops ims_snapshot_ops s b = ((Inr (), s, b'), []) \<and>
    view b' = view a \<and> es_last_seq A b' = es_last_seq A a"
proof -
  obtain log where "ims.in_sync A view step (view a0) (es_pid A a0) log s a"
    using es_run_in_sync [OF assms(1) ims_initial_sync [OF assms(2)] assms(3)] by blast
  from ims_recover [OF assms(1) this assms(4-6)] show ?thesis
    by (auto simp: recover_event_sourced_def recover_with_policy_def)
qed

text \<open>A counter that adds the bytes it is sent; its state is the sum with the sequence id.\<close>

definition counter :: "(nat \<times> sequence_id, u8) event_sourced" where
  "counter = \<lparr>es_pid = (\<lambda>_. ''counter:1''), es_pre_recovery = id, es_post_recovery = id, es_policy = (\<lambda>_. RecStop),
     es_apply = (\<lambda>e (n, q). (n + unat e, q)),
     es_deserialize_event = (\<lambda>_ b. case b of [e] \<Rightarrow> Inr e | _ \<Rightarrow> Inl (SerializationFailed ''event'')),
     es_serialize_event = (\<lambda>_ e. if e = 0 then Inl (SerializationFailed ''zero'') else Inr [e]),
     es_restore_snapshot = (\<lambda>b (n, q). (Inr (), (length b, q))),
     es_snapshot_payload = (\<lambda>(n, _). Inr (replicate n 0)),
     es_last_seq = snd, es_set_last_seq = (\<lambda>q (n, _). (n, q)), es_event_type = ''byte''\<rparr>"

lemma counter_lawful: "es_lawful counter fst (\<lambda>e n. n + unat e)"
  by (auto simp: es_lawful_def counter_def split: if_splits)

theorem persist_recover_roundtrip_witness:
  "(let (s, a) = es_run counter ims_new (0, 0) [OpPersist 3, OpSnapshot, OpPersist 0, OpBatch [4, 5], OpBatch [6, 0]]
    in a = (12, 3) \<and> recover_event_sourced counter ims_journal_ops ims_snapshot_ops s (0, 0) = ((Inr (), s, a), []))"
proof -
  let ?r = "es_run counter ims_new (0, 0) [OpPersist 3, OpSnapshot, OpPersist 0, OpBatch [4, 5], OpBatch [6, 0]]"
  have a: "snd ?r = (12, 3)" by code_simp
  obtain s where s: "?r = (s, (12, 3))" using a by (cases ?r) simp
  then have "\<exists>b'. recover_event_sourced counter ims_journal_ops ims_snapshot_ops s (0, 0) = ((Inr (), s, b'), []) \<and>
      fst b' = 12 \<and> es_last_seq counter b' = 3"
    using persist_recover_roundtrip [OF counter_lawful _ s, of "(0, 0)"] by (simp add: counter_def)
  then show ?thesis using s by (auto simp: counter_def)
qed

lemma decode_all_first_error:
  assumes "\<forall>x \<in> set pre. \<exists>ev. deser (je_payload x) = Inr ev" and "deser (je_payload bad) = Inl err"
  shows "decode_all deser (pre @ bad # post) = Inl err"
  using assms by (induction pre) auto

text \<open>C40. Failed operations do not half-apply. On any storage, a persist or batch persist that fails leaves the actor exactly as it was. An attempt to
  recover from a journal with an undecodable entry reports that entry's error with the actor as the snapshot step left it, not one of the
  decodable events before it applied; recovery then fails with that error under the policy \<open>Stop\<close>, and under \<open>SkipAndStart\<close> it succeeds from that
  same state.\<close>

theorem persistence_failures_atomic:
  fixes A :: "('a, 'e) event_sourced" and journal :: "'s journal_storage"
  shows "(\<forall>s a e f s' a'. es_persist A journal s a e = (Inl f, s', a') \<longrightarrow> a' = a) \<and>
    (\<forall>s a es f s' a'. es_persist_batch A journal s a es = (Inl f, s', a') \<longrightarrow> a' = a) \<and>
    (\<forall>s a s1 a1 s2 pre bad post err.
      recover_from_snapshot A snapshots s (es_pid A (es_pre_recovery A a)) (es_pre_recovery A a) = (Inr (), s1, a1) \<and>
      js_read_events journal s1 (es_pid A (es_pre_recovery A a)) (es_last_seq A a1 + 1) = (Inr (pre @ bad # post), s2) \<and>
      (\<forall>x \<in> set pre. \<exists>ev. es_deserialize_event A a1 (je_payload x) = Inr ev) \<and> es_deserialize_event A a1 (je_payload bad) = Inl err \<longrightarrow>
      recover_event_sourced_inner A journal snapshots s a = (Inl err, s2, a1) \<and>
      (es_policy A a = RecStop \<longrightarrow> recover_event_sourced A journal snapshots s a = ((Inl err, s2, a1), [])) \<and>
      (es_policy A a = RecSkipAndStart \<longrightarrow> recover_event_sourced A journal snapshots s a = ((Inr (), s2, es_post_recovery A a1), [])))"
proof (intro conjI)
  show "\<forall>s a s1 a1 s2 pre bad post err.
      recover_from_snapshot A snapshots s (es_pid A (es_pre_recovery A a)) (es_pre_recovery A a) = (Inr (), s1, a1) \<and>
      js_read_events journal s1 (es_pid A (es_pre_recovery A a)) (es_last_seq A a1 + 1) = (Inr (pre @ bad # post), s2) \<and>
      (\<forall>x \<in> set pre. \<exists>ev. es_deserialize_event A a1 (je_payload x) = Inr ev) \<and> es_deserialize_event A a1 (je_payload bad) = Inl err \<longrightarrow>
      recover_event_sourced_inner A journal snapshots s a = (Inl err, s2, a1) \<and>
      (es_policy A a = RecStop \<longrightarrow> recover_event_sourced A journal snapshots s a = ((Inl err, s2, a1), [])) \<and>
      (es_policy A a = RecSkipAndStart \<longrightarrow> recover_event_sourced A journal snapshots s a = ((Inr (), s2, es_post_recovery A a1), []))"
    (is "\<forall>s a s1 a1 s2 pre bad post err. ?bad s a s1 a1 s2 pre bad post err \<longrightarrow> ?fails s a a1 s2 err")
  proof (intro allI impI)
    fix s a s1 a1 s2 pre bad post err
    assume h: "?bad s a s1 a1 s2 pre bad post err"
    then have "decode_all (es_deserialize_event A a1) (pre @ bad # post) = Inl err" by (intro decode_all_first_error) blast+
    then have "recover_event_sourced_inner A journal snapshots s a = (Inl err, s2, a1)"
      using h by (simp add: recover_event_sourced_inner_def Let_def seq_next_def)
    then show "?fails s a a1 s2 err" by (simp add: recover_event_sourced_def recover_with_policy_def)
  qed
qed (auto simp: es_persist_def es_persist_batch_def Let_def split: sum.splits prod.splits if_splits)

theorem persistence_failures_atomic_witness:
  "(let s = snd (ims_write_event (snd (ims_write_event (snd (ims_write_event ims_new ''counter:1'' 1 ''byte'' [7]))
        ''counter:1'' 2 ''byte'' [1, 2])) ''counter:1'' 3 ''byte'' [9])
    in recover_event_sourced_inner counter ims_journal_ops ims_snapshot_ops s (0, 0) =
         (Inl (SerializationFailed ''event''), s, (0, 0)))"
proof -
  let ?s = "snd (ims_write_event (snd (ims_write_event (snd (ims_write_event ims_new ''counter:1'' 1 ''byte'' [7]))
        ''counter:1'' 2 ''byte'' [1, 2])) ''counter:1'' 3 ''byte'' [9])"
  have "recover_from_snapshot counter ims_snapshot_ops ?s (es_pid counter (es_pre_recovery counter (0, 0)))
      (es_pre_recovery counter (0, 0)) = (Inr (), ?s, (0, 0))" by code_simp
  moreover have "js_read_events ims_journal_ops ?s (es_pid counter (es_pre_recovery counter (0, 0)))
      (es_last_seq counter (0 :: nat, 0) + 1) =
      (Inr ([JournalEntry 1 ''byte'' [7]] @ JournalEntry 2 ''byte'' [1, 2] # [JournalEntry 3 ''byte'' [9]]), ?s)" by code_simp
  moreover have "\<forall>x \<in> set [JournalEntry 1 ''byte'' [7]]. \<exists>ev. es_deserialize_event counter (0, 0) (je_payload x) = Inr ev"
    and "es_deserialize_event counter (0, 0) (je_payload (JournalEntry 2 ''byte'' [1, 2])) = Inl (SerializationFailed ''event'')"
    by (simp_all add: counter_def)
  ultimately have "recover_event_sourced_inner counter ims_journal_ops ims_snapshot_ops ?s (0, 0) =
      (Inl (SerializationFailed ''event''), ?s, (0, 0))"
    using persistence_failures_atomic [of counter ims_journal_ops ims_snapshot_ops, THEN conjunct2, THEN conjunct2] by blast
  then show ?thesis by (simp add: Let_def)
qed

lemma next_delay_le: "as_millis (next_delay d) \<le> 30000"
  by (simp add: next_delay_def)

lemma retry_loop_bounds:
  assumes "retry_loop n d inner e s a = ((r, s', a'), ds)"
  shows "length ds \<le> n" and "ds \<noteq> [] \<Longrightarrow> hd ds = d" and "\<forall>x \<in> set (tl ds). as_millis x \<le> 30000"
    and "r \<noteq> Inr () \<Longrightarrow> r = Inl e \<and> length ds = n"
proof -
  have "length ds \<le> n \<and> (ds \<noteq> [] \<longrightarrow> hd ds = d) \<and> (\<forall>x \<in> set (tl ds). as_millis x \<le> 30000) \<and>
      (r \<noteq> Inr () \<longrightarrow> r = Inl e \<and> length ds = n)"
    using assms
  proof (induction n arbitrary: d s a ds)
    case (Suc n)
    obtain r1 s1 a1 where i: "inner s a = (r1, s1, a1)" by (metis prod_cases3)
    show ?case
    proof (cases r1)
      case (Inl f)
      then obtain ds' where ds': "retry_loop n (next_delay d) inner e s1 a1 = ((r, s', a'), ds')" "ds = d # ds'"
        using Suc.prems i by (auto split: prod.splits)
      then show ?thesis using Suc.IH [OF ds'(1)] next_delay_le [of d] by (cases ds') auto
    qed (use Suc.prems i in auto)
  qed auto
  then show "length ds \<le> n" "ds \<noteq> [] \<Longrightarrow> hd ds = d" "\<forall>x \<in> set (tl ds). as_millis x \<le> 30000"
    "r \<noteq> Inr () \<Longrightarrow> r = Inl e \<and> length ds = n" by blast+
qed

lemma retry_loop_pauses:
  "retry_loop n d inner e s a = (x, ds) \<Longrightarrow> ds = map (\<lambda>i. (next_delay ^^ i) d) [0..<length ds]"
proof (induction n arbitrary: d s a ds x)
  case (Suc n)
  obtain r1 s1 a1 where i: "inner s a = (r1, s1, a1)" by (metis prod_cases3)
  show ?case
  proof (cases r1)
    case (Inl f)
    then obtain ds' where ds': "retry_loop n (next_delay d) inner e s1 a1 = (x, ds')" "ds = d # ds'"
      using Suc.prems i by (auto split: prod.splits)
    have "ds' = map (\<lambda>i. (next_delay ^^ Suc i) d) [0..<length ds']"
      using Suc.IH [OF ds'(1)] by (simp only: funpow_Suc_right comp_apply)
    then show ?thesis unfolding ds'(2) length_Cons map_upt_Suc by simp
  qed (use Suc.prems i in auto)
qed auto

text \<open>The outcome a sequence of attempts should have: the first success within the budget, the first error
  otherwise.\<close>

fun attempts_run :: "nat \<Rightarrow> ('s \<Rightarrow> 'a \<Rightarrow> ('s, 'a) recovery) \<Rightarrow> 's \<Rightarrow> 'a \<Rightarrow> bool \<times> 's \<times> 'a" where
  "attempts_run 0 inner s a = (False, s, a)"
| "attempts_run (Suc n) inner s a =
     (case inner s a of (Inr _, s', a') \<Rightarrow> (True, s', a') | (Inl _, s', a') \<Rightarrow> attempts_run n inner s' a')"

lemma retry_loop_attempts:
  "fst (retry_loop n d inner e s a) =
     (case attempts_run n inner s a of (ok, s', a') \<Rightarrow> (if ok then Inr () else Inl e, s', a'))"
proof (induction n arbitrary: d s a)
  case (Suc n)
  obtain r1 s1 a1 where i: "inner s a = (r1, s1, a1)" by (metis prod_cases3)
  show ?case using Suc.IH [of "next_delay d" s1 a1] i
    by (cases r1) (simp_all add: case_prod_beta)
qed simp

text \<open>C32. Recovery ends within its budget: under the retry policy with a maximum of \<open>n\<close> attempts, the first included (three when
  none is given, and one for a maximum of zero), the outcome is that of at most \<open>n\<close> attempts run until the first success;
  an exhausted budget reports the error of the first attempt; the first pause is the initial delay, whatever its length,
  every later one follows from the one before by doubling up to thirty seconds, so that only the first can be longer.\<close>

theorem recovery_retry_budget:
  assumes "recover_with_policy (RecRetry max_attempts d) post inner s a = ((r, s', a'), ds)"
    and "n = max 1 (unat (case max_attempts of Some m \<Rightarrow> m | None \<Rightarrow> 3))"
  shows "attempts_run n inner s a = (r = Inr (), s', a') \<and> length ds < n \<and>
    ds = map (\<lambda>i. (next_delay ^^ i) d) [0..<length ds] \<and> (\<forall>x \<in> set (tl ds). as_millis x \<le> 30000) \<and>
    (\<forall>e. r = Inl e \<longrightarrow> fst (inner s a) = Inl e \<and> length ds = n - 1)"
proof -
  define m where "m = unat (case max_attempts of Some k \<Rightarrow> k | None \<Rightarrow> 3) - 1"
  have n: "n = Suc m" using assms(2) by (simp add: m_def max_def)
  obtain r1 s1 a1 where i: "inner s a = (r1, s1, a1)" by (metis prod_cases3)
  show ?thesis
  proof (cases r1)
    case (Inl f)
    then have loop: "retry_loop m d inner f s1 a1 = ((r, s', a'), ds)"
      using assms(1) i by (simp add: recover_with_policy_def Let_def m_def)
    have "attempts_run n inner s a = (r = Inr (), s', a')"
      using retry_loop_attempts [of m d inner f s1 a1] loop Inl i n
      by (cases "attempts_run m inner s1 a1") (auto split: if_splits)
    then show ?thesis using retry_loop_bounds [OF loop] retry_loop_pauses [OF loop] Inl i n by auto
  next
    case (Inr u)
    then show ?thesis using assms(1) i n by (auto simp: recover_with_policy_def)
  qed
qed

text \<open>Attempts that always fail, counted by the storage state.\<close>

definition failing_recovery :: "nat \<Rightarrow> unit \<Rightarrow> (nat, unit) recovery" where
  "failing_recovery n u = (Inl (StorageUnavailable (show_nat n)), n + 1, ())"

theorem recovery_retry_budget_witness:
  "recover_with_policy (RecRetry None 20000000000) id failing_recovery 0 () =
     ((Inl (StorageUnavailable ''0''), 3, ()), [20000000000, 30000000000]) \<and>
   attempts_run 3 failing_recovery 0 () = (False, 3, ()) \<and>
   fst (failing_recovery 0 ()) = Inl (StorageUnavailable ''0'')"
proof -
  have delay: "next_delay 20000000000 = 30000000000" by (simp add: next_delay_def as_millis_def from_millis_def)
  have run: "recover_with_policy (RecRetry None 20000000000) id failing_recovery 0 () =
     ((Inl (StorageUnavailable ''0''), 3, ()), [20000000000, 30000000000])"
    using retry_loop.simps(2) [of "Suc 0" 20000000000 failing_recovery "StorageUnavailable ''0''" "Suc 0" "()"]
    by (simp add: recover_with_policy_def failing_recovery_def Let_def delay show_nat_small digit_char_def
        flip: numeral_2_eq_2)
  show ?thesis using recovery_retry_budget [OF run, of 3] run by simp
qed

end
