(* ===== verification/Channels.thy ===== *)
theory Channels
  imports Core_Types
begin

text \<open>
  The bounded channel of the tokio crate (\<^verbatim>\<open>tokio::sync::mpsc\<close>), which mailboxes, streams and the in-memory
  transport are built on. The crate is not part of the repository: a channel is a record of operations that the
  definitions of the components take as an argument, and \<open>mpsc_lawful\<close> states what its documentation promises.
  An asynchronous \<^verbatim>\<open>send\<close> that waits for room is a call that returns once there is room; an asynchronous receive
  returns once a value is there or, with no value left, once every sender is gone.
\<close>

datatype try_send_error = TrySendFull | TrySendClosed

record ('c, 'a) mpsc =
  mp_try_send :: "'c \<Rightarrow> 'a \<Rightarrow> (try_send_error + unit) \<times> 'c"
  mp_send :: "'c \<Rightarrow> 'a \<Rightarrow> bool \<times> 'c"
  mp_recv :: "'c \<Rightarrow> 'a option \<times> 'c"
  mp_close :: "'c \<Rightarrow> 'c"
  mp_is_closed :: "'c \<Rightarrow> bool"
  mp_max_capacity :: "'c \<Rightarrow> nat"
  mp_capacity :: "'c \<Rightarrow> nat"

text \<open>\<open>queued\<close> gives the values sent and not yet received, oldest first. A receiver that is gone (\<open>mp_close\<close>) makes
  every later send fail; a receive takes the oldest value.\<close>

definition try_send_law :: "('c, 'a) mpsc \<Rightarrow> ('c \<Rightarrow> 'a list) \<Rightarrow> bool" where
  "try_send_law ch queued \<longleftrightarrow> (\<forall>c a.
     if mp_is_closed ch c then mp_try_send ch c a = (Inl TrySendClosed, c)
     else if length (queued c) < mp_max_capacity ch c
     then \<exists>c'. mp_try_send ch c a = (Inr (), c') \<and> queued c' = queued c @ [a] \<and> \<not> mp_is_closed ch c' \<and>
            mp_max_capacity ch c' = mp_max_capacity ch c
     else mp_try_send ch c a = (Inl TrySendFull, c))"

definition send_law :: "('c, 'a) mpsc \<Rightarrow> ('c \<Rightarrow> 'a list) \<Rightarrow> bool" where
  "send_law ch queued \<longleftrightarrow> (\<forall>c a.
     if mp_is_closed ch c then mp_send ch c a = (False, c)
     else \<exists>c'. mp_send ch c a = (True, c') \<and> queued c' = queued c @ [a] \<and> \<not> mp_is_closed ch c' \<and>
            mp_max_capacity ch c' = mp_max_capacity ch c)"

definition recv_law :: "('c, 'a) mpsc \<Rightarrow> ('c \<Rightarrow> 'a list) \<Rightarrow> bool" where
  "recv_law ch queued \<longleftrightarrow> (\<forall>c.
     case queued c of
       [] \<Rightarrow> mp_recv ch c = (None, c)
     | a # q \<Rightarrow> \<exists>c'. mp_recv ch c = (Some a, c') \<and> queued c' = q \<and> mp_is_closed ch c' = mp_is_closed ch c \<and>
            mp_max_capacity ch c' = mp_max_capacity ch c)"

definition close_law :: "('c, 'a) mpsc \<Rightarrow> ('c \<Rightarrow> 'a list) \<Rightarrow> bool" where
  "close_law ch queued \<longleftrightarrow> (\<forall>c. mp_is_closed ch (mp_close ch c) \<and> queued (mp_close ch c) = [] \<and>
     mp_capacity ch c = mp_max_capacity ch c - length (queued c))"

definition mpsc_lawful :: "('c, 'a) mpsc \<Rightarrow> ('c \<Rightarrow> 'a list) \<Rightarrow> bool" where
  "mpsc_lawful ch queued \<longleftrightarrow> try_send_law ch queued \<and> send_law ch queued \<and> recv_law ch queued \<and> close_law ch queued"

lemma mpsc_closedD:
  assumes "mpsc_lawful ch queued" and "mp_is_closed ch c"
  shows "mp_try_send ch c a = (Inl TrySendClosed, c)" and "mp_send ch c a = (False, c)"
  using assms by (simp_all add: mpsc_lawful_def try_send_law_def send_law_def)

lemma mpsc_fullD:
  assumes "mpsc_lawful ch queued" and "\<not> mp_is_closed ch c" and "mp_max_capacity ch c \<le> length (queued c)"
  shows "mp_try_send ch c a = (Inl TrySendFull, c)"
  using assms by (simp add: mpsc_lawful_def try_send_law_def)

lemma mpsc_try_sendE:
  assumes "mpsc_lawful ch queued" and "\<not> mp_is_closed ch c" and "length (queued c) < mp_max_capacity ch c"
  obtains c' where "mp_try_send ch c a = (Inr (), c')" and "queued c' = queued c @ [a]"
    and "\<not> mp_is_closed ch c'" and "mp_max_capacity ch c' = mp_max_capacity ch c"
proof -
  have "\<exists>c'. mp_try_send ch c a = (Inr (), c') \<and> queued c' = queued c @ [a] \<and> \<not> mp_is_closed ch c' \<and>
      mp_max_capacity ch c' = mp_max_capacity ch c"
    using assms by (simp add: mpsc_lawful_def try_send_law_def)
  then show thesis using that by blast
qed

lemma mpsc_try_send_effect:
  assumes law: "mpsc_lawful ch queued" and y: "mp_try_send ch c a = (y, c')"
  shows "mp_is_closed ch c' = mp_is_closed ch c \<and> queued c' = queued c @ (if isl y then [] else [a]) \<and>
    mp_max_capacity ch c' = mp_max_capacity ch c"
proof -
  consider "mp_is_closed ch c" | "\<not> mp_is_closed ch c" "mp_max_capacity ch c \<le> length (queued c)"
    | "\<not> mp_is_closed ch c" "length (queued c) < mp_max_capacity ch c" by linarith
  then show ?thesis
  proof cases
    case 1
    then show ?thesis using mpsc_closedD(1) [OF law 1, of a] y by simp
  next
    case 2
    then show ?thesis using mpsc_fullD [OF law 2, of a] y by simp
  next
    case 3
    obtain d where "mp_try_send ch c a = (Inr (), d)" "queued d = queued c @ [a]" "\<not> mp_is_closed ch d"
        "mp_max_capacity ch d = mp_max_capacity ch c"
      using mpsc_try_sendE [OF law 3] by blast
    then show ?thesis using y 3 by simp
  qed
qed

lemma mpsc_sendE:
  assumes "mpsc_lawful ch queued" and "\<not> mp_is_closed ch c"
  obtains c' where "mp_send ch c a = (True, c')" and "queued c' = queued c @ [a]"
    and "\<not> mp_is_closed ch c'" and "mp_max_capacity ch c' = mp_max_capacity ch c"
proof -
  have "\<exists>c'. mp_send ch c a = (True, c') \<and> queued c' = queued c @ [a] \<and> \<not> mp_is_closed ch c' \<and>
      mp_max_capacity ch c' = mp_max_capacity ch c"
    using assms by (simp add: mpsc_lawful_def send_law_def)
  then show thesis using that by blast
qed

lemma mpsc_recv_NilD:
  assumes "mpsc_lawful ch queued" and "queued c = []"
  shows "mp_recv ch c = (None, c)"
  using assms by (simp add: mpsc_lawful_def recv_law_def split: list.splits)

lemma mpsc_recvE:
  assumes "mpsc_lawful ch queued" and "queued c = a # q"
  obtains c' where "mp_recv ch c = (Some a, c')" and "queued c' = q" and "mp_is_closed ch c' = mp_is_closed ch c"
    and "mp_max_capacity ch c' = mp_max_capacity ch c"
proof -
  have "recv_law ch queued" using assms(1) by (simp add: mpsc_lawful_def)
  then have "case queued c of [] \<Rightarrow> mp_recv ch c = (None, c)
      | a # q \<Rightarrow> \<exists>c'. mp_recv ch c = (Some a, c') \<and> queued c' = q \<and> mp_is_closed ch c' = mp_is_closed ch c \<and>
          mp_max_capacity ch c' = mp_max_capacity ch c"
    unfolding recv_law_def ..
  then show thesis using assms(2) that by auto
qed

lemma mpsc_closeD:
  assumes "mpsc_lawful ch queued"
  shows "mp_is_closed ch (mp_close ch c)" and "queued (mp_close ch c) = []"
    and "mp_capacity ch c = mp_max_capacity ch c - length (queued c)"
  using assms by (simp_all add: mpsc_lawful_def close_law_def)

text \<open>A channel that keeps its values in a list shows that the laws can hold.\<close>

datatype 'a list_channel = ListChannel (lc_items: "'a list") (lc_max: nat) (lc_closed: bool)

definition list_mpsc :: "('a list_channel, 'a) mpsc" where
  "list_mpsc = \<lparr>
     mp_try_send = (\<lambda>c a. if lc_closed c then (Inl TrySendClosed, c)
       else if length (lc_items c) < lc_max c then (Inr (), ListChannel (lc_items c @ [a]) (lc_max c) False)
       else (Inl TrySendFull, c)),
     mp_send = (\<lambda>c a. if lc_closed c then (False, c) else (True, ListChannel (lc_items c @ [a]) (lc_max c) False)),
     mp_recv = (\<lambda>c. case lc_items c of [] \<Rightarrow> (None, c) | a # q \<Rightarrow> (Some a, ListChannel q (lc_max c) (lc_closed c))),
     mp_close = (\<lambda>c. ListChannel [] (lc_max c) True),
     mp_is_closed = lc_closed, mp_max_capacity = lc_max, mp_capacity = (\<lambda>c. lc_max c - length (lc_items c))\<rparr>"

lemma list_mpsc_lawful: "mpsc_lawful list_mpsc lc_items"
  by (auto simp: mpsc_lawful_def try_send_law_def send_law_def recv_law_def close_law_def list_mpsc_def split: list.splits)

end
