(* ===== verification/Pool.thy ===== *)
theory Pool
  imports Channels
begin

text \<open>
  Actor references (the \<^verbatim>\<open>ActorRef\<close> trait of \<^verbatim>\<open>dactor/src/actor.rs\<close>) and the actor pool of
  \<^verbatim>\<open>dactor/src/pool.rs\<close>. A reference implementation is a record of the trait's methods over a state \<open>'w\<close> of the
  world (mailboxes, running actors). A pool's shared counter is a field of the pool; methods return the changed pool. A
  panic is the value \<open>None\<close>.
\<close>

section \<open>Actor references\<close>

type_synonym cancel_token = nat

record batch_config =
  bc_max_items :: nat
  bc_max_delay :: duration

record ('w, 'r, 'm, 'a, 's) actor_ref =
  ref_id :: "'r \<Rightarrow> actor_id"
  ref_name :: "'r \<Rightarrow> string"
  ref_is_alive :: "'w \<Rightarrow> 'r \<Rightarrow> bool"
  ref_pending_messages :: "'w \<Rightarrow> 'r \<Rightarrow> nat"
  ref_stop :: "'w \<Rightarrow> 'r \<Rightarrow> 'w"
  ref_tell :: "'w \<Rightarrow> 'r \<Rightarrow> 'm \<Rightarrow> (actor_send_error + unit) \<times> 'w"
  ref_ask :: "'w \<Rightarrow> 'r \<Rightarrow> 'm \<Rightarrow> cancel_token option \<Rightarrow> (actor_send_error + 'a) \<times> 'w"
  ref_expand :: "'w \<Rightarrow> 'r \<Rightarrow> 'm \<Rightarrow> nat \<Rightarrow> batch_config option \<Rightarrow> cancel_token option \<Rightarrow> (actor_send_error + 's) \<times> 'w"
  ref_reduce :: "'w \<Rightarrow> 'r \<Rightarrow> 's \<Rightarrow> nat \<Rightarrow> batch_config option \<Rightarrow> cancel_token option \<Rightarrow> (actor_send_error + 'a) \<times> 'w"
  ref_transform :: "'w \<Rightarrow> 'r \<Rightarrow> 's \<Rightarrow> nat \<Rightarrow> batch_config option \<Rightarrow> cancel_token option \<Rightarrow> (actor_send_error + 's) \<times> 'w"

section \<open>Routing\<close>

datatype pool_routing = RoundRobin | Random | KeyBased | LeastLoaded

record 'r pool_ref =
  pl_workers :: "'r list"
  pl_routing :: pool_routing
  pl_counter :: u64
  pl_pool_id :: u64
  pl_name :: string

text \<open>The constructor draws the pool id from the global counter, whose next value it returns too.\<close>

definition pool_new :: "('w, 'r, 'm, 'a, 's) actor_ref \<Rightarrow> u64 \<Rightarrow> 'r list \<Rightarrow> pool_routing \<Rightarrow> ('r pool_ref \<times> u64) option" where
  "pool_new R next_pool_id workers routing =
     (if workers = [] then None
      else Some (\<lparr>pl_workers = workers, pl_routing = routing, pl_counter = 0, pl_pool_id = next_pool_id,
                  pl_name = ''pool('' @ ref_name R (workers ! 0) @ '')''\<rparr>, next_pool_id + 1))"

definition pool_size :: "'r pool_ref \<Rightarrow> nat" where
  "pool_size p = length (pl_workers p)"

definition round_robin_index :: "'r pool_ref \<Rightarrow> nat \<times> 'r pool_ref" where
  "round_robin_index p =
     (unat (pl_counter p mod of_nat (length (pl_workers p))), p\<lparr>pl_counter := pl_counter p + 1\<rparr>)"

definition splitmix64 :: "u64 \<Rightarrow> u64" where
  "splitmix64 x0 =
     (let x1 = x0 + 0x9e3779b97f4a7c15;
          x2 = xor x1 (drop_bit 30 x1) * 0xbf58476d1ce4e5b9;
          x3 = xor x2 (drop_bit 27 x2) * 0x94d049bb133111eb
      in xor x3 (drop_bit 31 x3))"

definition random_index :: "'r pool_ref \<Rightarrow> nat \<times> 'r pool_ref" where
  "random_index p =
     (unat (splitmix64 (pl_counter p) mod of_nat (length (pl_workers p))), p\<lparr>pl_counter := pl_counter p + 1\<rparr>)"

definition keyed_index :: "'r pool_ref \<Rightarrow> u64 \<Rightarrow> nat" where
  "keyed_index p key = unat (key mod of_nat (length (pl_workers p)))"

fun iter_min :: "nat list \<Rightarrow> nat option" where
  "iter_min [] = None"
| "iter_min (x # xs) = Some (case iter_min xs of None \<Rightarrow> x | Some y \<Rightarrow> min x y)"

text \<open>The loads are read twice, without synchronization: \<open>w1\<close> is the world at the first pass, \<open>w2\<close> at the second. The
  remainder by an empty list of candidates panics.\<close>

definition min_load :: "('w, 'r, 'm, 'a, 's) actor_ref \<Rightarrow> 'w \<Rightarrow> 'r list \<Rightarrow> nat" where
  "min_load R w workers = (case iter_min (map (ref_pending_messages R w) workers) of Some m \<Rightarrow> m | None \<Rightarrow> 0)"

definition least_loaded_index ::
  "('w, 'r, 'm, 'a, 's) actor_ref \<Rightarrow> 'w \<Rightarrow> 'w \<Rightarrow> 'r pool_ref \<Rightarrow> nat option \<times> 'r pool_ref" where
  "least_loaded_index R w1 w2 p =
     (let m = min_load R w1 (pl_workers p);
          candidates = filter (\<lambda>i. ref_pending_messages R w2 (pl_workers p ! i) = m) [0..<length (pl_workers p)]
      in if length candidates = 1 then (Some (candidates ! 0), p)
         else (if candidates = [] then None else Some (candidates ! (unat (pl_counter p) mod length candidates)),
               p\<lparr>pl_counter := pl_counter p + 1\<rparr>))"

definition pool_select_worker ::
  "('w, 'r, 'm, 'a, 's) actor_ref \<Rightarrow> 'w \<Rightarrow> 'w \<Rightarrow> 'r pool_ref \<Rightarrow> nat option \<times> 'r pool_ref" where
  "pool_select_worker R w1 w2 p =
     (case pl_routing p of
        RoundRobin \<Rightarrow> (case round_robin_index p of (i, p') \<Rightarrow> (Some i, p'))
      | KeyBased \<Rightarrow> (case round_robin_index p of (i, p') \<Rightarrow> (Some i, p'))
      | Random \<Rightarrow> (case random_index p of (i, p') \<Rightarrow> (Some i, p'))
      | LeastLoaded \<Rightarrow> least_loaded_index R w1 w2 p)"

text \<open>Every forwarding method selects a worker and calls the same method on it.\<close>

definition pool_forward ::
  "('w, 'r, 'm, 'a, 's) actor_ref \<Rightarrow> 'w \<Rightarrow> 'w \<Rightarrow> 'r pool_ref \<Rightarrow> ('w \<Rightarrow> 'r \<Rightarrow> 'x \<times> 'w) \<Rightarrow> 'x option \<times> 'r pool_ref \<times> 'w" where
  "pool_forward R w1 w2 p call =
     (case pool_select_worker R w1 w2 p of
        (None, p') \<Rightarrow> (None, p', w2)
      | (Some i, p') \<Rightarrow> (case call w2 (pl_workers p ! i) of (x, w3) \<Rightarrow> (Some x, p', w3)))"

definition pool_tell where
  "pool_tell R w1 w2 p msg = pool_forward R w1 w2 p (\<lambda>w r. ref_tell R w r msg)"

definition pool_ask where
  "pool_ask R w1 w2 p msg cancel = pool_forward R w1 w2 p (\<lambda>w r. ref_ask R w r msg cancel)"

definition pool_expand where
  "pool_expand R w1 w2 p msg buffer batch cancel = pool_forward R w1 w2 p (\<lambda>w r. ref_expand R w r msg buffer batch cancel)"

definition pool_reduce where
  "pool_reduce R w1 w2 p input buffer batch cancel = pool_forward R w1 w2 p (\<lambda>w r. ref_reduce R w r input buffer batch cancel)"

definition pool_transform where
  "pool_transform R w1 w2 p input buffer batch cancel =
     pool_forward R w1 w2 p (\<lambda>w r. ref_transform R w r input buffer batch cancel)"

definition pool_tell_keyed ::
  "('w, 'r, 'm, 'a, 's) actor_ref \<Rightarrow> ('m \<Rightarrow> u64) \<Rightarrow> 'w \<Rightarrow> 'r pool_ref \<Rightarrow> 'm \<Rightarrow> (actor_send_error + unit) \<times> 'w" where
  "pool_tell_keyed R routing_key w p msg = ref_tell R w (pl_workers p ! keyed_index p (routing_key msg)) msg"

definition pool_ask_keyed ::
  "('w, 'r, 'm, 'a, 's) actor_ref \<Rightarrow> ('m \<Rightarrow> u64) \<Rightarrow> 'w \<Rightarrow> 'r pool_ref \<Rightarrow> 'm \<Rightarrow> cancel_token option
    \<Rightarrow> (actor_send_error + 'a) \<times> 'w" where
  "pool_ask_keyed R routing_key w p msg cancel = ref_ask R w (pl_workers p ! keyed_index p (routing_key msg)) msg cancel"

definition pool_id :: "'r pool_ref \<Rightarrow> actor_id" where
  "pool_id p = ActorId (NodeId ''pool'') (pl_pool_id p)"

definition pool_is_alive :: "('w, 'r, 'm, 'a, 's) actor_ref \<Rightarrow> 'w \<Rightarrow> 'r pool_ref \<Rightarrow> bool" where
  "pool_is_alive R w p = list_ex (ref_is_alive R w) (pl_workers p)"

definition pool_stop :: "('w, 'r, 'm, 'a, 's) actor_ref \<Rightarrow> 'w \<Rightarrow> 'r pool_ref \<Rightarrow> 'w" where
  "pool_stop R w p = foldl (ref_stop R) w (pl_workers p)"

section \<open>Lemmas\<close>

text \<open>A pool has a worker, and no more than a machine word counts.\<close>

definition pool_wf :: "'r pool_ref \<Rightarrow> bool" where
  "pool_wf p \<longleftrightarrow> pl_workers p \<noteq> [] \<and> length (pl_workers p) < 2 ^ 64"

lemma unat_mod_length:
  assumes "n < 2 ^ 64"
  shows "unat ((x :: u64) mod of_nat n) = unat x mod n"
  using assms by (simp add: unat_mod unat_of_nat)

lemma iter_min_Some: "xs \<noteq> [] \<Longrightarrow> iter_min xs = Some (Min (set xs))"
proof (induction xs)
  case (Cons x xs)
  then show ?case by (cases "xs = []") simp_all
qed simp

lemma min_load_Min: "workers \<noteq> [] \<Longrightarrow> min_load R w workers = Min (ref_pending_messages R w ` set workers)"
  by (simp add: min_load_def iter_min_Some)

lemma least_loaded_cases:
  assumes "least_loaded_index R w1 w2 p = (r, p')"
  shows "case r of
      None \<Rightarrow> \<forall>i < length (pl_workers p). ref_pending_messages R w2 (pl_workers p ! i) \<noteq> min_load R w1 (pl_workers p)
    | Some i \<Rightarrow> i < length (pl_workers p) \<and> ref_pending_messages R w2 (pl_workers p ! i) = min_load R w1 (pl_workers p)"
proof -
  define c where "c = filter (\<lambda>i. ref_pending_messages R w2 (pl_workers p ! i) = min_load R w1 (pl_workers p)) [0..<length (pl_workers p)]"
  have mem: "i \<in> set c \<longleftrightarrow> i < length (pl_workers p) \<and> ref_pending_messages R w2 (pl_workers p ! i) = min_load R w1 (pl_workers p)"
    for i by (auto simp: c_def)
  have r: "r = (if length c = 1 then Some (c ! 0) else if c = [] then None else Some (c ! (unat (pl_counter p) mod length c)))"
    using assms by (auto simp: least_loaded_index_def Let_def c_def [symmetric] split: if_splits)
  show ?thesis
  proof (cases "c = []")
    case True
    then show ?thesis using r mem by auto
  next
    case False
    then have "c ! 0 \<in> set c" "c ! (unat (pl_counter p) mod length c) \<in> set c" by simp_all
    then show ?thesis using r False mem by auto
  qed
qed

lemma pool_select_keeps:
  assumes "pool_select_worker R w1 w2 p = (r, p')"
  shows "pl_workers p' = pl_workers p" and "pl_routing p' = pl_routing p"
  using assms by (auto simp: pool_select_worker_def round_robin_index_def random_index_def least_loaded_index_def Let_def
      split: pool_routing.splits if_splits)

lemma pool_select_range:
  assumes "pool_wf p" and "pool_select_worker R w1 w2 p = (Some i, p')"
  shows "i < length (pl_workers p)"
proof (cases "pl_routing p = LeastLoaded")
  case True
  then show ?thesis using assms(2) least_loaded_cases [of R w1 w2 p "Some i" p'] by (simp add: pool_select_worker_def)
next
  case False
  then show ?thesis using assms
    by (auto simp: pool_select_worker_def pool_wf_def round_robin_index_def random_index_def unat_mod_length
        split: pool_routing.splits)
qed

text \<open>The steps of the mixing function are undone one by one: a shifted exclusive or by two more shifts, a multiplication by
  the inverse of the odd factor.\<close>

definition unshift :: "nat \<Rightarrow> u64 \<Rightarrow> u64" where
  "unshift k y = xor (xor y (drop_bit k y)) (drop_bit (k + k) y)"

definition splitmix64_inv :: "u64 \<Rightarrow> u64" where
  "splitmix64_inv y =
     (let x3 = unshift 31 y;
          x2 = unshift 27 (x3 * 0x319642b2d24d8ec3);
          x1 = unshift 30 (x2 * 0x96de1b173f119089)
      in x1 - 0x9e3779b97f4a7c15)"

lemma unshift_shift:
  assumes "64 \<le> k + k + k"
  shows "unshift k (xor x (drop_bit k x)) = x"
proof (rule bit_word_eqI)
  fix n assume "n < LENGTH(64)"
  have "\<not> bit x (k + (k + (k + n)))" using assms bit_imp_le_length [of x "k + (k + (k + n))"] by auto
  then show "bit (unshift k (xor x (drop_bit k x))) n = bit x n"
    by (auto simp: unshift_def bit_simps ac_simps)
qed

lemma shift_unshift:
  assumes "64 \<le> k + k + k"
  shows "xor (unshift k y) (drop_bit k (unshift k y)) = y"
proof (rule bit_word_eqI)
  fix n assume "n < LENGTH(64)"
  have "\<not> bit y (k + (k + (k + n)))" using assms bit_imp_le_length [of y "k + (k + (k + n))"] by auto
  then show "bit (xor (unshift k y) (drop_bit k (unshift k y))) n = bit y n"
    by (auto simp: unshift_def bit_simps ac_simps)
qed

lemma mult_cancel_inverse:
  assumes "(a :: u64) * b = 1"
  shows "x * a * b = x" "x * b * a = x"
  using assms by (metis mult.assoc mult_1_right, metis mult.assoc mult.commute mult_1_right)

lemma mult_undo:
  "(x :: u64) * 0xbf58476d1ce4e5b9 * 0x96de1b173f119089 = x" "(x :: u64) * 0x96de1b173f119089 * 0xbf58476d1ce4e5b9 = x"
  "(x :: u64) * 0x94d049bb133111eb * 0x319642b2d24d8ec3 = x" "(x :: u64) * 0x319642b2d24d8ec3 * 0x94d049bb133111eb = x"
  by (rule mult_cancel_inverse, simp)+

lemmas splitmix64_steps = splitmix64_def splitmix64_inv_def Let_def mult_undo add_diff_cancel_right' diff_add_cancel

lemma splitmix64_inv_left: "splitmix64_inv (splitmix64 x) = x"
proof -
  have "64 \<le> 30 + 30 + (30 :: nat)" "64 \<le> 27 + 27 + (27 :: nat)" "64 \<le> 31 + 31 + (31 :: nat)" by simp_all
  note this [THEN unshift_shift]
  then show ?thesis by (simp only: splitmix64_steps)
qed

lemma splitmix64_inv_right: "splitmix64 (splitmix64_inv y) = y"
proof -
  have "64 \<le> 30 + 30 + (30 :: nat)" "64 \<le> 27 + 27 + (27 :: nat)" "64 \<le> 31 + 31 + (31 :: nat)" by simp_all
  note this [THEN shift_unshift]
  then show ?thesis by (simp only: splitmix64_steps)
qed

text \<open>The workers that a run of selections picks, in a world that may change between any two reads of the loads.\<close>

fun pool_picks :: "('w, 'r, 'm, 'a, 's) actor_ref \<Rightarrow> ('w \<times> 'w) list \<Rightarrow> 'r pool_ref \<Rightarrow> nat option list \<times> 'r pool_ref" where
  "pool_picks R [] p = ([], p)"
| "pool_picks R (w # ws) p =
     (case pool_select_worker R (fst w) (snd w) p of (i, p1) \<Rightarrow>
      case pool_picks R ws p1 of (is, p2) \<Rightarrow> (i # is, p2))"

lemma round_robin_picks:
  assumes "pl_routing p \<in> {RoundRobin, KeyBased}" and "length (pl_workers p) < 2 ^ 64"
    and "unat (pl_counter p) + length ws \<le> 2 ^ 64"
  shows "fst (pool_picks R ws p) = map (\<lambda>j. Some ((unat (pl_counter p) + j) mod length (pl_workers p))) [0..<length ws]"
  using assms
proof (induction ws arbitrary: p)
  case (Cons w ws)
  define q where "q = p\<lparr>pl_counter := pl_counter p + 1\<rparr>"
  have sel: "pool_select_worker R (fst w) (snd w) p = (Some (unat (pl_counter p) mod length (pl_workers p)), q)"
    using Cons.prems(1,2) by (auto simp: pool_select_worker_def round_robin_index_def unat_mod_length q_def)
  show ?case
  proof (cases "ws = []")
    case True
    then show ?thesis using sel by simp
  next
    case False
    then have "unat (pl_counter p) + 1 < 2 ^ 64" using Cons.prems(3) by (cases ws) auto
    then have c: "unat (pl_counter p + 1) = unat (pl_counter p) + 1" by (simp add: unat_word_ariths)
    have "fst (pool_picks R ws q) = map (\<lambda>j. Some ((unat (pl_counter p) + Suc j) mod length (pl_workers p))) [0..<length ws]"
      using Cons.IH [of q] Cons.prems c by (auto simp: q_def)
    moreover have "[0..<Suc (length ws)] = 0 # map Suc [0..<length ws]" by (simp add: map_Suc_upt upt_conv_Cons del: upt_Suc)
    ultimately show ?thesis using sel by (simp add: split_beta)
  qed
qed simp

lemma residue_eq:
  assumes "(a + i) mod n = (a + j) mod n" and "i < n" and "j < n"
  shows "i = (j :: nat)"
proof -
  have le: "i = j" if "i \<le> j" "(a + j) mod n = (a + i) mod n" "j < n" for i j :: nat
  proof -
    have "n dvd (a + j) - (a + i)" using that by (metis mod_eq_dvd_iff_nat nat_add_left_cancel_le)
    then show ?thesis using that(1,3) by (metis add_diff_cancel_left diff_is_0_eq dual_order.antisym le_neq_implies_less less_imp_diff_less nat_dvd_not_less zero_less_diff)
  qed
  show ?thesis using assms le [of i j] le [of j i] by (cases "i \<le> j") auto
qed

lemma count_list_distinct: "distinct xs \<Longrightarrow> x \<in> set xs \<Longrightarrow> count_list xs x = 1"
  by (induction xs) (auto simp: count_list_0_iff)

lemma count_list_map_Some: "count_list (map Some xs) (Some x) = count_list xs x"
  by (induction xs) auto

lemma residues_once:
  assumes "i < n"
  shows "count_list (map (\<lambda>j. (a + j) mod n) [0..<n]) i = 1"
proof -
  have d: "distinct (map (\<lambda>j. (a + j) mod n) [0..<n])" by (auto simp: distinct_map inj_on_def intro: residue_eq)
  have "card (set (map (\<lambda>j. (a + j) mod n) [0..<n])) = card {0..<n}" using distinct_card [OF d] by simp
  moreover have "set (map (\<lambda>j. (a + j) mod n) [0..<n]) \<subseteq> {0..<n}" using assms by auto
  ultimately have "set (map (\<lambda>j. (a + j) mod n) [0..<n]) = {0..<n}" by (intro card_subset_eq) simp_all
  then have "i \<in> set (map (\<lambda>j. (a + j) mod n) [0..<n])" using assms by simp
  then show ?thesis using d count_list_distinct by metis
qed

lemma residues_count:
  assumes "i < n"
  shows "count_list (map (\<lambda>j. (a + j) mod n) [0..<k * n]) i = k"
proof (induction k)
  case (Suc k)
  have "[0..<Suc k * n] = [0..<k * n] @ map (\<lambda>j. k * n + j) [0..<n]"
    using upt_add_eq_append [of 0 "k * n" n] map_add_upt [of "k * n" n] by (simp add: add.commute)
  then have "map (\<lambda>j. (a + j) mod n) [0..<Suc k * n] =
      map (\<lambda>j. (a + j) mod n) [0..<k * n] @ map (\<lambda>j. (a + k * n + j) mod n) [0..<n]"
    by (simp add: add.assoc)
  then show ?case using Suc residues_once [OF assms, of "a + k * n"] by simp
qed simp

text \<open>A run of tells on a pool, in a world that the workers change between any two readings of the loads, and the same tells made to given workers.\<close>

fun pool_tells ::
  "('w, 'r, 'm, 'a, 's) actor_ref \<Rightarrow> (('w \<Rightarrow> 'w) \<times> ('w \<Rightarrow> 'w) \<times> 'm) list \<Rightarrow> 'r pool_ref \<Rightarrow> 'w
    \<Rightarrow> (actor_send_error + unit) option list \<times> 'r pool_ref \<times> 'w" where
  "pool_tells R [] p w = ([], p, w)"
| "pool_tells R ((f, g, msg) # xs) p w =
     (case pool_tell R (f w) (g (f w)) p msg of (x, p1, w1) \<Rightarrow>
      case pool_tells R xs p1 w1 of (rs, s) \<Rightarrow> (x # rs, s))"

fun worker_tells ::
  "('w, 'r, 'm, 'a, 's) actor_ref \<Rightarrow> (('w \<Rightarrow> 'w) \<times> ('w \<Rightarrow> 'w) \<times> 'm) list \<Rightarrow> 'r list \<Rightarrow> 'w \<Rightarrow> (actor_send_error + unit) list \<times> 'w" where
  "worker_tells R ((f, g, msg) # xs) (r # workers) w =
     (case ref_tell R (g (f w)) r msg of (x, w1) \<Rightarrow> case worker_tells R xs workers w1 of (rs, w2) \<Rightarrow> (x # rs, w2))"
| "worker_tells R _ _ w = ([], w)"

definition rotation :: "'r pool_ref \<Rightarrow> nat \<Rightarrow> nat list" where
  "rotation p m = map (\<lambda>j. (unat (pl_counter p) + j) mod length (pl_workers p)) [0..<m]"

lemma rotation_Suc:
  assumes "m = 0 \<or> unat (pl_counter p) + 1 < 2 ^ 64"
  shows "rotation p (Suc m) = (unat (pl_counter p) mod length (pl_workers p)) # rotation (p\<lparr>pl_counter := pl_counter p + 1\<rparr>) m"
proof (cases "m = 0")
  case False
  then have "unat (pl_counter p + 1) = unat (pl_counter p) + 1" using assms by (simp add: unat_word_ariths)
  then show ?thesis by (simp add: rotation_def map_upt_Suc del: upt_Suc)
qed (simp add: rotation_def)

lemma round_robin_tells:
  assumes "pl_routing p \<in> {RoundRobin, KeyBased}" and "length (pl_workers p) < 2 ^ 64" and "unat (pl_counter p) + length xs \<le> 2 ^ 64"
    and "pool_tells R xs p w = (rs, p', w')"
  shows "worker_tells R xs (map ((!) (pl_workers p)) (rotation p (length xs))) w = (map the rs, w') \<and> None \<notin> set rs \<and>
    pl_workers p' = pl_workers p"
  using assms
proof (induction xs arbitrary: p w rs)
  case (Cons x xs)
  obtain f g msg where x: "x = (f, g, msg)" by (rule prod_cases3)
  define q where "q = p\<lparr>pl_counter := pl_counter p + 1\<rparr>"
  let ?i = "unat (pl_counter p) mod length (pl_workers p)"
  obtain y w1 where y: "ref_tell R (g (f w)) (pl_workers p ! ?i) msg = (y, w1)" by force
  have "pool_select_worker R (f w) (g (f w)) p = (Some ?i, q)"
    using Cons.prems(1,2) by (auto simp: pool_select_worker_def round_robin_index_def unat_mod_length q_def)
  then have "pool_tell R (f w) (g (f w)) p msg = (Some y, q, w1)" using y by (simp add: pool_tell_def pool_forward_def)
  then obtain rs1 where rs1: "pool_tells R xs q w1 = (rs1, p', w')" "rs = Some y # rs1"
    using Cons.prems(4) x by (auto split: prod.splits)
  have lt: "xs = [] \<or> unat (pl_counter p) + 1 < 2 ^ 64" using Cons.prems(3) by (cases xs) auto
  then have "unat (pl_counter q) + length xs \<le> 2 ^ 64" if "xs \<noteq> []"
    using that Cons.prems(3) by (auto simp: q_def unat_word_ariths)
  moreover have "unat (pl_counter q) \<le> 2 ^ 64" using unsigned_less [of "pl_counter q", where ?'a = nat] by simp
  ultimately have "unat (pl_counter q) + length xs \<le> 2 ^ 64" by (cases "xs = []") simp_all
  then have IH: "worker_tells R xs (map ((!) (pl_workers q)) (rotation q (length xs))) w1 = (map the rs1, w') \<and> None \<notin> set rs1 \<and>
      pl_workers p' = pl_workers q"
    using Cons.IH [of q w1 rs1] Cons.prems(1,2) rs1(1) by (simp add: q_def)
  have "rotation p (length (x # xs)) = ?i # rotation q (length xs)"
    using rotation_Suc [of "length xs" p] lt by (auto simp: q_def)
  then show ?case using IH x y rs1(2) by (simp add: q_def)
qed simp

section \<open>Properties\<close>

text \<open>Round-robin routing is fair: with \<open>n\<close> workers, any \<open>k * n\<close> selections in a row pick every worker exactly \<open>k\<close>
  times, whatever the loads, as long as the shared counter does not run over the 64-bit range; key-based pools route
  messages without a key the same way.\<close>

theorem pool_round_robin_fair:
  assumes "pool_wf p" and "pl_routing p \<in> {RoundRobin, KeyBased}" and "length ws = k * length (pl_workers p)"
    and "unat (pl_counter p) + length ws \<le> 2 ^ 64" and "i < length (pl_workers p)"
  shows "count_list (fst (pool_picks R ws p)) (Some i) = k"
proof -
  have "fst (pool_picks R ws p) = map Some (map (\<lambda>j. (unat (pl_counter p) + j) mod length (pl_workers p)) [0..<length ws])"
    using round_robin_picks [OF assms(2) _ assms(4), of R] assms(1) by (simp add: pool_wf_def comp_def)
  then show ?thesis
    using residues_count [OF assms(5), of "unat (pl_counter p)" k] assms(3) by (simp add: count_list_map_Some del: map_map)
qed

text \<open>Workers named by numbers, in a world that gives their loads and records what they were sent.\<close>

definition sample_refs :: "((nat \<Rightarrow> nat) \<times> (nat \<times> string) list, nat, string, unit, unit) actor_ref" where
  "sample_refs = \<lparr>ref_id = (\<lambda>r. ActorId (NodeId ''n'') (of_nat r)), ref_name = (\<lambda>r. ''w'' @ show_nat r),
     ref_is_alive = (\<lambda>_ _. True), ref_pending_messages = (\<lambda>w r. fst w r), ref_stop = (\<lambda>w _. w),
     ref_tell = (\<lambda>(l, sent) r m. (Inr (), (l, sent @ [(r, m)]))), ref_ask = (\<lambda>w _ _ _. (Inr (), w)),
     ref_expand = (\<lambda>w _ _ _ _ _. (Inr (), w)), ref_reduce = (\<lambda>w _ _ _ _ _. (Inr (), w)),
     ref_transform = (\<lambda>w _ _ _ _ _. (Inr (), w))\<rparr>"

definition sample_pool :: "pool_routing \<Rightarrow> nat pool_ref" where
  "sample_pool routing = \<lparr>pl_workers = [0, 1, 2], pl_routing = routing, pl_counter = 0, pl_pool_id = 1, pl_name = ''pool(w0)''\<rparr>"

text \<open>C39. Round-robin routing spreads tells evenly. A run of tells through a well-formed round-robin (or key-based) pool, with workers that run in
  between, is exactly the run of the same tells on its workers in rotation, with the same results and the same effect on the workers, and none
  panics, as long as the shared counter does not run over the 64-bit range; when the run is \<open>k\<close> times as long as the pool, every worker gets
  exactly \<open>k\<close> of them.\<close>

theorem pool_tells_rotate:
  assumes "pool_wf p" and "pl_routing p \<in> {RoundRobin, KeyBased}" and "unat (pl_counter p) + length xs \<le> 2 ^ 64"
    and "pool_tells R xs p w = (rs, p', w')"
  shows "worker_tells R xs (map ((!) (pl_workers p)) (rotation p (length xs))) w = (map the rs, w') \<and> None \<notin> set rs \<and>
    (\<forall>k i. length xs = k * pool_size p \<and> i < pool_size p \<longrightarrow> count_list (rotation p (length xs)) i = k)"
proof -
  have "length (pl_workers p) < 2 ^ 64" using assms(1) by (simp add: pool_wf_def)
  from round_robin_tells [OF assms(2) this assms(3,4)] show ?thesis
    using residues_count [of _ "length (pl_workers p)" "unat (pl_counter p)"] by (auto simp: rotation_def pool_size_def)
qed

theorem pool_tells_rotate_witness:
  "let xs = [(id, id, ''a''), (id, id, ''b''), (id, id, ''c''), (id, id, ''d'')]; w = (\<lambda>_. 0, [])
   in snd (snd (snd (pool_tells sample_refs xs (sample_pool RoundRobin) w))) = [(0, ''a''), (1, ''b''), (2, ''c''), (0, ''d'')] \<and>
      snd (worker_tells sample_refs xs [0, 1, 2, 0] w) = snd (snd (pool_tells sample_refs xs (sample_pool RoundRobin) w))"
proof -
  let ?xs = "[(id, id, ''a''), (id, id, ''b''), (id, id, ''c''), (id, id, ''d'')]"
  let ?w = "(\<lambda>_. 0, []) :: (nat \<Rightarrow> nat) \<times> (nat \<times> string) list"
  obtain rs p' w' where run: "pool_tells sample_refs ?xs (sample_pool RoundRobin) ?w = (rs, p', w')" by (rule prod_cases3)
  have wf: "pool_wf (sample_pool RoundRobin)" "pl_routing (sample_pool RoundRobin) \<in> {RoundRobin, KeyBased}"
    "unat (pl_counter (sample_pool RoundRobin)) + length ?xs \<le> 2 ^ 64" by (simp_all add: pool_wf_def sample_pool_def)
  have rot: "map ((!) (pl_workers (sample_pool RoundRobin))) (rotation (sample_pool RoundRobin) (length ?xs)) = [0, 1, 2, 0]" by code_simp
  have log: "snd (snd (snd (pool_tells sample_refs ?xs (sample_pool RoundRobin) ?w))) = [(0, ''a''), (1, ''b''), (2, ''c''), (0, ''d'')]" by code_simp
  from pool_tells_rotate [OF wf run] rot run log show ?thesis by (simp add: Let_def del: pool_tells.simps worker_tells.simps)
qed

text \<open>The least-loaded strategy sends to a worker whose load at the second reading is the minimum of the first reading. In a
  world that does not change in between it always finds one, and no worker has a smaller load. If every load moved
  away from that minimum in between, there is no candidate and the selection panics.\<close>

theorem pool_least_loaded:
  assumes "pool_wf p" and "pl_routing p = LeastLoaded" and "pool_select_worker R w1 w2 p = (r, p')"
  shows "(r = None \<longleftrightarrow> (\<forall>i < pool_size p. ref_pending_messages R w2 (pl_workers p ! i) \<noteq> min_load R w1 (pl_workers p))) \<and>
    (w1 = w2 \<longrightarrow> (\<exists>i < pool_size p. r = Some i \<and>
      (\<forall>j < pool_size p. ref_pending_messages R w2 (pl_workers p ! i) \<le> ref_pending_messages R w2 (pl_workers p ! j))))"
proof -
  have sel: "least_loaded_index R w1 w2 p = (r, p')" using assms(2,3) by (simp add: pool_select_worker_def)
  note c = least_loaded_cases [OF sel]
  have ne: "pl_workers p \<noteq> []" using assms(1) by (simp add: pool_wf_def)
  have first: "r = None \<longleftrightarrow> (\<forall>i < pool_size p. ref_pending_messages R w2 (pl_workers p ! i) \<noteq> min_load R w1 (pl_workers p))"
    using c by (cases r) (auto simp: pool_size_def)
  have "min_load R w2 (pl_workers p) \<in> ref_pending_messages R w2 ` set (pl_workers p)"
    using min_load_Min [OF ne, of R w2] ne by (metis Min_in finite_imageI finite_set image_is_empty set_empty)
  then have "\<exists>i < pool_size p. ref_pending_messages R w2 (pl_workers p ! i) = min_load R w2 (pl_workers p)"
    by (auto simp: pool_size_def in_set_conv_nth)
  moreover have "min_load R w2 (pl_workers p) \<le> ref_pending_messages R w2 (pl_workers p ! j)" if "j < pool_size p" for j
    using that min_load_Min [OF ne, of R w2] by (simp add: pool_size_def)
  ultimately have "\<exists>i < pool_size p. r = Some i \<and>
      (\<forall>j < pool_size p. ref_pending_messages R w2 (pl_workers p ! i) \<le> ref_pending_messages R w2 (pl_workers p ! j))" if "w1 = w2"
    using that first c by (cases r) (auto simp: pool_size_def)
  then show ?thesis using first by blast
qed

theorem pool_least_loaded_witness:
  "let quiet = (\<lambda>r. [4, 2, 7] ! r, []); busy = (\<lambda>r. [4, 3, 7] ! r, []) in
   fst (pool_select_worker sample_refs quiet quiet (sample_pool LeastLoaded)) = Some 1 \<and>
   fst (pool_select_worker sample_refs quiet busy (sample_pool LeastLoaded)) = None"
proof -
  let ?quiet = "(\<lambda>r. [4, 2, 7] ! r, []) :: (nat \<Rightarrow> nat) \<times> (nat \<times> string) list"
  let ?busy = "(\<lambda>r. [4, 3, 7] ! r, []) :: (nat \<Rightarrow> nat) \<times> (nat \<times> string) list"
  have wf: "pool_wf (sample_pool LeastLoaded)" "pl_routing (sample_pool LeastLoaded) = LeastLoaded"
    by (simp_all add: pool_wf_def sample_pool_def)
  have m: "min_load sample_refs ?quiet (pl_workers (sample_pool LeastLoaded)) = 2" by code_simp
  have "fst (pool_select_worker sample_refs ?quiet ?busy (sample_pool LeastLoaded)) = None"
    using pool_least_loaded [OF wf prod.collapse [symmetric], of sample_refs ?quiet ?busy] m
    by (auto simp: pool_size_def sample_pool_def sample_refs_def less_Suc_eq numeral_3_eq_3 nth_Cons')
  moreover have "fst (pool_select_worker sample_refs ?quiet ?quiet (sample_pool LeastLoaded)) = Some 1" by code_simp
  ultimately show ?thesis by (simp add: Let_def)
qed

text \<open>The mixing function of the random strategy is a bijection on 64-bit values: its steps can be undone, so distinct
  counter values never collide before the final reduction to a worker index.\<close>

theorem splitmix64_bijective:
  "splitmix64_inv (splitmix64 x) = x \<and> splitmix64 (splitmix64_inv y) = y \<and> bij splitmix64"
  using splitmix64_inv_left splitmix64_inv_right by (simp add: bij_iff) (metis splitmix64_inv_left splitmix64_inv_right)

text \<open>A pool stays well formed and a message goes to one of its workers: every forwarding method that does not panic calls
  its own method on exactly one worker of the pool, keeps the workers and the strategy, and a strategy other than
  least-loaded never panics; a keyed message goes to a worker that depends on its key only.\<close>

theorem pool_forward_typed:
  assumes "pool_wf p" and "pool_forward R w1 w2 p call = (x, p', w3)"
  shows "pool_wf p' \<and> pl_workers p' = pl_workers p \<and> pl_routing p' = pl_routing p \<and>
    (pl_routing p \<noteq> LeastLoaded \<longrightarrow> x \<noteq> None) \<and> (x = None \<longrightarrow> w3 = w2) \<and>
    (x \<noteq> None \<longrightarrow> (\<exists>r \<in> set (pl_workers p). call w2 r = (the x, w3))) \<and>
    pl_workers p ! keyed_index p key \<in> set (pl_workers p) \<and> keyed_index p' key = keyed_index p key"
proof -
  obtain i q where sel: "pool_select_worker R w1 w2 p = (i, q)" by force
  have "keyed_index p key < length (pl_workers p)"
    using assms(1) by (simp add: keyed_index_def unat_mod_length pool_wf_def)
  moreover have "i \<noteq> None" if "pl_routing p \<noteq> LeastLoaded"
    using that sel by (auto simp: pool_select_worker_def round_robin_index_def random_index_def split: pool_routing.splits)
  moreover have "p' = q" using assms(2) sel by (auto simp: pool_forward_def split: option.splits prod.splits)
  moreover have "\<exists>r \<in> set (pl_workers p). call w2 r = (the x, w3)" if "x \<noteq> None"
    using that assms sel pool_select_range [of p R w1 w2]
    by (fastforce simp: pool_forward_def split: option.splits prod.splits)
  moreover have "(x = None \<longleftrightarrow> i = None) \<and> (x = None \<longrightarrow> w3 = w2)"
    using assms(2) sel by (auto simp: pool_forward_def split: option.splits prod.splits)
  ultimately show ?thesis
    using assms(1) pool_select_keeps [OF sel] by (simp add: pool_wf_def keyed_index_def)
qed

theorem pool_forward_typed_witness:
  "\<exists>r \<in> set (pl_workers (sample_pool Random)). ref_tell sample_refs (\<lambda>_. 0, []) r ''hi'' =
    (the (fst (pool_tell sample_refs (\<lambda>_. 0, []) (\<lambda>_. 0, []) (sample_pool Random) ''hi'')),
     snd (snd (pool_tell sample_refs (\<lambda>_. 0, []) (\<lambda>_. 0, []) (sample_pool Random) ''hi'')))"
proof -
  have wf: "pool_wf (sample_pool Random)" by (simp add: pool_wf_def sample_pool_def)
  obtain x p' w where f: "pool_tell sample_refs (\<lambda>_. 0, []) (\<lambda>_. 0, []) (sample_pool Random) ''hi'' = (x, p', w)"
    by (metis prod_cases3)
  show ?thesis
    using pool_forward_typed [OF wf f [unfolded pool_tell_def], of 0] f by (simp add: sample_pool_def)
qed

end
