(* ===== verification/Broadcast.thy ===== *)
theory Broadcast
  imports Pool
begin

text \<open>
  Broadcasts (\<^verbatim>\<open>dactor/src/broadcast.rs\<close>), dead letters (\<^verbatim>\<open>dead_letter.rs\<close>), processing groups (\<^verbatim>\<open>group.rs\<close>) and
  worker references (\<^verbatim>\<open>worker_ref.rs\<close>). A dead letter handler is a function on its own state that may panic; the panic is
  caught. The replies of a broadcast ask are awaited together: what each resolves to, or that it does not within the timeout,
  is an argument.
\<close>

section \<open>Dead letters\<close>

datatype dead_letter_reason =
    DL_ActorStopped
  | DL_ActorNotFound
  | DL_MailboxFull
  | DL_DroppedByInterceptor string
  | DL_WireInterceptorDrop string
  | DL_WireInterceptorReject string string

fun dead_letter_reason_display :: "dead_letter_reason \<Rightarrow> string" where
  "dead_letter_reason_display DL_ActorStopped = ''actor stopped''"
| "dead_letter_reason_display DL_ActorNotFound = ''actor not found''"
| "dead_letter_reason_display DL_MailboxFull = ''mailbox full''"
| "dead_letter_reason_display (DL_DroppedByInterceptor i) = ''dropped by interceptor '' @ [CHR 0x27] @ i @ [CHR 0x27]"
| "dead_letter_reason_display (DL_WireInterceptorDrop i) = ''dropped by wire interceptor '' @ [CHR 0x27] @ i @ [CHR 0x27]"
| "dead_letter_reason_display (DL_WireInterceptorReject i r) =
     ''rejected by wire interceptor '' @ [CHR 0x27] @ i @ [CHR 0x27] @ '': '' @ r"

text \<open>The event without its type-erased message, which the broadcasts leave out.\<close>

record dead_letter_event =
  dl_target_id :: actor_id
  dl_target_name :: "string option"
  dl_message_type :: string
  dl_send_mode :: send_mode
  dl_reason :: dead_letter_reason

type_synonym 'h dead_letter_handler = "'h \<Rightarrow> dead_letter_event \<Rightarrow> bool \<times> 'h"

record collecting_handler =
  cdl_events :: "dead_letter_event list"

definition cdl_new :: collecting_handler where
  "cdl_new = \<lparr>cdl_events = []\<rparr>"

definition cdl_on_dead_letter :: "collecting_handler dead_letter_handler" where
  "cdl_on_dead_letter h event = (True, h\<lparr>cdl_events := cdl_events h @ [event]\<rparr>)"

definition cdl_count :: "collecting_handler \<Rightarrow> nat" where
  "cdl_count h = length (cdl_events h)"

definition cdl_clear :: "collecting_handler \<Rightarrow> collecting_handler" where
  "cdl_clear h = h\<lparr>cdl_events := []\<rparr>"

fun str_contains :: "string \<Rightarrow> string \<Rightarrow> bool" where
  "str_contains [] pat \<longleftrightarrow> pat = []"
| "str_contains (c # s) pat \<longleftrightarrow> take (length pat) (c # s) = pat \<or> str_contains s pat"

definition dead_letter_reason_of :: "actor_send_error \<Rightarrow> dead_letter_reason" where
  "dead_letter_reason_of e =
     (if str_contains (send_error_text e) ''stopped'' \<or> str_contains (send_error_text e) ''closed'' then DL_ActorStopped
      else if str_contains (send_error_text e) ''not found'' then DL_ActorNotFound
      else if str_contains (send_error_text e) ''full'' then DL_MailboxFull
      else DL_ActorStopped)"

definition dead_letter_of :: "string \<Rightarrow> actor_id \<Rightarrow> string \<Rightarrow> actor_send_error \<Rightarrow> send_mode \<Rightarrow> dead_letter_event" where
  "dead_letter_of message_type target_id target_name e mode =
     \<lparr>dl_target_id = target_id, dl_target_name = Some target_name, dl_message_type = message_type, dl_send_mode = mode,
      dl_reason = dead_letter_reason_of e\<rparr>"

definition emit_dead_letter ::
  "'h dead_letter_handler \<Rightarrow> string \<Rightarrow> actor_id \<Rightarrow> string \<Rightarrow> actor_send_error \<Rightarrow> send_mode \<Rightarrow> 'h \<Rightarrow> 'h" where
  "emit_dead_letter on_dead_letter message_type target_id target_name e mode h =
     snd (on_dead_letter h (dead_letter_of message_type target_id target_name e mode))"

section \<open>Broadcast groups\<close>

datatype 'x broadcast_receipt =
    BR_Ok actor_id 'x
  | BR_Timeout actor_id
  | BR_SendError actor_id actor_send_error
  | BR_ReplyError actor_id runtime_error

datatype tell_outcome = TellOutcome (to_actor_id: actor_id) (to_result: "actor_send_error + unit")

definition btr_succeeded :: "tell_outcome list \<Rightarrow> nat" where
  "btr_succeeded outcomes = length (filter (\<lambda>t. \<not> isl (to_result t)) outcomes)"

definition btr_failed :: "tell_outcome list \<Rightarrow> nat" where
  "btr_failed outcomes = length (filter (\<lambda>t. isl (to_result t)) outcomes)"

record ('r, 'h) broadcast_ref =
  br_refs :: "'r list"
  br_dead_letter_handler :: "'h dead_letter_handler option"

definition br_new :: "'r list \<Rightarrow> ('r, 'h) broadcast_ref" where
  "br_new refs = \<lparr>br_refs = refs, br_dead_letter_handler = None\<rparr>"

definition br_with_dead_letter_handler :: "('r, 'h) broadcast_ref \<Rightarrow> 'h dead_letter_handler \<Rightarrow> ('r, 'h) broadcast_ref" where
  "br_with_dead_letter_handler b handler = b\<lparr>br_dead_letter_handler := Some handler\<rparr>"

definition br_len :: "('r, 'h) broadcast_ref \<Rightarrow> nat" where
  "br_len b = length (br_refs b)"

definition br_is_empty :: "('r, 'h) broadcast_ref \<Rightarrow> bool" where
  "br_is_empty b \<longleftrightarrow> br_refs b = []"

definition br_add :: "('r, 'h) broadcast_ref \<Rightarrow> 'r \<Rightarrow> ('r, 'h) broadcast_ref" where
  "br_add b r = b\<lparr>br_refs := br_refs b @ [r]\<rparr>"

definition br_contains :: "('w, 'r, 'm, 'a, 's) actor_ref \<Rightarrow> ('r, 'h) broadcast_ref \<Rightarrow> actor_id \<Rightarrow> bool" where
  "br_contains R b actor_id = list_ex (\<lambda>r. ref_id R r = actor_id) (br_refs b)"

fun ref_position :: "('a \<Rightarrow> bool) \<Rightarrow> 'a list \<Rightarrow> nat option" where
  "ref_position P [] = None"
| "ref_position P (x # xs) = (if P x then Some 0 else map_option Suc (ref_position P xs))"

text \<open>\<^verbatim>\<open>Vec::swap_remove\<close>: the last element takes the place of the removed one.\<close>

definition swap_remove :: "'a list \<Rightarrow> nat \<Rightarrow> 'a \<times> 'a list" where
  "swap_remove xs i = (xs ! i, butlast (xs[i := last xs]))"

definition br_remove :: "('w, 'r, 'm, 'a, 's) actor_ref \<Rightarrow> ('r, 'h) broadcast_ref \<Rightarrow> actor_id \<Rightarrow> 'r option \<times> ('r, 'h) broadcast_ref" where
  "br_remove R b actor_id =
     (case ref_position (\<lambda>r. ref_id R r = actor_id) (br_refs b) of
        None \<Rightarrow> (None, b)
      | Some pos \<Rightarrow> (case swap_remove (br_refs b) pos of (r, refs) \<Rightarrow> (Some r, b\<lparr>br_refs := refs\<rparr>)))"

definition route_dead_letter ::
  "('r, 'h) broadcast_ref \<Rightarrow> string \<Rightarrow> actor_id \<Rightarrow> string \<Rightarrow> actor_send_error \<Rightarrow> send_mode \<Rightarrow> 'h \<Rightarrow> 'h" where
  "route_dead_letter b message_type target_id target_name e mode h =
     (case br_dead_letter_handler b of
        Some handler \<Rightarrow> emit_dead_letter handler message_type target_id target_name e mode h
      | None \<Rightarrow> h)"

fun br_tell_loop ::
  "('w, 'r, 'm, 'a, 's) actor_ref \<Rightarrow> ('r, 'h) broadcast_ref \<Rightarrow> string \<Rightarrow> 'm \<Rightarrow> 'r list \<Rightarrow> 'w \<Rightarrow> 'h \<Rightarrow> tell_outcome list \<times> 'w \<times> 'h" where
  "br_tell_loop R b ty msg [] w h = ([], w, h)"
| "br_tell_loop R b ty msg (r # refs) w h =
     (case ref_tell R w r msg of (result, w1) \<Rightarrow>
      let h1 = (case result of Inl e \<Rightarrow> route_dead_letter b ty (ref_id R r) (ref_name R r) e Tell h | Inr _ \<Rightarrow> h)
      in case br_tell_loop R b ty msg refs w1 h1 of (outcomes, w2, h2) \<Rightarrow>
           (TellOutcome (ref_id R r) result # outcomes, w2, h2))"

definition br_tell ::
  "('w, 'r, 'm, 'a, 's) actor_ref \<Rightarrow> ('r, 'h) broadcast_ref \<Rightarrow> string \<Rightarrow> 'm \<Rightarrow> 'w \<Rightarrow> 'h \<Rightarrow> tell_outcome list \<times> 'w \<times> 'h" where
  "br_tell R b ty msg w h = br_tell_loop R b ty msg (br_refs b) w h"

text \<open>The asks are sent in member order, each with a fresh token, named by the member's position.\<close>

fun br_send_asks ::
  "('w, 'r, 'm, 'a, 's) actor_ref \<Rightarrow> 'm \<Rightarrow> nat \<Rightarrow> 'r list \<Rightarrow> 'w \<Rightarrow> (actor_send_error + 'a) list \<times> 'w" where
  "br_send_asks R msg i [] w = ([], w)"
| "br_send_asks R msg i (r # refs) w =
     (case ref_ask R w r msg (Some i) of (reply, w1) \<Rightarrow>
      case br_send_asks R msg (Suc i) refs w1 of (replies, w2) \<Rightarrow> (reply # replies, w2))"

text \<open>One member's future: its receipt, the dead letter it emits if a handler is attached, and the token it cancels.
  \<open>resolve\<close> gives what an accepted ask resolves to, \<open>None\<close> if it does not before the timeout.\<close>

definition br_receipt ::
  "('a \<Rightarrow> (runtime_error + 'x) option) \<Rightarrow> actor_id \<Rightarrow> nat \<Rightarrow> actor_send_error + 'a
    \<Rightarrow> 'x broadcast_receipt \<times> actor_send_error option \<times> cancel_token option" where
  "br_receipt resolve aid token reply_future =
     (case reply_future of
        Inr ask_reply \<Rightarrow>
          (case resolve ask_reply of
             Some (Inr reply) \<Rightarrow> (BR_Ok aid reply, None, None)
           | Some (Inl (RE_Send e)) \<Rightarrow> (BR_SendError aid e, Some e, None)
           | Some (Inl e) \<Rightarrow> (BR_ReplyError aid e, None, None)
           | None \<Rightarrow> (BR_Timeout aid, None, Some token))
      | Inl e \<Rightarrow> (BR_SendError aid e, Some e, None))"

text \<open>The futures are polled in member order; the dead letters are listed in that order.\<close>

definition br_ask ::
  "('w, 'r, 'm, 'a, 's) actor_ref \<Rightarrow> ('a \<Rightarrow> (runtime_error + 'x) option) \<Rightarrow> ('r, 'h) broadcast_ref \<Rightarrow> string \<Rightarrow> 'm \<Rightarrow> 'w \<Rightarrow> 'h
    \<Rightarrow> 'x broadcast_receipt list \<times> cancel_token list \<times> 'w \<times> 'h" where
  "br_ask R resolve b ty msg w h =
     (case br_send_asks R msg 0 (br_refs b) w of (replies, w1) \<Rightarrow>
      let rs = map (\<lambda>i. br_receipt resolve (ref_id R (br_refs b ! i)) i (replies ! i)) [0..<length (br_refs b)];
          letters = List.map_filter (\<lambda>i. map_option
            (\<lambda>e. dead_letter_of ty (ref_id R (br_refs b ! i)) (ref_name R (br_refs b ! i)) e Ask) (fst (snd (rs ! i))))
            [0..<length (br_refs b)]
      in (map fst rs, List.map_filter (\<lambda>r. snd (snd r)) rs, w1,
          case br_dead_letter_handler b of
            Some handler \<Rightarrow> foldl (\<lambda>h l. snd (handler h l)) h letters
          | None \<Rightarrow> h))"

definition pool_to_broadcast :: "'r pool_ref \<Rightarrow> ('r, 'h) broadcast_ref" where
  "pool_to_broadcast p = br_new (pl_workers p)"

section \<open>Processing groups\<close>

record 'r processing_group =
  pg_name :: string
  pg_members :: "(actor_id, 'r) hashmap"

definition pg_new :: "string \<Rightarrow> 'r processing_group" where
  "pg_new name = \<lparr>pg_name = name, pg_members = hm_empty\<rparr>"

definition pg_len :: "'r processing_group \<Rightarrow> nat" where
  "pg_len g = length (pg_members g)"

definition pg_is_empty :: "'r processing_group \<Rightarrow> bool" where
  "pg_is_empty g \<longleftrightarrow> pg_members g = []"

definition pg_join :: "('w, 'r, 'm, 'a, 's) actor_ref \<Rightarrow> 'r processing_group \<Rightarrow> 'r \<Rightarrow> 'r option \<times> 'r processing_group" where
  "pg_join R g r = (hm_get (pg_members g) (ref_id R r), g\<lparr>pg_members := hm_insert (ref_id R r) r (pg_members g)\<rparr>)"

definition pg_leave :: "'r processing_group \<Rightarrow> actor_id \<Rightarrow> 'r option \<times> 'r processing_group" where
  "pg_leave g actor_id = (hm_get (pg_members g) actor_id, g\<lparr>pg_members := hm_remove actor_id (pg_members g)\<rparr>)"

definition pg_contains :: "'r processing_group \<Rightarrow> actor_id \<Rightarrow> bool" where
  "pg_contains g actor_id \<longleftrightarrow> hm_get (pg_members g) actor_id \<noteq> None"

definition pg_get :: "'r processing_group \<Rightarrow> actor_id \<Rightarrow> 'r option" where
  "pg_get g actor_id = hm_get (pg_members g) actor_id"

definition pg_member_ids :: "'r processing_group \<Rightarrow> actor_id list" where
  "pg_member_ids g = hm_keys (pg_members g)"

definition pg_to_broadcast :: "'r processing_group \<Rightarrow> ('r, 'h) broadcast_ref" where
  "pg_to_broadcast g = br_new (hm_values (pg_members g))"

definition pg_clear :: "'r processing_group \<Rightarrow> 'r processing_group" where
  "pg_clear g = g\<lparr>pg_members := hm_empty\<rparr>"

definition pg_prune_dead :: "('w, 'r, 'm, 'a, 's) actor_ref \<Rightarrow> 'w \<Rightarrow> 'r processing_group \<Rightarrow> nat \<times> 'r processing_group" where
  "pg_prune_dead R w g =
     (let kept = filter (\<lambda>(_, r). ref_is_alive R w r) (pg_members g)
      in (length (pg_members g) - length kept, g\<lparr>pg_members := kept\<rparr>))"

section \<open>Worker references\<close>

datatype ('l, 'r) worker_ref = WLocal 'l | WRemote 'r

fun wr_is_local :: "('l, 'r) worker_ref \<Rightarrow> bool" where
  "wr_is_local (WLocal _) = True"
| "wr_is_local (WRemote _) = False"

fun wr_is_remote :: "('l, 'r) worker_ref \<Rightarrow> bool" where
  "wr_is_remote (WLocal _) = False"
| "wr_is_remote (WRemote _) = True"

text \<open>Delegation to the reference inside.\<close>

definition worker_refs ::
  "('w, 'l, 'm, 'a, 's) actor_ref \<Rightarrow> ('w, 'r, 'm, 'a, 's) actor_ref \<Rightarrow> ('w, ('l, 'r) worker_ref, 'm, 'a, 's) actor_ref" where
  "worker_refs L R = \<lparr>
     ref_id = case_worker_ref (ref_id L) (ref_id R),
     ref_name = case_worker_ref (ref_name L) (ref_name R),
     ref_is_alive = (\<lambda>w. case_worker_ref (ref_is_alive L w) (ref_is_alive R w)),
     ref_pending_messages = (\<lambda>w. case_worker_ref (ref_pending_messages L w) (ref_pending_messages R w)),
     ref_stop = (\<lambda>w. case_worker_ref (ref_stop L w) (ref_stop R w)),
     ref_tell = (\<lambda>w. case_worker_ref (ref_tell L w) (ref_tell R w)),
     ref_ask = (\<lambda>w. case_worker_ref (ref_ask L w) (ref_ask R w)),
     ref_expand = (\<lambda>w. case_worker_ref (ref_expand L w) (ref_expand R w)),
     ref_reduce = (\<lambda>w. case_worker_ref (ref_reduce L w) (ref_reduce R w)),
     ref_transform = (\<lambda>w. case_worker_ref (ref_transform L w) (ref_transform R w))\<rparr>"

section \<open>Lemmas\<close>

text \<open>Each member is told once, in order.\<close>

fun tell_each :: "('w, 'r, 'm, 'a, 's) actor_ref \<Rightarrow> 'm \<Rightarrow> 'r list \<Rightarrow> 'w \<Rightarrow> (actor_send_error + unit) list \<times> 'w" where
  "tell_each R msg [] w = ([], w)"
| "tell_each R msg (r # refs) w =
     (case ref_tell R w r msg of (x, w1) \<Rightarrow> case tell_each R msg refs w1 of (xs, w2) \<Rightarrow> (x # xs, w2))"

definition failure_letters ::
  "('w, 'r, 'm, 'a, 's) actor_ref \<Rightarrow> string \<Rightarrow> send_mode \<Rightarrow> ('r \<times> (actor_send_error + 'x)) list \<Rightarrow> dead_letter_event list" where
  "failure_letters R ty mode rs =
     List.map_filter (\<lambda>(r, x). case x of Inl e \<Rightarrow> Some (dead_letter_of ty (ref_id R r) (ref_name R r) e mode) | Inr _ \<Rightarrow> None) rs"

definition deliver_letters :: "('r, 'h) broadcast_ref \<Rightarrow> 'h \<Rightarrow> dead_letter_event list \<Rightarrow> 'h" where
  "deliver_letters b h letters =
     (case br_dead_letter_handler b of Some f \<Rightarrow> foldl (\<lambda>h l. snd (f h l)) h letters | None \<Rightarrow> h)"

lemma route_deliver: "route_dead_letter b ty i n e mode h = deliver_letters b h [dead_letter_of ty i n e mode]"
  by (simp add: route_dead_letter_def emit_dead_letter_def deliver_letters_def split: option.splits)

lemma deliver_append: "deliver_letters b (deliver_letters b h l1) l2 = deliver_letters b h (l1 @ l2)"
  by (simp add: deliver_letters_def split: option.splits)

lemma deliver_Nil [simp]: "deliver_letters b h [] = h"
  by (simp add: deliver_letters_def split: option.splits)

lemma failure_letters_Cons:
  "failure_letters R ty mode ((r, x) # rs) =
     (case x of Inl e \<Rightarrow> [dead_letter_of ty (ref_id R r) (ref_name R r) e mode] | Inr _ \<Rightarrow> []) @ failure_letters R ty mode rs"
  by (simp add: failure_letters_def map_filter_simps split: sum.splits)

lemma br_tell_loop_spec:
  assumes "tell_each R msg refs w = (xs, w')"
  shows "br_tell_loop R b ty msg refs w h =
      (map2 (\<lambda>r x. TellOutcome (ref_id R r) x) refs xs, w', deliver_letters b h (failure_letters R ty Tell (zip refs xs))) \<and>
    length xs = length refs"
  using assms
proof (induction refs arbitrary: w w' xs h)
  case Nil
  then show ?case by (simp add: failure_letters_def)
next
  case (Cons r refs)
  obtain x w1 where x: "ref_tell R w r msg = (x, w1)" by force
  obtain ys w2 where ys: "tell_each R msg refs w1 = (ys, w2)" by force
  show ?case using x ys Cons.IH [OF ys] Cons.prems
    by (cases x) (auto simp: failure_letters_Cons route_deliver deliver_append Let_def)
qed

lemma br_send_asks_length: "br_send_asks R msg i refs w = (xs, w') \<Longrightarrow> length xs = length refs"
  by (induction refs arbitrary: i w xs) (auto split: prod.splits)

text \<open>A group knows each member under its own id.\<close>

definition pg_wf :: "('w, 'r, 'm, 'a, 's) actor_ref \<Rightarrow> 'r processing_group \<Rightarrow> bool" where
  "pg_wf R g \<longleftrightarrow> hm_wf (pg_members g) \<and> (\<forall>(k, r) \<in> set (pg_members g). ref_id R r = k)"

lemma hm_set_get: "hm_wf m \<Longrightarrow> (k, v) \<in> set m \<longleftrightarrow> hm_get m k = Some v"
  by (simp add: hm_wf_def hm_get_def map_of_eq_Some_iff)

lemma pg_wf_get: "pg_wf R g \<longleftrightarrow> hm_wf (pg_members g) \<and> (\<forall>k r. hm_get (pg_members g) k = Some r \<longrightarrow> ref_id R r = k)"
  using hm_set_get [of "pg_members g"] by (force simp: pg_wf_def)

datatype 'w group_op = GLeave actor_id | GClear | GPrune 'w

fun pg_step :: "('w, 'r, 'm, 'a, 's) actor_ref \<Rightarrow> 'r processing_group \<Rightarrow> 'r + 'w group_op \<Rightarrow> 'r processing_group" where
  "pg_step R g (Inl r) = snd (pg_join R g r)"
| "pg_step R g (Inr (GLeave k)) = snd (pg_leave g k)"
| "pg_step R g (Inr GClear) = pg_clear g"
| "pg_step R g (Inr (GPrune w)) = snd (pg_prune_dead R w g)"

text \<open>Who should be a member: the reference that joined last under an id, unless it left or was pruned since.\<close>

fun joined :: "('w, 'r, 'm, 'a, 's) actor_ref \<Rightarrow> ('r + 'w group_op) list \<Rightarrow> actor_id \<Rightarrow> 'r option" where
  "joined R [] = (\<lambda>_. None)"
| "joined R (Inl r # ops) = (joined R ops)(ref_id R r := Some r)"
| "joined R (Inr (GLeave k) # ops) = (joined R ops)(k := None)"
| "joined R (Inr GClear # ops) = (\<lambda>_. None)"
| "joined R (Inr (GPrune w) # ops) = (\<lambda>k. Option.bind (joined R ops k) (\<lambda>r. if ref_is_alive R w r then Some r else None))"

lemma option_ext: "(\<And>v. a = Some v \<longleftrightarrow> b = Some v) \<Longrightarrow> a = b"
  by (cases a; cases b) auto

lemma prune_get:
  assumes "hm_wf m"
  shows "hm_get (filter (\<lambda>(_, r). P r) m) k = Option.bind (hm_get m k) (\<lambda>r. if P r then Some r else None)"
proof -
  have wf: "hm_wf (filter (\<lambda>(_, r). P r) m)" using assms by (simp add: hm_wf_def distinct_map_filter)
  have "hm_get (filter (\<lambda>(_, r). P r) m) k = Some v \<longleftrightarrow> hm_get m k = Some v \<and> P v" for v
    using hm_set_get [OF wf, of k v] hm_set_get [OF assms, of k v] by auto
  then show ?thesis by (intro option_ext) (auto simp: bind_eq_Some_conv split: if_splits)
qed

lemma prune_wf: "hm_wf m \<Longrightarrow> hm_wf (filter P m)"
  by (simp add: hm_wf_def distinct_map_filter)

lemmas pg_ops = pg_join_def pg_leave_def pg_clear_def pg_prune_dead_def Let_def

lemma pg_step_wf: "pg_wf R g \<Longrightarrow> pg_wf R (pg_step R g op)"
proof (induction R g op rule: pg_step.induct)
  case (4 R g w)
  then show ?case by (auto simp: pg_wf_get pg_ops prune_wf prune_get bind_eq_Some_conv split: if_splits)
qed (auto simp: pg_wf_get pg_ops)

lemma pg_step_get:
  "pg_wf R g \<Longrightarrow> hm_get (pg_members g) = joined R ops \<Longrightarrow> hm_get (pg_members (pg_step R g op)) = joined R (op # ops)"
  by (induction R g op rule: pg_step.induct) (auto simp: pg_wf_def pg_ops prune_get fun_eq_iff)

lemma pg_run:
  "pg_wf R (foldr (\<lambda>op g. pg_step R g op) ops (pg_new n)) \<and>
   hm_get (pg_members (foldr (\<lambda>op g. pg_step R g op) ops (pg_new n))) = joined R ops"
proof (induction ops)
  case Nil
  then show ?case by (auto simp: pg_new_def pg_wf_get)
next
  case (Cons op ops)
  define g where "g = foldr (\<lambda>op g. pg_step R g op) ops (pg_new n)"
  have "pg_wf R (pg_step R g op) \<and> hm_get (pg_members (pg_step R g op)) = joined R (op # ops)"
    using pg_step_wf [of R g op] pg_step_get [of R g ops op] Cons by (simp add: g_def)
  then show ?case by (simp add: g_def)
qed

section \<open>Properties\<close>

text \<open>A broadcast reaches every member once: a broadcast tell tells each member once, in order, and reports
  one outcome per member; a dead letter goes to the attached handler for exactly the members that refused the message, and
  a handler that panics does not keep the rest from being told.\<close>

theorem broadcast_tell_complete:
  assumes "tell_each R msg (br_refs b) w = (xs, w1)" and "br_tell R b ty msg w h = (outcomes, w2, h2)"
  shows "w2 = w1 \<and> map to_actor_id outcomes = map (ref_id R) (br_refs b) \<and> map to_result outcomes = xs \<and>
    btr_succeeded outcomes + btr_failed outcomes = br_len b \<and>
    h2 = (case br_dead_letter_handler b of None \<Rightarrow> h
          | Some handler \<Rightarrow> foldl (\<lambda>h l. snd (handler h l)) h (failure_letters R ty Tell (zip (br_refs b) xs)))"
proof -
  note spec = br_tell_loop_spec [OF assms(1), of b ty h]
  have o: "outcomes = map2 (\<lambda>r x. TellOutcome (ref_id R r) x) (br_refs b) xs" and len: "length xs = length (br_refs b)"
    and rest: "w2 = w1" "h2 = deliver_letters b h (failure_letters R ty Tell (zip (br_refs b) xs))"
    using spec assms(2) by (simp_all add: br_tell_def)
  have "map to_actor_id outcomes = map (ref_id R) (map fst (zip (br_refs b) xs))" "map to_result outcomes = map snd (zip (br_refs b) xs)"
    unfolding o by auto
  then have m: "map to_actor_id outcomes = map (ref_id R) (br_refs b)" "map to_result outcomes = xs"
    using len by simp_all
  have "length outcomes = br_len b" using o len by (simp add: br_len_def)
  then have "btr_succeeded outcomes + btr_failed outcomes = br_len b"
    using sum_length_filter_compl [of "\<lambda>t. isl (to_result t)" outcomes] by (simp add: btr_succeeded_def btr_failed_def)
  then show ?thesis using m rest by (simp add: deliver_letters_def)
qed

text \<open>Three members, the second of which has stopped.\<close>

definition stopped_refs :: "((nat \<Rightarrow> nat) \<times> (nat \<times> string) list, nat, string, unit, unit) actor_ref" where
  "stopped_refs = sample_refs\<lparr>ref_tell := (\<lambda>(l, sent) r m. if r = 1 then (Inl (ActorSendError ''actor stopped''), (l, sent))
     else (Inr (), (l, sent @ [(r, m)])))\<rparr>"

theorem broadcast_tell_complete_witness:
  "let b = br_with_dead_letter_handler (br_new [0, 1, 2]) cdl_on_dead_letter in
   case br_tell stopped_refs b ''Ping'' ''hi'' (\<lambda>_. 0, []) cdl_new of (outcomes, w, h) \<Rightarrow>
     map to_actor_id outcomes = [ActorId (NodeId ''n'') 0, ActorId (NodeId ''n'') 1, ActorId (NodeId ''n'') 2] \<and>
     snd w = [(0, ''hi''), (2, ''hi'')] \<and>
     cdl_events h = [dead_letter_of ''Ping'' (ActorId (NodeId ''n'') 1) ''w1'' (ActorSendError ''actor stopped'') Tell]"
proof -
  let ?b = "br_with_dead_letter_handler (br_new [0, 1, 2]) cdl_on_dead_letter"
  let ?w = "(\<lambda>_. 0, []) :: (nat \<Rightarrow> nat) \<times> (nat \<times> string) list"
  have each: "tell_each stopped_refs ''hi'' (br_refs ?b) ?w =
      ([Inr (), Inl (ActorSendError ''actor stopped''), Inr ()], (\<lambda>_. 0, [(0, ''hi''), (2, ''hi'')]))"
    by (simp add: stopped_refs_def sample_refs_def br_with_dead_letter_handler_def br_new_def)
  have one: "show_nat (Suc 0) = ''1''" by code_simp
  obtain outcomes w h where t: "br_tell stopped_refs ?b ''Ping'' ''hi'' ?w cdl_new = (outcomes, w, h)"
    by (metis prod_cases3)
  show ?thesis
    using broadcast_tell_complete [OF each t] t
    by (simp add: Let_def br_with_dead_letter_handler_def br_new_def failure_letters_Cons cdl_on_dead_letter_def cdl_new_def
        stopped_refs_def sample_refs_def one) (simp add: failure_letters_def)
qed

text \<open>A processing group is the set of its current members: after any history of joins, leaves, prunings and clearings the
  group holds under each id the reference that joined last and was neither removed nor pruned as dead since, once each; a
  broadcast built from it reaches exactly these.\<close>

theorem group_members_current:
  "let g = foldr (\<lambda>op g. pg_step R g op) ops (pg_new n) in
   pg_get g = joined R ops \<and> distinct (pg_member_ids g) \<and>
   distinct (map (ref_id R) (br_refs (pg_to_broadcast g))) \<and>
   (\<forall>r. r \<in> set (br_refs (pg_to_broadcast g)) \<longleftrightarrow> joined R ops (ref_id R r) = Some r)"
proof -
  define g where "g = foldr (\<lambda>op g. pg_step R g op) ops (pg_new n)"
  have wf: "pg_wf R g" and get: "hm_get (pg_members g) = joined R ops" using pg_run [of R ops n] by (simp_all add: g_def)
  have hwf: "hm_wf (pg_members g)" using wf by (simp add: pg_wf_def)
  have ids: "map (ref_id R) (hm_values (pg_members g)) = hm_keys (pg_members g)"
    using wf by (auto simp: pg_wf_def hm_values_def hm_keys_def)
  have "r \<in> set (hm_values (pg_members g)) \<longleftrightarrow> joined R ops (ref_id R r) = Some r" for r
    using set_hm_values [OF hwf, of r] wf get by (auto simp: pg_wf_get)
  moreover have "distinct (hm_keys (pg_members g))" using hwf by (rule hm.wf_keys)
  ultimately show ?thesis
    using get ids by (simp add: Let_def g_def [symmetric] pg_get_def [abs_def] pg_member_ids_def pg_to_broadcast_def br_new_def)
qed

text \<open>A pool of references, each wrapped as a local worker.\<close>

definition wrap_local :: "'l pool_ref \<Rightarrow> ('l, 'r) worker_ref pool_ref" where
  "wrap_local p = \<lparr>pl_workers = map WLocal (pl_workers p), pl_routing = pl_routing p, pl_counter = pl_counter p,
     pl_pool_id = pl_pool_id p, pl_name = pl_name p\<rparr>"

lemma wrap_local_nth: "k < length (pl_workers p) \<Longrightarrow> pl_workers (wrap_local p) ! k = WLocal (pl_workers p ! k)"
  by (simp add: wrap_local_def)

lemma wrap_local_min_load: "min_load (worker_refs L R) w (map WLocal ls) = min_load L w ls"
  by (simp add: min_load_def worker_refs_def comp_def)

lemma wrap_local_least_loaded:
  "least_loaded_index (worker_refs L R) w1 w2 (wrap_local p) = map_prod id wrap_local (least_loaded_index L w1 w2 p)"
proof -
  have "filter (\<lambda>i. ref_pending_messages (worker_refs L R) w2 (map WLocal (pl_workers p) ! i) = m) [0..<length (pl_workers p)] =
      filter (\<lambda>i. ref_pending_messages L w2 (pl_workers p ! i) = m) [0..<length (pl_workers p)]" for m
    by (rule filter_cong) (simp_all add: worker_refs_def)
  then show ?thesis by (simp add: least_loaded_index_def Let_def wrap_local_def wrap_local_min_load)
qed

lemma wrap_local_select:
  "pool_select_worker (worker_refs L R) w1 w2 (wrap_local p) = map_prod id wrap_local (pool_select_worker L w1 w2 p)"
proof (cases "pl_routing p")
  case LeastLoaded
  then show ?thesis using wrap_local_least_loaded [of L R w1 w2 p] by (simp add: pool_select_worker_def wrap_local_def)
qed (simp_all add: pool_select_worker_def round_robin_index_def random_index_def wrap_local_def)

text \<open>A pool of local workers wrapped as worker references behaves as the pool of the local references themselves: the
  same worker is called, with the same result and effect, for every strategy and every method.\<close>

theorem worker_pool_equivalent:
  assumes "pool_wf p"
  shows "pool_forward (worker_refs L R) w1 w2 (wrap_local p) (\<lambda>w. case_worker_ref (call w) (other w)) =
    map_prod id (map_prod wrap_local id) (pool_forward L w1 w2 p call)"
proof -
  obtain i q where sel: "pool_select_worker L w1 w2 p = (i, q)" by force
  then have "the i < length (pl_workers p)" if "i \<noteq> None"
    using that pool_select_range [OF assms, of L w1 w2 "the i" q] by auto
  then show ?thesis using sel wrap_local_select [of L R w1 w2 p]
    by (cases i) (auto simp: pool_forward_def wrap_local_nth split: prod.splits)
qed

theorem worker_pool_equivalent_witness:
  "fst (pool_tell (worker_refs sample_refs stopped_refs) (\<lambda>_. 0, []) (\<lambda>_. 0, []) (wrap_local (sample_pool RoundRobin)) ''hi'') =
   fst (pool_tell sample_refs (\<lambda>_. 0, []) (\<lambda>_. 0, []) (sample_pool RoundRobin) ''hi'')"
proof -
  have call: "(\<lambda>w r. ref_tell (worker_refs sample_refs stopped_refs) w r ''hi'') =
      (\<lambda>w. case_worker_ref ((\<lambda>w r. ref_tell sample_refs w r ''hi'') w) ((\<lambda>w r. ref_tell stopped_refs w r ''hi'') w))"
    by (auto simp: worker_refs_def fun_eq_iff split: worker_ref.splits)
  show ?thesis unfolding pool_tell_def call
    by (subst worker_pool_equivalent) (simp_all add: pool_wf_def sample_pool_def)
qed

end
