(* ===== verification/Virtual_Pool.thy ===== *)
theory Virtual_Pool
  imports Pool
begin

text \<open>
  The virtual pool of \<^verbatim>\<open>dactor/src/virtual_pool.rs\<close>: calls are turned into operations, queued in a bounded channel and
  executed by one router task. The closure of an operation is written out as a value (\<open>pool_op\<close>); the oneshot channels that carry
  results back are maps from tickets. \<open>vp_turn\<close> is one iteration of the router's loop. A panic of the routing ends the router task
  and drops its end of the channel without the assignment after the loop.
\<close>

section \<open>The pool and its router\<close>

definition DEFAULT_ROUTER_CAPACITY :: nat where
  "DEFAULT_ROUTER_CAPACITY = 1024"

datatype ('m, 's) pool_op =
    OpTell 'm
  | OpAsk nat 'm "cancel_token option"
  | OpExpand nat 'm nat "batch_config option" "cancel_token option"
  | OpReduce nat 's nat "batch_config option" "cancel_token option"
  | OpTransform nat 's nat "batch_config option" "cancel_token option"

datatype ('m, 's) router_command = RouterOp "('m, 's) pool_op" | RouterStop

record ('c, 'r, 'a, 's) virtual_pool =
  vp_chan :: 'c
  vp_pool_id :: actor_id
  vp_name :: string
  vp_alive :: bool
  vp_running :: bool
  vp_workers :: "'r list"
  vp_routing :: pool_routing
  vp_counter :: u64
  vp_next_ticket :: nat
  vp_replies :: "(nat, actor_send_error + 'a) hashmap"
  vp_streams :: "(nat, actor_send_error + 's) hashmap"

text \<open>\<open>channel\<close> makes a channel of a capacity; the global counter of pool ids is passed along.\<close>

definition vp_with_capacity ::
  "('w, 'r, 'm, 'a, 's) actor_ref \<Rightarrow> (nat \<Rightarrow> 'c) \<Rightarrow> u64 \<Rightarrow> 'r list \<Rightarrow> pool_routing \<Rightarrow> nat
    \<Rightarrow> (('c, 'r, 'a, 's) virtual_pool \<times> u64) option" where
  "vp_with_capacity R channel next_id workers routing capacity =
     (if workers = [] \<or> capacity = 0 then None
      else Some (\<lparr>vp_chan = channel capacity, vp_pool_id = ActorId (NodeId ''vpool'') next_id,
                  vp_name = ''vpool('' @ ref_name R (workers ! 0) @ '')'', vp_alive = True, vp_running = True,
                  vp_workers = workers, vp_routing = routing, vp_counter = 0, vp_next_ticket = 0,
                  vp_replies = hm_empty, vp_streams = hm_empty\<rparr>, next_id + 1))"

definition vp_new where
  "vp_new R channel next_id workers routing = vp_with_capacity R channel next_id workers routing DEFAULT_ROUTER_CAPACITY"

definition select_worker_index ::
  "('w, 'r, 'm, 'a, 's) actor_ref \<Rightarrow> 'w \<Rightarrow> 'w \<Rightarrow> 'r list \<Rightarrow> pool_routing \<Rightarrow> u64 \<Rightarrow> nat option \<times> u64" where
  "select_worker_index R w1 w2 workers routing counter =
     (let len = of_nat (length workers) :: u64 in
      case routing of
        RoundRobin \<Rightarrow> (Some (unat (counter mod len)), counter + 1)
      | KeyBased \<Rightarrow> (Some (unat (counter mod len)), counter + 1)
      | Random \<Rightarrow> (Some (unat (splitmix64 counter mod len)), counter + 1)
      | LeastLoaded \<Rightarrow>
          (let m = min_load R w1 workers;
               candidates = filter (\<lambda>i. ref_pending_messages R w2 (workers ! i) = m) [0..<length workers]
           in if length candidates = 1 then (Some (candidates ! 0), counter)
              else (if candidates = [] then None else Some (candidates ! (unat counter mod length candidates)), counter + 1)))"

text \<open>An operation on the selected worker. The error of a tell is logged only.\<close>

fun run_pool_op ::
  "('w, 'r, 'm, 'a, 's) actor_ref \<Rightarrow> ('m, 's) pool_op \<Rightarrow> 'r \<Rightarrow> ('c, 'r, 'a, 's) virtual_pool \<Rightarrow> 'w
    \<Rightarrow> ('c, 'r, 'a, 's) virtual_pool \<times> 'w" where
  "run_pool_op R (OpTell msg) r vp w = (case ref_tell R w r msg of (_, w') \<Rightarrow> (vp, w'))"
| "run_pool_op R (OpAsk t msg cancel) r vp w =
     (case ref_ask R w r msg cancel of (x, w') \<Rightarrow> (vp\<lparr>vp_replies := hm_insert t x (vp_replies vp)\<rparr>, w'))"
| "run_pool_op R (OpExpand t msg buffer batch cancel) r vp w =
     (case ref_expand R w r msg buffer batch cancel of (x, w') \<Rightarrow> (vp\<lparr>vp_streams := hm_insert t x (vp_streams vp)\<rparr>, w'))"
| "run_pool_op R (OpReduce t input buffer batch cancel) r vp w =
     (case ref_reduce R w r input buffer batch cancel of (x, w') \<Rightarrow> (vp\<lparr>vp_replies := hm_insert t x (vp_replies vp)\<rparr>, w'))"
| "run_pool_op R (OpTransform t input buffer batch cancel) r vp w =
     (case ref_transform R w r input buffer batch cancel of (x, w') \<Rightarrow> (vp\<lparr>vp_streams := hm_insert t x (vp_streams vp)\<rparr>, w'))"

text \<open>The loads are read in the worlds \<open>w1\<close> and \<open>w2\<close>; the operation runs in the latter.\<close>

definition vp_turn ::
  "('c, ('m, 's) router_command) mpsc \<Rightarrow> ('w, 'r, 'm, 'a, 's) actor_ref \<Rightarrow> 'w \<Rightarrow> 'w \<Rightarrow> ('c, 'r, 'a, 's) virtual_pool
    \<Rightarrow> ('c, 'r, 'a, 's) virtual_pool \<times> 'w" where
  "vp_turn ch R w1 w2 vp =
     (if \<not> vp_running vp then (vp, w2)
      else case mp_recv ch (vp_chan vp) of
        (None, c) \<Rightarrow> (vp\<lparr>vp_chan := mp_close ch c, vp_running := False, vp_alive := False\<rparr>, w2)
      | (Some RouterStop, c) \<Rightarrow>
          (vp\<lparr>vp_chan := mp_close ch c, vp_running := False, vp_alive := False\<rparr>, foldl (ref_stop R) w2 (vp_workers vp))
      | (Some (RouterOp op), c) \<Rightarrow>
          (case select_worker_index R w1 w2 (vp_workers vp) (vp_routing vp) (vp_counter vp) of
             (None, counter) \<Rightarrow> (vp\<lparr>vp_chan := mp_close ch c, vp_running := False, vp_counter := counter\<rparr>, w2)
           | (Some idx, counter) \<Rightarrow> run_pool_op R op (vp_workers vp ! idx) (vp\<lparr>vp_chan := c, vp_counter := counter\<rparr>) w2))"

section \<open>The caller's side\<close>

definition vp_is_alive :: "('c, 'r, 'a, 's) virtual_pool \<Rightarrow> bool" where
  "vp_is_alive vp = vp_alive vp"

definition vp_stop :: "('c, ('m, 's) router_command) mpsc \<Rightarrow> ('c, 'r, 'a, 's) virtual_pool \<Rightarrow> ('c, 'r, 'a, 's) virtual_pool" where
  "vp_stop ch vp = vp\<lparr>vp_alive := False, vp_chan := snd (mp_try_send ch (vp_chan vp) RouterStop)\<rparr>"

definition vp_submit ::
  "('c, ('m, 's) router_command) mpsc \<Rightarrow> ('c, 'r, 'a, 's) virtual_pool \<Rightarrow> ('m, 's) pool_op
    \<Rightarrow> (actor_send_error + unit) \<times> ('c, 'r, 'a, 's) virtual_pool" where
  "vp_submit ch vp op =
     (case mp_try_send ch (vp_chan vp) (RouterOp op) of
        (Inr _, c) \<Rightarrow> (Inr (), vp\<lparr>vp_chan := c\<rparr>)
      | (Inl _, c) \<Rightarrow> (Inl (ActorSendError ''virtual pool router stopped or full''), vp\<lparr>vp_chan := c\<rparr>))"

definition vp_tell where
  "vp_tell ch vp msg = vp_submit ch vp (OpTell msg)"

text \<open>The other methods return a ticket for the reply or stream.\<close>

definition vp_request ::
  "('c, ('m, 's) router_command) mpsc \<Rightarrow> ('c, 'r, 'a, 's) virtual_pool \<Rightarrow> (nat \<Rightarrow> ('m, 's) pool_op)
    \<Rightarrow> (actor_send_error + nat) \<times> ('c, 'r, 'a, 's) virtual_pool" where
  "vp_request ch vp mk =
     (let t = vp_next_ticket vp
      in case vp_submit ch (vp\<lparr>vp_next_ticket := t + 1\<rparr>) (mk t) of
           (Inr _, vp') \<Rightarrow> (Inr t, vp')
         | (Inl e, vp') \<Rightarrow> (Inl e, vp'))"

definition vp_ask where
  "vp_ask ch vp msg cancel = vp_request ch vp (\<lambda>t. OpAsk t msg cancel)"

definition vp_expand where
  "vp_expand ch vp msg buffer batch cancel = vp_request ch vp (\<lambda>t. OpExpand t msg buffer batch cancel)"

definition vp_reduce where
  "vp_reduce ch vp input buffer batch cancel = vp_request ch vp (\<lambda>t. OpReduce t input buffer batch cancel)"

definition vp_transform where
  "vp_transform ch vp input buffer batch cancel = vp_request ch vp (\<lambda>t. OpTransform t input buffer batch cancel)"

text \<open>What the reply to an ask or reduce resolves to; \<open>None\<close> while it is pending. \<open>resolve\<close> awaits the worker's own reply.\<close>

definition vp_await_reply ::
  "('a \<Rightarrow> (runtime_error + 'x) option) \<Rightarrow> string \<Rightarrow> ('c, 'r, 'a, 's) virtual_pool \<Rightarrow> nat \<Rightarrow> (runtime_error + 'x) option" where
  "vp_await_reply resolve what vp t =
     (case hm_get (vp_replies vp) t of
        Some (Inr ask_reply) \<Rightarrow> resolve ask_reply
      | Some (Inl e) \<Rightarrow> Some (Inl (RE_Send e))
      | None \<Rightarrow> (if vp_running vp then None
                 else Some (Inl (RE_ActorNotFound (''virtual pool router dropped before forwarding '' @ what)))))"

text \<open>The stream of an expand or transform: that of the worker, or an empty one.\<close>

definition vp_await_stream :: "('s \<Rightarrow> 'x list) \<Rightarrow> ('c, 'r, 'a, 's) virtual_pool \<Rightarrow> nat \<Rightarrow> 'x list option" where
  "vp_await_stream items vp t =
     (case hm_get (vp_streams vp) t of
        Some (Inr inner) \<Rightarrow> Some (items inner)
      | Some (Inl _) \<Rightarrow> Some []
      | None \<Rightarrow> (if vp_running vp then None else Some []))"

section \<open>Histories\<close>

text \<open>Calls from any number of callers interleaved with turns of the router. The workers run on their own: a turn finds a world that has changed since the
  last one, and changes again between the two readings of the loads; what the turn does to the world the next one finds.\<close>

datatype ('w, 'm, 's) vp_event = VSubmit "('m, 's) pool_op" | VStop | VTurn "'w \<Rightarrow> 'w" "'w \<Rightarrow> 'w"

text \<open>A history: the commands that were accepted, and the pool and world after it.\<close>

fun vp_run ::
  "('c, ('m, 's) router_command) mpsc \<Rightarrow> ('w, 'r, 'm, 'a, 's) actor_ref \<Rightarrow> ('w, 'm, 's) vp_event list
    \<Rightarrow> ('c, 'r, 'a, 's) virtual_pool \<times> 'w \<Rightarrow> ('m, 's) router_command list \<times> ('c, 'r, 'a, 's) virtual_pool \<times> 'w" where
  "vp_run ch R [] s = ([], s)"
| "vp_run ch R (VSubmit op # es) (vp, w) =
     (case vp_submit ch vp op of (x, vp1) \<Rightarrow>
      case vp_run ch R es (vp1, w) of (acc, s) \<Rightarrow> ((if isl x then [] else [RouterOp op]) @ acc, s))"
| "vp_run ch R (VStop # es) (vp, w) =
     (case vp_run ch R es (vp_stop ch vp, w) of (acc, s) \<Rightarrow>
        ((if isl (fst (mp_try_send ch (vp_chan vp) RouterStop)) then [] else [RouterStop]) @ acc, s))"
| "vp_run ch R (VTurn f g # es) (vp, w) = vp_run ch R es (vp_turn ch R (f w) (g (f w)) vp)"

text \<open>The reference: the same operations as direct calls on a pool of the same workers, one after the other. A call that panics ends the service.\<close>

type_synonym ('r, 'a, 's) served = "'r pool_ref \<times> (nat, actor_send_error + 'a) hashmap \<times> (nat, actor_send_error + 's) hashmap"

fun pool_perform ::
  "('w, 'r, 'm, 'a, 's) actor_ref \<Rightarrow> 'w \<Rightarrow> 'w \<Rightarrow> ('m, 's) pool_op \<Rightarrow> ('r, 'a, 's) served \<Rightarrow> bool \<times> ('r, 'a, 's) served \<times> 'w" where
  "pool_perform R w1 w2 (OpTell msg) (p, replies, streams) =
     (case pool_tell R w1 w2 p msg of (x, p', w) \<Rightarrow> (x \<noteq> None, (p', replies, streams), w))"
| "pool_perform R w1 w2 (OpAsk t msg cancel) (p, replies, streams) =
     (case pool_ask R w1 w2 p msg cancel of
        (Some x, p', w) \<Rightarrow> (True, (p', hm_insert t x replies, streams), w) | (None, p', w) \<Rightarrow> (False, (p', replies, streams), w))"
| "pool_perform R w1 w2 (OpExpand t msg buffer batch cancel) (p, replies, streams) =
     (case pool_expand R w1 w2 p msg buffer batch cancel of
        (Some x, p', w) \<Rightarrow> (True, (p', replies, hm_insert t x streams), w) | (None, p', w) \<Rightarrow> (False, (p', replies, streams), w))"
| "pool_perform R w1 w2 (OpReduce t input buffer batch cancel) (p, replies, streams) =
     (case pool_reduce R w1 w2 p input buffer batch cancel of
        (Some x, p', w) \<Rightarrow> (True, (p', hm_insert t x replies, streams), w) | (None, p', w) \<Rightarrow> (False, (p', replies, streams), w))"
| "pool_perform R w1 w2 (OpTransform t input buffer batch cancel) (p, replies, streams) =
     (case pool_transform R w1 w2 p input buffer batch cancel of
        (Some x, p', w) \<Rightarrow> (True, (p', replies, hm_insert t x streams), w) | (None, p', w) \<Rightarrow> (False, (p', replies, streams), w))"

fun pool_serve ::
  "('w, 'r, 'm, 'a, 's) actor_ref \<Rightarrow> ('m, 's) router_command list \<Rightarrow> (('w \<Rightarrow> 'w) \<times> ('w \<Rightarrow> 'w)) list
    \<Rightarrow> bool \<times> ('r, 'a, 's) served \<times> 'w \<Rightarrow> bool \<times> ('r, 'a, 's) served \<times> 'w" where
  "pool_serve R cmds [] s = s"
| "pool_serve R cmds ((f, g) # ts) (False, st, w) = pool_serve R cmds ts (False, st, g (f w))"
| "pool_serve R [] ((f, g) # ts) (True, st, w) = pool_serve R [] ts (False, st, g (f w))"
| "pool_serve R (RouterStop # cmds) ((f, g) # ts) (True, st, w) = pool_serve R cmds ts (False, st, pool_stop R (g (f w)) (fst st))"
| "pool_serve R (RouterOp op # cmds) ((f, g) # ts) (True, st, w) = pool_serve R cmds ts (pool_perform R (f w) (g (f w)) op st)"

fun vp_turns :: "('w, 'm, 's) vp_event list \<Rightarrow> (('w \<Rightarrow> 'w) \<times> ('w \<Rightarrow> 'w)) list" where
  "vp_turns [] = []"
| "vp_turns (VTurn f g # es) = (f, g) # vp_turns es"
| "vp_turns (_ # es) = vp_turns es"

text \<open>A virtual pool seen as a pool, with the results its callers can collect.\<close>

definition vp_direct :: "('c, 'r, 'a, 's) virtual_pool \<Rightarrow> ('r, 'a, 's) served" where
  "vp_direct vp = (\<lparr>pl_workers = vp_workers vp, pl_routing = vp_routing vp, pl_counter = vp_counter vp,
     pl_pool_id = aid_local (vp_pool_id vp), pl_name = vp_name vp\<rparr>, vp_replies vp, vp_streams vp)"

section \<open>Lemmas\<close>

lemma run_pool_op_keeps:
  assumes "run_pool_op R op r vp w = (vp', w')"
  shows "vp_chan vp' = vp_chan vp" and "vp_running vp' = vp_running vp" and "vp_alive vp' = vp_alive vp"
    and "vp_workers vp' = vp_workers vp" and "vp_routing vp' = vp_routing vp" and "vp_counter vp' = vp_counter vp"
  using assms by (cases op; auto split: prod.splits)+

text \<open>The router runs exactly while its end of the channel is open.\<close>

definition vp_wf :: "('c, ('m, 's) router_command) mpsc \<Rightarrow> ('c, 'r, 'a, 's) virtual_pool \<Rightarrow> bool" where
  "vp_wf ch vp \<longleftrightarrow> vp_running vp = (\<not> mp_is_closed ch (vp_chan vp))"

lemma vp_submit_cases:
  assumes law: "mpsc_lawful ch queued" and "vp_wf ch vp" and run: "vp_submit ch vp op = (x, vp')"
  shows "vp_wf ch vp'" and "vp_running vp' = vp_running vp"
    and "queued (vp_chan vp') = queued (vp_chan vp) @ (if isl x then [] else [RouterOp op])"
proof -
  obtain y c where y: "mp_try_send ch (vp_chan vp) (RouterOp op) = (y, c)" by force
  note c = mpsc_try_send_effect [OF law y]
  have "isl x = isl y" "vp_chan vp' = c" "vp_running vp' = vp_running vp"
    using run y by (auto simp: vp_submit_def split: sum.splits)
  then show "vp_wf ch vp'" "vp_running vp' = vp_running vp"
    "queued (vp_chan vp') = queued (vp_chan vp) @ (if isl x then [] else [RouterOp op])"
    using c assms(2) by (simp_all add: vp_wf_def)
qed

lemma vp_stop_cases:
  assumes law: "mpsc_lawful ch queued" and "vp_wf ch vp"
  shows "vp_wf ch (vp_stop ch vp)" and "vp_running (vp_stop ch vp) = vp_running vp"
    and "queued (vp_chan (vp_stop ch vp)) =
      queued (vp_chan vp) @ (if isl (fst (mp_try_send ch (vp_chan vp) RouterStop)) then [] else [RouterStop])"
proof -
  obtain y c where y: "mp_try_send ch (vp_chan vp) RouterStop = (y, c)" by force
  from mpsc_try_send_effect [OF law y]
  show "vp_wf ch (vp_stop ch vp)" "vp_running (vp_stop ch vp) = vp_running vp"
    "queued (vp_chan (vp_stop ch vp)) =
      queued (vp_chan vp) @ (if isl (fst (mp_try_send ch (vp_chan vp) RouterStop)) then [] else [RouterStop])"
    using y assms(2) by (simp_all add: vp_stop_def vp_wf_def)
qed

lemma vp_direct_updates [simp]:
  "vp_direct (vp\<lparr>vp_chan := c\<rparr>) = vp_direct vp" "vp_direct (vp\<lparr>vp_running := b\<rparr>) = vp_direct vp" "vp_direct (vp\<lparr>vp_alive := b\<rparr>) = vp_direct vp"
  by (simp_all add: vp_direct_def)

lemma vp_submit_direct: "vp_submit ch vp op = (x, vp') \<Longrightarrow> vp_direct vp' = vp_direct vp"
  by (auto simp: vp_submit_def split: prod.splits sum.splits)

lemma vp_stop_direct: "vp_direct (vp_stop ch vp) = vp_direct vp"
  by (simp add: vp_stop_def)

text \<open>The virtual pool routes as the pool does: for the same workers, strategy, counter and loads, the router's selection
  picks the same worker (or panics) and counts on to the same value, so that a virtual pool's sequence of operations is
  spread over the workers as that of a pool reference.\<close>

lemma vpool_routes_like_pool:
  "select_worker_index R w1 w2 (pl_workers p) (pl_routing p) (pl_counter p) =
     (case pool_select_worker R w1 w2 p of (i, p') \<Rightarrow> (i, pl_counter p'))"
  by (simp add: select_worker_index_def pool_select_worker_def round_robin_index_def random_index_def least_loaded_index_def
      Let_def split: pool_routing.splits)

text \<open>A turn that takes an operation does what the direct call on the pool does.\<close>

lemma vp_turn_performs:
  assumes "vp_running vp" and "mp_recv ch (vp_chan vp) = (Some (RouterOp op), c)" and "vp_turn ch R w1 w2 vp = (vp', w')"
  shows "pool_perform R w1 w2 op (vp_direct vp) = (vp_running vp', vp_direct vp', w')"
    and "vp_chan vp' = (if vp_running vp' then c else mp_close ch c)"
proof -
  obtain i n where sel: "select_worker_index R w1 w2 (vp_workers vp) (vp_routing vp) (vp_counter vp) = (i, n)" by force
  define p where "p = fst (vp_direct vp)"
  have ps: "pool_select_worker R w1 w2 p = (i, p\<lparr>pl_counter := n\<rparr>)"
  proof -
    have "select_worker_index R w1 w2 (pl_workers p) (pl_routing p) (pl_counter p) = (i, n)" using sel by (simp add: p_def vp_direct_def)
    then show ?thesis unfolding vpool_routes_like_pool
      by (auto simp: pool_select_worker_def round_robin_index_def random_index_def least_loaded_index_def Let_def split: pool_routing.splits if_splits)
  qed
  have d: "vp_direct vp = (p, vp_replies vp, vp_streams vp)" "pl_workers p = vp_workers vp" by (simp_all add: p_def vp_direct_def)
  have pd: "p\<lparr>pl_counter := n\<rparr> = fst (vp_direct (vp\<lparr>vp_counter := n\<rparr>))" by (simp add: p_def vp_direct_def)
  have "pool_perform R w1 w2 op (vp_direct vp) = (vp_running vp', vp_direct vp', w') \<and> vp_chan vp' = (if vp_running vp' then c else mp_close ch c)"
  proof (cases i)
    case None
    then have "vp' = vp\<lparr>vp_chan := mp_close ch c, vp_running := False, vp_counter := n\<rparr>" "w' = w2"
      using assms sel by (simp_all add: vp_turn_def)
    then show ?thesis using ps None unfolding d(1)
      by (cases op) (simp_all add: pool_tell_def pool_ask_def pool_expand_def pool_reduce_def pool_transform_def pool_forward_def pd vp_direct_def)
  next
    case (Some idx)
    then have r: "run_pool_op R op (vp_workers vp ! idx) (vp\<lparr>vp_chan := c, vp_counter := n\<rparr>) w2 = (vp', w')"
      using assms sel by (simp add: vp_turn_def)
    then show ?thesis using ps Some assms(1) d(2) unfolding d(1)
      by (cases op) (auto simp: pool_tell_def pool_ask_def pool_expand_def pool_reduce_def pool_transform_def pool_forward_def pd vp_direct_def
          split: prod.splits)
  qed
  then show "pool_perform R w1 w2 op (vp_direct vp) = (vp_running vp', vp_direct vp', w')"
    and "vp_chan vp' = (if vp_running vp' then c else mp_close ch c)" by simp_all
qed

text \<open>What one turn does, by the command it takes.\<close>

lemma vp_turn_cases:
  assumes law: "mpsc_lawful ch queued" and wf: "vp_wf ch vp" and run: "vp_running vp" and turn: "vp_turn ch R w1 w2 vp = (vp', w')"
  obtains (drained) "queued (vp_chan vp) = []" "vp_wf ch vp'" "\<not> vp_running vp'" "vp_direct vp' = vp_direct vp" "w' = w2"
  | (stop) q where "queued (vp_chan vp) = RouterStop # q" "vp_wf ch vp'" "\<not> vp_running vp'" "vp_direct vp' = vp_direct vp"
      "w' = pool_stop R w2 (fst (vp_direct vp))"
  | (oper) op q where "queued (vp_chan vp) = RouterOp op # q" "vp_wf ch vp'" "vp_running vp' \<longrightarrow> queued (vp_chan vp') = q"
      "pool_perform R w1 w2 op (vp_direct vp) = (vp_running vp', vp_direct vp', w')"
proof (cases "queued (vp_chan vp)")
  case Nil
  then show ?thesis using turn run mpsc_recv_NilD [OF law Nil] mpsc_closeD(1) [OF law]
    by (intro drained) (auto simp: vp_turn_def vp_wf_def)
next
  case (Cons cmd q)
  then obtain c where c: "mp_recv ch (vp_chan vp) = (Some cmd, c)" "queued c = q" "mp_is_closed ch c = mp_is_closed ch (vp_chan vp)"
    using mpsc_recvE [OF law Cons] by metis
  show ?thesis
  proof (cases cmd)
    case (RouterOp op)
    note p = vp_turn_performs [OF run c(1) [unfolded RouterOp] turn]
    have "vp_wf ch vp'" using p(2) c(3) wf run mpsc_closeD(1) [OF law] by (simp add: vp_wf_def)
    then show ?thesis using p c(2) Cons RouterOp by (intro oper) auto
  next
    case RouterStop
    then show ?thesis using turn run c(1) Cons mpsc_closeD(1) [OF law]
      by (intro stop) (auto simp: vp_turn_def vp_wf_def pool_stop_def vp_direct_def)
  qed
qed

lemma pool_serve_ended: "pool_serve R cmds ts (False, st, w) = (False, st, foldl (\<lambda>w (f, g). g (f w)) w ts)"
  by (induction ts arbitrary: w) (auto split: prod.split)

text \<open>Once the router has ended nothing is accepted or done any more.\<close>

lemma vp_run_ended:
  assumes law: "mpsc_lawful ch queued"
  shows "vp_wf ch vp \<Longrightarrow> \<not> vp_running vp \<Longrightarrow> vp_run ch R es (vp, w) = (acc, vp', w') \<Longrightarrow>
    acc = [] \<and> \<not> vp_running vp' \<and> vp_direct vp' = vp_direct vp \<and> w' = foldl (\<lambda>w (f, g). g (f w)) w (vp_turns es)"
proof (induction es arbitrary: vp w acc)
  case (Cons e es)
  have closed: "mp_is_closed ch (vp_chan vp)" using Cons.prems(1,2) by (simp add: vp_wf_def)
  show ?case
  proof (cases e)
    case (VSubmit op)
    have s: "vp_submit ch vp op = (Inl (ActorSendError ''virtual pool router stopped or full''), vp)"
      using mpsc_closedD(1) [OF law closed] by (simp add: vp_submit_def)
    then show ?thesis using Cons.IH [OF Cons.prems(1,2)] Cons.prems(3) VSubmit by (auto split: prod.splits)
  next
    case VStop
    note st = vp_stop_cases [OF law Cons.prems(1)]
    then show ?thesis using Cons.IH [OF st(1)] Cons.prems(2,3) VStop mpsc_closedD(1) [OF law closed] vp_stop_direct [of ch vp]
      by (auto split: prod.splits)
  next
    case (VTurn f g)
    then show ?thesis using Cons.IH [OF Cons.prems(1,2)] Cons.prems(2,3) by (simp add: vp_turn_def)
  qed
qed auto

lemma vp_run_serves:
  assumes law: "mpsc_lawful ch queued"
  shows "vp_wf ch vp \<Longrightarrow> vp_running vp \<Longrightarrow> vp_run ch R es (vp, w) = (acc, vp', w') \<Longrightarrow>
    pool_serve R (queued (vp_chan vp) @ acc) (vp_turns es) (True, vp_direct vp, w) = (vp_running vp', vp_direct vp', w') \<and>
    (vp_running vp' \<longrightarrow> queued (vp_chan vp') = drop (length (vp_turns es)) (queued (vp_chan vp) @ acc))"
proof (induction es arbitrary: vp w acc)
  case (Cons e es)
  show ?case
  proof (cases e)
    case (VSubmit op)
    obtain x vp1 where x: "vp_submit ch vp op = (x, vp1)" by force
    note sub = vp_submit_cases [OF law Cons.prems(1) x] vp_submit_direct [OF x]
    show ?thesis using Cons.IH [OF sub(1)] Cons.prems(2,3) VSubmit x sub(2-4) by (auto simp del: drop_append split: prod.splits)
  next
    case VStop
    note stp = vp_stop_cases [OF law Cons.prems(1)] vp_stop_direct [of ch vp]
    show ?thesis using Cons.IH [OF stp(1)] Cons.prems(2,3) VStop stp(2-4) by (auto simp del: drop_append split: prod.splits)
  next
    case (VTurn f g)
    obtain vp1 w1 where t: "vp_turn ch R (f w) (g (f w)) vp = (vp1, w1)" by force
    have rest: "vp_run ch R es (vp1, w1) = (acc, vp', w')" using Cons.prems(3) VTurn t by simp
    from law Cons.prems(1,2) t show ?thesis
    proof (cases rule: vp_turn_cases)
      case drained
      then show ?thesis using vp_run_ended [OF law _ _ rest] VTurn by (simp add: pool_serve_ended)
    next
      case (stop q)
      then show ?thesis using vp_run_ended [OF law _ _ rest] VTurn by (simp add: pool_serve_ended)
    next
      case (oper op q)
      show ?thesis
      proof (cases "vp_running vp1")
        case True
        then show ?thesis using Cons.IH [OF oper(2) True rest] oper VTurn by simp
      next
        case False
        then show ?thesis using vp_run_ended [OF law oper(2) False rest] oper VTurn by (simp add: pool_serve_ended)
      qed
    qed
  qed
qed auto

section \<open>Properties\<close>


definition sample_vpool :: "pool_routing \<Rightarrow> (('m, 's) router_command list_channel, nat, unit, unit) virtual_pool" where
  "sample_vpool routing = fst (the (vp_with_capacity sample_refs (\<lambda>n. ListChannel [] n False) 1 [0, 1, 2] routing 2))"


text \<open>A stop can be lost: when the router's queue is full, stopping the pool marks it as not alive but queues nothing; the
  router goes on executing the queued operations, one per turn, its task does not end and later calls are accepted
  again, while the workers are not stopped by any of it.\<close>

theorem vpool_stop_lost:
  assumes law: "mpsc_lawful ch queued" and wf: "vp_wf ch vp" and run: "vp_running vp"
    and full: "mp_max_capacity ch (vp_chan vp) \<le> length (queued (vp_chan vp))" and q: "queued (vp_chan vp) = RouterOp op # ops"
    and sel: "select_worker_index R w1 w2 (vp_workers vp) (vp_routing vp) (vp_counter vp) = (Some i, n)"
    and turn: "vp_turn ch R w1 w2 (vp_stop ch vp) = (vp', w')"
  shows "\<not> vp_is_alive (vp_stop ch vp) \<and> queued (vp_chan (vp_stop ch vp)) = RouterOp op # ops \<and>
    \<not> vp_is_alive vp' \<and> vp_running vp' \<and> queued (vp_chan vp') = ops \<and>
    (length ops < mp_max_capacity ch (vp_chan vp') \<longrightarrow> fst (vp_tell ch vp' msg) = Inr ())"
proof -
  have open': "\<not> mp_is_closed ch (vp_chan vp)" using wf run by (simp add: vp_wf_def)
  have st: "vp_stop ch vp = vp\<lparr>vp_alive := False\<rparr>"
    using mpsc_fullD [OF law open' full, of RouterStop] by (simp add: vp_stop_def)
  obtain c where c: "mp_recv ch (vp_chan vp) = (Some (RouterOp op), c)" "queued c = ops" "mp_is_closed ch c = mp_is_closed ch (vp_chan vp)"
    using mpsc_recvE [OF law q] by metis
  have r: "run_pool_op R op (vp_workers vp ! i) (vp\<lparr>vp_alive := False, vp_chan := c, vp_counter := n\<rparr>) w2 = (vp', w')"
    using turn st run c(1) sel by (simp add: vp_turn_def)
  note keep = run_pool_op_keeps [OF r]
  have "fst (vp_tell ch vp' msg) = Inr ()" if "length ops < mp_max_capacity ch (vp_chan vp')"
  proof -
    have "\<not> mp_is_closed ch c" "length (queued c) < mp_max_capacity ch c" using c open' that keep(1) by simp_all
    then obtain d where "mp_try_send ch c (RouterOp (OpTell msg)) = (Inr (), d)" using mpsc_try_sendE [OF law] by blast
    then show ?thesis using keep(1) by (simp add: vp_tell_def vp_submit_def)
  qed
  then show ?thesis using st q keep(1-3) c(2) run by (simp add: vp_is_alive_def)
qed

theorem vpool_stop_lost_witness:
  "let w = (\<lambda>_. 0, []); vp = fst (snd (vp_run list_mpsc sample_refs [VSubmit (OpTell ''a''), VSubmit (OpTell ''b'')] (sample_vpool RoundRobin, w)))
   in \<not> vp_is_alive (fst (vp_turn list_mpsc sample_refs w w (vp_stop list_mpsc vp))) \<and>
      vp_running (fst (vp_turn list_mpsc sample_refs w w (vp_stop list_mpsc vp)))"
proof -
  let ?w = "(\<lambda>_. 0, []) :: (nat \<Rightarrow> nat) \<times> (nat \<times> string) list"
  let ?vp = "fst (snd (vp_run list_mpsc sample_refs [VSubmit (OpTell ''a''), VSubmit (OpTell ''b'')] (sample_vpool RoundRobin, ?w)))"
  have a: "vp_wf list_mpsc ?vp" "vp_running ?vp"
    "mp_max_capacity list_mpsc (vp_chan ?vp) \<le> length (lc_items (vp_chan ?vp))"
    "lc_items (vp_chan ?vp) = RouterOp (OpTell ''a'') # [RouterOp (OpTell ''b'')]"
    "select_worker_index sample_refs ?w ?w (vp_workers ?vp) (vp_routing ?vp) (vp_counter ?vp) = (Some 0, 1)" by code_simp+
  obtain vp' w' where t: "vp_turn list_mpsc sample_refs ?w ?w (vp_stop list_mpsc ?vp) = (vp', w')" by (rule prod.exhaust)
  show ?thesis using vpool_stop_lost [OF list_mpsc_lawful a t] t by (simp add: Let_def)
qed

end
