(* ===== verification/Streams.thy ===== *)
theory Streams
  imports Pool
begin

text \<open>
  Stream channels and batching (\<^verbatim>\<open>dactor/src/stream.rs\<close>), with the loop of the batched feed task that drives the batch writer
  (\<^verbatim>\<open>spawn_reduce_batched_drain\<close> of \<^verbatim>\<open>runtime_support.rs\<close>). The channel is that of \<open>Channels\<close>. The reader's loop may in principle
  run forever, on a channel of empty batches: it is a partial function with result \<open>None\<close> for that.
\<close>

section \<open>Senders\<close>

datatype stream_send_error = ConsumerDropped | StreamFull

definition ss_try_send :: "('c, 'a) mpsc \<Rightarrow> 'c \<Rightarrow> 'a \<Rightarrow> (stream_send_error + unit) \<times> 'c" where
  "ss_try_send ch c item =
     (case mp_try_send ch c item of
        (Inr _, c') \<Rightarrow> (Inr (), c')
      | (Inl TrySendFull, c') \<Rightarrow> (Inl StreamFull, c')
      | (Inl TrySendClosed, c') \<Rightarrow> (Inl ConsumerDropped, c'))"

definition ss_send :: "('c, 'a) mpsc \<Rightarrow> 'c \<Rightarrow> 'a \<Rightarrow> (stream_send_error + unit) \<times> 'c" where
  "ss_send ch c item = (case mp_send ch c item of (ok, c') \<Rightarrow> (if ok then Inr () else Inl ConsumerDropped, c'))"

definition ss_is_closed :: "('c, 'a) mpsc \<Rightarrow> 'c \<Rightarrow> bool" where
  "ss_is_closed ch c = mp_is_closed ch c"

section \<open>Batch writer\<close>

definition bc_default :: batch_config where
  "bc_default = \<lparr>bc_max_items = 64, bc_max_delay = from_millis 5\<rparr>"

definition bc_new :: "nat \<Rightarrow> duration \<Rightarrow> batch_config" where
  "bc_new max_items max_delay = \<lparr>bc_max_items = max max_items 1, bc_max_delay = max_delay\<rparr>"

record ('c, 'a) batch_writer =
  bw_sender :: 'c
  bw_config :: batch_config
  bw_buffer :: "'a list"
  bw_flush_deadline :: "instant option"

definition bw_new :: "'c \<Rightarrow> batch_config \<Rightarrow> ('c, 'a) batch_writer" where
  "bw_new sender config = \<lparr>bw_sender = sender, bw_config = config, bw_buffer = [], bw_flush_deadline = None\<rparr>"

definition bw_flush :: "('c, 'a list) mpsc \<Rightarrow> ('c, 'a) batch_writer \<Rightarrow> (stream_send_error + unit) \<times> ('c, 'a) batch_writer" where
  "bw_flush ch bw =
     (if bw_buffer bw = [] then (Inr (), bw)
      else case ss_send ch (bw_sender bw) (bw_buffer bw) of
             (r, c) \<Rightarrow> (r, bw\<lparr>bw_buffer := [], bw_flush_deadline := None, bw_sender := c\<rparr>))"

definition bw_push ::
  "('c, 'a list) mpsc \<Rightarrow> instant \<Rightarrow> ('c, 'a) batch_writer \<Rightarrow> 'a \<Rightarrow> (stream_send_error + unit) \<times> ('c, 'a) batch_writer" where
  "bw_push ch now bw item =
     (let bw1 = bw\<lparr>bw_buffer := bw_buffer bw @ [item]\<rparr>;
          bw2 = (if bw_flush_deadline bw1 = None then bw1\<lparr>bw_flush_deadline := Some (now + bc_max_delay (bw_config bw1))\<rparr> else bw1)
      in if length (bw_buffer bw2) \<ge> bc_max_items (bw_config bw2) then bw_flush ch bw2 else (Inr (), bw2))"

definition bw_check_deadline ::
  "('c, 'a list) mpsc \<Rightarrow> instant \<Rightarrow> ('c, 'a) batch_writer \<Rightarrow> (stream_send_error + unit) \<times> ('c, 'a) batch_writer" where
  "bw_check_deadline ch now bw =
     (case bw_flush_deadline bw of
        Some deadline \<Rightarrow> (if now \<ge> deadline then bw_flush ch bw else (Inr (), bw))
      | None \<Rightarrow> (Inr (), bw))"

definition bw_buffered_count :: "('c, 'a) batch_writer \<Rightarrow> nat" where
  "bw_buffered_count bw = length (bw_buffer bw)"

section \<open>Batch reader\<close>

record ('c, 'a) batch_reader =
  brd_receiver :: 'c
  brd_current_batch :: "'a list"

partial_function (option) brd_recv ::
  "('c, 'a list) mpsc \<Rightarrow> ('c, 'a) batch_reader \<Rightarrow> ('a option \<times> ('c, 'a) batch_reader) option" where
  [code]: "brd_recv ch rd =
     (case brd_current_batch rd of
        item # rest \<Rightarrow> Some (Some item, rd\<lparr>brd_current_batch := rest\<rparr>)
      | [] \<Rightarrow>
          (case mp_recv ch (brd_receiver rd) of
             (Some batch, c) \<Rightarrow> brd_recv ch (rd\<lparr>brd_receiver := c, brd_current_batch := batch\<rparr>)
           | (None, c) \<Rightarrow> Some (None, rd\<lparr>brd_receiver := c\<rparr>)))"

section \<open>The batched feed\<close>

text \<open>The writer task: items arrive at given times (or the input ends); while items are buffered the task waits for the
  next item or for a sleep of \<open>max_delay\<close> that starts anew in every round, the item having precedence. The trace gives the
  batches handed to the channel with the time. \<open>True\<close> in the result means that the loop was left because the
  consumer is gone.\<close>

definition handed :: "instant \<Rightarrow> 'a list \<Rightarrow> ('c, 'a) batch_writer \<Rightarrow> (instant \<times> 'a list) list" where
  "handed t b bw = (if b \<noteq> [] \<and> bw_buffer bw = [] then [(t, b)] else [])"

text \<open>The sleeping round (after which nothing is buffered, since the deadline is \<open>max_delay\<close> after the first push), entered when items are buffered and nothing arrives before the sleep ends at time \<open>t\<close>.\<close>

definition writer_wakeup ::
  "('c, 'a list) mpsc \<Rightarrow> instant \<Rightarrow> ('c, 'a) batch_writer \<Rightarrow> bool \<times> (instant \<times> 'a list) list \<times> ('c, 'a) batch_writer" where
  "writer_wakeup ch t bw =
     (case bw_check_deadline ch t bw of (r, bw') \<Rightarrow> (isl r, handed t (bw_buffer bw) bw', bw'))"

fun writer_task ::
  "('c, 'a list) mpsc \<Rightarrow> instant \<Rightarrow> ('c, 'a) batch_writer \<Rightarrow> (instant \<times> 'a) list \<Rightarrow> instant
    \<Rightarrow> (instant \<times> 'a list) list \<times> ('c, 'a) batch_writer" where
  "writer_task ch now bw [] end_time =
     (let wake = now + bc_max_delay (bw_config bw) in
      if bw_buffered_count bw > 0 \<and> end_time > wake
      then case writer_wakeup ch wake bw of (gone, tr, bw1) \<Rightarrow>
             (case bw_flush ch bw1 of (_, bw2) \<Rightarrow> (tr @ handed (if gone then wake else end_time) (bw_buffer bw1) bw2, bw2))
      else case bw_flush ch bw of (_, bw1) \<Rightarrow> (handed end_time (bw_buffer bw) bw1, bw1))"
| "writer_task ch now bw ((t, item) # arrivals) end_time =
     (let wake = now + bc_max_delay (bw_config bw) in
      case (if bw_buffered_count bw > 0 \<and> t > wake then writer_wakeup ch wake bw else (False, [], bw)) of (gone, tr, bw1) \<Rightarrow>
        if gone then (case bw_flush ch bw1 of (_, bw2) \<Rightarrow> (tr @ handed wake (bw_buffer bw1) bw2, bw2))
        else case bw_push ch t bw1 item of (r, bw2) \<Rightarrow>
               let tr2 = handed t (bw_buffer bw1 @ [item]) bw2 in
               if isl r then (case bw_flush ch bw2 of (_, bw3) \<Rightarrow> (tr @ tr2 @ handed t (bw_buffer bw2) bw3, bw3))
               else case writer_task ch t bw2 arrivals end_time of (tr3, bw3) \<Rightarrow> (tr @ tr2 @ tr3, bw3))"

section \<open>Lemmas\<close>

lemma bw_flush_open:
  assumes "mpsc_lawful ch queued" and "\<not> mp_is_closed ch (bw_sender bw)"
  obtains c where "bw_flush ch bw = (Inr (), bw\<lparr>bw_buffer := [], bw_flush_deadline := (if bw_buffer bw = [] then bw_flush_deadline bw else None), bw_sender := c\<rparr>)"
    and "\<not> mp_is_closed ch c" and "queued c = queued (bw_sender bw) @ (if bw_buffer bw = [] then [] else [bw_buffer bw])"
proof (cases "bw_buffer bw = []")
  case True
  then have "bw_flush ch bw = (Inr (), bw\<lparr>bw_buffer := [], bw_flush_deadline := bw_flush_deadline bw, bw_sender := bw_sender bw\<rparr>)"
    by (cases bw) (simp add: bw_flush_def)
  then show thesis using that [of "bw_sender bw"] assms(2) True by simp
next
  case False
  obtain c where "mp_send ch (bw_sender bw) (bw_buffer bw) = (True, c)" "queued c = queued (bw_sender bw) @ [bw_buffer bw]"
    "\<not> mp_is_closed ch c"
    using mpsc_sendE [OF assms] by metis
  then show thesis using that [of c] False by (simp add: bw_flush_def ss_send_def)
qed

text \<open>The items in flight: read but not yielded, queued, buffered.\<close>

definition in_flight :: "('c \<Rightarrow> 'a list list) \<Rightarrow> ('c, 'a) batch_writer \<Rightarrow> 'a list \<Rightarrow> 'a list" where
  "in_flight queued bw cur = cur @ concat (queued (bw_sender bw)) @ bw_buffer bw"

text \<open>A writer is well formed if its buffer is below the limit and no queued batch is above.\<close>

definition bw_wf :: "('c, 'a list) mpsc \<Rightarrow> ('c \<Rightarrow> 'a list list) \<Rightarrow> ('c, 'a) batch_writer \<Rightarrow> bool" where
  "bw_wf ch queued bw \<longleftrightarrow> \<not> mp_is_closed ch (bw_sender bw) \<and> length (bw_buffer bw) < bc_max_items (bw_config bw) \<and>
     (\<forall>b \<in> set (queued (bw_sender bw)). b \<noteq> [] \<and> length b \<le> bc_max_items (bw_config bw))"

lemma bw_flush_step:
  assumes law: "mpsc_lawful ch queued" and wf: "\<not> mp_is_closed ch (bw_sender bw)" "0 < bc_max_items (bw_config bw)"
      "length (bw_buffer bw) \<le> bc_max_items (bw_config bw)"
      "\<forall>b \<in> set (queued (bw_sender bw)). b \<noteq> [] \<and> length b \<le> bc_max_items (bw_config bw)"
    and run: "bw_flush ch bw = (r, bw')"
  shows "r = Inr ()" and "bw_wf ch queued bw'" and "in_flight queued bw' cur = in_flight queued bw cur"
proof -
  obtain c where c: "bw_flush ch bw = (Inr (), bw\<lparr>bw_buffer := [], bw_flush_deadline := (if bw_buffer bw = [] then bw_flush_deadline bw else None), bw_sender := c\<rparr>)"
    "\<not> mp_is_closed ch c" "queued c = queued (bw_sender bw) @ (if bw_buffer bw = [] then [] else [bw_buffer bw])"
    by (rule bw_flush_open [OF law wf(1)])
  then show "r = Inr ()" "bw_wf ch queued bw'" "in_flight queued bw' cur = in_flight queued bw cur"
    using run wf by (auto simp: bw_wf_def in_flight_def)
qed

lemma bw_push_step:
  assumes law: "mpsc_lawful ch queued" and wf: "bw_wf ch queued bw" and run: "bw_push ch now bw x = (r, bw')"
  shows "r = Inr ()" and "bw_wf ch queued bw'" and "in_flight queued bw' cur = in_flight queued bw cur @ [x]"
proof -
  define bw2 where "bw2 = (if bw_flush_deadline bw = None
    then bw\<lparr>bw_buffer := bw_buffer bw @ [x], bw_flush_deadline := Some (now + bc_max_delay (bw_config bw))\<rparr>
    else bw\<lparr>bw_buffer := bw_buffer bw @ [x]\<rparr>)"
  have b2: "bw_buffer bw2 = bw_buffer bw @ [x]" "bw_sender bw2 = bw_sender bw" "bw_config bw2 = bw_config bw"
    by (simp_all add: bw2_def)
  have p: "bw_push ch now bw x = (if length (bw_buffer bw2) \<ge> bc_max_items (bw_config bw2) then bw_flush ch bw2 else (Inr (), bw2))"
    by (simp add: bw_push_def bw2_def Let_def)
  have "r = Inr () \<and> bw_wf ch queued bw' \<and> in_flight queued bw' cur = in_flight queued bw cur @ [x]"
  proof (cases "length (bw_buffer bw2) \<ge> bc_max_items (bw_config bw2)")
    case True
    then have f: "bw_flush ch bw2 = (r, bw')" using p run by simp
    have "in_flight queued bw2 cur = in_flight queued bw cur @ [x]" by (simp add: in_flight_def b2)
    moreover have pre: "\<not> mp_is_closed ch (bw_sender bw2)" "0 < bc_max_items (bw_config bw2)"
      "length (bw_buffer bw2) \<le> bc_max_items (bw_config bw2)"
      "\<forall>b \<in> set (queued (bw_sender bw2)). b \<noteq> [] \<and> length b \<le> bc_max_items (bw_config bw2)"
      using wf by (simp_all add: bw_wf_def b2)
    ultimately show ?thesis using bw_flush_step(1,2) [OF law pre f] bw_flush_step(3) [OF law pre f, of cur] by simp
  next
    case False
    then show ?thesis using p run wf b2 by (auto simp: bw_wf_def in_flight_def)
  qed
  then show "r = Inr ()" "bw_wf ch queued bw'" "in_flight queued bw' cur = in_flight queued bw cur @ [x]" by blast+
qed

lemma brd_recv_yields:
  assumes law: "mpsc_lawful ch queued"
  shows "\<exists>x rd'. brd_recv ch rd = Some (x, rd') \<and> mp_is_closed ch (brd_receiver rd') = mp_is_closed ch (brd_receiver rd) \<and>
    set (queued (brd_receiver rd')) \<subseteq> set (queued (brd_receiver rd)) \<and>
    (case brd_current_batch rd @ concat (queued (brd_receiver rd)) of
       [] \<Rightarrow> x = None \<and> brd_current_batch rd' = [] \<and> queued (brd_receiver rd') = []
     | y # ys \<Rightarrow> x = Some y \<and> brd_current_batch rd' @ concat (queued (brd_receiver rd')) = ys)"
proof (induction "queued (brd_receiver rd)" arbitrary: rd)
  case Nil
  then show ?case
    using mpsc_recv_NilD [OF law Nil [symmetric]] by (subst brd_recv.simps) (auto split: list.splits)
next
  case (Cons b bs)
  show ?case
  proof (cases "brd_current_batch rd")
    case Nil
    obtain c where c: "mp_recv ch (brd_receiver rd) = (Some b, c)" "queued c = bs" "mp_is_closed ch c = mp_is_closed ch (brd_receiver rd)"
      using mpsc_recvE [OF law Cons(2) [symmetric]] by metis
    have step: "brd_recv ch rd = brd_recv ch (rd\<lparr>brd_receiver := c, brd_current_batch := b\<rparr>)"
      using Nil c(1) by (subst brd_recv.simps) simp
    have "set (queued c) \<subseteq> set (queued (brd_receiver rd))"
      "brd_current_batch rd @ concat (queued (brd_receiver rd)) = b @ concat (queued c)"
      using Cons(2) [symmetric] c(2) Nil by auto
    then show ?thesis using Cons(1) [of "rd\<lparr>brd_receiver := c, brd_current_batch := b\<rparr>"] c step by fastforce
  next
    case (Cons y ys)
    then show ?thesis by (subst brd_recv.simps) auto
  qed
qed

section \<open>Properties\<close>

text \<open>Pushes, flushes and deadline checks of the writer interleaved with receives of the reader; the pushed and the received
  items in order.\<close>

datatype 'a batch_event = BPush instant 'a | BFlush | BCheck instant | BRecv

fun batch_run ::
  "('c, 'a list) mpsc \<Rightarrow> 'a batch_event list \<Rightarrow> ('c, 'a) batch_writer \<Rightarrow> 'a list \<Rightarrow> 'a list \<times> 'a list \<times> ('c, 'a) batch_writer \<times> 'a list" where
  "batch_run ch [] bw cur = ([], [], bw, cur)"
| "batch_run ch (BPush t x # es) bw cur =
     (case batch_run ch es (snd (bw_push ch t bw x)) cur of (pushed, got, rest) \<Rightarrow> (x # pushed, got, rest))"
| "batch_run ch (BFlush # es) bw cur = batch_run ch es (snd (bw_flush ch bw)) cur"
| "batch_run ch (BCheck t # es) bw cur = batch_run ch es (snd (bw_check_deadline ch t bw)) cur"
| "batch_run ch (BRecv # es) bw cur =
     (case brd_recv ch \<lparr>brd_receiver = bw_sender bw, brd_current_batch = cur\<rparr> of
        Some (x, rd) \<Rightarrow>
          (case batch_run ch es (bw\<lparr>bw_sender := brd_receiver rd\<rparr>) (brd_current_batch rd) of (pushed, got, rest) \<Rightarrow>
             (pushed, (case x of Some y \<Rightarrow> [y] | None \<Rightarrow> []) @ got, rest))
      | None \<Rightarrow> ([], [], bw, cur))"

lemma bw_check_step:
  assumes law: "mpsc_lawful ch queued" and wf: "bw_wf ch queued bw"
  shows "bw_wf ch queued (snd (bw_check_deadline ch t bw)) \<and> in_flight queued (snd (bw_check_deadline ch t bw)) cur = in_flight queued bw cur \<and>
    bw_wf ch queued (snd (bw_flush ch bw)) \<and> in_flight queued (snd (bw_flush ch bw)) cur = in_flight queued bw cur"
proof -
  have pre: "\<not> mp_is_closed ch (bw_sender bw)" "0 < bc_max_items (bw_config bw)" "length (bw_buffer bw) \<le> bc_max_items (bw_config bw)"
    "\<forall>b \<in> set (queued (bw_sender bw)). b \<noteq> [] \<and> length b \<le> bc_max_items (bw_config bw)"
    using wf by (auto simp: bw_wf_def)
  have f: "bw_flush ch bw = (fst (bw_flush ch bw), snd (bw_flush ch bw))" by simp
  have flush: "bw_wf ch queued (snd (bw_flush ch bw))" "in_flight queued (snd (bw_flush ch bw)) cur = in_flight queued bw cur"
    using bw_flush_step(2) [OF law pre f] bw_flush_step(3) [OF law pre f, of cur] by simp_all
  then show ?thesis using wf by (simp add: bw_check_deadline_def split: option.splits)
qed

text \<open>Batching loses, reorders and duplicates nothing: over any interleaving of pushes, flushes, deadline checks and receives on
  an open channel, the items received are the first of those pushed, in order, and the others are in flight; every receive returns, and
  a batch in the channel is never empty and never longer than the limit.\<close>

theorem batch_stream_order:
  assumes "mpsc_lawful ch queued" and "bw_wf ch queued bw" and "batch_run ch es bw cur = (pushed, got, bw', cur')"
  shows "got @ in_flight queued bw' cur' = in_flight queued bw cur @ pushed \<and>
    (\<forall>b \<in> set (queued (bw_sender bw')). b \<noteq> [] \<and> length b \<le> bc_max_items (bw_config bw')) \<and>
    length pushed = length (filter (\<lambda>e. case e of BPush _ _ \<Rightarrow> True | _ \<Rightarrow> False) es)"
proof -
  have "got @ in_flight queued bw' cur' = in_flight queued bw cur @ pushed \<and> bw_wf ch queued bw' \<and>
    length pushed = length (filter (\<lambda>e. case e of BPush _ _ \<Rightarrow> True | _ \<Rightarrow> False) es)"
    using assms(2,3)
  proof (induction es arbitrary: bw cur pushed got)
    case (Cons e es)
    show ?case
    proof (cases e)
      case (BPush t x)
      obtain pushed1 where p1: "batch_run ch es (snd (bw_push ch t bw x)) cur = (pushed1, got, bw', cur')" "pushed = x # pushed1"
        using Cons.prems(2) BPush by (auto split: prod.splits)
      have step: "bw_push ch t bw x = (fst (bw_push ch t bw x), snd (bw_push ch t bw x))" by simp
      note push = bw_push_step(2) [OF assms(1) Cons.prems(1) step] bw_push_step(3) [OF assms(1) Cons.prems(1) step, of cur]
      show ?thesis using Cons.IH [OF push(1) p1(1)] push(2) p1(2) BPush by simp
    next
      case BFlush
      then show ?thesis using Cons.IH [of "snd (bw_flush ch bw)" cur pushed got] Cons.prems bw_check_step [OF assms(1) Cons.prems(1)] by simp
    next
      case (BCheck t)
      then show ?thesis using Cons.IH [of "snd (bw_check_deadline ch t bw)" cur pushed got] Cons.prems bw_check_step [OF assms(1) Cons.prems(1)] by simp
    next
      case BRecv
      let ?rd = "\<lparr>brd_receiver = bw_sender bw, brd_current_batch = cur\<rparr>"
      obtain x rd where x: "brd_recv ch ?rd = Some (x, rd)" "mp_is_closed ch (brd_receiver rd) = mp_is_closed ch (bw_sender bw)"
        "set (queued (brd_receiver rd)) \<subseteq> set (queued (bw_sender bw))"
        "case cur @ concat (queued (bw_sender bw)) of
           [] \<Rightarrow> x = None \<and> brd_current_batch rd = [] \<and> queued (brd_receiver rd) = []
         | y # ys \<Rightarrow> x = Some y \<and> brd_current_batch rd @ concat (queued (brd_receiver rd)) = ys"
        using brd_recv_yields [OF assms(1), of ?rd] by auto
      let ?bw = "bw\<lparr>bw_sender := brd_receiver rd\<rparr>"
      obtain got1 where g: "batch_run ch es ?bw (brd_current_batch rd) = (pushed, got1, bw', cur')"
        "got = (case x of Some y \<Rightarrow> [y] | None \<Rightarrow> []) @ got1"
        using Cons.prems(2) BRecv x(1) by (auto split: prod.splits)
      have "bw_wf ch queued ?bw" using Cons.prems(1) x(2,3) by (auto simp: bw_wf_def)
      moreover have "(case x of Some y \<Rightarrow> [y] | None \<Rightarrow> []) @ in_flight queued ?bw (brd_current_batch rd) = in_flight queued bw cur"
        using x(4) by (auto simp: in_flight_def simp flip: append_assoc split: list.splits)
      ultimately show ?thesis using Cons.IH [OF _ g(1)] g(2) BRecv by auto
    qed
  qed auto
  then show ?thesis by (auto simp: bw_wf_def)
qed

theorem batch_stream_order_witness:
  "let (pushed, got, bw, cur) = batch_run list_mpsc [BPush 0 1, BPush 1 2, BPush 2 (3 :: nat), BRecv, BCheck 12, BRecv]
         (bw_new (ListChannel [] 4 False) (bc_new 2 10)) []
   in pushed = [1, 2, 3] \<and> got = [1, 2] \<and> got @ in_flight lc_items bw cur = pushed"
proof -
  let ?bw = "bw_new (ListChannel [] 4 False) (bc_new 2 10) :: (nat list list_channel, nat) batch_writer"
  let ?run = "batch_run list_mpsc [BPush 0 1, BPush 1 2, BPush 2 3, BRecv, BCheck 12, BRecv] ?bw []"
  obtain pushed got bw cur where run: "?run = (pushed, got, bw, cur)" by (metis prod_cases4)
  have wf: "bw_wf list_mpsc lc_items ?bw" by (simp add: bw_wf_def bw_new_def bc_new_def list_mpsc_def)
  have "in_flight lc_items ?bw [] = []" by (simp add: in_flight_def bw_new_def)
  moreover have "fst ?run = [1, 2, 3]" "fst (snd ?run) = [1, 2]" by code_simp+
  ultimately show ?thesis using batch_stream_order [OF list_mpsc_lawful wf run] run by simp
qed

lemma writer_task_no_wake:
  assumes "\<not> (bw_buffered_count bw > 0 \<and> t > now + bc_max_delay (bw_config bw))" and "bw_push ch t bw item = (Inr (), bw2)"
  shows "fst (writer_task ch now bw ((t, item) # arrivals) T) =
    handed t (bw_buffer bw @ [item]) bw2 @ fst (writer_task ch t bw2 arrivals T)"
  unfolding writer_task.simps Let_def if_not_P [OF assms(1)] by (simp add: assms(2) split_beta)

lemma feed_trace:
  assumes law: "mpsc_lawful ch queued"
  shows "\<not> mp_is_closed ch (bw_sender bw) \<Longrightarrow> bw_config bw = \<lparr>bc_max_items = length xs, bc_max_delay = d\<rparr> \<Longrightarrow>
    bw_buffer bw = take k xs \<Longrightarrow> k < length xs \<Longrightarrow>
    fst (writer_task ch ((k - 1) * d) bw (map (\<lambda>i. (i * d, xs ! i)) [k..<length xs]) T) = [((length xs - 1) * d, xs)]"
proof (induction "length xs - k" arbitrary: k bw)
  case (Suc n)
  let ?now = "(k - 1) * d"
  have arr: "[k..<length xs] = k # [Suc k..<length xs]" using Suc.prems(4) by (rule upt_conv_Cons)
  have wake: "\<not> (bw_buffered_count bw > 0 \<and> k * d > ?now + bc_max_delay (bw_config bw))"
    using Suc.prems(2,3) by (cases k) (simp_all add: bw_buffered_count_def)
  have item: "take k xs @ [xs ! k] = take (Suc k) xs" using Suc.prems(4) by (simp add: take_Suc_conv_app_nth)
  obtain r bw2 where push: "bw_push ch (k * d) bw (xs ! k) = (r, bw2)" by force
  show ?case
  proof (cases "Suc k < length xs")
    case True
    have b: "r = Inr ()" "bw_buffer bw2 = take (Suc k) xs" "bw_config bw2 = bw_config bw" "bw_sender bw2 = bw_sender bw"
      using push Suc.prems(2-4) True item by (auto simp: bw_push_def Let_def split: if_splits)
    have "fst (writer_task ch ((Suc k - 1) * d) bw2 (map (\<lambda>i. (i * d, xs ! i)) [Suc k..<length xs]) T) = [((length xs - 1) * d, xs)]"
      using Suc.hyps Suc.prems(1,2) b True by (intro Suc.hyps(1)) simp_all
    moreover have "handed (k * d) (bw_buffer bw @ [xs ! k]) bw2 = []"
      using b(2) True by (simp add: handed_def) (metis Suc_neq_Zero less_zeroE list.size(3))
    ultimately show ?thesis
      using writer_task_no_wake [OF wake push [unfolded b(1)]] arr by (simp del: writer_task.simps)
  next
    case False
    then have k: "length xs = Suc k" using Suc.prems(4) by simp
    define bw1 where "bw1 = (if bw_flush_deadline bw = None
      then bw\<lparr>bw_buffer := xs, bw_flush_deadline := Some (k * d + d)\<rparr> else bw\<lparr>bw_buffer := xs\<rparr>)"
    have "bw_push ch (k * d) bw (xs ! k) = bw_flush ch bw1"
      using Suc.prems(2,3) item k by (simp add: bw_push_def bw1_def Let_def)
    moreover have "\<not> mp_is_closed ch (bw_sender bw1)" "bw_buffer bw1 = xs" "xs \<noteq> []" using Suc.prems(1) k by (auto simp: bw1_def)
    ultimately have b: "r = Inr ()" "bw_buffer bw2 = []"
      using push bw_flush_open [OF law, of bw1] by (metis batch_writer.ext_inject batch_writer.surjective batch_writer.update_convs(1,3,4) prod.inject)+
    have "handed (k * d) (bw_buffer bw @ [xs ! k]) bw2 = [(k * d, xs)]"
      using b(2) Suc.prems(3) item k by (auto simp: handed_def)
    moreover have "fst (writer_task ch (k * d) bw2 [] T) = []" using b(2) by (simp add: bw_buffered_count_def bw_flush_def handed_def)
    ultimately show ?thesis
      using writer_task_no_wake [OF wake push [unfolded b(1)]] arr k by (simp del: writer_task.simps)
  qed
qed simp

text \<open>Batching can hold an item back for longer than \<open>max_delay\<close>: when the items of one batch arrive \<open>max_delay\<close> apart, the
  sleep of the batched feed starts over with each of them, no deadline is checked in between, and the batch is sent only when it is
  full, the first item having waited for as many delays as there are further items.\<close>

theorem feed_delay_exceeded:
  assumes "mpsc_lawful ch queued" and "\<not> mp_is_closed ch c" and "xs \<noteq> []"
  shows "fst (writer_task ch 0 (bw_new c \<lparr>bc_max_items = length xs, bc_max_delay = d\<rparr>)
      (map (\<lambda>i. (i * d, xs ! i)) [0..<length xs]) T) = [((length xs - 1) * d, xs)]"
  using feed_trace [OF assms(1), of "bw_new c \<lparr>bc_max_items = length xs, bc_max_delay = d\<rparr>" xs d 0 T] assms(2,3)
  by (simp add: bw_new_def)

theorem feed_delay_exceeded_witness:
  "fst (writer_task list_mpsc 0 (bw_new (ListChannel [] 4 False) \<lparr>bc_max_items = 4, bc_max_delay = 5\<rparr>)
     [(0, ''a''), (5, ''b''), (10, ''c''), (15, ''d'')] 100) = [(15, [''a'', ''b'', ''c'', ''d''])]"
proof -
  let ?xs = "[''a'', ''b'', ''c'', ''d'']"
  have arrivals: "map (\<lambda>i. (i * 5, ?xs ! i)) [0..<length ?xs] = [(0, ''a''), (5, ''b''), (10, ''c''), (15, ''d'')]" by code_simp
  have len: "length ?xs = 4" by simp
  have "\<not> mp_is_closed list_mpsc (ListChannel [] 4 False :: string list list_channel)" "?xs \<noteq> []" by (simp_all add: list_mpsc_def)
  from feed_delay_exceeded [OF list_mpsc_lawful this, of 5 100, unfolded arrivals, unfolded len]
  show ?thesis by (simp del: writer_task.simps)
qed

end
