(* ===== verification/Transport.thy ===== *)
theory Transport
  imports System_Actors Streams
begin

text \<open>
  The transport layer of \<^verbatim>\<open>dactor/src/transport.rs\<close> (the in-memory transport and the transport registry) and the batched sender of
  \<^verbatim>\<open>batched_transport.rs\<close>. Senders of a channel are shared between transports, so routes map nodes to addresses of a store of
  channels. A pending request is a slot for its reply; a caller that stops waiting abandons the slot. A \<^verbatim>\<open>Transport\<close>
  that is not the in-memory one is an argument, as are the JSON codec and the text form of identifiers.
\<close>

section \<open>In-memory transport\<close>

datatype transport_error = TransportError (te_message: string)

definition transport_error_display :: "transport_error \<Rightarrow> string" where
  "transport_error_display e = ''transport error: '' @ te_message e"

record imt =
  imt_routes :: "(node_id, nat) hashmap"
  imt_pending :: "(uuid, nat) hashmap"
  imt_local_node :: node_id
  imt_connected :: "node_id list"
  imt_handshake_info :: "(node_id, handshake_request) hashmap"
  imt_next_slot :: nat
  imt_replies :: "(nat, wire_envelope) hashmap"
  imt_abandoned :: "nat list"

text \<open>The channels of a process: a store with its next free address.\<close>

record 'c channels =
  cs_next :: nat
  cs_at :: "nat \<Rightarrow> 'c"

definition imt_new :: "node_id \<Rightarrow> imt" where
  "imt_new local_node = \<lparr>imt_routes = hm_empty, imt_pending = hm_empty, imt_local_node = local_node, imt_connected = [],
     imt_handshake_info = hm_empty, imt_next_slot = 0, imt_replies = hm_empty, imt_abandoned = []\<rparr>"

definition imt_register_node :: "(nat \<Rightarrow> 'c) \<Rightarrow> 'c channels \<Rightarrow> imt \<Rightarrow> node_id \<Rightarrow> nat \<times> 'c channels \<times> imt" where
  "imt_register_node channel cs t node =
     (cs_next cs, \<lparr>cs_next = cs_next cs + 1, cs_at = (cs_at cs)(cs_next cs := channel 256)\<rparr>,
      t\<lparr>imt_routes := hm_insert node (cs_next cs) (imt_routes t)\<rparr>)"

definition hm_extend :: "('k, 'v) hashmap \<Rightarrow> ('k, 'v) hashmap \<Rightarrow> ('k, 'v) hashmap" where
  "hm_extend m entries = foldl (\<lambda>m (k, v). hm_insert k v m) m entries"

definition imt_link :: "imt \<Rightarrow> imt \<Rightarrow> imt \<times> imt" where
  "imt_link t u =
     (t\<lparr>imt_routes := hm_extend (imt_routes t) (imt_routes u),
        imt_connected := hs_insert (imt_local_node u) (imt_connected t),
        imt_handshake_info := hm_extend (imt_handshake_info t) (imt_handshake_info u)\<rparr>,
      u\<lparr>imt_routes := hm_extend (imt_routes u) (imt_routes t),
        imt_connected := hs_insert (imt_local_node t) (imt_connected u),
        imt_handshake_info := hm_extend (imt_handshake_info u) (imt_handshake_info t)\<rparr>)"

definition imt_set_handshake_info :: "imt \<Rightarrow> handshake_request \<Rightarrow> imt" where
  "imt_set_handshake_info t request = t\<lparr>imt_handshake_info := hm_insert (hs_node_id request) request (imt_handshake_info t)\<rparr>"

definition imt_complete_request ::
  "(uuid \<Rightarrow> string) \<Rightarrow> imt \<Rightarrow> uuid \<Rightarrow> wire_envelope \<Rightarrow> (transport_error + unit) \<times> imt" where
  "imt_complete_request uuid_display t request_id reply =
     (case hm_get (imt_pending t) request_id of
        None \<Rightarrow> (Inl (TransportError (''no pending request for '' @ uuid_display request_id)), t)
      | Some slot \<Rightarrow>
          (let t1 = t\<lparr>imt_pending := hm_remove request_id (imt_pending t)\<rparr>
           in if slot \<in> set (imt_abandoned t) then (Inl (TransportError ''reply receiver dropped''), t1)
              else (Inr (), t1\<lparr>imt_replies := hm_insert slot reply (imt_replies t1)\<rparr>)))"

definition imt_send ::
  "('c, wire_envelope) mpsc \<Rightarrow> 'c channels \<Rightarrow> imt \<Rightarrow> node_id \<Rightarrow> wire_envelope \<Rightarrow> (transport_error + unit) \<times> 'c channels" where
  "imt_send ch cs t target_node envelope =
     (case hm_get (imt_routes t) target_node of
        None \<Rightarrow> (Inl (TransportError (''no route to '' @ node_id_display target_node)), cs)
      | Some a \<Rightarrow>
          (case mp_send ch (cs_at cs a) envelope of
             (True, c) \<Rightarrow> (Inr (), cs\<lparr>cs_at := (cs_at cs)(a := c)\<rparr>)
           | (False, c) \<Rightarrow> (Inl (TransportError (''channel closed for '' @ node_id_display target_node)), cs\<lparr>cs_at := (cs_at cs)(a := c)\<rparr>)))"

text \<open>The first part of \<^verbatim>\<open>send_request\<close> gives the slot to wait on, the second what waiting on it gives so far.\<close>

definition imt_send_request ::
  "('c, wire_envelope) mpsc \<Rightarrow> 'c channels \<Rightarrow> imt \<Rightarrow> node_id \<Rightarrow> wire_envelope \<Rightarrow> (transport_error + nat) \<times> 'c channels \<times> imt" where
  "imt_send_request ch cs t target_node envelope =
     (case we_request_id envelope of
        None \<Rightarrow> (Inl (TransportError ''send_request requires a request_id''), cs, t)
      | Some request_id \<Rightarrow>
          (let slot = imt_next_slot t;
               t1 = t\<lparr>imt_next_slot := slot + 1, imt_pending := hm_insert request_id slot (imt_pending t)\<rparr>
           in case imt_send ch cs t1 target_node envelope of
                (Inl e, cs1) \<Rightarrow> (Inl e, cs1, t1\<lparr>imt_pending := hm_remove request_id (imt_pending t1)\<rparr>)
              | (Inr _, cs1) \<Rightarrow> (Inr slot, cs1, t1)))"

definition imt_await_reply :: "imt \<Rightarrow> nat \<Rightarrow> (transport_error + wire_envelope) option" where
  "imt_await_reply t slot =
     (case hm_get (imt_replies t) slot of
        Some reply \<Rightarrow> Some (Inr reply)
      | None \<Rightarrow> (if slot \<in> set (hm_values (imt_pending t)) then None else Some (Inl (TransportError ''reply sender dropped''))))"

definition imt_is_reachable :: "imt \<Rightarrow> node_id \<Rightarrow> bool" where
  "imt_is_reachable t node \<longleftrightarrow> node \<in> set (imt_connected t)"

definition imt_connect :: "imt \<Rightarrow> node_id \<Rightarrow> (transport_error + unit) \<times> imt" where
  "imt_connect t node =
     (if hm_get (imt_routes t) node \<noteq> None then (Inr (), t\<lparr>imt_connected := hs_insert node (imt_connected t)\<rparr>)
      else (Inl (TransportError (''no route to '' @ node_id_display node)), t))"

definition imt_disconnect :: "imt \<Rightarrow> node_id \<Rightarrow> (transport_error + unit) \<times> imt" where
  "imt_disconnect t node = (Inr (), t\<lparr>imt_connected := hs_remove node (imt_connected t)\<rparr>)"

definition imt_handshake :: "imt \<Rightarrow> node_id \<Rightarrow> handshake_request \<Rightarrow> transport_error + handshake_response" where
  "imt_handshake t node request =
     (case hm_get (imt_handshake_info t) node of
        None \<Rightarrow> Inl (TransportError (''no handshake info registered for '' @ node_id_display node))
      | Some remote_info \<Rightarrow> Inr (validate_handshake remote_info request))"

section \<open>Registry\<close>

type_synonym 't transport_registry = "(node_id, 't) hashmap"

definition tpr_register :: "'t transport_registry \<Rightarrow> node_id \<Rightarrow> 't \<Rightarrow> 't transport_registry" where
  "tpr_register r node transport = hm_insert node transport r"

definition tpr_unregister :: "'t transport_registry \<Rightarrow> node_id \<Rightarrow> 't transport_registry" where
  "tpr_unregister r node = hm_remove node r"

definition tpr_get :: "'t transport_registry \<Rightarrow> node_id \<Rightarrow> 't option" where
  "tpr_get r node = hm_get r node"

definition tpr_send ::
  "('t \<Rightarrow> node_id \<Rightarrow> wire_envelope \<Rightarrow> 'w \<Rightarrow> (transport_error + unit) \<times> 'w) \<Rightarrow> 't transport_registry \<Rightarrow> node_id \<Rightarrow> wire_envelope \<Rightarrow> 'w
    \<Rightarrow> (transport_error + unit) \<times> 'w" where
  "tpr_send send r target_node envelope w =
     (case tpr_get r target_node of
        None \<Rightarrow> (Inl (TransportError (''no transport for '' @ node_id_display target_node)), w)
      | Some transport \<Rightarrow> send transport target_node envelope w)"

section \<open>Batched sender\<close>

definition BATCH_MESSAGE_TYPE :: string where
  "BATCH_MESSAGE_TYPE = ''dactor::system::Batch''"

fun send_mode_debug :: "send_mode \<Rightarrow> string" where
  "send_mode_debug Tell = ''Tell''"
| "send_mode_debug Ask = ''Ask''"
| "send_mode_debug Expand = ''Expand''"
| "send_mode_debug Reduce = ''Reduce''"
| "send_mode_debug Transform = ''Transform''"

definition batch_total_body_bytes :: "wire_envelope list \<Rightarrow> nat" where
  "batch_total_body_bytes envelopes = sum_list (map (\<lambda>e. length (we_body e)) envelopes)"

text \<open>What the sender needs from outside: the transport and the JSON codec for batches.\<close>

record 't batch_env =
  be_send :: "'t \<Rightarrow> node_id \<Rightarrow> wire_envelope \<Rightarrow> (transport_error + unit) \<times> 't"
  be_to_vec :: "wire_envelope list \<Rightarrow> string + bytes"
  be_from_slice :: "bytes \<Rightarrow> string + wire_envelope list"

record batched_sender =
  bts_config :: batch_config
  bts_buffers :: "(node_id, wire_envelope list) hashmap"

definition bts_new :: "batch_config \<Rightarrow> batched_sender" where
  "bts_new config = \<lparr>bts_config = config, bts_buffers = hm_empty\<rparr>"

definition batch_wrapper :: "node_id \<Rightarrow> bytes \<Rightarrow> wire_envelope" where
  "batch_wrapper target_node body = \<lparr>we_target = ActorId target_node 0, we_target_name = '''', we_message_type = BATCH_MESSAGE_TYPE,
     we_send_mode = Tell, we_headers = wh_new, we_body = body, we_request_id = None, we_version = None\<rparr>"

definition bts_send_batch :: "'t batch_env \<Rightarrow> 't \<Rightarrow> node_id \<Rightarrow> wire_envelope list \<Rightarrow> (transport_error + unit) \<times> 't" where
  "bts_send_batch E t target_node envelopes =
     (case be_to_vec E envelopes of
        Inl e \<Rightarrow> (Inl (TransportError (''batch serialization failed: '' @ e)), t)
      | Inr body \<Rightarrow> be_send E t target_node (batch_wrapper target_node body))"

definition bts_send ::
  "'t batch_env \<Rightarrow> 't \<Rightarrow> batched_sender \<Rightarrow> wire_envelope \<Rightarrow> (transport_error + unit) \<times> 't \<times> batched_sender" where
  "bts_send E t s envelope =
     (if we_send_mode envelope \<noteq> Tell
      then (Inl (TransportError (''BatchedTransportSender only accepts Tell envelopes, got '' @ send_mode_debug (we_send_mode envelope))), t, s)
      else
        (let node = aid_node (we_target envelope);
             buffer = hm_entry node [] (bts_buffers s) @ [envelope]
         in if length buffer \<ge> bc_max_items (bts_config s)
            then (case bts_send_batch E t node buffer of
                    (r, t1) \<Rightarrow> (r, t1, s\<lparr>bts_buffers := hm_insert node [] (bts_buffers s)\<rparr>))
            else (Inr (), t, s\<lparr>bts_buffers := hm_insert node buffer (bts_buffers s)\<rparr>)))"

definition bts_flush_node ::
  "'t batch_env \<Rightarrow> 't \<Rightarrow> batched_sender \<Rightarrow> node_id \<Rightarrow> (transport_error + unit) \<times> 't \<times> batched_sender" where
  "bts_flush_node E t s node =
     (let batch = hm_entry node [] (bts_buffers s);
          s1 = s\<lparr>bts_buffers := hm_remove node (bts_buffers s)\<rparr>
      in if batch = [] then (Inr (), t, s1)
         else case bts_send_batch E t node batch of (r, t1) \<Rightarrow> (r, t1, s1))"

fun flush_batches ::
  "'t batch_env \<Rightarrow> 't \<Rightarrow> transport_error option \<Rightarrow> (node_id \<times> wire_envelope list) list \<Rightarrow> transport_error option \<times> 't" where
  "flush_batches E t first_error [] = (first_error, t)"
| "flush_batches E t first_error ((node, batch) # batches) =
     (if batch = [] then flush_batches E t first_error batches
      else case bts_send_batch E t node batch of
             (Inl e, t1) \<Rightarrow> flush_batches E t1 (if first_error = None then Some e else first_error) batches
           | (Inr _, t1) \<Rightarrow> flush_batches E t1 first_error batches)"

definition bts_flush_all :: "'t batch_env \<Rightarrow> 't \<Rightarrow> batched_sender \<Rightarrow> (transport_error + unit) \<times> 't \<times> batched_sender" where
  "bts_flush_all E t s =
     (case flush_batches E t None (bts_buffers s) of
        (Some e, t1) \<Rightarrow> (Inl e, t1, s\<lparr>bts_buffers := hm_empty\<rparr>)
      | (None, t1) \<Rightarrow> (Inr (), t1, s\<lparr>bts_buffers := hm_empty\<rparr>))"

definition bts_buffered_count :: "batched_sender \<Rightarrow> nat" where
  "bts_buffered_count s = sum_list (map length (hm_values (bts_buffers s)))"

definition bts_buffered_nodes :: "batched_sender \<Rightarrow> nat" where
  "bts_buffered_nodes s = length (bts_buffers s)"

definition unpack_batch :: "'t batch_env \<Rightarrow> bytes \<Rightarrow> transport_error + wire_envelope list" where
  "unpack_batch E body = map_err (\<lambda>e. TransportError (''batch deserialization failed: '' @ e)) (be_from_slice E body)"

definition is_batch_envelope :: "wire_envelope \<Rightarrow> bool" where
  "is_batch_envelope envelope \<longleftrightarrow> we_message_type envelope = BATCH_MESSAGE_TYPE"

section \<open>Lemmas\<close>

lemma hm_extend_get:
  assumes "hm_wf entries"
  shows "hm_get (hm_extend m entries) k = (case hm_get entries k of Some v \<Rightarrow> Some v | None \<Rightarrow> hm_get m k)"
  using assms
proof (induction entries arbitrary: m)
  case (Cons e entries)
  obtain k1 v1 where e: "e = (k1, v1)" by force
  have "hm_wf entries" using Cons.prems by (simp add: hm_wf_def)
  moreover have "hm_get entries k1 = None"
    using Cons.prems e by (simp add: hm_wf_def hm_get_def) (metis fst_conv map_of_eq_None_iff)
  moreover have "hm_get (e # entries) k = (if k = k1 then Some v1 else hm_get entries k)" using e by (simp add: hm_get_def)
  ultimately show ?case using Cons.IH [of "hm_insert k1 v1 m"] e by (simp add: hm_extend_def split: option.splits)
qed (simp add: hm_extend_def hm_get_def)

text \<open>The transport keeps every envelope it is handed, whatever it answers, and the codec decodes what it encodes, for batches of
  envelopes of a set.\<close>

definition batch_env_lawful :: "'t batch_env \<Rightarrow> ('t \<Rightarrow> (node_id \<times> wire_envelope) list) \<Rightarrow> wire_envelope set \<Rightarrow> bool" where
  "batch_env_lawful E sent U \<longleftrightarrow> (\<forall>t n e. sent (snd (be_send E t n e)) = sent t @ [(n, e)]) \<and>
     (\<forall>es. set es \<subseteq> U \<longrightarrow> (\<exists>b. be_to_vec E es = Inr b \<and> be_from_slice E b = Inr es))"

definition bts_wf :: "wire_envelope set \<Rightarrow> batched_sender \<Rightarrow> bool" where
  "bts_wf U s \<longleftrightarrow> hm_wf (bts_buffers s) \<and> (\<forall>n es e. hm_get (bts_buffers s) n = Some es \<longrightarrow> e \<in> set es \<longrightarrow> e \<in> U)"

lemma bts_wf_entry: "bts_wf U s \<Longrightarrow> set (hm_entry n [] (bts_buffers s)) \<subseteq> U"
  by (cases "hm_get (bts_buffers s) n") (auto simp: bts_wf_def hm_entry_def)

definition unpacked :: "'t batch_env \<Rightarrow> node_id \<Rightarrow> node_id \<times> wire_envelope \<Rightarrow> wire_envelope list" where
  "unpacked E n x = (if fst x = n then (case unpack_batch E (we_body (snd x)) of Inr es \<Rightarrow> es | Inl _ \<Rightarrow> []) else [])"

definition handed_to :: "'t batch_env \<Rightarrow> ('t \<Rightarrow> (node_id \<times> wire_envelope) list) \<Rightarrow> node_id \<Rightarrow> 't \<Rightarrow> wire_envelope list" where
  "handed_to E sent n t = concat (map (unpacked E n) (sent t))"

lemma send_batch_handed:
  assumes "batch_env_lawful E sent U" and "set es \<subseteq> U"
  shows "handed_to E sent n (snd (bts_send_batch E t node es)) = handed_to E sent n t @ (if node = n then es else [])"
proof -
  obtain b where "be_to_vec E es = Inr b" "be_from_slice E b = Inr es" using assms unfolding batch_env_lawful_def by blast
  then show ?thesis using assms
    by (simp add: batch_env_lawful_def bts_send_batch_def handed_to_def unpacked_def unpack_batch_def batch_wrapper_def)
qed

lemma flush_batches_handed:
  assumes "batch_env_lawful E sent U" and "\<forall>(_, b) \<in> set batches. set b \<subseteq> U"
  shows "handed_to E sent n (snd (flush_batches E t err batches)) =
    handed_to E sent n t @ concat (map (\<lambda>(m, b). if m = n then b else []) batches)"
  using assms(2)
proof (induction batches arbitrary: t err)
  case (Cons e batches)
  obtain node batch where e: "e = (node, batch)" by force
  show ?case
  proof (cases "batch = []")
    case True
    then show ?thesis using Cons e by simp
  next
    case False
    obtain r t1 where r: "bts_send_batch E t node batch = (r, t1)" by force
    then have "handed_to E sent n t1 = handed_to E sent n t @ (if node = n then batch else [])"
      using send_batch_handed [OF assms(1), of batch n t node] Cons.prems e by simp
    then show ?thesis using Cons.IH [of t1] Cons.prems False e r by (cases r) auto
  qed
qed simp

lemma hm_concat_entry:
  assumes "hm_wf m"
  shows "concat (map (\<lambda>(k, b). if k = n then b else []) m) = hm_entry n [] m"
  using assms
proof (induction m)
  case (Cons e m)
  have "concat (map (\<lambda>(k, b). if k = fst e then b else []) m) = []"
    using Cons.prems by (auto simp: hm_wf_def) (metis fst_conv image_eqI)
  moreover have "hm_get m (fst e) = None" "hm_wf m" using Cons.prems by (simp_all add: hm_wf_def hm_get_def map_of_eq_None_iff)
  moreover have "hm_get (e # m) n = (if n = fst e then Some (snd e) else hm_get m n)" by (cases e) (simp add: hm_get_def)
  ultimately show ?case using Cons.IH by (cases e) (auto simp: hm_entry_def)
qed (simp add: hm_entry_def hm_get_def)

lemma hm_entry_empty [simp]: "hm_entry n d hm_empty = d"
  by (simp add: hm_entry_def)

lemma bts_send_handed:
  assumes law: "batch_env_lawful E sent U" and wf: "bts_wf U s" and "e \<in> U" and run: "bts_send E t s e = (r, t', s')"
  shows "bts_wf U s' \<and> handed_to E sent n t' @ hm_entry n [] (bts_buffers s') =
    handed_to E sent n t @ hm_entry n [] (bts_buffers s) @ (if we_send_mode e = Tell \<and> aid_node (we_target e) = n then [e] else [])"
proof -
  define node where "node = aid_node (we_target e)"
  have "set (hm_entry node [] (bts_buffers s) @ [e]) \<subseteq> U" using bts_wf_entry [OF wf] assms(3) by simp
  from send_batch_handed [OF law this, of n t node] this
  show ?thesis using wf run
    by (cases "hm_get (bts_buffers s) node")
      (auto simp: bts_send_def Let_def hm_entry_def bts_wf_def node_def split: if_splits prod.splits)
qed

lemma bts_flush_node_handed:
  assumes law: "batch_env_lawful E sent U" and wf: "bts_wf U s" and run: "bts_flush_node E t s m = (r, t', s')"
  shows "bts_wf U s' \<and> handed_to E sent n t' @ hm_entry n [] (bts_buffers s') = handed_to E sent n t @ hm_entry n [] (bts_buffers s)"
  using wf run send_batch_handed [OF law bts_wf_entry [OF wf], of n t m m]
  by (auto simp: bts_flush_node_def Let_def hm_entry_def bts_wf_def split: if_splits prod.splits)

lemma bts_flush_all_handed:
  assumes law: "batch_env_lawful E sent U" and wf: "bts_wf U s" and run: "bts_flush_all E t s = (r, t', s')"
  shows "bts_wf U s' \<and> handed_to E sent n t' @ hm_entry n [] (bts_buffers s') = handed_to E sent n t @ hm_entry n [] (bts_buffers s)"
proof -
  have hwf: "hm_wf (bts_buffers s)" using wf by (simp add: bts_wf_def)
  have "\<forall>(_, b) \<in> set (bts_buffers s). set b \<subseteq> U"
    using wf by (auto simp: bts_wf_def hm_get_def hm_wf_def)
  from flush_batches_handed [OF law this, of n t None] hm_concat_entry [OF hwf, of n]
  show ?thesis using run by (auto simp: bts_flush_all_def bts_wf_def split: prod.splits option.splits)
qed

lemma imt_send_queues:
  assumes law: "mpsc_lawful ch queued" and sent: "imt_send ch cs t node env = (Inr (), cs')"
  obtains a where "hm_get (imt_routes t) node = Some a" and "queued (cs_at cs' a) = queued (cs_at cs a) @ [env]"
    and "\<forall>b. b \<noteq> a \<longrightarrow> cs_at cs' b = cs_at cs b"
proof -
  obtain a where a: "hm_get (imt_routes t) node = Some a" using sent by (auto simp: imt_send_def split: option.splits)
  obtain ok c where c: "mp_send ch (cs_at cs a) env = (ok, c)" by force
  have ok: "ok" "cs' = cs\<lparr>cs_at := (cs_at cs)(a := c)\<rparr>" using sent a c by (auto simp: imt_send_def split: bool.splits)
  have "\<not> mp_is_closed ch (cs_at cs a)" using c ok(1) mpsc_closedD(2) [OF law, of "cs_at cs a" env] by auto
  then have "queued c = queued (cs_at cs a) @ [env]" using mpsc_sendE [OF law] c by (metis prod.inject)
  then show thesis using that [OF a] ok(2) by simp
qed

lemma imt_request_completed:
  assumes law: "mpsc_lawful ch queued" and "imt_abandoned t = []" and rid: "we_request_id env = Some rid"
    and sent: "imt_send_request ch cs t node env = (Inr slot, cs', t')" and answered: "imt_complete_request show_id t' rid reply = (res, t2)"
  obtains a where "hm_get (imt_routes t) node = Some a" and "queued (cs_at cs' a) = queued (cs_at cs a) @ [env]"
    and "res = Inr ()" and "imt_await_reply t2 slot = Some (Inr reply)"
proof -
  define t1 where "t1 = t\<lparr>imt_next_slot := imt_next_slot t + 1, imt_pending := hm_insert rid (imt_next_slot t) (imt_pending t)\<rparr>"
  obtain x cs1 where x: "imt_send ch cs t1 node env = (x, cs1)" by force
  have "x = Inr ()" "cs' = cs1" "slot = imt_next_slot t" "t' = t1"
    using sent rid x by (auto simp: imt_send_request_def t1_def Let_def split: sum.splits)
  moreover from this obtain a where "hm_get (imt_routes t1) node = Some a" "queued (cs_at cs1 a) = queued (cs_at cs a) @ [env]"
    using imt_send_queues [OF law] x by metis
  ultimately show thesis
    using that [of a] answered assms(2) by (auto simp: imt_complete_request_def imt_await_reply_def t1_def Let_def)
qed

section \<open>Properties\<close>

datatype batch_call = CallSend wire_envelope | CallFlushNode node_id | CallFlushAll

fun bts_call :: "'t batch_env \<Rightarrow> 't \<times> batched_sender \<Rightarrow> batch_call \<Rightarrow> 't \<times> batched_sender" where
  "bts_call E (t, s) (CallSend e) = snd (bts_send E t s e)"
| "bts_call E (t, s) (CallFlushNode n) = snd (bts_flush_node E t s n)"
| "bts_call E (t, s) CallFlushAll = snd (bts_flush_all E t s)"

definition accepted_for :: "node_id \<Rightarrow> batch_call list \<Rightarrow> wire_envelope list" where
  "accepted_for n calls = List.map_filter (\<lambda>c. case c of
     CallSend e \<Rightarrow> (if we_send_mode e = Tell \<and> aid_node (we_target e) = n then Some e else None) | _ \<Rightarrow> None) calls"

text \<open>The batched sender delivers every tell once and in order: after any history of sends and flushes, the envelopes unpacked from
  the batches handed to the transport for a node, followed by those still buffered for it, are exactly the tell envelopes sent to that
  node, in order; nothing else is accepted into a batch.\<close>

theorem batched_sender_order:
  assumes "batch_env_lawful E sent U" and "sent t0 = []" and "\<forall>e. CallSend e \<in> set calls \<longrightarrow> e \<in> U"
    and "foldl (bts_call E) (t0, bts_new config) calls = (t, s)"
  shows "handed_to E sent n t @ hm_entry n [] (bts_buffers s) = accepted_for n calls"
proof -
  have "bts_wf U s \<and> handed_to E sent n t @ hm_entry n [] (bts_buffers s) = accepted_for n calls"
    using assms(3,4)
  proof (induction calls arbitrary: t s rule: rev_induct)
    case Nil
    then show ?case using assms(2)
      by (auto simp: bts_new_def handed_to_def accepted_for_def bts_wf_def)
  next
    case (snoc c calls)
    obtain t1 s1 where 1: "foldl (bts_call E) (t0, bts_new config) calls = (t1, s1)" by force
    then have step: "bts_call E (t1, s1) c = (t, s)" using snoc.prems by simp
    have IH: "bts_wf U s1" "handed_to E sent n t1 @ hm_entry n [] (bts_buffers s1) = accepted_for n calls"
      using snoc.IH [OF _ 1] snoc.prems(1) by auto
    show ?case
    proof (cases c)
      case (CallSend e)
      then obtain r where "bts_send E t1 s1 e = (r, t, s)" using step by (cases "bts_send E t1 s1 e") auto
      moreover have "e \<in> U" using snoc.prems(1) CallSend by simp
      ultimately show ?thesis
        using bts_send_handed [OF assms(1) IH(1), of e t1 r t s n] IH(2) CallSend
        by (auto simp: accepted_for_def List.map_filter_def)
    next
      case (CallFlushNode m)
      then obtain r where "bts_flush_node E t1 s1 m = (r, t, s)" using step by (cases "bts_flush_node E t1 s1 m") auto
      from bts_flush_node_handed [OF assms(1) IH(1) this, of n]
      show ?thesis using IH CallFlushNode by (auto simp: accepted_for_def List.map_filter_def)
    next
      case CallFlushAll
      then obtain r where "bts_flush_all E t1 s1 = (r, t, s)" using step by (cases "bts_flush_all E t1 s1") auto
      from bts_flush_all_handed [OF assms(1) IH(1) this, of n]
      show ?thesis using IH CallFlushAll by (auto simp: accepted_for_def List.map_filter_def)
    qed
  qed
  then show ?thesis ..
qed

text \<open>A transport that keeps what it is handed, and a codec for batches of copies of one envelope.\<close>

definition sample_tell :: wire_envelope where
  "sample_tell = \<lparr>we_target = ActorId (NodeId ''b'') 7, we_target_name = ''x'', we_message_type = ''Ping'', we_send_mode = Tell,
     we_headers = wh_new, we_body = [1], we_request_id = None, we_version = None\<rparr>"

definition logging_env :: "(node_id \<times> wire_envelope) list batch_env" where
  "logging_env = \<lparr>be_send = (\<lambda>t n e. (Inr (), t @ [(n, e)])), be_to_vec = (\<lambda>es. Inr (replicate (length es) 0)),
     be_from_slice = (\<lambda>b. Inr (replicate (length b) sample_tell))\<rparr>"

lemma logging_env_lawful: "batch_env_lawful logging_env (\<lambda>t. t) {sample_tell}"
proof -
  have "es = replicate (length es) sample_tell" if "set es \<subseteq> {sample_tell}" for es
    using that by (metis replicate_length_same singletonD subsetD)
  then show ?thesis by (auto simp: batch_env_lawful_def logging_env_def)
qed

theorem batched_sender_order_witness:
  "let (t, s) = foldl (bts_call logging_env) ([], bts_new (bc_new 2 5)) (replicate 3 (CallSend sample_tell))
   in length t = 1 \<and> handed_to logging_env (\<lambda>t. t) (NodeId ''b'') t @ hm_entry (NodeId ''b'') [] (bts_buffers s) =
      replicate 3 sample_tell"
proof -
  let ?run = "foldl (bts_call logging_env) ([], bts_new (bc_new 2 5)) (replicate 3 (CallSend sample_tell))"
  obtain t s where run: "?run = (t, s)" by force
  have "length (fst ?run) = 1" by code_simp
  moreover have "accepted_for (NodeId ''b'') (replicate 3 (CallSend sample_tell)) = replicate 3 sample_tell" by code_simp
  ultimately show ?thesis
    using batched_sender_order [OF logging_env_lawful _ _ run, of "NodeId ''b''"] run by simp
qed

text \<open>After a full batch was sent the node keeps an empty buffer, which \<open>buffered_nodes\<close> counts.\<close>

lemma buffered_nodes_counts_empty:
  assumes "we_send_mode e = Tell" and "bc_max_items config \<le> 1" and "bts_send E t (bts_new config) e = (r, t', s')"
  shows "bts_buffered_nodes s' = 1" and "bts_buffered_count s' = 0"
  using assms by (auto simp: bts_send_def bts_new_def Let_def bts_buffered_nodes_def bts_buffered_count_def hm_insert_def
      hm_empty_def hm_values_def split: prod.splits)

text \<open>A request is answered by its own reply: if \<open>send_request\<close> is accepted, the envelope is in the target's channel and in no other,
  completing the request wakes exactly its caller with that reply and no other waiting caller, and the request can be completed only
  once; a request whose envelope cannot be sent leaves no pending entry behind.\<close>

theorem transport_request_reply:
  assumes law: "mpsc_lawful ch queued" and wf: "hm_wf (imt_pending t)"
    and fresh: "\<forall>slot \<in> set (hm_values (imt_pending t)). slot < imt_next_slot t" "\<forall>slot. hm_get (imt_replies t) slot \<noteq> None \<longrightarrow> slot < imt_next_slot t"
      "imt_abandoned t = []"
    and id: "we_request_id envelope = Some rid" "hm_get (imt_pending t) rid = None"
    and send: "imt_send_request ch cs t target envelope = (r, cs', t')"
  shows "case r of
      Inl _ \<Rightarrow> hm_get (imt_pending t') = hm_get (imt_pending t)
    | Inr slot \<Rightarrow>
        (\<exists>a. hm_get (imt_routes t) target = Some a \<and> queued (cs_at cs' a) = queued (cs_at cs a) @ [envelope] \<and>
           (\<forall>b. b \<noteq> a \<longrightarrow> cs_at cs' b = cs_at cs b)) \<and>
        imt_await_reply t' slot = None \<and>
        (case imt_complete_request show_id t' rid reply of (res, t2) \<Rightarrow>
           res = Inr () \<and> imt_await_reply t2 slot = Some (Inr reply) \<and>
           (\<forall>other. other \<in> set (hm_values (imt_pending t)) \<longrightarrow> imt_await_reply t2 other = imt_await_reply t other) \<and>
           isl (fst (imt_complete_request show_id t2 rid reply)))"
proof -
  define slot where "slot = imt_next_slot t"
  define t1 where "t1 = t\<lparr>imt_next_slot := slot + 1, imt_pending := hm_insert rid slot (imt_pending t)\<rparr>"
  have none: "hm_get (imt_replies t) slot = None" using fresh(2) slot_def by blast
  obtain x cs1 where x: "imt_send ch cs t1 target envelope = (x, cs1)" by force
  show ?thesis
  proof (cases x)
    case (Inl e)
    then have "r = Inl e" "t' = t1\<lparr>imt_pending := hm_remove rid (imt_pending t1)\<rparr>"
      using send id(1) x by (simp_all add: imt_send_request_def t1_def slot_def Let_def)
    then show ?thesis using id(2) by (auto simp: t1_def fun_eq_iff)
  next
    case (Inr u)
    then have r: "r = Inr slot" "t' = t1" "cs' = cs1"
      using send id(1) x by (simp_all add: imt_send_request_def t1_def slot_def Let_def)
    have "imt_send ch cs t1 target envelope = (Inr (), cs1)" using x Inr by simp
    then obtain a where a: "hm_get (imt_routes t) target = Some a"
      and sent: "queued (cs_at cs' a) = queued (cs_at cs a) @ [envelope] \<and> (\<forall>b. b \<noteq> a \<longrightarrow> cs_at cs' b = cs_at cs b)"
      using r(3) by (elim imt_send_queues [OF law]) (simp add: t1_def)
    have p1: "slot \<in> set (hm_values (hm_insert rid slot (imt_pending t)))"
      using wf by (subst set_hm_values) (auto intro!: exI [of _ rid])
    define t2 where "t2 = t1\<lparr>imt_pending := hm_remove rid (imt_pending t1), imt_replies := hm_insert slot reply (imt_replies t1)\<rparr>"
    have complete: "imt_complete_request show_id t1 rid reply = (Inr (), t2)"
      using fresh(3) by (simp add: imt_complete_request_def t1_def t2_def)
    have get2: "hm_get (imt_pending t2) = hm_get (imt_pending t)" using id(2) by (auto simp: t2_def t1_def fun_eq_iff)
    have "hm_wf (imt_pending t2)" using wf by (simp add: t2_def t1_def)
    then have vals: "set (hm_values (imt_pending t2)) = set (hm_values (imt_pending t))"
      using wf get2 by (auto simp: set_hm_values)
    have "imt_await_reply t2 other = imt_await_reply t other" if "other \<in> set (hm_values (imt_pending t))" for other
    proof -
      have "other \<noteq> slot" using that fresh(1) slot_def by auto
      then show ?thesis using that vals by (simp add: imt_await_reply_def) (simp add: t2_def t1_def)
    qed
    moreover have "imt_await_reply t1 slot = None" using none p1 by (simp add: imt_await_reply_def t1_def)
    moreover have "imt_await_reply t2 slot = Some (Inr reply)" by (simp add: imt_await_reply_def t2_def)
    moreover have "isl (fst (imt_complete_request show_id t2 rid reply))"
      by (simp add: imt_complete_request_def t2_def t1_def)
    ultimately show ?thesis using r a sent complete by simp
  qed
qed

theorem transport_request_reply_witness:
  "let e = sample_tell\<lparr>we_request_id := Some 5\<rparr>;
       (a, cs, t) = imt_register_node (\<lambda>n. ListChannel [] n False) \<lparr>cs_next = 0, cs_at = \<lambda>_. ListChannel [] 0 True\<rparr> (imt_new (NodeId ''a'')) (NodeId ''b'');
       (r, cs', t') = imt_send_request list_mpsc cs t (NodeId ''b'') e
   in r = Inr 0 \<and> lc_items (cs_at cs' 0) = [e] \<and>
      imt_await_reply (snd (imt_complete_request (\<lambda>_. ''id'') t' 5 sample_tell)) 0 = Some (Inr sample_tell)"
proof -
  define e where "e = sample_tell\<lparr>we_request_id := Some 5\<rparr>"
  define reg where "reg = imt_register_node (\<lambda>n. ListChannel [] n False :: wire_envelope list_channel) \<lparr>cs_next = 0, cs_at = \<lambda>_. ListChannel [] 0 True\<rparr> (imt_new (NodeId ''a'')) (NodeId ''b'')"
  obtain a cs t where reg': "reg = (a, cs, t)" by (metis prod_cases3)
  have t: "t = (imt_new (NodeId ''a''))\<lparr>imt_routes := hm_insert (NodeId ''b'') 0 hm_empty\<rparr>" "cs_at cs 0 = ListChannel [] 256 False"
    using reg' by (auto simp: reg_def imt_register_node_def imt_new_def)
  obtain r cs' t' where send: "imt_send_request list_mpsc cs t (NodeId ''b'') e = (r, cs', t')" by (metis prod_cases3)
  have r: "r = Inr 0" using send t by (auto simp: imt_send_request_def e_def imt_send_def list_mpsc_def Let_def imt_new_def)
  have "case r of
      Inl _ \<Rightarrow> hm_get (imt_pending t') = hm_get (imt_pending t)
    | Inr slot \<Rightarrow>
        (\<exists>a. hm_get (imt_routes t) (NodeId ''b'') = Some a \<and> lc_items (cs_at cs' a) = lc_items (cs_at cs a) @ [e] \<and>
           (\<forall>b. b \<noteq> a \<longrightarrow> cs_at cs' b = cs_at cs b)) \<and>
        imt_await_reply t' slot = None \<and>
        (case imt_complete_request (\<lambda>_. ''id'') t' 5 sample_tell of (res, t2) \<Rightarrow>
           res = Inr () \<and> imt_await_reply t2 slot = Some (Inr sample_tell) \<and>
           (\<forall>other. other \<in> set (hm_values (imt_pending t)) \<longrightarrow> imt_await_reply t2 other = imt_await_reply t other) \<and>
           isl (fst (imt_complete_request (\<lambda>_. ''id'') t2 5 sample_tell)))"
    by (rule transport_request_reply [OF list_mpsc_lawful _ _ _ _ _ _ send]) (simp_all add: t(1) e_def imt_new_def hm_values_def hm_empty_def hm_get_def hm_wf_def)
  then have "lc_items (cs_at cs' 0) = [e]" "imt_await_reply (snd (imt_complete_request (\<lambda>_. ''id'') t' 5 sample_tell)) 0 = Some (Inr sample_tell)"
    using r t by (auto simp: split: prod.splits)
  then show ?thesis using r send reg' by (simp add: Let_def e_def [symmetric] reg_def [symmetric])
qed

end
