(* ===== verification/Interceptors.thy ===== *)
theory Interceptors
  imports System_Actors Streams
begin

text \<open>
  The outbound interceptor pipeline shared by the adapters: the vocabulary of \<^verbatim>\<open>dactor/src/interceptor.rs\<close> and the helpers of
  \<^verbatim>\<open>runtime_support.rs\<close> (bounded mailboxes, the \<^verbatim>\<open>on_send\<close> and \<^verbatim>\<open>on_reply\<close> passes, and the tasks that pass the items of a stream through
  the interceptors). Interceptors may keep state of their own, \<open>'i\<close>; a drop observer has the state \<open>'o\<close>. A message's headers are
  those of \<open>Remote\<close>.
\<close>

section \<open>Vocabulary\<close>

record outbound_context =
  oc_target_id :: actor_id
  oc_target_name :: string
  oc_message_type :: string
  oc_send_mode :: send_mode
  oc_remote :: bool

record intercept_result =
  ir_disposition :: disposition
  ir_interceptor_name :: string

definition ir_continued :: intercept_result where
  "ir_continued = \<lparr>ir_disposition = Continue, ir_interceptor_name = ''''\<rparr>"

definition ir_is_continue :: "intercept_result \<Rightarrow> bool" where
  "ir_is_continue r \<longleftrightarrow> ir_disposition r = Continue"

record drop_notice =
  dn_target_name :: string
  dn_message_type :: string
  dn_interceptor_name :: string
  dn_send_mode :: send_mode
  dn_context :: string
  dn_seq :: "u64 option"

type_synonym 'o drop_observer = "'o \<Rightarrow> drop_notice \<Rightarrow> 'o"

definition notify_drop :: "'o drop_observer option \<Rightarrow> drop_notice \<Rightarrow> 'o \<Rightarrow> 'o" where
  "notify_drop observer notice s = (case observer of Some f \<Rightarrow> f s notice | None \<Rightarrow> s)"

record ('p, 'm, 'x, 'i) outbound_interceptor =
  oi_name :: string
  oi_on_send :: "outbound_context \<Rightarrow> 'p headers \<Rightarrow> 'm \<Rightarrow> 'i \<Rightarrow> disposition \<times> 'p headers \<times> 'i"
  oi_on_reply :: "outbound_context \<Rightarrow> 'p headers \<Rightarrow> 'x outcome \<Rightarrow> 'i \<Rightarrow> 'i"
  oi_on_expand_item :: "outbound_context \<Rightarrow> u64 \<Rightarrow> 'm \<Rightarrow> 'i \<Rightarrow> disposition \<times> 'i"

fun intercept_outbound_stream_item ::
  "('p, 'm, 'x, 'i) outbound_interceptor list \<Rightarrow> outbound_context \<Rightarrow> u64 \<Rightarrow> 'm \<Rightarrow> 'i \<Rightarrow> intercept_result \<times> 'i" where
  "intercept_outbound_stream_item [] ctx seq item s = (ir_continued, s)"
| "intercept_outbound_stream_item (i # is) ctx seq item s =
     (case oi_on_expand_item i ctx seq item s of (d, s1) \<Rightarrow>
        if d \<noteq> Continue then (\<lparr>ir_disposition = d, ir_interceptor_name = oi_name i\<rparr>, s1)
        else intercept_outbound_stream_item is ctx seq item s1)"

text \<open>Handler wrappers of the inbound interceptors: functions on the handler's computation.\<close>

definition apply_handler_wrappers :: "('f \<Rightarrow> 'f) option list \<Rightarrow> 'f \<Rightarrow> 'f" where
  "apply_handler_wrappers wrappers inner =
     foldl (\<lambda>next w. case w of Some f \<Rightarrow> f next | None \<Rightarrow> next) inner (rev wrappers)"

section \<open>Bounded mailboxes\<close>

record 'c bounded_mailbox_sender =
  bms_tx :: 'c
  bms_overflow :: overflow_strategy

definition bms_try_send ::
  "('c, 'a) mpsc \<Rightarrow> 'c bounded_mailbox_sender \<Rightarrow> 'a \<Rightarrow> (actor_send_error + unit) \<times> 'c bounded_mailbox_sender" where
  "bms_try_send ch b msg =
     (case mp_try_send ch (bms_tx b) msg of
        (Inr _, c) \<Rightarrow> (Inr (), b\<lparr>bms_tx := c\<rparr>)
      | (Inl TrySendFull, c) \<Rightarrow>
          (case bms_overflow b of
             RejectWithError \<Rightarrow> Inl (ActorSendError ''mailbox full'')
           | DropNewest \<Rightarrow> Inr ()
           | Block \<Rightarrow> Inl (ActorSendError ''mailbox full (Block not supported in sync tell)''), b\<lparr>bms_tx := c\<rparr>)
      | (Inl TrySendClosed, c) \<Rightarrow> (Inl (ActorSendError ''actor stopped''), b\<lparr>bms_tx := c\<rparr>))"

definition bms_is_closed :: "('c, 'a) mpsc \<Rightarrow> 'c bounded_mailbox_sender \<Rightarrow> bool" where
  "bms_is_closed ch b = mp_is_closed ch (bms_tx b)"

definition bms_pending :: "('c, 'a) mpsc \<Rightarrow> 'c bounded_mailbox_sender \<Rightarrow> nat" where
  "bms_pending ch b = mp_max_capacity ch (bms_tx b) - mp_capacity ch (bms_tx b)"

section \<open>The outbound pipeline\<close>

record ('p, 'm, 'x, 'i, 'o) outbound_pipeline =
  op_interceptors :: "('p, 'm, 'x, 'i) outbound_interceptor list"
  op_drop_observer :: "'o drop_observer option"
  op_target_id :: actor_id
  op_target_name :: string

definition op_context :: "('p, 'm, 'x, 'i, 'o) outbound_pipeline \<Rightarrow> string \<Rightarrow> send_mode \<Rightarrow> outbound_context" where
  "op_context P message_type mode = \<lparr>oc_target_id = op_target_id P, oc_target_name = op_target_name P,
     oc_message_type = message_type, oc_send_mode = mode, oc_remote = False\<rparr>"

fun run_on_send_from ::
  "('p, 'm, 'x, 'i, 'o) outbound_pipeline \<Rightarrow> outbound_context \<Rightarrow> ('p, 'm, 'x, 'i) outbound_interceptor list \<Rightarrow> 'm \<Rightarrow> 'p headers \<Rightarrow> 'i \<Rightarrow> 'o
    \<Rightarrow> intercept_result \<times> 'i \<times> 'o" where
  "run_on_send_from P ctx [] msg h s obs = (ir_continued, s, obs)"
| "run_on_send_from P ctx (i # is) msg h s obs =
     (case oi_on_send i ctx h msg s of (d, h1, s1) \<Rightarrow>
        if d \<noteq> Continue
        then (\<lparr>ir_disposition = d, ir_interceptor_name = oi_name i\<rparr>, s1,
              if d = Drop
              then notify_drop (op_drop_observer P) \<lparr>dn_target_name = op_target_name P, dn_message_type = oc_message_type ctx,
                     dn_interceptor_name = oi_name i, dn_send_mode = oc_send_mode ctx, dn_context = ''outbound on_send'', dn_seq = None\<rparr> obs
              else obs)
        else run_on_send_from P ctx is msg h1 s1 obs)"

definition run_on_send ::
  "('p, 'm, 'x, 'i, 'o) outbound_pipeline \<Rightarrow> string \<Rightarrow> send_mode \<Rightarrow> 'm \<Rightarrow> 'i \<Rightarrow> 'o \<Rightarrow> intercept_result \<times> 'i \<times> 'o" where
  "run_on_send P message_type mode msg s obs =
     run_on_send_from P (op_context P message_type mode) (op_interceptors P) msg hd_new s obs"

definition run_on_reply :: "('p, 'm, 'x, 'i, 'o) outbound_pipeline \<Rightarrow> string \<Rightarrow> 'x outcome \<Rightarrow> 'i \<Rightarrow> 'i" where
  "run_on_reply P message_type outcome s =
     foldl (\<lambda>s i. oi_on_reply i (op_context P message_type Ask) hd_new outcome s) s (op_interceptors P)"

definition notify_item_drop ::
  "('p, 'm, 'x, 'i, 'o) outbound_pipeline \<Rightarrow> string \<Rightarrow> send_mode \<Rightarrow> string \<Rightarrow> string \<Rightarrow> u64 \<Rightarrow> 'o \<Rightarrow> 'o" where
  "notify_item_drop P message_type mode context interceptor_name seq obs =
     notify_drop (op_drop_observer P) \<lparr>dn_target_name = op_target_name P, dn_message_type = message_type,
       dn_interceptor_name = interceptor_name, dn_send_mode = mode, dn_context = context, dn_seq = Some seq\<rparr> obs"

section \<open>Item tasks\<close>

text \<open>The loop that all the item tasks share. An input item comes with whether the cancellation token, if there is one, is
  triggered when the item is polled. The result has the output channel, the states, the delays slept and whether the
  loop was left before the input ended.\<close>

record ('c, 'i, 'o) item_loop =
  il_out :: 'c
  il_state :: 'i
  il_obs :: 'o
  il_slept :: "duration list"
  il_broken :: bool

definition forward_item :: "('c, 'm) mpsc \<Rightarrow> 'm \<Rightarrow> ('c, 'i, 'o) item_loop \<Rightarrow> bool \<times> ('c, 'i, 'o) item_loop" where
  "forward_item ch item l = (case mp_send ch (il_out l) item of (ok, c) \<Rightarrow> (ok, l\<lparr>il_out := c\<rparr>))"

fun intercept_items ::
  "('c, 'm) mpsc \<Rightarrow> ('p, 'm, 'x, 'i, 'o) outbound_pipeline \<Rightarrow> string \<Rightarrow> send_mode \<Rightarrow> send_mode \<Rightarrow> string \<Rightarrow> u64 \<Rightarrow> ('m \<times> bool) list
    \<Rightarrow> ('c, 'i, 'o) item_loop \<Rightarrow> ('c, 'i, 'o) item_loop" where
  "intercept_items ch P ty mode notice_mode context seq [] l = l"
| "intercept_items ch P ty mode notice_mode context seq ((item, cancelled) # items) l =
     (if cancelled then l\<lparr>il_broken := True\<rparr>
      else case intercept_outbound_stream_item (op_interceptors P) (op_context P ty mode) seq item (il_state l) of (r, s) \<Rightarrow>
        let l1 = l\<lparr>il_state := s\<rparr> in
        case ir_disposition r of
          Continue \<Rightarrow>
            (case forward_item ch item l1 of
               (True, l2) \<Rightarrow> intercept_items ch P ty mode notice_mode context (seq + 1) items l2
             | (False, l2) \<Rightarrow> l2\<lparr>il_broken := True\<rparr>)
        | Drop \<Rightarrow> intercept_items ch P ty mode notice_mode context (seq + 1) items
            (l1\<lparr>il_obs := notify_item_drop P ty notice_mode context (ir_interceptor_name r) seq (il_obs l1)\<rparr>)
        | Retry _ \<Rightarrow> intercept_items ch P ty mode notice_mode context (seq + 1) items
            (l1\<lparr>il_obs := notify_item_drop P ty notice_mode context (ir_interceptor_name r) seq (il_obs l1)\<rparr>)
        | Delay d \<Rightarrow>
            (case forward_item ch item (l1\<lparr>il_slept := il_slept l1 @ [d]\<rparr>) of
               (True, l2) \<Rightarrow> intercept_items ch P ty mode notice_mode context (seq + 1) items l2
             | (False, l2) \<Rightarrow> l2\<lparr>il_broken := True\<rparr>)
        | Reject _ \<Rightarrow> l1\<lparr>il_broken := True\<rparr>)"

definition wrap_stream_with_interception where
  "wrap_stream_with_interception ch P ty mode items l =
     intercept_items ch P ty mode Expand ''stream reply'' 0 (map (\<lambda>i. (i, False)) items) l"

definition wrap_batched_stream_with_interception where
  "wrap_batched_stream_with_interception ch P ty mode items l =
     intercept_items ch P ty mode mode ''stream reply (batched)'' 0 (map (\<lambda>i. (i, False)) items) l"

definition spawn_reduce_drain where
  "spawn_reduce_drain ch P ty items l = intercept_items ch P ty Reduce Reduce ''feed item'' 0 items l"

definition spawn_transform_drain where
  "spawn_transform_drain ch P ty items l = intercept_items ch P ty Transform Transform ''transform input item'' 0 items l"

definition reduce_batched_intercept where
  "reduce_batched_intercept ch P ty items l = intercept_items ch P ty Reduce Reduce ''feed item (batched)'' 0 items l"

text \<open>The third stage of the batched feed: unbatching towards the actor, until it is gone.\<close>

fun send_batch_items :: "('c, 'm) mpsc \<Rightarrow> 'c \<Rightarrow> 'm list \<Rightarrow> bool \<times> 'c" where
  "send_batch_items ch c [] = (True, c)"
| "send_batch_items ch c (item # items) =
     (case mp_send ch c item of (True, c1) \<Rightarrow> send_batch_items ch c1 items | (False, c1) \<Rightarrow> (False, c1))"

fun unbatch_forward :: "('c, 'm) mpsc \<Rightarrow> 'c \<Rightarrow> 'm list list \<Rightarrow> bool \<times> 'c" where
  "unbatch_forward ch c [] = (True, c)"
| "unbatch_forward ch c (batch # batches) =
     (case send_batch_items ch c batch of (True, c1) \<Rightarrow> unbatch_forward ch c1 batches | (False, c1) \<Rightarrow> (False, c1))"

section \<open>Lemmas\<close>

text \<open>The verdicts on a sequence of items, and the items they let pass up to the first rejection.\<close>

fun verdicts ::
  "('p, 'm, 'x, 'i) outbound_interceptor list \<Rightarrow> outbound_context \<Rightarrow> u64 \<Rightarrow> 'm list \<Rightarrow> 'i \<Rightarrow> intercept_result list" where
  "verdicts is ctx seq [] s = []"
| "verdicts is ctx seq (item # items) s =
     (case intercept_outbound_stream_item is ctx seq item s of (r, s1) \<Rightarrow> r # verdicts is ctx (seq + 1) items s1)"

fun is_reject :: "disposition \<Rightarrow> bool" where
  "is_reject (Reject _) = True"
| "is_reject _ = False"

fun lets_pass :: "disposition \<Rightarrow> bool" where
  "lets_pass Continue = True"
| "lets_pass (Delay _) = True"
| "lets_pass _ = False"

definition before_reject :: "('m \<times> intercept_result) list \<Rightarrow> ('m \<times> intercept_result) list" where
  "before_reject = takeWhile (\<lambda>x. \<not> is_reject (ir_disposition (snd x)))"

definition passed :: "('m \<times> intercept_result) list \<Rightarrow> 'm list" where
  "passed xs = map fst (filter (\<lambda>x. lets_pass (ir_disposition (snd x))) (before_reject xs))"

text \<open>The notices for the items dropped, with their sequence numbers.\<close>

fun item_notices ::
  "('p, 'm, 'x, 'i, 'o) outbound_pipeline \<Rightarrow> string \<Rightarrow> send_mode \<Rightarrow> string \<Rightarrow> u64 \<Rightarrow> ('m \<times> intercept_result) list \<Rightarrow> drop_notice list" where
  "item_notices P ty mode context seq [] = []"
| "item_notices P ty mode context seq (x # xs) =
     (if is_reject (ir_disposition (snd x)) then []
      else (if lets_pass (ir_disposition (snd x)) then []
            else [\<lparr>dn_target_name = op_target_name P, dn_message_type = ty, dn_interceptor_name = ir_interceptor_name (snd x),
                   dn_send_mode = mode, dn_context = context, dn_seq = Some seq\<rparr>])
           @ item_notices P ty mode context (seq + 1) xs)"

definition observe :: "('p, 'm, 'x, 'i, 'o) outbound_pipeline \<Rightarrow> 'o \<Rightarrow> drop_notice list \<Rightarrow> 'o" where
  "observe P obs notices = foldl (\<lambda>s n. notify_drop (op_drop_observer P) n s) obs notices"

lemma intercept_items_open:
  assumes law: "mpsc_lawful ch queued" and "\<not> mp_is_closed ch (il_out l)"
    and "intercept_items ch P ty mode nmode context seq (map (\<lambda>i. (i, False)) items) l = l'"
    and "vs = zip items (verdicts (op_interceptors P) (op_context P ty mode) seq items (il_state l))"
  shows "queued (il_out l') = queued (il_out l) @ passed vs \<and>
    il_obs l' = observe P (il_obs l) (item_notices P ty nmode context seq vs) \<and> \<not> mp_is_closed ch (il_out l')"
  using assms(2-4)
proof (induction items arbitrary: l l' vs seq)
  case Nil
  then show ?case by (simp add: passed_def before_reject_def observe_def)
next
  case (Cons item items)
  obtain r s where r: "intercept_outbound_stream_item (op_interceptors P) (op_context P ty mode) seq item (il_state l) = (r, s)" by force
  define rest where "rest = zip items (verdicts (op_interceptors P) (op_context P ty mode) (seq + 1) items s)"
  have vs: "vs = (item, r) # rest" using Cons.prems(3) r by (simp add: rest_def)
  obtain c where c: "mp_send ch (il_out l) item = (True, c)" "queued c = queued (il_out l) @ [item]" "\<not> mp_is_closed ch c"
    using mpsc_sendE [OF law Cons.prems(1)] by metis
  show ?case
  proof (cases "ir_disposition r")
    case Continue
    then have "intercept_items ch P ty mode nmode context (seq + 1) (map (\<lambda>i. (i, False)) items) (l\<lparr>il_state := s, il_out := c\<rparr>) = l'"
      using Cons.prems(2) r c(1) by (simp add: forward_item_def)
    from Cons.IH [OF _ this refl] show ?thesis
      using c vs Continue by (simp add: rest_def passed_def before_reject_def)
  next
    case (Delay d)
    then have "intercept_items ch P ty mode nmode context (seq + 1) (map (\<lambda>i. (i, False)) items)
        (l\<lparr>il_state := s, il_slept := il_slept l @ [d], il_out := c\<rparr>) = l'"
      using Cons.prems(2) r c(1) by (simp add: forward_item_def)
    from Cons.IH [OF _ this refl] show ?thesis
      using c vs Delay by (simp add: rest_def passed_def before_reject_def)
  next
    case Drop
    then have "intercept_items ch P ty mode nmode context (seq + 1) (map (\<lambda>i. (i, False)) items)
        (l\<lparr>il_state := s, il_obs := notify_item_drop P ty nmode context (ir_interceptor_name r) seq (il_obs l)\<rparr>) = l'"
      using Cons.prems(2) r by simp
    from Cons.IH [OF _ this refl] show ?thesis
      using Cons.prems(1) vs Drop by (simp add: rest_def passed_def before_reject_def observe_def notify_item_drop_def)
  next
    case (Retry d)
    then have "intercept_items ch P ty mode nmode context (seq + 1) (map (\<lambda>i. (i, False)) items)
        (l\<lparr>il_state := s, il_obs := notify_item_drop P ty nmode context (ir_interceptor_name r) seq (il_obs l)\<rparr>) = l'"
      using Cons.prems(2) r by simp
    from Cons.IH [OF _ this refl] show ?thesis
      using Cons.prems(1) vs Retry by (simp add: rest_def passed_def before_reject_def observe_def notify_item_drop_def)
  next
    case (Reject x)
    then show ?thesis using Cons.prems(1,2) r vs by (auto simp: passed_def before_reject_def observe_def)
  qed
qed

text \<open>The batching task sends everything that arrives, in order, when its channel stays open.\<close>

lemma writer_wakeup_open:
  assumes law: "mpsc_lawful ch queued" and wf: "bw_wf ch queued bw" and run: "writer_wakeup ch t bw = (gone, tr, bw')"
  shows "\<not> gone" and "bw_wf ch queued bw'" and "in_flight queued bw' cur = in_flight queued bw cur"
proof -
  have bw': "bw' = snd (bw_check_deadline ch t bw)" and gone: "gone = isl (fst (bw_check_deadline ch t bw))"
    using run by (simp_all add: writer_wakeup_def split_beta)
  obtain c where "bw_flush ch bw = (Inr (), bw\<lparr>bw_buffer := [], bw_flush_deadline := (if bw_buffer bw = [] then bw_flush_deadline bw else None), bw_sender := c\<rparr>)"
    using bw_flush_open [OF law] wf unfolding bw_wf_def by blast
  then show "\<not> gone" by (simp add: gone bw_check_deadline_def split: option.split)
  show "bw_wf ch queued bw'" "in_flight queued bw' cur = in_flight queued bw cur" using bw_check_step [OF law wf] bw' by auto
qed

lemma bw_flush_empties:
  assumes "mpsc_lawful ch queued" and "bw_wf ch queued bw"
  shows "bw_buffer (snd (bw_flush ch bw)) = []"
proof -
  have "\<not> mp_is_closed ch (bw_sender bw)" using assms(2) by (simp add: bw_wf_def)
  then show ?thesis by (rule bw_flush_open [OF assms(1)]) simp
qed

lemma writer_task_open:
  assumes law: "mpsc_lawful ch queued"
  shows "bw_wf ch queued bw \<Longrightarrow>
    bw_wf ch queued (snd (writer_task ch now bw arrivals T)) \<and> bw_buffer (snd (writer_task ch now bw arrivals T)) = [] \<and>
    in_flight queued (snd (writer_task ch now bw arrivals T)) [] = in_flight queued bw [] @ map snd arrivals"
proof (induction arrivals arbitrary: now bw)
  case Nil
  let ?wake = "now + bc_max_delay (bw_config bw)"
  obtain gone tr bw1 where w: "writer_wakeup ch ?wake bw = (gone, tr, bw1)" by (rule prod_cases3)
  note up = writer_wakeup_open [OF law Nil w]
  have "snd (writer_task ch now bw [] T) = snd (bw_flush ch (if bw_buffered_count bw > 0 \<and> T > ?wake then bw1 else bw))"
    using w by (simp add: Let_def split_beta)
  then show ?case using up Nil bw_check_step [OF law, of bw] bw_check_step [OF law, of bw1] bw_flush_empties [OF law, of bw]
      bw_flush_empties [OF law, of bw1] by (simp del: writer_task.simps)
next
  case (Cons a arrivals)
  obtain t item where a: "a = (t, item)" by force
  let ?wake = "now + bc_max_delay (bw_config bw)"
  obtain gone tr bw1 where w: "(if bw_buffered_count bw > 0 \<and> t > ?wake then writer_wakeup ch ?wake bw else (False, [], bw)) = (gone, tr, bw1)"
    by (rule prod_cases3)
  have up: "\<not> gone" "bw_wf ch queued bw1" "in_flight queued bw1 [] = in_flight queued bw []"
    using writer_wakeup_open [OF law Cons.prems] w Cons.prems by (auto split: if_splits)
  obtain r bw2 where push: "bw_push ch t bw1 item = (r, bw2)" by force
  note p = bw_push_step [OF law up(2) push]
  have "snd (writer_task ch now bw (a # arrivals) T) = snd (writer_task ch t bw2 arrivals T)"
    unfolding a writer_task.simps Let_def w using up(1) p(1) push by (simp add: split_beta)
  then show ?case using Cons.IH [OF p(2), of t] p(3) [of "[]"] up(3) a by (simp del: writer_task.simps)
qed

lemma send_batch_items_open:
  assumes "mpsc_lawful ch queued" and "\<not> mp_is_closed ch c"
  shows "\<exists>c'. send_batch_items ch c items = (True, c') \<and> queued c' = queued c @ items \<and> \<not> mp_is_closed ch c'"
  using assms(2)
proof (induction items arbitrary: c)
  case (Cons x items)
  obtain c1 where "mp_send ch c x = (True, c1)" "queued c1 = queued c @ [x]" "\<not> mp_is_closed ch c1"
    using mpsc_sendE [OF assms(1) Cons.prems] by metis
  then show ?case using Cons.IH [of c1] by auto
qed auto

lemma unbatch_forward_open:
  assumes "mpsc_lawful ch queued" and "\<not> mp_is_closed ch c"
  shows "\<exists>c'. unbatch_forward ch c batches = (True, c') \<and> queued c' = queued c @ concat batches \<and> \<not> mp_is_closed ch c'"
  using assms(2)
proof (induction batches arbitrary: c)
  case (Cons b batches)
  obtain c1 where "send_batch_items ch c b = (True, c1)" "queued c1 = queued c @ b" "\<not> mp_is_closed ch c1"
    using send_batch_items_open [OF assms(1) Cons.prems] by metis
  then show ?case using Cons.IH [of c1] by auto
qed auto

text \<open>Delays do not add up on the sending side: the first interceptor that asks for one ends the pass.\<close>

lemma run_on_send_first_delay:
  assumes "op_interceptors P = i # is" and "oi_on_send i (op_context P ty mode) hd_new msg s = (Delay d, h, s1)"
  shows "run_on_send P ty mode msg s obs = (\<lparr>ir_disposition = Delay d, ir_interceptor_name = oi_name i\<rparr>, s1, obs)"
  using assms by (simp add: run_on_send_def)

section \<open>Properties\<close>

text \<open>What the item tasks deliver. On an open channel and without cancellation the receiver gets exactly the items whose verdict
  is \<open>Continue\<close> or \<open>Delay\<close>, in order, up to the first \<open>Reject\<close>; the observer is told of exactly the items that are dropped or
  turned back before that, each with its sequence number and the interceptor responsible. The notices of a plain reply stream always
  name the mode \<open>Expand\<close>, also when the stream answers a transform request.\<close>

theorem interception_delivers:
  assumes "mpsc_lawful ch queued" and "\<not> mp_is_closed ch (il_out l)"
    and "vs = (\<lambda>mode. zip items (verdicts (op_interceptors P) (op_context P ty mode) 0 items (il_state l)))"
    and "untriggered = map (\<lambda>i. (i, False)) items"
    and "outcome_of = (\<lambda>l' mode notice_mode context. queued (il_out l') = queued (il_out l) @ passed (vs mode) \<and>
           il_obs l' = observe P (il_obs l) (item_notices P ty notice_mode context 0 (vs mode)))"
  shows "outcome_of (wrap_stream_with_interception ch P ty mode items l) mode Expand ''stream reply'' \<and>
    outcome_of (wrap_batched_stream_with_interception ch P ty mode items l) mode mode ''stream reply (batched)'' \<and>
    outcome_of (spawn_reduce_drain ch P ty untriggered l) Reduce Reduce ''feed item'' \<and>
    outcome_of (reduce_batched_intercept ch P ty untriggered l) Reduce Reduce ''feed item (batched)'' \<and>
    outcome_of (spawn_transform_drain ch P ty untriggered l) Transform Transform ''transform input item''"
  unfolding assms(3-5) wrap_stream_with_interception_def wrap_batched_stream_with_interception_def spawn_reduce_drain_def
    reduce_batched_intercept_def spawn_transform_drain_def
  by (intro conjI) (use intercept_items_open [OF assms(1,2) refl refl] in blast)+

definition odd_dropper :: "('p, nat, 'x, nat) outbound_interceptor" where
  "odd_dropper = \<lparr>oi_name = ''odd'', oi_on_send = (\<lambda>_ h _ s. (Continue, h, s)), oi_on_reply = (\<lambda>_ _ _ s. s),
     oi_on_expand_item = (\<lambda>_ _ m s. (if 9 < m then Reject ''big'' else if odd m then Drop else Delay m, Suc s))\<rparr>"

definition sample_pipeline :: "(nat, nat, nat, nat, drop_notice list) outbound_pipeline" where
  "sample_pipeline = \<lparr>op_interceptors = [odd_dropper], op_drop_observer = Some (\<lambda>ns n. ns @ [n]),
     op_target_id = ActorId (NodeId ''n'') 1, op_target_name = ''t''\<rparr>"

definition sample_loop :: "(nat list_channel, nat, drop_notice list) item_loop" where
  "sample_loop = \<lparr>il_out = ListChannel [] 8 False, il_state = 0, il_obs = [], il_slept = [], il_broken = False\<rparr>"

lemma sample_loop_open: "\<not> mp_is_closed list_mpsc (il_out sample_loop)" "lc_items (il_out sample_loop) = []"
  by (simp_all add: sample_loop_def list_mpsc_def)

theorem interception_delivers_witness:
  "lc_items (il_out (wrap_stream_with_interception list_mpsc sample_pipeline ''u'' Transform [2, 3, 4, 11, 6] sample_loop)) = [2, 4] \<and>
   map (\<lambda>n. (dn_seq n, dn_send_mode n, dn_interceptor_name n))
     (il_obs (wrap_stream_with_interception list_mpsc sample_pipeline ''u'' Transform [2, 3, 4, 11, 6] sample_loop)) = [(Some 1, Expand, ''odd'')]"
proof -
  let ?vs = "\<lambda>mode. zip [2 :: nat, 3, 4, 11, 6] (verdicts (op_interceptors sample_pipeline) (op_context sample_pipeline ''u'' mode) 0 [2, 3, 4, 11, 6]
    (il_state sample_loop))"
  have "passed (?vs Transform) = [2, 4]"
    "map (\<lambda>n. (dn_seq n, dn_send_mode n, dn_interceptor_name n))
       (observe sample_pipeline (il_obs sample_loop) (item_notices sample_pipeline ''u'' Expand ''stream reply'' 0 (?vs Transform)))
     = [(Some 1, Expand, ''odd'')]"
    by (code_simp, code_simp)
  then show ?thesis
    using interception_delivers [OF list_mpsc_lawful sample_loop_open(1) refl refl refl, where items = "[2, 3, 4, 11, 6]" and P = sample_pipeline
        and ty = "''u''" and mode = Transform]
    by (simp add: sample_loop_open(2))
qed

text \<open>The batched feed delivers what the plain feed delivers: what the interception task of \<open>spawn_reduce_batched_drain\<close> forwards
  reaches the batching task in whatever times, and what the actor's item channel holds after unbatching is, with nothing lost,
  duplicated or reordered, what \<open>spawn_reduce_drain\<close> would have put there.\<close>

theorem batched_feed_equivalent:
  assumes law: "mpsc_lawful ch queued" and blaw: "mpsc_lawful bch bqueued"
    and l: "\<not> mp_is_closed ch (il_out l)" "queued (il_out l) = []" and b: "\<not> mp_is_closed bch bc" "bqueued bc = []"
    and cfg: "0 < bc_max_items cfg" and ins: "untriggered = map (\<lambda>i. (i, False)) items"
    and arrivals: "map snd arrivals = queued (il_out (reduce_batched_intercept ch P ty untriggered l))"
  shows "\<exists>c. unbatch_forward ch (il_out l) (bqueued (bw_sender (snd (writer_task bch now (bw_new bc cfg) arrivals T)))) = (True, c) \<and>
    queued c = queued (il_out (spawn_reduce_drain ch P ty untriggered l))"
proof -
  have wf: "bw_wf bch bqueued (bw_new bc cfg)" using b cfg by (simp add: bw_wf_def bw_new_def)
  have empty: "in_flight bqueued (bw_new bc cfg) [] = []" using b(2) by (simp add: in_flight_def bw_new_def)
  have sent: "concat (bqueued (bw_sender (snd (writer_task bch now (bw_new bc cfg) arrivals T)))) = map snd arrivals"
    using writer_task_open [OF blaw wf, of now arrivals T] unfolding empty by (auto simp add: in_flight_def simp del: writer_task.simps)
  have "map snd arrivals = queued (il_out (spawn_reduce_drain ch P ty untriggered l))"
    unfolding arrivals ins reduce_batched_intercept_def spawn_reduce_drain_def
    by (simp only: intercept_items_open [OF law l(1) refl refl, THEN conjunct1])
  then show ?thesis using unbatch_forward_open [OF law l(1)] sent l(2) by (metis append_Nil)
qed

theorem batched_feed_equivalent_witness:
  "\<exists>c. unbatch_forward list_mpsc (il_out sample_loop)
      (lc_items (bw_sender (snd (writer_task list_mpsc 0 (bw_new (ListChannel [] 4 False) (bc_new 2 10)) [(1, 2), (30, 4)] 40)))) = (True, c) \<and>
    lc_items c = [2, 4]"
proof -
  let ?ins = "map (\<lambda>i. (i, False)) [2 :: nat, 3, 4, 11, 6]"
  have b: "\<not> mp_is_closed list_mpsc (ListChannel [] 4 False :: nat list list_channel)" "lc_items (ListChannel [] 4 False :: nat list list_channel) = []"
    "0 < bc_max_items (bc_new 2 10)" by (simp_all add: list_mpsc_def bc_new_def)
  have out: "map snd [(1 :: nat, 2), (30, 4)] = lc_items (il_out (reduce_batched_intercept list_mpsc sample_pipeline ''u'' ?ins sample_loop))"
    "lc_items (il_out (spawn_reduce_drain list_mpsc sample_pipeline ''u'' ?ins sample_loop)) = [2, 4]"
    by (code_simp, code_simp)
  show ?thesis
    using batched_feed_equivalent [OF list_mpsc_lawful list_mpsc_lawful sample_loop_open b refl out(1), of 0 40] unfolding out(2) .
qed

text \<open>A bounded mailbox: a message is queued when there is room; on a full mailbox the strategies \<open>RejectWithError\<close> and \<open>Block\<close>
  give an error and \<open>DropNewest\<close> reports success, all three leaving the mailbox as it is; a stopped actor gives an error under every
  strategy; and the number of pending messages is the length of the queue.\<close>

theorem mailbox_overflow:
  assumes "mpsc_lawful ch queued" and "length (queued (bms_tx b)) \<le> mp_max_capacity ch (bms_tx b)"
    and "bms_try_send ch b msg = (r, b')"
  shows "bms_pending ch b = length (queued (bms_tx b)) \<and>
    (if bms_is_closed ch b then r = Inl (ActorSendError ''actor stopped'') \<and> b' = b
     else if bms_pending ch b < mp_max_capacity ch (bms_tx b)
     then r = Inr () \<and> queued (bms_tx b') = queued (bms_tx b) @ [msg] \<and> bms_pending ch b' = Suc (bms_pending ch b)
     else b' = b \<and> (r = Inr () \<longleftrightarrow> bms_overflow b = DropNewest))"
proof -
  have pending: "bms_pending ch x = length (queued (bms_tx x))" if "length (queued (bms_tx x)) \<le> mp_max_capacity ch (bms_tx x)" for x
    using mpsc_closeD(3) [OF assms(1), of "bms_tx x"] that by (simp add: bms_pending_def)
  consider "mp_is_closed ch (bms_tx b)" | "\<not> mp_is_closed ch (bms_tx b)" "length (queued (bms_tx b)) < mp_max_capacity ch (bms_tx b)"
    | "\<not> mp_is_closed ch (bms_tx b)" "length (queued (bms_tx b)) = mp_max_capacity ch (bms_tx b)" using assms(2) by linarith
  then show ?thesis
  proof cases
    case 1
    then show ?thesis using mpsc_closedD(1) [OF assms(1) 1, of msg] assms(3) pending [OF assms(2)]
      by (simp add: bms_try_send_def bms_is_closed_def)
  next
    case 2
    obtain c where "mp_try_send ch (bms_tx b) msg = (Inr (), c)" "queued c = queued (bms_tx b) @ [msg]"
      "mp_max_capacity ch c = mp_max_capacity ch (bms_tx b)" using mpsc_try_sendE [OF assms(1) 2] by metis
    then show ?thesis using assms(3) 2 pending [OF assms(2)] pending [of b'] by (auto simp: bms_try_send_def bms_is_closed_def)
  next
    case 3
    then show ?thesis using mpsc_fullD [OF assms(1) 3(1), of msg] assms(3) pending [OF assms(2)]
      by (auto simp: bms_try_send_def bms_is_closed_def split: overflow_strategy.splits)
  qed
qed

theorem mailbox_overflow_witness:
  "bms_try_send list_mpsc \<lparr>bms_tx = ListChannel [1, 2 :: nat] 2 False, bms_overflow = DropNewest\<rparr> 3 =
     (Inr (), \<lparr>bms_tx = ListChannel [1, 2] 2 False, bms_overflow = DropNewest\<rparr>)"
proof -
  let ?b = "\<lparr>bms_tx = ListChannel [1, 2 :: nat] 2 False, bms_overflow = DropNewest\<rparr>"
  obtain r b' where run: "bms_try_send list_mpsc ?b 3 = (r, b')" by force
  show ?thesis
    using mailbox_overflow [OF list_mpsc_lawful _ run] run by (simp add: bms_is_closed_def bms_pending_def list_mpsc_def)
qed

end
