(* ===== verification/Dispatch.thy ===== *)
theory Dispatch
  imports Interceptors Broadcast
begin

text \<open>
  The dispatch envelopes of \<^verbatim>\<open>dactor/src/dispatch.rs\<close>, the actor context and reply futures of \<^verbatim>\<open>actor.rs\<close> and the inbound
  interceptors of \<^verbatim>\<open>interceptor.rs\<close>. The user's actor is a record of handlers on its state \<open>'a\<close>, its context and the world \<open>'w\<close> it
  acts on; a handler returns or panics. A reply goes through a \<^verbatim>\<open>oneshot\<close> channel of tokio, whose sender is used or dropped
  once: the model names such channels by numbers and keeps what became of each.
\<close>

section \<open>Replies\<close>

datatype 'y oneshot = OsPending | OsSent "runtime_error + 'y" | OsDropped

type_synonym 'y oneshots = "nat \<Rightarrow> 'y oneshot"

definition reply_channel_closed :: string where
  "reply_channel_closed = ''reply channel closed '' @ [CHR 0xE2, CHR 0x80, CHR 0x94] @
     '' actor may have stopped, panicked, or the request was cancelled''"

text \<open>Polling the reply future; \<open>None\<close> while it is pending.\<close>

fun ask_reply_poll :: "'y oneshot \<Rightarrow> (runtime_error + 'y) option" where
  "ask_reply_poll (OsSent r) = Some r"
| "ask_reply_poll OsDropped = Some (Inl (RE_ActorNotFound reply_channel_closed))"
| "ask_reply_poll OsPending = None"

section \<open>Contexts and handlers\<close>

record 'p actor_context =
  ac_actor_id :: actor_id
  ac_actor_name :: string
  ac_send_mode :: "send_mode option"
  ac_headers :: "'p headers"
  ac_cancellation_token :: "cancel_token option"

definition ac_new :: "actor_id \<Rightarrow> string \<Rightarrow> 'p actor_context" where
  "ac_new actor_id actor_name = \<lparr>ac_actor_id = actor_id, ac_actor_name = actor_name, ac_send_mode = None, ac_headers = hd_new,
     ac_cancellation_token = None\<rparr>"

datatype 'y handler_run = Returned 'y | Panicked

type_synonym ('a, 'p, 'w) exec = "'a \<times> 'p actor_context \<times> 'w"

text \<open>The actor, handler, expand, reduce and transform traits, with the names the compiler gives to the types. A stream sender is
  the number of its stream; the items are those its receiver yields. The error hook and \<^verbatim>\<open>on_stop\<close> see the actor only.\<close>

record ('a, 'm, 'i, 'y, 'p, 'w) actor_impl =
  ai_message_type :: "'m \<Rightarrow> string"
  ai_item_type :: string
  ai_on_start :: "('a, 'p, 'w) exec \<Rightarrow> unit handler_run \<times> ('a, 'p, 'w) exec"
  ai_handle :: "'m \<Rightarrow> ('a, 'p, 'w) exec \<Rightarrow> 'y handler_run \<times> ('a, 'p, 'w) exec"
  ai_handle_expand :: "'m \<Rightarrow> nat \<Rightarrow> ('a, 'p, 'w) exec \<Rightarrow> unit handler_run \<times> ('a, 'p, 'w) exec"
  ai_handle_reduce :: "'i list \<Rightarrow> ('a, 'p, 'w) exec \<Rightarrow> 'y handler_run \<times> ('a, 'p, 'w) exec"
  ai_handle_transform :: "'i \<Rightarrow> nat \<Rightarrow> ('a, 'p, 'w) exec \<Rightarrow> unit handler_run \<times> ('a, 'p, 'w) exec"
  ai_on_transform_complete :: "nat \<Rightarrow> ('a, 'p, 'w) exec \<Rightarrow> unit handler_run \<times> ('a, 'p, 'w) exec"
  ai_on_error :: "'a \<Rightarrow> actor_error \<Rightarrow> error_action \<times> 'a"
  ai_on_stop :: "'a \<Rightarrow> unit handler_run \<times> 'a"

section \<open>Dispatch envelopes\<close>

text \<open>The input of a transform comes with whether the token is cancelled when the item is taken.\<close>

datatype ('m, 'i) dispatch =
    TypedDispatch 'm
  | AskDispatch 'm nat "cancel_token option"
  | ExpandDispatch 'm nat "cancel_token option"
  | ReduceDispatch "'i list" nat "cancel_token option"
  | TransformDispatch "('i \<times> bool) list" nat "cancel_token option"

record 'y dispatch_result =
  dr_reply :: "'y option"
  dr_reply_sender :: "nat option"

definition dr_tell :: "'y dispatch_result" where
  "dr_tell = \<lparr>dr_reply = None, dr_reply_sender = None\<rparr>"

definition dr_send_reply :: "'y dispatch_result \<Rightarrow> 'y oneshots \<Rightarrow> 'y oneshots" where
  "dr_send_reply r os = (case (dr_reply r, dr_reply_sender r) of
     (Some reply, Some tx) \<Rightarrow> os(tx := OsSent (Inr reply)) | _ \<Rightarrow> os)"

fun send_mode_of :: "('m, 'i) dispatch \<Rightarrow> send_mode" where
  "send_mode_of (TypedDispatch _) = Tell"
| "send_mode_of (AskDispatch _ _ _) = Ask"
| "send_mode_of (ExpandDispatch _ _ _) = Expand"
| "send_mode_of (ReduceDispatch _ _ _) = Reduce"
| "send_mode_of (TransformDispatch _ _ _) = Transform"

text \<open>\<^verbatim>\<open>message_any\<close>: the feed envelopes carry no message and give the unit value, here \<open>None\<close>.\<close>

fun message_any :: "('m, 'i) dispatch \<Rightarrow> 'm option" where
  "message_any (TypedDispatch msg) = Some msg"
| "message_any (AskDispatch msg _ _) = Some msg"
| "message_any (ExpandDispatch msg _ _) = Some msg"
| "message_any (ReduceDispatch _ _ _) = None"
| "message_any (TransformDispatch _ _ _) = None"

definition message_type_name :: "('a, 'm, 'i, 'y, 'p, 'w) actor_impl \<Rightarrow> ('m, 'i) dispatch \<Rightarrow> string" where
  "message_type_name A d = (case message_any d of Some msg \<Rightarrow> ai_message_type A msg | None \<Rightarrow> ai_item_type A)"

fun cancel_token_of :: "('m, 'i) dispatch \<Rightarrow> cancel_token option" where
  "cancel_token_of (TypedDispatch _) = None"
| "cancel_token_of (AskDispatch _ _ c) = c"
| "cancel_token_of (ExpandDispatch _ _ c) = c"
| "cancel_token_of (ReduceDispatch _ _ c) = c"
| "cancel_token_of (TransformDispatch _ _ c) = c"

text \<open>The reply sender an envelope owns.\<close>

fun reply_tx :: "('m, 'i) dispatch \<Rightarrow> nat option" where
  "reply_tx (AskDispatch _ tx _) = Some tx"
| "reply_tx (ReduceDispatch _ tx _) = Some tx"
| "reply_tx _ = None"

definition drop_dispatch :: "('m, 'i) dispatch \<Rightarrow> 'y oneshots \<Rightarrow> 'y oneshots" where
  "drop_dispatch d os = (case reply_tx d of Some tx \<Rightarrow> os(tx := OsDropped) | None \<Rightarrow> os)"

definition send_error :: "('m, 'i) dispatch \<Rightarrow> runtime_error \<Rightarrow> 'y oneshots \<Rightarrow> 'y oneshots" where
  "send_error d e os = (case reply_tx d of Some tx \<Rightarrow> os(tx := OsSent (Inl e)) | None \<Rightarrow> os)"

definition dispatch_reject :: "('m, 'i) dispatch \<Rightarrow> disposition \<Rightarrow> string \<Rightarrow> 'y oneshots \<Rightarrow> 'y oneshots" where
  "dispatch_reject d disp interceptor_name os =
     (case disp of
        Reject reason \<Rightarrow> send_error d (RE_Rejected interceptor_name reason) os
      | Retry retry_after \<Rightarrow> send_error d (RE_RetryAfter interceptor_name retry_after) os
      | Drop \<Rightarrow> send_error d (RE_ActorNotFound (''dropped by interceptor '' @ [CHR 0x27] @ interceptor_name @ [CHR 0x27])) os
      | _ \<Rightarrow> drop_dispatch d os)"

definition dispatch_cancel :: "('m, 'i) dispatch \<Rightarrow> 'y oneshots \<Rightarrow> 'y oneshots" where
  "dispatch_cancel d os = send_error d RE_Cancelled os"

fun transform_loop ::
  "('a, 'm, 'i, 'y, 'p, 'w) actor_impl \<Rightarrow> nat \<Rightarrow> cancel_token option \<Rightarrow> ('i \<times> bool) list \<Rightarrow> ('a, 'p, 'w) exec
    \<Rightarrow> unit handler_run \<times> ('a, 'p, 'w) exec" where
  "transform_loop A sender cancel [] x = ai_on_transform_complete A sender x"
| "transform_loop A sender cancel ((item, cancelled) # items) x =
     (if cancel \<noteq> None \<and> cancelled then (Returned (), x)
      else case ai_handle_transform A item sender x of
             (Returned _, x1) \<Rightarrow> transform_loop A sender cancel items x1
           | (Panicked, x1) \<Rightarrow> (Panicked, x1))"

fun map_run :: "('y \<Rightarrow> 'z) \<Rightarrow> 'y handler_run \<Rightarrow> 'z handler_run" where
  "map_run f (Returned y) = Returned (f y)"
| "map_run f Panicked = Panicked"

fun dispatch_run ::
  "('a, 'm, 'i, 'y, 'p, 'w) actor_impl \<Rightarrow> ('m, 'i) dispatch \<Rightarrow> ('a, 'p, 'w) exec \<Rightarrow> 'y dispatch_result handler_run \<times> ('a, 'p, 'w) exec" where
  "dispatch_run A (TypedDispatch msg) x = map_prod (map_run (\<lambda>_. dr_tell)) id (ai_handle A msg x)"
| "dispatch_run A (AskDispatch msg tx _) x =
     map_prod (map_run (\<lambda>y. \<lparr>dr_reply = Some y, dr_reply_sender = Some tx\<rparr>)) id (ai_handle A msg x)"
| "dispatch_run A (ExpandDispatch msg sender _) x = map_prod (map_run (\<lambda>_. dr_tell)) id (ai_handle_expand A msg sender x)"
| "dispatch_run A (ReduceDispatch items tx _) x =
     map_prod (map_run (\<lambda>y. \<lparr>dr_reply = Some y, dr_reply_sender = Some tx\<rparr>)) id (ai_handle_reduce A items x)"
| "dispatch_run A (TransformDispatch items sender cancel) x =
     map_prod (map_run (\<lambda>_. dr_tell)) id (transform_loop A sender cancel items x)"

section \<open>Inbound interceptors\<close>

record inbound_context =
  ic_actor_id :: actor_id
  ic_actor_name :: string
  ic_message_type :: string
  ic_send_mode :: send_mode
  ic_remote :: bool
  ic_origin_node :: "node_id option"

text \<open>A handler wrapper maps the handler's future to another; a future acts on a state \<open>'f\<close> and may panic.\<close>

type_synonym 'f future = "'f \<Rightarrow> bool \<times> 'f"

record ('p, 'm, 'y, 'j, 'f) inbound_interceptor =
  ii_name :: string
  ii_on_receive :: "inbound_context \<Rightarrow> 'm option \<Rightarrow> 'p headers \<Rightarrow> 'j \<Rightarrow> disposition \<times> 'p headers \<times> 'j"
  ii_on_complete :: "inbound_context \<Rightarrow> 'p headers \<Rightarrow> 'y outcome \<Rightarrow> 'j \<Rightarrow> 'j"
  ii_wrap_handler :: "inbound_context \<Rightarrow> 'p headers \<Rightarrow> 'j \<Rightarrow> ('f future \<Rightarrow> 'f future) option"

definition collect_handler_wrappers ::
  "('p, 'm, 'y, 'j, 'f) inbound_interceptor list \<Rightarrow> inbound_context \<Rightarrow> 'p headers \<Rightarrow> 'j \<Rightarrow> ('f future \<Rightarrow> 'f future) option list" where
  "collect_handler_wrappers is ctx h j = map (\<lambda>i. ii_wrap_handler i ctx h j) is"

section \<open>Lemmas\<close>

lemma dispatch_run_reply:
  assumes "dispatch_run A d x = (Returned r, x')"
  shows "dr_reply_sender r = reply_tx d" and "dr_reply r = None \<longleftrightarrow> reply_tx d = None"
proof -
  have "dr_reply_sender r = reply_tx d \<and> (dr_reply r = None \<longleftrightarrow> reply_tx d = None)"
  proof (cases d)
    case (TypedDispatch msg)
    then show ?thesis using assms by (cases "fst (ai_handle A msg x)") (auto simp: dr_tell_def map_prod_def split_beta)
  next
    case (AskDispatch msg tx c)
    then show ?thesis using assms by (cases "fst (ai_handle A msg x)") (auto simp: map_prod_def split_beta)
  next
    case (ExpandDispatch msg tx c)
    then show ?thesis using assms by (cases "fst (ai_handle_expand A msg tx x)") (auto simp: dr_tell_def map_prod_def split_beta)
  next
    case (ReduceDispatch items tx c)
    then show ?thesis using assms by (cases "fst (ai_handle_reduce A items x)") (auto simp: map_prod_def split_beta)
  next
    case (TransformDispatch items tx c)
    then show ?thesis using assms by (cases "fst (transform_loop A tx c items x)") (auto simp: dr_tell_def map_prod_def split_beta)
  qed
  then show "dr_reply_sender r = reply_tx d" and "dr_reply r = None \<longleftrightarrow> reply_tx d = None" by blast+
qed

lemma send_reply_resolves:
  assumes "dispatch_run A d x = (Returned r, x')"
  shows "dr_send_reply r os = (case reply_tx d of Some tx \<Rightarrow> os(tx := OsSent (Inr (the (dr_reply r)))) | None \<Rightarrow> os)"
  using dispatch_run_reply [OF assms] by (auto simp: dr_send_reply_def split: option.splits)

end
