(* ===== verification/Remote_Ref.thy ===== *)
theory Remote_Ref
  imports Transport Dispatch
begin

text \<open>
  References to actors on other nodes (\<^verbatim>\<open>dactor/src/remote_ref.rs\<close>): the outbound pipeline that runs before serialization, remote tells and
  asks, the builder with its serializers, and the wire form of a reference. The types of messages are known when the program is compiled:
  \<open>type_of\<close> and \<open>type_name\<close> give them. A background task is the value that describes it, and what the transport answers is an argument of the
  function that finishes it. The serde codecs, \<^verbatim>\<open>Uuid::new_v4\<close> and the \<^verbatim>\<open>Debug\<close> form of a duration are parameters.
\<close>

section \<open>References and their builder\<close>

type_synonym 'm serialize_fn = "'m \<Rightarrow> serialization_error + string \<times> bytes"

record ('m, 'y) ask_entry =
  aen_serialize :: "'m serialize_fn"
  aen_deserialize_reply :: "bytes \<Rightarrow> serialization_error + 'y"

record ('p, 'm, 'y, 'i) remote_ref =
  rar_id :: actor_id
  rar_name :: string
  rar_tell_serializers :: "(type_id, 'm serialize_fn) hashmap"
  rar_ask_entries :: "(type_id, ('m, 'y) ask_entry) hashmap"
  rar_outbound_interceptors :: "('p, 'm, 'y, 'i) outbound_interceptor list"

definition rab_new :: "actor_id \<Rightarrow> string \<Rightarrow> ('p, 'm, 'y, 'i) remote_ref" where
  "rab_new aid name = \<lparr>rar_id = aid, rar_name = name, rar_tell_serializers = hm_empty, rar_ask_entries = hm_empty, rar_outbound_interceptors = []\<rparr>"

definition rab_add_outbound_interceptor :: "('p, 'm, 'y, 'i) remote_ref \<Rightarrow> ('p, 'm, 'y, 'i) outbound_interceptor \<Rightarrow> ('p, 'm, 'y, 'i) remote_ref" where
  "rab_add_outbound_interceptor b i = b\<lparr>rar_outbound_interceptors := rar_outbound_interceptors b @ [i]\<rparr>"

definition named_serializer :: "string \<Rightarrow> ('m \<Rightarrow> serialization_error + bytes) \<Rightarrow> 'm serialize_fn" where
  "named_serializer type_name serialize msg = (case serialize msg of Inl e \<Rightarrow> Inl e | Inr b \<Rightarrow> Inr (type_name, b))"

definition rab_register_tell_with ::
  "('p, 'm, 'y, 'i) remote_ref \<Rightarrow> type_id \<Rightarrow> string \<Rightarrow> ('m \<Rightarrow> serialization_error + bytes) \<Rightarrow> ('p, 'm, 'y, 'i) remote_ref" where
  "rab_register_tell_with b ty type_name serialize =
     b\<lparr>rar_tell_serializers := hm_insert ty (named_serializer type_name serialize) (rar_tell_serializers b)\<rparr>"

definition rab_register_ask_with ::
  "('p, 'm, 'y, 'i) remote_ref \<Rightarrow> type_id \<Rightarrow> string \<Rightarrow> ('m \<Rightarrow> serialization_error + bytes) \<Rightarrow> (bytes \<Rightarrow> serialization_error + 'y)
    \<Rightarrow> ('p, 'm, 'y, 'i) remote_ref" where
  "rab_register_ask_with b ty type_name serialize deserialize_reply =
     b\<lparr>rar_ask_entries := hm_insert ty \<lparr>aen_serialize = named_serializer type_name serialize, aen_deserialize_reply = deserialize_reply\<rparr>
         (rar_ask_entries b)\<rparr>"

text \<open>The JSON serializers downcast the message first; \<open>downcast\<close> says whether it has the type registered.\<close>

definition rab_register_tell ::
  "('p, 'm, 'y, 'i) remote_ref \<Rightarrow> type_id \<Rightarrow> string \<Rightarrow> ('m \<Rightarrow> bool) \<Rightarrow> ('m \<Rightarrow> string + bytes) \<Rightarrow> ('p, 'm, 'y, 'i) remote_ref" where
  "rab_register_tell b ty type_name downcast to_vec =
     rab_register_tell_with b ty type_name
       (\<lambda>msg. if downcast msg then json_serialize_typed to_vec msg else Inl (SerializationError ''type downcast failed in tell serializer''))"

definition rab_register_ask ::
  "('p, 'm, 'y, 'i) remote_ref \<Rightarrow> type_id \<Rightarrow> string \<Rightarrow> ('m \<Rightarrow> bool) \<Rightarrow> ('m \<Rightarrow> string + bytes) \<Rightarrow> (bytes \<Rightarrow> string + 'y) \<Rightarrow> ('p, 'm, 'y, 'i) remote_ref" where
  "rab_register_ask b ty type_name downcast to_vec from_slice =
     rab_register_ask_with b ty type_name
       (\<lambda>msg. if downcast msg then json_serialize_typed to_vec msg else Inl (SerializationError ''type downcast failed in ask serializer''))
       (\<lambda>bytes. case from_slice bytes of Inl e \<Rightarrow> Inl (SerializationError (''json deserialize reply: '' @ e)) | Inr y \<Rightarrow> Inr y)"

section \<open>The outbound pipeline\<close>

datatype pipeline_result = PrContinue | PrDelay duration | PrDropped

definition rar_context :: "('p, 'm, 'y, 'i) remote_ref \<Rightarrow> string \<Rightarrow> send_mode \<Rightarrow> outbound_context" where
  "rar_context r message_type mode = \<lparr>oc_target_id = rar_id r, oc_target_name = rar_name r, oc_message_type = message_type,
     oc_send_mode = mode, oc_remote = True\<rparr>"

fun rar_pipeline_from ::
  "(duration \<Rightarrow> string) \<Rightarrow> outbound_context \<Rightarrow> ('p, 'm, 'y, 'i) outbound_interceptor list \<Rightarrow> 'm \<Rightarrow> duration option \<Rightarrow> 'p headers \<Rightarrow> 'i
    \<Rightarrow> (actor_send_error + pipeline_result) \<times> 'p headers \<times> 'i" where
  "rar_pipeline_from debug ctx [] msg delay h s = (Inr (case delay of Some d \<Rightarrow> PrDelay d | None \<Rightarrow> PrContinue), h, s)"
| "rar_pipeline_from debug ctx (i # is) msg delay h s =
     (case oi_on_send i ctx h msg s of (disp, h1, s1) \<Rightarrow>
        case disp of
          Continue \<Rightarrow> rar_pipeline_from debug ctx is msg delay h1 s1
        | Reject reason \<Rightarrow>
            (Inl (ActorSendError (''rejected by outbound interceptor '' @ [CHR 0x27] @ oi_name i @ [CHR 0x27] @ '': '' @ reason)), h1, s1)
        | Drop \<Rightarrow> (Inr PrDropped, h1, s1)
        | Delay d \<Rightarrow>
            rar_pipeline_from debug ctx is msg (Some (case delay of Some existing \<Rightarrow> (if existing > d then existing else d) | None \<Rightarrow> d)) h1 s1
        | Retry retry_after \<Rightarrow>
            (Inl (ActorSendError (''retry after '' @ debug retry_after @ '' (from outbound interceptor '' @ [CHR 0x27] @ oi_name i @ [CHR 0x27] @ '')'')),
             h1, s1))"

definition rar_run_outbound_pipeline where
  "rar_run_outbound_pipeline debug r message_type mode h msg s =
     rar_pipeline_from debug (rar_context r message_type mode) (rar_outbound_interceptors r) msg None h s"

section \<open>Sending\<close>

text \<open>The task of a tell: wait, send, and at most log a failure.\<close>

record send_task =
  st_delay :: "duration option"
  st_node :: node_id
  st_envelope :: wire_envelope

definition delay_of :: "pipeline_result \<Rightarrow> duration option" where
  "delay_of p = (case p of PrDelay d \<Rightarrow> Some d | _ \<Rightarrow> None)"

definition rar_tell ::
  "(duration \<Rightarrow> string) \<Rightarrow> ('m \<Rightarrow> type_id) \<Rightarrow> ('m \<Rightarrow> string) \<Rightarrow> ('p, 'm, 'y, 'i) remote_ref \<Rightarrow> 'm \<Rightarrow> 'i
    \<Rightarrow> (actor_send_error + send_task option) \<times> 'i" where
  "rar_tell debug type_of type_name r msg s =
     (case rar_run_outbound_pipeline debug r (type_name msg) Tell hd_new msg s of
        (Inl e, _, s1) \<Rightarrow> (Inl e, s1)
      | (Inr PrDropped, _, s1) \<Rightarrow> (Inr None, s1)
      | (Inr p, h, s1) \<Rightarrow>
          (case hm_get (rar_tell_serializers r) (type_of msg) of
             None \<Rightarrow> (Inl (ActorSendError (''message type '' @ [CHR 0x27] @ type_name msg @ [CHR 0x27] @
                        '' not registered for remote send to '' @ actor_id_display (rar_id r))), s1)
           | Some serializer \<Rightarrow>
               (case serializer msg of
                  Inl e \<Rightarrow> (Inl (ActorSendError (''serialization failed: '' @ se_message e)), s1)
                | Inr (ty, body) \<Rightarrow>
                    (Inr (Some \<lparr>st_delay = delay_of p, st_node = aid_node (rar_id r),
                       st_envelope = \<lparr>we_target = rar_id r, we_target_name = rar_name r, we_message_type = ty, we_send_mode = Tell,
                         we_headers = hd_to_wire h, we_body = body, we_request_id = None, we_version = None\<rparr>\<rparr>), s1))))"

text \<open>The task of an ask also has what it needs for the reply.\<close>

record ('p, 'm, 'y) ask_task =
  at_send :: send_task
  at_cancel :: "cancel_token option"
  at_deserialize_reply :: "bytes \<Rightarrow> serialization_error + 'y"
  at_headers :: "'p headers"
  at_message_type :: string

definition rar_ask ::
  "(duration \<Rightarrow> string) \<Rightarrow> ('m \<Rightarrow> type_id) \<Rightarrow> ('m \<Rightarrow> string) \<Rightarrow> uuid \<Rightarrow> ('p, 'm, 'y, 'i) remote_ref \<Rightarrow> 'm \<Rightarrow> cancel_token option \<Rightarrow> 'i
    \<Rightarrow> (actor_send_error + ('p, 'm, 'y) ask_task) \<times> 'i" where
  "rar_ask debug type_of type_name request_id r msg cancel s =
     (case rar_run_outbound_pipeline debug r (type_name msg) Ask hd_new msg s of
        (Inl e, _, s1) \<Rightarrow> (Inl e, s1)
      | (Inr PrDropped, _, s1) \<Rightarrow> (Inl (ActorSendError ''message dropped by outbound interceptor''), s1)
      | (Inr p, h, s1) \<Rightarrow>
          (case hm_get (rar_ask_entries r) (type_of msg) of
             None \<Rightarrow> (Inl (ActorSendError (''ask message type '' @ [CHR 0x27] @ type_name msg @ [CHR 0x27] @
                        '' not registered for remote send to '' @ actor_id_display (rar_id r))), s1)
           | Some entry \<Rightarrow>
               (case aen_serialize entry msg of
                  Inl e \<Rightarrow> (Inl (ActorSendError (''serialization failed: '' @ se_message e)), s1)
                | Inr (ty, body) \<Rightarrow>
                    (Inr \<lparr>at_send = \<lparr>st_delay = delay_of p, st_node = aid_node (rar_id r),
                       st_envelope = \<lparr>we_target = rar_id r, we_target_name = rar_name r, we_message_type = ty, we_send_mode = Ask,
                         we_headers = hd_to_wire h, we_body = body, we_request_id = Some request_id, we_version = None\<rparr>\<rparr>,
                       at_cancel = cancel, at_deserialize_reply = aen_deserialize_reply entry, at_headers = h,
                       at_message_type = type_name msg\<rparr>, s1))))"

definition rar_notify_interceptors ::
  "('p, 'm, 'y, 'i) remote_ref \<Rightarrow> string \<Rightarrow> 'p headers \<Rightarrow> 'y outcome \<Rightarrow> 'i \<Rightarrow> 'i" where
  "rar_notify_interceptors r message_type h outcome s =
     foldl (\<lambda>s i. oi_on_reply i (rar_context r message_type Ask) h outcome s) s (rar_outbound_interceptors r)"

text \<open>The end of an ask: \<open>None\<close> if the token fired first, else what the transport's \<^verbatim>\<open>send_request\<close> gave. \<open>reply_ok\<close> is the downcast to the
  reply type of the message.\<close>

definition rar_ask_finish ::
  "('p, 'm, 'y, 'i) remote_ref \<Rightarrow> ('y \<Rightarrow> bool) \<Rightarrow> ('p, 'm, 'y) ask_task \<Rightarrow> (transport_error + wire_envelope) option \<Rightarrow> 'i
    \<Rightarrow> (runtime_error + 'y) \<times> 'i" where
  "rar_ask_finish r reply_ok task answer s =
     (let failed = (\<lambda>error_msg. (Inl (RE_Send (ActorSendError error_msg)),
             rar_notify_interceptors r (at_message_type task) (at_headers task) (HandlerError (actor_error_internal error_msg)) s))
      in case answer of
           None \<Rightarrow> (Inl RE_Cancelled, s)
         | Some (Inl e) \<Rightarrow> failed (''remote ask failed: '' @ transport_error_display e)
         | Some (Inr reply_envelope) \<Rightarrow>
             (case at_deserialize_reply task (we_body reply_envelope) of
                Inl e \<Rightarrow> failed (''reply deserialization failed: '' @ se_message e)
              | Inr reply \<Rightarrow>
                  (if reply_ok reply
                   then (Inr reply, rar_notify_interceptors r (at_message_type task) (at_headers task) (AskSuccess reply) s)
                   else (Inl (RE_Send (ActorSendError ''reply type mismatch'')), s))))"

text \<open>The rest of the interface.\<close>

definition not_yet_implemented :: "string \<Rightarrow> actor_send_error" where
  "not_yet_implemented what = ActorSendError (''remote '' @ what @ '' not yet implemented '' @ [CHR 0xE2, CHR 0x80, CHR 0x94] @
     '' requires streaming transport support'')"

definition rar_expand :: "('p, 'm, 'y, 'i) remote_ref \<Rightarrow> actor_send_error + unit" where
  "rar_expand r = Inl (not_yet_implemented ''stream'')"

definition rar_reduce :: "('p, 'm, 'y, 'i) remote_ref \<Rightarrow> actor_send_error + unit" where
  "rar_reduce r = Inl (not_yet_implemented ''feed'')"

definition rar_transform :: "('p, 'm, 'y, 'i) remote_ref \<Rightarrow> actor_send_error + unit" where
  "rar_transform r = Inl (not_yet_implemented ''transform'')"

definition rar_is_alive :: "('p, 'm, 'y, 'i) remote_ref \<Rightarrow> bool" where
  "rar_is_alive r = True"

section \<open>References on the wire\<close>

datatype actor_ref_envelope = ActorRefEnvelope (are_actor_id: actor_id) (are_actor_name: string) (are_actor_type: string)

datatype actor_ref_type_mismatch = ActorRefTypeMismatch (arm_expected: string) (arm_actual: string)

definition actor_ref_type_mismatch_display :: "actor_ref_type_mismatch \<Rightarrow> string" where
  "actor_ref_type_mismatch_display e = ''ActorRef type mismatch: expected '' @ [CHR 0x27] @ arm_expected e @ [CHR 0x27] @ '', got '' @
     [CHR 0x27] @ arm_actual e @ [CHR 0x27]"

definition are_from_ref :: "('w, 'r, 'm, 'a, 's) actor_ref \<Rightarrow> string \<Rightarrow> 'r \<Rightarrow> actor_ref_envelope" where
  "are_from_ref R actor_type r = ActorRefEnvelope (ref_id R r) (ref_name R r) actor_type"

definition are_try_into_builder :: "actor_ref_envelope \<Rightarrow> string \<Rightarrow> actor_ref_type_mismatch + ('p, 'm, 'y, 'i) remote_ref" where
  "are_try_into_builder e expected =
     (if are_actor_type e \<noteq> expected then Inl (ActorRefTypeMismatch expected (are_actor_type e))
      else Inr (rab_new (are_actor_id e) (are_actor_name e)))"

definition are_into_builder_unchecked :: "actor_ref_envelope \<Rightarrow> ('p, 'm, 'y, 'i) remote_ref" where
  "are_into_builder_unchecked e = rab_new (are_actor_id e) (are_actor_name e)"

definition are_is_type :: "actor_ref_envelope \<Rightarrow> string \<Rightarrow> bool" where
  "are_is_type e actor_type \<longleftrightarrow> are_actor_type e = actor_type"

text \<open>A string is its UTF-8 bytes. A slice \<open>&s[..n]\<close> of a longer string panics unless a character starts at \<open>n\<close>: its byte is not a
  continuation byte.\<close>

definition is_continuation_byte :: "char \<Rightarrow> bool" where
  "is_continuation_byte c \<longleftrightarrow> 128 \<le> (of_char c :: nat) \<and> (of_char c :: nat) < 192"

definition str_prefix :: "nat \<Rightarrow> string \<Rightarrow> string option" where
  "str_prefix n s = (if length s = n \<or> n < length s \<and> \<not> is_continuation_byte (s ! n) then Some (take n s) else None)"

definition shorten :: "string \<Rightarrow> string option" where
  "shorten s = (if length s > 128 then str_prefix 128 s else Some s)"

definition actor_ref_envelope_display :: "actor_ref_envelope \<Rightarrow> string option" where
  "actor_ref_envelope_display e =
     (case shorten (are_actor_name e) of
        None \<Rightarrow> None
      | Some name \<Rightarrow>
          (case shorten (are_actor_type e) of
             None \<Rightarrow> None
           | Some atype \<Rightarrow> Some (''ActorRef('' @ actor_id_display (are_actor_id e) @ '', name='' @ name @ '', type='' @ atype @ '')'')))"

section \<open>Lemmas\<close>

text \<open>Of several delays the longest is kept.\<close>

lemma remote_delays_maximum:
  assumes "\<forall>i \<in> set is. \<forall>h s. \<exists>d h' s'. oi_on_send i ctx h msg s = (Delay d, h', s')"
  shows "\<exists>ds h' s'. length ds = length is \<and>
    rar_pipeline_from debug ctx is msg (Some d0) h s = (Inr (PrDelay (foldl max d0 ds)), h', s')"
  using assms
proof (induction "is" arbitrary: d0 h s)
  case (Cons i "is")
  obtain d h1 s1 where 1: "oi_on_send i ctx h msg s = (Delay d, h1, s1)" using Cons.prems by (metis list.set_intros(1))
  obtain ds h2 s2 where 2: "length ds = length is"
    "rar_pipeline_from debug ctx is msg (Some (max d0 d)) h1 s1 = (Inr (PrDelay (foldl max (max d0 d) ds)), h2, s2)"
    using Cons.IH [of "max d0 d" h1 s1] Cons.prems by auto
  have "(if d0 > d then d0 else d) = max d0 d" by auto
  then have "rar_pipeline_from debug ctx (i # is) msg (Some d0) h s = (Inr (PrDelay (foldl max d0 (d # ds))), h2, s2)"
    using 1 2(2) by simp
  then show ?case using 2(1) by (intro exI [of _ "d # ds"]) auto
qed auto

text \<open>The printed form of a reference cuts long names at byte 128 and panics if that is inside a character.\<close>

lemma ref_display_panics:
  "actor_ref_envelope_display (ActorRefEnvelope (ActorId (NodeId ''n'') 1) (replicate 127 (CHR ''a'') @ [CHR 0xC3, CHR 0xA9]) ''T'') = None"
  by code_simp

lemma rar_tell_task:
  assumes "rar_tell debug type_of type_name r msg s = (Inr (Some task), s')"
  obtains p h ser ty body where "rar_run_outbound_pipeline debug r (type_name msg) Tell hd_new msg s = (Inr p, h, s')"
    and "hm_get (rar_tell_serializers r) (type_of msg) = Some ser" and "ser msg = Inr (ty, body)"
    and "st_node task = aid_node (rar_id r)"
    and "st_envelope task = \<lparr>we_target = rar_id r, we_target_name = rar_name r, we_message_type = ty, we_send_mode = Tell,
      we_headers = hd_to_wire h, we_body = body, we_request_id = None, we_version = None\<rparr>"
  using assms by (auto simp: rar_tell_def split: prod.splits sum.splits pipeline_result.splits option.splits)

lemma rar_ask_task:
  assumes "rar_ask debug type_of type_name rid r msg cancel s = (Inr task, s')"
  obtains p h entry ty body where "rar_run_outbound_pipeline debug r (type_name msg) Ask hd_new msg s = (Inr p, h, s')"
    and "hm_get (rar_ask_entries r) (type_of msg) = Some entry" and "aen_serialize entry msg = Inr (ty, body)"
    and "st_node (at_send task) = aid_node (rar_id r)" and "at_deserialize_reply task = aen_deserialize_reply entry"
    and "st_envelope (at_send task) = \<lparr>we_target = rar_id r, we_target_name = rar_name r, we_message_type = ty, we_send_mode = Ask,
      we_headers = hd_to_wire h, we_body = body, we_request_id = Some rid, we_version = None\<rparr>"
  using assms by (auto simp: rar_ask_def split: prod.splits sum.splits pipeline_result.splits option.splits)

section \<open>Properties\<close>

text \<open>C20. A remote tell arrives as it was sent. For a message type registered with the JSON codec at the reference and in the type registry of the
  target node, the task of a tell that the interceptors let pass puts one envelope into the target's channel, addressed to the actor, with the wire form of the
  headers the interceptors made, and the body decodes to the message that was told.\<close>

theorem remote_tell_delivered:
  assumes law: "mpsc_lawful ch queued" and r: "r = rab_register_tell b (type_of msg) (type_name msg) downcast to_vec"
    and codec: "to_vec msg = Inr body" "from_slice body = Inr msg"
    and registry: "registry = tr_register_type from_slice registry0 (type_name msg)"
    and told: "rar_tell debug type_of type_name r msg s = (Inr (Some task), s')"
    and sent: "imt_send ch cs t (st_node task) (st_envelope task) = (Inr (), cs')"
  shows "\<exists>a env h p. hm_get (imt_routes t) (aid_node (rar_id b)) = Some a \<and> queued (cs_at cs' a) = queued (cs_at cs a) @ [env] \<and>
    receive_envelope_body env registry = Inr msg \<and> we_target env = rar_id b \<and> we_send_mode env = Tell \<and> we_headers env = hd_to_wire h \<and>
    rar_run_outbound_pipeline debug r (type_name msg) Tell hd_new msg s = (Inr p, h, s')"
proof -
  obtain p h ser ty body' where 1: "rar_run_outbound_pipeline debug r (type_name msg) Tell hd_new msg s = (Inr p, h, s')"
    "hm_get (rar_tell_serializers r) (type_of msg) = Some ser" "ser msg = Inr (ty, body')" "st_node task = aid_node (rar_id r)"
    "st_envelope task = \<lparr>we_target = rar_id r, we_target_name = rar_name r, we_message_type = ty, we_send_mode = Tell,
      we_headers = hd_to_wire h, we_body = body', we_request_id = None, we_version = None\<rparr>"
    by (rule rar_tell_task [OF told])
  have ty: "ty = type_name msg" "body' = body"
    using 1(2,3) codec(1) by (auto simp: r rab_register_tell_def rab_register_tell_with_def named_serializer_def json_serialize_typed_def split: if_splits)
  have ids: "rar_id r = rar_id b" by (simp add: r rab_register_tell_def rab_register_tell_with_def)
  obtain a where a: "hm_get (imt_routes t) (st_node task) = Some a" "queued (cs_at cs' a) = queued (cs_at cs a) @ [st_envelope task]"
    using imt_send_queues [OF law sent] by metis
  have "receive_envelope_body (st_envelope task) registry = Inr msg"
    using codec(2) by (simp add: 1(5) ty registry receive_envelope_body_def tr_deserialize_def tr_register_type_def)
  then show ?thesis using a 1(1,4,5) ids by auto
qed

text \<open>A byte as a message, its codec, a reference to it and a transport with a route to its node.\<close>

definition byte_codec :: "u8 \<Rightarrow> string + bytes" where "byte_codec n = Inr [n]"

definition byte_decode :: "bytes \<Rightarrow> string + u8" where "byte_decode b = (if length b = 1 then Inr (hd b) else Inl ''length'')"

definition far_away :: "(unit, u8, u8, unit) remote_ref" where
  "far_away = rab_new (ActorId (NodeId ''far'') 3) ''x''"

definition one_route :: imt where
  "one_route = (imt_new (NodeId ''near''))\<lparr>imt_routes := hm_insert (NodeId ''far'') 0 hm_empty\<rparr>"

definition one_channel :: "wire_envelope list_channel channels" where
  "one_channel = \<lparr>cs_next = 1, cs_at = (\<lambda>_. ListChannel [] 256 False)\<rparr>"

lemmas far_defs = far_away_def rab_new_def rab_register_tell_def rab_register_tell_with_def rab_register_ask_def rab_register_ask_with_def
  named_serializer_def json_serialize_typed_def byte_codec_def byte_decode_def rar_run_outbound_pipeline_def delay_of_def
  one_route_def one_channel_def imt_new_def imt_send_def imt_send_request_def list_mpsc_def

theorem remote_tell_delivered_witness:
  "\<exists>task cs. rar_tell (\<lambda>_. []) (\<lambda>_. 7) (\<lambda>_. ''u8'') (rab_register_tell far_away 7 ''u8'' (\<lambda>_. True) byte_codec) 42 () = (Inr (Some task), ()) \<and>
     imt_send list_mpsc one_channel one_route (st_node task) (st_envelope task) = (Inr (), cs) \<and>
     (\<exists>a env. lc_items (cs_at cs a) = lc_items (cs_at one_channel a) @ [env] \<and>
        receive_envelope_body env (tr_register_type byte_decode (tr_new :: (u8, unit) type_registry) ''u8'') = Inr 42)"
proof -
  let ?r = "rab_register_tell far_away 7 ''u8'' (\<lambda>_. True) byte_codec"
  obtain task where task: "rar_tell (\<lambda>_. []) (\<lambda>_. 7) (\<lambda>_. ''u8'') ?r 42 () = (Inr (Some task), ())" "st_node task = NodeId ''far''"
    by (simp add: rar_tell_def far_defs)
  obtain cs where cs: "imt_send list_mpsc one_channel one_route (st_node task) (st_envelope task) = (Inr (), cs)"
    by (simp add: task(2) far_defs)
  have codec: "byte_codec 42 = Inr [42]" "byte_decode [42] = Inr 42" by (simp_all add: byte_codec_def byte_decode_def)
  note law = remote_tell_delivered [where type_of = "\<lambda>_. 7" and type_name = "\<lambda>_. ''u8''" and msg = 42 and b = far_away
    and to_vec = byte_codec and from_slice = byte_decode and downcast = "\<lambda>_. True" and ?registry0.0 = "tr_new :: (u8, unit) type_registry"]
  from law [OF list_mpsc_lawful refl codec refl task(1) cs]
  show ?thesis using task(1) cs by blast
qed

text \<open>C14. A remote ask gets its reply. The request travels through the in-memory transport, the target node decodes the message that was asked and answers
  the request id with the encoded reply, and the caller's task ends with that reply after every interceptor has seen it.\<close>

theorem remote_ask_answered:
  assumes law: "mpsc_lawful ch queued" and r: "r = rab_register_ask b (type_of msg) (type_name msg) downcast to_vec reply_from_slice"
    and codec: "to_vec msg = Inr body" "from_slice body = Inr msg" "reply_from_slice reply_body = Inr reply" "reply_ok reply"
    and registry: "registry = tr_register_type from_slice registry0 (type_name msg)"
    and asked: "rar_ask debug type_of type_name rid r msg cancel s = (Inr task, s')"
    and t: "imt_abandoned t = []" and sent: "imt_send_request ch cs t (st_node (at_send task)) (st_envelope (at_send task)) = (Inr slot, cs', t')"
    and answer: "we_body answer = reply_body" "imt_complete_request show_id t' rid answer = (res, t2)"
  shows "\<exists>a env. hm_get (imt_routes t) (aid_node (rar_id b)) = Some a \<and> queued (cs_at cs' a) = queued (cs_at cs a) @ [env] \<and>
    receive_envelope_body env registry = Inr msg \<and> we_target env = rar_id b \<and> we_request_id env = Some rid \<and> res = Inr () \<and>
    rar_ask_finish r reply_ok task (imt_await_reply t2 slot) s' =
      (Inr reply, rar_notify_interceptors r (at_message_type task) (at_headers task) (AskSuccess reply) s')"
proof -
  obtain p h entry ty body' where "rar_run_outbound_pipeline debug r (type_name msg) Ask hd_new msg s = (Inr p, h, s')"
    and 1: "hm_get (rar_ask_entries r) (type_of msg) = Some entry" "aen_serialize entry msg = Inr (ty, body')"
    "st_node (at_send task) = aid_node (rar_id r)" "at_deserialize_reply task = aen_deserialize_reply entry"
    "st_envelope (at_send task) = \<lparr>we_target = rar_id r, we_target_name = rar_name r, we_message_type = ty, we_send_mode = Ask,
      we_headers = hd_to_wire h, we_body = body', we_request_id = Some rid, we_version = None\<rparr>"
    by (rule rar_ask_task [OF asked])
  have ty: "ty = type_name msg" "body' = body" and deser: "at_deserialize_reply task reply_body = Inr reply"
    using 1(1,2,4) codec(1,3) by (auto simp: r rab_register_ask_def rab_register_ask_with_def named_serializer_def json_serialize_typed_def split: if_splits)
  have ids: "rar_id r = rar_id b" by (simp add: r rab_register_ask_def rab_register_ask_with_def)
  have rid: "we_request_id (st_envelope (at_send task)) = Some rid" by (simp add: 1(5))
  obtain a where a: "hm_get (imt_routes t) (st_node (at_send task)) = Some a"
    "queued (cs_at cs' a) = queued (cs_at cs a) @ [st_envelope (at_send task)]"
    and fin: "res = Inr ()" "imt_await_reply t2 slot = Some (Inr answer)"
    using imt_request_completed [OF law t rid sent answer(2)] by metis
  have "receive_envelope_body (st_envelope (at_send task)) registry = Inr msg"
    using codec(2) by (simp add: 1(5) ty registry receive_envelope_body_def tr_deserialize_def tr_register_type_def)
  then show ?thesis using a 1(3,5) ids fin deser codec(4) answer(1) by (auto simp: rar_ask_finish_def Let_def)
qed

theorem remote_ask_answered_witness:
  "\<exists>task slot cs t2 s. rar_ask (\<lambda>_. []) (\<lambda>_. 7) (\<lambda>_. ''u8'') 99 (rab_register_ask far_away 7 ''u8'' (\<lambda>_. True) byte_codec byte_decode) 42 None () = (Inr task, ()) \<and>
     imt_await_reply t2 slot \<noteq> None \<and>
     rar_ask_finish (rab_register_ask far_away 7 ''u8'' (\<lambda>_. True) byte_codec byte_decode) (\<lambda>_. True) task (imt_await_reply t2 slot) () = (Inr 43, s)"
proof -
  let ?r = "rab_register_ask far_away 7 ''u8'' (\<lambda>_. True) byte_codec byte_decode"
  let ?answer = "\<lparr>we_target = ActorId (NodeId ''near'') 1, we_target_name = [], we_message_type = ''u8'', we_send_mode = Ask, we_headers = wh_new,
    we_body = [43], we_request_id = Some 99, we_version = None\<rparr>"
  obtain task where task: "rar_ask (\<lambda>_. []) (\<lambda>_. 7) (\<lambda>_. ''u8'') 99 ?r 42 None () = (Inr task, ())"
      "st_node (at_send task) = NodeId ''far''" "we_request_id (st_envelope (at_send task)) = Some 99"
    by (simp add: rar_ask_def far_defs)
  obtain slot cs t1 where sent: "imt_send_request list_mpsc one_channel one_route (st_node (at_send task)) (st_envelope (at_send task)) = (Inr slot, cs, t1)"
    by (simp add: task(2,3) far_defs Let_def)
  obtain res t2 where t2: "imt_complete_request (\<lambda>_. []) t1 99 ?answer = (res, t2)" by force
  have codec: "byte_codec 42 = Inr [42]" "byte_decode [42] = Inr 42" "byte_decode [43] = Inr 43" "(\<lambda>_ :: u8. True) 43"
    by (simp_all add: byte_codec_def byte_decode_def)
  have ab: "imt_abandoned one_route = []" and body: "we_body ?answer = [43]" by (simp_all add: one_route_def imt_new_def)
  note law = remote_ask_answered [where type_of = "\<lambda>_. 7" and type_name = "\<lambda>_. ''u8''" and msg = 42 and b = far_away
    and to_vec = byte_codec and reply_from_slice = byte_decode and from_slice = byte_decode and downcast = "\<lambda>_. True"
    and ?registry0.0 = "tr_new :: (u8, unit) type_registry"]
  note ask = law [OF list_mpsc_lawful refl codec refl task(1) ab sent body t2]
  then have "rar_ask_finish ?r (\<lambda>_. True) task (imt_await_reply t2 slot) () = (Inr 43, ())" by auto
  moreover from this have "imt_await_reply t2 slot \<noteq> None" by (auto simp: rar_ask_finish_def Let_def split: option.splits)
  ultimately show ?thesis using task(1) by blast
qed

end
