(* ===== verification/Float64.thy ===== *)
theory Float64
  imports Prelude "HOL-Library.Log_Nat" Complex_Main
begin

text \<open>
  Rust's \<^verbatim>\<open>f64\<close> as far as the program uses it: finite, non-negative values, as rational numbers with a significand of 53 bits. An operation
  computes the exact result and rounds it to the nearest representable number, ties to the even significand. The exponent is not bounded:
  the program's values (counts, seconds and their quotients) stay far from overflow and from the subnormal numbers.
\<close>

type_synonym f64 = rat

definition round_half_even :: "rat \<Rightarrow> int" where
  "round_half_even q = (let n = \<lfloor>q\<rfloor>; r = q - of_int n in
     if r < 1 / 2 then n else if 1 / 2 < r then n + 1 else if even n then n else n + 1)"

text \<open>The exponent for which the scaled significand lies between \<open>2 ^ 52\<close> and \<open>2 ^ 53\<close>.\<close>

definition f64_exponent :: "rat \<Rightarrow> int" where
  "f64_exponent q = (let (a, b) = quotient_of q; e = bitlen a - bitlen b - 53 in if 2 ^ 53 \<le> q / 2 powi e then e + 1 else e)"

definition f64_round :: "rat \<Rightarrow> f64" where
  "f64_round q = (if q = 0 then 0 else let e = f64_exponent q in of_int (round_half_even (q / 2 powi e)) * 2 powi e)"

definition f64_of_nat :: "nat \<Rightarrow> f64" where "f64_of_nat n = f64_round (of_nat n)"

definition f64_add :: "f64 \<Rightarrow> f64 \<Rightarrow> f64" where "f64_add x y = f64_round (x + y)"

definition f64_mul :: "f64 \<Rightarrow> f64 \<Rightarrow> f64" where "f64_mul x y = f64_round (x * y)"

definition f64_div :: "f64 \<Rightarrow> f64 \<Rightarrow> f64" where "f64_div x y = f64_round (x / y)"

definition f64_ceil_usize :: "f64 \<Rightarrow> nat" where "f64_ceil_usize x = nat \<lceil>x\<rceil>"

section \<open>Lemmas\<close>

lemma round_half_even_error: "\<bar>of_int (round_half_even q) - q\<bar> \<le> 1 / 2"
proof -
  have "of_int \<lfloor>q\<rfloor> \<le> q" "q < of_int \<lfloor>q\<rfloor> + 1" by linarith+
  then show ?thesis unfolding round_half_even_def Let_def by (auto simp: abs_le_iff)
qed

lemma round_half_even_le: "q \<le> of_int m \<Longrightarrow> round_half_even q \<le> m"
proof -
  assume q: "q \<le> of_int m"
  then have "\<lfloor>q\<rfloor> \<le> m" by linarith
  moreover have "\<lfloor>q\<rfloor> = m \<Longrightarrow> q = of_int m" using q by linarith
  ultimately show ?thesis unfolding round_half_even_def Let_def by fastforce
qed

lemma round_half_even_int [simp]: "round_half_even (of_int m) = m"
  by (simp add: round_half_even_def)

lemma bitlen_bounds_rat:
  fixes a :: int
  assumes "0 < a"
  shows "2 powi (bitlen a - 1) \<le> (of_int a :: rat)" and "(of_int a :: rat) < 2 * 2 powi (bitlen a - 1)"
proof -
  have b: "2 ^ nat (bitlen a - 1) \<le> a" "a < 2 ^ nat (bitlen a)" and pos: "0 < bitlen a"
    using bitlen_bounds [OF assms] assms by (auto simp: bitlen_eq_zero_iff intro: order_neq_le_trans bitlen_nonneg)
  have eq: "(2 :: rat) powi (bitlen a - 1) = of_int (2 ^ nat (bitlen a - 1))" using pos by (simp add: power_int_def)
  have "2 ^ nat (bitlen a) = (2 * 2 ^ nat (bitlen a - 1) :: int)"
    using pos by (simp flip: power_Suc add: Suc_nat_eq_nat_zadd1)
  then have "a < 2 * 2 ^ nat (bitlen a - 1)" using b(2) by simp
  then have "(of_int a :: rat) < of_int (2 * 2 ^ nat (bitlen a - 1))" by (simp only: of_int_less_iff)
  then show "(of_int a :: rat) < 2 * 2 powi (bitlen a - 1)" by (simp add: eq)
  show "2 powi (bitlen a - 1) \<le> (of_int a :: rat)" using b(1) unfolding eq by (simp only: of_int_le_iff)
qed

lemma f64_scaled_range:
  assumes "quotient_of q = (a, b)" "0 < q" "e = bitlen a - bitlen b - 53"
  shows "2 ^ 52 \<le> q / 2 powi e" and "q / 2 powi e < 2 ^ 54"
proof -
  define u v :: rat where "u = 2 powi (bitlen a - 1)" and "v = 2 powi (bitlen b - 1)"
  have b: "0 < b" and q: "q = of_int a / of_int b" using quotient_of_denom_pos [OF assms(1)] quotient_of_div [OF assms(1)] by simp_all
  then have a: "0 < a" using assms(2) by (simp add: zero_less_divide_iff)
  have bounds: "u \<le> of_int a" "of_int a < 2 * u" "v \<le> of_int b" "of_int b < 2 * v" and pos: "0 < u" "0 < v"
    using bitlen_bounds_rat [OF a] bitlen_bounds_rat [OF b] by (simp_all add: u_def v_def)
  have "e = (bitlen a - 1) - (bitlen b - 1) - 53" by (simp add: assms(3))
  then have e: "2 powi e = u / v / 2 ^ 53" by (simp add: u_def v_def power_int_diff)
  have "u * of_int b \<le> of_int a * (2 * v)" "of_int a * v \<le> 2 * u * of_int b"
    using bounds pos a b by (auto intro!: mult_mono)
  moreover have "of_int a * v < 2 * u * of_int b"
    using bounds pos a b by (intro mult_less_le_imp_less) auto
  ultimately show "2 ^ 52 \<le> q / 2 powi e" "q / 2 powi e < 2 ^ 54"
    using pos b by (simp_all add: e q field_simps)
qed

lemma f64_exponent_range:
  assumes q: "0 < q" shows "2 ^ 52 \<le> q / 2 powi f64_exponent q" and "q / 2 powi f64_exponent q < 2 ^ 53"
proof -
  obtain a b where ab: "quotient_of q = (a, b)" by fastforce
  define e where "e = bitlen a - bitlen b - 53"
  have r: "2 ^ 52 \<le> q / 2 powi e" "q / 2 powi e < 2 ^ 54" using f64_scaled_range [OF ab q e_def] by simp_all
  have x: "f64_exponent q = (if 2 ^ 53 \<le> q / 2 powi e then e + 1 else e)"
    by (simp add: f64_exponent_def ab e_def)
  have half: "q / 2 powi (e + 1) = q / 2 powi e / 2" by (simp add: power_int_add)
  show "2 ^ 52 \<le> q / 2 powi f64_exponent q" unfolding x using r(1) by (cases "2 ^ 53 \<le> q / 2 powi e") (simp_all add: half del: divide_divide_eq_left)
  show "q / 2 powi f64_exponent q < 2 ^ 53" unfolding x using r(2) by (cases "2 ^ 53 \<le> q / 2 powi e") (simp_all add: half del: divide_divide_eq_left)
qed

text \<open>Rounding is off by at most half a unit in the last of 53 places.\<close>

lemma f64_round_error:
  assumes q: "0 < q" shows "\<bar>f64_round q - q\<bar> \<le> q / 2 ^ 53"
proof -
  define s where "s = (2 :: rat) powi f64_exponent q"
  have s: "0 < s" "2 ^ 52 * s \<le> q" using f64_exponent_range(1) [OF q] by (simp_all add: s_def field_simps)
  have "\<bar>of_int (round_half_even (q / s)) - q / s\<bar> * s \<le> 1 / 2 * s"
    using round_half_even_error [of "q / s"] s(1) by (intro mult_right_mono) simp_all
  moreover have "\<bar>of_int (round_half_even (q / s)) - q / s\<bar> * s = \<bar>of_int (round_half_even (q / s)) * s - q\<bar>"
    using s(1) by (simp add: abs_mult_pos left_diff_distrib)
  ultimately show ?thesis using q s(2) by (simp add: f64_round_def s_def [symmetric] Let_def)
qed

lemma f64_exponent_small: "0 < q \<Longrightarrow> q < 2 ^ 53 \<Longrightarrow> f64_exponent q \<le> 0"
proof (rule ccontr)
  assume q: "0 < q" "q < 2 ^ 53" and "\<not> f64_exponent q \<le> 0"
  then have "(2 :: rat) powi 1 \<le> 2 powi f64_exponent q" by (intro power_int_increasing) auto
  then have "2 ^ 52 * 2 \<le> 2 ^ 52 * (2 :: rat) powi f64_exponent q" by simp
  moreover have "2 ^ 52 * 2 powi f64_exponent q \<le> q" using f64_exponent_range(1) [OF q(1)] by (simp add: field_simps)
  ultimately show False using q(2) by simp
qed

lemma f64_scaled_int: "e \<le> 0 \<Longrightarrow> of_nat n / (2 :: rat) powi e = of_int (int n * 2 ^ nat (- e))"
  by (simp add: power_int_def field_simps)

text \<open>Naturals below \<open>2 ^ 53\<close> are representable: rounding keeps them and does not jump over them.\<close>

lemma f64_of_nat_exact: "n < 2 ^ 53 \<Longrightarrow> f64_of_nat n = of_nat n"
proof (cases "n = 0")
  case False
  assume n: "n < 2 ^ 53"
  then have "(of_nat n :: rat) < of_nat (2 ^ 53)" by (simp only: of_nat_less_iff)
  then have e: "f64_exponent (of_nat n) \<le> 0" using False by (intro f64_exponent_small) simp_all
  have "(of_int (int n * 2 ^ nat (- f64_exponent (of_nat n))) :: rat) * 2 powi f64_exponent (of_nat n) = of_nat n"
    using f64_scaled_int [OF e, of n] by (metis nonzero_eq_divide_eq power_int_not_zero zero_neq_numeral)
  then show ?thesis using False by (simp only: f64_of_nat_def f64_round_def Let_def f64_scaled_int [OF e] round_half_even_int) simp
qed (simp add: f64_of_nat_def f64_round_def)

lemma f64_round_le_nat:
  assumes q: "0 < q" "q \<le> of_nat n" "n < 2 ^ 53" shows "f64_round q \<le> of_nat n"
proof -
  define e where "e = f64_exponent q"
  have "(of_nat n :: rat) < of_nat (2 ^ 53)" using q(3) by (simp only: of_nat_less_iff)
  then have e: "e \<le> 0" unfolding e_def using q by (intro f64_exponent_small) simp_all
  have "q / 2 powi e \<le> of_nat n / 2 powi e" using q(2) by (simp add: divide_right_mono)
  then have "round_half_even (q / 2 powi e) \<le> int n * 2 ^ nat (- e)" unfolding f64_scaled_int [OF e] by (rule round_half_even_le)
  then have "(of_int (round_half_even (q / 2 powi e)) :: rat) \<le> of_nat n / 2 powi e"
    unfolding f64_scaled_int [OF e] by (simp only: of_int_le_iff)
  then show ?thesis using q(1) by (simp add: f64_round_def e_def [symmetric] Let_def field_simps)
qed

end
