(* ===== verification/Metrics.thy ===== *)
theory Metrics
  imports Core_Types Float64 "HOL-Library.Sublist"
begin

text \<open>
  Per-actor metrics (\<^verbatim>\<open>metrics.rs\<close>): the bucketed handle, its snapshots, the registry and the inbound interceptor that records into a handle.
  A handle is shared (\<^verbatim>\<open>Arc\<close>) between the registry, interceptors and the workers of a pool, so the registry keeps the address of a
  handle in a store. The clock stands still during one step under the handle's mutex. A snapshot that panics (a sum of durations beyond the
  range of \<^verbatim>\<open>Duration\<close>, a division by zero) is \<open>None\<close>.

  The main result says which events a snapshot reports: a suffix of what was recorded, with everything of the last window less one
  bucket in it and nothing older than the window.
\<close>

section \<open>The handle\<close>

record metrics_bucket =
  mb_timestamp :: instant
  mb_message_count :: u64
  mb_error_count :: u64
  mb_latencies :: "duration list"
  mb_message_counts_by_type :: "(string, u64) hashmap"

definition mb_new :: "instant \<Rightarrow> metrics_bucket" where
  "mb_new timestamp = \<lparr>mb_timestamp = timestamp, mb_message_count = 0, mb_error_count = 0, mb_latencies = [], mb_message_counts_by_type = hm_empty\<rparr>"

record actor_metrics_handle =
  am_message_count :: u64
  am_error_count :: u64
  am_buckets :: "metrics_bucket list"
  am_window :: duration
  am_bucket_duration :: duration

fun hi_evict_expired :: "instant \<Rightarrow> duration \<Rightarrow> metrics_bucket list \<Rightarrow> metrics_bucket list" where
  "hi_evict_expired now window [] = []"
| "hi_evict_expired now window (front # buckets) =
     (if window < duration_since now (mb_timestamp front) then hi_evict_expired now window buckets else front # buckets)"

text \<open>The bucket for the current time is the last of the result.\<close>

definition hi_current_bucket :: "instant \<Rightarrow> duration \<Rightarrow> duration \<Rightarrow> metrics_bucket list \<Rightarrow> metrics_bucket list" where
  "hi_current_bucket now bucket_duration window buckets =
     (let buckets = hi_evict_expired now window buckets;
          need_new = (if buckets = [] then True else bucket_duration \<le> duration_since now (mb_timestamp (last buckets)))
      in if need_new then buckets @ [mb_new now] else buckets)"

definition hi_active_buckets :: "instant \<Rightarrow> duration \<Rightarrow> metrics_bucket list \<Rightarrow> metrics_bucket list" where
  "hi_active_buckets now window buckets = filter (\<lambda>b. duration_since now (mb_timestamp b) \<le> window) buckets"

definition hi_windowed_message_count :: "instant \<Rightarrow> duration \<Rightarrow> metrics_bucket list \<Rightarrow> u64" where
  "hi_windowed_message_count now window buckets = sum_list (map mb_message_count (hi_active_buckets now window buckets))"

definition hi_windowed_error_count :: "instant \<Rightarrow> duration \<Rightarrow> metrics_bucket list \<Rightarrow> u64" where
  "hi_windowed_error_count now window buckets = sum_list (map mb_error_count (hi_active_buckets now window buckets))"

definition am_new :: "duration \<Rightarrow> duration \<Rightarrow> actor_metrics_handle" where
  "am_new window bucket_duration = \<lparr>am_message_count = 0, am_error_count = 0, am_buckets = [], am_window = window, am_bucket_duration = bucket_duration\<rparr>"

text \<open>The mutable reference that \<^verbatim>\<open>current_bucket\<close> returns, as an update of the last bucket.\<close>

definition am_with_current :: "instant \<Rightarrow> (metrics_bucket \<Rightarrow> metrics_bucket) \<Rightarrow> actor_metrics_handle \<Rightarrow> actor_metrics_handle" where
  "am_with_current now f h =
     (let buckets = hi_current_bucket now (am_bucket_duration h) (am_window h) (am_buckets h)
      in h\<lparr>am_buckets := butlast buckets @ [f (last buckets)]\<rparr>)"

definition mb_add_message :: "string \<Rightarrow> metrics_bucket \<Rightarrow> metrics_bucket" where
  "mb_add_message message_type b = b\<lparr>mb_message_count := mb_message_count b + 1,
     mb_message_counts_by_type := hm_insert message_type (hm_entry message_type 0 (mb_message_counts_by_type b) + 1) (mb_message_counts_by_type b)\<rparr>"

definition am_record_message :: "instant \<Rightarrow> string \<Rightarrow> actor_metrics_handle \<Rightarrow> actor_metrics_handle" where
  "am_record_message now message_type h = am_with_current now (mb_add_message message_type) (h\<lparr>am_message_count := am_message_count h + 1\<rparr>)"

definition am_record_error :: "instant \<Rightarrow> actor_metrics_handle \<Rightarrow> actor_metrics_handle" where
  "am_record_error now h =
     am_with_current now (\<lambda>b. b\<lparr>mb_error_count := mb_error_count b + 1\<rparr>) (h\<lparr>am_error_count := am_error_count h + 1\<rparr>)"

definition am_record_latency :: "instant \<Rightarrow> duration \<Rightarrow> actor_metrics_handle \<Rightarrow> actor_metrics_handle" where
  "am_record_latency now latency h = am_with_current now (\<lambda>b. b\<lparr>mb_latencies := mb_latencies b @ [latency]\<rparr>) h"

section \<open>Snapshots\<close>

record actor_metrics_snapshot =
  as_message_count :: u64
  as_error_count :: u64
  as_message_rate :: f64
  as_error_rate :: f64
  as_message_counts_by_type :: "(string, u64) hashmap"
  as_avg_latency :: "duration option"
  as_max_latency :: "duration option"
  as_p99_latency :: "duration option"

definition nanos_per_sec :: nat where "nanos_per_sec = 1000000000"

definition as_secs_f64 :: "duration \<Rightarrow> f64" where
  "as_secs_f64 d = f64_add (f64_of_nat (d div nanos_per_sec)) (f64_div (f64_of_nat (d mod nanos_per_sec)) (f64_of_nat nanos_per_sec))"

definition rate :: "u64 \<Rightarrow> f64 \<Rightarrow> f64" where
  "rate n secs = (if 0 < secs then f64_div (f64_of_nat (unat n)) secs else 0)"

definition merge_counts :: "(string, u64) hashmap \<Rightarrow> (string, u64) hashmap \<Rightarrow> (string, u64) hashmap" where
  "merge_counts by_type counts = foldl (\<lambda>m (k, v). hm_insert k (hm_entry k 0 m + v) m) by_type counts"

definition avg_latency :: "duration list \<Rightarrow> duration option option" where
  "avg_latency latencies =
     (if latencies = [] then Some None
      else let total_time = sum_list latencies; n = unat (of_nat (length latencies) :: u32)
           in if total_time < 2 ^ 64 * nanos_per_sec \<and> n \<noteq> 0 then Some (Some (total_time div n)) else None)"

definition max_latency :: "duration list \<Rightarrow> duration option" where
  "max_latency latencies = (if latencies = [] then None else Some (Max (set latencies)))"

definition p99_index :: "nat \<Rightarrow> nat" where
  "p99_index n = f64_ceil_usize (f64_mul (f64_of_nat n) (f64_round (99 / 100))) - 1"

definition p99_latency :: "duration list \<Rightarrow> duration option" where
  "p99_latency latencies =
     (if latencies = [] then None else let sorted = sort latencies in Some (sorted ! min (p99_index (length sorted)) (length sorted - 1)))"

definition am_snapshot :: "instant \<Rightarrow> actor_metrics_handle \<Rightarrow> actor_metrics_snapshot option" where
  "am_snapshot now h =
     (let secs = as_secs_f64 (am_window h);
          active = hi_active_buckets now (am_window h) (am_buckets h);
          latencies = concat (map mb_latencies active)
      in case avg_latency latencies of
           None \<Rightarrow> None
         | Some avg \<Rightarrow> Some \<lparr>as_message_count = am_message_count h, as_error_count = am_error_count h,
             as_message_rate = rate (hi_windowed_message_count now (am_window h) (am_buckets h)) secs,
             as_error_rate = rate (hi_windowed_error_count now (am_window h) (am_buckets h)) secs,
             as_message_counts_by_type = foldl (\<lambda>m b. merge_counts m (mb_message_counts_by_type b)) hm_empty active,
             as_avg_latency = avg, as_max_latency = max_latency latencies, as_p99_latency = p99_latency latencies\<rparr>)"

section \<open>The registry\<close>

record metrics_registry =
  mr_handles :: "(actor_id, nat) hashmap"
  mr_store :: "nat \<Rightarrow> actor_metrics_handle"
  mr_next :: nat
  mr_window :: duration
  mr_bucket_duration :: duration
  mr_wire_dropped :: u64
  mr_wire_rejected :: u64
  mr_wire_delayed :: u64

definition mr_new :: "duration \<Rightarrow> duration \<Rightarrow> metrics_registry" where
  "mr_new window bucket_duration = \<lparr>mr_handles = hm_empty, mr_store = (\<lambda>_. am_new window bucket_duration), mr_next = 0, mr_window = window,
     mr_bucket_duration = bucket_duration, mr_wire_dropped = 0, mr_wire_rejected = 0, mr_wire_delayed = 0\<rparr>"

definition mr_default :: metrics_registry where
  "mr_default = mr_new (60 * nanos_per_sec) nanos_per_sec"

definition mr_create_handle :: "metrics_registry \<Rightarrow> nat \<times> metrics_registry" where
  "mr_create_handle r = (mr_next r, r\<lparr>mr_store := (mr_store r)(mr_next r := am_new (mr_window r) (mr_bucket_duration r)), mr_next := mr_next r + 1\<rparr>)"

definition mr_register_handle :: "actor_id \<Rightarrow> nat \<Rightarrow> metrics_registry \<Rightarrow> metrics_registry" where
  "mr_register_handle actor_id handle r = r\<lparr>mr_handles := hm_insert actor_id handle (mr_handles r)\<rparr>"

definition mr_register :: "actor_id \<Rightarrow> metrics_registry \<Rightarrow> nat \<times> metrics_registry" where
  "mr_register actor_id r = (case mr_create_handle r of (handle, r') \<Rightarrow> (handle, mr_register_handle actor_id handle r'))"

definition mr_unregister :: "actor_id \<Rightarrow> metrics_registry \<Rightarrow> metrics_registry" where
  "mr_unregister actor_id r = r\<lparr>mr_handles := hm_remove actor_id (mr_handles r)\<rparr>"

definition mr_get :: "metrics_registry \<Rightarrow> actor_id \<Rightarrow> nat option" where
  "mr_get r actor_id = hm_get (mr_handles r) actor_id"

definition mr_all :: "instant \<Rightarrow> metrics_registry \<Rightarrow> (actor_id \<times> actor_metrics_snapshot option) list" where
  "mr_all now r = map (\<lambda>(i, h). (i, am_snapshot now (mr_store r h))) (mr_handles r)"

definition mr_actor_count :: "metrics_registry \<Rightarrow> nat" where
  "mr_actor_count r = length (mr_handles r)"

definition mr_total_messages :: "metrics_registry \<Rightarrow> u64" where
  "mr_total_messages r = sum_list (map (\<lambda>h. am_message_count (mr_store r h)) (hm_values (mr_handles r)))"

definition mr_total_errors :: "metrics_registry \<Rightarrow> u64" where
  "mr_total_errors r = sum_list (map (\<lambda>h. am_error_count (mr_store r h)) (hm_values (mr_handles r)))"

record runtime_metrics =
  rm_actor_count :: nat
  rm_total_messages :: u64
  rm_total_errors :: u64
  rm_message_rate :: f64
  rm_error_rate :: f64
  rm_window :: duration
  rm_wire_dropped :: u64
  rm_wire_rejected :: u64
  rm_wire_delayed :: u64

definition mr_runtime_metrics :: "instant \<Rightarrow> metrics_registry \<Rightarrow> runtime_metrics" where
  "mr_runtime_metrics now r =
     (let handles = map (mr_store r) (hm_values (mr_handles r));
          windowed_messages = foldl (\<lambda>n h. n + hi_windowed_message_count now (am_window h) (am_buckets h)) 0 handles;
          windowed_errors = foldl (\<lambda>n h. n + hi_windowed_error_count now (am_window h) (am_buckets h)) 0 handles;
          secs = as_secs_f64 (mr_window r)
      in \<lparr>rm_actor_count = length (mr_handles r), rm_total_messages = mr_total_messages r, rm_total_errors = mr_total_errors r,
          rm_message_rate = rate windowed_messages secs, rm_error_rate = rate windowed_errors secs, rm_window = mr_window r,
          rm_wire_dropped = mr_wire_dropped r, rm_wire_rejected = mr_wire_rejected r, rm_wire_delayed = mr_wire_delayed r\<rparr>)"

definition mr_record_wire_dropped :: "metrics_registry \<Rightarrow> metrics_registry" where
  "mr_record_wire_dropped r = r\<lparr>mr_wire_dropped := mr_wire_dropped r + 1\<rparr>"

definition mr_record_wire_rejected :: "metrics_registry \<Rightarrow> metrics_registry" where
  "mr_record_wire_rejected r = r\<lparr>mr_wire_rejected := mr_wire_rejected r + 1\<rparr>"

definition mr_record_wire_delayed :: "metrics_registry \<Rightarrow> metrics_registry" where
  "mr_record_wire_delayed r = r\<lparr>mr_wire_delayed := mr_wire_delayed r + 1\<rparr>"

section \<open>The interceptor\<close>

text \<open>Both hooks act on the handle the interceptor holds; \<open>timestamp\<close> is the time in the runtime headers of the message.\<close>

definition mi_on_receive :: "instant \<Rightarrow> string \<Rightarrow> actor_metrics_handle \<Rightarrow> disposition \<times> actor_metrics_handle" where
  "mi_on_receive now message_type h = (Continue, am_record_message now message_type h)"

definition mi_on_complete :: "instant \<Rightarrow> instant \<Rightarrow> 'r outcome \<Rightarrow> actor_metrics_handle \<Rightarrow> actor_metrics_handle" where
  "mi_on_complete now timestamp outcome h =
     (let h = am_record_latency now (duration_since now timestamp) h in if is_handler_error outcome then am_record_error now h else h)"

section \<open>Recorded events\<close>

text \<open>What a handle is told, with the times, and the bucket as a summary of its events.\<close>

datatype metric_event = EvMessage string | EvError | EvLatency duration

fun ev_messages :: "metric_event list \<Rightarrow> string list" where
  "ev_messages [] = []"
| "ev_messages (EvMessage ty # es) = ty # ev_messages es"
| "ev_messages (_ # es) = ev_messages es"

fun ev_latencies :: "metric_event list \<Rightarrow> duration list" where
  "ev_latencies [] = []"
| "ev_latencies (EvLatency d # es) = d # ev_latencies es"
| "ev_latencies (_ # es) = ev_latencies es"

definition ev_errors :: "metric_event list \<Rightarrow> nat" where
  "ev_errors es = length (filter (\<lambda>e. e = EvError) es)"

fun am_record :: "actor_metrics_handle \<Rightarrow> instant \<times> metric_event \<Rightarrow> actor_metrics_handle" where
  "am_record h (now, EvMessage ty) = am_record_message now ty h"
| "am_record h (now, EvError) = am_record_error now h"
| "am_record h (now, EvLatency d) = am_record_latency now d h"

definition am_run :: "actor_metrics_handle \<Rightarrow> (instant \<times> metric_event) list \<Rightarrow> actor_metrics_handle" where
  "am_run h evs = foldl am_record h evs"

fun mb_apply :: "metrics_bucket \<Rightarrow> metric_event \<Rightarrow> metrics_bucket" where
  "mb_apply b (EvMessage ty) = mb_add_message ty b"
| "mb_apply b EvError = b\<lparr>mb_error_count := mb_error_count b + 1\<rparr>"
| "mb_apply b (EvLatency d) = b\<lparr>mb_latencies := mb_latencies b @ [d]\<rparr>"

definition summary :: "instant \<times> (instant \<times> metric_event) list \<Rightarrow> metrics_bucket" where
  "summary g = foldl mb_apply (mb_new (fst g)) (map snd (snd g))"

section \<open>Lemmas\<close>

lemma ev_messages_append [simp]: "ev_messages (es @ es') = ev_messages es @ ev_messages es'"
  by (induction es rule: ev_messages.induct) simp_all

lemma ev_latencies_append [simp]: "ev_latencies (es @ es') = ev_latencies es @ ev_latencies es'"
  by (induction es rule: ev_latencies.induct) simp_all

lemma ev_errors_simps [simp]: "ev_errors [] = 0" "ev_errors (es @ es') = ev_errors es + ev_errors es'"
  by (simp_all add: ev_errors_def)

lemma am_record_static [simp]:
  "am_window (am_record h te) = am_window h" "am_bucket_duration (am_record h te) = am_bucket_duration h"
  by (cases "(h, te)" rule: am_record.cases;
      simp add: am_record_message_def am_record_error_def am_record_latency_def am_with_current_def Let_def)+

lemma am_run_static [simp]: "am_window (am_run h evs) = am_window h" "am_bucket_duration (am_run h evs) = am_bucket_duration h"
  unfolding am_run_def by (induction evs arbitrary: h) simp_all

lemma am_record_counts:
  "am_message_count (am_record h te) = am_message_count h + of_nat (length (ev_messages [snd te]))"
  "am_error_count (am_record h te) = am_error_count h + of_nat (ev_errors [snd te])"
  by (cases "(h, te)" rule: am_record.cases;
      simp add: am_record_message_def am_record_error_def am_record_latency_def am_with_current_def Let_def ev_errors_def)+

lemma am_run_counts:
  "am_message_count (am_run h evs) = am_message_count h + of_nat (length (ev_messages (map snd evs)))"
  "am_error_count (am_run h evs) = am_error_count h + of_nat (ev_errors (map snd evs))"
  unfolding am_run_def by (induction evs rule: rev_induct) (simp_all add: am_record_counts)

lemma am_record_buckets:
  "am_buckets (am_record h (now, e)) =
     (let buckets = hi_current_bucket now (am_bucket_duration h) (am_window h) (am_buckets h) in butlast buckets @ [mb_apply (last buckets) e])"
  by (cases e) (simp_all add: am_record_message_def am_record_error_def am_record_latency_def am_with_current_def Let_def)

lemma mb_timestamp_apply [simp]: "mb_timestamp (foldl mb_apply b es) = mb_timestamp b"
proof (induction es arbitrary: b)
  case (Cons e es)
  then show ?case by (cases e) (simp_all add: mb_add_message_def)
qed simp

lemma mb_timestamp_summary [simp]: "mb_timestamp (summary g) = fst g"
  by (simp add: summary_def mb_new_def)

lemma summary_snoc: "summary (s, es @ [(t, e)]) = mb_apply (summary (s, es)) e"
  by (simp add: summary_def)

lemma mb_apply_fields:
  "mb_message_count (foldl mb_apply b es) = mb_message_count b + of_nat (length (ev_messages es))"
  "mb_error_count (foldl mb_apply b es) = mb_error_count b + of_nat (ev_errors es)"
  "mb_latencies (foldl mb_apply b es) = mb_latencies b @ ev_latencies es"
  by (induction es arbitrary: b rule: ev_messages.induct; simp add: mb_add_message_def ev_errors_def)+

lemma hm_entry_simps [simp]: "hm_entry k d hm_empty = d" "hm_entry k d (hm_insert k' v m) = (if k = k' then v else hm_entry k d m)"
  by (simp_all add: hm_entry_def)

lemma mb_apply_by_type:
  "hm_entry ty 0 (mb_message_counts_by_type (foldl mb_apply b es)) =
     hm_entry ty 0 (mb_message_counts_by_type b) + of_nat (count_list (ev_messages es) ty)"
  by (induction es arbitrary: b rule: ev_messages.induct) (simp_all add: mb_add_message_def)

lemma mb_apply_wf: "hm_wf (mb_message_counts_by_type b) \<Longrightarrow> hm_wf (mb_message_counts_by_type (foldl mb_apply b es))"
  by (induction es arbitrary: b rule: ev_messages.induct) (simp_all add: mb_add_message_def hm_wf_intros)

lemma summary_fields:
  "mb_message_count (summary g) = of_nat (length (ev_messages (map snd (snd g))))"
  "mb_error_count (summary g) = of_nat (ev_errors (map snd (snd g)))"
  "mb_latencies (summary g) = ev_latencies (map snd (snd g))"
  "hm_entry ty 0 (mb_message_counts_by_type (summary g)) = of_nat (count_list (ev_messages (map snd (snd g))) ty)"
  "hm_wf (mb_message_counts_by_type (summary g))"
  by (simp_all add: summary_def mb_apply_fields mb_apply_by_type mb_apply_wf mb_new_def hm_wf_intros)

lemma merge_counts_entry: "hm_wf c \<Longrightarrow> hm_entry k 0 (merge_counts m c) = hm_entry k 0 m + hm_entry k 0 c"
proof (induction c arbitrary: m)
  case Nil
  then show ?case by (simp add: merge_counts_def hm_entry_def hm_get_def)
next
  case (Cons x c)
  obtain k' v where x: "x = (k', v)" by force
  have wf: "hm_wf c" and k': "k' \<notin> fst ` set c" using Cons.prems by (simp_all add: hm_wf_def x)
  have "hm_entry k 0 (merge_counts m (x # c)) = hm_entry k 0 (hm_insert k' (hm_entry k' 0 m + v) m) + hm_entry k 0 c"
    using Cons.IH [OF wf] by (simp add: merge_counts_def x)
  moreover have "k' = k \<Longrightarrow> hm_entry k 0 c = 0" using k' map_of_eq_None_iff [of c k] by (simp add: hm_entry_def hm_get_def)
  moreover have "hm_entry k 0 (x # c) = (if k' = k then v else hm_entry k 0 c)" by (simp add: x hm_entry_def hm_get_def)
  ultimately show ?case by (simp split: if_splits)
qed

text \<open>The figures of a list of summaries are the figures of all their events.\<close>

abbreviation events_of :: "(instant \<times> (instant \<times> metric_event) list) list \<Rightarrow> metric_event list" where
  "events_of gs \<equiv> map snd (concat (map snd gs))"

lemma summaries_total:
  "sum_list (map mb_message_count (map summary gs)) = of_nat (length (ev_messages (events_of gs)))"
  "sum_list (map mb_error_count (map summary gs)) = of_nat (ev_errors (events_of gs))"
  "concat (map mb_latencies (map summary gs)) = ev_latencies (events_of gs)"
  by (induction gs) (simp_all add: summary_fields ev_errors_def)

lemma summaries_by_type:
  "hm_entry ty 0 (foldl (\<lambda>m b. merge_counts m (mb_message_counts_by_type b)) m (map summary gs)) =
     hm_entry ty 0 m + of_nat (count_list (ev_messages (events_of gs)) ty)"
  by (induction gs arbitrary: m) (simp_all add: merge_counts_entry summary_fields)

section \<open>Simulation\<close>

text \<open>The buckets summarise the youngest events: each event is in the bucket that was current when it was recorded, and the events of evicted
  buckets are a prefix of what was recorded.\<close>

definition in_bucket :: "duration \<Rightarrow> duration \<Rightarrow> instant \<Rightarrow> instant \<Rightarrow> bool" where
  "in_bucket w bd s t \<longleftrightarrow> s \<le> t \<and> t - s \<le> w \<and> (t - s < bd \<or> s = t)"

definition tracks ::
  "duration \<Rightarrow> duration \<Rightarrow> metrics_bucket list \<Rightarrow> (instant \<times> metric_event) list \<Rightarrow> instant \<Rightarrow> bool" where
  "tracks w bd buckets evs now \<longleftrightarrow> (\<exists>old gs. evs = old @ concat (map snd gs) \<and> buckets = map summary gs \<and> sorted (map fst gs) \<and>
     (\<forall>g \<in> set gs. fst g \<le> now \<and> (\<forall>te \<in> set (snd g). in_bucket w bd (fst g) (fst te))) \<and>
     (\<forall>te \<in> set old. \<exists>s. in_bucket w bd s (fst te) \<and> w < now - s))"

lemma evict_summaries: "hi_evict_expired now w (map summary gs) = map summary (dropWhile (\<lambda>g. w < now - fst g) gs)"
  by (induction gs) (simp_all add: duration_since_def)

lemma active_summaries: "hi_active_buckets now w (map summary gs) = map summary (filter (\<lambda>g. now - fst g \<le> w) gs)"
  by (induction gs) (simp_all add: hi_active_buckets_def duration_since_def)

lemma sorted_dropWhile_filter:
  "sorted (map fst gs) \<Longrightarrow> dropWhile (\<lambda>g. (w :: nat) < now - fst g) gs = filter (\<lambda>g. now - fst g \<le> w) gs"
proof (induction gs)
  case (Cons g gs)
  then show ?case by (cases "w < now - fst g") (auto intro!: filter_True [symmetric])
qed simp

lemma tracks_evict:
  assumes "tracks w bd buckets evs before" "before \<le> now"
  shows "tracks w bd (hi_evict_expired now w buckets) evs now" and "hi_active_buckets now w buckets = hi_evict_expired now w buckets"
    and "\<forall>b \<in> set (hi_evict_expired now w buckets). now - mb_timestamp b \<le> w"
proof -
  obtain old gs where evs: "evs = old @ concat (map snd gs)" and buckets: "buckets = map summary gs" and sorted: "sorted (map fst gs)"
    and gs: "\<forall>g \<in> set gs. fst g \<le> before \<and> (\<forall>te \<in> set (snd g). in_bucket w bd (fst g) (fst te))"
    and old: "\<forall>te \<in> set old. \<exists>s. in_bucket w bd s (fst te) \<and> w < before - s"
    using assms(1) unfolding tracks_def by blast
  define gone kept where "gone = takeWhile (\<lambda>g. w < now - fst g) gs" and "kept = dropWhile (\<lambda>g. w < now - fst g) gs"
  have split: "gs = gone @ kept" by (simp add: gone_def kept_def)
  have evict: "hi_evict_expired now w buckets = map summary kept" by (simp add: buckets evict_summaries kept_def)
  have kept: "kept = filter (\<lambda>g. now - fst g \<le> w) gs" using sorted by (simp add: kept_def sorted_dropWhile_filter)
  show "hi_active_buckets now w buckets = hi_evict_expired now w buckets" using evict by (simp add: kept buckets active_summaries)
  show "\<forall>b \<in> set (hi_evict_expired now w buckets). now - mb_timestamp b \<le> w" by (simp add: evict kept)
  have gone: "g \<in> set gone \<Longrightarrow> w < now - fst g" for g unfolding gone_def by (rule set_takeWhileD [THEN conjunct2])
  have "\<exists>s. in_bucket w bd s (fst te) \<and> w < now - s" if te: "te \<in> set (old @ concat (map snd gone))" for te
  proof (cases "te \<in> set old")
    case True
    then obtain s where "in_bucket w bd s (fst te)" "w < before - s" using old by blast
    then show ?thesis using assms(2) by (intro exI [of _ s]) simp
  next
    case False
    then obtain g where "g \<in> set gone" "te \<in> set (snd g)" using te by auto
    then show ?thesis using gone gs split by (intro exI [of _ "fst g"]) auto
  qed
  moreover have "sorted (map fst kept)" using sorted unfolding split by (simp add: sorted_append)
  moreover have "\<forall>g \<in> set kept. fst g \<le> now \<and> (\<forall>te \<in> set (snd g). in_bucket w bd (fst g) (fst te))"
    using gs assms(2) split by (metis Un_iff le_trans set_append)
  ultimately show "tracks w bd (hi_evict_expired now w buckets) evs now"
    unfolding tracks_def by (intro exI [of _ "old @ concat (map snd gone)"] exI [of _ kept]) (simp add: evict evs split)
qed

lemma tracks_record:
  assumes "tracks w bd buckets evs before" "before \<le> now" "buckets' = hi_current_bucket now bd w buckets"
  shows "tracks w bd (butlast buckets' @ [mb_apply (last buckets') e]) (evs @ [(now, e)]) now"
proof -
  obtain old gs where evs: "evs = old @ concat (map snd gs)" and buckets: "hi_evict_expired now w buckets = map summary gs" and sorted: "sorted (map fst gs)"
    and gs: "\<forall>g \<in> set gs. fst g \<le> now \<and> (\<forall>te \<in> set (snd g). in_bucket w bd (fst g) (fst te))"
    and old: "\<forall>te \<in> set old. \<exists>s. in_bucket w bd s (fst te) \<and> w < now - s"
    using tracks_evict(1) [OF assms(1,2)] unfolding tracks_def by blast
  have young: "\<forall>g \<in> set gs. now - fst g \<le> w" using tracks_evict(3) [OF assms(1,2)] by (simp add: buckets)
  show ?thesis
  proof (cases "gs = [] \<or> bd \<le> now - fst (last gs)")
    case True
    then have "buckets' = map summary gs @ [mb_new now]"
      by (auto simp: assms(3) hi_current_bucket_def buckets Let_def duration_since_def last_map)
    then have "butlast buckets' @ [mb_apply (last buckets') e] = map summary (gs @ [(now, [(now, e)])])" by (simp add: summary_def)
    then show ?thesis using sorted gs old unfolding tracks_def
      by (intro exI [of _ old] exI [of _ "gs @ [(now, [(now, e)])]"]) (auto simp: evs sorted_append in_bucket_def)
  next
    case False
    then obtain gs' s es where snoc: "gs = gs' @ [(s, es)]" by (metis rev_exhaust surj_pair)
    have "now - s < bd" using False by (simp add: snoc)
    moreover have "s \<le> now" "now - s \<le> w" using gs young by (simp_all add: snoc)
    ultimately have now: "in_bucket w bd s now" by (simp add: in_bucket_def)
    have "buckets' = map summary gs" using False by (auto simp: assms(3) hi_current_bucket_def buckets Let_def duration_since_def last_map)
    then have "butlast buckets' @ [mb_apply (last buckets') e] = map summary (gs' @ [(s, es @ [(now, e)])])"
      by (simp add: snoc summary_snoc)
    then show ?thesis using sorted gs old now unfolding tracks_def
      by (intro exI [of _ old] exI [of _ "gs' @ [(s, es @ [(now, e)])]"]) (auto simp: evs snoc sorted_append)
  qed
qed

lemma tracks_run:
  assumes "sorted (map fst evs)" "\<forall>te \<in> set evs. fst te \<le> now"
  shows "tracks w bd (am_buckets (am_run (am_new w bd) evs)) evs (if evs = [] then 0 else fst (last evs))"
  using assms
proof (induction evs rule: rev_induct)
  case Nil
  show ?case unfolding tracks_def by (intro exI [of _ "[]"]) (simp add: am_run_def am_new_def)
next
  case (snoc te evs)
  obtain t e where te: "te = (t, e)" by force
  let ?h = "am_run (am_new w bd) evs"
  have "(if evs = [] then 0 else fst (last evs)) \<le> t" using snoc.prems(1) by (simp add: te sorted_append)
  moreover have "tracks w bd (am_buckets ?h) evs (if evs = [] then 0 else fst (last evs))" using snoc by (simp add: sorted_append)
  ultimately have "tracks w bd (am_buckets (am_record ?h te)) (evs @ [te]) t"
    using tracks_record [OF _ _ refl, of w bd "am_buckets ?h" evs] by (simp add: te am_record_buckets Let_def am_new_def)
  then show ?case by (simp add: am_run_def te)
qed

text \<open>The position of the nearest rank, computed with rounded arithmetic: the literal 0.99 is a little less than 99/100, and neither
  the product nor its rounding crosses an integer.\<close>

lemma f64_099: "f64_round (99 / 100) = 8917127262193582 / 2 ^ 53"
  by code_simp

lemma p99_index_rank:
  assumes "0 < n" "n < 2 ^ 45" shows "p99_index n = (99 * n + 99) div 100 - 1"
proof -
  define c where "c = (99 * n + 99) div 100"
  have c: "99 * n \<le> 100 * c" "100 * c \<le> 99 * n + 99" "c < 2 ^ 53" using assms by (auto simp: c_def)
  define q where "q = of_nat n * (8917127262193582 / 2 ^ 53 :: rat)"
  have cr: "99 * (of_nat n :: rat) \<le> 100 * of_nat c" "100 * (of_nat c :: rat) \<le> 99 * of_nat n + 99" "(of_nat n :: rat) < 35184372088832" "0 < (of_nat n :: rat)"
    using c assms by (simp_all flip: of_nat_mult of_nat_add of_nat_le_iff of_nat_less_iff)
  have q: "0 < q" "q \<le> of_nat c" using cr by (simp_all add: q_def)
  have "\<bar>f64_round q - q\<bar> \<le> q / 2 ^ 53" by (rule f64_round_error [OF q(1)])
  then have "q - q / 2 ^ 53 \<le> f64_round q" by linarith
  moreover have "of_nat c - 1 < q - q / 2 ^ 53" using cr unfolding q_def by simp
  ultimately have "of_nat c - 1 < f64_round q" by linarith
  moreover have "f64_round q \<le> of_nat c" by (rule f64_round_le_nat [OF q c(3)])
  ultimately have "\<lceil>f64_round q\<rceil> = int c" by (simp add: ceiling_eq_iff)
  moreover have "f64_of_nat n = of_nat n" using assms(2) by (intro f64_of_nat_exact) simp
  ultimately show ?thesis by (simp add: p99_index_def f64_mul_def f64_099 f64_ceil_usize_def q_def c_def)
qed

lemma rank_index:
  assumes "0 < n" shows "(99 * n + 99) div 100 - 1 < n" "99 * n \<le> 100 * Suc ((99 * n + 99) div 100 - 1)" "100 * ((99 * n + 99) div 100 - 1) < 99 * (n :: nat)"
proof -
  define c where "c = (99 * n + 99) div 100"
  have b: "99 * n \<le> 100 * c" "100 * c \<le> 99 * n + 99" by (auto simp: c_def)
  then obtain k where "c = Suc k" using assms by (cases c) auto
  with b show "(99 * n + 99) div 100 - 1 < n" "99 * n \<le> 100 * Suc ((99 * n + 99) div 100 - 1)" "100 * ((99 * n + 99) div 100 - 1) < 99 * n"
    unfolding c_def [symmetric] by simp_all
qed

lemma sort_nth_rank:
  fixes xs :: "'a :: linorder list"
  assumes "i < length xs"
  shows "i < length (filter (\<lambda>y. y \<le> sort xs ! i) xs)" and "length (filter (\<lambda>y. y < sort xs ! i) xs) \<le> i"
proof -
  let ?s = "sort xs"
  have len: "length (filter P xs) = length (filter P ?s)" for P by (metis mset_filter mset_sort size_mset)
  have split: "?s = take (Suc i) ?s @ drop (Suc i) ?s" by simp
  have le: "j \<le> i \<Longrightarrow> ?s ! j \<le> ?s ! i" for j using assms by (intro sorted_nth_mono) simp_all
  have "filter (\<lambda>y. y \<le> ?s ! i) (take (Suc i) ?s) = take (Suc i) ?s"
    using assms le by (auto simp: filter_id_conv in_set_conv_nth)
  then have "Suc i \<le> length (filter (\<lambda>y. y \<le> ?s ! i) ?s)"
    using assms by (subst split) (simp del: append_take_drop_id)
  then show "i < length (filter (\<lambda>y. y \<le> ?s ! i) xs)" by (simp add: len)
  have "?s ! i \<le> ?s ! j" if "i \<le> j" "j < length ?s" for j using that by (intro sorted_nth_mono) simp_all
  then have "filter (\<lambda>y. y < ?s ! i) (drop i ?s) = []" by (auto simp: filter_empty_conv in_set_conv_nth not_less)
  then have "length (filter (\<lambda>y. y < ?s ! i) (take i ?s @ drop i ?s)) \<le> i"
    unfolding filter_append by (simp add: le_trans [OF length_filter_le])
  then show "length (filter (\<lambda>y. y < ?s ! i) xs) \<le> i" by (simp add: len)
qed

section \<open>Properties\<close>

text \<open>C19. What a snapshot reports. For any sequence of recordings at non-decreasing times, a later snapshot summarises a suffix of the
  sequence: all its events are at most a window old, and every event left out is older than the window less one bucket. The rates, the
  counts by message type and the latency figures are exactly those of that suffix; the two counters count everything ever recorded.\<close>

theorem metrics_snapshot_window:
  assumes times: "sorted (map fst evs)" "\<forall>te \<in> set evs. fst te \<le> now" and snap: "am_snapshot now (am_run (am_new w bd) evs) = Some s"
  shows "\<exists>left_out kept. evs = left_out @ kept \<and> (\<forall>te \<in> set kept. now - fst te \<le> w) \<and> (\<forall>te \<in> set left_out. w - bd < now - fst te) \<and>
    as_message_count s = of_nat (length (ev_messages (map snd evs))) \<and> as_error_count s = of_nat (ev_errors (map snd evs)) \<and>
    as_message_rate s = rate (of_nat (length (ev_messages (map snd kept)))) (as_secs_f64 w) \<and>
    as_error_rate s = rate (of_nat (ev_errors (map snd kept))) (as_secs_f64 w) \<and>
    (\<forall>ty. hm_entry ty 0 (as_message_counts_by_type s) = of_nat (count_list (ev_messages (map snd kept)) ty)) \<and>
    Some (as_avg_latency s) = avg_latency (ev_latencies (map snd kept)) \<and> as_max_latency s = max_latency (ev_latencies (map snd kept)) \<and>
    as_p99_latency s = p99_latency (ev_latencies (map snd kept))"
proof -
  let ?h = "am_run (am_new w bd) evs"
  have "(if evs = [] then 0 else fst (last evs)) \<le> now" using times(2) by simp
  note tr = tracks_evict [OF tracks_run [OF times, of w bd] this]
  obtain old gs where evs: "evs = old @ concat (map snd gs)" and buckets: "hi_active_buckets now w (am_buckets ?h) = map summary gs"
    and gs: "\<forall>g \<in> set gs. fst g \<le> now \<and> (\<forall>te \<in> set (snd g). in_bucket w bd (fst g) (fst te))"
    and old: "\<forall>te \<in> set old. \<exists>s. in_bucket w bd s (fst te) \<and> w < now - s"
    using tr(1) unfolding tr(2) [symmetric] tracks_def by blast
  have young: "\<forall>g \<in> set gs. now - fst g \<le> w" using tr(3) by (simp add: tr(2) [symmetric] buckets)
  have w: "am_window (am_new w bd) = w" by (simp add: am_new_def)
  let ?kept = "concat (map snd gs)"
  have "\<forall>te \<in> set ?kept. now - fst te \<le> w" using gs young by (fastforce simp: in_bucket_def)
  moreover have "\<forall>te \<in> set old. w - bd < now - fst te" using old by (fastforce simp: in_bucket_def)
  moreover have "as_message_count s = of_nat (length (ev_messages (map snd evs)))" "as_error_count s = of_nat (ev_errors (map snd evs))"
    using snap by (auto simp: am_snapshot_def Let_def am_run_counts am_new_def split: option.splits)
  moreover have "as_message_rate s = rate (of_nat (length (ev_messages (map snd ?kept)))) (as_secs_f64 w)"
    "as_error_rate s = rate (of_nat (ev_errors (map snd ?kept))) (as_secs_f64 w)"
    "as_message_counts_by_type s = foldl (\<lambda>m b. merge_counts m (mb_message_counts_by_type b)) hm_empty (map summary gs)"
    "Some (as_avg_latency s) = avg_latency (ev_latencies (map snd ?kept))" "as_max_latency s = max_latency (ev_latencies (map snd ?kept))"
    "as_p99_latency s = p99_latency (ev_latencies (map snd ?kept))"
    using snap by (auto simp: am_snapshot_def Let_def w hi_windowed_message_count_def hi_windowed_error_count_def buckets
      summaries_total [unfolded map_map] summaries_total split: option.splits)
  ultimately show ?thesis using evs by (intro exI [of _ old] exI [of _ ?kept]) (simp add: summaries_by_type)
qed

theorem metrics_snapshot_window_witness:
  "\<exists>s left_out kept. am_snapshot 12 (am_run (am_new 10 2) [(0, EvMessage ''a''), (1, EvLatency 5), (11, EvMessage ''b'')]) = Some s \<and>
     [(0 :: instant, EvMessage ''a''), (1, EvLatency 5), (11, EvMessage ''b'')] = left_out @ kept \<and> (\<forall>te \<in> set kept. 12 - fst te \<le> 10) \<and>
     as_message_count s = 2 \<and> as_p99_latency s = p99_latency (ev_latencies (map snd kept))"
proof -
  let ?evs = "[(0 :: instant, EvMessage ''a''), (1, EvLatency 5), (11, EvMessage ''b'')]"
  have "am_snapshot 12 (am_run (am_new 10 2) ?evs) \<noteq> None"
    by (simp add: am_snapshot_def avg_latency_def am_run_def am_new_def am_record_message_def am_record_latency_def am_with_current_def
      hi_current_bucket_def hi_active_buckets_def duration_since_def mb_new_def mb_add_message_def nanos_per_sec_def Let_def)
  then obtain s where s: "am_snapshot 12 (am_run (am_new 10 2) ?evs) = Some s" by blast
  have "sorted (map fst ?evs)" "\<forall>te \<in> set ?evs. fst te \<le> 12" by simp_all
  from metrics_snapshot_window [OF this s] obtain left_out kept where "?evs = left_out @ kept" "\<forall>te \<in> set kept. 12 - fst te \<le> 10"
    "as_message_count s = of_nat (length (ev_messages (map snd ?evs)))" "as_p99_latency s = p99_latency (ev_latencies (map snd kept))" by blast
  moreover from this(3) have "as_message_count s = 2" by simp
  ultimately show ?thesis using s by blast
qed

text \<open>C38. The reported 99th percentile is the nearest rank. For fewer than \<open>2 ^ 45\<close> samples the index computed in floating point is
  \<open>\<lceil>0.99 n\<rceil> - 1\<close>: the reported latency is one of the samples, at least 99 per cent of the samples are not above it, and fewer than
  99 per cent are below it.\<close>

theorem p99_nearest_rank:
  assumes "latencies \<noteq> []" "length latencies < 2 ^ 45"
  shows "\<exists>x \<in> set latencies. p99_latency latencies = Some x \<and> x = sort latencies ! ((99 * length latencies + 99) div 100 - 1) \<and>
    99 * length latencies \<le> 100 * length (filter (\<lambda>y. y \<le> x) latencies) \<and> 100 * length (filter (\<lambda>y. y < x) latencies) < 99 * length latencies"
proof -
  let ?n = "length latencies" and ?i = "(99 * length latencies + 99) div 100 - 1"
  have n: "0 < ?n" using assms(1) by simp
  then have i: "?i < ?n" "99 * ?n \<le> 100 * Suc ?i" "100 * ?i < 99 * ?n" using rank_index [of ?n] by simp_all
  have "p99_latency latencies = Some (sort latencies ! ?i)"
    using assms i(1) n by (simp add: p99_latency_def Let_def p99_index_rank min_def)
  moreover have "sort latencies ! ?i \<in> set latencies" using i(1) by (metis length_sort nth_mem set_sort)
  ultimately show ?thesis using sort_nth_rank [OF i(1)] i by (intro bexI [of _ "sort latencies ! ?i"]) auto
qed

theorem p99_nearest_rank_witness:
  "p99_latency [3, 1, 2] = Some 3 \<and> 99 * 3 \<le> 100 * length (filter (\<lambda>y. y \<le> 3) [3, 1, 2 :: duration])"
  using p99_nearest_rank [of "[3, 1, 2]"] by auto

end
