(* ===== verification/Kameo_Node.thy ===== *)
theory Kameo_Node
  imports Ractor_Node
begin

text \<open>
  A node of the kameo adapter (\<^verbatim>\<open>dactor-kameo/src/runtime.rs\<close> and \<^verbatim>\<open>system_actors.rs\<close>). It keeps the same managers as the ractor
  adapter, but its spawn managers are always a list with a counter, its system actors take one message type each, and factories are
  registered with the runtime's own spawn manager only. Routing refines that of the ractor adapter; what differs is which spawn requests
  it can answer.
\<close>

section \<open>System actors\<close>

datatype 'm kameo_spawn_outcome = SoSuccess actor_id 'm | SoFailure spawn_response

record ('m, 'd) kameo_spawn_manager =
  ksm_manager :: "('m, 'd) spawn_manager"
  ksm_node_id :: node_id

text \<open>The id counter is shared with the runtime.\<close>

definition ksm_on_start :: "node_id \<Rightarrow> ('m, 'd) type_registry \<Rightarrow> ('m, 'd) kameo_spawn_manager" where
  "ksm_on_start node_id registry = \<lparr>ksm_manager = sm_new registry, ksm_node_id = node_id\<rparr>"

definition ksm_handle_spawn_request ::
  "('m, 'd) kameo_spawn_manager \<Rightarrow> spawn_request \<Rightarrow> u64 \<Rightarrow> 'm kameo_spawn_outcome \<times> u64 \<times> ('m, 'd) kameo_spawn_manager" where
  "ksm_handle_spawn_request a request next_local =
     (case sm_create_actor (ksm_manager a) request of
        Inr actor \<Rightarrow>
          (let actor_id = ActorId (ksm_node_id a) next_local
           in (SoSuccess actor_id actor, next_local + 1, a\<lparr>ksm_manager := sm_record_spawn (ksm_manager a) actor_id\<rparr>))
      | Inl e \<Rightarrow> (SoFailure (SpawnFailure (sr_request_id request) (serialization_error_display e)), next_local, a))"

definition ksm_register_factory ::
  "('m, 'd) kameo_spawn_manager \<Rightarrow> string \<Rightarrow> 'm deserializer_fn \<Rightarrow> ('m, 'd) kameo_spawn_manager" where
  "ksm_register_factory a type_name factory = a\<lparr>ksm_manager := (ksm_manager a)\<lparr>sm_type_registry :=
     tr_register_factory (sm_type_registry (ksm_manager a)) type_name factory\<rparr>\<rparr>"

definition ksm_get_spawned_actors :: "('m, 'd) kameo_spawn_manager \<Rightarrow> actor_id list" where
  "ksm_get_spawned_actors a = sm_spawned_actors (ksm_manager a)"

definition kwm_remote_watch :: "watch_manager \<Rightarrow> actor_id \<Rightarrow> actor_id \<Rightarrow> watch_manager" where
  "kwm_remote_watch wm target watcher = wm_watch wm target watcher"

definition kwm_remote_unwatch :: "watch_manager \<Rightarrow> actor_id \<Rightarrow> actor_id \<Rightarrow> watch_manager" where
  "kwm_remote_unwatch wm target watcher = wm_unwatch wm target watcher"

definition kwm_on_terminated :: "watch_manager \<Rightarrow> actor_id \<Rightarrow> watch_notification list \<times> watch_manager" where
  "kwm_on_terminated wm terminated = wm_on_terminated wm terminated"

definition kcm_register_cancel :: "'t cancel_manager \<Rightarrow> string \<Rightarrow> 't \<Rightarrow> 't cancel_manager" where
  "kcm_register_cancel cm request_id token = cm_register cm request_id token"

definition kcm_cancel_by_id :: "'t cancel_manager \<Rightarrow> string \<Rightarrow> cancel_response \<times> 't option \<times> 't cancel_manager" where
  "kcm_cancel_by_id cm request_id = cm_cancel cm request_id"

definition kcm_complete_request :: "'t cancel_manager \<Rightarrow> string \<Rightarrow> 't cancel_manager" where
  "kcm_complete_request cm request_id = cm_remove cm request_id"

definition knd_connect_peer :: "node_directory \<Rightarrow> node_id \<Rightarrow> string option \<Rightarrow> node_directory" where
  "knd_connect_peer nd peer_id address =
     (let nd1 = (case nd_get_peer nd peer_id of
                   Some existing \<Rightarrow> nd_add_peer (nd_remove_peer nd peer_id) peer_id (case address of Some a \<Rightarrow> Some a | None \<Rightarrow> pi_address existing)
                 | None \<Rightarrow> nd_add_peer nd peer_id address)
      in nd_set_status nd1 peer_id Connected)"

definition knd_disconnect_peer :: "node_directory \<Rightarrow> node_id \<Rightarrow> node_directory" where
  "knd_disconnect_peer nd peer_id = nd_set_status nd peer_id Disconnected"

section \<open>The runtime\<close>

record ('m, 'd, 't) kameo_system_actor_refs =
  ksr_spawn_managers :: "('m, 'd) kameo_spawn_manager list"
  ksr_spawn_manager_counter :: u64
  ksr_watch_manager :: watch_manager
  ksr_cancel_manager :: "'t cancel_manager"
  ksr_node_directory :: node_directory

record ('m, 'd, 't, 'cb) kameo_runtime =
  kr_node_id :: node_id
  kr_next_local :: u64
  kr_cluster_events :: "'cb adapter_events"
  kr_spawn_manager :: "('m, 'd) spawn_manager"
  kr_watch_manager :: watch_manager
  kr_cancel_manager :: "'t cancel_manager"
  kr_node_directory :: node_directory
  kr_system_actors :: "('m, 'd, 't) kameo_system_actor_refs option"
  kr_app_version :: "string option"

definition kr_create :: "node_id \<Rightarrow> ('m, 'd, 't, 'cb) kameo_runtime" where
  "kr_create node_id = \<lparr>kr_node_id = node_id, kr_next_local = 1, kr_cluster_events = ae_new, kr_spawn_manager = sm_new tr_new,
     kr_watch_manager = wm_new, kr_cancel_manager = cm_new, kr_node_directory = nd_new, kr_system_actors = None, kr_app_version = None\<rparr>"

definition kr_handshake_request :: "('m, 'd, 't, 'cb) kameo_runtime \<Rightarrow> handshake_request" where
  "kr_handshake_request rt = hs_from_runtime (kr_node_id rt) (kr_app_version rt) ''kameo''"

definition kr_start_system_actors_with_config ::
  "('m, 'd, 't, 'cb) kameo_runtime \<Rightarrow> system_actor_config \<Rightarrow> ('m, 'd, 't, 'cb) kameo_runtime" where
  "kr_start_system_actors_with_config rt config =
     (let pool_size = max (case sac_spawn_manager_pool_size config of Some n \<Rightarrow> unat n | None \<Rightarrow> 1) 1
      in rt\<lparr>kr_system_actors := Some
           \<lparr>ksr_spawn_managers = replicate pool_size (ksm_on_start (kr_node_id rt) tr_new), ksr_spawn_manager_counter = 0,
            ksr_watch_manager = wm_new, ksr_cancel_manager = cm_new, ksr_node_directory = nd_new\<rparr>\<rparr>)"

definition kr_start_system_actors :: "('m, 'd, 't, 'cb) kameo_runtime \<Rightarrow> ('m, 'd, 't, 'cb) kameo_runtime" where
  "kr_start_system_actors rt = kr_start_system_actors_with_config rt sac_default"

definition kr_register_factory ::
  "('m, 'd, 't, 'cb) kameo_runtime \<Rightarrow> string \<Rightarrow> 'm deserializer_fn \<Rightarrow> ('m, 'd, 't, 'cb) kameo_runtime" where
  "kr_register_factory rt type_name factory = rt\<lparr>kr_spawn_manager := (kr_spawn_manager rt)\<lparr>sm_type_registry :=
     tr_register_factory (sm_type_registry (kr_spawn_manager rt)) type_name factory\<rparr>\<rparr>"

definition kr_handle_spawn_request ::
  "('m, 'd, 't, 'cb) kameo_runtime \<Rightarrow> spawn_request \<Rightarrow> (spawn_response + actor_id \<times> 'm) \<times> ('m, 'd, 't, 'cb) kameo_runtime" where
  "kr_handle_spawn_request rt request =
     (case sm_create_actor (kr_spawn_manager rt) request of
        Inr actor \<Rightarrow>
          (let actor_id = ActorId (kr_node_id rt) (kr_next_local rt)
           in (Inr (actor_id, actor),
               rt\<lparr>kr_next_local := kr_next_local rt + 1, kr_spawn_manager := sm_record_spawn (kr_spawn_manager rt) actor_id\<rparr>))
      | Inl e \<Rightarrow> (Inl (SpawnFailure (sr_request_id request) (serialization_error_display e)), rt))"

definition kr_remote_watch :: "('m, 'd, 't, 'cb) kameo_runtime \<Rightarrow> actor_id \<Rightarrow> actor_id \<Rightarrow> ('m, 'd, 't, 'cb) kameo_runtime" where
  "kr_remote_watch rt target watcher = rt\<lparr>kr_watch_manager := wm_watch (kr_watch_manager rt) target watcher\<rparr>"

definition kr_remote_unwatch :: "('m, 'd, 't, 'cb) kameo_runtime \<Rightarrow> actor_id \<Rightarrow> actor_id \<Rightarrow> ('m, 'd, 't, 'cb) kameo_runtime" where
  "kr_remote_unwatch rt target watcher = rt\<lparr>kr_watch_manager := wm_unwatch (kr_watch_manager rt) target watcher\<rparr>"

definition kr_notify_terminated ::
  "('m, 'd, 't, 'cb) kameo_runtime \<Rightarrow> actor_id \<Rightarrow> watch_notification list \<times> ('m, 'd, 't, 'cb) kameo_runtime" where
  "kr_notify_terminated rt terminated =
     (case wm_on_terminated (kr_watch_manager rt) terminated of (ns, wm) \<Rightarrow> (ns, rt\<lparr>kr_watch_manager := wm\<rparr>))"

definition kr_register_cancel :: "('m, 'd, 't, 'cb) kameo_runtime \<Rightarrow> string \<Rightarrow> 't \<Rightarrow> ('m, 'd, 't, 'cb) kameo_runtime" where
  "kr_register_cancel rt request_id token = rt\<lparr>kr_cancel_manager := cm_register (kr_cancel_manager rt) request_id token\<rparr>"

definition kr_cancel_request ::
  "('m, 'd, 't, 'cb) kameo_runtime \<Rightarrow> string \<Rightarrow> cancel_response \<times> 't option \<times> ('m, 'd, 't, 'cb) kameo_runtime" where
  "kr_cancel_request rt request_id =
     (case cm_cancel (kr_cancel_manager rt) request_id of (resp, tok, cm) \<Rightarrow> (resp, tok, rt\<lparr>kr_cancel_manager := cm\<rparr>))"

definition kr_complete_request :: "('m, 'd, 't, 'cb) kameo_runtime \<Rightarrow> string \<Rightarrow> ('m, 'd, 't, 'cb) kameo_runtime" where
  "kr_complete_request rt request_id = rt\<lparr>kr_cancel_manager := cm_remove (kr_cancel_manager rt) request_id\<rparr>"

definition kr_is_peer_connected :: "('m, 'd, 't, 'cb) kameo_runtime \<Rightarrow> node_id \<Rightarrow> bool" where
  "kr_is_peer_connected rt peer = nd_is_connected (kr_node_directory rt) peer"

definition kr_connect_peer ::
  "('m, 'd, 't, 'cb) kameo_runtime \<Rightarrow> node_id \<Rightarrow> string option \<Rightarrow> cluster_event list \<times> ('m, 'd, 't, 'cb) kameo_runtime" where
  "kr_connect_peer rt peer_id address =
     (let was_connected = nd_is_connected (kr_node_directory rt) peer_id
      in (if was_connected then [] else [NodeJoined peer_id], rt\<lparr>kr_node_directory := knd_connect_peer (kr_node_directory rt) peer_id address\<rparr>))"

definition kr_disconnect_peer ::
  "('m, 'd, 't, 'cb) kameo_runtime \<Rightarrow> node_id \<Rightarrow> cluster_event list \<times> ('m, 'd, 't, 'cb) kameo_runtime" where
  "kr_disconnect_peer rt peer_id =
     (let was_connected = nd_is_connected (kr_node_directory rt) peer_id
      in (if was_connected then [NodeLeft peer_id] else [],
          rt\<lparr>kr_node_directory := nd_set_status (kr_node_directory rt) peer_id Disconnected\<rparr>))"

section \<open>Routing\<close>

text \<open>What kameo does with a message, by the name of the actor: it may refuse it, or handle it and lose the reply of an ask.\<close>

record kameo_env =
  ke_refused :: "string \<Rightarrow> string option"
  ke_no_reply :: "string \<Rightarrow> string option"

definition ktell_step :: "kameo_env \<Rightarrow> string \<Rightarrow> routing_error + unit" where
  "ktell_step env actor = (case ke_refused env actor of None \<Rightarrow> Inr () | Some e \<Rightarrow> Inl (RoutingError (actor @ '' tell: '' @ e)))"

definition kask_sent :: "kameo_env \<Rightarrow> string \<Rightarrow> routing_error + unit" where
  "kask_sent env actor = (case ke_refused env actor of None \<Rightarrow> Inr () | Some e \<Rightarrow> Inl (RoutingError (actor @ '' ask: '' @ e)))"

definition kask_replied :: "kameo_env \<Rightarrow> string \<Rightarrow> routing_error + unit" where
  "kask_replied env actor = (case ke_no_reply env actor of None \<Rightarrow> Inr () | Some e \<Rightarrow> Inl (RoutingError (actor @ '' ask: '' @ e)))"

type_synonym ('m, 'd, 't, 'cb) kameo_routed = "(routing_error + routing_outcome) \<times> 't option \<times> ('m, 'd, 't, 'cb) kameo_runtime"

definition ksr_spawn_manager :: "('m, 'd, 't) kameo_system_actor_refs \<Rightarrow> nat \<times> ('m, 'd, 't) kameo_system_actor_refs" where
  "ksr_spawn_manager refs = (unat (ksr_spawn_manager_counter refs) mod length (ksr_spawn_managers refs),
     refs\<lparr>ksr_spawn_manager_counter := ksr_spawn_manager_counter refs + 1\<rparr>)"

text \<open>The last case is \<^verbatim>\<open>unreachable!\<close> in the code.\<close>

fun kameo_spawn_result :: "string \<Rightarrow> 'm kameo_spawn_outcome \<Rightarrow> routing_outcome" where
  "kameo_spawn_result req_id (SoSuccess actor_id _) = SpawnCompleted req_id actor_id"
| "kameo_spawn_result req_id (SoFailure (SpawnFailure request_id error)) = SpawnFailed request_id error"
| "kameo_spawn_result req_id (SoFailure (SpawnSuccess request_id actor_id)) = SpawnCompleted request_id actor_id"

definition kr_route_spawn ::
  "system_codecs \<Rightarrow> kameo_env \<Rightarrow> ('m, 'd, 't, 'cb) kameo_runtime \<Rightarrow> ('m, 'd, 't) kameo_system_actor_refs \<Rightarrow> bytes \<Rightarrow> ('m, 'd, 't, 'cb) kameo_routed" where
  "kr_route_spawn codecs env rt refs body =
     (case decode_step ''SpawnRequest'' (decode_spawn_request (sc_spawn codecs) body) of
        Inl e \<Rightarrow> (Inl e, None, rt)
      | Inr request \<Rightarrow>
          (case ksr_spawn_manager refs of (idx, refs1) \<Rightarrow>
             case kask_sent env ''SpawnManager'' of
               Inl e \<Rightarrow> (Inl e, None, rt\<lparr>kr_system_actors := Some refs1\<rparr>)
             | Inr _ \<Rightarrow>
                 (case ksm_handle_spawn_request (ksr_spawn_managers refs1 ! idx) request (kr_next_local rt) of (r, next_local, a) \<Rightarrow>
                    (rbind (kask_replied env ''SpawnManager'') (\<lambda>_. Inr (kameo_spawn_result (sr_request_id request) r)), None,
                     rt\<lparr>kr_next_local := next_local,
                        kr_system_actors := Some (refs1\<lparr>ksr_spawn_managers := (ksr_spawn_managers refs1)[idx := a]\<rparr>)\<rparr>))))"

definition kr_route_watch ::
  "system_codecs \<Rightarrow> kameo_env \<Rightarrow> ('m, 'd, 't, 'cb) kameo_runtime \<Rightarrow> ('m, 'd, 't) kameo_system_actor_refs \<Rightarrow> bytes \<Rightarrow> ('m, 'd, 't, 'cb) kameo_routed" where
  "kr_route_watch codecs env rt refs body =
     (case rbind (decode_step ''WatchRequest'' (decode_watch_request (sc_watch codecs) body))
             (\<lambda>request. rbind (ktell_step env ''WatchManager'') (\<lambda>_. Inr request)) of
        Inl e \<Rightarrow> (Inl e, None, rt)
      | Inr request \<Rightarrow> (Inr Acknowledged, None, rt\<lparr>kr_system_actors := Some (refs\<lparr>ksr_watch_manager :=
          kwm_remote_watch (ksr_watch_manager refs) (wr_target request) (wr_watcher request)\<rparr>)\<rparr>))"

definition kr_route_unwatch ::
  "system_codecs \<Rightarrow> kameo_env \<Rightarrow> ('m, 'd, 't, 'cb) kameo_runtime \<Rightarrow> ('m, 'd, 't) kameo_system_actor_refs \<Rightarrow> bytes \<Rightarrow> ('m, 'd, 't, 'cb) kameo_routed" where
  "kr_route_unwatch codecs env rt refs body =
     (case rbind (decode_step ''UnwatchRequest'' (decode_unwatch_request (sc_watch codecs) body))
             (\<lambda>request. rbind (ktell_step env ''WatchManager'') (\<lambda>_. Inr request)) of
        Inl e \<Rightarrow> (Inl e, None, rt)
      | Inr request \<Rightarrow> (Inr Acknowledged, None, rt\<lparr>kr_system_actors := Some (refs\<lparr>ksr_watch_manager :=
          kwm_remote_unwatch (ksr_watch_manager refs) (uwr_target request) (uwr_watcher request)\<rparr>)\<rparr>))"

definition kr_route_cancel ::
  "system_codecs \<Rightarrow> kameo_env \<Rightarrow> ('m, 'd, 't, 'cb) kameo_runtime \<Rightarrow> ('m, 'd, 't) kameo_system_actor_refs \<Rightarrow> bytes \<Rightarrow> ('m, 'd, 't, 'cb) kameo_routed" where
  "kr_route_cancel codecs env rt refs body =
     (case rbind (decode_step ''CancelRequest'' (decode_cancel_request (sc_cancel codecs) body))
             (\<lambda>request. rbind (ok_or (RoutingError ''CancelRequest missing request_id'') (cr_request_id request))
             (\<lambda>i. rbind (kask_sent env ''CancelManager'') (\<lambda>_. Inr i))) of
        Inl e \<Rightarrow> (Inl e, None, rt)
      | Inr i \<Rightarrow>
          (case kcm_cancel_by_id (ksr_cancel_manager refs) i of (resp, tok, cm) \<Rightarrow>
             (rbind (kask_replied env ''CancelManager'')
                (\<lambda>_. Inr (case resp of CancelAck \<Rightarrow> CancelAcknowledged | CancelUnknown reason \<Rightarrow> CancelNotFound reason)),
              tok, rt\<lparr>kr_system_actors := Some (refs\<lparr>ksr_cancel_manager := cm\<rparr>)\<rparr>)))"

definition kr_route_connect ::
  "system_codecs \<Rightarrow> kameo_env \<Rightarrow> ('m, 'd, 't, 'cb) kameo_runtime \<Rightarrow> ('m, 'd, 't) kameo_system_actor_refs \<Rightarrow> bytes \<Rightarrow> ('m, 'd, 't, 'cb) kameo_routed" where
  "kr_route_connect codecs env rt refs body =
     (case rbind (decode_step ''ConnectPeer'' (decode_connect_peer (sc_connect codecs) body))
             (\<lambda>request. rbind (ktell_step env ''NodeDirectory'') (\<lambda>_. Inr request)) of
        Inl e \<Rightarrow> (Inl e, None, rt)
      | Inr (peer_id, address) \<Rightarrow> (Inr Acknowledged, None, rt\<lparr>kr_system_actors := Some (refs\<lparr>ksr_node_directory :=
          knd_connect_peer (ksr_node_directory refs) peer_id address\<rparr>)\<rparr>))"

definition kr_route_disconnect ::
  "system_codecs \<Rightarrow> kameo_env \<Rightarrow> ('m, 'd, 't, 'cb) kameo_runtime \<Rightarrow> ('m, 'd, 't) kameo_system_actor_refs \<Rightarrow> bytes \<Rightarrow> ('m, 'd, 't, 'cb) kameo_routed" where
  "kr_route_disconnect codecs env rt refs body =
     (case rbind (decode_step ''DisconnectPeer'' (decode_disconnect_peer (sc_disconnect codecs) body))
             (\<lambda>peer_id. rbind (ktell_step env ''NodeDirectory'') (\<lambda>_. Inr peer_id)) of
        Inl e \<Rightarrow> (Inl e, None, rt)
      | Inr peer_id \<Rightarrow> (Inr Acknowledged, None, rt\<lparr>kr_system_actors := Some (refs\<lparr>ksr_node_directory :=
          knd_disconnect_peer (ksr_node_directory refs) peer_id\<rparr>)\<rparr>))"

definition kr_route_system_envelope ::
  "system_codecs \<Rightarrow> kameo_env \<Rightarrow> ('m, 'd, 't, 'cb) kameo_runtime \<Rightarrow> wire_envelope \<Rightarrow> ('m, 'd, 't, 'cb) kameo_routed" where
  "kr_route_system_envelope codecs env rt envelope =
     (let ty = we_message_type envelope; body = we_body envelope
      in case rbind (validate_system_message_type ty) (\<lambda>_. ok_or (RoutingError ''system actors not started'') (kr_system_actors rt)) of
        Inl e \<Rightarrow> (Inl e, None, rt)
      | Inr refs \<Rightarrow>
         if ty = SYSTEM_MSG_TYPE_SPAWN then kr_route_spawn codecs env rt refs body
         else if ty = SYSTEM_MSG_TYPE_WATCH then kr_route_watch codecs env rt refs body
         else if ty = SYSTEM_MSG_TYPE_UNWATCH then kr_route_unwatch codecs env rt refs body
         else if ty = SYSTEM_MSG_TYPE_CANCEL then kr_route_cancel codecs env rt refs body
         else if ty = SYSTEM_MSG_TYPE_CONNECT_PEER then kr_route_connect codecs env rt refs body
         else if ty = SYSTEM_MSG_TYPE_DISCONNECT_PEER then kr_route_disconnect codecs env rt refs body
         else (Inl (RoutingError (''unhandled system message type: '' @ ty)), None, rt))"

section \<open>Lemmas\<close>

lemma knd_connect: "knd_connect_peer nd p a = nd_connect nd p a"
  by (simp add: knd_connect_peer_def nd_connect_def Let_def split: option.splits)

interpretation kameo_peers: peer_runtime kr_connect_peer kr_disconnect_peer kr_is_peer_connected
  by unfold_locales (auto simp: kr_connect_peer_def kr_disconnect_peer_def kr_is_peer_connected_def knd_connect Let_def)

text \<open>A kameo node seen as a ractor node. The counter of a single spawn manager is forgotten.\<close>

definition to_ractor_refs :: "('m, 'd, 't) kameo_system_actor_refs \<Rightarrow> ('m, 'd, 't) system_actor_refs" where
  "to_ractor_refs refs = \<lparr>sar_spawn_manager =
       (if length (ksr_spawn_managers refs) = 1 then Single (ksm_manager (hd (ksr_spawn_managers refs)))
        else Pool (map ksm_manager (ksr_spawn_managers refs)) (ksr_spawn_manager_counter refs)),
     sar_watch_manager = ksr_watch_manager refs, sar_cancel_manager = ksr_cancel_manager refs, sar_node_directory = ksr_node_directory refs\<rparr>"

definition to_ractor :: "('m, 'd, 't, 'cb) kameo_runtime \<Rightarrow> ('m, 'd, 't, 'cb) ractor_runtime" where
  "to_ractor rt = \<lparr>rr_node_id = kr_node_id rt, rr_next_local = kr_next_local rt, rr_cluster_events = kr_cluster_events rt,
     rr_spawn_manager = kr_spawn_manager rt, rr_watch_manager = kr_watch_manager rt, rr_cancel_manager = kr_cancel_manager rt,
     rr_node_directory = kr_node_directory rt, rr_system_actors = map_option to_ractor_refs (kr_system_actors rt), rr_app_version = kr_app_version rt\<rparr>"

text \<open>Started system actors have a spawn manager, and all of them know the node.\<close>

definition kr_ok :: "('m, 'd, 't, 'cb) kameo_runtime \<Rightarrow> bool" where
  "kr_ok rt \<longleftrightarrow> (\<forall>refs. kr_system_actors rt = Some refs \<longrightarrow>
     ksr_spawn_managers refs \<noteq> [] \<and> (\<forall>a \<in> set (ksr_spawn_managers refs). ksm_node_id a = kr_node_id rt))"

definition kameo_healthy :: "kameo_env \<Rightarrow> bool" where
  "kameo_healthy env \<longleftrightarrow> ke_refused env = (\<lambda>_. None) \<and> ke_no_reply env = (\<lambda>_. None)"

definition ractor_healthy :: "ractor_env \<Rightarrow> bool" where
  "ractor_healthy env \<longleftrightarrow> re_cast_error env = (\<lambda>_. None) \<and> re_reply_dropped env = (\<lambda>_. False)"

lemma kr_ok_create: "kr_ok (kr_create n)"
  by (simp add: kr_ok_def kr_create_def)

lemma kr_ok_start: "kr_ok (kr_start_system_actors_with_config rt config)"
  by (auto simp: kr_ok_def kr_start_system_actors_with_config_def Let_def ksm_on_start_def)

lemma ksm_handle_refines:
  assumes "ksm_handle_spawn_request a request nl = (r, nl', a')"
  shows "\<exists>x. sma_handle_request (ksm_node_id a) nl (ksm_manager a) request = (x, nl', ksm_manager a') \<and>
    spawn_outcome (sr_request_id request) x = kameo_spawn_result (sr_request_id request) r" and "ksm_node_id a' = ksm_node_id a"
  using assms by (auto simp: ksm_handle_spawn_request_def sma_handle_request_def spawn_outcome_def Let_def split: sum.splits)

lemma kr_route_spawn_refines:
  assumes rt: "kr_system_actors rt = Some refs" "kr_ok rt" and env: "kameo_healthy kenv" "ractor_healthy renv"
  shows "map_prod id (map_prod id to_ractor) (kr_route_spawn codecs kenv rt refs body) = rr_route_spawn codecs renv (to_ractor rt) (to_ractor_refs refs) body"
    and "kr_ok (snd (snd (kr_route_spawn codecs kenv rt refs body)))"
proof -
  let ?ws = "ksr_spawn_managers refs"
  let ?idx = "unat (ksr_spawn_manager_counter refs) mod length ?ws"
  have ws: "?ws \<noteq> []" "\<forall>a \<in> set ?ws. ksm_node_id a = kr_node_id rt" using rt by (simp_all add: kr_ok_def)
  then have idx: "?idx < length ?ws" by simp
  then have node: "ksm_node_id (?ws ! ?idx) = kr_node_id rt" using ws(2) by simp
  have h: "ke_refused kenv a = None" "ke_no_reply kenv a = None" "re_cast_error renv a = None" "\<not> re_reply_dropped renv a" for a
    using env by (simp_all add: kameo_healthy_def ractor_healthy_def)
  have "map_prod id (map_prod id to_ractor) (kr_route_spawn codecs kenv rt refs body) = rr_route_spawn codecs renv (to_ractor rt) (to_ractor_refs refs) body \<and>
    kr_ok (snd (snd (kr_route_spawn codecs kenv rt refs body)))"
  proof (cases "decode_spawn_request (sc_spawn codecs) body")
    case (Inl e)
    then show ?thesis using rt(2) by (simp add: kr_route_spawn_def rr_route_spawn_def decode_step_def)
  next
    case (Inr request)
    obtain r nl a where run: "ksm_handle_spawn_request (?ws ! ?idx) request (kr_next_local rt) = (r, nl, a)" by (rule prod_cases3)
    from ksm_handle_refines [OF run] obtain x where x: "sma_handle_request (kr_node_id rt) (kr_next_local rt) (ksm_manager (?ws ! ?idx)) request = (x, nl, ksm_manager a)"
      "spawn_outcome (sr_request_id request) x = kameo_spawn_result (sr_request_id request) r" and a: "ksm_node_id a = kr_node_id rt"
      using node by auto
    have ok: "kr_ok (snd (snd (kr_route_spawn codecs kenv rt refs body)))"
      using Inr run ws a by (auto simp: kr_route_spawn_def decode_step_def ksr_spawn_manager_def kask_sent_def kask_replied_def h kr_ok_def
        dest!: set_update_subset_insert [THEN subsetD])
    have kameo: "kr_route_spawn codecs kenv rt refs body = (Inr (kameo_spawn_result (sr_request_id request) r), None,
        rt\<lparr>kr_next_local := nl, kr_system_actors := Some (refs\<lparr>ksr_spawn_manager_counter := ksr_spawn_manager_counter refs + 1,
             ksr_spawn_managers := ?ws[?idx := a]\<rparr>)\<rparr>)"
      using Inr run by (simp add: kr_route_spawn_def decode_step_def ksr_spawn_manager_def kask_sent_def kask_replied_def h)
    have "handle_cast_request (kr_node_id rt) (kr_next_local rt) (sar_spawn_manager (to_ractor_refs refs)) request =
        (x, nl, sar_spawn_manager (to_ractor_refs (refs\<lparr>ksr_spawn_manager_counter := ksr_spawn_manager_counter refs + 1, ksr_spawn_managers := ?ws[?idx := a]\<rparr>)))"
    proof (cases "length ?ws = 1")
      case True
      then obtain w where "?ws = [w]" by (auto simp: length_Suc_conv)
      then show ?thesis using x(1) by (simp add: to_ractor_refs_def)
    next
      case False
      then show ?thesis using x(1) idx by (simp add: to_ractor_refs_def Let_def map_update)
    qed
    then have "rr_route_spawn codecs renv (to_ractor rt) (to_ractor_refs refs) body =
        (Inr (spawn_outcome (sr_request_id request) x), None, to_ractor (snd (snd (kr_route_spawn codecs kenv rt refs body))))"
      unfolding kameo using Inr by (simp add: rr_route_spawn_def decode_step_def cast_step_def reply_step_def h to_ractor_def to_ractor_refs_def)
    then show ?thesis using ok x(2) by (simp add: kameo)
  qed
  then show "map_prod id (map_prod id to_ractor) (kr_route_spawn codecs kenv rt refs body) = rr_route_spawn codecs renv (to_ractor rt) (to_ractor_refs refs) body"
    "kr_ok (snd (snd (kr_route_spawn codecs kenv rt refs body)))" by blast+
qed

lemma kr_route_arms_refine:
  assumes ok: "kr_system_actors rt = Some refs" "kr_ok rt" and env: "kameo_healthy kenv" "ractor_healthy renv"
    and f: "(f, g) \<in> {(kr_route_watch, rr_route_watch), (kr_route_unwatch, rr_route_unwatch), (kr_route_cancel, rr_route_cancel),
      (kr_route_connect, rr_route_connect), (kr_route_disconnect, rr_route_disconnect)}"
  shows "map_prod id (map_prod id to_ractor) (f codecs kenv rt refs body) = g codecs renv (to_ractor rt) (to_ractor_refs refs) body \<and>
    kr_ok (snd (snd (f codecs kenv rt refs body)))"
proof -
  have h: "ktell_step kenv a = Inr ()" "kask_sent kenv a = Inr ()" "kask_replied kenv a = Inr ()" "cast_step renv a = Inr ()" "reply_step renv a = Inr ()" for a
    using env by (simp_all add: kameo_healthy_def ractor_healthy_def ktell_step_def kask_sent_def kask_replied_def cast_step_def reply_step_def)
  note arms = kr_route_watch_def kr_route_unwatch_def kr_route_cancel_def kr_route_connect_def kr_route_disconnect_def
    rr_route_watch_def rr_route_unwatch_def rr_route_cancel_def rr_route_connect_def rr_route_disconnect_def
  note handlers = kwm_remote_watch_def kwm_remote_unwatch_def kcm_cancel_by_id_def knd_connect knd_disconnect_peer_def
  show ?thesis
    using f ok by (elim insertE emptyE; clarsimp simp: arms handlers h)
      (auto simp: handlers h to_ractor_def to_ractor_refs_def kr_ok_def rbind_Inr split: sum.splits prod.splits)
qed

lemma kr_route_refines:
  assumes ok: "kr_ok rt" and env: "kameo_healthy kenv" "ractor_healthy renv"
  shows "map_prod id (map_prod id to_ractor) (kr_route_system_envelope codecs kenv rt envelope) = rr_route_system_envelope codecs renv (to_ractor rt) envelope \<and>
    kr_ok (snd (snd (kr_route_system_envelope codecs kenv rt envelope)))"
proof (cases "rbind (validate_system_message_type (we_message_type envelope)) (\<lambda>_. ok_or (RoutingError ''system actors not started'') (kr_system_actors rt))")
  case (Inl e)
  then have "rbind (validate_system_message_type (we_message_type envelope)) (\<lambda>_. ok_or (RoutingError ''system actors not started'') (rr_system_actors (to_ractor rt))) = Inl e"
    by (cases "kr_system_actors rt"; cases "validate_system_message_type (we_message_type envelope)") (simp_all add: to_ractor_def)
  then show ?thesis using Inl ok by (simp add: kr_route_system_envelope_def rr_route_system_envelope_def)
next
  case (Inr refs)
  then have refs: "kr_system_actors rt = Some refs" by (auto simp: rbind_Inr elim: ok_or.elims)
  have "rbind (validate_system_message_type (we_message_type envelope)) (\<lambda>_. ok_or (RoutingError ''system actors not started'') (rr_system_actors (to_ractor rt))) =
      Inr (to_ractor_refs refs)"
    using Inr by (cases "validate_system_message_type (we_message_type envelope)") (simp_all add: to_ractor_def refs)
  note decided = this
  define sim where "sim k r \<longleftrightarrow> map_prod id (map_prod id to_ractor) k = r \<and> kr_ok (snd (snd k))" for k :: "('a, 'b, 'c, 'd) kameo_routed" and r
  let ?b = "we_body envelope" and ?rt = "to_ractor rt" and ?refs = "to_ractor_refs refs"
  have spawn: "sim (kr_route_spawn codecs kenv rt refs ?b) (rr_route_spawn codecs renv ?rt ?refs ?b)" "sim (Inl e, None, rt) (Inl e, None, ?rt)" for e
    using kr_route_spawn_refines [OF refs ok env] ok by (simp_all add: sim_def)
  have arms: "sim (kr_route_watch codecs kenv rt refs ?b) (rr_route_watch codecs renv ?rt ?refs ?b)"
    "sim (kr_route_unwatch codecs kenv rt refs ?b) (rr_route_unwatch codecs renv ?rt ?refs ?b)"
    "sim (kr_route_cancel codecs kenv rt refs ?b) (rr_route_cancel codecs renv ?rt ?refs ?b)"
    "sim (kr_route_connect codecs kenv rt refs ?b) (rr_route_connect codecs renv ?rt ?refs ?b)"
    "sim (kr_route_disconnect codecs kenv rt refs ?b) (rr_route_disconnect codecs renv ?rt ?refs ?b)"
    unfolding sim_def by (rule kr_route_arms_refine [OF refs ok env]; simp)+
  have "sim (kr_route_system_envelope codecs kenv rt envelope) (rr_route_system_envelope codecs renv ?rt envelope)"
    using Inr decided spawn arms by (simp add: kr_route_system_envelope_def rr_route_system_envelope_def Let_def)
  then show ?thesis by (simp add: sim_def)
qed

section \<open>Properties\<close>

text \<open>The kameo node routes as the ractor node does. While the actor libraries deliver messages and replies, an envelope routed on a
  kameo node has the same outcome, cancels the same token and leaves the same managers as on the ractor node it stands for, and the
  node stays well formed.\<close>

theorem kameo_routing_refines:
  assumes ok: "kr_ok rt" and env: "kameo_healthy kenv" "ractor_healthy renv"
  shows "map_prod id (map_prod id to_ractor) (kr_route_system_envelope codecs kenv rt envelope) = rr_route_system_envelope codecs renv (to_ractor rt) envelope \<and>
    kr_ok (snd (snd (kr_route_system_envelope codecs kenv rt envelope)))"
  by (rule kr_route_refines [OF assms])

definition sample_kameo :: kameo_env where
  "sample_kameo = \<lparr>ke_refused = (\<lambda>_. None), ke_no_reply = (\<lambda>_. None)\<rparr>"

type_synonym sample_kameo_runtime = "(nat, unit, nat, nat) kameo_runtime"

lemma sample_healthy: "kameo_healthy sample_kameo" "ractor_healthy sample_ractor"
  by (simp_all add: kameo_healthy_def ractor_healthy_def sample_kameo_def sample_ractor_def)

theorem kameo_routing_refines_witness:
  "fst (kr_route_system_envelope sample_codecs sample_kameo (kr_start_system_actors (kr_create (NodeId ''n'') :: sample_kameo_runtime))
      (sample_system_envelope SYSTEM_MSG_TYPE_WATCH)) =
   fst (rr_route_system_envelope sample_codecs sample_ractor (to_ractor (kr_start_system_actors (kr_create (NodeId ''n'') :: sample_kameo_runtime)))
      (sample_system_envelope SYSTEM_MSG_TYPE_WATCH))"
proof -
  have "kr_ok (kr_start_system_actors (kr_create (NodeId ''n'') :: sample_kameo_runtime))"
    by (simp add: kr_start_system_actors_def kr_ok_start)
  from kameo_routing_refines [OF this sample_healthy] show ?thesis by (metis fst_map_prod id_apply)
qed

text \<open>The runtime's calls that concern spawning. \<open>KoNativeRegister\<close> is the registration with a native spawn manager, which a caller reaches through
  \<^verbatim>\<open>system_actor_refs().spawn_manager()\<close>: it goes to the next manager in turn.\<close>

datatype 'm kameo_op =
    KoRegister string "'m deserializer_fn" | KoNativeRegister string "'m deserializer_fn" | KoStart system_actor_config | KoSpawn spawn_request
  | KoRoute wire_envelope

definition ksr_native_register :: "string \<Rightarrow> 'm deserializer_fn \<Rightarrow> ('m, 'd, 't) kameo_system_actor_refs \<Rightarrow> ('m, 'd, 't) kameo_system_actor_refs" where
  "ksr_native_register ty f refs =
     (case ksr_spawn_manager refs of (idx, refs1) \<Rightarrow>
        refs1\<lparr>ksr_spawn_managers := (ksr_spawn_managers refs1)[idx := ksm_register_factory (ksr_spawn_managers refs1 ! idx) ty f]\<rparr>)"

fun kameo_step :: "system_codecs \<Rightarrow> kameo_env \<Rightarrow> ('m, 'd, 't, 'cb) kameo_runtime \<Rightarrow> 'm kameo_op \<Rightarrow> ('m, 'd, 't, 'cb) kameo_runtime" where
  "kameo_step codecs env rt (KoRegister ty f) = kr_register_factory rt ty f"
| "kameo_step codecs env rt (KoNativeRegister ty f) = rt\<lparr>kr_system_actors := map_option (ksr_native_register ty f) (kr_system_actors rt)\<rparr>"
| "kameo_step codecs env rt (KoStart config) = kr_start_system_actors_with_config rt config"
| "kameo_step codecs env rt (KoSpawn request) = snd (kr_handle_spawn_request rt request)"
| "kameo_step codecs env rt (KoRoute envelope) = snd (snd (kr_route_system_envelope codecs env rt envelope))"

text \<open>No native spawn manager has a factory for a type.\<close>

definition natively_unknown :: "string \<Rightarrow> ('m, 'd, 't, 'cb) kameo_runtime \<Rightarrow> bool" where
  "natively_unknown ty rt \<longleftrightarrow> (\<forall>refs. kr_system_actors rt = Some refs \<longrightarrow>
     ksr_spawn_managers refs \<noteq> [] \<and> (\<forall>a \<in> set (ksr_spawn_managers refs). hm_get (tr_factories (sm_type_registry (ksm_manager a))) ty = None))"

lemma natively_unknownD:
  assumes "natively_unknown ty rt" and "kr_system_actors rt = Some refs"
  shows "ksr_spawn_managers refs \<noteq> []"
    and "hm_get (tr_factories (sm_type_registry (ksm_manager (ksr_spawn_managers refs ! (i mod length (ksr_spawn_managers refs)))))) ty = None"
  using assms by (simp_all add: natively_unknown_def)

lemma natively_unknown_update:
  assumes "natively_unknown ty rt" and "kr_system_actors rt = Some refs"
    and "hm_get (tr_factories (sm_type_registry (ksm_manager a))) ty = None"
    and "kr_system_actors rt' = Some refs'" and "ksr_spawn_managers refs' = (ksr_spawn_managers refs)[i := a]"
  shows "natively_unknown ty rt'"
  using assms by (auto simp: natively_unknown_def dest!: set_update_subset_insert [THEN subsetD])

lemma natively_unknown_native_register:
  assumes "natively_unknown ty rt" and "ty' \<noteq> ty"
  shows "natively_unknown ty (rt\<lparr>kr_system_actors := map_option (ksr_native_register ty' f) (kr_system_actors rt)\<rparr>)"
proof (cases "kr_system_actors rt")
  case None
  then show ?thesis by (simp add: natively_unknown_def)
next
  case (Some refs)
  let ?a = "ksr_spawn_managers refs ! (unat (ksr_spawn_manager_counter refs) mod length (ksr_spawn_managers refs))"
  have "hm_get (tr_factories (sm_type_registry (ksm_manager (ksm_register_factory ?a ty' f)))) ty = None"
    using natively_unknownD(2) [OF assms(1) Some] assms(2) by (simp add: ksm_register_factory_def tr_register_factory_def)
  then show ?thesis
    by (rule natively_unknown_update [OF assms(1) Some, where i = "unat (ksr_spawn_manager_counter refs) mod length (ksr_spawn_managers refs)"
        and refs' = "ksr_native_register ty' f refs"]) (simp_all add: Some ksr_native_register_def ksr_spawn_manager_def)
qed

lemma ksm_handle_registry:
  "sm_type_registry (ksm_manager (snd (snd (ksm_handle_spawn_request a request nl)))) = sm_type_registry (ksm_manager a)"
  by (simp add: ksm_handle_spawn_request_def sm_record_spawn_def Let_def split: sum.split)

lemma natively_unknown_spawn:
  assumes "natively_unknown ty rt" "kr_system_actors rt = Some refs"
  shows "natively_unknown ty (snd (snd (kr_route_spawn codecs env rt refs body)))"
proof -
  let ?ws = "ksr_spawn_managers refs"
  let ?a = "?ws ! (unat (ksr_spawn_manager_counter refs) mod length ?ws)"
  have same: "natively_unknown ty rt'" if "kr_system_actors rt' = Some refs'" "ksr_spawn_managers refs' = ?ws" for rt' :: "('a, 'b, 'c, 'd) kameo_runtime" and refs'
    using assms that by (simp add: natively_unknown_def)
  show ?thesis
  proof (cases "decode_step ''SpawnRequest'' (decode_spawn_request (sc_spawn codecs) body)")
    case (Inl e)
    then show ?thesis using assms by (simp add: kr_route_spawn_def)
  next
    case (Inr request)
    obtain r nl a where h: "ksm_handle_spawn_request ?a request (kr_next_local rt) = (r, nl, a)" by (rule prod_cases3)
    have "hm_get (tr_factories (sm_type_registry (ksm_manager a))) ty = None"
      using natively_unknownD(2) [OF assms] ksm_handle_registry [of ?a request "kr_next_local rt"] h by simp
    note upd = natively_unknown_update [OF assms this, where i = "unat (ksr_spawn_manager_counter refs) mod length ?ws" and
        refs' = "refs\<lparr>ksr_spawn_manager_counter := ksr_spawn_manager_counter refs + 1,
          ksr_spawn_managers := ?ws[unat (ksr_spawn_manager_counter refs) mod length ?ws := a]\<rparr>"]
    show ?thesis
    proof (cases "kask_sent env ''SpawnManager''")
      case (Inl e)
      then show ?thesis using Inr
        by (intro same [of _ "refs\<lparr>ksr_spawn_manager_counter := ksr_spawn_manager_counter refs + 1\<rparr>"]) (simp_all add: kr_route_spawn_def ksr_spawn_manager_def)
    next
      case Inr': (Inr u)
      then show ?thesis using Inr h by (intro upd) (simp_all add: kr_route_spawn_def ksr_spawn_manager_def)
    qed
  qed
qed

lemma natively_unknown_route:
  assumes "natively_unknown ty rt"
  shows "natively_unknown ty (snd (snd (kr_route_system_envelope codecs env rt envelope)))"
proof -
  let ?b = "we_body envelope"
  have others: "natively_unknown ty (snd (snd (f codecs env rt refs ?b)))"
    if "f \<in> {kr_route_watch, kr_route_unwatch, kr_route_cancel, kr_route_connect, kr_route_disconnect}" "kr_system_actors rt = Some refs" for f refs
    using that assms by (elim insertE emptyE) (auto simp: natively_unknown_def kr_route_watch_def kr_route_unwatch_def kr_route_cancel_def
      kr_route_connect_def kr_route_disconnect_def split: sum.splits prod.splits)
  show ?thesis
  proof (cases "rbind (validate_system_message_type (we_message_type envelope)) (\<lambda>_. ok_or (RoutingError ''system actors not started'') (kr_system_actors rt))")
    case (Inl e)
    then show ?thesis using assms by (simp add: kr_route_system_envelope_def)
  next
    case (Inr refs)
    then have refs: "kr_system_actors rt = Some refs" by (auto simp: rbind_Inr elim: ok_or.elims)
    then show ?thesis
      using Inr assms natively_unknown_spawn [OF assms refs] others by (simp add: kr_route_system_envelope_def Let_def)
  qed
qed

lemma natively_unknown_step:
  assumes "natively_unknown ty rt" and "\<forall>f. x \<noteq> KoNativeRegister ty f"
  shows "natively_unknown ty (kameo_step codecs env rt x)"
proof (cases x)
  case (KoRoute envelope)
  then show ?thesis using natively_unknown_route [OF assms(1)] by simp
next
  case (KoNativeRegister ty' f)
  then show ?thesis using natively_unknown_native_register [OF assms(1), of ty' f] assms(2) by auto
qed (use assms(1) in \<open>auto simp: natively_unknown_def kr_register_factory_def kr_start_system_actors_with_config_def kr_handle_spawn_request_def
  ksm_on_start_def sm_new_def tr_new_def Let_def split: sum.splits\<close>)

lemma natively_unknown_run:
  "natively_unknown ty rt \<Longrightarrow> \<forall>f. KoNativeRegister ty f \<notin> set xs \<Longrightarrow> natively_unknown ty (foldl (kameo_step codecs env) rt xs)"
proof (induction xs arbitrary: rt)
  case (Cons x xs)
  have "\<forall>f. x \<noteq> KoNativeRegister ty f" using Cons.prems(2) by auto
  then show ?case using Cons natively_unknown_step [of ty rt x codecs env] by simp
qed simp

lemma ksm_unknown_fails:
  assumes "hm_get (tr_factories (sm_type_registry (ksm_manager a))) (sr_type_name request) = None"
  obtains e where "ksm_handle_spawn_request a request nl = (SoFailure (SpawnFailure (sr_request_id request) e), nl, a)"
  using assms by (simp add: ksm_handle_spawn_request_def sm_create_actor_def tr_create_actor_def)

text \<open>C29. On a kameo node, factories registered with the runtime never serve routed spawn requests. After any calls to the runtime, in any order of
  registering factories and starting the system actors, a spawn request that is routed, delivered and answered has failed if no factory for its
  type was registered with a native spawn manager itself, whatever was registered with \<open>register_factory\<close>; the same request handed to the
  runtime directly is served by the factory registered there last.\<close>

theorem kameo_routed_spawn_fails:
  assumes rt: "rt = foldl (kameo_step codecs env) (kr_create n) xs" "kr_system_actors rt = Some refs"
    and envelope: "we_message_type envelope = SYSTEM_MSG_TYPE_SPAWN" "decode_spawn_request (sc_spawn codecs) (we_body envelope) = Inr request"
    and env: "kameo_healthy env" and native: "\<forall>f. KoNativeRegister (sr_type_name request) f \<notin> set xs"
  shows "(\<exists>e. fst (kr_route_system_envelope codecs env rt envelope) = Inr (SpawnFailed (sr_request_id request) e)) \<and>
    (\<forall>f actor. f (sr_args_bytes request) = Inr actor \<longrightarrow>
      fst (kr_handle_spawn_request (kameo_step codecs env rt (KoRegister (sr_type_name request) f)) request) =
        Inr (ActorId (kr_node_id rt) (kr_next_local rt), actor))"
proof
  have un: "natively_unknown (sr_type_name request) rt"
    unfolding rt(1) by (rule natively_unknown_run [OF _ native]) (simp add: natively_unknown_def kr_create_def)
  let ?a = "ksr_spawn_managers refs ! (unat (ksr_spawn_manager_counter refs) mod length (ksr_spawn_managers refs))"
  obtain e where e: "ksm_handle_spawn_request ?a request (kr_next_local rt) = (SoFailure (SpawnFailure (sr_request_id request) e), kr_next_local rt, ?a)"
    using natively_unknownD(2) [OF un rt(2)] by (rule ksm_unknown_fails)
  have valid: "validate_system_message_type SYSTEM_MSG_TYPE_SPAWN = Inr ()" by (simp add: validate_system_message_type_def)
  have "fst (kr_route_spawn codecs env rt refs (we_body envelope)) = Inr (SpawnFailed (sr_request_id request) e)"
    using envelope(2) env e by (simp add: kr_route_spawn_def decode_step_def ksr_spawn_manager_def kask_sent_def kask_replied_def kameo_healthy_def)
  then show "\<exists>e. fst (kr_route_system_envelope codecs env rt envelope) = Inr (SpawnFailed (sr_request_id request) e)"
    using rt(2) envelope(1) valid by (simp add: kr_route_system_envelope_def Let_def)
  show "\<forall>f actor. f (sr_args_bytes request) = Inr actor \<longrightarrow>
      fst (kr_handle_spawn_request (kameo_step codecs env rt (KoRegister (sr_type_name request) f)) request) =
        Inr (ActorId (kr_node_id rt) (kr_next_local rt), actor)"
    by (simp add: kr_handle_spawn_request_def kr_register_factory_def sm_create_actor_def tr_create_actor_def tr_register_factory_def Let_def)
qed

theorem kameo_routed_spawn_fails_witness:
  "\<exists>e. fst (kr_route_system_envelope sample_codecs sample_kameo
      (foldl (kameo_step sample_codecs sample_kameo) (kr_create (NodeId ''n'') :: sample_kameo_runtime)
         [KoRegister ''T'' (\<lambda>_. Inr 5), KoStart sac_default, KoRegister ''T'' (\<lambda>_. Inr 5), KoNativeRegister ''U'' (\<lambda>_. Inr 5)])
      (sample_system_envelope SYSTEM_MSG_TYPE_SPAWN)) = Inr (SpawnFailed ''r1'' e)"
proof -
  let ?xs = "[KoRegister ''T'' (\<lambda>_. Inr 5), KoStart sac_default, KoRegister ''T'' (\<lambda>_. Inr 5), KoNativeRegister ''U'' (\<lambda>_. Inr 5)]"
  let ?rt = "foldl (kameo_step sample_codecs sample_kameo) (kr_create (NodeId ''n'') :: sample_kameo_runtime) ?xs"
  have "\<exists>refs. kr_system_actors ?rt = Some refs"
    by (simp add: kr_register_factory_def kr_start_system_actors_with_config_def Let_def)
  then obtain refs where "kr_system_actors ?rt = Some refs" ..
  from kameo_routed_spawn_fails [OF refl this, of "sample_system_envelope SYSTEM_MSG_TYPE_SPAWN" "SpawnRequest ''T'' [1] ''a'' ''r1''"]
  show ?thesis by (simp add: sample_healthy sample_simps sample_decodes)
qed

end
