(* ===== verification/Coerce_Node.thy ===== *)
theory Coerce_Node
  imports Kameo_Node
begin

text \<open>
  A node of the coerce adapter (\<^verbatim>\<open>dactor-coerce/src/runtime.rs\<close> and \<^verbatim>\<open>system_actors.rs\<close>). Its system actors are those of the kameo adapter, with
  spawned actors that are taken out of the outcome at most once; unlike there, a factory is registered with every spawn manager. The
  result is a simulation: a coerce node answers every sequence of the calls of \<open>node_op\<close> as a ractor node does, but for the name of the adapter.
\<close>

section \<open>System actors\<close>

datatype 'm coerce_spawn_outcome = CoSuccess actor_id "'m option" | CoFailure spawn_response

text \<open>The actor of a successful outcome can be taken once.\<close>

definition coerce_success :: "actor_id \<Rightarrow> 'm \<Rightarrow> 'm coerce_spawn_outcome" where
  "coerce_success actor_id actor = CoSuccess actor_id (Some actor)"

fun take_actor :: "'m coerce_spawn_outcome \<Rightarrow> 'm option \<times> 'm coerce_spawn_outcome" where
  "take_actor (CoSuccess actor_id actor) = (actor, CoSuccess actor_id None)"
| "take_actor (CoFailure r) = (None, CoFailure r)"

record ('m, 'd) coerce_spawn_manager =
  csm_manager :: "('m, 'd) spawn_manager"
  csm_node_id :: node_id

text \<open>The id counter is shared with the runtime.\<close>

definition csm_new :: "node_id \<Rightarrow> ('m, 'd) type_registry \<Rightarrow> ('m, 'd) coerce_spawn_manager" where
  "csm_new node_id registry = \<lparr>csm_manager = sm_new registry, csm_node_id = node_id\<rparr>"

definition csm_handle_spawn_request ::
  "('m, 'd) coerce_spawn_manager \<Rightarrow> spawn_request \<Rightarrow> u64 \<Rightarrow> 'm coerce_spawn_outcome \<times> u64 \<times> ('m, 'd) coerce_spawn_manager" where
  "csm_handle_spawn_request a request next_local =
     (case sm_create_actor (csm_manager a) request of
        Inr actor \<Rightarrow>
          (let actor_id = ActorId (csm_node_id a) next_local
           in (coerce_success actor_id actor, next_local + 1, a\<lparr>csm_manager := sm_record_spawn (csm_manager a) actor_id\<rparr>))
      | Inl e \<Rightarrow> (CoFailure (SpawnFailure (sr_request_id request) (serialization_error_display e)), next_local, a))"

definition csm_register_factory ::
  "('m, 'd) coerce_spawn_manager \<Rightarrow> string \<Rightarrow> 'm deserializer_fn \<Rightarrow> ('m, 'd) coerce_spawn_manager" where
  "csm_register_factory a type_name factory = a\<lparr>csm_manager := (csm_manager a)\<lparr>sm_type_registry :=
     tr_register_factory (sm_type_registry (csm_manager a)) type_name factory\<rparr>\<rparr>"

definition csm_get_spawned_actors :: "('m, 'd) coerce_spawn_manager \<Rightarrow> actor_id list" where
  "csm_get_spawned_actors a = sm_spawned_actors (csm_manager a)"

definition cwm_remote_watch :: "watch_manager \<Rightarrow> actor_id \<Rightarrow> actor_id \<Rightarrow> watch_manager" where
  "cwm_remote_watch wm target watcher = wm_watch wm target watcher"

definition cwm_remote_unwatch :: "watch_manager \<Rightarrow> actor_id \<Rightarrow> actor_id \<Rightarrow> watch_manager" where
  "cwm_remote_unwatch wm target watcher = wm_unwatch wm target watcher"

definition cwm_on_terminated :: "watch_manager \<Rightarrow> actor_id \<Rightarrow> watch_notification list \<times> watch_manager" where
  "cwm_on_terminated wm terminated = wm_on_terminated wm terminated"

definition ccm_register_cancel :: "'t cancel_manager \<Rightarrow> string \<Rightarrow> 't \<Rightarrow> 't cancel_manager" where
  "ccm_register_cancel cm request_id token = cm_register cm request_id token"

definition ccm_cancel_by_id :: "'t cancel_manager \<Rightarrow> string \<Rightarrow> cancel_response \<times> 't option \<times> 't cancel_manager" where
  "ccm_cancel_by_id cm request_id = cm_cancel cm request_id"

definition ccm_complete_request :: "'t cancel_manager \<Rightarrow> string \<Rightarrow> 't cancel_manager" where
  "ccm_complete_request cm request_id = cm_remove cm request_id"

definition cnd_connect_peer :: "node_directory \<Rightarrow> node_id \<Rightarrow> string option \<Rightarrow> node_directory" where
  "cnd_connect_peer nd peer_id address =
     (let nd1 = (case nd_get_peer nd peer_id of
                   Some existing \<Rightarrow> nd_add_peer (nd_remove_peer nd peer_id) peer_id (case address of Some a \<Rightarrow> Some a | None \<Rightarrow> pi_address existing)
                 | None \<Rightarrow> nd_add_peer nd peer_id address)
      in nd_set_status nd1 peer_id Connected)"

definition cnd_disconnect_peer :: "node_directory \<Rightarrow> node_id \<Rightarrow> node_directory" where
  "cnd_disconnect_peer nd peer_id = nd_set_status nd peer_id Disconnected"

section \<open>The runtime\<close>

record ('m, 'd, 't) coerce_system_actor_refs =
  csr_spawn_managers :: "('m, 'd) coerce_spawn_manager list"
  csr_spawn_manager_counter :: u64
  csr_watch_manager :: watch_manager
  csr_cancel_manager :: "'t cancel_manager"
  csr_node_directory :: node_directory

record ('m, 'd, 't, 'cb) coerce_runtime =
  co_node_id :: node_id
  co_next_local :: u64
  co_cluster_events :: "'cb adapter_events"
  co_spawn_manager :: "('m, 'd) spawn_manager"
  co_watch_manager :: watch_manager
  co_cancel_manager :: "'t cancel_manager"
  co_node_directory :: node_directory
  co_system_actors :: "('m, 'd, 't) coerce_system_actor_refs option"
  co_app_version :: "string option"

definition co_create :: "node_id \<Rightarrow> ('m, 'd, 't, 'cb) coerce_runtime" where
  "co_create node_id = \<lparr>co_node_id = node_id, co_next_local = 1, co_cluster_events = ae_new, co_spawn_manager = sm_new tr_new,
     co_watch_manager = wm_new, co_cancel_manager = cm_new, co_node_directory = nd_new, co_system_actors = None, co_app_version = None\<rparr>"

definition co_with_app_version :: "('m, 'd, 't, 'cb) coerce_runtime \<Rightarrow> string \<Rightarrow> ('m, 'd, 't, 'cb) coerce_runtime" where
  "co_with_app_version rt version = rt\<lparr>co_app_version := Some version\<rparr>"

definition co_handshake_request :: "('m, 'd, 't, 'cb) coerce_runtime \<Rightarrow> handshake_request" where
  "co_handshake_request rt = hs_from_runtime (co_node_id rt) (co_app_version rt) ''coerce''"

definition co_start_system_actors_with_config ::
  "('m, 'd, 't, 'cb) coerce_runtime \<Rightarrow> system_actor_config \<Rightarrow> ('m, 'd, 't, 'cb) coerce_runtime" where
  "co_start_system_actors_with_config rt config =
     (let pool_size = max (case sac_spawn_manager_pool_size config of Some n \<Rightarrow> unat n | None \<Rightarrow> 1) 1
      in rt\<lparr>co_system_actors := Some
           \<lparr>csr_spawn_managers = replicate pool_size (csm_new (co_node_id rt) tr_new), csr_spawn_manager_counter = 0,
            csr_watch_manager = wm_new, csr_cancel_manager = cm_new, csr_node_directory = nd_new\<rparr>\<rparr>)"

definition co_start_system_actors :: "('m, 'd, 't, 'cb) coerce_runtime \<Rightarrow> ('m, 'd, 't, 'cb) coerce_runtime" where
  "co_start_system_actors rt = co_start_system_actors_with_config rt sac_default"

definition co_register_factory ::
  "('m, 'd, 't, 'cb) coerce_runtime \<Rightarrow> string \<Rightarrow> 'm deserializer_fn \<Rightarrow> ('m, 'd, 't, 'cb) coerce_runtime" where
  "co_register_factory rt type_name factory =
     rt\<lparr>co_spawn_manager := (co_spawn_manager rt)\<lparr>sm_type_registry := tr_register_factory (sm_type_registry (co_spawn_manager rt)) type_name factory\<rparr>,
        co_system_actors := map_option
          (\<lambda>actors. actors\<lparr>csr_spawn_managers := map (\<lambda>worker. csm_register_factory worker type_name factory) (csr_spawn_managers actors)\<rparr>)
          (co_system_actors rt)\<rparr>"

definition co_handle_spawn_request ::
  "('m, 'd, 't, 'cb) coerce_runtime \<Rightarrow> spawn_request \<Rightarrow> (spawn_response + actor_id \<times> 'm) \<times> ('m, 'd, 't, 'cb) coerce_runtime" where
  "co_handle_spawn_request rt request =
     (case sm_create_actor (co_spawn_manager rt) request of
        Inr actor \<Rightarrow>
          (let actor_id = ActorId (co_node_id rt) (co_next_local rt)
           in (Inr (actor_id, actor),
               rt\<lparr>co_next_local := co_next_local rt + 1, co_spawn_manager := sm_record_spawn (co_spawn_manager rt) actor_id\<rparr>))
      | Inl e \<Rightarrow> (Inl (SpawnFailure (sr_request_id request) (serialization_error_display e)), rt))"

text \<open>The id a local spawn takes (the start of \<^verbatim>\<open>spawn_internal\<close>).\<close>

definition co_take_local_id :: "('m, 'd, 't, 'cb) coerce_runtime \<Rightarrow> actor_id \<times> ('m, 'd, 't, 'cb) coerce_runtime" where
  "co_take_local_id rt = (ActorId (co_node_id rt) (co_next_local rt), rt\<lparr>co_next_local := co_next_local rt + 1\<rparr>)"

definition co_remote_watch :: "('m, 'd, 't, 'cb) coerce_runtime \<Rightarrow> actor_id \<Rightarrow> actor_id \<Rightarrow> ('m, 'd, 't, 'cb) coerce_runtime" where
  "co_remote_watch rt target watcher = rt\<lparr>co_watch_manager := wm_watch (co_watch_manager rt) target watcher\<rparr>"

definition co_remote_unwatch :: "('m, 'd, 't, 'cb) coerce_runtime \<Rightarrow> actor_id \<Rightarrow> actor_id \<Rightarrow> ('m, 'd, 't, 'cb) coerce_runtime" where
  "co_remote_unwatch rt target watcher = rt\<lparr>co_watch_manager := wm_unwatch (co_watch_manager rt) target watcher\<rparr>"

definition co_notify_terminated ::
  "('m, 'd, 't, 'cb) coerce_runtime \<Rightarrow> actor_id \<Rightarrow> watch_notification list \<times> ('m, 'd, 't, 'cb) coerce_runtime" where
  "co_notify_terminated rt terminated =
     (case wm_on_terminated (co_watch_manager rt) terminated of (ns, wm) \<Rightarrow> (ns, rt\<lparr>co_watch_manager := wm\<rparr>))"

definition co_register_cancel :: "('m, 'd, 't, 'cb) coerce_runtime \<Rightarrow> string \<Rightarrow> 't \<Rightarrow> ('m, 'd, 't, 'cb) coerce_runtime" where
  "co_register_cancel rt request_id token = rt\<lparr>co_cancel_manager := cm_register (co_cancel_manager rt) request_id token\<rparr>"

definition co_cancel_request ::
  "('m, 'd, 't, 'cb) coerce_runtime \<Rightarrow> string \<Rightarrow> cancel_response \<times> 't option \<times> ('m, 'd, 't, 'cb) coerce_runtime" where
  "co_cancel_request rt request_id =
     (case cm_cancel (co_cancel_manager rt) request_id of (resp, tok, cm) \<Rightarrow> (resp, tok, rt\<lparr>co_cancel_manager := cm\<rparr>))"

definition co_complete_request :: "('m, 'd, 't, 'cb) coerce_runtime \<Rightarrow> string \<Rightarrow> ('m, 'd, 't, 'cb) coerce_runtime" where
  "co_complete_request rt request_id = rt\<lparr>co_cancel_manager := cm_remove (co_cancel_manager rt) request_id\<rparr>"

definition co_is_peer_connected :: "('m, 'd, 't, 'cb) coerce_runtime \<Rightarrow> node_id \<Rightarrow> bool" where
  "co_is_peer_connected rt peer = nd_is_connected (co_node_directory rt) peer"

definition co_connect_peer ::
  "('m, 'd, 't, 'cb) coerce_runtime \<Rightarrow> node_id \<Rightarrow> string option \<Rightarrow> cluster_event list \<times> ('m, 'd, 't, 'cb) coerce_runtime" where
  "co_connect_peer rt peer_id address =
     (let was_connected = nd_is_connected (co_node_directory rt) peer_id
      in (if was_connected then [] else [NodeJoined peer_id], rt\<lparr>co_node_directory := cnd_connect_peer (co_node_directory rt) peer_id address\<rparr>))"

definition co_disconnect_peer ::
  "('m, 'd, 't, 'cb) coerce_runtime \<Rightarrow> node_id \<Rightarrow> cluster_event list \<times> ('m, 'd, 't, 'cb) coerce_runtime" where
  "co_disconnect_peer rt peer_id =
     (let was_connected = nd_is_connected (co_node_directory rt) peer_id
      in (if was_connected then [NodeLeft peer_id] else [],
          rt\<lparr>co_node_directory := nd_set_status (co_node_directory rt) peer_id Disconnected\<rparr>))"

section \<open>Routing\<close>

text \<open>What coerce does with a message, by the name of the actor: it may refuse it, or handle it and lose the reply of a send.\<close>

record coerce_env =
  ce_refused :: "string \<Rightarrow> string option"
  ce_no_reply :: "string \<Rightarrow> string option"

definition cnotify_step :: "coerce_env \<Rightarrow> string \<Rightarrow> routing_error + unit" where
  "cnotify_step env actor = (case ce_refused env actor of None \<Rightarrow> Inr () | Some e \<Rightarrow> Inl (RoutingError (actor @ '' notify: '' @ e)))"

definition csend_sent :: "coerce_env \<Rightarrow> string \<Rightarrow> routing_error + unit" where
  "csend_sent env actor = (case ce_refused env actor of None \<Rightarrow> Inr () | Some e \<Rightarrow> Inl (RoutingError (actor @ '' send: '' @ e)))"

definition csend_replied :: "coerce_env \<Rightarrow> string \<Rightarrow> routing_error + unit" where
  "csend_replied env actor = (case ce_no_reply env actor of None \<Rightarrow> Inr () | Some e \<Rightarrow> Inl (RoutingError (actor @ '' send: '' @ e)))"

type_synonym ('m, 'd, 't, 'cb) coerce_routed = "(routing_error + routing_outcome) \<times> 't option \<times> ('m, 'd, 't, 'cb) coerce_runtime"

definition csr_spawn_manager :: "('m, 'd, 't) coerce_system_actor_refs \<Rightarrow> nat \<times> ('m, 'd, 't) coerce_system_actor_refs" where
  "csr_spawn_manager refs = (unat (csr_spawn_manager_counter refs) mod length (csr_spawn_managers refs),
     refs\<lparr>csr_spawn_manager_counter := csr_spawn_manager_counter refs + 1\<rparr>)"

text \<open>The last case is \<^verbatim>\<open>unreachable!\<close> in the code.\<close>

fun coerce_spawn_result :: "string \<Rightarrow> 'm coerce_spawn_outcome \<Rightarrow> routing_outcome" where
  "coerce_spawn_result req_id (CoSuccess actor_id _) = SpawnCompleted req_id actor_id"
| "coerce_spawn_result req_id (CoFailure (SpawnFailure request_id error)) = SpawnFailed request_id error"
| "coerce_spawn_result req_id (CoFailure (SpawnSuccess request_id actor_id)) = SpawnCompleted request_id actor_id"

definition co_route_spawn ::
  "system_codecs \<Rightarrow> coerce_env \<Rightarrow> ('m, 'd, 't, 'cb) coerce_runtime \<Rightarrow> ('m, 'd, 't) coerce_system_actor_refs \<Rightarrow> bytes \<Rightarrow> ('m, 'd, 't, 'cb) coerce_routed" where
  "co_route_spawn codecs env rt refs body =
     (case decode_step ''SpawnRequest'' (decode_spawn_request (sc_spawn codecs) body) of
        Inl e \<Rightarrow> (Inl e, None, rt)
      | Inr request \<Rightarrow>
          (case csr_spawn_manager refs of (idx, refs1) \<Rightarrow>
             case csend_sent env ''SpawnManager'' of
               Inl e \<Rightarrow> (Inl e, None, rt\<lparr>co_system_actors := Some refs1\<rparr>)
             | Inr _ \<Rightarrow>
                 (case csm_handle_spawn_request (csr_spawn_managers refs1 ! idx) request (co_next_local rt) of (r, next_local, a) \<Rightarrow>
                    (rbind (csend_replied env ''SpawnManager'') (\<lambda>_. Inr (coerce_spawn_result (sr_request_id request) r)), None,
                     rt\<lparr>co_next_local := next_local,
                        co_system_actors := Some (refs1\<lparr>csr_spawn_managers := (csr_spawn_managers refs1)[idx := a]\<rparr>)\<rparr>))))"

definition co_route_watch ::
  "system_codecs \<Rightarrow> coerce_env \<Rightarrow> ('m, 'd, 't, 'cb) coerce_runtime \<Rightarrow> ('m, 'd, 't) coerce_system_actor_refs \<Rightarrow> bytes \<Rightarrow> ('m, 'd, 't, 'cb) coerce_routed" where
  "co_route_watch codecs env rt refs body =
     (case rbind (decode_step ''WatchRequest'' (decode_watch_request (sc_watch codecs) body))
             (\<lambda>request. rbind (cnotify_step env ''WatchManager'') (\<lambda>_. Inr request)) of
        Inl e \<Rightarrow> (Inl e, None, rt)
      | Inr request \<Rightarrow> (Inr Acknowledged, None, rt\<lparr>co_system_actors := Some (refs\<lparr>csr_watch_manager :=
          cwm_remote_watch (csr_watch_manager refs) (wr_target request) (wr_watcher request)\<rparr>)\<rparr>))"

definition co_route_unwatch ::
  "system_codecs \<Rightarrow> coerce_env \<Rightarrow> ('m, 'd, 't, 'cb) coerce_runtime \<Rightarrow> ('m, 'd, 't) coerce_system_actor_refs \<Rightarrow> bytes \<Rightarrow> ('m, 'd, 't, 'cb) coerce_routed" where
  "co_route_unwatch codecs env rt refs body =
     (case rbind (decode_step ''UnwatchRequest'' (decode_unwatch_request (sc_watch codecs) body))
             (\<lambda>request. rbind (cnotify_step env ''WatchManager'') (\<lambda>_. Inr request)) of
        Inl e \<Rightarrow> (Inl e, None, rt)
      | Inr request \<Rightarrow> (Inr Acknowledged, None, rt\<lparr>co_system_actors := Some (refs\<lparr>csr_watch_manager :=
          cwm_remote_unwatch (csr_watch_manager refs) (uwr_target request) (uwr_watcher request)\<rparr>)\<rparr>))"

definition co_route_cancel ::
  "system_codecs \<Rightarrow> coerce_env \<Rightarrow> ('m, 'd, 't, 'cb) coerce_runtime \<Rightarrow> ('m, 'd, 't) coerce_system_actor_refs \<Rightarrow> bytes \<Rightarrow> ('m, 'd, 't, 'cb) coerce_routed" where
  "co_route_cancel codecs env rt refs body =
     (case rbind (decode_step ''CancelRequest'' (decode_cancel_request (sc_cancel codecs) body))
             (\<lambda>request. rbind (ok_or (RoutingError ''CancelRequest missing request_id'') (cr_request_id request))
             (\<lambda>i. rbind (csend_sent env ''CancelManager'') (\<lambda>_. Inr i))) of
        Inl e \<Rightarrow> (Inl e, None, rt)
      | Inr i \<Rightarrow>
          (case ccm_cancel_by_id (csr_cancel_manager refs) i of (resp, tok, cm) \<Rightarrow>
             (rbind (csend_replied env ''CancelManager'')
                (\<lambda>_. Inr (case resp of CancelAck \<Rightarrow> CancelAcknowledged | CancelUnknown reason \<Rightarrow> CancelNotFound reason)),
              tok, rt\<lparr>co_system_actors := Some (refs\<lparr>csr_cancel_manager := cm\<rparr>)\<rparr>)))"

definition co_route_connect ::
  "system_codecs \<Rightarrow> coerce_env \<Rightarrow> ('m, 'd, 't, 'cb) coerce_runtime \<Rightarrow> ('m, 'd, 't) coerce_system_actor_refs \<Rightarrow> bytes \<Rightarrow> ('m, 'd, 't, 'cb) coerce_routed" where
  "co_route_connect codecs env rt refs body =
     (case rbind (decode_step ''ConnectPeer'' (decode_connect_peer (sc_connect codecs) body))
             (\<lambda>request. rbind (cnotify_step env ''NodeDirectory'') (\<lambda>_. Inr request)) of
        Inl e \<Rightarrow> (Inl e, None, rt)
      | Inr (peer_id, address) \<Rightarrow> (Inr Acknowledged, None, rt\<lparr>co_system_actors := Some (refs\<lparr>csr_node_directory :=
          cnd_connect_peer (csr_node_directory refs) peer_id address\<rparr>)\<rparr>))"

definition co_route_disconnect ::
  "system_codecs \<Rightarrow> coerce_env \<Rightarrow> ('m, 'd, 't, 'cb) coerce_runtime \<Rightarrow> ('m, 'd, 't) coerce_system_actor_refs \<Rightarrow> bytes \<Rightarrow> ('m, 'd, 't, 'cb) coerce_routed" where
  "co_route_disconnect codecs env rt refs body =
     (case rbind (decode_step ''DisconnectPeer'' (decode_disconnect_peer (sc_disconnect codecs) body))
             (\<lambda>peer_id. rbind (cnotify_step env ''NodeDirectory'') (\<lambda>_. Inr peer_id)) of
        Inl e \<Rightarrow> (Inl e, None, rt)
      | Inr peer_id \<Rightarrow> (Inr Acknowledged, None, rt\<lparr>co_system_actors := Some (refs\<lparr>csr_node_directory :=
          cnd_disconnect_peer (csr_node_directory refs) peer_id\<rparr>)\<rparr>))"

definition co_route_system_envelope ::
  "system_codecs \<Rightarrow> coerce_env \<Rightarrow> ('m, 'd, 't, 'cb) coerce_runtime \<Rightarrow> wire_envelope \<Rightarrow> ('m, 'd, 't, 'cb) coerce_routed" where
  "co_route_system_envelope codecs env rt envelope =
     (let ty = we_message_type envelope; body = we_body envelope
      in case rbind (validate_system_message_type ty) (\<lambda>_. ok_or (RoutingError ''system actors not started'') (co_system_actors rt)) of
        Inl e \<Rightarrow> (Inl e, None, rt)
      | Inr refs \<Rightarrow>
         if ty = SYSTEM_MSG_TYPE_SPAWN then co_route_spawn codecs env rt refs body
         else if ty = SYSTEM_MSG_TYPE_WATCH then co_route_watch codecs env rt refs body
         else if ty = SYSTEM_MSG_TYPE_UNWATCH then co_route_unwatch codecs env rt refs body
         else if ty = SYSTEM_MSG_TYPE_CANCEL then co_route_cancel codecs env rt refs body
         else if ty = SYSTEM_MSG_TYPE_CONNECT_PEER then co_route_connect codecs env rt refs body
         else if ty = SYSTEM_MSG_TYPE_DISCONNECT_PEER then co_route_disconnect codecs env rt refs body
         else (Inl (RoutingError (''unhandled system message type: '' @ ty)), None, rt))"


section \<open>Lemmas\<close>

interpretation coerce_peers: peer_runtime co_connect_peer co_disconnect_peer co_is_peer_connected
proof -
  have connect: "cnd_connect_peer nd p a = nd_connect nd p a" for nd p a
    by (simp add: cnd_connect_peer_def nd_connect_def Let_def split: option.splits)
  show "peer_runtime co_connect_peer co_disconnect_peer co_is_peer_connected"
    by unfold_locales (auto simp: co_connect_peer_def co_disconnect_peer_def co_is_peer_connected_def connect Let_def)
qed

text \<open>A coerce node seen as a kameo node, and so as a ractor node.\<close>

definition csm_to_kameo :: "('m, 'd) coerce_spawn_manager \<Rightarrow> ('m, 'd) kameo_spawn_manager" where
  "csm_to_kameo a = \<lparr>ksm_manager = csm_manager a, ksm_node_id = csm_node_id a\<rparr>"

definition csr_to_kameo :: "('m, 'd, 't) coerce_system_actor_refs \<Rightarrow> ('m, 'd, 't) kameo_system_actor_refs" where
  "csr_to_kameo refs = \<lparr>ksr_spawn_managers = map csm_to_kameo (csr_spawn_managers refs), ksr_spawn_manager_counter = csr_spawn_manager_counter refs,
     ksr_watch_manager = csr_watch_manager refs, ksr_cancel_manager = csr_cancel_manager refs, ksr_node_directory = csr_node_directory refs\<rparr>"

definition co_to_kameo :: "('m, 'd, 't, 'cb) coerce_runtime \<Rightarrow> ('m, 'd, 't, 'cb) kameo_runtime" where
  "co_to_kameo rt = \<lparr>kr_node_id = co_node_id rt, kr_next_local = co_next_local rt, kr_cluster_events = co_cluster_events rt,
     kr_spawn_manager = co_spawn_manager rt, kr_watch_manager = co_watch_manager rt, kr_cancel_manager = co_cancel_manager rt,
     kr_node_directory = co_node_directory rt, kr_system_actors = map_option csr_to_kameo (co_system_actors rt), kr_app_version = co_app_version rt\<rparr>"

definition coerce_to_ractor :: "('m, 'd, 't, 'cb) coerce_runtime \<Rightarrow> ('m, 'd, 't, 'cb) ractor_runtime" where
  "coerce_to_ractor rt = to_ractor (co_to_kameo rt)"

definition coerce_healthy :: "coerce_env \<Rightarrow> bool" where
  "coerce_healthy env \<longleftrightarrow> ce_refused env = (\<lambda>_. None) \<and> ce_no_reply env = (\<lambda>_. None)"

definition co_ok :: "('m, 'd, 't, 'cb) coerce_runtime \<Rightarrow> bool" where
  "co_ok rt \<longleftrightarrow> kr_ok (co_to_kameo rt)"

lemma csm_handle_to_kameo:
  assumes "csm_handle_spawn_request a request nl = (r, nl', a')"
  shows "\<exists>x. ksm_handle_spawn_request (csm_to_kameo a) request nl = (x, nl', csm_to_kameo a') \<and> kameo_spawn_result i x = coerce_spawn_result i r"
  using assms by (auto simp: csm_handle_spawn_request_def ksm_handle_spawn_request_def csm_to_kameo_def coerce_success_def Let_def split: sum.splits)

lemma co_route_spawn_to_kameo:
  assumes "csr_spawn_managers refs \<noteq> []" "coerce_healthy cenv" "kameo_healthy kenv"
  shows "map_prod id (map_prod id co_to_kameo) (co_route_spawn codecs cenv rt refs body) = kr_route_spawn codecs kenv (co_to_kameo rt) (csr_to_kameo refs) body"
proof (cases "decode_step ''SpawnRequest'' (decode_spawn_request (sc_spawn codecs) body)")
  case (Inl e)
  then show ?thesis by (simp add: co_route_spawn_def kr_route_spawn_def)
next
  case (Inr request)
  let ?idx = "unat (csr_spawn_manager_counter refs) mod length (csr_spawn_managers refs)"
  have idx: "?idx < length (csr_spawn_managers refs)" using assms(1) by simp
  have h: "csend_sent cenv a = Inr ()" "csend_replied cenv a = Inr ()" "kask_sent kenv a = Inr ()" "kask_replied kenv a = Inr ()" for a
    using assms by (simp_all add: coerce_healthy_def kameo_healthy_def csend_sent_def csend_replied_def kask_sent_def kask_replied_def)
  obtain r nl a where run: "csm_handle_spawn_request (csr_spawn_managers refs ! ?idx) request (co_next_local rt) = (r, nl, a)" by (rule prod_cases3)
  from csm_handle_to_kameo [OF run] obtain x where
    "ksm_handle_spawn_request (csm_to_kameo (csr_spawn_managers refs ! ?idx)) request (co_next_local rt) = (x, nl, csm_to_kameo a)"
    "kameo_spawn_result (sr_request_id request) x = coerce_spawn_result (sr_request_id request) r" by blast
  then show ?thesis
    using Inr run idx by (simp add: co_route_spawn_def kr_route_spawn_def csr_spawn_manager_def ksr_spawn_manager_def h)
      (simp add: co_to_kameo_def csr_to_kameo_def map_update)
qed

lemma coerce_healthy_steps:
  assumes "coerce_healthy cenv" "kameo_healthy kenv"
  shows "cnotify_step cenv a = Inr ()" "csend_sent cenv a = Inr ()" "csend_replied cenv a = Inr ()"
    "ktell_step kenv a = Inr ()" "kask_sent kenv a = Inr ()" "kask_replied kenv a = Inr ()"
  using assms by (simp_all add: coerce_healthy_def kameo_healthy_def cnotify_step_def csend_sent_def csend_replied_def ktell_step_def kask_sent_def kask_replied_def)

lemma co_arms_to_kameo:
  assumes "coerce_healthy cenv" "kameo_healthy kenv"
  shows "map_prod id (map_prod id co_to_kameo) (co_route_watch codecs cenv rt refs body) = kr_route_watch codecs kenv (co_to_kameo rt) (csr_to_kameo refs) body"
    "map_prod id (map_prod id co_to_kameo) (co_route_unwatch codecs cenv rt refs body) = kr_route_unwatch codecs kenv (co_to_kameo rt) (csr_to_kameo refs) body"
    "map_prod id (map_prod id co_to_kameo) (co_route_cancel codecs cenv rt refs body) = kr_route_cancel codecs kenv (co_to_kameo rt) (csr_to_kameo refs) body"
    "map_prod id (map_prod id co_to_kameo) (co_route_connect codecs cenv rt refs body) = kr_route_connect codecs kenv (co_to_kameo rt) (csr_to_kameo refs) body"
    "map_prod id (map_prod id co_to_kameo) (co_route_disconnect codecs cenv rt refs body) = kr_route_disconnect codecs kenv (co_to_kameo rt) (csr_to_kameo refs) body"
proof -
  note h [simp] = coerce_healthy_steps [OF assms]
  note [simp] = co_to_kameo_def csr_to_kameo_def
  show "map_prod id (map_prod id co_to_kameo) (co_route_watch codecs cenv rt refs body) = kr_route_watch codecs kenv (co_to_kameo rt) (csr_to_kameo refs) body"
    by (simp add: co_route_watch_def kr_route_watch_def cwm_remote_watch_def kwm_remote_watch_def split: sum.split)
  show "map_prod id (map_prod id co_to_kameo) (co_route_unwatch codecs cenv rt refs body) = kr_route_unwatch codecs kenv (co_to_kameo rt) (csr_to_kameo refs) body"
    by (simp add: co_route_unwatch_def kr_route_unwatch_def cwm_remote_unwatch_def kwm_remote_unwatch_def split: sum.split)
  show "map_prod id (map_prod id co_to_kameo) (co_route_cancel codecs cenv rt refs body) = kr_route_cancel codecs kenv (co_to_kameo rt) (csr_to_kameo refs) body"
    by (simp add: co_route_cancel_def kr_route_cancel_def ccm_cancel_by_id_def kcm_cancel_by_id_def split: sum.split prod.split)
  show "map_prod id (map_prod id co_to_kameo) (co_route_connect codecs cenv rt refs body) = kr_route_connect codecs kenv (co_to_kameo rt) (csr_to_kameo refs) body"
    by (simp add: co_route_connect_def kr_route_connect_def cnd_connect_peer_def knd_connect_peer_def split: sum.split prod.split)
  show "map_prod id (map_prod id co_to_kameo) (co_route_disconnect codecs cenv rt refs body) = kr_route_disconnect codecs kenv (co_to_kameo rt) (csr_to_kameo refs) body"
    by (simp add: co_route_disconnect_def kr_route_disconnect_def cnd_disconnect_peer_def knd_disconnect_peer_def split: sum.split)
qed

lemma co_route_to_kameo:
  assumes ok: "co_ok rt" and env: "coerce_healthy cenv" "kameo_healthy kenv"
  shows "map_prod id (map_prod id co_to_kameo) (co_route_system_envelope codecs cenv rt envelope) =
    kr_route_system_envelope codecs kenv (co_to_kameo rt) envelope"
proof (cases "co_system_actors rt")
  case None
  have refs: "kr_system_actors (co_to_kameo rt) = None" by (simp add: co_to_kameo_def None)
  show ?thesis unfolding co_route_system_envelope_def kr_route_system_envelope_def Let_def None refs
    by (cases "validate_system_message_type (we_message_type envelope)") simp_all
next
  case (Some refs)
  let ?b = "we_body envelope"
  have ws: "csr_spawn_managers refs \<noteq> []" using ok Some by (simp add: co_ok_def kr_ok_def co_to_kameo_def csr_to_kameo_def)
  define sim where "sim c k \<longleftrightarrow> map_prod id (map_prod id co_to_kameo) c = k" for c :: "('a, 'b, 'c, 'd) coerce_routed" and k
  have arms: "sim (co_route_spawn codecs cenv rt refs ?b) (kr_route_spawn codecs kenv (co_to_kameo rt) (csr_to_kameo refs) ?b)"
    "sim (co_route_watch codecs cenv rt refs ?b) (kr_route_watch codecs kenv (co_to_kameo rt) (csr_to_kameo refs) ?b)"
    "sim (co_route_unwatch codecs cenv rt refs ?b) (kr_route_unwatch codecs kenv (co_to_kameo rt) (csr_to_kameo refs) ?b)"
    "sim (co_route_cancel codecs cenv rt refs ?b) (kr_route_cancel codecs kenv (co_to_kameo rt) (csr_to_kameo refs) ?b)"
    "sim (co_route_connect codecs cenv rt refs ?b) (kr_route_connect codecs kenv (co_to_kameo rt) (csr_to_kameo refs) ?b)"
    "sim (co_route_disconnect codecs cenv rt refs ?b) (kr_route_disconnect codecs kenv (co_to_kameo rt) (csr_to_kameo refs) ?b)"
    "sim (Inl e, None, rt) (Inl e, None, co_to_kameo rt)" for e
    using co_route_spawn_to_kameo [OF ws env] co_arms_to_kameo [OF env] by (simp_all add: sim_def)
  have refs: "kr_system_actors (co_to_kameo rt) = Some (csr_to_kameo refs)" by (simp add: co_to_kameo_def Some)
  have "sim (co_route_system_envelope codecs cenv rt envelope) (kr_route_system_envelope codecs kenv (co_to_kameo rt) envelope)"
    unfolding co_route_system_envelope_def kr_route_system_envelope_def Let_def Some refs
    by (cases "validate_system_message_type (we_message_type envelope)") (simp_all add: arms)
  then show ?thesis by (simp add: sim_def)
qed

lemma co_route_refines:
  assumes ok: "co_ok rt" and env: "coerce_healthy cenv" "ractor_healthy renv"
  shows "map_prod id (map_prod id coerce_to_ractor) (co_route_system_envelope codecs cenv rt envelope) =
      rr_route_system_envelope codecs renv (coerce_to_ractor rt) envelope" and "co_ok (snd (snd (co_route_system_envelope codecs cenv rt envelope)))"
proof -
  note k = co_route_to_kameo [OF ok env(1) sample_healthy(1), of codecs envelope, symmetric]
  note r = kr_route_refines [OF ok [unfolded co_ok_def] sample_healthy(1) env(2), of codecs envelope, unfolded k]
  show "map_prod id (map_prod id coerce_to_ractor) (co_route_system_envelope codecs cenv rt envelope) =
      rr_route_system_envelope codecs renv (coerce_to_ractor rt) envelope"
    using r by (simp add: coerce_to_ractor_def map_prod_def split_beta)
  show "co_ok (snd (snd (co_route_system_envelope codecs cenv rt envelope)))"
    using r by (simp add: co_ok_def map_prod_def split_beta)
qed

section \<open>Calls and answers\<close>

text \<open>The calls to the runtime of a node, and what the caller gets back. Of a local spawn there is the id it takes (\<open>NoLocalSpawn\<close>); the references,
  interceptors, watches between local actors and stop handles of a runtime are not part of the node's state here.\<close>

datatype ('m, 't) node_op =
    NoRegister string "'m deserializer_fn" | NoStart system_actor_config | NoSpawn spawn_request | NoRoute wire_envelope
  | NoWatch actor_id actor_id | NoUnwatch actor_id actor_id | NoTerminated actor_id
  | NoRegisterCancel string 't | NoCancel string | NoComplete string | NoConnect node_id "string option" | NoDisconnect node_id
  | NoIsConnected node_id | NoLocalSpawn | NoAppVersion string | NoHandshake

datatype ('m, 't) node_answer =
    AnsUnit | AnsSpawn "spawn_response + actor_id \<times> 'm" | AnsRouted "routing_error + routing_outcome" "'t option"
  | AnsTerminated "watch_notification list" | AnsCancel cancel_response "'t option" | AnsEvents "cluster_event list"
  | AnsBool bool | AnsId actor_id | AnsHandshake handshake_request

fun ractor_node_step ::
  "system_codecs \<Rightarrow> ractor_env \<Rightarrow> ('m, 'd, 't, 'cb) ractor_runtime \<Rightarrow> ('m, 't) node_op \<Rightarrow> ('m, 't) node_answer \<times> ('m, 'd, 't, 'cb) ractor_runtime" where
  "ractor_node_step codecs env rt (NoRegister ty f) = (AnsUnit, rr_register_factory rt ty f)"
| "ractor_node_step codecs env rt (NoStart config) = (AnsUnit, rr_start_system_actors_with_config rt config)"
| "ractor_node_step codecs env rt (NoSpawn request) = map_prod AnsSpawn id (rr_handle_spawn_request rt request)"
| "ractor_node_step codecs env rt (NoRoute envelope) = (case rr_route_system_envelope codecs env rt envelope of (r, tok, rt') \<Rightarrow> (AnsRouted r tok, rt'))"
| "ractor_node_step codecs env rt (NoWatch t w) = (AnsUnit, rr_remote_watch rt t w)"
| "ractor_node_step codecs env rt (NoUnwatch t w) = (AnsUnit, rr_remote_unwatch rt t w)"
| "ractor_node_step codecs env rt (NoTerminated t) = map_prod AnsTerminated id (rr_notify_terminated rt t)"
| "ractor_node_step codecs env rt (NoRegisterCancel r tok) = (AnsUnit, rr_register_cancel rt r tok)"
| "ractor_node_step codecs env rt (NoCancel r) = (case rr_cancel_request rt r of (resp, tok, rt') \<Rightarrow> (AnsCancel resp tok, rt'))"
| "ractor_node_step codecs env rt (NoComplete r) = (AnsUnit, rr_complete_request rt r)"
| "ractor_node_step codecs env rt (NoConnect p a) = map_prod AnsEvents id (rr_connect_peer rt p a)"
| "ractor_node_step codecs env rt (NoDisconnect p) = map_prod AnsEvents id (rr_disconnect_peer rt p)"
| "ractor_node_step codecs env rt (NoIsConnected p) = (AnsBool (rr_is_peer_connected rt p), rt)"
| "ractor_node_step codecs env rt NoLocalSpawn = map_prod AnsId id (rr_take_local_id rt)"
| "ractor_node_step codecs env rt (NoAppVersion version) = (AnsUnit, rr_with_app_version rt version)"
| "ractor_node_step codecs env rt NoHandshake = (AnsHandshake (rr_handshake_request rt), rt)"

fun coerce_node_step ::
  "system_codecs \<Rightarrow> coerce_env \<Rightarrow> ('m, 'd, 't, 'cb) coerce_runtime \<Rightarrow> ('m, 't) node_op \<Rightarrow> ('m, 't) node_answer \<times> ('m, 'd, 't, 'cb) coerce_runtime" where
  "coerce_node_step codecs env rt (NoRegister ty f) = (AnsUnit, co_register_factory rt ty f)"
| "coerce_node_step codecs env rt (NoStart config) = (AnsUnit, co_start_system_actors_with_config rt config)"
| "coerce_node_step codecs env rt (NoSpawn request) = map_prod AnsSpawn id (co_handle_spawn_request rt request)"
| "coerce_node_step codecs env rt (NoRoute envelope) = (case co_route_system_envelope codecs env rt envelope of (r, tok, rt') \<Rightarrow> (AnsRouted r tok, rt'))"
| "coerce_node_step codecs env rt (NoWatch t w) = (AnsUnit, co_remote_watch rt t w)"
| "coerce_node_step codecs env rt (NoUnwatch t w) = (AnsUnit, co_remote_unwatch rt t w)"
| "coerce_node_step codecs env rt (NoTerminated t) = map_prod AnsTerminated id (co_notify_terminated rt t)"
| "coerce_node_step codecs env rt (NoRegisterCancel r tok) = (AnsUnit, co_register_cancel rt r tok)"
| "coerce_node_step codecs env rt (NoCancel r) = (case co_cancel_request rt r of (resp, tok, rt') \<Rightarrow> (AnsCancel resp tok, rt'))"
| "coerce_node_step codecs env rt (NoComplete r) = (AnsUnit, co_complete_request rt r)"
| "coerce_node_step codecs env rt (NoConnect p a) = map_prod AnsEvents id (co_connect_peer rt p a)"
| "coerce_node_step codecs env rt (NoDisconnect p) = map_prod AnsEvents id (co_disconnect_peer rt p)"
| "coerce_node_step codecs env rt (NoIsConnected p) = (AnsBool (co_is_peer_connected rt p), rt)"
| "coerce_node_step codecs env rt NoLocalSpawn = map_prod AnsId id (co_take_local_id rt)"
| "coerce_node_step codecs env rt (NoAppVersion version) = (AnsUnit, co_with_app_version rt version)"
| "coerce_node_step codecs env rt NoHandshake = (AnsHandshake (co_handshake_request rt), rt)"

fun answers :: "('r \<Rightarrow> 'x \<Rightarrow> 'b \<times> 'r) \<Rightarrow> 'r \<Rightarrow> 'x list \<Rightarrow> 'b list" where
  "answers step rt [] = []"
| "answers step rt (x # xs) = (case step rt x of (b, rt') \<Rightarrow> b # answers step rt' xs)"

text \<open>A step that commutes with an abstraction, up to a view of the answers, as the contract under which two nodes give the same answers.\<close>

locale node_simulation =
  fixes step :: "'r \<Rightarrow> 'x \<Rightarrow> 'b \<times> 'r" and spec_step :: "'s \<Rightarrow> 'x \<Rightarrow> 'b \<times> 's" and view :: "'b \<Rightarrow> 'b" and abst :: "'r \<Rightarrow> 's" and good :: "'r \<Rightarrow> bool"
  assumes step_refines: "good rt \<Longrightarrow> map_prod view abst (step rt x) = spec_step (abst rt) x"
    and step_good: "good rt \<Longrightarrow> good (snd (step rt x))"
begin

lemma same_answers: "good rt \<Longrightarrow> map view (answers step rt xs) = answers spec_step (abst rt) xs"
proof (induction xs arbitrary: rt)
  case (Cons x xs)
  obtain b rt' where "step rt x = (b, rt')" by force
  then show ?case using Cons.IH [of rt'] Cons.prems step_refines [of rt x, symmetric] step_good [of rt x] by simp
qed simp

end

lemma coerce_register_refines: "coerce_to_ractor (co_register_factory rt ty f) = rr_register_factory (coerce_to_ractor rt) ty f"
proof (cases "co_system_actors rt")
  case None
  then show ?thesis
    by (simp add: coerce_to_ractor_def co_to_kameo_def to_ractor_def co_register_factory_def rr_register_factory_def sma_register_factory_def)
next
  case (Some refs)
  let ?register = "\<lambda>w. csm_register_factory w ty f"
  have "to_ractor_refs (csr_to_kameo (refs\<lparr>csr_spawn_managers := map ?register (csr_spawn_managers refs)\<rparr>)) =
      (to_ractor_refs (csr_to_kameo refs))\<lparr>sar_spawn_manager := handle_register ty f (sar_spawn_manager (to_ractor_refs (csr_to_kameo refs)))\<rparr>"
    by (cases "csr_spawn_managers refs") (auto simp: to_ractor_refs_def csr_to_kameo_def csm_to_kameo_def csm_register_factory_def sma_register_factory_def)
  then show ?thesis
    using Some by (simp add: coerce_to_ractor_def co_to_kameo_def to_ractor_def co_register_factory_def rr_register_factory_def sma_register_factory_def)
qed

lemma coerce_start_refines:
  "coerce_to_ractor (co_start_system_actors_with_config rt config) = rr_start_system_actors_with_config (coerce_to_ractor rt) config"
  by (auto simp: coerce_to_ractor_def co_to_kameo_def csr_to_kameo_def csm_to_kameo_def to_ractor_def to_ractor_refs_def
    co_start_system_actors_with_config_def rr_start_system_actors_with_config_def csm_new_def Let_def)


text \<open>An answer with another name for the adapter in it.\<close>

fun under_adapter :: "string \<Rightarrow> ('m, 't) node_answer \<Rightarrow> ('m, 't) node_answer" where
  "under_adapter adapter (AnsHandshake (HandshakeRequest n v app _)) = AnsHandshake (HandshakeRequest n v app adapter)"
| "under_adapter adapter answer = answer"

definition coerce_delivers :: coerce_env where
  "coerce_delivers = \<lparr>ce_refused = (\<lambda>_. None), ce_no_reply = (\<lambda>_. None)\<rparr>"

definition ractor_delivers :: ractor_env where
  "ractor_delivers = \<lparr>re_cast_error = (\<lambda>_. None), re_reply_dropped = (\<lambda>_. False)\<rparr>"

lemma delivers_healthy: "coerce_healthy coerce_delivers" "ractor_healthy ractor_delivers"
  by (simp_all add: coerce_healthy_def ractor_healthy_def coerce_delivers_def ractor_delivers_def)

lemma coerce_step_refines:
  assumes "co_ok rt"
  shows "map_prod (under_adapter ''ractor'') coerce_to_ractor (coerce_node_step codecs coerce_delivers rt x) = ractor_node_step codecs ractor_delivers (coerce_to_ractor rt) x"
proof (cases x)
  case (NoRoute envelope)
  then show ?thesis
    using co_route_refines(1) [OF assms delivers_healthy, of codecs envelope, symmetric] by (simp add: split_beta)
next
  case (NoConnect p a)
  have "cnd_connect_peer nd p a = nd_connect nd p a" for nd by (simp add: cnd_connect_peer_def nd_connect_def Let_def split: option.splits)
  then show ?thesis
    using NoConnect by (simp add: co_connect_peer_def rr_connect_peer_def coerce_to_ractor_def to_ractor_def co_to_kameo_def Let_def)
qed (simp_all add: coerce_register_refines coerce_start_refines, simp_all add: coerce_to_ractor_def to_ractor_def co_to_kameo_def
  co_handle_spawn_request_def rr_handle_spawn_request_def co_remote_watch_def rr_remote_watch_def co_remote_unwatch_def rr_remote_unwatch_def
  co_notify_terminated_def rr_notify_terminated_def co_register_cancel_def rr_register_cancel_def co_cancel_request_def rr_cancel_request_def
  co_complete_request_def rr_complete_request_def co_disconnect_peer_def rr_disconnect_peer_def co_is_peer_connected_def rr_is_peer_connected_def
  co_take_local_id_def rr_take_local_id_def co_with_app_version_def rr_with_app_version_def co_handshake_request_def rr_handshake_request_def
  hs_from_runtime_def Let_def split: sum.split prod.split)

lemma coerce_step_ok: "co_ok rt \<Longrightarrow> co_ok (snd (coerce_node_step codecs coerce_delivers rt x))"
proof (cases x)
  case (NoRoute envelope)
  moreover assume "co_ok rt"
  ultimately show ?thesis using co_route_refines(2) [OF _ delivers_healthy, of rt codecs envelope] by (simp add: split_beta)
qed (auto simp: co_ok_def kr_ok_def co_to_kameo_def csr_to_kameo_def csm_to_kameo_def csm_new_def csm_register_factory_def co_register_factory_def
  co_start_system_actors_with_config_def co_handle_spawn_request_def co_remote_watch_def co_remote_unwatch_def co_notify_terminated_def
  co_register_cancel_def co_cancel_request_def co_complete_request_def co_connect_peer_def co_disconnect_peer_def co_take_local_id_def
  co_with_app_version_def Let_def split: sum.splits prod.splits)

interpretation coerce_node: node_simulation "coerce_node_step codecs coerce_delivers" "ractor_node_step codecs ractor_delivers" "under_adapter ''ractor''"
  coerce_to_ractor co_ok
  for codecs
  by unfold_locales (fact coerce_step_refines, fact coerce_step_ok)

section \<open>Properties\<close>

text \<open>C17. A coerce node and a ractor node give the same answers. While the actor libraries deliver messages and replies, any sequence of the calls of
  \<open>node_op\<close> on a new coerce node (registering factories, starting the system actors, spawn requests, the ids of local spawns, routed envelopes, watches,
  terminations, cancellations, peers, the application version, handshake requests) is answered as a new ractor node answers it, except that a
  handshake request names the adapter it comes from.\<close>

theorem coerce_node_equivalent:
  "map (under_adapter ''ractor'') (answers (coerce_node_step codecs coerce_delivers) (co_create n :: ('m, 'd, 't, 'cb) coerce_runtime) xs) =
     answers (ractor_node_step codecs ractor_delivers) (rr_create n :: ('m, 'd, 't, 'cb) ractor_runtime) xs"
proof -
  have "coerce_to_ractor (co_create n :: ('m, 'd, 't, 'cb) coerce_runtime) = rr_create n"
    by (simp add: coerce_to_ractor_def co_to_kameo_def to_ractor_def co_create_def rr_create_def)
  moreover have "co_ok (co_create n :: ('m, 'd, 't, 'cb) coerce_runtime)" by (simp add: co_ok_def kr_ok_def co_to_kameo_def co_create_def)
  ultimately show ?thesis using coerce_node.same_answers by metis
qed

end
