(* ===== verification/Ractor_Actor.thy ===== *)
theory Ractor_Actor
  imports Dispatch Circuit_Breaker Supervision Ractor_Node
begin

text \<open>
  An actor of the ractor adapter (\<^verbatim>\<open>dactor-ractor/src/runtime.rs\<close>): the wrapper that runs the inbound interceptors, the user's
  handler and the lifecycle hooks for one message at a time, its references with their outbound interceptors and bounded
  mailboxes, local watches and the stop handles. The ractor crate is not part of the repository: its mailbox is a parameter.
\<close>

section \<open>The actor\<close>

type_synonym ('a, 'p, 'w, 'y) handler_future = "('a, 'p, 'w) exec \<times> 'y dispatch_result handler_run option"

text \<open>The state of the wrapper. \<open>ras_istate\<close> is the state the interceptors share; the stop notifier is the number of its channel.\<close>

record ('a, 'm, 'y, 'p, 'w, 'j, 'h) ractor_actor_state =
  ras_actor :: 'a
  ras_ctx :: "'p actor_context"
  ras_interceptors :: "('p, 'm, 'y, 'j, ('a, 'p, 'w, 'y) handler_future) inbound_interceptor list"
  ras_istate :: 'j
  ras_stop_reason :: "string option"
  ras_dead_letter_handler :: "'h dead_letter_handler option"
  ras_stop_notifier :: "nat option"

text \<open>What the wrapper acts on besides: the world of the handlers, the reply channels, the dead letters, the sleeps, and whether
  it has asked ractor to stop it.\<close>

record ('y, 'w, 'h) surroundings =
  su_world :: 'w
  su_oneshots :: "'y oneshots"
  su_letters :: 'h
  su_slept :: "duration list"
  su_stop :: bool

text \<open>Cancellation tokens belong to tokio: whether one is cancelled in a world, and the state in which it stops a handler that has
  not finished when it fires, \<open>None\<close> if the handler finishes first.\<close>

record ('a, 'm, 'i, 'p, 'w) token_env =
  te_is_cancelled :: "cancel_token \<Rightarrow> 'w \<Rightarrow> bool"
  te_fires :: "cancel_token \<Rightarrow> ('m, 'i) dispatch \<Rightarrow> ('a, 'p, 'w) exec \<Rightarrow> ('a, 'p, 'w) exec option"

definition ra_pre_start ::
  "('a, 'm, 'i, 'y, 'p, 'w) actor_impl \<Rightarrow> 'a \<Rightarrow> actor_id \<Rightarrow> string
    \<Rightarrow> ('p, 'm, 'y, 'j, ('a, 'p, 'w, 'y) handler_future) inbound_interceptor list \<Rightarrow> 'j \<Rightarrow> 'h dead_letter_handler option \<Rightarrow> nat \<Rightarrow> 'w
    \<Rightarrow> ('a, 'm, 'y, 'p, 'w, 'j, 'h) ractor_actor_state option \<times> 'w" where
  "ra_pre_start A created actor_id actor_name is j letters notifier w =
     (case ai_on_start A (created, ac_new actor_id actor_name, w) of
        (Returned _, actor, ctx, w1) \<Rightarrow>
          (Some \<lparr>ras_actor = actor, ras_ctx = ctx, ras_interceptors = is, ras_istate = j, ras_stop_reason = None,
                 ras_dead_letter_handler = letters, ras_stop_notifier = Some notifier\<rparr>, w1)
      | (Panicked, _, _, w1) \<Rightarrow> (None, w1))"

text \<open>The pass of the inbound interceptors: the headers, the total delay, and who turned the message away and how.\<close>

fun run_on_receive ::
  "inbound_context \<Rightarrow> 'm option \<Rightarrow> ('p, 'm, 'y, 'j, 'f) inbound_interceptor list \<Rightarrow> 'p headers \<Rightarrow> duration \<Rightarrow> 'j
    \<Rightarrow> (string \<times> disposition) option \<times> 'p headers \<times> duration \<times> 'j" where
  "run_on_receive ctx msg [] h total_delay j = (None, h, total_delay, j)"
| "run_on_receive ctx msg (i # is) h total_delay j =
     (case ii_on_receive i ctx msg h j of (disp, h1, j1) \<Rightarrow>
        case disp of
          Continue \<Rightarrow> run_on_receive ctx msg is h1 total_delay j1
        | Delay d \<Rightarrow> run_on_receive ctx msg is h1 (total_delay + d) j1
        | _ \<Rightarrow> (Some (ii_name i, disp), h1, total_delay, j1))"

definition run_on_complete ::
  "('p, 'm, 'y, 'j, 'f) inbound_interceptor list \<Rightarrow> inbound_context \<Rightarrow> 'p headers \<Rightarrow> 'y outcome \<Rightarrow> 'j \<Rightarrow> 'j" where
  "run_on_complete is ctx h outcome j = foldl (\<lambda>j i. ii_on_complete i ctx h outcome j) j is"

definition ra_inbound_context :: "('a, 'm, 'i, 'y, 'p, 'w) actor_impl \<Rightarrow> 'p actor_context \<Rightarrow> ('m, 'i) dispatch \<Rightarrow> inbound_context" where
  "ra_inbound_context A ctx d = \<lparr>ic_actor_id = ac_actor_id ctx, ic_actor_name = ac_actor_name ctx,
     ic_message_type = message_type_name A d, ic_send_mode = send_mode_of d, ic_remote = False, ic_origin_node = None\<rparr>"

text \<open>Running the handler with its panics caught, inside the wrappers if there are any. A wrapped future that ends without having
  run the handler counts as a panic.\<close>

definition run_wrapped ::
  "('a, 'm, 'i, 'y, 'p, 'w) actor_impl \<Rightarrow> (('a, 'p, 'w, 'y) handler_future future \<Rightarrow> ('a, 'p, 'w, 'y) handler_future future) option list
    \<Rightarrow> ('m, 'i) dispatch \<Rightarrow> ('a, 'p, 'w) exec \<Rightarrow> 'y dispatch_result handler_run \<times> ('a, 'p, 'w) exec" where
  "run_wrapped A wrappers d x =
     (let inner = (\<lambda>(x, _). case dispatch_run A d x of (r, x1) \<Rightarrow> (False, x1, Some r))
      in case apply_handler_wrappers wrappers inner (x, None) of (_, x1, result) \<Rightarrow>
           (case result of Some r \<Rightarrow> (r, x1) | None \<Rightarrow> (Panicked, x1)))"

text \<open>The race with the cancellation token: \<open>None\<close> if the token stops the handler.\<close>

definition run_handler ::
  "('a, 'm, 'i, 'p, 'w) token_env \<Rightarrow> ('a, 'm, 'i, 'y, 'p, 'w) actor_impl
    \<Rightarrow> (('a, 'p, 'w, 'y) handler_future future \<Rightarrow> ('a, 'p, 'w, 'y) handler_future future) option list \<Rightarrow> ('m, 'i) dispatch \<Rightarrow> ('a, 'p, 'w) exec
    \<Rightarrow> 'y dispatch_result handler_run option \<times> ('a, 'p, 'w) exec" where
  "run_handler T A wrappers d x =
     (case (case cancel_token_of d of Some token \<Rightarrow> te_fires T token d x | None \<Rightarrow> None) of
        Some x1 \<Rightarrow> (None, x1)
      | None \<Rightarrow> map_prod Some id (if \<exists>w \<in> set wrappers. w \<noteq> None then run_wrapped A wrappers d x else dispatch_run A d x))"

definition ra_dead_letter ::
  "('a, 'm, 'y, 'p, 'w, 'j, 'h) ractor_actor_state \<Rightarrow> inbound_context \<Rightarrow> string \<Rightarrow> 'h \<Rightarrow> 'h" where
  "ra_dead_letter st ictx interceptor_name h =
     (case ras_dead_letter_handler st of None \<Rightarrow> h
      | Some on_dead_letter \<Rightarrow> snd (on_dead_letter h \<lparr>dl_target_id = ic_actor_id ictx, dl_target_name = Some (ic_actor_name ictx),
          dl_message_type = ic_message_type ictx, dl_send_mode = ic_send_mode ictx,
          dl_reason = DL_DroppedByInterceptor interceptor_name\<rparr>))"

text \<open>After the handler: the outcome for the interceptors, then the reply, or the error hook and what it decides.\<close>

definition ra_complete ::
  "('a, 'm, 'i, 'y, 'p, 'w) actor_impl \<Rightarrow> ('m, 'i) dispatch \<Rightarrow> 'y dispatch_result handler_run
    \<Rightarrow> ('a, 'm, 'y, 'p, 'w, 'j, 'h) ractor_actor_state \<Rightarrow> ('y, 'w, 'h) surroundings
    \<Rightarrow> ('a, 'm, 'y, 'p, 'w, 'j, 'h) ractor_actor_state \<times> ('y, 'w, 'h) surroundings" where
  "ra_complete A d result st su =
     (let ictx = ra_inbound_context A (ras_ctx st) d;
          complete = (\<lambda>outcome. run_on_complete (ras_interceptors st) ictx (ac_headers (ras_ctx st)) outcome (ras_istate st))
      in case result of
           Returned r \<Rightarrow>
             (let outcome = (case (dr_reply r, send_mode_of d) of (Some reply, Ask) \<Rightarrow> AskSuccess reply | _ \<Rightarrow> TellSuccess)
              in (st\<lparr>ras_istate := complete outcome\<rparr>, su\<lparr>su_oneshots := dr_send_reply r (su_oneshots su)\<rparr>))
         | Panicked \<Rightarrow>
             (let error = actor_error_internal ''handler panicked''
              in case ai_on_error A (ras_actor st) error of (action, actor) \<Rightarrow>
                let st1 = st\<lparr>ras_actor := actor, ras_istate := complete (HandlerError error)\<rparr>;
                    su1 = su\<lparr>su_oneshots := drop_dispatch d (su_oneshots su)\<rparr>
                in if action \<in> {Stop, Escalate}
                   then (st1\<lparr>ras_stop_reason := Some ''handler panicked''\<rparr>, su1\<lparr>su_stop := True\<rparr>)
                   else (st1, su1)))"

text \<open>One message.\<close>

definition ra_handle ::
  "('a, 'm, 'i, 'p, 'w) token_env \<Rightarrow> ('a, 'm, 'i, 'y, 'p, 'w) actor_impl \<Rightarrow> ('m, 'i) dispatch
    \<Rightarrow> ('a, 'm, 'y, 'p, 'w, 'j, 'h) ractor_actor_state \<times> ('y, 'w, 'h) surroundings
    \<Rightarrow> ('a, 'm, 'y, 'p, 'w, 'j, 'h) ractor_actor_state \<times> ('y, 'w, 'h) surroundings" where
  "ra_handle T A d s =
     (let (st, su) = s;
          ctx1 = (ras_ctx st)\<lparr>ac_send_mode := Some (send_mode_of d), ac_headers := hd_new\<rparr>;
          ictx = ra_inbound_context A ctx1 d
      in case run_on_receive ictx (message_any d) (ras_interceptors st) hd_new 0 (ras_istate st) of
           (Some (name, disp), _, _, j) \<Rightarrow>
             (st\<lparr>ras_ctx := ctx1, ras_istate := j\<rparr>,
              su\<lparr>su_letters := (if disp = Drop then ra_dead_letter st ictx name (su_letters su) else su_letters su),
                 su_oneshots := dispatch_reject d disp name (su_oneshots su)\<rparr>)
         | (None, h, total_delay, j) \<Rightarrow>
             (let su1 = (if total_delay = 0 then su else su\<lparr>su_slept := su_slept su @ [total_delay]\<rparr>);
                  wrappers = collect_handler_wrappers (ras_interceptors st) ictx h j;
                  ctx2 = ctx1\<lparr>ac_headers := h, ac_cancellation_token := cancel_token_of d\<rparr>;
                  uncancel = (\<lambda>c :: 'p actor_context. c\<lparr>ac_cancellation_token := None\<rparr>)
              in if (case cancel_token_of d of Some token \<Rightarrow> te_is_cancelled T token (su_world su1) | None \<Rightarrow> False)
                 then (st\<lparr>ras_ctx := uncancel ctx2, ras_istate := j\<rparr>, su1\<lparr>su_oneshots := dispatch_cancel d (su_oneshots su1)\<rparr>)
                 else case run_handler T A wrappers d (ras_actor st, ctx2, su_world su1) of
                   (None, actor, ctx3, w) \<Rightarrow>
                     (st\<lparr>ras_actor := actor, ras_ctx := uncancel ctx3, ras_istate := j\<rparr>,
                      su1\<lparr>su_world := w, su_oneshots := drop_dispatch d (su_oneshots su1)\<rparr>)
                 | (Some result, actor, ctx3, w) \<Rightarrow>
                     ra_complete A d result (st\<lparr>ras_actor := actor, ras_ctx := uncancel ctx3, ras_istate := j\<rparr>) (su1\<lparr>su_world := w\<rparr>)))"

section \<open>Local watches and stopping\<close>

text \<open>An entry has the watcher's id and the mailbox its notifications are cast to.\<close>

datatype 'q watch_entry = WatchEntry (wen_watcher_id: actor_id) (wen_mailbox: 'q)

type_synonym 'q watcher_map = "(actor_id, 'q watch_entry list) hashmap"

definition ra_watch :: "'q watcher_map \<Rightarrow> actor_id \<Rightarrow> 'q \<Rightarrow> actor_id \<Rightarrow> 'q watcher_map" where
  "ra_watch m watcher_id mailbox target_id =
     hm_insert target_id (hm_entry target_id [] m @ [WatchEntry watcher_id mailbox]) m"

definition ra_unwatch :: "'q watcher_map \<Rightarrow> actor_id \<Rightarrow> actor_id \<Rightarrow> 'q watcher_map" where
  "ra_unwatch m watcher_id target_id =
     (case hm_get m target_id of
        None \<Rightarrow> m
      | Some entries \<Rightarrow>
          (let kept = filter (\<lambda>e. wen_watcher_id e \<noteq> watcher_id) entries
           in if kept = [] then hm_remove target_id m else hm_insert target_id kept m))"

definition ra_forget_actor :: "'q watcher_map \<Rightarrow> actor_id \<Rightarrow> 'q watcher_map" where
  "ra_forget_actor m actor_id =
     filter (\<lambda>(_, v). v \<noteq> []) (map (\<lambda>(k, entries). (k, filter (\<lambda>e. wen_watcher_id e \<noteq> actor_id) entries)) (hm_remove actor_id m))"

text \<open>The result has the notifications to cast, in order, and what the stop notifier sends.\<close>

definition ra_post_stop ::
  "('a, 'm, 'i, 'y, 'p, 'w) actor_impl \<Rightarrow> ('a, 'm, 'y, 'p, 'w, 'j, 'h) ractor_actor_state \<Rightarrow> 'q watcher_map
    \<Rightarrow> ('q watch_entry \<times> child_terminated) list \<times> (nat \<times> (string + unit)) option
      \<times> ('a, 'm, 'y, 'p, 'w, 'j, 'h) ractor_actor_state \<times> 'q watcher_map" where
  "ra_post_stop A st watchers =
     (case ai_on_stop A (ras_actor st) of (run, actor) \<Rightarrow>
        let on_stop_panicked = (run = Panicked);
            reason = (if on_stop_panicked \<and> ras_stop_reason st = None then Some ''actor panicked in on_stop'' else ras_stop_reason st);
            actor_id = ac_actor_id (ras_ctx st);
            entries = hm_entry actor_id [] watchers;
            notification = ChildTerminated actor_id (ac_actor_name (ras_ctx st)) reason
        in (map (\<lambda>e. (e, notification)) entries,
            map_option (\<lambda>tx. (tx, if on_stop_panicked then Inl ''actor panicked in on_stop'' else Inr ())) (ras_stop_notifier st),
            st\<lparr>ras_actor := actor, ras_ctx := (ras_ctx st)\<lparr>ac_send_mode := None, ac_headers := hd_new, ac_cancellation_token := None\<rparr>,
               ras_stop_reason := reason, ras_stop_notifier := None\<rparr>,
            ra_forget_actor watchers actor_id))"

section \<open>The circuit breaker as an inbound interceptor\<close>

text \<open>The breaker reads the clock, which the model keeps beside it.\<close>

definition cb_interceptor :: "('p, 'm, 'y, circuit_breaker \<times> instant, 'f) inbound_interceptor" where
  "cb_interceptor = \<lparr>ii_name = ''circuit-breaker'',
     ii_on_receive = (\<lambda>ctx _ h (cb, now). case cb_on_receive cb now (ic_actor_id ctx) (ic_actor_name ctx) of (d, cb') \<Rightarrow> (d, h, cb', now)),
     ii_on_complete = (\<lambda>ctx _ outcome (cb, now). (cb_on_complete cb now (ic_actor_id ctx) outcome, now)),
     ii_wrap_handler = (\<lambda>_ _ _. None)\<rparr>"

section \<open>Lemmas\<close>

text \<open>A wrapper has no access to the result of the handler: what is in the result channel after a wrapped future is what was there
  before or what the inner future put there.\<close>

definition wrapper_honest :: "(('x \<times> 'r) future \<Rightarrow> ('x \<times> 'r) future) \<Rightarrow> bool" where
  "wrapper_honest wr \<longleftrightarrow> (\<forall>f s. snd (snd (wr f s)) = snd s \<or> (\<exists>s0. snd s0 = snd s \<and> snd (snd (wr f s)) = snd (snd (f s0))))"

lemma apply_honest:
  assumes "\<forall>w \<in> set wrappers. \<forall>f. w = Some f \<longrightarrow> wrapper_honest f"
  shows "snd (snd (apply_handler_wrappers wrappers inner s)) = snd s \<or>
    (\<exists>s0. snd s0 = snd s \<and> snd (snd (apply_handler_wrappers wrappers inner s)) = snd (snd (inner s0)))"
  using assms
proof (induction wrappers arbitrary: s)
  case Nil
  have "apply_handler_wrappers [] inner = inner" by (simp add: apply_handler_wrappers_def)
  then show ?case by metis
next
  case (Cons w wrappers)
  let ?rest = "apply_handler_wrappers wrappers inner"
  have step: "apply_handler_wrappers (w # wrappers) inner = (case w of Some f \<Rightarrow> f ?rest | None \<Rightarrow> ?rest)"
    by (cases w) (simp_all add: apply_handler_wrappers_def)
  show ?case
  proof (cases w)
    case None
    then show ?thesis using Cons step by simp
  next
    case (Some f)
    then have "wrapper_honest f" using Cons.prems by simp
    then consider "snd (snd (f ?rest s)) = snd s" | s0 where "snd s0 = snd s" "snd (snd (f ?rest s)) = snd (snd (?rest s0))"
      unfolding wrapper_honest_def by blast
    then show ?thesis
    proof cases
      case 1
      then show ?thesis using step Some by simp
    next
      case 2
      then show ?thesis using Cons.IH [of s0] Cons.prems step Some by auto
    qed
  qed
qed

lemma run_handler_result:
  fixes r :: "'y dispatch_result"
  assumes honest: "\<forall>w \<in> set wrappers. \<forall>f. w = Some f \<longrightarrow> wrapper_honest f"
    and run: "run_handler T A wrappers d x = (Some (Returned r), x')"
  obtains x0 x1 where "dispatch_run A d x0 = (Returned r, x1)"
proof -
  let ?inner = "\<lambda>(x, _ :: 'y dispatch_result handler_run option). case dispatch_run A d x of (r, x1) \<Rightarrow> (False, x1, Some r)"
  have "\<exists>x0. fst (dispatch_run A d x0) = Returned r"
  proof (cases "\<exists>w \<in> set wrappers. w \<noteq> None")
    case True
    then have "run_wrapped A wrappers d x = (Returned r, x')"
      using run by (auto simp: run_handler_def map_prod_def split: option.splits prod.splits)
    then have res: "snd (snd (apply_handler_wrappers wrappers ?inner (x, None))) = Some (Returned r)"
      by (auto simp: run_wrapped_def Let_def split: prod.splits option.splits)
    have "\<exists>s0. Some (Returned r) = snd (snd (?inner s0))"
      using apply_honest [OF honest, of ?inner "(x, None)", unfolded res]
    proof
      assume "\<exists>s0. snd s0 = snd (x, None) \<and> Some (Returned r) = snd (snd (?inner s0))"
      then show ?thesis by blast
    qed simp
    then obtain s0 where "Some (Returned r) = snd (snd (?inner s0))" ..
    then have "fst (dispatch_run A d (fst s0)) = Returned r" by (simp add: split_beta)
    then show ?thesis ..
  next
    case False
    then have "fst (dispatch_run A d x) = Returned r" using run by (auto simp: run_handler_def map_prod_def split: option.splits prod.splits)
    then show ?thesis ..
  qed
  then show thesis using that by (metis prod.collapse)
qed

lemma run_on_receive_rejects:
  "run_on_receive ctx msg is h delay j = (Some (name, disp), h', delay', j') \<Longrightarrow> \<not> lets_pass disp"
  by (induction "is" arbitrary: h delay j) (auto split: prod.splits disposition.splits)

text \<open>The five ways a message ends.\<close>

lemma ra_handle_cases:
  assumes handled: "ra_handle T A d (st, su) = (st', su')"
  obtains (rejected) name disp where "\<not> lets_pass disp"
      "su_oneshots su' = dispatch_reject d disp name (su_oneshots su)" "ras_actor st' = ras_actor st" "su_stop su' = su_stop su"
  | (cancelled) "su_oneshots su' = dispatch_cancel d (su_oneshots su)" "ras_actor st' = ras_actor st" "su_stop su' = su_stop su"
  | (interrupted) "su_oneshots su' = drop_dispatch d (su_oneshots su)" "su_stop su' = su_stop su"
  | (returned) ctx h j r x x' where "run_handler T A (collect_handler_wrappers (ras_interceptors st) ctx h j) d x = (Some (Returned r), x')"
      "su_oneshots su' = dr_send_reply r (su_oneshots su)" "su_stop su' = su_stop su" "ras_actor st' = fst x'"
  | (panicked) "su_oneshots su' = drop_dispatch d (su_oneshots su)"
      "su_stop su' \<longrightarrow> su_stop su \<or> ras_stop_reason st' = Some ''handler panicked''"
proof -
  let ?ctx1 = "(ras_ctx st)\<lparr>ac_send_mode := Some (send_mode_of d), ac_headers := hd_new\<rparr>"
  let ?ictx = "ra_inbound_context A ?ctx1 d"
  obtain rej h delay j where rr: "run_on_receive ?ictx (message_any d) (ras_interceptors st) hd_new 0 (ras_istate st) = (rej, h, delay, j)"
    by (metis prod_cases4)
  show thesis
  proof (cases rej)
    case (Some nd)
    obtain name disp where nd: "nd = (name, disp)" by force
    show thesis
      using handled rr Some nd by (intro rejected [of disp name] run_on_receive_rejects [OF rr [unfolded Some nd]])
        (auto simp: ra_handle_def Let_def)
  next
    case None
    define su1 where "su1 = (if delay = 0 then su else su\<lparr>su_slept := su_slept su @ [delay]\<rparr>)"
    have su1: "su_oneshots su1 = su_oneshots su" "su_stop su1 = su_stop su" "su_world su1 = su_world su" by (simp_all add: su1_def)
    let ?ws = "collect_handler_wrappers (ras_interceptors st) ?ictx h j"
    let ?ctx2 = "?ctx1\<lparr>ac_headers := h, ac_cancellation_token := cancel_token_of d\<rparr>"
    let ?pre = "case cancel_token_of d of Some token \<Rightarrow> te_is_cancelled T token (su_world su1) | None \<Rightarrow> False"
    obtain result actor ctx3 w where run: "run_handler T A ?ws d (ras_actor st, ?ctx2, su_world su1) = (result, actor, ctx3, w)"
      by (metis prod_cases4)
    let ?uncancelled = "\<lambda>c :: 'd actor_context. c\<lparr>ac_cancellation_token := None\<rparr>"
    have eq: "(st', su') =
      (if ?pre then (st\<lparr>ras_ctx := ?uncancelled ?ctx2, ras_istate := j\<rparr>, su1\<lparr>su_oneshots := dispatch_cancel d (su_oneshots su1)\<rparr>)
       else case result of
         None \<Rightarrow> (st\<lparr>ras_actor := actor, ras_ctx := ?uncancelled ctx3, ras_istate := j\<rparr>,
                  su1\<lparr>su_world := w, su_oneshots := drop_dispatch d (su_oneshots su1)\<rparr>)
       | Some res \<Rightarrow> ra_complete A d res (st\<lparr>ras_actor := actor, ras_ctx := ?uncancelled ctx3, ras_istate := j\<rparr>) (su1\<lparr>su_world := w\<rparr>))"
      using handled unfolding ra_handle_def Let_def prod.case rr None option.case su1_def [symmetric] run by simp
    show thesis
    proof (cases ?pre)
      case True
      then show thesis using eq su1 by (intro cancelled) simp_all
    next
      case False
      show thesis
      proof (cases result)
        case None
        then show thesis using eq False su1 by (intro interrupted) simp_all
      next
        case (Some res)
        then have c: "(st', su') = ra_complete A d res (st\<lparr>ras_actor := actor, ras_ctx := ?uncancelled ctx3, ras_istate := j\<rparr>) (su1\<lparr>su_world := w\<rparr>)"
          using eq False by simp
        show thesis
        proof (cases res)
          case (Returned r)
          then show thesis
            using c su1 by (intro returned [OF run [unfolded Some Returned]]) (simp_all add: ra_complete_def Let_def)
        next
          case Panicked
          then show thesis using c su1 by (intro panicked) (auto simp: ra_complete_def Let_def split: prod.splits if_splits)
        qed
      qed
    qed
  qed
qed

text \<open>Local watches as a relation between targets and watchers.\<close>

definition watches :: "'q watcher_map \<Rightarrow> actor_id \<Rightarrow> actor_id \<Rightarrow> bool" where
  "watches m t w \<longleftrightarrow> w \<in> wen_watcher_id ` set (hm_entry t [] m)"

lemma watches_watch: "watches (ra_watch m w0 q t0) t w \<longleftrightarrow> watches m t w \<or> t = t0 \<and> w = w0"
  by (auto simp: watches_def ra_watch_def hm_entry_def intro: rev_image_eqI [of "WatchEntry w0 q"])

lemma watches_unwatch: "watches (ra_unwatch m w0 t0) t w \<longleftrightarrow> watches m t w \<and> \<not> (t = t0 \<and> w = w0)"
  by (auto simp: watches_def ra_unwatch_def hm_entry_def Let_def filter_empty_conv split: option.splits if_splits)

lemma forget_actor_get:
  assumes "hm_wf m"
  shows "hm_get (ra_forget_actor m a) t = (if t = a then None else
    case hm_get m t of None \<Rightarrow> None | Some es \<Rightarrow> (let es' = filter (\<lambda>e. wen_watcher_id e \<noteq> a) es in if es' = [] then None else Some es'))"
proof -
  have wf: "hm_wf (hm_remove a m)" using assms by simp
  have drop: "map_of (filter (\<lambda>(_, v). v \<noteq> []) (map (\<lambda>(k, es). (k, f es)) xs)) t =
      (case map_of xs t of None \<Rightarrow> None | Some es \<Rightarrow> if f es = [] then None else Some (f es))"
    if "distinct (map fst xs)" for xs :: "(actor_id \<times> 'a watch_entry list) list" and f :: "'a watch_entry list \<Rightarrow> 'a watch_entry list"
    using that
  proof (induction xs)
    case (Cons x xs)
    have "map_of xs (fst x) = None" using Cons.prems by (simp add: map_of_eq_None_iff)
    then show ?case using Cons by (cases x) auto
  qed simp
  show ?thesis
    using drop [OF wf [unfolded hm_wf_def], of "filter (\<lambda>e. wen_watcher_id e \<noteq> a)"] hm.get_remove [of a m t]
    by (simp add: ra_forget_actor_def hm_get_def Let_def split: option.splits)
qed

text \<open>When an actor stops, each of its watchers is told once per watch, with the reason; afterwards it neither watches nor is watched, and
  all other watches are as before.\<close>

lemma stop_notifies_watchers:
  assumes wf: "hm_wf m" and run: "ra_post_stop A st m = (told, sent, st', m')" and a: "a = ac_actor_id (ras_ctx st)"
  shows "map (\<lambda>n. wen_watcher_id (fst n)) told = map wen_watcher_id (hm_entry a [] m)"
    and "\<forall>n \<in> set told. ct_child_id (snd n) = a \<and> ct_reason (snd n) = ras_stop_reason st'"
    and "watches m' t w \<longleftrightarrow> watches m t w \<and> t \<noteq> a \<and> w \<noteq> a"
proof -
  have m': "m' = ra_forget_actor m a" and told: "map fst told = hm_entry a [] m"
    and reason: "\<forall>n \<in> set told. ct_child_id (snd n) = a \<and> ct_reason (snd n) = ras_stop_reason st'"
    using run a by (auto simp: ra_post_stop_def Let_def comp_def split: prod.splits)
  show "map (\<lambda>n. wen_watcher_id (fst n)) told = map wen_watcher_id (hm_entry a [] m)"
    using told by (metis (no_types, lifting) comp_def map_eq_conv map_map)
  show "\<forall>n \<in> set told. ct_child_id (snd n) = a \<and> ct_reason (snd n) = ras_stop_reason st'" by (fact reason)
  show "watches m' t w \<longleftrightarrow> watches m t w \<and> t \<noteq> a \<and> w \<noteq> a"
    unfolding m' watches_def hm_entry_def forget_actor_get [OF wf] by (auto simp: Let_def filter_empty_conv split: option.splits)
qed

text \<open>A half-open circuit whose probe is out.\<close>

definition probe_out :: "circuit_breaker \<Rightarrow> actor_id \<Rightarrow> bool" where
  "probe_out cb a \<longleftrightarrow> (\<exists>s. cb_states cb a = Some s \<and> cb_status s = HalfOpen \<and> cb_probe_in_flight s)"

lemma probe_out_rejects:
  assumes "probe_out cb a"
  shows "cb_on_receive cb now a n = (cb_reject n, cb)"
  using assms by (auto simp: probe_out_def cb_on_receive_def cb_receive_entry_def cb_entry_def map_upd_triv)

lemma open_cooled_down:
  assumes "cb_states cb a = Some s" and "cb_status s = Open" and "cb_opened_at s = Some t" and "t + cooldown cb \<le> now"
  obtains cb' where "cb_on_receive cb now a n = (Continue, cb')" and "probe_out cb' a"
proof -
  let ?cb = "cb\<lparr>cb_states := (cb_states cb)(a \<mapsto> s\<lparr>cb_status := HalfOpen, cb_probe_in_flight := True\<rparr>)\<rparr>"
  have "cooldown cb \<le> now - t" using assms(4) by linarith
  then have "cb_on_receive cb now a n = (Continue, ?cb)"
    using assms(1-3) by (simp add: cb_on_receive_def cb_receive_entry_def cb_entry_def duration_since_def)
  moreover have "probe_out ?cb a" by (simp add: probe_out_def)
  ultimately show thesis by (rule that)
qed

text \<open>The clock moves between messages.\<close>

definition ra_handle_at ::
  "('a, 'm, 'i, 'p, 'w) token_env \<Rightarrow> ('a, 'm, 'i, 'y, 'p, 'w) actor_impl
    \<Rightarrow> ('a, 'm, 'y, 'p, 'w, circuit_breaker \<times> instant, 'h) ractor_actor_state \<times> ('y, 'w, 'h) surroundings \<Rightarrow> instant \<times> ('m, 'i) dispatch
    \<Rightarrow> ('a, 'm, 'y, 'p, 'w, circuit_breaker \<times> instant, 'h) ractor_actor_state \<times> ('y, 'w, 'h) surroundings" where
  "ra_handle_at T A s td = ra_handle T A (snd td) ((fst s)\<lparr>ras_istate := (fst (ras_istate (fst s)), fst td)\<rparr>, snd s)"

lemma probe_out_step:
  assumes "ras_interceptors st = [cb_interceptor]" and "probe_out (fst (ras_istate st)) (ac_actor_id (ras_ctx st))"
    and "ra_handle_at T A (st, su) (t, d) = (st', su')"
  shows "ras_interceptors st' = [cb_interceptor] \<and> ras_actor st' = ras_actor st \<and> ac_actor_id (ras_ctx st') = ac_actor_id (ras_ctx st) \<and>
    ac_actor_name (ras_ctx st') = ac_actor_name (ras_ctx st) \<and> fst (ras_istate st') = fst (ras_istate st) \<and> su_world su' = su_world su \<and>
    su_oneshots su' = send_error d (RE_Rejected ''circuit-breaker'' (''circuit breaker open: '' @ ac_actor_name (ras_ctx st))) (su_oneshots su)"
  using assms(3) probe_out_rejects [OF assms(2)]
  by (auto simp: ra_handle_at_def ra_handle_def assms(1) cb_interceptor_def ra_inbound_context_def Let_def cb_reject_def dispatch_reject_def)

lemma probe_out_run:
  assumes "ras_interceptors st = [cb_interceptor]" and "probe_out (fst (ras_istate st)) (ac_actor_id (ras_ctx st))"
    and "foldl (ra_handle_at T A) (st, su) later = (st', su')"
    and "refusal = RE_Rejected ''circuit-breaker'' (''circuit breaker open: '' @ ac_actor_name (ras_ctx st))"
  shows "ras_interceptors st' = [cb_interceptor] \<and> ras_actor st' = ras_actor st \<and> ac_actor_id (ras_ctx st') = ac_actor_id (ras_ctx st) \<and>
    ac_actor_name (ras_ctx st') = ac_actor_name (ras_ctx st) \<and> fst (ras_istate st') = fst (ras_istate st) \<and> su_world su' = su_world su \<and>
    (\<forall>td \<in> set later. \<forall>tx. reply_tx (snd td) = Some tx \<longrightarrow> su_oneshots su' tx = OsSent (Inl refusal))"
  using assms(3)
proof (induction later arbitrary: st' su' rule: rev_induct)
  case Nil
  then show ?case using assms(1) by simp
next
  case (snoc td later)
  obtain st1 su1 where 1: "foldl (ra_handle_at T A) (st, su) later = (st1, su1)" by force
  obtain t d where td: "td = (t, d)" by force
  note IH = snoc.IH [OF 1]
  have step: "ra_handle_at T A (st1, su1) (t, d) = (st', su')" using snoc.prems 1 td by simp
  have "ras_interceptors st1 = [cb_interceptor]" "probe_out (fst (ras_istate st1)) (ac_actor_id (ras_ctx st1))" using IH assms(2) by simp_all
  note s = probe_out_step [OF this step]
  have "su_oneshots su' = send_error d refusal (su_oneshots su1)" using s IH assms(4) by simp
  then show ?case using s IH td by (auto simp: send_error_def split: option.splits)
qed

text \<open>What handling an envelope does to the reply channels.\<close>

lemma ra_handle_answers:
  assumes "\<forall>i \<in> set (ras_interceptors st). \<forall>ctx h j f. ii_wrap_handler i ctx h j = Some f \<longrightarrow> wrapper_honest f"
    and handled: "ra_handle T A d (st, su) = (st', su')"
  shows "(case reply_tx d of
      None \<Rightarrow> su_oneshots su' = su_oneshots su
    | Some tx \<Rightarrow> \<exists>v. su_oneshots su' = (su_oneshots su)(tx := v) \<and> ask_reply_poll v \<noteq> None \<and>
        (\<forall>y. ask_reply_poll v = Some (Inr y) \<longrightarrow> (\<exists>x r x'. dispatch_run A d x = (Returned r, x') \<and> dr_reply r = Some y))) \<and>
    (su_stop su' \<longrightarrow> su_stop su \<or> ras_stop_reason st' = Some ''handler panicked'')"
  using handled
proof (cases rule: ra_handle_cases)
  case (rejected name disp)
  then show ?thesis by (cases disp) (auto simp: dispatch_reject_def send_error_def split: option.splits)
next
  case (returned ctx h j r x x')
  have "\<forall>w \<in> set (collect_handler_wrappers (ras_interceptors st) ctx h j). \<forall>f. w = Some f \<longrightarrow> wrapper_honest f"
    using assms(1) by (auto simp: collect_handler_wrappers_def)
  from run_handler_result [OF this returned(1)] obtain x0 x1 where d: "dispatch_run A d x0 = (Returned r, x1)" .
  show ?thesis
  proof (cases "reply_tx d")
    case None
    then show ?thesis using returned send_reply_resolves [OF d] by simp
  next
    case (Some tx)
    then obtain y where "dr_reply r = Some y" using dispatch_run_reply(2) [OF d] by auto
    then have "su_oneshots su' = (su_oneshots su)(tx := OsSent (Inr y))" "\<exists>x r x'. dispatch_run A d x = (Returned r, x') \<and> dr_reply r = Some y"
      using returned send_reply_resolves [OF d] d Some by (simp, blast)
    then show ?thesis unfolding Some option.case
      by (intro conjI exI [of _ "OsSent (Inr y)"]) (use returned(3) in simp_all)
  qed
qed (auto simp: dispatch_cancel_def send_error_def drop_dispatch_def split: option.splits)

section \<open>Properties\<close>

text \<open>C2. Every request is answered, once: whatever the interceptors, wrappers and the handler do, handling an envelope settles the reply
  channel the envelope carries and touches no other. The caller gets a value only if a run of the handler returned that value; when the
  message is turned away, cancelled, interrupted, or the handler panics, the caller gets an error. The actor is stopped only after a panic.\<close>

theorem request_answered:
  assumes "\<forall>i \<in> set (ras_interceptors st). \<forall>ctx h j f. ii_wrap_handler i ctx h j = Some f \<longrightarrow> wrapper_honest f"
    and handled: "ra_handle T A d (st, su) = (st', su')"
  shows "(case reply_tx d of
      None \<Rightarrow> su_oneshots su' = su_oneshots su
    | Some tx \<Rightarrow> \<exists>v. su_oneshots su' = (su_oneshots su)(tx := v) \<and> ask_reply_poll v \<noteq> None \<and>
        (\<forall>y. ask_reply_poll v = Some (Inr y) \<longrightarrow> (\<exists>x r x'. dispatch_run A d x = (Returned r, x') \<and> dr_reply r = Some y))) \<and>
    (su_stop su' \<longrightarrow> su_stop su \<or> ras_stop_reason st' = Some ''handler panicked'')"
  by (rule ra_handle_answers [OF assms])

text \<open>An actor that adds the numbers it gets and panics on zero.\<close>

definition adder :: "(nat, nat, nat, nat, unit, unit) actor_impl" where
  "adder = \<lparr>ai_message_type = (\<lambda>_. ''Add''), ai_item_type = ''u64'', ai_on_start = (\<lambda>x. (Returned (), x)),
     ai_handle = (\<lambda>m (a, ctx, w). if m = 0 then (Panicked, a, ctx, w) else (Returned (a + m), a + m, ctx, w)),
     ai_handle_expand = (\<lambda>_ _ x. (Returned (), x)), ai_handle_reduce = (\<lambda>items x. (Returned (sum_list items), x)),
     ai_handle_transform = (\<lambda>_ _ x. (Returned (), x)), ai_on_transform_complete = (\<lambda>_ x. (Returned (), x)),
     ai_on_error = (\<lambda>a _. (Escalate, a)), ai_on_stop = (\<lambda>a. (Returned (), a))\<rparr>"

definition patient :: "(nat, nat, nat, unit, unit) token_env" where
  "patient = \<lparr>te_is_cancelled = (\<lambda>_ _. False), te_fires = (\<lambda>_ _ _. None)\<rparr>"

definition adder_state :: "(nat, nat, nat, unit, unit, circuit_breaker \<times> instant, unit) ractor_actor_state" where
  "adder_state = \<lparr>ras_actor = 5, ras_ctx = ac_new (ActorId (NodeId ''n'') 1) ''adder'', ras_interceptors = [cb_interceptor],
     ras_istate = (cb_new 1 60 30, 7), ras_stop_reason = None, ras_dead_letter_handler = None, ras_stop_notifier = None\<rparr>"

definition quiet :: "(nat, unit, unit) surroundings" where
  "quiet = \<lparr>su_world = (), su_oneshots = (\<lambda>_. OsPending), su_letters = (), su_slept = [], su_stop = False\<rparr>"

lemmas adder_defs = adder_def patient_def adder_state_def quiet_def cb_interceptor_def

theorem request_answered_witness:
  "let (st, su) = ra_handle patient adder (AskDispatch 4 9 None) (adder_state, quiet)
   in \<exists>v. su_oneshots su = (su_oneshots quiet)(9 := v) \<and> ask_reply_poll v \<noteq> None \<and> \<not> su_stop su"
proof -
  obtain st su where run: "ra_handle patient adder (AskDispatch 4 9 None) (adder_state, quiet) = (st, su)" by force
  have honest: "\<forall>i \<in> set (ras_interceptors adder_state). \<forall>ctx h j f. ii_wrap_handler i ctx h j = Some f \<longrightarrow> wrapper_honest f"
    by (simp add: adder_defs)
  have "ras_stop_reason st \<noteq> Some ''handler panicked''"
    using run by (auto simp: adder_defs ra_handle_def ra_complete_def run_handler_def Let_def collect_handler_wrappers_def cb_on_receive_def
        cb_receive_entry_def cb_entry_def cb_new_def cb_state_new_def)
  then show ?thesis using request_answered [OF honest run] run by (auto simp: quiet_def)
qed

text \<open>C12. A cancelled probe leaves the circuit half-open for good: an actor guarded by the circuit breaker, whose circuit is open and has cooled
  down, takes a request as the probe; if its token fires while the handler runs, the interceptors are not told that it ended, and from
  then on every message is rejected at whatever time it comes, the handler is never run and the actor never changes.\<close>

theorem cancelled_probe_blocks_actor:
  assumes st: "ras_interceptors st = [cb_interceptor]" "ras_istate st = (cb, now)" and a: "ac_actor_id (ras_ctx st) = a"
    and cb: "cb_states cb a = Some s" "cb_status s = Open" "cb_opened_at s = Some t" "t + cooldown cb \<le> now"
    and token: "cancel_token_of d = Some token" "\<not> te_is_cancelled T token (su_world su)"
    and fires: "\<forall>x. \<exists>actor ctx w. te_fires T token d x = Some (actor, ctx, w) \<and> ac_actor_id ctx = ac_actor_id (fst (snd x))"
    and run: "ra_handle T A d (st, su) = (st1, su1)" "foldl (ra_handle_at T A) (st1, su1) later = (st2, su2)"
  shows "state_for (fst (ras_istate st2)) a = HalfOpen \<and> ras_actor st2 = ras_actor st1 \<and> su_world su2 = su_world su1 \<and>
    (\<forall>td \<in> set later. \<forall>tx. reply_tx (snd td) = Some tx \<longrightarrow>
       su_oneshots su2 tx = OsSent (Inl (RE_Rejected ''circuit-breaker'' (''circuit breaker open: '' @ ac_actor_name (ras_ctx st1)))))"
proof -
  obtain cb' where cb': "cb_on_receive cb now a (ac_actor_name (ras_ctx st)) = (Continue, cb')" "probe_out cb' a"
    by (rule open_cooled_down [OF cb])
  let ?ctx = "(ras_ctx st)\<lparr>ac_send_mode := Some (send_mode_of d), ac_headers := hd_new, ac_cancellation_token := Some token\<rparr>"
  obtain actor ctx w where f: "te_fires T token d (ras_actor st, ?ctx, su_world su) = Some (actor, ctx, w)" "ac_actor_id ctx = a"
    using fires a by fastforce
  have st1: "st1 = st\<lparr>ras_actor := actor, ras_ctx := ctx\<lparr>ac_cancellation_token := None\<rparr>, ras_istate := (cb', now)\<rparr>"
    using run(1) cb'(1) f token
    by (simp add: ra_handle_def Let_def st a cb_interceptor_def ra_inbound_context_def run_handler_def)
  then have "ras_interceptors st1 = [cb_interceptor]" "probe_out (fst (ras_istate st1)) (ac_actor_id (ras_ctx st1))"
    using st cb'(2) f(2) by simp_all
  note blocked = probe_out_run [OF this run(2) refl]
  moreover have "state_for cb' a = HalfOpen" using cb'(2) by (auto simp: probe_out_def state_for_def)
  ultimately show ?thesis using st1 by simp
qed

definition impatient :: "(nat, nat, nat, unit, unit) token_env" where
  "impatient = \<lparr>te_is_cancelled = (\<lambda>_ _. False), te_fires = (\<lambda>_ _ x. Some x)\<rparr>"

theorem cancelled_probe_blocks_actor_witness:
  "let cb = (cb_new 1 60 30)\<lparr>cb_states := [ActorId (NodeId ''n'') 1 \<mapsto> cb_state_new\<lparr>cb_status := Open, cb_opened_at := Some 0\<rparr>]\<rparr>;
       (st1, su1) = ra_handle impatient adder (AskDispatch 4 9 (Some 3)) (adder_state\<lparr>ras_istate := (cb, 40)\<rparr>, quiet);
       (st2, su2) = foldl (ra_handle_at impatient adder) (st1, su1) [(50, AskDispatch 1 10 None), (9999, AskDispatch 2 11 None)]
   in ras_actor st2 = ras_actor st1 \<and> state_for (fst (ras_istate st2)) (ActorId (NodeId ''n'') 1) = HalfOpen \<and>
      (\<exists>reason. su_oneshots su2 11 = OsSent (Inl (RE_Rejected ''circuit-breaker'' reason)))"
proof -
  let ?a = "ActorId (NodeId ''n'') 1"
  let ?s = "cb_state_new\<lparr>cb_status := Open, cb_opened_at := Some 0\<rparr>"
  let ?cb = "(cb_new 1 60 30)\<lparr>cb_states := [?a \<mapsto> ?s]\<rparr>"
  let ?d = "AskDispatch 4 9 (Some 3) :: (nat, nat) dispatch"
  let ?later = "[(50, AskDispatch 1 10 None), (9999, AskDispatch 2 11 None)] :: (instant \<times> (nat, nat) dispatch) list"
  obtain st1 su1 where 1: "ra_handle impatient adder ?d (adder_state\<lparr>ras_istate := (?cb, 40)\<rparr>, quiet) = (st1, su1)" by force
  obtain st2 su2 where 2: "foldl (ra_handle_at impatient adder) (st1, su1) ?later = (st2, su2)" by force
  have st: "ras_interceptors (adder_state\<lparr>ras_istate := (?cb, 40)\<rparr>) = [cb_interceptor]" "ras_istate (adder_state\<lparr>ras_istate := (?cb, 40)\<rparr>) = (?cb, 40)"
    "ac_actor_id (ras_ctx (adder_state\<lparr>ras_istate := (?cb, 40)\<rparr>)) = ?a" by (simp_all add: adder_state_def ac_new_def)
  have cb: "cb_states ?cb ?a = Some ?s" "cb_status ?s = Open" "cb_opened_at ?s = Some 0" "0 + cooldown ?cb \<le> 40"
    by (simp_all add: cb_new_def)
  have tk: "cancel_token_of ?d = Some 3" "\<not> te_is_cancelled impatient 3 (su_world quiet)"
    "\<forall>x. \<exists>actor ctx w. te_fires impatient 3 ?d x = Some (actor, ctx, w) \<and> ac_actor_id ctx = ac_actor_id (fst (snd x))"
    by (simp_all add: impatient_def)
  from cancelled_probe_blocks_actor [OF st cb tk 1 2] show ?thesis unfolding Let_def 1 prod.case 2 by simp
qed

end
