(* ===== verification/Ractor_Ref.thy ===== *)
theory Ractor_Ref
  imports Ractor_Actor
begin

text \<open>
  Actor references of the ractor adapter (\<^verbatim>\<open>RactorActorRef\<close> of \<^verbatim>\<open>dactor-ractor/src/runtime.rs\<close>): sending through the outbound
  interceptors and an optional bounded mailbox with its forwarding task, spawning, local watches and the handles that wait for actors
  to stop. The mailbox of the ractor crate is a record of operations; \<open>mailbox_lawful\<close> states what its documentation promises.
\<close>

section \<open>Mailboxes of ractor\<close>

record ('q, 'x) ractor_mailbox =
  rmb_cast :: "'q \<Rightarrow> 'x \<Rightarrow> (string + unit) \<times> 'q"
  rmb_stop :: "'q \<Rightarrow> 'q"
  rmb_running :: "'q \<Rightarrow> bool"

text \<open>A message cast to a mailbox that is open is queued; a closed mailbox gives an error that names its state.\<close>

definition mailbox_lawful :: "('q, 'x) ractor_mailbox \<Rightarrow> ('q \<Rightarrow> 'x list) \<Rightarrow> ('q \<Rightarrow> bool) \<Rightarrow> bool" where
  "mailbox_lawful mb queued accepts \<longleftrightarrow> (\<forall>q x.
     if accepts q then \<exists>q'. rmb_cast mb q x = (Inr (), q') \<and> queued q' = queued q @ [x] \<and> accepts q'
     else \<exists>e. rmb_cast mb q x = (Inl e, q))"

section \<open>References\<close>

record ('q, 'c, 'p, 'm, 'y, 'i, 'o, 'h) ractor_ref =
  rf_id :: actor_id
  rf_name :: string
  rf_inner :: 'q
  rf_bounded_tx :: "'c bounded_mailbox_sender option"
  rf_outbound_interceptors :: "('p, 'm, 'y, 'i) outbound_interceptor list"
  rf_drop_observer :: "'o drop_observer option"
  rf_dead_letter_handler :: "'h dead_letter_handler option"

text \<open>What a call changes besides the mailbox: the interceptors and observers, the dead letters, and the reply channels with the next free number.\<close>

record ('y, 'i, 'o, 'h) caller =
  cl_istate :: 'i
  cl_observed :: 'o
  cl_letters :: 'h
  cl_oneshots :: "'y oneshots"
  cl_next :: nat

definition rf_outbound_pipeline ::
  "('q, 'c, 'p, 'm, 'y, 'i, 'o, 'h) ractor_ref \<Rightarrow> ('p, 'm, 'y, 'i, 'o) outbound_pipeline" where
  "rf_outbound_pipeline r = \<lparr>op_interceptors = rf_outbound_interceptors r, op_drop_observer = rf_drop_observer r,
     op_target_id = rf_id r, op_target_name = rf_name r\<rparr>"

definition rf_notify_dead_letter ::
  "('q, 'c, 'p, 'm, 'y, 'i, 'o, 'h) ractor_ref \<Rightarrow> string \<Rightarrow> send_mode \<Rightarrow> dead_letter_reason \<Rightarrow> 'h \<Rightarrow> 'h" where
  "rf_notify_dead_letter r message_type mode reason h =
     (case rf_dead_letter_handler r of None \<Rightarrow> h
      | Some on_dead_letter \<Rightarrow> snd (on_dead_letter h \<lparr>dl_target_id = rf_id r, dl_target_name = Some (rf_name r),
          dl_message_type = message_type, dl_send_mode = mode, dl_reason = reason\<rparr>))"

definition rf_send_dispatch ::
  "('q, 'x) ractor_mailbox \<Rightarrow> ('c, 'x) mpsc \<Rightarrow> ('q, 'c, 'p, 'm, 'y, 'i, 'o, 'h) ractor_ref \<Rightarrow> 'x
    \<Rightarrow> (actor_send_error + unit) \<times> ('q, 'c, 'p, 'm, 'y, 'i, 'o, 'h) ractor_ref" where
  "rf_send_dispatch mb ch r d =
     (case rf_bounded_tx r of
        Some btx \<Rightarrow> (case bms_try_send ch btx d of (x, btx') \<Rightarrow> (x, r\<lparr>rf_bounded_tx := Some btx'\<rparr>))
      | None \<Rightarrow> (case rmb_cast mb (rf_inner r) d of
                   (Inr _, q) \<Rightarrow> (Inr (), r\<lparr>rf_inner := q\<rparr>)
                 | (Inl e, q) \<Rightarrow> (Inl (ActorSendError e), r\<lparr>rf_inner := q\<rparr>)))"

definition rf_is_alive :: "('q, 'x) ractor_mailbox \<Rightarrow> ('c, 'x) mpsc \<Rightarrow> ('q, 'c, 'p, 'm, 'y, 'i, 'o, 'h) ractor_ref \<Rightarrow> bool" where
  "rf_is_alive mb ch r = (case rf_bounded_tx r of
     Some btx \<Rightarrow> \<not> bms_is_closed ch btx \<and> rmb_running mb (rf_inner r) | None \<Rightarrow> rmb_running mb (rf_inner r))"

definition rf_pending_messages :: "('c, 'x) mpsc \<Rightarrow> ('q, 'c, 'p, 'm, 'y, 'i, 'o, 'h) ractor_ref \<Rightarrow> nat" where
  "rf_pending_messages ch r = (case rf_bounded_tx r of Some btx \<Rightarrow> bms_pending ch btx | None \<Rightarrow> 0)"

definition rf_stop ::
  "('q, 'x) ractor_mailbox \<Rightarrow> ('q, 'c, 'p, 'm, 'y, 'i, 'o, 'h) ractor_ref \<Rightarrow> ('q, 'c, 'p, 'm, 'y, 'i, 'o, 'h) ractor_ref" where
  "rf_stop mb r = r\<lparr>rf_inner := rmb_stop mb (rf_inner r)\<rparr>"

text \<open>The reason of a dead letter, read off the text of the error.\<close>

definition rf_failure_reason :: "actor_send_error \<Rightarrow> dead_letter_reason" where
  "rf_failure_reason e = (if str_contains (send_error_text e) ''full'' then DL_MailboxFull else DL_ActorStopped)"

definition rf_tell ::
  "('q, ('m, 's) dispatch) ractor_mailbox \<Rightarrow> ('c, ('m, 's) dispatch) mpsc \<Rightarrow> ('m \<Rightarrow> string) \<Rightarrow> 'm
    \<Rightarrow> ('q, 'c, 'p, 'm, 'y, 'i, 'o, 'h) ractor_ref \<Rightarrow> ('y, 'i, 'o, 'h) caller
    \<Rightarrow> (actor_send_error + unit) \<times> ('q, 'c, 'p, 'm, 'y, 'i, 'o, 'h) ractor_ref \<times> ('y, 'i, 'o, 'h) caller" where
  "rf_tell mb ch type_name msg r cl =
     (case run_on_send (rf_outbound_pipeline r) (type_name msg) Tell msg (cl_istate cl) (cl_observed cl) of (result, i, obs) \<Rightarrow>
        let cl1 = cl\<lparr>cl_istate := i, cl_observed := obs\<rparr> in
        if lets_pass (ir_disposition result)
        then case rf_send_dispatch mb ch r (TypedDispatch msg) of
               (Inr _, r1) \<Rightarrow> (Inr (), r1, cl1)
             | (Inl e, r1) \<Rightarrow> (Inl e, r1, cl1\<lparr>cl_letters := rf_notify_dead_letter r (type_name msg) Tell (rf_failure_reason e) (cl_letters cl1)\<rparr>)
        else (Inr (), r, cl1))"

text \<open>An ask returns the number of its reply channel, which is answered at once if an interceptor stops the message.\<close>

definition rf_ask ::
  "('q, ('m, 's) dispatch) ractor_mailbox \<Rightarrow> ('c, ('m, 's) dispatch) mpsc \<Rightarrow> ('m \<Rightarrow> string) \<Rightarrow> 'm \<Rightarrow> cancel_token option
    \<Rightarrow> ('q, 'c, 'p, 'm, 'y, 'i, 'o, 'h) ractor_ref \<Rightarrow> ('y, 'i, 'o, 'h) caller
    \<Rightarrow> (actor_send_error + nat) \<times> ('q, 'c, 'p, 'm, 'y, 'i, 'o, 'h) ractor_ref \<times> ('y, 'i, 'o, 'h) caller" where
  "rf_ask mb ch type_name msg cancel r cl =
     (case run_on_send (rf_outbound_pipeline r) (type_name msg) Ask msg (cl_istate cl) (cl_observed cl) of (result, i, obs) \<Rightarrow>
        let tx = cl_next cl;
            cl1 = cl\<lparr>cl_istate := i, cl_observed := obs, cl_next := tx + 1, cl_oneshots := (cl_oneshots cl)(tx := OsPending)\<rparr>;
            answered = (\<lambda>e. (Inr tx, r, cl1\<lparr>cl_oneshots := (cl_oneshots cl1)(tx := OsSent (Inl e))\<rparr>))
        in case ir_disposition result of
             Drop \<Rightarrow> answered (RE_ActorNotFound ''message dropped by outbound interceptor'')
           | Reject reason \<Rightarrow> answered (RE_Rejected (ir_interceptor_name result) reason)
           | Retry retry_after \<Rightarrow> answered (RE_RetryAfter (ir_interceptor_name result) retry_after)
           | _ \<Rightarrow>
             (case rf_send_dispatch mb ch r (AskDispatch msg tx cancel) of
                (Inr _, r1) \<Rightarrow> (Inr tx, r1, cl1)
              | (Inl e, r1) \<Rightarrow> (Inl e, r1, cl1\<lparr>cl_letters := rf_notify_dead_letter r (type_name msg) Ask (rf_failure_reason e) (cl_letters cl1),
                                              cl_oneshots := (cl_oneshots cl1)(tx := OsDropped)\<rparr>)))"

text \<open>The streaming calls return how the stream is set up: its number, the channel capacity, and whether it is batched. The item tasks
  are those of \<open>Interceptors\<close>. What the receiver of a feed will yield is an argument.\<close>

record stream_setup =
  ss_stream :: nat
  ss_buffer :: nat
  ss_batch :: "batch_config option"
  ss_mode :: send_mode

definition rf_expand ::
  "('q, ('m, 's) dispatch) ractor_mailbox \<Rightarrow> ('c, ('m, 's) dispatch) mpsc \<Rightarrow> ('m \<Rightarrow> string) \<Rightarrow> 'm \<Rightarrow> nat \<Rightarrow> batch_config option \<Rightarrow> cancel_token option
    \<Rightarrow> ('q, 'c, 'p, 'm, 'y, 'i, 'o, 'h) ractor_ref \<Rightarrow> ('y, 'i, 'o, 'h) caller
    \<Rightarrow> (actor_send_error + stream_setup) \<times> ('q, 'c, 'p, 'm, 'y, 'i, 'o, 'h) ractor_ref \<times> ('y, 'i, 'o, 'h) caller" where
  "rf_expand mb ch type_name msg buffer batch cancel r cl =
     (case run_on_send (rf_outbound_pipeline r) (type_name msg) Expand msg (cl_istate cl) (cl_observed cl) of (result, i, obs) \<Rightarrow>
        let n = cl_next cl; cl1 = cl\<lparr>cl_istate := i, cl_observed := obs\<rparr> in
        case ir_disposition result of
          Drop \<Rightarrow> (Inl (ActorSendError ''stream dropped by outbound interceptor''), r, cl1)
        | Reject reason \<Rightarrow> (Inl (ActorSendError (''stream rejected: '' @ reason)), r, cl1)
        | Retry _ \<Rightarrow> (Inl (ActorSendError ''stream retry requested by interceptor''), r, cl1)
        | _ \<Rightarrow>
          (case rf_send_dispatch mb ch r (ExpandDispatch msg n cancel) of
             (Inr _, r1) \<Rightarrow> (Inr \<lparr>ss_stream = n, ss_buffer = max buffer 1, ss_batch = batch, ss_mode = Expand\<rparr>, r1, cl1\<lparr>cl_next := n + 1\<rparr>)
           | (Inl e, r1) \<Rightarrow> (Inl e, r1, cl1)))"

definition rf_reduce ::
  "('q, ('m, 's) dispatch) ractor_mailbox \<Rightarrow> ('c, ('m, 's) dispatch) mpsc \<Rightarrow> 's list \<Rightarrow> nat \<Rightarrow> batch_config option \<Rightarrow> cancel_token option
    \<Rightarrow> ('q, 'c, 'p, 'm, 'y, 'i, 'o, 'h) ractor_ref \<Rightarrow> ('y, 'i, 'o, 'h) caller
    \<Rightarrow> (actor_send_error + nat \<times> stream_setup) \<times> ('q, 'c, 'p, 'm, 'y, 'i, 'o, 'h) ractor_ref \<times> ('y, 'i, 'o, 'h) caller" where
  "rf_reduce mb ch items buffer batch cancel r cl =
     (let tx = cl_next cl in
      case rf_send_dispatch mb ch r (ReduceDispatch items tx cancel) of
        (Inr _, r1) \<Rightarrow>
          (Inr (tx, \<lparr>ss_stream = tx, ss_buffer = max buffer 1, ss_batch = batch, ss_mode = Reduce\<rparr>), r1,
           cl\<lparr>cl_next := tx + 1, cl_oneshots := (cl_oneshots cl)(tx := OsPending)\<rparr>)
      | (Inl e, r1) \<Rightarrow> (Inl e, r1, cl\<lparr>cl_next := tx + 1, cl_oneshots := (cl_oneshots cl)(tx := OsDropped)\<rparr>))"

definition rf_transform ::
  "('q, ('m, 's) dispatch) ractor_mailbox \<Rightarrow> ('c, ('m, 's) dispatch) mpsc \<Rightarrow> ('s \<times> bool) list \<Rightarrow> nat \<Rightarrow> batch_config option \<Rightarrow> cancel_token option
    \<Rightarrow> ('q, 'c, 'p, 'm, 'y, 'i, 'o, 'h) ractor_ref \<Rightarrow> ('y, 'i, 'o, 'h) caller
    \<Rightarrow> (actor_send_error + stream_setup) \<times> ('q, 'c, 'p, 'm, 'y, 'i, 'o, 'h) ractor_ref \<times> ('y, 'i, 'o, 'h) caller" where
  "rf_transform mb ch items buffer batch cancel r cl =
     (let n = cl_next cl in
      case rf_send_dispatch mb ch r (TransformDispatch items n cancel) of
        (Inr _, r1) \<Rightarrow> (Inr \<lparr>ss_stream = n, ss_buffer = max buffer 1, ss_batch = batch, ss_mode = Transform\<rparr>, r1, cl\<lparr>cl_next := n + 1\<rparr>)
      | (Inl e, r1) \<Rightarrow> (Inl e, r1, cl))"

section \<open>Spawning\<close>

text \<open>The task that forwards a bounded mailbox: one turn, waiting if there is nothing to forward; it ends when the actor is gone.\<close>

definition rf_forward :: "('q, 'x) ractor_mailbox \<Rightarrow> ('c, 'x) mpsc \<Rightarrow> 'c \<Rightarrow> 'q \<Rightarrow> 'c \<times> 'q" where
  "rf_forward mb ch c q =
     (case mp_recv ch c of
        (None, c1) \<Rightarrow> (c1, q)
      | (Some msg, c1) \<Rightarrow> (case rmb_cast mb q msg of (Inr _, q1) \<Rightarrow> (c1, q1) | (Inl _, q1) \<Rightarrow> (mp_close ch c1, q1)))"

text \<open>\<open>started\<close> is what ractor's spawn gives: an error, or the mailbox of the actor once \<^verbatim>\<open>pre_start\<close> is through.\<close>

definition rr_spawn_internal ::
  "(nat \<Rightarrow> 'c) \<Rightarrow> string + 'q \<Rightarrow> string \<Rightarrow> mailbox_config \<Rightarrow> nat \<Rightarrow> ('p, 'm, 'y, 'i) outbound_interceptor list \<Rightarrow> 'o drop_observer option
    \<Rightarrow> 'h dead_letter_handler option \<Rightarrow> ('f, 'd, 't, 'cb) ractor_runtime \<Rightarrow> (actor_id, nat) hashmap
    \<Rightarrow> (runtime_error + ('q, 'c, 'p, 'm, 'y, 'i, 'o, 'h) ractor_ref) \<times> ('f, 'd, 't, 'cb) ractor_runtime \<times> (actor_id, nat) hashmap" where
  "rr_spawn_internal channel started name mailbox stop_rx interceptors observer letters rt receivers =
     (case rr_take_local_id rt of (actor_id, rt1) \<Rightarrow>
        case started of
          Inl e \<Rightarrow> (Inl (RE_SpawnFailed e), rt1, receivers)
        | Inr inner \<Rightarrow>
            (Inr \<lparr>rf_id = actor_id, rf_name = name, rf_inner = inner,
               rf_bounded_tx = (case mailbox of Bounded capacity overflow \<Rightarrow> Some \<lparr>bms_tx = channel (unat capacity), bms_overflow = overflow\<rparr>
                                | Unbounded \<Rightarrow> None),
               rf_outbound_interceptors = interceptors, rf_drop_observer = observer, rf_dead_letter_handler = letters\<rparr>,
             rt1, hm_insert actor_id stop_rx receivers))"

section \<open>Waiting for actors to stop\<close>

text \<open>The channel of a stop notifier: what \<open>ra_post_stop\<close> sends, or dropped with the actor. \<open>None\<close> as a result stands for waiting.\<close>

datatype stop_channel = StopPending | StopSent "string + unit" | StopDropped

fun stop_recv :: "string \<Rightarrow> stop_channel \<Rightarrow> (string + unit) option" where
  "stop_recv dropped StopPending = None"
| "stop_recv dropped StopDropped = Some (Inl dropped)"
| "stop_recv dropped (StopSent r) = Some r"

definition rr_await_stop ::
  "(nat \<Rightarrow> stop_channel) \<Rightarrow> (actor_id, nat) hashmap \<Rightarrow> actor_id \<Rightarrow> (string + unit) option \<times> (actor_id, nat) hashmap" where
  "rr_await_stop chans receivers actor_id =
     (case hm_get receivers actor_id of
        Some rx \<Rightarrow> (stop_recv ''stop notifier dropped'' (chans rx), hm_remove actor_id receivers)
      | None \<Rightarrow> (Some (Inr ()), receivers))"

fun first_stop_error :: "(string + unit) list \<Rightarrow> string + unit" where
  "first_stop_error [] = Inr ()"
| "first_stop_error (Inl e # _) = Inl e"
| "first_stop_error (Inr _ # rs) = first_stop_error rs"

definition rr_await_all ::
  "(nat \<Rightarrow> stop_channel) \<Rightarrow> (actor_id, nat) hashmap \<Rightarrow> (string + unit) option \<times> (actor_id, nat) hashmap" where
  "rr_await_all chans receivers =
     (let results = map (\<lambda>rx. stop_recv ''stop notifier dropped: channel closed'' (chans rx)) (hm_values receivers)
      in (if None \<in> set results then None else Some (first_stop_error (map the results)), hm_empty))"

definition rr_cleanup_finished :: "(nat \<Rightarrow> stop_channel) \<Rightarrow> (actor_id, nat) hashmap \<Rightarrow> (actor_id, nat) hashmap" where
  "rr_cleanup_finished chans receivers = filter (\<lambda>(_, rx). chans rx = StopPending) receivers"

definition rr_active_handle_count :: "(actor_id, nat) hashmap \<Rightarrow> nat" where
  "rr_active_handle_count receivers = length receivers"

section \<open>Lemmas\<close>

text \<open>What is queued for the actor, in ractor's mailbox and in front of it.\<close>

definition rf_front :: "('c \<Rightarrow> 'x list) \<Rightarrow> ('q, 'c, 'p, 'm, 'y, 'i, 'o, 'h) ractor_ref \<Rightarrow> 'x list" where
  "rf_front queued r = (case rf_bounded_tx r of Some btx \<Rightarrow> queued (bms_tx btx) | None \<Rightarrow> [])"

definition rf_contents :: "('q \<Rightarrow> 'x list) \<Rightarrow> ('c \<Rightarrow> 'x list) \<Rightarrow> ('q, 'c, 'p, 'm, 'y, 'i, 'o, 'h) ractor_ref \<Rightarrow> 'x list" where
  "rf_contents mqueued queued r = mqueued (rf_inner r) @ rf_front queued r"

definition rf_drops_newest :: "('c, 'x) mpsc \<Rightarrow> ('c \<Rightarrow> 'x list) \<Rightarrow> ('q, 'c, 'p, 'm, 'y, 'i, 'o, 'h) ractor_ref \<Rightarrow> bool" where
  "rf_drops_newest ch queued r \<longleftrightarrow> (\<exists>btx. rf_bounded_tx r = Some btx \<and> bms_overflow btx = DropNewest \<and>
     \<not> mp_is_closed ch (bms_tx btx) \<and> mp_max_capacity ch (bms_tx btx) \<le> length (queued (bms_tx btx)))"

lemma bms_try_send_effect:
  assumes law: "mpsc_lawful ch queued" and run: "bms_try_send ch b d = (x, b')"
  shows "queued (bms_tx b') = queued (bms_tx b) @ (if isl x \<or> bms_overflow b = DropNewest \<and> \<not> mp_is_closed ch (bms_tx b) \<and>
    mp_max_capacity ch (bms_tx b) \<le> length (queued (bms_tx b)) then [] else [d])"
proof -
  consider "mp_is_closed ch (bms_tx b)" | "\<not> mp_is_closed ch (bms_tx b)" "mp_max_capacity ch (bms_tx b) \<le> length (queued (bms_tx b))"
    | "\<not> mp_is_closed ch (bms_tx b)" "length (queued (bms_tx b)) < mp_max_capacity ch (bms_tx b)" by linarith
  then show ?thesis
  proof cases
    case 1
    then show ?thesis using run mpsc_closedD(1) [OF law 1, of d] by (auto simp: bms_try_send_def)
  next
    case 2
    then show ?thesis using run mpsc_fullD [OF law 2, of d] by (auto simp: bms_try_send_def split: overflow_strategy.splits)
  next
    case 3
    obtain c where "mp_try_send ch (bms_tx b) d = (Inr (), c)" "queued c = queued (bms_tx b) @ [d]" using mpsc_try_sendE [OF law 3] by metis
    then show ?thesis using run 3 by (auto simp: bms_try_send_def)
  qed
qed

lemma rf_send_dispatch_effect:
  assumes "mailbox_lawful mb mqueued accepts" and "mpsc_lawful ch queued" and "rf_send_dispatch mb ch r d = (x, r')"
  shows "rf_contents mqueued queued r' = rf_contents mqueued queued r @ (if isl x \<or> rf_drops_newest ch queued r then [] else [d])"
proof (cases "rf_bounded_tx r")
  case None
  have "if accepts (rf_inner r) then \<exists>q'. rmb_cast mb (rf_inner r) d = (Inr (), q') \<and> mqueued q' = mqueued (rf_inner r) @ [d] \<and> accepts q'
      else \<exists>e. rmb_cast mb (rf_inner r) d = (Inl e, rf_inner r)"
    using assms(1) by (simp add: mailbox_lawful_def)
  then show ?thesis
    using assms(3) None by (auto simp: rf_send_dispatch_def rf_contents_def rf_front_def rf_drops_newest_def split: if_splits)
next
  case (Some b)
  obtain y b' where b': "bms_try_send ch b d = (y, b')" by force
  then show ?thesis
    using assms(3) Some bms_try_send_effect [OF assms(2) b']
    by (auto simp: rf_send_dispatch_def rf_contents_def rf_front_def rf_drops_newest_def)
qed

lemma rf_drops_newest_accepts:
  assumes "mpsc_lawful ch queued" and "rf_drops_newest ch queued r"
  shows "fst (rf_send_dispatch mb ch r d) = Inr ()"
  using assms mpsc_fullD [OF assms(1)] by (auto simp: rf_drops_newest_def rf_send_dispatch_def bms_try_send_def)

lemma rf_tell_plain:
  assumes "rf_outbound_interceptors r = []"
  shows "rf_tell mb ch type_name msg r cl =
    (case rf_send_dispatch mb ch r (TypedDispatch msg) of
       (Inr _, r1) \<Rightarrow> (Inr (), r1, cl)
     | (Inl e, r1) \<Rightarrow> (Inl e, r1, cl\<lparr>cl_letters := rf_notify_dead_letter r (type_name msg) Tell (rf_failure_reason e) (cl_letters cl)\<rparr>))"
  using assms by (simp add: rf_tell_def run_on_send_def rf_outbound_pipeline_def ir_continued_def Let_def split: prod.splits sum.splits)

text \<open>The streaming calls make no dead letter, whatever becomes of them.\<close>

lemma streaming_calls_no_dead_letter:
  "cl_letters (snd (snd (rf_expand mb ch type_name msg buffer batch cancel r cl))) = cl_letters cl"
  "cl_letters (snd (snd (rf_reduce mb ch items buffer batch cancel r cl))) = cl_letters cl"
  "cl_letters (snd (snd (rf_transform mb ch inputs buffer batch cancel r cl))) = cl_letters cl"
  by (auto simp: rf_expand_def rf_reduce_def rf_transform_def Let_def split: prod.splits sum.splits disposition.splits)

section \<open>Properties\<close>

text \<open>C13. What becomes of a tell. A tell that is refused leaves the mailbox as it was, returns the error and makes one dead letter; a tell that returns
  without error makes none, and the message is the last one queued for the actor unless an interceptor stopped it or a full mailbox
  with the strategy \<open>DropNewest\<close> did. A message lost in one of these two ways is reported as sent and makes no dead letter here, although the
  documentation of \<open>set_dead_letter_handler\<close> promises one for a full mailbox.\<close>

theorem tell_outcomes:
  assumes laws: "mailbox_lawful mb mqueued accepts" "mpsc_lawful ch queued" and run: "rf_tell mb ch type_name msg r cl = (x, r', cl')"
    and stopped: "stopped = (\<not> lets_pass (ir_disposition (fst (run_on_send (rf_outbound_pipeline r) (type_name msg) Tell msg (cl_istate cl) (cl_observed cl)))))"
  shows "rf_contents mqueued queued r' = rf_contents mqueued queued r @
      (if stopped \<or> isl x \<or> rf_drops_newest ch queued r then [] else [TypedDispatch msg]) \<and>
    cl_letters cl' = (case x of Inr _ \<Rightarrow> cl_letters cl
      | Inl e \<Rightarrow> rf_notify_dead_letter r (type_name msg) Tell (rf_failure_reason e) (cl_letters cl)) \<and>
    (stopped \<or> rf_drops_newest ch queued r \<longrightarrow> x = Inr () \<and> cl_letters cl' = cl_letters cl)"
proof -
  obtain result i obs where ros: "run_on_send (rf_outbound_pipeline r) (type_name msg) Tell msg (cl_istate cl) (cl_observed cl) = (result, i, obs)"
    by (rule prod_cases3)
  show ?thesis
  proof (cases "lets_pass (ir_disposition result)")
    case True
    obtain y r1 where s: "rf_send_dispatch mb ch r (TypedDispatch msg) = (y, r1)" by force
    then have "x = y" "r' = r1" "cl_letters cl' = (case y of Inr _ \<Rightarrow> cl_letters cl
        | Inl e \<Rightarrow> rf_notify_dead_letter r (type_name msg) Tell (rf_failure_reason e) (cl_letters cl))"
      using run ros True by (auto simp: rf_tell_def Let_def split: sum.splits)
    moreover have "rf_drops_newest ch queued r \<Longrightarrow> y = Inr ()" using rf_drops_newest_accepts [OF laws(2), of r mb "TypedDispatch msg"] s by simp
    ultimately show ?thesis using rf_send_dispatch_effect [OF laws s] stopped ros True by simp
  next
    case False
    then show ?thesis using run ros stopped by (auto simp: rf_tell_def Let_def)
  qed
qed

text \<open>A bounded mailbox hides that the actor has stopped. With a mailbox that has room, the next tell after the actor is gone returns
  without error and without a dead letter; the forwarding task then takes the message, fails, and ends, so that the message is lost, and
  only from then on do tells fail.\<close>

theorem stopped_bounded_tell_lost:
  assumes laws: "mailbox_lawful mb mqueued accepts" "mpsc_lawful ch queued" and r: "rf_bounded_tx r = Some b" "rf_outbound_interceptors r = []"
    and b: "\<not> mp_is_closed ch (bms_tx b)" "queued (bms_tx b) = []" "0 < mp_max_capacity ch (bms_tx b)"
    and gone: "\<not> accepts (rf_inner r)" and run: "rf_tell mb ch type_name msg r cl = (x, r1, cl1)"
  shows "x = Inr () \<and> cl_letters cl1 = cl_letters cl \<and>
    (\<exists>b1 c. rf_bounded_tx r1 = Some b1 \<and> rf_forward mb ch (bms_tx b1) (rf_inner r1) = (c, rf_inner r) \<and> queued c = [] \<and> mp_is_closed ch c \<and>
      (\<exists>e. fst (rf_tell mb ch type_name msg (r1\<lparr>rf_bounded_tx := Some (b1\<lparr>bms_tx := c\<rparr>)\<rparr>) cl1) = Inl e))"
proof -
  obtain c where c: "mp_try_send ch (bms_tx b) (TypedDispatch msg) = (Inr (), c)" "queued c = [TypedDispatch msg]" "\<not> mp_is_closed ch c"
    using mpsc_try_sendE [OF laws(2) b(1), of "TypedDispatch msg"] b(2,3) by auto
  then have "rf_send_dispatch mb ch r (TypedDispatch msg) = (Inr (), r\<lparr>rf_bounded_tx := Some (b\<lparr>bms_tx := c\<rparr>)\<rparr>)"
    using r(1) by (simp add: rf_send_dispatch_def bms_try_send_def)
  then have 1: "x = Inr ()" "r1 = r\<lparr>rf_bounded_tx := Some (b\<lparr>bms_tx := c\<rparr>)\<rparr>" "cl1 = cl" using run rf_tell_plain [OF r(2), of mb ch type_name msg cl] by simp_all
  obtain c1 where c1: "mp_recv ch c = (Some (TypedDispatch msg), c1)" using mpsc_recvE [OF laws(2) c(2)] by metis
  obtain e where "rmb_cast mb (rf_inner r) (TypedDispatch msg) = (Inl e, rf_inner r)"
    using laws(1) [unfolded mailbox_lawful_def, rule_format, of "rf_inner r" "TypedDispatch msg"] gone by auto
  then have fwd: "rf_forward mb ch c (rf_inner r) = (mp_close ch c1, rf_inner r)" using c1 by (simp add: rf_forward_def)
  have closed: "mp_is_closed ch (mp_close ch c1)" "queued (mp_close ch c1) = []" using mpsc_closeD [OF laws(2)] by blast+
  let ?r2 = "r1\<lparr>rf_bounded_tx := Some (b\<lparr>bms_tx := mp_close ch c1\<rparr>)\<rparr>"
  have "rf_outbound_interceptors ?r2 = []" using r(2) 1(2) by simp
  from rf_tell_plain [OF this, of mb ch type_name msg cl1] have "fst (rf_tell mb ch type_name msg ?r2 cl1) = Inl (ActorSendError ''actor stopped'')"
    using mpsc_closedD(1) [OF laws(2) closed(1), of "TypedDispatch msg"] by (simp add: rf_send_dispatch_def bms_try_send_def)
  then show ?thesis using 1 fwd closed by (auto intro!: exI [of _ "b\<lparr>bms_tx := c\<rparr>"])
qed

text \<open>A mailbox of ractor that shows that the laws can hold: its messages, and whether the actor is there.\<close>

definition list_mailbox :: "('x list \<times> bool, 'x) ractor_mailbox" where
  "list_mailbox = \<lparr>rmb_cast = (\<lambda>(xs, up) x. if up then (Inr (), xs @ [x], up) else (Inl ''Messaging failed to enqueue the message'', xs, up)),
     rmb_stop = (\<lambda>(xs, _). (xs, False)), rmb_running = snd\<rparr>"

lemma list_mailbox_lawful: "mailbox_lawful list_mailbox fst snd"
  by (auto simp: mailbox_lawful_def list_mailbox_def)

definition sample_ref :: "bool \<Rightarrow> nat \<Rightarrow>
  ((nat, nat) dispatch list \<times> bool, (nat, nat) dispatch list_channel, unit, nat, nat, unit, unit, collecting_handler) ractor_ref" where
  "sample_ref up n = \<lparr>rf_id = ActorId (NodeId ''n'') 1, rf_name = ''a'', rf_inner = ([], up),
     rf_bounded_tx = Some \<lparr>bms_tx = ListChannel [] n False, bms_overflow = RejectWithError\<rparr>,
     rf_outbound_interceptors = [], rf_drop_observer = None, rf_dead_letter_handler = Some cdl_on_dead_letter\<rparr>"

definition sample_caller :: "(nat, unit, unit, collecting_handler) caller" where
  "sample_caller = \<lparr>cl_istate = (), cl_observed = (), cl_letters = cdl_new, cl_oneshots = (\<lambda>_. OsPending), cl_next = 0\<rparr>"

theorem tell_outcomes_witness:
  "let (x, r, cl) = rf_tell list_mailbox list_mpsc (\<lambda>_. ''Add'') 7 (sample_ref True 0) sample_caller
   in x = Inl (ActorSendError ''mailbox full'') \<and> rf_contents fst lc_items r = [] \<and> map dl_reason (cdl_events (cl_letters cl)) = [DL_MailboxFull]"
proof -
  let ?run = "rf_tell list_mailbox list_mpsc (\<lambda>_. ''Add'') 7 (sample_ref True 0) sample_caller"
  obtain x r cl where run: "?run = (x, r, cl)" by (rule prod_cases3)
  have x: "x = Inl (ActorSendError ''mailbox full'')"
    using run rf_tell_plain [of "sample_ref True 0" list_mailbox list_mpsc "\<lambda>_. ''Add''" 7 sample_caller]
    by (simp add: sample_ref_def rf_send_dispatch_def bms_try_send_def list_mpsc_def)
  have "rf_failure_reason (ActorSendError ''mailbox full'') = DL_MailboxFull" by code_simp
  then show ?thesis
    using tell_outcomes [OF list_mailbox_lawful list_mpsc_lawful run refl] run x
    by (simp add: sample_ref_def sample_caller_def rf_contents_def rf_front_def rf_notify_dead_letter_def cdl_on_dead_letter_def cdl_new_def)
qed

theorem stopped_bounded_tell_lost_witness:
  "let (x, r, cl) = rf_tell list_mailbox list_mpsc (\<lambda>_. ''Add'') 7 (sample_ref False 3) sample_caller
   in x = Inr () \<and> cl_letters cl = cdl_new"
proof -
  let ?run = "rf_tell list_mailbox list_mpsc (\<lambda>_. ''Add'') 7 (sample_ref False 3) sample_caller"
  obtain x r cl where run: "?run = (x, r, cl)" by (rule prod_cases3)
  let ?b = "\<lparr>bms_tx = ListChannel [] 3 False :: (nat, nat) dispatch list_channel, bms_overflow = RejectWithError\<rparr>"
  have r: "rf_bounded_tx (sample_ref False 3) = Some ?b" "rf_outbound_interceptors (sample_ref False 3) = []" by (simp_all add: sample_ref_def)
  have b: "\<not> mp_is_closed list_mpsc (bms_tx ?b)" "lc_items (bms_tx ?b) = []" "0 < mp_max_capacity list_mpsc (bms_tx ?b)"
    by (simp_all add: list_mpsc_def)
  have gone: "\<not> snd (rf_inner (sample_ref False 3))" by (simp add: sample_ref_def)
  show ?thesis
    using stopped_bounded_tell_lost [OF list_mailbox_lawful list_mpsc_lawful r b gone run] run by (simp add: sample_caller_def)
qed

end
