(* ===== verification/Kameo_Actor.thy ===== *)
theory Kameo_Actor
  imports Kameo_Node Ractor_Ref
begin

text \<open>
  An actor of the kameo adapter and its references (\<^verbatim>\<open>dactor-kameo/src/runtime.rs\<close>). The bridge has the shape of the ractor
  adapter's, with these differences: a handler after whose panic the actor is to stop panics again, which is how kameo learns of it; a panic in
  \<open>on_stop\<close> does not become the reason watchers are told; refused messages come back with the error's printed form; and
  spawning cannot fail. The loops over interceptors and the handling of envelopes are those of \<open>Ractor_Actor\<close> and \<open>Dispatch\<close>. The
  mailbox of the kameo crate is a parameter.
\<close>

section \<open>The actor\<close>

record ('a, 'm, 'y, 'p, 'w, 'j, 'h) kameo_actor =
  ka_actor :: 'a
  ka_ctx :: "'p actor_context"
  ka_interceptors :: "('p, 'm, 'y, 'j, ('a, 'p, 'w, 'y) handler_future) inbound_interceptor list"
  ka_istate :: 'j
  ka_stop_reason :: "string option"
  ka_dead_letter_handler :: "'h dead_letter_handler option"
  ka_stop_notifier :: "nat option"

definition ka_on_start ::
  "('a, 'm, 'i, 'y, 'p, 'w) actor_impl \<Rightarrow> 'a \<Rightarrow> actor_id \<Rightarrow> string
    \<Rightarrow> ('p, 'm, 'y, 'j, ('a, 'p, 'w, 'y) handler_future) inbound_interceptor list \<Rightarrow> 'j \<Rightarrow> 'h dead_letter_handler option \<Rightarrow> nat \<Rightarrow> 'w
    \<Rightarrow> ('a, 'm, 'y, 'p, 'w, 'j, 'h) kameo_actor option \<times> 'w" where
  "ka_on_start A created actor_id actor_name is j letters notifier w =
     (case ai_on_start A (created, ac_new actor_id actor_name, w) of
        (Returned _, actor, ctx, w1) \<Rightarrow>
          (Some \<lparr>ka_actor = actor, ka_ctx = ctx, ka_interceptors = is, ka_istate = j, ka_stop_reason = None,
                 ka_dead_letter_handler = letters, ka_stop_notifier = Some notifier\<rparr>, w1)
      | (Panicked, _, _, w1) \<Rightarrow> (None, w1))"

definition ka_dead_letter :: "('a, 'm, 'y, 'p, 'w, 'j, 'h) kameo_actor \<Rightarrow> inbound_context \<Rightarrow> string \<Rightarrow> 'h \<Rightarrow> 'h" where
  "ka_dead_letter st ictx interceptor_name h =
     (case ka_dead_letter_handler st of None \<Rightarrow> h
      | Some on_dead_letter \<Rightarrow> snd (on_dead_letter h \<lparr>dl_target_id = ic_actor_id ictx, dl_target_name = Some (ic_actor_name ictx),
          dl_message_type = ic_message_type ictx, dl_send_mode = ic_send_mode ictx,
          dl_reason = DL_DroppedByInterceptor interceptor_name\<rparr>))"

text \<open>The result is \<open>Panicked\<close> when the handler resumes the panic.\<close>

definition ka_complete ::
  "('a, 'm, 'i, 'y, 'p, 'w) actor_impl \<Rightarrow> ('m, 'i) dispatch \<Rightarrow> 'y dispatch_result handler_run
    \<Rightarrow> ('a, 'm, 'y, 'p, 'w, 'j, 'h) kameo_actor \<Rightarrow> ('y, 'w, 'h) surroundings
    \<Rightarrow> unit handler_run \<times> ('a, 'm, 'y, 'p, 'w, 'j, 'h) kameo_actor \<times> ('y, 'w, 'h) surroundings" where
  "ka_complete A d result st su =
     (let ictx = ra_inbound_context A (ka_ctx st) d;
          complete = (\<lambda>outcome. run_on_complete (ka_interceptors st) ictx (ac_headers (ka_ctx st)) outcome (ka_istate st))
      in case result of
           Returned r \<Rightarrow>
             (let outcome = (case (dr_reply r, send_mode_of d) of (Some reply, Ask) \<Rightarrow> AskSuccess reply | _ \<Rightarrow> TellSuccess)
              in (Returned (), st\<lparr>ka_istate := complete outcome\<rparr>, su\<lparr>su_oneshots := dr_send_reply r (su_oneshots su)\<rparr>))
         | Panicked \<Rightarrow>
             (let error = actor_error_internal ''handler panicked''
              in case ai_on_error A (ka_actor st) error of (action, actor) \<Rightarrow>
                let st1 = st\<lparr>ka_actor := actor, ka_istate := complete (HandlerError error)\<rparr>;
                    su1 = su\<lparr>su_oneshots := drop_dispatch d (su_oneshots su)\<rparr>
                in if action \<in> {Stop, Escalate} then (Panicked, st1\<lparr>ka_stop_reason := Some ''handler panicked''\<rparr>, su1)
                   else (Returned (), st1, su1)))"

definition ka_handle ::
  "('a, 'm, 'i, 'p, 'w) token_env \<Rightarrow> ('a, 'm, 'i, 'y, 'p, 'w) actor_impl \<Rightarrow> ('m, 'i) dispatch
    \<Rightarrow> ('a, 'm, 'y, 'p, 'w, 'j, 'h) kameo_actor \<times> ('y, 'w, 'h) surroundings
    \<Rightarrow> unit handler_run \<times> ('a, 'm, 'y, 'p, 'w, 'j, 'h) kameo_actor \<times> ('y, 'w, 'h) surroundings" where
  "ka_handle T A d s =
     (let (st, su) = s;
          ctx1 = (ka_ctx st)\<lparr>ac_send_mode := Some (send_mode_of d), ac_headers := hd_new\<rparr>;
          ictx = ra_inbound_context A ctx1 d
      in case run_on_receive ictx (message_any d) (ka_interceptors st) hd_new 0 (ka_istate st) of
           (Some (name, disp), _, _, j) \<Rightarrow>
             (Returned (), st\<lparr>ka_ctx := ctx1, ka_istate := j\<rparr>,
              su\<lparr>su_letters := (if disp = Drop then ka_dead_letter st ictx name (su_letters su) else su_letters su),
                 su_oneshots := dispatch_reject d disp name (su_oneshots su)\<rparr>)
         | (None, h, total_delay, j) \<Rightarrow>
             (let su1 = (if total_delay = 0 then su else su\<lparr>su_slept := su_slept su @ [total_delay]\<rparr>);
                  wrappers = collect_handler_wrappers (ka_interceptors st) ictx h j;
                  ctx2 = ctx1\<lparr>ac_headers := h, ac_cancellation_token := cancel_token_of d\<rparr>;
                  uncancel = (\<lambda>c :: 'p actor_context. c\<lparr>ac_cancellation_token := None\<rparr>)
              in if (case cancel_token_of d of Some token \<Rightarrow> te_is_cancelled T token (su_world su1) | None \<Rightarrow> False)
                 then (Returned (), st\<lparr>ka_ctx := uncancel ctx2, ka_istate := j\<rparr>, su1\<lparr>su_oneshots := dispatch_cancel d (su_oneshots su1)\<rparr>)
                 else case run_handler T A wrappers d (ka_actor st, ctx2, su_world su1) of
                   (None, actor, ctx3, w) \<Rightarrow>
                     (Returned (), st\<lparr>ka_actor := actor, ka_ctx := uncancel ctx3, ka_istate := j\<rparr>,
                      su1\<lparr>su_world := w, su_oneshots := drop_dispatch d (su_oneshots su1)\<rparr>)
                 | (Some result, actor, ctx3, w) \<Rightarrow>
                     ka_complete A d result (st\<lparr>ka_actor := actor, ka_ctx := uncancel ctx3, ka_istate := j\<rparr>) (su1\<lparr>su_world := w\<rparr>)))"

text \<open>The watchers of kameo actors are kept as in \<open>Ractor_Actor\<close>: entries by target, in order.\<close>

definition ka_watch :: "'q watcher_map \<Rightarrow> actor_id \<Rightarrow> 'q \<Rightarrow> actor_id \<Rightarrow> 'q watcher_map" where
  "ka_watch m watcher_id mailbox target_id = hm_insert target_id (hm_entry target_id [] m @ [WatchEntry watcher_id mailbox]) m"

definition ka_unwatch :: "'q watcher_map \<Rightarrow> actor_id \<Rightarrow> actor_id \<Rightarrow> 'q watcher_map" where
  "ka_unwatch m watcher_id target_id =
     (case hm_get m target_id of
        None \<Rightarrow> m
      | Some entries \<Rightarrow>
          (let kept = filter (\<lambda>e. wen_watcher_id e \<noteq> watcher_id) entries
           in if kept = [] then hm_remove target_id m else hm_insert target_id kept m))"

definition ka_on_stop ::
  "('a, 'm, 'i, 'y, 'p, 'w) actor_impl \<Rightarrow> ('a, 'm, 'y, 'p, 'w, 'j, 'h) kameo_actor \<Rightarrow> 'q watcher_map
    \<Rightarrow> ('q watch_entry \<times> child_terminated) list \<times> (nat \<times> (string + unit)) option
      \<times> ('a, 'm, 'y, 'p, 'w, 'j, 'h) kameo_actor \<times> 'q watcher_map" where
  "ka_on_stop A st watchers =
     (case ai_on_stop A (ka_actor st) of (run, actor) \<Rightarrow>
        let stop_err = (case run of Returned _ \<Rightarrow> None | Panicked \<Rightarrow> Some ''actor panicked in on_stop'');
            actor_id = ac_actor_id (ka_ctx st);
            entries = hm_entry actor_id [] watchers;
            notification = ChildTerminated actor_id (ac_actor_name (ka_ctx st)) (ka_stop_reason st)
        in (map (\<lambda>e. (e, notification)) entries,
            map_option (\<lambda>tx. (tx, case stop_err of Some e \<Rightarrow> Inl e | None \<Rightarrow> Inr ())) (ka_stop_notifier st),
            st\<lparr>ka_actor := actor, ka_ctx := (ka_ctx st)\<lparr>ac_send_mode := None, ac_headers := hd_new, ac_cancellation_token := None\<rparr>,
               ka_stop_notifier := None\<rparr>,
            filter (\<lambda>(_, v). v \<noteq> [])
              (map (\<lambda>(k, entries). (k, filter (\<lambda>e. wen_watcher_id e \<noteq> actor_id) entries)) (hm_remove actor_id watchers))))"

section \<open>References\<close>

record ('q, 'x) kameo_mailbox =
  kmb_try_send :: "'q \<Rightarrow> 'x \<Rightarrow> (string + unit) \<times> 'q"
  kmb_kill :: "'q \<Rightarrow> 'q"
  kmb_is_alive :: "'q \<Rightarrow> bool"

record ('q, 'c, 'p, 'm, 'y, 'i, 'o, 'h) kameo_ref =
  kf_id :: actor_id
  kf_name :: string
  kf_inner :: 'q
  kf_bounded_tx :: "'c bounded_mailbox_sender option"
  kf_outbound_interceptors :: "('p, 'm, 'y, 'i) outbound_interceptor list"
  kf_drop_observer :: "'o drop_observer option"
  kf_dead_letter_handler :: "'h dead_letter_handler option"

definition kf_outbound_pipeline ::
  "('q, 'c, 'p, 'm, 'y, 'i, 'o, 'h) kameo_ref \<Rightarrow> ('p, 'm, 'y, 'i, 'o) outbound_pipeline" where
  "kf_outbound_pipeline r = \<lparr>op_interceptors = kf_outbound_interceptors r, op_drop_observer = kf_drop_observer r,
     op_target_id = kf_id r, op_target_name = kf_name r\<rparr>"

definition kf_notify_dead_letter ::
  "('q, 'c, 'p, 'm, 'y, 'i, 'o, 'h) kameo_ref \<Rightarrow> string \<Rightarrow> send_mode \<Rightarrow> dead_letter_reason \<Rightarrow> 'h \<Rightarrow> 'h" where
  "kf_notify_dead_letter r message_type mode reason h =
     (case kf_dead_letter_handler r of None \<Rightarrow> h
      | Some on_dead_letter \<Rightarrow> snd (on_dead_letter h \<lparr>dl_target_id = kf_id r, dl_target_name = Some (kf_name r),
          dl_message_type = message_type, dl_send_mode = mode, dl_reason = reason\<rparr>))"

definition kf_send_dispatch ::
  "('q, 'x) kameo_mailbox \<Rightarrow> ('c, 'x) mpsc \<Rightarrow> ('q, 'c, 'p, 'm, 'y, 'i, 'o, 'h) kameo_ref \<Rightarrow> 'x
    \<Rightarrow> (actor_send_error + unit) \<times> ('q, 'c, 'p, 'm, 'y, 'i, 'o, 'h) kameo_ref" where
  "kf_send_dispatch mb ch r d =
     (case kf_bounded_tx r of
        Some btx \<Rightarrow> (case bms_try_send ch btx d of (x, btx') \<Rightarrow> (x, r\<lparr>kf_bounded_tx := Some btx'\<rparr>))
      | None \<Rightarrow> (case kmb_try_send mb (kf_inner r) d of
                   (Inr _, q) \<Rightarrow> (Inr (), r\<lparr>kf_inner := q\<rparr>)
                 | (Inl e, q) \<Rightarrow> (Inl (ActorSendError e), r\<lparr>kf_inner := q\<rparr>)))"

definition kf_is_alive :: "('q, 'x) kameo_mailbox \<Rightarrow> ('c, 'x) mpsc \<Rightarrow> ('q, 'c, 'p, 'm, 'y, 'i, 'o, 'h) kameo_ref \<Rightarrow> bool" where
  "kf_is_alive mb ch r = (case kf_bounded_tx r of
     Some btx \<Rightarrow> \<not> bms_is_closed ch btx \<and> kmb_is_alive mb (kf_inner r) | None \<Rightarrow> kmb_is_alive mb (kf_inner r))"

definition kf_pending_messages :: "('c, 'x) mpsc \<Rightarrow> ('q, 'c, 'p, 'm, 'y, 'i, 'o, 'h) kameo_ref \<Rightarrow> nat" where
  "kf_pending_messages ch r = (case kf_bounded_tx r of Some btx \<Rightarrow> bms_pending ch btx | None \<Rightarrow> 0)"

definition kf_stop ::
  "('q, 'x) kameo_mailbox \<Rightarrow> ('q, 'c, 'p, 'm, 'y, 'i, 'o, 'h) kameo_ref \<Rightarrow> ('q, 'c, 'p, 'm, 'y, 'i, 'o, 'h) kameo_ref" where
  "kf_stop mb r = r\<lparr>kf_inner := kmb_kill mb (kf_inner r)\<rparr>"

definition kf_failure_reason :: "actor_send_error \<Rightarrow> dead_letter_reason" where
  "kf_failure_reason e = (if str_contains (send_error_text e) ''full'' then DL_MailboxFull else DL_ActorStopped)"

definition kf_tell ::
  "('q, ('m, 's) dispatch) kameo_mailbox \<Rightarrow> ('c, ('m, 's) dispatch) mpsc \<Rightarrow> ('m \<Rightarrow> string) \<Rightarrow> 'm
    \<Rightarrow> ('q, 'c, 'p, 'm, 'y, 'i, 'o, 'h) kameo_ref \<Rightarrow> ('y, 'i, 'o, 'h) caller
    \<Rightarrow> (actor_send_error + unit) \<times> ('q, 'c, 'p, 'm, 'y, 'i, 'o, 'h) kameo_ref \<times> ('y, 'i, 'o, 'h) caller" where
  "kf_tell mb ch type_name msg r cl =
     (case run_on_send (kf_outbound_pipeline r) (type_name msg) Tell msg (cl_istate cl) (cl_observed cl) of (result, i, obs) \<Rightarrow>
        let cl1 = cl\<lparr>cl_istate := i, cl_observed := obs\<rparr> in
        if lets_pass (ir_disposition result)
        then case kf_send_dispatch mb ch r (TypedDispatch msg) of
               (Inr _, r1) \<Rightarrow> (Inr (), r1, cl1)
             | (Inl e, r1) \<Rightarrow> (Inl (ActorSendError (actor_send_error_display e)), r1, cl1\<lparr>cl_letters := kf_notify_dead_letter r (type_name msg) Tell (kf_failure_reason e) (cl_letters cl1)\<rparr>)
        else (Inr (), r, cl1))"

definition kf_ask ::
  "('q, ('m, 's) dispatch) kameo_mailbox \<Rightarrow> ('c, ('m, 's) dispatch) mpsc \<Rightarrow> ('m \<Rightarrow> string) \<Rightarrow> 'm \<Rightarrow> cancel_token option
    \<Rightarrow> ('q, 'c, 'p, 'm, 'y, 'i, 'o, 'h) kameo_ref \<Rightarrow> ('y, 'i, 'o, 'h) caller
    \<Rightarrow> (actor_send_error + nat) \<times> ('q, 'c, 'p, 'm, 'y, 'i, 'o, 'h) kameo_ref \<times> ('y, 'i, 'o, 'h) caller" where
  "kf_ask mb ch type_name msg cancel r cl =
     (case run_on_send (kf_outbound_pipeline r) (type_name msg) Ask msg (cl_istate cl) (cl_observed cl) of (result, i, obs) \<Rightarrow>
        let tx = cl_next cl;
            cl1 = cl\<lparr>cl_istate := i, cl_observed := obs, cl_next := tx + 1, cl_oneshots := (cl_oneshots cl)(tx := OsPending)\<rparr>;
            answered = (\<lambda>e. (Inr tx, r, cl1\<lparr>cl_oneshots := (cl_oneshots cl1)(tx := OsSent (Inl e))\<rparr>))
        in case ir_disposition result of
             Drop \<Rightarrow> answered (RE_ActorNotFound ''message dropped by outbound interceptor'')
           | Reject reason \<Rightarrow> answered (RE_Rejected (ir_interceptor_name result) reason)
           | Retry retry_after \<Rightarrow> answered (RE_RetryAfter (ir_interceptor_name result) retry_after)
           | _ \<Rightarrow>
             (case kf_send_dispatch mb ch r (AskDispatch msg tx cancel) of
                (Inr _, r1) \<Rightarrow> (Inr tx, r1, cl1)
              | (Inl e, r1) \<Rightarrow> (Inl (ActorSendError (actor_send_error_display e)), r1, cl1\<lparr>cl_letters := kf_notify_dead_letter r (type_name msg) Ask (kf_failure_reason e) (cl_letters cl1),
                                              cl_oneshots := (cl_oneshots cl1)(tx := OsDropped)\<rparr>)))"

definition kf_expand ::
  "('q, ('m, 's) dispatch) kameo_mailbox \<Rightarrow> ('c, ('m, 's) dispatch) mpsc \<Rightarrow> ('m \<Rightarrow> string) \<Rightarrow> 'm \<Rightarrow> nat \<Rightarrow> batch_config option \<Rightarrow> cancel_token option
    \<Rightarrow> ('q, 'c, 'p, 'm, 'y, 'i, 'o, 'h) kameo_ref \<Rightarrow> ('y, 'i, 'o, 'h) caller
    \<Rightarrow> (actor_send_error + stream_setup) \<times> ('q, 'c, 'p, 'm, 'y, 'i, 'o, 'h) kameo_ref \<times> ('y, 'i, 'o, 'h) caller" where
  "kf_expand mb ch type_name msg buffer batch cancel r cl =
     (case run_on_send (kf_outbound_pipeline r) (type_name msg) Expand msg (cl_istate cl) (cl_observed cl) of (result, i, obs) \<Rightarrow>
        let n = cl_next cl; cl1 = cl\<lparr>cl_istate := i, cl_observed := obs\<rparr> in
        case ir_disposition result of
          Drop \<Rightarrow> (Inl (ActorSendError ''stream dropped by outbound interceptor''), r, cl1)
        | Reject reason \<Rightarrow> (Inl (ActorSendError (''stream rejected: '' @ reason)), r, cl1)
        | Retry _ \<Rightarrow> (Inl (ActorSendError ''stream retry requested by interceptor''), r, cl1)
        | _ \<Rightarrow>
          (case kf_send_dispatch mb ch r (ExpandDispatch msg n cancel) of
             (Inr _, r1) \<Rightarrow> (Inr \<lparr>ss_stream = n, ss_buffer = max buffer 1, ss_batch = batch, ss_mode = Expand\<rparr>, r1, cl1\<lparr>cl_next := n + 1\<rparr>)
           | (Inl e, r1) \<Rightarrow> (Inl e, r1, cl1)))"

definition kf_reduce ::
  "('q, ('m, 's) dispatch) kameo_mailbox \<Rightarrow> ('c, ('m, 's) dispatch) mpsc \<Rightarrow> 's list \<Rightarrow> nat \<Rightarrow> batch_config option \<Rightarrow> cancel_token option
    \<Rightarrow> ('q, 'c, 'p, 'm, 'y, 'i, 'o, 'h) kameo_ref \<Rightarrow> ('y, 'i, 'o, 'h) caller
    \<Rightarrow> (actor_send_error + nat \<times> stream_setup) \<times> ('q, 'c, 'p, 'm, 'y, 'i, 'o, 'h) kameo_ref \<times> ('y, 'i, 'o, 'h) caller" where
  "kf_reduce mb ch items buffer batch cancel r cl =
     (let tx = cl_next cl in
      case kf_send_dispatch mb ch r (ReduceDispatch items tx cancel) of
        (Inr _, r1) \<Rightarrow>
          (Inr (tx, \<lparr>ss_stream = tx, ss_buffer = max buffer 1, ss_batch = batch, ss_mode = Reduce\<rparr>), r1,
           cl\<lparr>cl_next := tx + 1, cl_oneshots := (cl_oneshots cl)(tx := OsPending)\<rparr>)
      | (Inl e, r1) \<Rightarrow> (Inl e, r1, cl\<lparr>cl_next := tx + 1, cl_oneshots := (cl_oneshots cl)(tx := OsDropped)\<rparr>))"

definition kf_transform ::
  "('q, ('m, 's) dispatch) kameo_mailbox \<Rightarrow> ('c, ('m, 's) dispatch) mpsc \<Rightarrow> ('s \<times> bool) list \<Rightarrow> nat \<Rightarrow> batch_config option \<Rightarrow> cancel_token option
    \<Rightarrow> ('q, 'c, 'p, 'm, 'y, 'i, 'o, 'h) kameo_ref \<Rightarrow> ('y, 'i, 'o, 'h) caller
    \<Rightarrow> (actor_send_error + stream_setup) \<times> ('q, 'c, 'p, 'm, 'y, 'i, 'o, 'h) kameo_ref \<times> ('y, 'i, 'o, 'h) caller" where
  "kf_transform mb ch items buffer batch cancel r cl =
     (let n = cl_next cl in
      case kf_send_dispatch mb ch r (TransformDispatch items n cancel) of
        (Inr _, r1) \<Rightarrow> (Inr \<lparr>ss_stream = n, ss_buffer = max buffer 1, ss_batch = batch, ss_mode = Transform\<rparr>, r1, cl\<lparr>cl_next := n + 1\<rparr>)
      | (Inl e, r1) \<Rightarrow> (Inl e, r1, cl))"

section \<open>Spawning and stopping\<close>

definition kf_forward :: "('q, 'x) kameo_mailbox \<Rightarrow> ('c, 'x) mpsc \<Rightarrow> 'c \<Rightarrow> 'q \<Rightarrow> 'c \<times> 'q" where
  "kf_forward mb ch c q =
     (case mp_recv ch c of
        (None, c1) \<Rightarrow> (c1, q)
      | (Some msg, c1) \<Rightarrow> (case kmb_try_send mb q msg of (Inr _, q1) \<Rightarrow> (c1, q1) | (Inl _, q1) \<Rightarrow> (mp_close ch c1, q1)))"

text \<open>Kameo starts the actor in a task of its own and gives the mailbox at once.\<close>

definition kr_spawn_internal ::
  "(nat \<Rightarrow> 'c) \<Rightarrow> 'q \<Rightarrow> string \<Rightarrow> mailbox_config \<Rightarrow> nat \<Rightarrow> ('p, 'm, 'y, 'i) outbound_interceptor list \<Rightarrow> 'o drop_observer option
    \<Rightarrow> 'h dead_letter_handler option \<Rightarrow> ('f, 'd, 't, 'cb) kameo_runtime \<Rightarrow> (actor_id, nat) hashmap
    \<Rightarrow> ('q, 'c, 'p, 'm, 'y, 'i, 'o, 'h) kameo_ref \<times> ('f, 'd, 't, 'cb) kameo_runtime \<times> (actor_id, nat) hashmap" where
  "kr_spawn_internal channel inner name mailbox stop_rx interceptors observer letters rt receivers =
     (let actor_id = ActorId (kr_node_id rt) (kr_next_local rt) in
      (\<lparr>kf_id = actor_id, kf_name = name, kf_inner = inner,
         kf_bounded_tx = (case mailbox of Bounded capacity overflow \<Rightarrow> Some \<lparr>bms_tx = channel (unat capacity), bms_overflow = overflow\<rparr>
                          | Unbounded \<Rightarrow> None),
         kf_outbound_interceptors = interceptors, kf_drop_observer = observer, kf_dead_letter_handler = letters\<rparr>,
       rt\<lparr>kr_next_local := kr_next_local rt + 1\<rparr>, hm_insert actor_id stop_rx receivers))"

definition kr_await_stop ::
  "(nat \<Rightarrow> stop_channel) \<Rightarrow> (actor_id, nat) hashmap \<Rightarrow> actor_id \<Rightarrow> (string + unit) option \<times> (actor_id, nat) hashmap" where
  "kr_await_stop chans receivers actor_id =
     (case hm_get receivers actor_id of
        Some rx \<Rightarrow> (stop_recv ''stop notifier dropped'' (chans rx), hm_remove actor_id receivers)
      | None \<Rightarrow> (Some (Inr ()), receivers))"

definition kr_await_all ::
  "(nat \<Rightarrow> stop_channel) \<Rightarrow> (actor_id, nat) hashmap \<Rightarrow> (string + unit) option \<times> (actor_id, nat) hashmap" where
  "kr_await_all chans receivers =
     (let results = map (\<lambda>rx. stop_recv ''stop notifier dropped: channel closed'' (chans rx)) (hm_values receivers)
      in (if None \<in> set results then None else Some (first_stop_error (map the results)), hm_empty))"

definition kr_cleanup_finished :: "(nat \<Rightarrow> stop_channel) \<Rightarrow> (actor_id, nat) hashmap \<Rightarrow> (actor_id, nat) hashmap" where
  "kr_cleanup_finished chans receivers = filter (\<lambda>(_, rx). chans rx = StopPending) receivers"

definition kr_active_handle_count :: "(actor_id, nat) hashmap \<Rightarrow> nat" where
  "kr_active_handle_count receivers = length receivers"

section \<open>Lemmas\<close>

text \<open>A kameo actor and a kameo reference seen as those of ractor.\<close>

definition ka_to_ractor :: "('a, 'm, 'y, 'p, 'w, 'j, 'h) kameo_actor \<Rightarrow> ('a, 'm, 'y, 'p, 'w, 'j, 'h) ractor_actor_state" where
  "ka_to_ractor st = \<lparr>ras_actor = ka_actor st, ras_ctx = ka_ctx st, ras_interceptors = ka_interceptors st, ras_istate = ka_istate st,
     ras_stop_reason = ka_stop_reason st, ras_dead_letter_handler = ka_dead_letter_handler st, ras_stop_notifier = ka_stop_notifier st\<rparr>"

definition kf_to_ractor :: "('q, 'c, 'p, 'm, 'y, 'i, 'o, 'h) kameo_ref \<Rightarrow> ('q, 'c, 'p, 'm, 'y, 'i, 'o, 'h) ractor_ref" where
  "kf_to_ractor r = \<lparr>rf_id = kf_id r, rf_name = kf_name r, rf_inner = kf_inner r, rf_bounded_tx = kf_bounded_tx r,
     rf_outbound_interceptors = kf_outbound_interceptors r, rf_drop_observer = kf_drop_observer r, rf_dead_letter_handler = kf_dead_letter_handler r\<rparr>"

definition kmb_to_ractor :: "('q, 'x) kameo_mailbox \<Rightarrow> ('q, 'x) ractor_mailbox" where
  "kmb_to_ractor mb = \<lparr>rmb_cast = kmb_try_send mb, rmb_stop = kmb_kill mb, rmb_running = kmb_is_alive mb\<rparr>"

text \<open>What the two adapters do differently with a panic that stops the actor: ractor is asked to stop it, kameo sees the panic.\<close>

definition stop_requested ::
  "unit handler_run \<times> ('a, 'm, 'y, 'p, 'w, 'j, 'h) kameo_actor \<times> ('y, 'w, 'h) surroundings
    \<Rightarrow> ('a, 'm, 'y, 'p, 'w, 'j, 'h) ractor_actor_state \<times> ('y, 'w, 'h) surroundings" where
  "stop_requested x = (case x of (run, st, su) \<Rightarrow> (ka_to_ractor st, if run = Panicked then su\<lparr>su_stop := True\<rparr> else su))"

lemma ka_to_ractor_simps [simp]:
  "ras_actor (ka_to_ractor st) = ka_actor st" "ras_ctx (ka_to_ractor st) = ka_ctx st" "ras_interceptors (ka_to_ractor st) = ka_interceptors st"
  "ras_istate (ka_to_ractor st) = ka_istate st" "ras_stop_reason (ka_to_ractor st) = ka_stop_reason st"
  "ras_dead_letter_handler (ka_to_ractor st) = ka_dead_letter_handler st" "ras_stop_notifier (ka_to_ractor st) = ka_stop_notifier st"
  by (simp_all add: ka_to_ractor_def)

lemma ka_to_ractor_updates [simp]:
  "ka_to_ractor (st\<lparr>ka_actor := a\<rparr>) = (ka_to_ractor st)\<lparr>ras_actor := a\<rparr>" "ka_to_ractor (st\<lparr>ka_ctx := c\<rparr>) = (ka_to_ractor st)\<lparr>ras_ctx := c\<rparr>"
  "ka_to_ractor (st\<lparr>ka_istate := j\<rparr>) = (ka_to_ractor st)\<lparr>ras_istate := j\<rparr>"
  "ka_to_ractor (st\<lparr>ka_stop_reason := x\<rparr>) = (ka_to_ractor st)\<lparr>ras_stop_reason := x\<rparr>"
  "ka_to_ractor (st\<lparr>ka_stop_notifier := y\<rparr>) = (ka_to_ractor st)\<lparr>ras_stop_notifier := y\<rparr>"
  by (simp_all add: ka_to_ractor_def)

lemma ka_complete_refines: "stop_requested (ka_complete A d result st su) = ra_complete A d result (ka_to_ractor st) su"
  by (cases result) (auto simp: ka_complete_def ra_complete_def stop_requested_def Let_def split: prod.split)

lemma ka_handle_refines: "stop_requested (ka_handle T A d (st, su)) = ra_handle T A d (ka_to_ractor st, su)"
proof -
  let ?ctx1 = "(ka_ctx st)\<lparr>ac_send_mode := Some (send_mode_of d), ac_headers := hd_new\<rparr>"
  let ?ictx = "ra_inbound_context A ?ctx1 d"
  obtain rej h delay j where rr: "run_on_receive ?ictx (message_any d) (ka_interceptors st) hd_new 0 (ka_istate st) = (rej, h, delay, j)"
    by (metis prod_cases4)
  have dl: "ka_dead_letter st ictx name x = ra_dead_letter (ka_to_ractor st) ictx name x" for ictx name x
    by (simp add: ka_dead_letter_def ra_dead_letter_def)
  show ?thesis
  proof (cases rej)
    case (Some nd)
    obtain name disp where nd: "nd = (name, disp)" by force
    show ?thesis using rr Some nd by (simp add: ka_handle_def ra_handle_def Let_def stop_requested_def dl)
  next
    case None
    define su1 where "su1 = (if delay = 0 then su else su\<lparr>su_slept := su_slept su @ [delay]\<rparr>)"
    let ?ws = "collect_handler_wrappers (ka_interceptors st) ?ictx h j"
    let ?ctx2 = "?ctx1\<lparr>ac_headers := h, ac_cancellation_token := cancel_token_of d\<rparr>"
    obtain result actor ctx3 w where run: "run_handler T A ?ws d (ka_actor st, ?ctx2, su_world su1) = (result, actor, ctx3, w)"
      by (metis prod_cases4)
    show ?thesis
      unfolding ka_handle_def ra_handle_def Let_def prod.case ka_to_ractor_simps rr None option.case su1_def [symmetric] run
      by (cases result) (simp_all add: stop_requested_def [of "(Returned (), _)"] ka_complete_refines)
  qed
qed

lemma kf_to_ractor_simps [simp]:
  "rf_id (kf_to_ractor r) = kf_id r" "rf_name (kf_to_ractor r) = kf_name r" "rf_inner (kf_to_ractor r) = kf_inner r"
  "rf_bounded_tx (kf_to_ractor r) = kf_bounded_tx r" "rf_outbound_interceptors (kf_to_ractor r) = kf_outbound_interceptors r"
  "rf_drop_observer (kf_to_ractor r) = kf_drop_observer r" "rf_dead_letter_handler (kf_to_ractor r) = kf_dead_letter_handler r"
  "kf_to_ractor (r\<lparr>kf_inner := q\<rparr>) = (kf_to_ractor r)\<lparr>rf_inner := q\<rparr>"
  "kf_to_ractor (r\<lparr>kf_bounded_tx := b\<rparr>) = (kf_to_ractor r)\<lparr>rf_bounded_tx := b\<rparr>"
  "rmb_cast (kmb_to_ractor mb) = kmb_try_send mb" "rmb_stop (kmb_to_ractor mb) = kmb_kill mb" "rmb_running (kmb_to_ractor mb) = kmb_is_alive mb"
  by (simp_all add: kf_to_ractor_def kmb_to_ractor_def)

lemma kf_pipeline [simp]: "kf_outbound_pipeline r = rf_outbound_pipeline (kf_to_ractor r)"
  by (simp add: kf_outbound_pipeline_def rf_outbound_pipeline_def)

lemma kf_dead_letter [simp]: "kf_notify_dead_letter r = rf_notify_dead_letter (kf_to_ractor r)"
  by (intro ext) (simp add: kf_notify_dead_letter_def rf_notify_dead_letter_def split: option.split)

lemma kf_reason [simp]: "kf_failure_reason = rf_failure_reason"
  by (intro ext) (simp add: kf_failure_reason_def rf_failure_reason_def)

lemma kf_send_refines:
  "rf_send_dispatch (kmb_to_ractor mb) ch (kf_to_ractor r) d = map_prod id kf_to_ractor (kf_send_dispatch mb ch r d)"
  by (simp add: kf_send_dispatch_def rf_send_dispatch_def split: option.split prod.split sum.split)

text \<open>The printed form of an error as the text of another.\<close>

definition reprint :: "actor_send_error + 'a \<Rightarrow> actor_send_error + 'a" where
  "reprint x = map_sum (\<lambda>e. ActorSendError (actor_send_error_display e)) id x"

text \<open>The calls of a reference do what those of ractor do, except for the text of the error a refused tell or ask returns.\<close>

lemma kf_tell_refines:
  "map_prod id (map_prod kf_to_ractor id) (kf_tell mb ch type_name msg r cl) =
     map_prod reprint id (rf_tell (kmb_to_ractor mb) ch type_name msg (kf_to_ractor r) cl)"
  by (simp add: kf_tell_def rf_tell_def kf_send_refines reprint_def Let_def split: prod.split sum.split)

lemma kf_ask_refines:
  "map_prod id (map_prod kf_to_ractor id) (kf_ask mb ch type_name msg cancel r cl) =
     map_prod reprint id (rf_ask (kmb_to_ractor mb) ch type_name msg cancel (kf_to_ractor r) cl)"
  by (simp add: kf_ask_def rf_ask_def kf_send_refines reprint_def Let_def split: prod.split sum.split disposition.split)

lemma kf_streams_refine:
  "map_prod id (map_prod kf_to_ractor id) (kf_expand mb ch type_name msg buffer batch cancel r cl) =
     rf_expand (kmb_to_ractor mb) ch type_name msg buffer batch cancel (kf_to_ractor r) cl"
  "map_prod id (map_prod kf_to_ractor id) (kf_reduce mb ch items buffer batch cancel r cl) =
     rf_reduce (kmb_to_ractor mb) ch items buffer batch cancel (kf_to_ractor r) cl"
  "map_prod id (map_prod kf_to_ractor id) (kf_transform mb ch inputs buffer batch cancel r cl) =
     rf_transform (kmb_to_ractor mb) ch inputs buffer batch cancel (kf_to_ractor r) cl"
  by (simp_all add: kf_expand_def rf_expand_def kf_reduce_def rf_reduce_def kf_transform_def rf_transform_def kf_send_refines Let_def
      split: prod.split sum.split disposition.split)

section \<open>Properties\<close>

text \<open>The messages of a mailbox, until the actor is to stop.\<close>

fun ra_run ::
  "('a, 'm, 'i, 'p, 'w) token_env \<Rightarrow> ('a, 'm, 'i, 'y, 'p, 'w) actor_impl
    \<Rightarrow> ('a, 'm, 'y, 'p, 'w, 'j, 'h) ractor_actor_state \<times> ('y, 'w, 'h) surroundings \<Rightarrow> ('m, 'i) dispatch list
    \<Rightarrow> ('a, 'm, 'y, 'p, 'w, 'j, 'h) ractor_actor_state \<times> ('y, 'w, 'h) surroundings" where
  "ra_run T A s [] = s"
| "ra_run T A s (d # ds) = (let s' = ra_handle T A d s in if su_stop (snd s') then s' else ra_run T A s' ds)"

fun ka_run ::
  "('a, 'm, 'i, 'p, 'w) token_env \<Rightarrow> ('a, 'm, 'i, 'y, 'p, 'w) actor_impl
    \<Rightarrow> ('a, 'm, 'y, 'p, 'w, 'j, 'h) kameo_actor \<times> ('y, 'w, 'h) surroundings \<Rightarrow> ('m, 'i) dispatch list
    \<Rightarrow> unit handler_run \<times> ('a, 'm, 'y, 'p, 'w, 'j, 'h) kameo_actor \<times> ('y, 'w, 'h) surroundings" where
  "ka_run T A s [] = (Returned (), s)"
| "ka_run T A s (d # ds) = (case ka_handle T A d s of (Panicked, s') \<Rightarrow> (Panicked, s') | (Returned _, s') \<Rightarrow> ka_run T A s' ds)"

lemma ka_complete_keeps_stop: "su_stop (snd (snd (ka_complete A d result st su))) = su_stop su"
  by (cases result) (auto simp: ka_complete_def Let_def split: prod.split)

lemma ka_handle_keeps_stop: "su_stop (snd (snd (ka_handle T A d (st, su)))) = su_stop su"
  by (simp add: ka_handle_def ka_complete_keeps_stop Let_def split: prod.split option.split)

text \<open>C18. A kameo actor lives as the ractor actor does. Given the same messages, both run the same interceptors and handlers in the same order,
  answer the same requests, make the same dead letters, sleep as long and stop after the same message; the kameo actor's state is then that of
  the ractor actor.\<close>

theorem kameo_actor_refines:
  assumes "\<not> su_stop su"
  shows "ra_run T A (ka_to_ractor st, su) ds = stop_requested (ka_run T A (st, su) ds)"
  using assms
proof (induction ds arbitrary: st su)
  case Nil
  show ?case by (simp add: stop_requested_def)
next
  case (Cons d ds)
  obtain run st1 su1 where k: "ka_handle T A d (st, su) = (run, st1, su1)" by (rule prod_cases3)
  have running: "\<not> su_stop su1" using ka_handle_keeps_stop [of T A d st su] Cons.prems by (simp add: k)
  have r: "ra_handle T A d (ka_to_ractor st, su) = stop_requested (run, st1, su1)" using ka_handle_refines [of T A d st su] by (simp add: k)
  show ?case
  proof (cases run)
    case (Returned u)
    then have "ra_handle T A d (ka_to_ractor st, su) = (ka_to_ractor st1, su1)" using r by (simp add: stop_requested_def)
    then show ?thesis using Cons.IH [OF running] running Returned by (simp add: k)
  next
    case Panicked
    then show ?thesis using r by (simp add: k stop_requested_def)
  qed
qed

definition kameo_adder :: "(nat, nat, nat, unit, unit, circuit_breaker \<times> instant, unit) kameo_actor" where
  "kameo_adder = \<lparr>ka_actor = 5, ka_ctx = ac_new (ActorId (NodeId ''n'') 1) ''adder'', ka_interceptors = [cb_interceptor],
     ka_istate = (cb_new 1 60 30, 7), ka_stop_reason = None, ka_dead_letter_handler = None, ka_stop_notifier = Some 0\<rparr>"

theorem kameo_actor_refines_witness:
  "\<not> su_stop quiet \<and> ra_run patient adder (ka_to_ractor kameo_adder, quiet) [AskDispatch 4 9 None, AskDispatch 0 10 None] =
     stop_requested (ka_run patient adder (kameo_adder, quiet) [AskDispatch 4 9 None, AskDispatch 0 10 None])"
proof -
  have "\<not> su_stop quiet" by (simp add: quiet_def)
  from this kameo_actor_refines [OF this, of patient adder kameo_adder "[AskDispatch 4 9 None, AskDispatch 0 10 None]"] show ?thesis ..
qed

text \<open>The reason of a failed stop. When \<open>on_stop\<close> panics on an actor that no handler has made to stop, the waiters for the actor get the
  error from both adapters, but the watchers of a kameo actor are told without a reason, which stands for a graceful end, while those of a
  ractor actor are told the failure.\<close>

theorem kameo_stop_panic_told_as_graceful:
  assumes panics: "ai_on_stop A (ka_actor st) = (Panicked, actor)" and reason: "ka_stop_reason st = None" and waiter: "ka_stop_notifier st = Some tx"
    and kameo: "ka_on_stop A st m = (told, sent, st', m')" and ractor: "ra_post_stop A (ka_to_ractor st) m = (told', sent', rst', m'')"
  shows "map fst told = map fst told' \<and> sent = Some (tx, Inl ''actor panicked in on_stop'') \<and> sent' = sent \<and> m' = m'' \<and>
    (\<forall>n \<in> set told. ct_reason (snd n) = None) \<and> (\<forall>n \<in> set told'. ct_reason (snd n) = Some ''actor panicked in on_stop'')"
  using assms by (auto simp: ka_on_stop_def ra_post_stop_def ra_forget_actor_def Let_def comp_def)

definition stubborn :: "(nat, nat, nat, nat, unit, unit) actor_impl" where
  "stubborn = adder\<lparr>ai_on_stop := (\<lambda>a. (Panicked, a))\<rparr>"

theorem kameo_stop_panic_told_as_graceful_witness:
  "let m = ka_watch hm_empty (ActorId (NodeId ''n'') 2) () (ActorId (NodeId ''n'') 1);
       (told, sent, st, m') = ka_on_stop stubborn kameo_adder m;
       (told', sent', st', m'') = ra_post_stop stubborn (ka_to_ractor kameo_adder) m
   in sent = sent' \<and> (\<forall>n \<in> set told. ct_reason (snd n) = None) \<and> (\<forall>n \<in> set told'. ct_reason (snd n) = Some ''actor panicked in on_stop'')"
proof -
  let ?m = "ka_watch hm_empty (ActorId (NodeId ''n'') 2) () (ActorId (NodeId ''n'') 1)"
  obtain told sent st m' where k: "ka_on_stop stubborn kameo_adder ?m = (told, sent, st, m')" by (metis prod_cases4)
  obtain told' sent' st' m'' where r: "ra_post_stop stubborn (ka_to_ractor kameo_adder) ?m = (told', sent', st', m'')" by (metis prod_cases4)
  have h: "ai_on_stop stubborn (ka_actor kameo_adder) = (Panicked, 5)" "ka_stop_reason kameo_adder = None" "ka_stop_notifier kameo_adder = Some 0"
    by (simp_all add: stubborn_def kameo_adder_def)
  from kameo_stop_panic_told_as_graceful [OF h k r] show ?thesis by (simp add: k r)
qed

end
