(* ===== verification/Coerce_Actor.thy ===== *)
theory Coerce_Actor
  imports Coerce_Node Kameo_Actor
begin

text \<open>
  An actor of the coerce adapter and its references (\<^verbatim>\<open>dactor-coerce/src/runtime.rs\<close>). The bridge is that of the ractor adapter, but for an
  envelope that is taken out of its message at most once, an actor that is created by the caller of spawn and only started by
  coerce, and the reason watchers are told when \<open>on_stop\<close> panics. The mailbox of the coerce crate is a parameter.
\<close>

section \<open>Messages\<close>

text \<open>A message holds its envelope behind a mutex until the handler takes it.\<close>

datatype 'x coerce_msg = CoerceMsg (coerce_msg_envelope: "'x option")

definition coerce_msg_new :: "'x \<Rightarrow> 'x coerce_msg" where "coerce_msg_new d = CoerceMsg (Some d)"

definition coerce_msg_take :: "'x coerce_msg \<Rightarrow> 'x option \<times> 'x coerce_msg" where
  "coerce_msg_take m = (coerce_msg_envelope m, CoerceMsg None)"

section \<open>The actor\<close>

record ('a, 'm, 'y, 'p, 'w, 'j, 'h) coerce_actor =
  ca_actor :: 'a
  ca_ctx :: "'p actor_context"
  ca_interceptors :: "('p, 'm, 'y, 'j, ('a, 'p, 'w, 'y) handler_future) inbound_interceptor list"
  ca_istate :: 'j
  ca_stop_reason :: "string option"
  ca_dead_letter_handler :: "'h dead_letter_handler option"
  ca_stop_notifier :: "nat option"

definition ca_started ::
  "('a, 'm, 'i, 'y, 'p, 'w) actor_impl \<Rightarrow> ('a, 'm, 'y, 'p, 'w, 'j, 'h) coerce_actor \<Rightarrow> 'w
    \<Rightarrow> unit handler_run \<times> ('a, 'm, 'y, 'p, 'w, 'j, 'h) coerce_actor \<times> 'w" where
  "ca_started A st w =
     (case ai_on_start A (ca_actor st, ca_ctx st, w) of (run, actor, ctx, w1) \<Rightarrow> (run, st\<lparr>ca_actor := actor, ca_ctx := ctx\<rparr>, w1))"

definition ca_dead_letter :: "('a, 'm, 'y, 'p, 'w, 'j, 'h) coerce_actor \<Rightarrow> inbound_context \<Rightarrow> string \<Rightarrow> 'h \<Rightarrow> 'h" where
  "ca_dead_letter st ictx interceptor_name h =
     (case ca_dead_letter_handler st of None \<Rightarrow> h
      | Some on_dead_letter \<Rightarrow> snd (on_dead_letter h \<lparr>dl_target_id = ic_actor_id ictx, dl_target_name = Some (ic_actor_name ictx),
          dl_message_type = ic_message_type ictx, dl_send_mode = ic_send_mode ictx,
          dl_reason = DL_DroppedByInterceptor interceptor_name\<rparr>))"

definition ca_complete ::
  "('a, 'm, 'i, 'y, 'p, 'w) actor_impl \<Rightarrow> ('m, 'i) dispatch \<Rightarrow> 'y dispatch_result handler_run
    \<Rightarrow> ('a, 'm, 'y, 'p, 'w, 'j, 'h) coerce_actor \<Rightarrow> ('y, 'w, 'h) surroundings
    \<Rightarrow> ('a, 'm, 'y, 'p, 'w, 'j, 'h) coerce_actor \<times> ('y, 'w, 'h) surroundings" where
  "ca_complete A d result st su =
     (let ictx = ra_inbound_context A (ca_ctx st) d;
          complete = (\<lambda>outcome. run_on_complete (ca_interceptors st) ictx (ac_headers (ca_ctx st)) outcome (ca_istate st))
      in case result of
           Returned r \<Rightarrow>
             (let outcome = (case (dr_reply r, send_mode_of d) of (Some reply, Ask) \<Rightarrow> AskSuccess reply | _ \<Rightarrow> TellSuccess)
              in (st\<lparr>ca_istate := complete outcome\<rparr>, su\<lparr>su_oneshots := dr_send_reply r (su_oneshots su)\<rparr>))
         | Panicked \<Rightarrow>
             (let error = actor_error_internal ''handler panicked''
              in case ai_on_error A (ca_actor st) error of (action, actor) \<Rightarrow>
                let st1 = st\<lparr>ca_actor := actor, ca_istate := complete (HandlerError error)\<rparr>;
                    su1 = su\<lparr>su_oneshots := drop_dispatch d (su_oneshots su)\<rparr>
                in if action \<in> {Stop, Escalate}
                   then (st1\<lparr>ca_stop_reason := Some ''handler panicked''\<rparr>, su1\<lparr>su_stop := True\<rparr>)
                   else (st1, su1)))"

text \<open>Handling the envelope, once it is taken.\<close>

definition ca_dispatch ::
  "('a, 'm, 'i, 'p, 'w) token_env \<Rightarrow> ('a, 'm, 'i, 'y, 'p, 'w) actor_impl \<Rightarrow> ('m, 'i) dispatch
    \<Rightarrow> ('a, 'm, 'y, 'p, 'w, 'j, 'h) coerce_actor \<times> ('y, 'w, 'h) surroundings
    \<Rightarrow> ('a, 'm, 'y, 'p, 'w, 'j, 'h) coerce_actor \<times> ('y, 'w, 'h) surroundings" where
  "ca_dispatch T A d s =
     (let (st, su) = s;
          ctx1 = (ca_ctx st)\<lparr>ac_send_mode := Some (send_mode_of d), ac_headers := hd_new\<rparr>;
          ictx = ra_inbound_context A ctx1 d
      in case run_on_receive ictx (message_any d) (ca_interceptors st) hd_new 0 (ca_istate st) of
           (Some (name, disp), _, _, j) \<Rightarrow>
             (st\<lparr>ca_ctx := ctx1, ca_istate := j\<rparr>,
              su\<lparr>su_letters := (if disp = Drop then ca_dead_letter st ictx name (su_letters su) else su_letters su),
                 su_oneshots := dispatch_reject d disp name (su_oneshots su)\<rparr>)
         | (None, h, total_delay, j) \<Rightarrow>
             (let su1 = (if total_delay = 0 then su else su\<lparr>su_slept := su_slept su @ [total_delay]\<rparr>);
                  wrappers = collect_handler_wrappers (ca_interceptors st) ictx h j;
                  ctx2 = ctx1\<lparr>ac_headers := h, ac_cancellation_token := cancel_token_of d\<rparr>;
                  uncancel = (\<lambda>c :: 'p actor_context. c\<lparr>ac_cancellation_token := None\<rparr>)
              in if (case cancel_token_of d of Some token \<Rightarrow> te_is_cancelled T token (su_world su1) | None \<Rightarrow> False)
                 then (st\<lparr>ca_ctx := uncancel ctx2, ca_istate := j\<rparr>, su1\<lparr>su_oneshots := dispatch_cancel d (su_oneshots su1)\<rparr>)
                 else case run_handler T A wrappers d (ca_actor st, ctx2, su_world su1) of
                   (None, actor, ctx3, w) \<Rightarrow>
                     (st\<lparr>ca_actor := actor, ca_ctx := uncancel ctx3, ca_istate := j\<rparr>,
                      su1\<lparr>su_world := w, su_oneshots := drop_dispatch d (su_oneshots su1)\<rparr>)
                 | (Some result, actor, ctx3, w) \<Rightarrow>
                     ca_complete A d result (st\<lparr>ca_actor := actor, ca_ctx := uncancel ctx3, ca_istate := j\<rparr>) (su1\<lparr>su_world := w\<rparr>)))"

definition ca_handle ::
  "('a, 'm, 'i, 'p, 'w) token_env \<Rightarrow> ('a, 'm, 'i, 'y, 'p, 'w) actor_impl \<Rightarrow> ('m, 'i) dispatch coerce_msg
    \<Rightarrow> ('a, 'm, 'y, 'p, 'w, 'j, 'h) coerce_actor \<times> ('y, 'w, 'h) surroundings
    \<Rightarrow> ('a, 'm, 'y, 'p, 'w, 'j, 'h) coerce_actor \<times> ('y, 'w, 'h) surroundings" where
  "ca_handle T A msg s = (case fst (coerce_msg_take msg) of Some d \<Rightarrow> ca_dispatch T A d s | None \<Rightarrow> s)"

definition ca_watch :: "'q watcher_map \<Rightarrow> actor_id \<Rightarrow> 'q \<Rightarrow> actor_id \<Rightarrow> 'q watcher_map" where
  "ca_watch m watcher_id mailbox target_id = hm_insert target_id (hm_entry target_id [] m @ [WatchEntry watcher_id mailbox]) m"

definition ca_unwatch :: "'q watcher_map \<Rightarrow> actor_id \<Rightarrow> actor_id \<Rightarrow> 'q watcher_map" where
  "ca_unwatch m watcher_id target_id =
     (case hm_get m target_id of
        None \<Rightarrow> m
      | Some entries \<Rightarrow>
          (let kept = filter (\<lambda>e. wen_watcher_id e \<noteq> watcher_id) entries
           in if kept = [] then hm_remove target_id m else hm_insert target_id kept m))"

definition ca_stopped ::
  "('a, 'm, 'i, 'y, 'p, 'w) actor_impl \<Rightarrow> ('a, 'm, 'y, 'p, 'w, 'j, 'h) coerce_actor \<Rightarrow> 'q watcher_map
    \<Rightarrow> ('q watch_entry \<times> child_terminated) list \<times> (nat \<times> (string + unit)) option
      \<times> ('a, 'm, 'y, 'p, 'w, 'j, 'h) coerce_actor \<times> 'q watcher_map" where
  "ca_stopped A st watchers =
     (case ai_on_stop A (ca_actor st) of (run, actor) \<Rightarrow>
        let stop_err = (case run of Returned _ \<Rightarrow> None | Panicked \<Rightarrow> Some ''actor panicked in on_stop'');
            actor_id = ac_actor_id (ca_ctx st);
            entries = hm_entry actor_id [] watchers;
            notification = ChildTerminated actor_id (ac_actor_name (ca_ctx st)) (ca_stop_reason st)
        in (map (\<lambda>e. (e, notification)) entries,
            map_option (\<lambda>tx. (tx, case stop_err of Some e \<Rightarrow> Inl e | None \<Rightarrow> Inr ())) (ca_stop_notifier st),
            st\<lparr>ca_actor := actor, ca_ctx := (ca_ctx st)\<lparr>ac_send_mode := None, ac_headers := hd_new, ac_cancellation_token := None\<rparr>,
               ca_stop_notifier := None\<rparr>,
            filter (\<lambda>(_, v). v \<noteq> [])
              (map (\<lambda>(k, entries). (k, filter (\<lambda>e. wen_watcher_id e \<noteq> actor_id) entries)) (hm_remove actor_id watchers))))"

section \<open>References\<close>

record ('q, 'x) coerce_mailbox =
  cmb_notify :: "'q \<Rightarrow> 'x \<Rightarrow> (string + unit) \<times> 'q"
  cmb_notify_stop :: "'q \<Rightarrow> 'q"
  cmb_is_valid :: "'q \<Rightarrow> bool"

record ('q, 'c, 'p, 'm, 'y, 'i, 'o, 'h) coerce_ref =
  cf_id :: actor_id
  cf_name :: string
  cf_inner :: 'q
  cf_bounded_tx :: "'c bounded_mailbox_sender option"
  cf_outbound_interceptors :: "('p, 'm, 'y, 'i) outbound_interceptor list"
  cf_drop_observer :: "'o drop_observer option"
  cf_dead_letter_handler :: "'h dead_letter_handler option"

definition cf_outbound_pipeline ::
  "('q, 'c, 'p, 'm, 'y, 'i, 'o, 'h) coerce_ref \<Rightarrow> ('p, 'm, 'y, 'i, 'o) outbound_pipeline" where
  "cf_outbound_pipeline r = \<lparr>op_interceptors = cf_outbound_interceptors r, op_drop_observer = cf_drop_observer r,
     op_target_id = cf_id r, op_target_name = cf_name r\<rparr>"

definition cf_notify_dead_letter ::
  "('q, 'c, 'p, 'm, 'y, 'i, 'o, 'h) coerce_ref \<Rightarrow> string \<Rightarrow> send_mode \<Rightarrow> dead_letter_reason \<Rightarrow> 'h \<Rightarrow> 'h" where
  "cf_notify_dead_letter r message_type mode reason h =
     (case cf_dead_letter_handler r of None \<Rightarrow> h
      | Some on_dead_letter \<Rightarrow> snd (on_dead_letter h \<lparr>dl_target_id = cf_id r, dl_target_name = Some (cf_name r),
          dl_message_type = message_type, dl_send_mode = mode, dl_reason = reason\<rparr>))"

definition cf_send_dispatch ::
  "('q, 'x coerce_msg) coerce_mailbox \<Rightarrow> ('c, 'x coerce_msg) mpsc \<Rightarrow> ('q, 'c, 'p, 'm, 'y, 'i, 'o, 'h) coerce_ref \<Rightarrow> 'x
    \<Rightarrow> (actor_send_error + unit) \<times> ('q, 'c, 'p, 'm, 'y, 'i, 'o, 'h) coerce_ref" where
  "cf_send_dispatch mb ch r d =
     (let msg = coerce_msg_new d in
      case cf_bounded_tx r of
        Some btx \<Rightarrow> (case bms_try_send ch btx msg of (x, btx') \<Rightarrow> (x, r\<lparr>cf_bounded_tx := Some btx'\<rparr>))
      | None \<Rightarrow> (case cmb_notify mb (cf_inner r) msg of
                   (Inr _, q) \<Rightarrow> (Inr (), r\<lparr>cf_inner := q\<rparr>)
                 | (Inl e, q) \<Rightarrow> (Inl (ActorSendError e), r\<lparr>cf_inner := q\<rparr>)))"

definition cf_is_alive :: "('q, 'x) coerce_mailbox \<Rightarrow> ('c, 'x) mpsc \<Rightarrow> ('q, 'c, 'p, 'm, 'y, 'i, 'o, 'h) coerce_ref \<Rightarrow> bool" where
  "cf_is_alive mb ch r = (case cf_bounded_tx r of
     Some btx \<Rightarrow> \<not> bms_is_closed ch btx \<and> cmb_is_valid mb (cf_inner r) | None \<Rightarrow> cmb_is_valid mb (cf_inner r))"

definition cf_pending_messages :: "('c, 'x) mpsc \<Rightarrow> ('q, 'c, 'p, 'm, 'y, 'i, 'o, 'h) coerce_ref \<Rightarrow> nat" where
  "cf_pending_messages ch r = (case cf_bounded_tx r of Some btx \<Rightarrow> bms_pending ch btx | None \<Rightarrow> 0)"

definition cf_stop ::
  "('q, 'x) coerce_mailbox \<Rightarrow> ('q, 'c, 'p, 'm, 'y, 'i, 'o, 'h) coerce_ref \<Rightarrow> ('q, 'c, 'p, 'm, 'y, 'i, 'o, 'h) coerce_ref" where
  "cf_stop mb r = r\<lparr>cf_inner := cmb_notify_stop mb (cf_inner r)\<rparr>"

definition cf_failure_reason :: "actor_send_error \<Rightarrow> dead_letter_reason" where
  "cf_failure_reason e = (if str_contains (send_error_text e) ''full'' then DL_MailboxFull else DL_ActorStopped)"

definition cf_tell ::
  "('q, ('m, 's) dispatch coerce_msg) coerce_mailbox \<Rightarrow> ('c, ('m, 's) dispatch coerce_msg) mpsc \<Rightarrow> ('m \<Rightarrow> string) \<Rightarrow> 'm
    \<Rightarrow> ('q, 'c, 'p, 'm, 'y, 'i, 'o, 'h) coerce_ref \<Rightarrow> ('y, 'i, 'o, 'h) caller
    \<Rightarrow> (actor_send_error + unit) \<times> ('q, 'c, 'p, 'm, 'y, 'i, 'o, 'h) coerce_ref \<times> ('y, 'i, 'o, 'h) caller" where
  "cf_tell mb ch type_name msg r cl =
     (case run_on_send (cf_outbound_pipeline r) (type_name msg) Tell msg (cl_istate cl) (cl_observed cl) of (result, i, obs) \<Rightarrow>
        let cl1 = cl\<lparr>cl_istate := i, cl_observed := obs\<rparr> in
        if lets_pass (ir_disposition result)
        then case cf_send_dispatch mb ch r (TypedDispatch msg) of
               (Inr _, r1) \<Rightarrow> (Inr (), r1, cl1)
             | (Inl e, r1) \<Rightarrow> (Inl e, r1, cl1\<lparr>cl_letters := cf_notify_dead_letter r (type_name msg) Tell (cf_failure_reason e) (cl_letters cl1)\<rparr>)
        else (Inr (), r, cl1))"

definition cf_ask ::
  "('q, ('m, 's) dispatch coerce_msg) coerce_mailbox \<Rightarrow> ('c, ('m, 's) dispatch coerce_msg) mpsc \<Rightarrow> ('m \<Rightarrow> string) \<Rightarrow> 'm \<Rightarrow> cancel_token option
    \<Rightarrow> ('q, 'c, 'p, 'm, 'y, 'i, 'o, 'h) coerce_ref \<Rightarrow> ('y, 'i, 'o, 'h) caller
    \<Rightarrow> (actor_send_error + nat) \<times> ('q, 'c, 'p, 'm, 'y, 'i, 'o, 'h) coerce_ref \<times> ('y, 'i, 'o, 'h) caller" where
  "cf_ask mb ch type_name msg cancel r cl =
     (case run_on_send (cf_outbound_pipeline r) (type_name msg) Ask msg (cl_istate cl) (cl_observed cl) of (result, i, obs) \<Rightarrow>
        let tx = cl_next cl;
            cl1 = cl\<lparr>cl_istate := i, cl_observed := obs, cl_next := tx + 1, cl_oneshots := (cl_oneshots cl)(tx := OsPending)\<rparr>;
            answered = (\<lambda>e. (Inr tx, r, cl1\<lparr>cl_oneshots := (cl_oneshots cl1)(tx := OsSent (Inl e))\<rparr>))
        in case ir_disposition result of
             Drop \<Rightarrow> answered (RE_ActorNotFound ''message dropped by outbound interceptor'')
           | Reject reason \<Rightarrow> answered (RE_Rejected (ir_interceptor_name result) reason)
           | Retry retry_after \<Rightarrow> answered (RE_RetryAfter (ir_interceptor_name result) retry_after)
           | _ \<Rightarrow>
             (case cf_send_dispatch mb ch r (AskDispatch msg tx cancel) of
                (Inr _, r1) \<Rightarrow> (Inr tx, r1, cl1)
              | (Inl e, r1) \<Rightarrow> (Inl e, r1, cl1\<lparr>cl_letters := cf_notify_dead_letter r (type_name msg) Ask (cf_failure_reason e) (cl_letters cl1),
                                              cl_oneshots := (cl_oneshots cl1)(tx := OsDropped)\<rparr>)))"

definition cf_expand ::
  "('q, ('m, 's) dispatch coerce_msg) coerce_mailbox \<Rightarrow> ('c, ('m, 's) dispatch coerce_msg) mpsc \<Rightarrow> ('m \<Rightarrow> string) \<Rightarrow> 'm \<Rightarrow> nat \<Rightarrow> batch_config option \<Rightarrow> cancel_token option
    \<Rightarrow> ('q, 'c, 'p, 'm, 'y, 'i, 'o, 'h) coerce_ref \<Rightarrow> ('y, 'i, 'o, 'h) caller
    \<Rightarrow> (actor_send_error + stream_setup) \<times> ('q, 'c, 'p, 'm, 'y, 'i, 'o, 'h) coerce_ref \<times> ('y, 'i, 'o, 'h) caller" where
  "cf_expand mb ch type_name msg buffer batch cancel r cl =
     (case run_on_send (cf_outbound_pipeline r) (type_name msg) Expand msg (cl_istate cl) (cl_observed cl) of (result, i, obs) \<Rightarrow>
        let n = cl_next cl; cl1 = cl\<lparr>cl_istate := i, cl_observed := obs\<rparr> in
        case ir_disposition result of
          Drop \<Rightarrow> (Inl (ActorSendError ''stream dropped by outbound interceptor''), r, cl1)
        | Reject reason \<Rightarrow> (Inl (ActorSendError (''stream rejected: '' @ reason)), r, cl1)
        | Retry _ \<Rightarrow> (Inl (ActorSendError ''stream retry requested by interceptor''), r, cl1)
        | _ \<Rightarrow>
          (case cf_send_dispatch mb ch r (ExpandDispatch msg n cancel) of
             (Inr _, r1) \<Rightarrow> (Inr \<lparr>ss_stream = n, ss_buffer = max buffer 1, ss_batch = batch, ss_mode = Expand\<rparr>, r1, cl1\<lparr>cl_next := n + 1\<rparr>)
           | (Inl e, r1) \<Rightarrow> (Inl e, r1, cl1)))"

definition cf_reduce ::
  "('q, ('m, 's) dispatch coerce_msg) coerce_mailbox \<Rightarrow> ('c, ('m, 's) dispatch coerce_msg) mpsc \<Rightarrow> 's list \<Rightarrow> nat \<Rightarrow> batch_config option \<Rightarrow> cancel_token option
    \<Rightarrow> ('q, 'c, 'p, 'm, 'y, 'i, 'o, 'h) coerce_ref \<Rightarrow> ('y, 'i, 'o, 'h) caller
    \<Rightarrow> (actor_send_error + nat \<times> stream_setup) \<times> ('q, 'c, 'p, 'm, 'y, 'i, 'o, 'h) coerce_ref \<times> ('y, 'i, 'o, 'h) caller" where
  "cf_reduce mb ch items buffer batch cancel r cl =
     (let tx = cl_next cl in
      case cf_send_dispatch mb ch r (ReduceDispatch items tx cancel) of
        (Inr _, r1) \<Rightarrow>
          (Inr (tx, \<lparr>ss_stream = tx, ss_buffer = max buffer 1, ss_batch = batch, ss_mode = Reduce\<rparr>), r1,
           cl\<lparr>cl_next := tx + 1, cl_oneshots := (cl_oneshots cl)(tx := OsPending)\<rparr>)
      | (Inl e, r1) \<Rightarrow> (Inl e, r1, cl\<lparr>cl_next := tx + 1, cl_oneshots := (cl_oneshots cl)(tx := OsDropped)\<rparr>))"

definition cf_transform ::
  "('q, ('m, 's) dispatch coerce_msg) coerce_mailbox \<Rightarrow> ('c, ('m, 's) dispatch coerce_msg) mpsc \<Rightarrow> ('s \<times> bool) list \<Rightarrow> nat \<Rightarrow> batch_config option \<Rightarrow> cancel_token option
    \<Rightarrow> ('q, 'c, 'p, 'm, 'y, 'i, 'o, 'h) coerce_ref \<Rightarrow> ('y, 'i, 'o, 'h) caller
    \<Rightarrow> (actor_send_error + stream_setup) \<times> ('q, 'c, 'p, 'm, 'y, 'i, 'o, 'h) coerce_ref \<times> ('y, 'i, 'o, 'h) caller" where
  "cf_transform mb ch items buffer batch cancel r cl =
     (let n = cl_next cl in
      case cf_send_dispatch mb ch r (TransformDispatch items n cancel) of
        (Inr _, r1) \<Rightarrow> (Inr \<lparr>ss_stream = n, ss_buffer = max buffer 1, ss_batch = batch, ss_mode = Transform\<rparr>, r1, cl\<lparr>cl_next := n + 1\<rparr>)
      | (Inl e, r1) \<Rightarrow> (Inl e, r1, cl))"

section \<open>Spawning and stopping\<close>

definition cf_forward :: "('q, 'x) coerce_mailbox \<Rightarrow> ('c, 'x) mpsc \<Rightarrow> 'c \<Rightarrow> 'q \<Rightarrow> 'c \<times> 'q" where
  "cf_forward mb ch c q =
     (case mp_recv ch c of
        (None, c1) \<Rightarrow> (c1, q)
      | (Some msg, c1) \<Rightarrow> (case cmb_notify mb q msg of (Inr _, q1) \<Rightarrow> (c1, q1) | (Inl _, q1) \<Rightarrow> (mp_close ch c1, q1)))"

text \<open>Coerce starts the actor in a task of its own and gives the reference at once. The wrapper is built here, around the actor the user's constructor gave.\<close>

definition co_spawn_internal ::
  "(nat \<Rightarrow> 'c) \<Rightarrow> 'q \<Rightarrow> 'a \<Rightarrow> string \<Rightarrow> ('p, 'm, 'y, 'j, ('a, 'p, 'w, 'y) handler_future) inbound_interceptor list \<Rightarrow> 'j \<Rightarrow> mailbox_config \<Rightarrow> nat
    \<Rightarrow> ('p, 'm, 'y, 'i) outbound_interceptor list \<Rightarrow> 'o drop_observer option
    \<Rightarrow> 'h dead_letter_handler option \<Rightarrow> ('f, 'd, 't, 'cb) coerce_runtime \<Rightarrow> (actor_id, nat) hashmap
    \<Rightarrow> ('a, 'm, 'y, 'p, 'w, 'j, 'h) coerce_actor \<times> ('q, 'c, 'p, 'm, 'y, 'i, 'o, 'h) coerce_ref \<times> ('f, 'd, 't, 'cb) coerce_runtime \<times> (actor_id, nat) hashmap" where
  "co_spawn_internal channel inner actor name is j mailbox stop_rx interceptors observer letters rt receivers =
     (let actor_id = ActorId (co_node_id rt) (co_next_local rt) in
      (\<lparr>ca_actor = actor, ca_ctx = ac_new actor_id name, ca_interceptors = is, ca_istate = j, ca_stop_reason = None,
         ca_dead_letter_handler = letters, ca_stop_notifier = Some stop_rx\<rparr>,
       \<lparr>cf_id = actor_id, cf_name = name, cf_inner = inner,
         cf_bounded_tx = (case mailbox of Bounded capacity overflow \<Rightarrow> Some \<lparr>bms_tx = channel (unat capacity), bms_overflow = overflow\<rparr>
                          | Unbounded \<Rightarrow> None),
         cf_outbound_interceptors = interceptors, cf_drop_observer = observer, cf_dead_letter_handler = letters\<rparr>,
       rt\<lparr>co_next_local := co_next_local rt + 1\<rparr>, hm_insert actor_id stop_rx receivers))"

definition co_await_stop ::
  "(nat \<Rightarrow> stop_channel) \<Rightarrow> (actor_id, nat) hashmap \<Rightarrow> actor_id \<Rightarrow> (string + unit) option \<times> (actor_id, nat) hashmap" where
  "co_await_stop chans receivers actor_id =
     (case hm_get receivers actor_id of
        Some rx \<Rightarrow> (stop_recv ''stop notifier dropped'' (chans rx), hm_remove actor_id receivers)
      | None \<Rightarrow> (Some (Inr ()), receivers))"

definition co_await_all ::
  "(nat \<Rightarrow> stop_channel) \<Rightarrow> (actor_id, nat) hashmap \<Rightarrow> (string + unit) option \<times> (actor_id, nat) hashmap" where
  "co_await_all chans receivers =
     (let results = map (\<lambda>rx. stop_recv ''stop notifier dropped: channel closed'' (chans rx)) (hm_values receivers)
      in (if None \<in> set results then None else Some (first_stop_error (map the results)), hm_empty))"

definition co_cleanup_finished :: "(nat \<Rightarrow> stop_channel) \<Rightarrow> (actor_id, nat) hashmap \<Rightarrow> (actor_id, nat) hashmap" where
  "co_cleanup_finished chans receivers = filter (\<lambda>(_, rx). chans rx = StopPending) receivers"

definition co_active_handle_count :: "(actor_id, nat) hashmap \<Rightarrow> nat" where
  "co_active_handle_count receivers = length receivers"

section \<open>Lemmas\<close>

text \<open>A coerce actor and a coerce reference seen as those of ractor.\<close>

definition ca_to_ractor :: "('a, 'm, 'y, 'p, 'w, 'j, 'h) coerce_actor \<Rightarrow> ('a, 'm, 'y, 'p, 'w, 'j, 'h) ractor_actor_state" where
  "ca_to_ractor st = \<lparr>ras_actor = ca_actor st, ras_ctx = ca_ctx st, ras_interceptors = ca_interceptors st, ras_istate = ca_istate st,
     ras_stop_reason = ca_stop_reason st, ras_dead_letter_handler = ca_dead_letter_handler st, ras_stop_notifier = ca_stop_notifier st\<rparr>"

lemma ca_to_ractor_simps [simp]:
  "ras_actor (ca_to_ractor st) = ca_actor st" "ras_ctx (ca_to_ractor st) = ca_ctx st" "ras_interceptors (ca_to_ractor st) = ca_interceptors st"
  "ras_istate (ca_to_ractor st) = ca_istate st" "ras_stop_reason (ca_to_ractor st) = ca_stop_reason st"
  "ras_dead_letter_handler (ca_to_ractor st) = ca_dead_letter_handler st" "ras_stop_notifier (ca_to_ractor st) = ca_stop_notifier st"
  by (simp_all add: ca_to_ractor_def)

lemma ca_to_ractor_updates [simp]:
  "ca_to_ractor (st\<lparr>ca_actor := a\<rparr>) = (ca_to_ractor st)\<lparr>ras_actor := a\<rparr>" "ca_to_ractor (st\<lparr>ca_ctx := c\<rparr>) = (ca_to_ractor st)\<lparr>ras_ctx := c\<rparr>"
  "ca_to_ractor (st\<lparr>ca_istate := j\<rparr>) = (ca_to_ractor st)\<lparr>ras_istate := j\<rparr>"
  "ca_to_ractor (st\<lparr>ca_stop_reason := x\<rparr>) = (ca_to_ractor st)\<lparr>ras_stop_reason := x\<rparr>"
  by (simp_all add: ca_to_ractor_def)

lemma ca_complete_refines: "map_prod ca_to_ractor id (ca_complete A d result st su) = ra_complete A d result (ca_to_ractor st) su"
  by (cases result) (auto simp: ca_complete_def ra_complete_def Let_def split: prod.split)

lemma ca_dispatch_refines: "map_prod ca_to_ractor id (ca_dispatch T A d (st, su)) = ra_handle T A d (ca_to_ractor st, su)"
proof -
  let ?ctx1 = "(ca_ctx st)\<lparr>ac_send_mode := Some (send_mode_of d), ac_headers := hd_new\<rparr>"
  let ?ictx = "ra_inbound_context A ?ctx1 d"
  obtain rej h delay j where rr: "run_on_receive ?ictx (message_any d) (ca_interceptors st) hd_new 0 (ca_istate st) = (rej, h, delay, j)"
    by (metis prod_cases4)
  have dl: "ca_dead_letter st ictx name x = ra_dead_letter (ca_to_ractor st) ictx name x" for ictx name x
    by (simp add: ca_dead_letter_def ra_dead_letter_def)
  show ?thesis
  proof (cases rej)
    case (Some nd)
    obtain name disp where nd: "nd = (name, disp)" by force
    show ?thesis using rr Some nd by (simp add: ca_dispatch_def ra_handle_def Let_def dl)
  next
    case None
    define su1 where "su1 = (if delay = 0 then su else su\<lparr>su_slept := su_slept su @ [delay]\<rparr>)"
    let ?ctx2 = "?ctx1\<lparr>ac_headers := h, ac_cancellation_token := cancel_token_of d\<rparr>"
    obtain result actor ctx3 w where run:
      "run_handler T A (collect_handler_wrappers (ca_interceptors st) ?ictx h j) d (ca_actor st, ?ctx2, su_world su1) = (result, actor, ctx3, w)"
      by (metis prod_cases4)
    show ?thesis
      unfolding ca_dispatch_def ra_handle_def Let_def prod.case ca_to_ractor_simps rr None option.case su1_def [symmetric] run
      by (cases result) (simp_all add: ca_complete_refines)
  qed
qed

text \<open>What happens when the actor stops is what happens to a kameo actor.\<close>

lemma ca_stopped_like_kameo:
  assumes "ka_actor k = ca_actor st" "ka_ctx k = ca_ctx st" "ka_stop_reason k = ca_stop_reason st" "ka_stop_notifier k = ca_stop_notifier st"
    and "ca_stopped A st m = (told, sent, st', m')" "ka_on_stop A k m = (ktold, ksent, k', km)"
  shows "told = ktold" "sent = ksent" "m' = km" "ka_actor k' = ca_actor st'"
  using assms by (auto simp: ca_stopped_def ka_on_stop_def Let_def split: prod.splits)

definition cf_to_ractor :: "('q, 'c, 'p, 'm, 'y, 'i, 'o, 'h) coerce_ref \<Rightarrow> ('q, 'c, 'p, 'm, 'y, 'i, 'o, 'h) ractor_ref" where
  "cf_to_ractor r = \<lparr>rf_id = cf_id r, rf_name = cf_name r, rf_inner = cf_inner r, rf_bounded_tx = cf_bounded_tx r,
     rf_outbound_interceptors = cf_outbound_interceptors r, rf_drop_observer = cf_drop_observer r, rf_dead_letter_handler = cf_dead_letter_handler r\<rparr>"

text \<open>A mailbox and a channel of messages, seen as carrying the envelopes.\<close>

definition cmb_to_ractor :: "('q, 'x coerce_msg) coerce_mailbox \<Rightarrow> ('q, 'x) ractor_mailbox" where
  "cmb_to_ractor mb = \<lparr>rmb_cast = (\<lambda>q d. cmb_notify mb q (coerce_msg_new d)), rmb_stop = cmb_notify_stop mb, rmb_running = cmb_is_valid mb\<rparr>"

definition ch_envelopes :: "('c, 'x coerce_msg) mpsc \<Rightarrow> ('c, 'x) mpsc" where
  "ch_envelopes ch = \<lparr>mp_try_send = (\<lambda>c d. mp_try_send ch c (coerce_msg_new d)), mp_send = (\<lambda>c d. mp_send ch c (coerce_msg_new d)),
     mp_recv = (\<lambda>c. map_prod (\<lambda>m. Option.bind m coerce_msg_envelope) id (mp_recv ch c)), mp_close = mp_close ch, mp_is_closed = mp_is_closed ch,
     mp_max_capacity = mp_max_capacity ch, mp_capacity = mp_capacity ch\<rparr>"

lemma cf_to_ractor_simps [simp]:
  "rf_id (cf_to_ractor r) = cf_id r" "rf_name (cf_to_ractor r) = cf_name r" "rf_inner (cf_to_ractor r) = cf_inner r"
  "rf_bounded_tx (cf_to_ractor r) = cf_bounded_tx r" "rf_outbound_interceptors (cf_to_ractor r) = cf_outbound_interceptors r"
  "rf_drop_observer (cf_to_ractor r) = cf_drop_observer r" "rf_dead_letter_handler (cf_to_ractor r) = cf_dead_letter_handler r"
  "cf_to_ractor (r\<lparr>cf_inner := q\<rparr>) = (cf_to_ractor r)\<lparr>rf_inner := q\<rparr>"
  "cf_to_ractor (r\<lparr>cf_bounded_tx := b\<rparr>) = (cf_to_ractor r)\<lparr>rf_bounded_tx := b\<rparr>"
  by (simp_all add: cf_to_ractor_def)

lemma cf_parts [simp]:
  "cf_outbound_pipeline r = rf_outbound_pipeline (cf_to_ractor r)" "cf_notify_dead_letter r = rf_notify_dead_letter (cf_to_ractor r)"
  "cf_failure_reason = rf_failure_reason"
  by (simp_all add: cf_outbound_pipeline_def rf_outbound_pipeline_def)
     ((intro ext, simp add: cf_notify_dead_letter_def rf_notify_dead_letter_def cf_failure_reason_def rf_failure_reason_def split: option.split)+)

lemma cf_send_refines:
  "rf_send_dispatch (cmb_to_ractor mb) (ch_envelopes ch) (cf_to_ractor r) d = map_prod id cf_to_ractor (cf_send_dispatch mb ch r d)"
  by (simp add: cf_send_dispatch_def rf_send_dispatch_def bms_try_send_def ch_envelopes_def cmb_to_ractor_def Let_def
    split: option.split prod.split sum.split try_send_error.split)

lemma cf_calls_refine:
  "map_prod id (map_prod cf_to_ractor id) (cf_tell mb ch type_name msg r cl) = rf_tell (cmb_to_ractor mb) (ch_envelopes ch) type_name msg (cf_to_ractor r) cl"
  "map_prod id (map_prod cf_to_ractor id) (cf_ask mb ch type_name msg cancel r cl) =
     rf_ask (cmb_to_ractor mb) (ch_envelopes ch) type_name msg cancel (cf_to_ractor r) cl"
  "map_prod id (map_prod cf_to_ractor id) (cf_expand mb ch type_name msg buffer batch cancel r cl) =
     rf_expand (cmb_to_ractor mb) (ch_envelopes ch) type_name msg buffer batch cancel (cf_to_ractor r) cl"
  "map_prod id (map_prod cf_to_ractor id) (cf_reduce mb ch items buffer batch cancel r cl) =
     rf_reduce (cmb_to_ractor mb) (ch_envelopes ch) items buffer batch cancel (cf_to_ractor r) cl"
  "map_prod id (map_prod cf_to_ractor id) (cf_transform mb ch inputs buffer batch cancel r cl) =
     rf_transform (cmb_to_ractor mb) (ch_envelopes ch) inputs buffer batch cancel (cf_to_ractor r) cl"
  by (simp_all add: cf_tell_def rf_tell_def cf_ask_def rf_ask_def cf_expand_def rf_expand_def cf_reduce_def rf_reduce_def cf_transform_def rf_transform_def
      cf_send_refines Let_def split: prod.split sum.split disposition.split)

section \<open>Properties\<close>

fun ca_run ::
  "('a, 'm, 'i, 'p, 'w) token_env \<Rightarrow> ('a, 'm, 'i, 'y, 'p, 'w) actor_impl
    \<Rightarrow> ('a, 'm, 'y, 'p, 'w, 'j, 'h) coerce_actor \<times> ('y, 'w, 'h) surroundings \<Rightarrow> ('m, 'i) dispatch coerce_msg list
    \<Rightarrow> ('a, 'm, 'y, 'p, 'w, 'j, 'h) coerce_actor \<times> ('y, 'w, 'h) surroundings" where
  "ca_run T A s [] = s"
| "ca_run T A s (msg # msgs) = (let s' = ca_handle T A msg s in if su_stop (snd s') then s' else ca_run T A s' msgs)"

text \<open>A coerce actor lives as the ractor actor does: given the messages that hold the same envelopes, both run the same interceptors and
  handlers, answer the same requests, make the same dead letters and stop after the same message, with the same state.\<close>

theorem coerce_actor_refines:
  "map_prod ca_to_ractor id (ca_run T A (st, su) (map coerce_msg_new ds)) = ra_run T A (ca_to_ractor st, su) ds"
proof (induction ds arbitrary: st su)
  case (Cons d ds)
  obtain st1 su1 where c: "ca_dispatch T A d (st, su) = (st1, su1)" by force
  then have r: "ra_handle T A d (ca_to_ractor st, su) = (ca_to_ractor st1, su1)" using ca_dispatch_refines [of T A d st su] by simp
  have "ca_handle T A (coerce_msg_new d) (st, su) = (st1, su1)" by (simp add: ca_handle_def coerce_msg_take_def coerce_msg_new_def c)
  then show ?case using Cons.IH [of st1 su1] r by (simp add: Let_def)
qed simp

end
