(* ===== verification/Test_Runtime.thy ===== *)
theory Test_Runtime
  imports Kameo_Actor Metrics Registries
begin

text \<open>
  The in-process test runtime (\<^verbatim>\<open>dactor/src/test_support/test_runtime.rs\<close>): its mailboxes, actor references, the task that runs an
  actor, and the runtime that spawns, watches and awaits actors. A mailbox carries \<open>Some\<close> envelope or \<open>None\<close>, the stop signal. The channels are
  those of tokio: the send of an unbounded channel, which never waits, is \<open>mp_send\<close>. The lemmas relate the actor task to the actor of the
  ractor adapter.
\<close>

section \<open>Mailboxes\<close>

datatype 'c mailbox_sender = MsUnbounded (ms_tx: 'c) | MsBounded (ms_tx: 'c) (ms_overflow: overflow_strategy)

definition ms_with_tx :: "'c mailbox_sender \<Rightarrow> 'c \<Rightarrow> 'c mailbox_sender" where
  "ms_with_tx ms tx = (case ms of MsUnbounded _ \<Rightarrow> MsUnbounded tx | MsBounded _ overflow \<Rightarrow> MsBounded tx overflow)"

fun ms_send :: "('c, 'a) mpsc \<Rightarrow> 'c mailbox_sender \<Rightarrow> 'a \<Rightarrow> (actor_send_error + unit) \<times> 'c mailbox_sender" where
  "ms_send ch (MsUnbounded tx) msg =
     (case mp_send ch tx msg of (ok, tx1) \<Rightarrow> (if ok then Inr () else Inl (ActorSendError ''actor stopped''), MsUnbounded tx1))"
| "ms_send ch (MsBounded sender overflow) msg =
     (case mp_try_send ch sender msg of (result, sender1) \<Rightarrow>
        (case (overflow, result) of
           (_, Inr _) \<Rightarrow> Inr ()
         | (_, Inl TrySendClosed) \<Rightarrow> Inl (ActorSendError ''actor stopped'')
         | (RejectWithError, Inl TrySendFull) \<Rightarrow> Inl (ActorSendError ''mailbox full'')
         | (DropNewest, Inl TrySendFull) \<Rightarrow> Inr ()
         | (Block, Inl TrySendFull) \<Rightarrow> Inl (ActorSendError ''mailbox full (Block not supported in sync tell)''),
         MsBounded sender1 overflow))"

fun ms_force_send :: "('c, 'a) mpsc \<Rightarrow> 'c mailbox_sender \<Rightarrow> 'a \<Rightarrow> 'c mailbox_sender" where
  "ms_force_send ch (MsUnbounded tx) msg = MsUnbounded (snd (mp_send ch tx msg))"
| "ms_force_send ch (MsBounded sender overflow) msg = MsBounded (snd (mp_try_send ch sender msg)) overflow"

definition ms_is_closed :: "('c, 'a) mpsc \<Rightarrow> 'c mailbox_sender \<Rightarrow> bool" where
  "ms_is_closed ch ms = mp_is_closed ch (ms_tx ms)"

fun ms_pending :: "('c, 'a) mpsc \<Rightarrow> 'c mailbox_sender \<Rightarrow> nat" where
  "ms_pending ch (MsUnbounded _) = 0"
| "ms_pending ch (MsBounded sender _) = mp_max_capacity ch sender - mp_capacity ch sender"

section \<open>References\<close>

record ('c, 'p, 'm, 'y, 'i, 'o, 'h) test_ref =
  tf_id :: actor_id
  tf_name :: string
  tf_sender :: "'c mailbox_sender"
  tf_alive :: bool
  tf_outbound_interceptors :: "('p, 'm, 'y, 'i) outbound_interceptor list"
  tf_drop_observer :: "'o drop_observer option"
  tf_dead_letter_handler :: "'h dead_letter_handler option"

definition tf_outbound_pipeline :: "('c, 'p, 'm, 'y, 'i, 'o, 'h) test_ref \<Rightarrow> ('p, 'm, 'y, 'i, 'o) outbound_pipeline" where
  "tf_outbound_pipeline r = \<lparr>op_interceptors = tf_outbound_interceptors r, op_drop_observer = tf_drop_observer r,
     op_target_id = tf_id r, op_target_name = tf_name r\<rparr>"

definition tf_notify_dead_letter ::
  "('c, 'p, 'm, 'y, 'i, 'o, 'h) test_ref \<Rightarrow> string \<Rightarrow> send_mode \<Rightarrow> dead_letter_reason \<Rightarrow> 'h \<Rightarrow> 'h" where
  "tf_notify_dead_letter r message_type mode reason h =
     (case tf_dead_letter_handler r of None \<Rightarrow> h
      | Some on_dead_letter \<Rightarrow> snd (on_dead_letter h \<lparr>dl_target_id = tf_id r, dl_target_name = Some (tf_name r),
          dl_message_type = message_type, dl_send_mode = mode, dl_reason = reason\<rparr>))"

definition tf_is_alive :: "('c, 'a) mpsc \<Rightarrow> ('c, 'p, 'm, 'y, 'i, 'o, 'h) test_ref \<Rightarrow> bool" where
  "tf_is_alive ch r \<longleftrightarrow> tf_alive r \<and> \<not> ms_is_closed ch (tf_sender r)"

definition tf_pending_messages :: "('c, 'a) mpsc \<Rightarrow> ('c, 'p, 'm, 'y, 'i, 'o, 'h) test_ref \<Rightarrow> nat" where
  "tf_pending_messages ch r = ms_pending ch (tf_sender r)"

definition tf_stop :: "('c, 'a option) mpsc \<Rightarrow> ('c, 'p, 'm, 'y, 'i, 'o, 'h) test_ref \<Rightarrow> ('c, 'p, 'm, 'y, 'i, 'o, 'h) test_ref" where
  "tf_stop ch r = r\<lparr>tf_alive := False, tf_sender := ms_force_send ch (tf_sender r) None\<rparr>"

definition tf_send ::
  "('c, 'a option) mpsc \<Rightarrow> ('c, 'p, 'm, 'y, 'i, 'o, 'h) test_ref \<Rightarrow> 'a
    \<Rightarrow> (actor_send_error + unit) \<times> ('c, 'p, 'm, 'y, 'i, 'o, 'h) test_ref" where
  "tf_send ch r d = (case ms_send ch (tf_sender r) (Some d) of (x, ms) \<Rightarrow> (x, r\<lparr>tf_sender := ms\<rparr>))"

definition tf_failure_reason :: "actor_send_error \<Rightarrow> dead_letter_reason" where
  "tf_failure_reason e = (if str_contains (send_error_text e) ''mailbox full'' then DL_MailboxFull else DL_ActorStopped)"

definition tf_tell ::
  "('c, ('m, 's) dispatch option) mpsc \<Rightarrow> ('m \<Rightarrow> string) \<Rightarrow> 'm
    \<Rightarrow> ('c, 'p, 'm, 'y, 'i, 'o, 'h) test_ref \<Rightarrow> ('y, 'i, 'o, 'h) caller
    \<Rightarrow> (actor_send_error + unit) \<times> ('c, 'p, 'm, 'y, 'i, 'o, 'h) test_ref \<times> ('y, 'i, 'o, 'h) caller" where
  "tf_tell ch type_name msg r cl =
     (case run_on_send (tf_outbound_pipeline r) (type_name msg) Tell msg (cl_istate cl) (cl_observed cl) of (result, i, obs) \<Rightarrow>
        let cl1 = cl\<lparr>cl_istate := i, cl_observed := obs\<rparr> in
        if lets_pass (ir_disposition result)
        then case tf_send ch r (TypedDispatch msg) of
               (Inr _, r1) \<Rightarrow> (Inr (), r1, cl1)
             | (Inl e, r1) \<Rightarrow> (Inl e, r1, cl1\<lparr>cl_letters := tf_notify_dead_letter r (type_name msg) Tell (tf_failure_reason e) (cl_letters cl1)\<rparr>)
        else (Inr (), r, cl1))"

text \<open>An ask gives the channel its caller reads. With outbound interceptors this is a second channel, filled by a task that waits for the
  first; the task is the second part of the result, with the type name it reports.\<close>

record reply_task =
  rt_rx :: nat
  rt_wrapped :: nat
  rt_message_type :: string

definition tf_ask ::
  "('c, ('m, 's) dispatch option) mpsc \<Rightarrow> ('m \<Rightarrow> string) \<Rightarrow> 'm \<Rightarrow> cancel_token option
    \<Rightarrow> ('c, 'p, 'm, 'y, 'i, 'o, 'h) test_ref \<Rightarrow> ('y, 'i, 'o, 'h) caller
    \<Rightarrow> (actor_send_error + nat \<times> reply_task option) \<times> ('c, 'p, 'm, 'y, 'i, 'o, 'h) test_ref \<times> ('y, 'i, 'o, 'h) caller" where
  "tf_ask ch type_name msg cancel r cl =
     (case run_on_send (tf_outbound_pipeline r) (type_name msg) Ask msg (cl_istate cl) (cl_observed cl) of (result, i, obs) \<Rightarrow>
        let tx = cl_next cl;
            cl1 = cl\<lparr>cl_istate := i, cl_observed := obs, cl_next := tx + 1, cl_oneshots := (cl_oneshots cl)(tx := OsPending)\<rparr>;
            answered = (\<lambda>e. (Inr (tx, None), r, cl1\<lparr>cl_oneshots := (cl_oneshots cl1)(tx := OsSent (Inl e))\<rparr>))
        in case ir_disposition result of
             Drop \<Rightarrow> answered (RE_ActorNotFound ''message dropped by outbound interceptor'')
           | Reject reason \<Rightarrow> answered (RE_Rejected (ir_interceptor_name result) reason)
           | Retry retry_after \<Rightarrow> answered (RE_RetryAfter (ir_interceptor_name result) retry_after)
           | _ \<Rightarrow>
             (case tf_send ch r (AskDispatch msg tx cancel) of
                (Inl e, r1) \<Rightarrow> (Inl e, r1, cl1\<lparr>cl_letters := tf_notify_dead_letter r (type_name msg) Ask (tf_failure_reason e) (cl_letters cl1),
                                              cl_oneshots := (cl_oneshots cl1)(tx := OsDropped)\<rparr>)
              | (Inr _, r1) \<Rightarrow>
                  if tf_outbound_interceptors r = [] then (Inr (tx, None), r1, cl1)
                  else (Inr (tx + 1, Some \<lparr>rt_rx = tx, rt_wrapped = tx + 1, rt_message_type = type_name msg\<rparr>), r1,
                        cl1\<lparr>cl_next := tx + 2, cl_oneshots := (cl_oneshots cl1)(tx + 1 := OsPending)\<rparr>)))"

text \<open>The task, once the first channel is settled; before that it waits.\<close>

definition tf_reply_task ::
  "('p, 'm, 'y, 'i, 'o) outbound_pipeline \<Rightarrow> reply_task \<Rightarrow> ('y, 'i, 'o, 'h) caller \<Rightarrow> ('y, 'i, 'o, 'h) caller" where
  "tf_reply_task P t cl =
     (let send = (\<lambda>c :: ('y, 'i, 'o, 'h) caller. \<lambda>v. c\<lparr>cl_oneshots := (cl_oneshots c)(rt_wrapped t := OsSent v)\<rparr>)
      in case cl_oneshots cl (rt_rx t) of
           OsPending \<Rightarrow> cl
         | OsSent (Inr reply) \<Rightarrow>
             send (cl\<lparr>cl_istate := run_on_reply P (rt_message_type t) (AskSuccess reply) (cl_istate cl)\<rparr>) (Inr reply)
         | OsSent (Inl e) \<Rightarrow> send cl (Inl e)
         | OsDropped \<Rightarrow> send cl (Inl (RE_ActorNotFound ''reply channel closed'')))"

definition tf_expand ::
  "('c, ('m, 's) dispatch option) mpsc \<Rightarrow> ('m \<Rightarrow> string) \<Rightarrow> 'm \<Rightarrow> nat \<Rightarrow> batch_config option \<Rightarrow> cancel_token option
    \<Rightarrow> ('c, 'p, 'm, 'y, 'i, 'o, 'h) test_ref \<Rightarrow> ('y, 'i, 'o, 'h) caller
    \<Rightarrow> (actor_send_error + stream_setup) \<times> ('c, 'p, 'm, 'y, 'i, 'o, 'h) test_ref \<times> ('y, 'i, 'o, 'h) caller" where
  "tf_expand ch type_name msg buffer batch cancel r cl =
     (case run_on_send (tf_outbound_pipeline r) (type_name msg) Expand msg (cl_istate cl) (cl_observed cl) of (result, i, obs) \<Rightarrow>
        let n = cl_next cl; cl1 = cl\<lparr>cl_istate := i, cl_observed := obs\<rparr> in
        case ir_disposition result of
          Drop \<Rightarrow> (Inl (ActorSendError ''stream dropped by outbound interceptor''), r, cl1)
        | Reject reason \<Rightarrow> (Inl (ActorSendError (''stream rejected: '' @ reason)), r, cl1)
        | Retry _ \<Rightarrow> (Inl (ActorSendError ''stream retry requested by interceptor''), r, cl1)
        | _ \<Rightarrow>
          (case tf_send ch r (ExpandDispatch msg n cancel) of
             (Inr _, r1) \<Rightarrow> (Inr \<lparr>ss_stream = n, ss_buffer = max buffer 1, ss_batch = batch, ss_mode = Expand\<rparr>, r1, cl1\<lparr>cl_next := n + 1\<rparr>)
           | (Inl e, r1) \<Rightarrow> (Inl e, r1, cl1)))"

definition tf_reduce ::
  "('c, ('m, 's) dispatch option) mpsc \<Rightarrow> 's list \<Rightarrow> nat \<Rightarrow> batch_config option \<Rightarrow> cancel_token option
    \<Rightarrow> ('c, 'p, 'm, 'y, 'i, 'o, 'h) test_ref \<Rightarrow> ('y, 'i, 'o, 'h) caller
    \<Rightarrow> (actor_send_error + nat \<times> stream_setup) \<times> ('c, 'p, 'm, 'y, 'i, 'o, 'h) test_ref \<times> ('y, 'i, 'o, 'h) caller" where
  "tf_reduce ch items buffer batch cancel r cl =
     (let tx = cl_next cl in
      case tf_send ch r (ReduceDispatch items tx cancel) of
        (Inr _, r1) \<Rightarrow>
          (Inr (tx, \<lparr>ss_stream = tx, ss_buffer = max buffer 1, ss_batch = batch, ss_mode = Reduce\<rparr>), r1,
           cl\<lparr>cl_next := tx + 1, cl_oneshots := (cl_oneshots cl)(tx := OsPending)\<rparr>)
      | (Inl e, r1) \<Rightarrow> (Inl e, r1, cl\<lparr>cl_next := tx + 1, cl_oneshots := (cl_oneshots cl)(tx := OsDropped)\<rparr>))"

definition tf_transform ::
  "('c, ('m, 's) dispatch option) mpsc \<Rightarrow> ('s \<times> bool) list \<Rightarrow> nat \<Rightarrow> batch_config option \<Rightarrow> cancel_token option
    \<Rightarrow> ('c, 'p, 'm, 'y, 'i, 'o, 'h) test_ref \<Rightarrow> ('y, 'i, 'o, 'h) caller
    \<Rightarrow> (actor_send_error + stream_setup) \<times> ('c, 'p, 'm, 'y, 'i, 'o, 'h) test_ref \<times> ('y, 'i, 'o, 'h) caller" where
  "tf_transform ch items buffer batch cancel r cl =
     (let n = cl_next cl in
      case tf_send ch r (TransformDispatch items n cancel) of
        (Inr _, r1) \<Rightarrow> (Inr \<lparr>ss_stream = n, ss_buffer = max buffer 1, ss_batch = batch, ss_mode = Transform\<rparr>, r1, cl\<lparr>cl_next := n + 1\<rparr>)
      | (Inl e, r1) \<Rightarrow> (Inl e, r1, cl))"

section \<open>The actor task\<close>

record ('a, 'm, 'y, 'p, 'w, 'j, 'h) test_actor =
  ta_actor :: 'a
  ta_ctx :: "'p actor_context"
  ta_interceptors :: "('p, 'm, 'y, 'j, ('a, 'p, 'w, 'y) handler_future) inbound_interceptor list"
  ta_istate :: 'j
  ta_stop_reason :: "string option"
  ta_dead_letter_handler :: "'h dead_letter_handler option"
  ta_stop_tx :: nat

text \<open>A panic in \<open>on_start\<close> ends the task: nothing after it runs, neither the notification of watchers nor the removal of the name.\<close>

definition ta_start ::
  "('a, 'm, 'i, 'y, 'p, 'w) actor_impl \<Rightarrow> 'a \<Rightarrow> actor_id \<Rightarrow> string
    \<Rightarrow> ('p, 'm, 'y, 'j, ('a, 'p, 'w, 'y) handler_future) inbound_interceptor list \<Rightarrow> 'j \<Rightarrow> 'h dead_letter_handler option \<Rightarrow> nat \<Rightarrow> 'w
    \<Rightarrow> ('a, 'm, 'y, 'p, 'w, 'j, 'h) test_actor option \<times> 'w" where
  "ta_start A created actor_id actor_name is j letters stop_tx w =
     (case ai_on_start A (created, ac_new actor_id actor_name, w) of
        (Returned _, actor, ctx, w1) \<Rightarrow>
          (Some \<lparr>ta_actor = actor, ta_ctx = ctx, ta_interceptors = is, ta_istate = j, ta_stop_reason = None,
                 ta_dead_letter_handler = letters, ta_stop_tx = stop_tx\<rparr>, w1)
      | (Panicked, _, _, w1) \<Rightarrow> (None, w1))"

definition ta_inbound_context :: "('a, 'm, 'i, 'y, 'p, 'w) actor_impl \<Rightarrow> 'p actor_context \<Rightarrow> ('m, 'i) dispatch \<Rightarrow> inbound_context" where
  "ta_inbound_context A ctx d = \<lparr>ic_actor_id = ac_actor_id ctx, ic_actor_name = ac_actor_name ctx,
     ic_message_type = message_type_name A d, ic_send_mode = send_mode_of d, ic_remote = False, ic_origin_node = None\<rparr>"

definition ta_turn_away ::
  "('a, 'm, 'i, 'y, 'p, 'w) actor_impl \<Rightarrow> ('m, 'i) dispatch \<Rightarrow> string \<Rightarrow> disposition
    \<Rightarrow> ('a, 'm, 'y, 'p, 'w, 'j, 'h) test_actor \<Rightarrow> ('y, 'w, 'h) surroundings \<Rightarrow> ('y, 'w, 'h) surroundings" where
  "ta_turn_away A d interceptor_name disposition st su =
     (let letters = (case ta_dead_letter_handler st of
            Some on_dead_letter \<Rightarrow>
              if disposition = Drop
              then snd (on_dead_letter (su_letters su) \<lparr>dl_target_id = ac_actor_id (ta_ctx st), dl_target_name = Some (ac_actor_name (ta_ctx st)),
                dl_message_type = message_type_name A d, dl_send_mode = send_mode_of d, dl_reason = DL_DroppedByInterceptor interceptor_name\<rparr>)
              else su_letters su
          | None \<Rightarrow> su_letters su)
      in su\<lparr>su_letters := letters, su_oneshots := dispatch_reject d disposition interceptor_name (su_oneshots su)\<rparr>)"

text \<open>The handler's future races with the cancellation token, if the message has one; \<open>None\<close> if the token wins.\<close>

definition ta_dispatch ::
  "('a, 'm, 'i, 'p, 'w) token_env \<Rightarrow> ('a, 'm, 'i, 'y, 'p, 'w) actor_impl
    \<Rightarrow> (('a, 'p, 'w, 'y) handler_future future \<Rightarrow> ('a, 'p, 'w, 'y) handler_future future) option list \<Rightarrow> ('m, 'i) dispatch \<Rightarrow> ('a, 'p, 'w) exec
    \<Rightarrow> 'y dispatch_result handler_run option \<times> ('a, 'p, 'w) exec" where
  "ta_dispatch T A wrappers d x =
     (let needs_wrap = list_ex (\<lambda>w. w \<noteq> None) wrappers;
          interrupted = (case cancel_token_of d of None \<Rightarrow> None | Some token \<Rightarrow> te_fires T token d x)
      in case interrupted of
           Some x1 \<Rightarrow> (None, x1)
         | None \<Rightarrow>
             if needs_wrap
             then (let inner = (\<lambda>(x, _). case dispatch_run A d x of (r, x1) \<Rightarrow> (False, x1, Some r))
                   in case apply_handler_wrappers wrappers inner (x, None) of
                        (_, x1, Some r) \<Rightarrow> (Some r, x1)
                      | (_, x1, None) \<Rightarrow> (Some Panicked, x1))
             else (case dispatch_run A d x of (r, x1) \<Rightarrow> (Some r, x1)))"

text \<open>After the handler. The first component tells whether the loop is left.\<close>

definition ta_complete ::
  "('a, 'm, 'i, 'y, 'p, 'w) actor_impl \<Rightarrow> ('m, 'i) dispatch \<Rightarrow> 'y dispatch_result handler_run
    \<Rightarrow> ('a, 'm, 'y, 'p, 'w, 'j, 'h) test_actor \<Rightarrow> ('y, 'w, 'h) surroundings
    \<Rightarrow> bool \<times> ('a, 'm, 'y, 'p, 'w, 'j, 'h) test_actor \<times> ('y, 'w, 'h) surroundings" where
  "ta_complete A d result st su =
     (let ictx = ta_inbound_context A (ta_ctx st) d;
          complete = (\<lambda>outcome. run_on_complete (ta_interceptors st) ictx (ac_headers (ta_ctx st)) outcome (ta_istate st))
      in case result of
           Returned r \<Rightarrow>
             (let outcome = (case (dr_reply r, send_mode_of d) of (Some reply, Ask) \<Rightarrow> AskSuccess reply | _ \<Rightarrow> TellSuccess)
              in (False, st\<lparr>ta_istate := complete outcome\<rparr>, su\<lparr>su_oneshots := dr_send_reply r (su_oneshots su)\<rparr>))
         | Panicked \<Rightarrow>
             (let error = actor_error_internal ''handler panicked''
              in case ai_on_error A (ta_actor st) error of (action, actor) \<Rightarrow>
                let st1 = st\<lparr>ta_actor := actor, ta_istate := complete (HandlerError error)\<rparr>;
                    su1 = su\<lparr>su_oneshots := drop_dispatch d (su_oneshots su)\<rparr>
                in (case action of
                      Resume \<Rightarrow> (False, st1, su1)
                    | Stop \<Rightarrow> (True, st1\<lparr>ta_stop_reason := Some ''handler panicked''\<rparr>, su1)
                    | Escalate \<Rightarrow> (True, st1\<lparr>ta_stop_reason := Some ''handler panicked''\<rparr>, su1)
                    | Restart \<Rightarrow> (False, st1, su1))))"

text \<open>One round of the loop.\<close>

definition ta_step ::
  "('a, 'm, 'i, 'p, 'w) token_env \<Rightarrow> ('a, 'm, 'i, 'y, 'p, 'w) actor_impl \<Rightarrow> ('m, 'i) dispatch
    \<Rightarrow> ('a, 'm, 'y, 'p, 'w, 'j, 'h) test_actor \<times> ('y, 'w, 'h) surroundings
    \<Rightarrow> bool \<times> ('a, 'm, 'y, 'p, 'w, 'j, 'h) test_actor \<times> ('y, 'w, 'h) surroundings" where
  "ta_step T A d s =
     (let (st, su) = s;
          st1 = st\<lparr>ta_ctx := (ta_ctx st)\<lparr>ac_send_mode := Some (send_mode_of d), ac_headers := hd_new\<rparr>\<rparr>;
          ictx = ta_inbound_context A (ta_ctx st1) d
      in case run_on_receive ictx (message_any d) (ta_interceptors st1) hd_new 0 (ta_istate st1) of
           (Some (interceptor_name, disposition), _, _, j) \<Rightarrow>
             (False, st1\<lparr>ta_istate := j\<rparr>, ta_turn_away A d interceptor_name disposition st1 su)
         | (None, headers, total_delay, j) \<Rightarrow>
             (let su1 = (if total_delay \<noteq> 0 then su\<lparr>su_slept := su_slept su @ [total_delay]\<rparr> else su);
                  wrappers = collect_handler_wrappers (ta_interceptors st1) ictx headers j;
                  ctx2 = (ta_ctx st1)\<lparr>ac_headers := headers, ac_cancellation_token := cancel_token_of d\<rparr>;
                  uncancel = (\<lambda>c :: 'p actor_context. c\<lparr>ac_cancellation_token := None\<rparr>);
                  cancelled = (case cancel_token_of d of Some token \<Rightarrow> te_is_cancelled T token (su_world su1) | None \<Rightarrow> False)
              in if cancelled
                 then (False, st1\<lparr>ta_ctx := uncancel ctx2, ta_istate := j\<rparr>, su1\<lparr>su_oneshots := dispatch_cancel d (su_oneshots su1)\<rparr>)
                 else case ta_dispatch T A wrappers d (ta_actor st1, ctx2, su_world su1) of
                   (None, actor, ctx3, w) \<Rightarrow>
                     (False, st1\<lparr>ta_actor := actor, ta_ctx := uncancel ctx3, ta_istate := j\<rparr>,
                      su1\<lparr>su_world := w, su_oneshots := drop_dispatch d (su_oneshots su1)\<rparr>)
                 | (Some result, actor, ctx3, w) \<Rightarrow>
                     ta_complete A d result (st1\<lparr>ta_actor := actor, ta_ctx := uncancel ctx3, ta_istate := j\<rparr>) (su1\<lparr>su_world := w\<rparr>)))"

text \<open>The loop over what the mailbox holds: whether it is left, and what is then still in the mailbox.\<close>

fun ta_run ::
  "('a, 'm, 'i, 'p, 'w) token_env \<Rightarrow> ('a, 'm, 'i, 'y, 'p, 'w) actor_impl
    \<Rightarrow> ('a, 'm, 'y, 'p, 'w, 'j, 'h) test_actor \<times> ('y, 'w, 'h) surroundings \<Rightarrow> ('m, 'i) dispatch option list
    \<Rightarrow> bool \<times> ('m, 'i) dispatch option list \<times> ('a, 'm, 'y, 'p, 'w, 'j, 'h) test_actor \<times> ('y, 'w, 'h) surroundings" where
  "ta_run T A s [] = (False, [], s)"
| "ta_run T A s (None # ms) = (True, ms, s)"
| "ta_run T A s (Some d # ms) = (case ta_step T A d s of (left, s1) \<Rightarrow> if left then (True, ms, s1) else ta_run T A s1 ms)"

text \<open>The receiver is captured by the task. When the task ends the language drops it, and with it the envelopes it holds.\<close>

fun ta_discard :: "('m, 'i) dispatch option list \<Rightarrow> 'y oneshots \<Rightarrow> 'y oneshots" where
  "ta_discard [] os = os"
| "ta_discard (None # ms) os = ta_discard ms os"
| "ta_discard (Some d # ms) os = ta_discard ms (drop_dispatch d os)"

text \<open>The end of the task: the notifications sent, the result for the waiters, and the watch map and name registry left behind. Only the
  entries of those who watch this actor are removed, not the watches it holds itself.\<close>

definition ta_finish ::
  "('a, 'm, 'i, 'y, 'p, 'w) actor_impl \<Rightarrow> ('a, 'm, 'y, 'p, 'w, 'j, 'h) test_actor \<Rightarrow> 'q watcher_map \<Rightarrow> 'r actor_registry
    \<Rightarrow> ('q watch_entry \<times> child_terminated) list \<times> (nat \<times> (string + unit))
      \<times> ('a, 'm, 'y, 'p, 'w, 'j, 'h) test_actor \<times> 'q watcher_map \<times> 'r actor_registry" where
  "ta_finish A st watchers registry =
     (case ai_on_stop A (ta_actor st) of (run, actor) \<Rightarrow>
        let stop_err = (case run of Returned _ \<Rightarrow> None | Panicked \<Rightarrow> Some ''actor panicked in on_stop'');
            actor_id = ac_actor_id (ta_ctx st);
            actor_name = ac_actor_name (ta_ctx st);
            entries = hm_entry actor_id [] watchers;
            notification = ChildTerminated actor_id actor_name (ta_stop_reason st)
        in (map (\<lambda>entry. (entry, notification)) entries,
            (ta_stop_tx st, case stop_err of Some e \<Rightarrow> Inl e | None \<Rightarrow> Inr ()),
            st\<lparr>ta_actor := actor, ta_ctx := (ta_ctx st)\<lparr>ac_send_mode := None, ac_headers := hd_new\<rparr>\<rparr>,
            hm_remove actor_id watchers,
            snd (ar_unregister registry actor_name)))"

section \<open>The runtime\<close>

text \<open>The metrics interceptor of \<open>Metrics\<close> as an inbound interceptor: \<open>get\<close> and \<open>upd\<close> reach the metrics registry in the state of the interceptors,
  \<open>clock\<close> and \<open>received\<close> the time and that of the message's runtime headers; \<open>handle\<close> is the handle it holds.\<close>

definition metrics_interceptor ::
  "('j \<Rightarrow> metrics_registry) \<Rightarrow> ((metrics_registry \<Rightarrow> metrics_registry) \<Rightarrow> 'j \<Rightarrow> 'j) \<Rightarrow> ('j \<Rightarrow> instant) \<Rightarrow> ('j \<Rightarrow> instant) \<Rightarrow> nat
    \<Rightarrow> ('p, 'm, 'y, 'j, 'f) inbound_interceptor" where
  "metrics_interceptor get upd clock received handle =
     (let act = (\<lambda>f. upd (\<lambda>r. r\<lparr>mr_store := (mr_store r)(handle := f (mr_store r handle))\<rparr>)) in
      \<lparr>ii_name = ''metrics'',
       ii_on_receive = (\<lambda>ctx _ h j. (fst (mi_on_receive (clock j) (ic_message_type ctx) (mr_store (get j) handle)), h,
                                     act (\<lambda>m. snd (mi_on_receive (clock j) (ic_message_type ctx) m)) j)),
       ii_on_complete = (\<lambda>_ _ outcome j. act (mi_on_complete (clock j) (received j) outcome) j),
       ii_wrap_handler = (\<lambda>_ _ _. None)\<rparr>)"

record ('p, 'm, 'y, 'j, 'f) spawn_options =
  so_interceptors :: "('p, 'm, 'y, 'j, 'f) inbound_interceptor list"
  so_mailbox :: mailbox_config

definition so_default :: "('p, 'm, 'y, 'j, 'f) spawn_options" where
  "so_default = \<lparr>so_interceptors = [], so_mailbox = Unbounded\<rparr>"

record ('p, 'm, 'y, 'i, 'o, 'h, 'q, 'r) test_runtime =
  tt_node_id :: node_id
  tt_next_local :: u64
  tt_outbound_interceptors :: "('p, 'm, 'y, 'i) outbound_interceptor list"
  tt_drop_observer :: "'o drop_observer option"
  tt_dead_letter_handler :: "'h dead_letter_handler option"
  tt_watchers :: "'q watcher_map"
  tt_registry :: "'r actor_registry"
  tt_stop_receivers :: "(actor_id, nat) hashmap"
  tt_metrics_registry :: "metrics_registry option"

definition tt_with_node_id :: "node_id \<Rightarrow> ('p, 'm, 'y, 'i, 'o, 'h, 'q, 'r) test_runtime" where
  "tt_with_node_id node_id = \<lparr>tt_node_id = node_id, tt_next_local = 1, tt_outbound_interceptors = [], tt_drop_observer = None,
     tt_dead_letter_handler = None, tt_watchers = hm_empty, tt_registry = ar_new, tt_stop_receivers = hm_empty, tt_metrics_registry = None\<rparr>"

definition tt_new :: "('p, 'm, 'y, 'i, 'o, 'h, 'q, 'r) test_runtime" where
  "tt_new = \<lparr>tt_node_id = NodeId ''test-node'', tt_next_local = 1, tt_outbound_interceptors = [], tt_drop_observer = None,
     tt_dead_letter_handler = None, tt_watchers = hm_empty, tt_registry = ar_new, tt_stop_receivers = hm_empty, tt_metrics_registry = None\<rparr>"

definition tt_enable_metrics :: "('p, 'm, 'y, 'i, 'o, 'h, 'q, 'r) test_runtime \<Rightarrow> ('p, 'm, 'y, 'i, 'o, 'h, 'q, 'r) test_runtime" where
  "tt_enable_metrics rt = rt\<lparr>tt_metrics_registry := Some mr_default\<rparr>"

text \<open>\<open>shared\<close> is whether some reference still holds the list of interceptors; \<open>None\<close> stands for the panic.\<close>

definition tt_add_outbound_interceptor ::
  "bool \<Rightarrow> ('p, 'm, 'y, 'i) outbound_interceptor \<Rightarrow> ('p, 'm, 'y, 'i, 'o, 'h, 'q, 'r) test_runtime
    \<Rightarrow> ('p, 'm, 'y, 'i, 'o, 'h, 'q, 'r) test_runtime option" where
  "tt_add_outbound_interceptor shared interceptor rt =
     (if shared then None else Some (rt\<lparr>tt_outbound_interceptors := tt_outbound_interceptors rt @ [interceptor]\<rparr>))"

definition tt_set_drop_observer ::
  "'o drop_observer \<Rightarrow> ('p, 'm, 'y, 'i, 'o, 'h, 'q, 'r) test_runtime \<Rightarrow> ('p, 'm, 'y, 'i, 'o, 'h, 'q, 'r) test_runtime" where
  "tt_set_drop_observer observer rt = rt\<lparr>tt_drop_observer := Some observer\<rparr>"

definition tt_set_dead_letter_handler ::
  "'h dead_letter_handler \<Rightarrow> ('p, 'm, 'y, 'i, 'o, 'h, 'q, 'r) test_runtime \<Rightarrow> ('p, 'm, 'y, 'i, 'o, 'h, 'q, 'r) test_runtime" where
  "tt_set_dead_letter_handler handler rt = rt\<lparr>tt_dead_letter_handler := Some handler\<rparr>"

definition tt_watch ::
  "actor_id \<Rightarrow> 'q \<Rightarrow> actor_id \<Rightarrow> ('p, 'm, 'y, 'i, 'o, 'h, 'q, 'r) test_runtime \<Rightarrow> ('p, 'm, 'y, 'i, 'o, 'h, 'q, 'r) test_runtime" where
  "tt_watch watcher_id watcher_sender target_id rt =
     rt\<lparr>tt_watchers := hm_insert target_id (hm_entry target_id [] (tt_watchers rt) @ [WatchEntry watcher_id watcher_sender]) (tt_watchers rt)\<rparr>"

definition tt_unwatch ::
  "actor_id \<Rightarrow> actor_id \<Rightarrow> ('p, 'm, 'y, 'i, 'o, 'h, 'q, 'r) test_runtime \<Rightarrow> ('p, 'm, 'y, 'i, 'o, 'h, 'q, 'r) test_runtime" where
  "tt_unwatch watcher_id target_id rt =
     (case hm_get (tt_watchers rt) target_id of
        None \<Rightarrow> rt
      | Some entries \<Rightarrow>
          (let kept = filter (\<lambda>e. wen_watcher_id e \<noteq> watcher_id) entries
           in rt\<lparr>tt_watchers := (if kept = [] then hm_remove target_id (tt_watchers rt) else hm_insert target_id kept (tt_watchers rt))\<rparr>))"

text \<open>Spawning: the reference, the interceptors its task gets, and the runtime. \<open>unbounded\<close> and \<open>bounded\<close> make tokio's channels; making a bounded one
  panics at capacity zero. \<open>interceptor\<close> makes a metrics interceptor for a handle, \<open>boxed\<close> puts a reference into the name registry.\<close>

definition tt_spawn_internal ::
  "'c \<Rightarrow> (nat \<Rightarrow> 'c option) \<Rightarrow> (nat \<Rightarrow> ('p, 'm, 'y, 'j, 'f) inbound_interceptor) \<Rightarrow> (('c, 'p, 'm, 'y, 'i, 'o, 'h) test_ref \<Rightarrow> 'r)
    \<Rightarrow> string \<Rightarrow> ('p, 'm, 'y, 'j, 'f) inbound_interceptor list \<Rightarrow> mailbox_config \<Rightarrow> nat \<Rightarrow> ('p, 'm, 'y, 'i, 'o, 'h, 'q, 'r) test_runtime
    \<Rightarrow> (('c, 'p, 'm, 'y, 'i, 'o, 'h) test_ref \<times> ('p, 'm, 'y, 'j, 'f) inbound_interceptor list \<times> ('p, 'm, 'y, 'i, 'o, 'h, 'q, 'r) test_runtime) option" where
  "tt_spawn_internal unbounded bounded interceptor boxed name interceptors mailbox stop_rx rt =
     (let actor_id = ActorId (tt_node_id rt) (tt_next_local rt);
          (combined, metrics) = (case tt_metrics_registry rt of
              Some registry \<Rightarrow> (case mr_register actor_id registry of (handle, registry1) \<Rightarrow> (interceptor handle # interceptors, Some registry1))
            | None \<Rightarrow> (interceptors, None))
      in case (case mailbox of
                 Unbounded \<Rightarrow> Some (MsUnbounded unbounded)
               | Bounded capacity overflow \<Rightarrow> map_option (\<lambda>tx. MsBounded tx overflow) (bounded (unat capacity))) of
           None \<Rightarrow> None
         | Some tx \<Rightarrow>
             (let actor_ref = \<lparr>tf_id = actor_id, tf_name = name, tf_sender = tx, tf_alive = True,
                    tf_outbound_interceptors = tt_outbound_interceptors rt, tf_drop_observer = tt_drop_observer rt,
                    tf_dead_letter_handler = tt_dead_letter_handler rt\<rparr>
              in Some (actor_ref, combined,
                   rt\<lparr>tt_next_local := tt_next_local rt + 1, tt_metrics_registry := metrics,
                      tt_stop_receivers := hm_insert actor_id stop_rx (tt_stop_receivers rt),
                      tt_registry := ar_register (tt_registry rt) name (boxed actor_ref)\<rparr>)))"

definition tt_spawn where
  "tt_spawn unbounded bounded interceptor boxed name stop_rx rt =
     tt_spawn_internal unbounded bounded interceptor boxed name [] Unbounded stop_rx rt"

definition tt_spawn_with_options where
  "tt_spawn_with_options unbounded bounded interceptor boxed name options stop_rx rt =
     tt_spawn_internal unbounded bounded interceptor boxed name (so_interceptors options) (so_mailbox options) stop_rx rt"

definition tt_await_stop ::
  "(nat \<Rightarrow> stop_channel) \<Rightarrow> actor_id \<Rightarrow> ('p, 'm, 'y, 'i, 'o, 'h, 'q, 'r) test_runtime
    \<Rightarrow> (string + unit) option \<times> ('p, 'm, 'y, 'i, 'o, 'h, 'q, 'r) test_runtime" where
  "tt_await_stop chans actor_id rt =
     (case hm_get (tt_stop_receivers rt) actor_id of
        Some rx \<Rightarrow> (stop_recv ''stop notifier dropped'' (chans rx), rt\<lparr>tt_stop_receivers := hm_remove actor_id (tt_stop_receivers rt)\<rparr>)
      | None \<Rightarrow> (Some (Inr ()), rt))"

definition tt_await_all ::
  "(nat \<Rightarrow> stop_channel) \<Rightarrow> ('p, 'm, 'y, 'i, 'o, 'h, 'q, 'r) test_runtime
    \<Rightarrow> (string + unit) option \<times> ('p, 'm, 'y, 'i, 'o, 'h, 'q, 'r) test_runtime" where
  "tt_await_all chans rt =
     (let results = map (\<lambda>rx. stop_recv ''stop notifier dropped: channel closed'' (chans rx)) (hm_values (tt_stop_receivers rt))
      in (if None \<in> set results then None else Some (first_stop_error (map the results)), rt\<lparr>tt_stop_receivers := hm_empty\<rparr>))"

definition tt_cleanup_finished ::
  "(nat \<Rightarrow> stop_channel) \<Rightarrow> ('p, 'm, 'y, 'i, 'o, 'h, 'q, 'r) test_runtime \<Rightarrow> ('p, 'm, 'y, 'i, 'o, 'h, 'q, 'r) test_runtime" where
  "tt_cleanup_finished chans rt = rt\<lparr>tt_stop_receivers := filter (\<lambda>(_, rx). chans rx = StopPending) (tt_stop_receivers rt)\<rparr>"

definition tt_active_handle_count :: "('p, 'm, 'y, 'i, 'o, 'h, 'q, 'r) test_runtime \<Rightarrow> nat" where
  "tt_active_handle_count rt = length (tt_stop_receivers rt)"

section \<open>Lemmas\<close>

text \<open>The actor task seen as the actor of the ractor adapter; leaving the loop after a panic is a request to stop.\<close>

definition ta_to_ractor :: "('a, 'm, 'y, 'p, 'w, 'j, 'h) test_actor \<Rightarrow> ('a, 'm, 'y, 'p, 'w, 'j, 'h) ractor_actor_state" where
  "ta_to_ractor st = \<lparr>ras_actor = ta_actor st, ras_ctx = ta_ctx st, ras_interceptors = ta_interceptors st, ras_istate = ta_istate st,
     ras_stop_reason = ta_stop_reason st, ras_dead_letter_handler = ta_dead_letter_handler st, ras_stop_notifier = Some (ta_stop_tx st)\<rparr>"

definition leave_requested ::
  "bool \<times> ('a, 'm, 'y, 'p, 'w, 'j, 'h) test_actor \<times> ('y, 'w, 'h) surroundings
    \<Rightarrow> ('a, 'm, 'y, 'p, 'w, 'j, 'h) ractor_actor_state \<times> ('y, 'w, 'h) surroundings" where
  "leave_requested x = (case x of (left, st, su) \<Rightarrow> (ta_to_ractor st, if left then su\<lparr>su_stop := True\<rparr> else su))"

lemma ta_to_ractor_simps [simp]:
  "ras_actor (ta_to_ractor st) = ta_actor st" "ras_ctx (ta_to_ractor st) = ta_ctx st" "ras_interceptors (ta_to_ractor st) = ta_interceptors st"
  "ras_istate (ta_to_ractor st) = ta_istate st" "ras_stop_reason (ta_to_ractor st) = ta_stop_reason st"
  "ras_dead_letter_handler (ta_to_ractor st) = ta_dead_letter_handler st"
  by (simp_all add: ta_to_ractor_def)

lemma ta_to_ractor_updates [simp]:
  "ta_to_ractor (st\<lparr>ta_actor := a\<rparr>) = (ta_to_ractor st)\<lparr>ras_actor := a\<rparr>" "ta_to_ractor (st\<lparr>ta_ctx := c\<rparr>) = (ta_to_ractor st)\<lparr>ras_ctx := c\<rparr>"
  "ta_to_ractor (st\<lparr>ta_istate := j\<rparr>) = (ta_to_ractor st)\<lparr>ras_istate := j\<rparr>"
  "ta_to_ractor (st\<lparr>ta_stop_reason := x\<rparr>) = (ta_to_ractor st)\<lparr>ras_stop_reason := x\<rparr>"
  by (simp_all add: ta_to_ractor_def)

lemma ta_context [simp]: "ta_inbound_context = ra_inbound_context"
  by (intro ext) (simp add: ta_inbound_context_def ra_inbound_context_def)

lemma ta_dispatch_handler: "ta_dispatch T A wrappers d x = run_handler T A wrappers d x"
  by (auto simp: ta_dispatch_def run_handler_def run_wrapped_def list_ex_iff Let_def split: option.split prod.split)

lemma ta_complete_refines: "leave_requested (ta_complete A d result st su) = ra_complete A d result (ta_to_ractor st) su"
  by (cases result) (auto simp: ta_complete_def ra_complete_def leave_requested_def Let_def split: prod.split error_action.split)

lemma ta_step_refines: "leave_requested (ta_step T A d (st, su)) = ra_handle T A d (ta_to_ractor st, su)"
proof -
  let ?ctx1 = "(ta_ctx st)\<lparr>ac_send_mode := Some (send_mode_of d), ac_headers := hd_new\<rparr>"
  let ?st1 = "st\<lparr>ta_ctx := ?ctx1\<rparr>"
  let ?ictx = "ra_inbound_context A ?ctx1 d"
  obtain rej h delay j where rr: "run_on_receive ?ictx (message_any d) (ta_interceptors st) hd_new 0 (ta_istate st) = (rej, h, delay, j)"
    by (metis prod_cases4)
  show ?thesis
  proof (cases rej)
    case (Some nd)
    obtain name disp where nd: "nd = (name, disp)" by force
    have "ta_turn_away A d name disp ?st1 su = su\<lparr>su_letters := (if disp = Drop then ra_dead_letter (ta_to_ractor st) ?ictx name (su_letters su) else su_letters su),
        su_oneshots := dispatch_reject d disp name (su_oneshots su)\<rparr>"
      by (simp add: ta_turn_away_def ra_dead_letter_def ra_inbound_context_def split: option.split)
    then show ?thesis using rr Some nd by (simp add: ta_step_def ra_handle_def Let_def leave_requested_def)
  next
    case None
    define su1 where "su1 = (if delay = 0 then su else su\<lparr>su_slept := su_slept su @ [delay]\<rparr>)"
    have su1': "(if delay \<noteq> 0 then su\<lparr>su_slept := su_slept su @ [delay]\<rparr> else su) = su1" by (simp add: su1_def)
    let ?ws = "collect_handler_wrappers (ta_interceptors st) ?ictx h j"
    let ?ctx2 = "?ctx1\<lparr>ac_headers := h, ac_cancellation_token := cancel_token_of d\<rparr>"
    obtain result actor ctx3 w where run: "run_handler T A ?ws d (ta_actor st, ?ctx2, su_world su1) = (result, actor, ctx3, w)"
      by (metis prod_cases4)
    have rec: "ta_interceptors ?st1 = ta_interceptors st" "ta_istate ?st1 = ta_istate st" "ta_ctx ?st1 = ?ctx1" "ta_actor ?st1 = ta_actor st" by simp_all
    show ?thesis
      unfolding ta_step_def ra_handle_def Let_def prod.case ta_to_ractor_simps ta_context rec rr None option.case su1' su1_def [symmetric]
        ta_dispatch_handler run
      by (cases result) (simp_all add: leave_requested_def [of "(False, _)"] ta_complete_refines)
  qed
qed

lemma ta_complete_keeps_stop: "su_stop (snd (snd (ta_complete A d result st su))) = su_stop su"
  by (cases result) (auto simp: ta_complete_def Let_def split: prod.split error_action.split)

lemma ta_step_keeps_stop: "su_stop (snd (snd (ta_step T A d (st, su)))) = su_stop su"
  by (simp add: ta_step_def ta_turn_away_def ta_complete_keeps_stop Let_def split: prod.split option.split)

lemma ta_complete_interceptors: "ta_interceptors (fst (snd (ta_complete A d result st su))) = ta_interceptors st"
  by (cases result) (auto simp: ta_complete_def Let_def split: prod.split error_action.split)

lemma ta_step_interceptors: "ta_interceptors (fst (snd (ta_step T A d (st, su)))) = ta_interceptors st"
  by (simp add: ta_step_def ta_complete_interceptors Let_def split: prod.split option.split)

text \<open>Which envelopes of a mailbox carry a reply channel, and what settles one: an answer, a value only from a run of the handler on such an envelope.\<close>

definition carries :: "('m, 'i) dispatch option list \<Rightarrow> nat \<Rightarrow> bool" where
  "carries ms tx \<longleftrightarrow> (\<exists>d. Some d \<in> set ms \<and> reply_tx d = Some tx)"

definition answered_by :: "('a, 'm, 'i, 'y, 'p, 'w) actor_impl \<Rightarrow> ('m, 'i) dispatch option list \<Rightarrow> nat \<Rightarrow> 'y oneshot \<Rightarrow> bool" where
  "answered_by A ms tx v \<longleftrightarrow> ask_reply_poll v \<noteq> None \<and>
     (\<forall>y. ask_reply_poll v = Some (Inr y) \<longrightarrow>
       (\<exists>d x r x'. Some d \<in> set ms \<and> reply_tx d = Some tx \<and> dispatch_run A d x = (Returned r, x') \<and> dr_reply r = Some y))"

definition honest :: "('p, 'm, 'y, 'j, ('x \<times> 'r)) inbound_interceptor list \<Rightarrow> bool" where
  "honest is \<longleftrightarrow> (\<forall>i \<in> set is. \<forall>ctx h j f. ii_wrap_handler i ctx h j = Some f \<longrightarrow> wrapper_honest f)"

lemma carries_Cons [simp]:
  "\<not> carries [] tx" "carries (None # ms) tx \<longleftrightarrow> carries ms tx" "carries (Some d # ms) tx \<longleftrightarrow> reply_tx d = Some tx \<or> carries ms tx"
  by (auto simp: carries_def)

lemma carries_append [simp]: "carries (ms @ ms') tx \<longleftrightarrow> carries ms tx \<or> carries ms' tx"
  by (auto simp: carries_def)

lemma answered_by_mono: "answered_by A ms tx v \<Longrightarrow> set ms \<subseteq> set ms' \<Longrightarrow> answered_by A ms' tx v"
  unfolding answered_by_def by blast

lemma ta_step_answers:
  assumes "honest (ta_interceptors st)" and step: "ta_step T A d (st, su) = (left, st', su')"
  shows "if reply_tx d = Some tx then answered_by A [Some d] tx (su_oneshots su' tx) else su_oneshots su' tx = su_oneshots su tx"
proof -
  obtain st2 su2 where r: "ra_handle T A d (ta_to_ractor st, su) = (st2, su2)" by force
  have same: "su_oneshots su2 = su_oneshots su'" using ta_step_refines [of T A d st su] step r by (auto simp: leave_requested_def)
  from assms(1) have "\<forall>i \<in> set (ras_interceptors (ta_to_ractor st)). \<forall>ctx h j f. ii_wrap_handler i ctx h j = Some f \<longrightarrow> wrapper_honest f"
    by (simp add: honest_def)
  from ra_handle_answers [OF this r, THEN conjunct1] show ?thesis
    unfolding same by (auto simp: answered_by_def split: option.splits)
qed

lemma ta_discard_drops: "ta_discard ms os tx = (if carries ms tx then OsDropped else os tx)"
  by (induction ms os rule: ta_discard.induct) (auto simp: drop_dispatch_def split: option.split)

lemma ta_run_answers:
  "honest (ta_interceptors st) \<Longrightarrow> ta_run T A (st, su) ms = (left, rest, st', su') \<Longrightarrow>
   \<exists>handled. ms = handled @ rest \<and>
     (\<forall>tx. if carries handled tx then answered_by A handled tx (su_oneshots su' tx) else su_oneshots su' tx = su_oneshots su tx)"
proof (induction ms arbitrary: st su)
  case Nil
  then show ?case by (intro exI [of _ "[]"]) simp
next
  case (Cons m ms)
  show ?case
  proof (cases m)
    case None
    then show ?thesis using Cons.prems(2) by (intro exI [of _ "[None]"]) simp
  next
    case (Some d)
    obtain left1 st1 su1 where step: "ta_step T A d (st, su) = (left1, st1, su1)" by (rule prod_cases3)
    note one = ta_step_answers [OF Cons.prems(1) step]
    have "honest (ta_interceptors st1)" using Cons.prems(1) ta_step_interceptors [of T A d st su] step by simp
    note IH = Cons.IH [OF this]
    show ?thesis
    proof (cases left1)
      case True
      then show ?thesis using Cons.prems(2) one step Some by (intro exI [of _ "[Some d]"]) auto
    next
      case False
      then obtain handled where h: "ms = handled @ rest"
          "\<And>tx. if carries handled tx then answered_by A handled tx (su_oneshots su' tx) else su_oneshots su' tx = su_oneshots su1 tx"
        using Cons.prems(2) step Some IH [of su1] by auto
      have "if carries (Some d # handled) tx then answered_by A (Some d # handled) tx (su_oneshots su' tx)
          else su_oneshots su' tx = su_oneshots su tx" for tx
        using h(2) [of tx] one [of tx] answered_by_mono [of A handled tx _ "Some d # handled"]
          answered_by_mono [of A "[Some d]" tx _ "Some d # handled"] by (auto split: if_splits)
      then show ?thesis using h(1) Some by (intro exI [of _ "Some d # handled"]) auto
    qed
  qed
qed

text \<open>Only what the actor wants after a panic makes it leave its loop before the stop signal.\<close>

lemma ta_complete_leaves:
  assumes "fst (ta_complete A d result st su)"
  shows "\<exists>a e. fst (ai_on_error A a e) \<in> {Stop, Escalate}"
proof (cases result)
  case Panicked
  let ?e = "actor_error_internal ''handler panicked''"
  have "fst (ai_on_error A (ta_actor st) ?e) \<in> {Stop, Escalate}"
    using assms Panicked by (cases "fst (ai_on_error A (ta_actor st) ?e)") (auto simp: ta_complete_def Let_def split: prod.splits)
  then show ?thesis by blast
qed (use assms in \<open>simp add: ta_complete_def Let_def\<close>)

lemma ta_run_leaves:
  assumes "fst (ta_run T A s (map Some ds))"
  shows "\<exists>a e. fst (ai_on_error A a e) \<in> {Stop, Escalate}"
  using assms
proof (induction ds arbitrary: s)
  case (Cons d ds)
  have "fst (ta_step T A d s) \<Longrightarrow> ?case"
    by (cases s) (auto simp: ta_step_def Let_def dest!: ta_complete_leaves split: prod.splits option.splits if_splits)
  then show ?case using Cons by (auto split: prod.splits if_splits)
qed simp

section \<open>Properties\<close>

text \<open>C15. An actor under test lives as it would under the ractor adapter. Given the same messages up to the stop signal, the task of the test runtime runs
  the same interceptors, wrappers and handlers in the same order, answers the same requests, makes the same dead letters and sleeps as long, and its
  state at the end is that of the ractor actor; it leaves its loop exactly when the ractor actor asks to be stopped or the stop signal comes.\<close>

theorem test_actor_refines:
  assumes "\<not> su_stop su" and "ta_run T A (st, su) ms = (left, rest, st', su')"
  shows "\<exists>stop. ra_run T A (ta_to_ractor st, su) (map the (takeWhile (\<lambda>m. m \<noteq> None) ms)) = (ta_to_ractor st', su'\<lparr>su_stop := stop\<rparr>) \<and>
    (left \<longleftrightarrow> stop \<or> None \<in> set ms)"
  using assms
proof (induction ms arbitrary: st su)
  case Nil
  then show ?case by (intro exI [of _ False]) auto
next
  case (Cons m ms)
  show ?case
  proof (cases m)
    case None
    then show ?thesis using Cons.prems by (intro exI [of _ False]) auto
  next
    case (Some d)
    obtain left1 st1 su1 where step: "ta_step T A d (st, su) = (left1, st1, su1)" by (rule prod_cases3)
    have running: "\<not> su_stop su1" using ta_step_keeps_stop [of T A d st su] Cons.prems(1) step by simp
    have r: "ra_handle T A d (ta_to_ractor st, su) = leave_requested (left1, st1, su1)" using ta_step_refines [of T A d st su] step by simp
    show ?thesis
    proof (cases left1)
      case True
      then show ?thesis using Cons.prems(2) Some step r by (auto simp: leave_requested_def Let_def)
    next
      case False
      then have "ta_run T A (st1, su1) ms = (left, rest, st', su')" using Cons.prems(2) Some step by simp
      then show ?thesis using Cons.IH [OF running] r running False Some by (simp add: leave_requested_def Let_def)
    qed
  qed
qed

definition test_adder :: "(nat, nat, nat, unit, unit, unit, unit) test_actor" where
  "test_adder = \<lparr>ta_actor = 5, ta_ctx = ac_new (ActorId (NodeId ''n'') 1) ''adder'', ta_interceptors = [],
     ta_istate = (), ta_stop_reason = None, ta_dead_letter_handler = None, ta_stop_tx = 0\<rparr>"

definition stopping_mailbox :: "(nat, nat) dispatch option list" where
  "stopping_mailbox = [Some (AskDispatch 4 9 None), None, Some (AskDispatch 1 10 None)]"

lemma stopping_mailbox_run: "\<exists>st su. ta_run patient adder (test_adder, quiet) stopping_mailbox = (True, [Some (AskDispatch 1 10 None)], st, su)"
proof -
  have "\<not> fst (ta_step patient adder (AskDispatch 4 9 None) (test_adder, quiet))"
    by (simp add: ta_step_def test_adder_def ta_dispatch_def collect_handler_wrappers_def adder_def ta_complete_def Let_def)
  then show ?thesis by (auto simp: stopping_mailbox_def split: prod.split)
qed

theorem test_actor_refines_witness:
  "\<exists>left rest st su stop. ta_run patient adder (test_adder, quiet) stopping_mailbox = (left, rest, st, su) \<and>
     ra_run patient adder (ta_to_ractor test_adder, quiet) [AskDispatch 4 9 None] = (ta_to_ractor st, su\<lparr>su_stop := stop\<rparr>) \<and> left"
proof -
  obtain left rest st su where run: "ta_run patient adder (test_adder, quiet) stopping_mailbox = (left, rest, st, su)" by (metis prod_cases4)
  have "\<not> su_stop quiet" by (simp add: quiet_def)
  from test_actor_refines [OF this run] run show ?thesis by (simp add: stopping_mailbox_def) blast
qed

text \<open>C4. No request is left hanging. Once the task of an actor has left its loop, by the stop signal or after a panic, every request that was in its
  mailbox is settled. Its mailbox splits into what it took and what was still queued: the callers of queued requests are told that the reply channel is
  closed, the requests it took are answered, with a value only if the handler returned that value for them, and no other reply channel is
  touched.\<close>

theorem stopped_actor_settles_requests:
  assumes "honest (ta_interceptors st)" and "ta_run T A (st, su) ms = (True, rest, st', su')"
  shows "\<exists>handled. ms = handled @ rest \<and>
    (\<forall>tx. carries rest tx \<longrightarrow> ask_reply_poll (ta_discard rest (su_oneshots su') tx) = Some (Inl (RE_ActorNotFound reply_channel_closed))) \<and>
    (\<forall>tx. carries handled tx \<and> \<not> carries rest tx \<longrightarrow> answered_by A handled tx (ta_discard rest (su_oneshots su') tx)) \<and>
    (\<forall>tx. \<not> carries ms tx \<longrightarrow> ta_discard rest (su_oneshots su') tx = su_oneshots su tx)"
proof -
  obtain handled where h: "ms = handled @ rest"
    "\<And>tx. if carries handled tx then answered_by A handled tx (su_oneshots su' tx) else su_oneshots su' tx = su_oneshots su tx"
    using ta_run_answers [OF assms] by blast
  show ?thesis
  proof (intro exI [of _ handled] conjI allI impI)
    fix tx
    show "\<not> carries ms tx \<Longrightarrow> ta_discard rest (su_oneshots su') tx = su_oneshots su tx"
      and "carries handled tx \<and> \<not> carries rest tx \<Longrightarrow> answered_by A handled tx (ta_discard rest (su_oneshots su') tx)"
      using h(2) [of tx] by (simp_all add: h(1) ta_discard_drops)
  qed (simp_all add: h(1) ta_discard_drops)
qed

theorem stopped_actor_settles_requests_witness:
  "\<exists>rest st su. ta_run patient adder (test_adder, quiet) stopping_mailbox = (True, rest, st, su) \<and>
     ask_reply_poll (ta_discard rest (su_oneshots su) 10) = Some (Inl (RE_ActorNotFound reply_channel_closed)) \<and>
     ask_reply_poll (ta_discard rest (su_oneshots su) 9) \<noteq> None"
proof -
  let ?rest = "[Some (AskDispatch 1 10 None)] :: (nat, nat) dispatch option list"
  obtain st su where run: "ta_run patient adder (test_adder, quiet) stopping_mailbox = (True, ?rest, st, su)"
    using stopping_mailbox_run by blast
  have "honest (ta_interceptors test_adder)" by (simp add: honest_def test_adder_def)
  from stopped_actor_settles_requests [OF this run] obtain handled where h: "stopping_mailbox = handled @ ?rest"
    and q: "\<forall>tx. carries ?rest tx \<longrightarrow> ask_reply_poll (ta_discard ?rest (su_oneshots su) tx) = Some (Inl (RE_ActorNotFound reply_channel_closed))"
    and t: "\<forall>tx. carries handled tx \<and> \<not> carries ?rest tx \<longrightarrow> answered_by adder handled tx (ta_discard ?rest (su_oneshots su) tx)"
    by blast
  have "handled = [Some (AskDispatch 4 9 None), None]" using h by (simp add: stopping_mailbox_def append_eq_Cons_conv Cons_eq_append_conv)
  then have "answered_by adder handled 9 (ta_discard ?rest (su_oneshots su) 9)" by (intro t [rule_format]) simp
  then show ?thesis using run q [rule_format, of 10] by (auto simp: answered_by_def)
qed


definition resilient :: "(nat, nat, nat, nat, unit, unit) actor_impl" where
  "resilient = adder\<lparr>ai_on_error := (\<lambda>a _. (Resume, a))\<rparr>"

definition full_ref :: "((nat, nat) dispatch option list_channel, unit, nat, nat, unit, unit, unit) test_ref" where
  "full_ref = \<lparr>tf_id = ActorId (NodeId ''n'') 1, tf_name = ''adder'', tf_sender = MsBounded (ListChannel [Some (TypedDispatch 0)] 1 False) RejectWithError,
     tf_alive = True, tf_outbound_interceptors = [], tf_drop_observer = None, tf_dead_letter_handler = None\<rparr>"


text \<open>Names are not owned. Two actors spawned under one name are told apart by their ids, and the name stands for the later one; when the task of the
  earlier one ends, it removes the name, so that the later actor, which still runs, cannot be looked up any more.\<close>

theorem namesake_unregistered:
  assumes "tt_spawn unbounded bounded interceptor boxed name rx rt = Some (r1, is1, rt1)"
    and "tt_spawn unbounded bounded interceptor boxed name rx' rt1 = Some (r2, is2, rt2)"
    and "ac_actor_id (ta_ctx st) = tf_id r1" and "ac_actor_name (ta_ctx st) = tf_name r1"
    and "ta_finish A st (tt_watchers rt2) (tt_registry rt2) = (told, sent, st', watchers, registry)"
  shows "tf_id r1 \<noteq> tf_id r2 \<and> ar_lookup Some (tt_registry rt2) name = Some (boxed r2) \<and> ar_lookup Some registry name = None"
proof -
  have "tf_id r1 = ActorId (tt_node_id rt) (tt_next_local rt)" "tf_id r2 = ActorId (tt_node_id rt) (tt_next_local rt + 1)" "tf_name r1 = name"
    "tt_registry rt2 = ar_register (tt_registry rt1) name (boxed r2)"
    using assms(1,2) by (auto simp: tt_spawn_def tt_spawn_internal_def Let_def split: option.splits prod.splits)
  moreover have "registry = snd (ar_unregister (tt_registry rt2) (tf_name r1))"
    using assms(4,5) by (auto simp: ta_finish_def Let_def split: prod.splits)
  ultimately show ?thesis by (simp add: ars.get_put ars.get_del)
qed

definition no_metrics :: "nat \<Rightarrow> (unit, nat, nat, unit, unit) inbound_interceptor" where
  "no_metrics _ = \<lparr>ii_name = [], ii_on_receive = (\<lambda>_ _ h j. (Continue, h, j)), ii_on_complete = (\<lambda>_ _ _ j. j), ii_wrap_handler = (\<lambda>_ _ _. None)\<rparr>"

definition bare_runtime :: "(unit, nat, nat, unit, unit, unit, unit, (nat, unit, nat, nat, unit, unit, unit) test_ref) test_runtime" where
  "bare_runtime = tt_new"

theorem namesake_unregistered_witness:
  "\<exists>r1 is1 rt1 r2 is2 rt2 registry told sent st watchers.
     tt_spawn 0 Some no_metrics id ''adder'' 0 bare_runtime = Some (r1, is1, rt1) \<and>
     tt_spawn 0 Some no_metrics id ''adder'' 1 rt1 = Some (r2, is2, rt2) \<and>
     ta_finish adder (test_adder\<lparr>ta_ctx := ac_new (tf_id r1) (tf_name r1)\<rparr>) (tt_watchers rt2) (tt_registry rt2) = (told, sent, st, watchers, registry) \<and>
     ar_lookup Some (tt_registry rt2) ''adder'' = Some r2 \<and> ar_lookup Some registry ''adder'' = None"
proof -
  obtain r1 is1 rt1 where s1: "tt_spawn 0 Some no_metrics id ''adder'' 0 bare_runtime = Some (r1, is1, rt1)"
    by (simp add: tt_spawn_def tt_spawn_internal_def bare_runtime_def tt_new_def Let_def)
  obtain r2 is2 rt2 where s2: "tt_spawn 0 Some no_metrics id ''adder'' 1 rt1 = Some (r2, is2, rt2)"
    by (cases "tt_metrics_registry rt1") (auto simp: tt_spawn_def tt_spawn_internal_def Let_def split_beta)
  let ?st = "test_adder\<lparr>ta_ctx := ac_new (tf_id r1) (tf_name r1)\<rparr>"
  obtain told sent st watchers registry where f: "ta_finish adder ?st (tt_watchers rt2) (tt_registry rt2) = (told, sent, st, watchers, registry)"
    by (metis prod_cases5)
  have "ac_actor_id (ta_ctx ?st) = tf_id r1" "ac_actor_name (ta_ctx ?st) = tf_name r1" by (simp_all add: ac_new_def)
  from namesake_unregistered [OF s1 s2 this f] s1 s2 f show ?thesis by (metis id_apply)
qed

end
