(* ===== verification/Runtimes.thy ===== *)
theory Runtimes
  imports Coerce_Actor Test_Runtime
begin

text \<open>
  The runtimes of the three adapters as the user sees them: the configuration of a runtime (outbound interceptors, drop observer, dead letter handler,
  watches, stop receivers) beside its node state, and the public spawning operations over \<^verbatim>\<open>spawn_internal\<close>. The three configurations have the same
  fields and setters. The property is that all live references of a runtime run the same interceptors.
\<close>

section \<open>Configuration\<close>

text \<open>\<open>ah_interceptor_refs\<close> counts the other holders of the shared interceptor list, of which every reference is one and every task of a streaming call.\<close>

record ('p, 'm, 'y, 'i, 'o, 'h, 'q, 'n) adapter_host =
  ah_node :: 'n
  ah_outbound_interceptors :: "('p, 'm, 'y, 'i) outbound_interceptor list"
  ah_interceptor_refs :: nat
  ah_drop_observer :: "'o drop_observer option"
  ah_dead_letter_handler :: "'h dead_letter_handler option"
  ah_watchers :: "'q watcher_map"
  ah_stop_receivers :: "(actor_id, nat) hashmap"

type_synonym ('p, 'm, 'y, 'i, 'o, 'h, 'q, 'f, 'd, 't, 'cb) ractor_host = "('p, 'm, 'y, 'i, 'o, 'h, 'q, ('f, 'd, 't, 'cb) ractor_runtime) adapter_host"
type_synonym ('p, 'm, 'y, 'i, 'o, 'h, 'q, 'f, 'd, 't, 'cb) kameo_host = "('p, 'm, 'y, 'i, 'o, 'h, 'q, ('f, 'd, 't, 'cb) kameo_runtime) adapter_host"
type_synonym ('p, 'm, 'y, 'i, 'o, 'h, 'q, 'f, 'd, 't, 'cb) coerce_host = "('p, 'm, 'y, 'i, 'o, 'h, 'q, ('f, 'd, 't, 'cb) coerce_runtime) adapter_host"

definition ah_create :: "'n \<Rightarrow> ('p, 'm, 'y, 'i, 'o, 'h, 'q, 'n) adapter_host" where
  "ah_create node = \<lparr>ah_node = node, ah_outbound_interceptors = [], ah_interceptor_refs = 0, ah_drop_observer = None,
     ah_dead_letter_handler = None, ah_watchers = hm_empty, ah_stop_receivers = hm_empty\<rparr>"

definition rh_with_node_id :: "node_id \<Rightarrow> ('p, 'm, 'y, 'i, 'o, 'h, 'q, 'f, 'd, 't, 'cb) ractor_host" where
  "rh_with_node_id node_id = ah_create (rr_create node_id)"

definition rh_new :: "('p, 'm, 'y, 'i, 'o, 'h, 'q, 'f, 'd, 't, 'cb) ractor_host" where
  "rh_new = ah_create (rr_create (NodeId ''ractor-node''))"

definition rh_with_app_version :: "string \<Rightarrow> ('p, 'm, 'y, 'i, 'o, 'h, 'q, 'f, 'd, 't, 'cb) ractor_host \<Rightarrow> ('p, 'm, 'y, 'i, 'o, 'h, 'q, 'f, 'd, 't, 'cb) ractor_host" where
  "rh_with_app_version version h = h\<lparr>ah_node := (ah_node h)\<lparr>rr_app_version := Some version\<rparr>\<rparr>"

definition kh_with_node_id :: "node_id \<Rightarrow> ('p, 'm, 'y, 'i, 'o, 'h, 'q, 'f, 'd, 't, 'cb) kameo_host" where
  "kh_with_node_id node_id = ah_create (kr_create node_id)"

definition kh_new :: "('p, 'm, 'y, 'i, 'o, 'h, 'q, 'f, 'd, 't, 'cb) kameo_host" where
  "kh_new = ah_create (kr_create (NodeId ''kameo-node''))"

definition kh_with_app_version :: "string \<Rightarrow> ('p, 'm, 'y, 'i, 'o, 'h, 'q, 'f, 'd, 't, 'cb) kameo_host \<Rightarrow> ('p, 'm, 'y, 'i, 'o, 'h, 'q, 'f, 'd, 't, 'cb) kameo_host" where
  "kh_with_app_version version h = h\<lparr>ah_node := (ah_node h)\<lparr>kr_app_version := Some version\<rparr>\<rparr>"

definition ch_with_node_id :: "node_id \<Rightarrow> ('p, 'm, 'y, 'i, 'o, 'h, 'q, 'f, 'd, 't, 'cb) coerce_host" where
  "ch_with_node_id node_id = ah_create (co_create node_id)"

definition ch_new :: "('p, 'm, 'y, 'i, 'o, 'h, 'q, 'f, 'd, 't, 'cb) coerce_host" where
  "ch_new = ah_create (co_create (NodeId ''coerce-node''))"

definition ch_with_app_version :: "string \<Rightarrow> ('p, 'm, 'y, 'i, 'o, 'h, 'q, 'f, 'd, 't, 'cb) coerce_host \<Rightarrow> ('p, 'm, 'y, 'i, 'o, 'h, 'q, 'f, 'd, 't, 'cb) coerce_host" where
  "ch_with_app_version version h = h\<lparr>ah_node := (ah_node h)\<lparr>co_app_version := Some version\<rparr>\<rparr>"

text \<open>\<^verbatim>\<open>Arc::get_mut\<close> succeeds if there is no other holder; \<open>None\<close> stands for the panic.\<close>

definition ah_add_outbound_interceptor ::
  "('p, 'm, 'y, 'i) outbound_interceptor \<Rightarrow> ('p, 'm, 'y, 'i, 'o, 'h, 'q, 'n) adapter_host \<Rightarrow> ('p, 'm, 'y, 'i, 'o, 'h, 'q, 'n) adapter_host option" where
  "ah_add_outbound_interceptor interceptor h =
     (if ah_interceptor_refs h = 0 then Some (h\<lparr>ah_outbound_interceptors := ah_outbound_interceptors h @ [interceptor]\<rparr>) else None)"

definition ah_set_drop_observer ::
  "'o drop_observer \<Rightarrow> ('p, 'm, 'y, 'i, 'o, 'h, 'q, 'n) adapter_host \<Rightarrow> ('p, 'm, 'y, 'i, 'o, 'h, 'q, 'n) adapter_host" where
  "ah_set_drop_observer observer h = h\<lparr>ah_drop_observer := Some observer\<rparr>"

definition ah_set_dead_letter_handler ::
  "'h dead_letter_handler \<Rightarrow> ('p, 'm, 'y, 'i, 'o, 'h, 'q, 'n) adapter_host \<Rightarrow> ('p, 'm, 'y, 'i, 'o, 'h, 'q, 'n) adapter_host" where
  "ah_set_dead_letter_handler handler h = h\<lparr>ah_dead_letter_handler := Some handler\<rparr>"

definition ah_watch :: "actor_id \<Rightarrow> 'q \<Rightarrow> actor_id \<Rightarrow> ('p, 'm, 'y, 'i, 'o, 'h, 'q, 'n) adapter_host \<Rightarrow> ('p, 'm, 'y, 'i, 'o, 'h, 'q, 'n) adapter_host" where
  "ah_watch watcher_id watcher_inner target_id h = h\<lparr>ah_watchers := ra_watch (ah_watchers h) watcher_id watcher_inner target_id\<rparr>"

definition ah_unwatch :: "actor_id \<Rightarrow> actor_id \<Rightarrow> ('p, 'm, 'y, 'i, 'o, 'h, 'q, 'n) adapter_host \<Rightarrow> ('p, 'm, 'y, 'i, 'o, 'h, 'q, 'n) adapter_host" where
  "ah_unwatch watcher_id target_id h = h\<lparr>ah_watchers := ra_unwatch (ah_watchers h) watcher_id target_id\<rparr>"

section \<open>Spawning\<close>

text \<open>\<open>start\<close> is what the actor library does with the arguments, the dependencies and the inbound interceptors of the actor: for ractor an error or the
  mailbox, for the others the mailbox. A reference made is a further holder of the interceptor list.\<close>

definition rh_spawn_internal where
  "rh_spawn_internal channel start name args deps interceptors mailbox stop_rx h =
     (case rr_spawn_internal channel (start args deps interceptors) name mailbox stop_rx (ah_outbound_interceptors h) (ah_drop_observer h)
             (ah_dead_letter_handler h) (ah_node h) (ah_stop_receivers h) of
        (Inl e, node, receivers) \<Rightarrow> (Inl e, h\<lparr>ah_node := node, ah_stop_receivers := receivers\<rparr>)
      | (Inr r, node, receivers) \<Rightarrow>
          (Inr r, h\<lparr>ah_node := node, ah_stop_receivers := receivers, ah_interceptor_refs := ah_interceptor_refs h + 1\<rparr>))"

definition rh_spawn where
  "rh_spawn channel start name args stop_rx h = rh_spawn_internal channel start name args () [] Unbounded stop_rx h"

definition rh_spawn_with_deps where
  "rh_spawn_with_deps channel start name args deps stop_rx h = rh_spawn_internal channel start name args deps [] Unbounded stop_rx h"

definition rh_spawn_with_options where
  "rh_spawn_with_options channel start name args options stop_rx h =
     rh_spawn_internal channel start name args () (so_interceptors options) (so_mailbox options) stop_rx h"

definition kh_spawn_internal where
  "kh_spawn_internal channel start name args deps interceptors mailbox stop_rx h =
     (case kr_spawn_internal channel (start args deps interceptors) name mailbox stop_rx (ah_outbound_interceptors h) (ah_drop_observer h)
             (ah_dead_letter_handler h) (ah_node h) (ah_stop_receivers h) of
        (r, node, receivers) \<Rightarrow>
          (Inr r :: runtime_error + _, h\<lparr>ah_node := node, ah_stop_receivers := receivers, ah_interceptor_refs := ah_interceptor_refs h + 1\<rparr>))"

definition kh_spawn where
  "kh_spawn channel start name args stop_rx h = kh_spawn_internal channel start name args () [] Unbounded stop_rx h"

definition kh_spawn_with_deps where
  "kh_spawn_with_deps channel start name args deps stop_rx h = kh_spawn_internal channel start name args deps [] Unbounded stop_rx h"

definition kh_spawn_with_options where
  "kh_spawn_with_options channel start name args options stop_rx h =
     kh_spawn_internal channel start name args () (so_interceptors options) (so_mailbox options) stop_rx h"

text \<open>For coerce the wrapper is built here, from the actor that \<open>create\<close> makes and the interceptors with their state \<open>j\<close>; \<open>start\<close> is given the wrapper's
  parts.\<close>

definition ch_spawn_internal where
  "ch_spawn_internal channel start create j name args deps interceptors mailbox stop_rx h =
     (case co_spawn_internal channel (start args deps interceptors) (create args deps) name interceptors j mailbox stop_rx (ah_outbound_interceptors h)
             (ah_drop_observer h) (ah_dead_letter_handler h) (ah_node h) (ah_stop_receivers h) of
        (actor, r, node, receivers) \<Rightarrow>
          (Inr r :: runtime_error + _, h\<lparr>ah_node := node, ah_stop_receivers := receivers, ah_interceptor_refs := ah_interceptor_refs h + 1\<rparr>))"

definition ch_spawn where
  "ch_spawn channel start create j name args stop_rx h = ch_spawn_internal channel start create j name args () [] Unbounded stop_rx h"

definition ch_spawn_with_deps where
  "ch_spawn_with_deps channel start create j name args deps stop_rx h = ch_spawn_internal channel start create j name args deps [] Unbounded stop_rx h"

definition ch_spawn_with_options where
  "ch_spawn_with_options channel start create j name args options stop_rx h =
     ch_spawn_internal channel start create j name args () (so_interceptors options) (so_mailbox options) stop_rx h"

section \<open>References and their interceptors\<close>

text \<open>A runtime with the references that are alive. Everything that can happen to the interceptor list: a configuration call, a spawn, and a reference that is
  cloned or dropped. The task of a streaming call holds the list too, and may outlive the reference it was called on.\<close>

datatype ('p, 'm, 'y, 'i, 'o, 'h, 's) host_op =
    HAddInterceptor "('p, 'm, 'y, 'i) outbound_interceptor" | HSetObserver "'o drop_observer" | HSetLetters "'h dead_letter_handler"
  | HSpawn 's | HClone nat | HDrop nat | HHold | HRelease

fun host_step ::
  "('s \<Rightarrow> ('p, 'm, 'y, 'i, 'o, 'h, 'q, 'n) adapter_host \<Rightarrow> (runtime_error + 'f) \<times> ('p, 'm, 'y, 'i, 'o, 'h, 'q, 'n) adapter_host)
    \<Rightarrow> ('p, 'm, 'y, 'i, 'o, 'h, 'q, 'n) adapter_host \<times> 'f list \<Rightarrow> ('p, 'm, 'y, 'i, 'o, 'h, 's) host_op
    \<Rightarrow> ('p, 'm, 'y, 'i, 'o, 'h, 'q, 'n) adapter_host \<times> 'f list" where
  "host_step spawn (h, live) (HAddInterceptor x) = (case ah_add_outbound_interceptor x h of Some h1 \<Rightarrow> (h1, live) | None \<Rightarrow> (h, live))"
| "host_step spawn (h, live) (HSetObserver x) = (ah_set_drop_observer x h, live)"
| "host_step spawn (h, live) (HSetLetters x) = (ah_set_dead_letter_handler x h, live)"
| "host_step spawn (h, live) (HSpawn s) = (case spawn s h of (Inr r, h1) \<Rightarrow> (h1, r # live) | (Inl _, h1) \<Rightarrow> (h1, live))"
| "host_step spawn (h, live) (HClone k) =
     (if k < length live then (h\<lparr>ah_interceptor_refs := Suc (ah_interceptor_refs h)\<rparr>, live ! k # live) else (h, live))"
| "host_step spawn (h, live) (HDrop k) =
     (if k < length live then (h\<lparr>ah_interceptor_refs := ah_interceptor_refs h - 1\<rparr>, take k live @ drop (Suc k) live) else (h, live))"
| "host_step spawn (h, live) HHold = (h\<lparr>ah_interceptor_refs := Suc (ah_interceptor_refs h)\<rparr>, live)"
| "host_step spawn (h, live) HRelease =
     (if length live < ah_interceptor_refs h then (h\<lparr>ah_interceptor_refs := ah_interceptor_refs h - 1\<rparr>, live) else (h, live))"

text \<open>All live references have the interceptors of the runtime, each counted as a holder of the list.\<close>

definition uniform ::
  "('f \<Rightarrow> ('p, 'm, 'y, 'i) outbound_interceptor list) \<Rightarrow> ('p, 'm, 'y, 'i, 'o, 'h, 'q, 'n) adapter_host \<times> 'f list \<Rightarrow> bool" where
  "uniform interceptors_of s \<longleftrightarrow>
     length (snd s) \<le> ah_interceptor_refs (fst s) \<and> interceptors_of ` set (snd s) \<subseteq> {ah_outbound_interceptors (fst s)}"

text \<open>The interface: a spawn leaves the configuration alone, and gives a reference with the interceptors of the runtime, counted as a holder, or an error.\<close>

locale spawning_host =
  fixes spawn :: "'s \<Rightarrow> ('p, 'm, 'y, 'i, 'o, 'h, 'q, 'n) adapter_host \<Rightarrow> (runtime_error + 'f) \<times> ('p, 'm, 'y, 'i, 'o, 'h, 'q, 'n) adapter_host"
    and interceptors_of :: "'f \<Rightarrow> ('p, 'm, 'y, 'i) outbound_interceptor list"
  assumes spawn_list: "ah_outbound_interceptors (snd (spawn s h)) = ah_outbound_interceptors h"
    and spawn_ref: "spawn s h = (Inr r, h') \<Longrightarrow> interceptors_of r = ah_outbound_interceptors h \<and> ah_interceptor_refs h' = Suc (ah_interceptor_refs h)"
    and spawn_error: "spawn s h = (Inl e, h') \<Longrightarrow> ah_interceptor_refs h' = ah_interceptor_refs h"
begin

lemma uniform_spawn:
  assumes "uniform interceptors_of (h, live)"
  shows "uniform interceptors_of (host_step spawn (h, live) (HSpawn s))"
  using assms spawn_list [of s h] spawn_ref [of s h] spawn_error [of s h] by (cases "spawn s h"; cases "fst (spawn s h)") (auto simp: uniform_def)

lemma uniform_step: "uniform interceptors_of s \<Longrightarrow> uniform interceptors_of (host_step spawn s x)"
proof (cases s)
  case (Pair h live)
  assume u: "uniform interceptors_of s"
  show ?thesis
  proof (cases x)
    case (HSpawn y)
    then show ?thesis using u uniform_spawn by (simp only: Pair)
  next
    case (HDrop k)
    then show ?thesis using u Pair by (auto simp: uniform_def dest: in_set_takeD in_set_dropD)
  qed (use u Pair in \<open>auto simp: uniform_def ah_add_outbound_interceptor_def ah_set_drop_observer_def ah_set_dead_letter_handler_def\<close>)
qed

lemma uniform_create: "uniform interceptors_of (ah_create node, [])"
  by (simp add: uniform_def ah_create_def)

lemma uniform_run: "uniform interceptors_of s \<Longrightarrow> uniform interceptors_of (foldl (host_step spawn) s ops)"
  by (induction ops arbitrary: s) (simp_all add: uniform_step)

end

text \<open>A spawn request of any of the three public operations, for each adapter.\<close>

definition rh_request where
  "rh_request channel start s h =
     (case s of (name, args, deps, interceptors, mailbox, stop_rx) \<Rightarrow> rh_spawn_internal channel start name args deps interceptors mailbox stop_rx h)"

definition kh_request where
  "kh_request channel start s h =
     (case s of (name, args, deps, interceptors, mailbox, stop_rx) \<Rightarrow> kh_spawn_internal channel start name args deps interceptors mailbox stop_rx h)"

definition ch_request where
  "ch_request channel start create j s h =
     (case s of (name, args, deps, interceptors, mailbox, stop_rx) \<Rightarrow> ch_spawn_internal channel start create j name args deps interceptors mailbox stop_rx h)"

interpretation ractor_host: spawning_host "rh_request channel start" rf_outbound_interceptors for channel start
  by unfold_locales (auto simp: rh_request_def rh_spawn_internal_def rr_spawn_internal_def split: prod.splits sum.splits)

interpretation kameo_host: spawning_host "kh_request channel start" kf_outbound_interceptors for channel start
  by unfold_locales (auto simp: kh_request_def kh_spawn_internal_def kr_spawn_internal_def Let_def split: prod.splits)

interpretation coerce_host: spawning_host "ch_request channel start create j" cf_outbound_interceptors for channel start create j
  by unfold_locales (auto simp: ch_request_def ch_spawn_internal_def co_spawn_internal_def Let_def split: prod.splits)

text \<open>C9. All references of a runtime run the same interceptors. Whatever a program does with a new runtime of one of the three adapters, configuring it,
  spawning actors, cloning and dropping references, starting and ending streaming calls, in any order, every reference that is alive has exactly the interceptors the runtime has: an
  interceptor can be added only while no reference is alive.
\<close>

theorem references_share_interceptors:
  "uniform rf_outbound_interceptors (foldl (host_step (rh_request channel rstart)) (rh_with_node_id n, []) rops) \<and>
   uniform kf_outbound_interceptors (foldl (host_step (kh_request channel kstart)) (kh_with_node_id n, []) kops) \<and>
   uniform cf_outbound_interceptors (foldl (host_step (ch_request channel cstart create j)) (ch_with_node_id n, []) cops)"
  unfolding rh_with_node_id_def kh_with_node_id_def ch_with_node_id_def
  by (intro conjI ractor_host.uniform_run ractor_host.uniform_create kameo_host.uniform_run kameo_host.uniform_create
      coerce_host.uniform_run coerce_host.uniform_create)

text \<open>The dead letter handler is not shared in this way: a reference made before the handler is set keeps working without one.\<close>

lemma late_handler_not_used:
  assumes "rh_spawn channel start name args rx (rh_with_node_id n) = (Inr r, h)"
  shows "rf_dead_letter_handler r = None" and "ah_dead_letter_handler (ah_set_dead_letter_handler handler h) = Some handler"
  using assms by (auto simp: rh_spawn_def rh_spawn_internal_def rr_spawn_internal_def rh_with_node_id_def ah_create_def ah_set_dead_letter_handler_def
      split: prod.splits sum.splits)

end
