(* ===== verification/Stream_Calls.thy ===== *)
theory Stream_Calls
  imports Coerce_Actor Test_Runtime
begin

text \<open>
  The reply side of the streaming calls \<^verbatim>\<open>expand\<close> and \<^verbatim>\<open>transform\<close>, in the three adapters and the test runtime: what the handler sends
  goes, batched or not, through the interception task to the caller. Each definition has the two branches of the code's \<^verbatim>\<open>match batch_config\<close>.
  The items of the handler come with the times they arrive at and the time its sender is dropped. The property is that batching is not visible to
  the caller.
\<close>

section \<open>What the reader of the batches yields\<close>

partial_function (option) brd_items :: "('c, 'a list) mpsc \<Rightarrow> ('c, 'a) batch_reader \<Rightarrow> 'a list option" where
  [code]: "brd_items ch rd =
     Option.bind (brd_recv ch rd) (\<lambda>(x, rd1). case x of
        None \<Rightarrow> Some []
      | Some item \<Rightarrow> Option.bind (brd_items ch rd1) (\<lambda>items. Some (item # items)))"

section \<open>Reply streams\<close>

definition rf_expand_output ::
  "('e, 'm) mpsc \<Rightarrow> ('b, 'm list) mpsc \<Rightarrow> (nat \<Rightarrow> 'b) \<Rightarrow> ('q, 'd, 'p, 'm, 'y, 'i, 'o, 'h) ractor_ref \<Rightarrow> string \<Rightarrow> nat \<Rightarrow> batch_config option
    \<Rightarrow> instant \<Rightarrow> (instant \<times> 'm) list \<Rightarrow> instant \<Rightarrow> ('e, 'i, 'o) item_loop \<Rightarrow> ('e, 'i, 'o) item_loop option" where
  "rf_expand_output ch bch channel r ty buffer batch_config now arrivals end_time l =
     (case batch_config of
        Some config \<Rightarrow>
          (case writer_task bch now (bw_new (channel (max buffer 1)) config) arrivals end_time of (_, writer) \<Rightarrow>
             map_option (\<lambda>items. wrap_batched_stream_with_interception ch (rf_outbound_pipeline r) ty Expand items l)
               (brd_items bch \<lparr>brd_receiver = bw_sender writer, brd_current_batch = []\<rparr>))
      | None \<Rightarrow> Some (wrap_stream_with_interception ch (rf_outbound_pipeline r) ty Expand (map snd arrivals) l))"

definition rf_transform_output ::
  "('e, 'm) mpsc \<Rightarrow> ('b, 'm list) mpsc \<Rightarrow> (nat \<Rightarrow> 'b) \<Rightarrow> ('q, 'd, 'p, 'm, 'y, 'i, 'o, 'h) ractor_ref \<Rightarrow> string \<Rightarrow> nat \<Rightarrow> batch_config option
    \<Rightarrow> instant \<Rightarrow> (instant \<times> 'm) list \<Rightarrow> instant \<Rightarrow> ('e, 'i, 'o) item_loop \<Rightarrow> ('e, 'i, 'o) item_loop option" where
  "rf_transform_output ch bch channel r ty buffer batch_config now arrivals end_time l =
     (case batch_config of
        Some config \<Rightarrow>
          (case writer_task bch now (bw_new (channel (max buffer 1)) config) arrivals end_time of (_, writer) \<Rightarrow>
             map_option (\<lambda>items. wrap_batched_stream_with_interception ch (rf_outbound_pipeline r) ty Transform items l)
               (brd_items bch \<lparr>brd_receiver = bw_sender writer, brd_current_batch = []\<rparr>))
      | None \<Rightarrow> Some (wrap_stream_with_interception ch (rf_outbound_pipeline r) ty Transform (map snd arrivals) l))"

definition kf_expand_output ::
  "('e, 'm) mpsc \<Rightarrow> ('b, 'm list) mpsc \<Rightarrow> (nat \<Rightarrow> 'b) \<Rightarrow> ('q, 'd, 'p, 'm, 'y, 'i, 'o, 'h) kameo_ref \<Rightarrow> string \<Rightarrow> nat \<Rightarrow> batch_config option
    \<Rightarrow> instant \<Rightarrow> (instant \<times> 'm) list \<Rightarrow> instant \<Rightarrow> ('e, 'i, 'o) item_loop \<Rightarrow> ('e, 'i, 'o) item_loop option" where
  "kf_expand_output ch bch channel r ty buffer batch_config now arrivals end_time l =
     (case batch_config of
        Some config \<Rightarrow>
          (case writer_task bch now (bw_new (channel (max buffer 1)) config) arrivals end_time of (_, writer) \<Rightarrow>
             map_option (\<lambda>items. wrap_batched_stream_with_interception ch (kf_outbound_pipeline r) ty Expand items l)
               (brd_items bch \<lparr>brd_receiver = bw_sender writer, brd_current_batch = []\<rparr>))
      | None \<Rightarrow> Some (wrap_stream_with_interception ch (kf_outbound_pipeline r) ty Expand (map snd arrivals) l))"

definition kf_transform_output ::
  "('e, 'm) mpsc \<Rightarrow> ('b, 'm list) mpsc \<Rightarrow> (nat \<Rightarrow> 'b) \<Rightarrow> ('q, 'd, 'p, 'm, 'y, 'i, 'o, 'h) kameo_ref \<Rightarrow> string \<Rightarrow> nat \<Rightarrow> batch_config option
    \<Rightarrow> instant \<Rightarrow> (instant \<times> 'm) list \<Rightarrow> instant \<Rightarrow> ('e, 'i, 'o) item_loop \<Rightarrow> ('e, 'i, 'o) item_loop option" where
  "kf_transform_output ch bch channel r ty buffer batch_config now arrivals end_time l =
     (case batch_config of
        Some config \<Rightarrow>
          (case writer_task bch now (bw_new (channel (max buffer 1)) config) arrivals end_time of (_, writer) \<Rightarrow>
             map_option (\<lambda>items. wrap_batched_stream_with_interception ch (kf_outbound_pipeline r) ty Transform items l)
               (brd_items bch \<lparr>brd_receiver = bw_sender writer, brd_current_batch = []\<rparr>))
      | None \<Rightarrow> Some (wrap_stream_with_interception ch (kf_outbound_pipeline r) ty Transform (map snd arrivals) l))"

definition cf_expand_output ::
  "('e, 'm) mpsc \<Rightarrow> ('b, 'm list) mpsc \<Rightarrow> (nat \<Rightarrow> 'b) \<Rightarrow> ('q, 'd, 'p, 'm, 'y, 'i, 'o, 'h) coerce_ref \<Rightarrow> string \<Rightarrow> nat \<Rightarrow> batch_config option
    \<Rightarrow> instant \<Rightarrow> (instant \<times> 'm) list \<Rightarrow> instant \<Rightarrow> ('e, 'i, 'o) item_loop \<Rightarrow> ('e, 'i, 'o) item_loop option" where
  "cf_expand_output ch bch channel r ty buffer batch_config now arrivals end_time l =
     (case batch_config of
        Some config \<Rightarrow>
          (case writer_task bch now (bw_new (channel (max buffer 1)) config) arrivals end_time of (_, writer) \<Rightarrow>
             map_option (\<lambda>items. wrap_batched_stream_with_interception ch (cf_outbound_pipeline r) ty Expand items l)
               (brd_items bch \<lparr>brd_receiver = bw_sender writer, brd_current_batch = []\<rparr>))
      | None \<Rightarrow> Some (wrap_stream_with_interception ch (cf_outbound_pipeline r) ty Expand (map snd arrivals) l))"

definition cf_transform_output ::
  "('e, 'm) mpsc \<Rightarrow> ('b, 'm list) mpsc \<Rightarrow> (nat \<Rightarrow> 'b) \<Rightarrow> ('q, 'd, 'p, 'm, 'y, 'i, 'o, 'h) coerce_ref \<Rightarrow> string \<Rightarrow> nat \<Rightarrow> batch_config option
    \<Rightarrow> instant \<Rightarrow> (instant \<times> 'm) list \<Rightarrow> instant \<Rightarrow> ('e, 'i, 'o) item_loop \<Rightarrow> ('e, 'i, 'o) item_loop option" where
  "cf_transform_output ch bch channel r ty buffer batch_config now arrivals end_time l =
     (case batch_config of
        Some config \<Rightarrow>
          (case writer_task bch now (bw_new (channel (max buffer 1)) config) arrivals end_time of (_, writer) \<Rightarrow>
             map_option (\<lambda>items. wrap_batched_stream_with_interception ch (cf_outbound_pipeline r) ty Transform items l)
               (brd_items bch \<lparr>brd_receiver = bw_sender writer, brd_current_batch = []\<rparr>))
      | None \<Rightarrow> Some (wrap_stream_with_interception ch (cf_outbound_pipeline r) ty Transform (map snd arrivals) l))"

definition tf_expand_output ::
  "('e, 'm) mpsc \<Rightarrow> ('b, 'm list) mpsc \<Rightarrow> (nat \<Rightarrow> 'b) \<Rightarrow> ('c, 'p, 'm, 'y, 'i, 'o, 'h) test_ref \<Rightarrow> string \<Rightarrow> nat \<Rightarrow> batch_config option
    \<Rightarrow> instant \<Rightarrow> (instant \<times> 'm) list \<Rightarrow> instant \<Rightarrow> ('e, 'i, 'o) item_loop \<Rightarrow> ('e, 'i, 'o) item_loop option" where
  "tf_expand_output ch bch channel r ty buffer batch_config now arrivals end_time l =
     (case batch_config of
        Some config \<Rightarrow>
          (case writer_task bch now (bw_new (channel (max buffer 1)) config) arrivals end_time of (_, writer) \<Rightarrow>
             map_option (\<lambda>items. wrap_batched_stream_with_interception ch (tf_outbound_pipeline r) ty Expand items l)
               (brd_items bch \<lparr>brd_receiver = bw_sender writer, brd_current_batch = []\<rparr>))
      | None \<Rightarrow> Some (wrap_stream_with_interception ch (tf_outbound_pipeline r) ty Expand (map snd arrivals) l))"

definition tf_transform_output ::
  "('e, 'm) mpsc \<Rightarrow> ('b, 'm list) mpsc \<Rightarrow> (nat \<Rightarrow> 'b) \<Rightarrow> ('c, 'p, 'm, 'y, 'i, 'o, 'h) test_ref \<Rightarrow> string \<Rightarrow> nat \<Rightarrow> batch_config option
    \<Rightarrow> instant \<Rightarrow> (instant \<times> 'm) list \<Rightarrow> instant \<Rightarrow> ('e, 'i, 'o) item_loop \<Rightarrow> ('e, 'i, 'o) item_loop option" where
  "tf_transform_output ch bch channel r ty buffer batch_config now arrivals end_time l =
     (case batch_config of
        Some config \<Rightarrow>
          (case writer_task bch now (bw_new (channel (max buffer 1)) config) arrivals end_time of (_, writer) \<Rightarrow>
             map_option (\<lambda>items. wrap_batched_stream_with_interception ch (tf_outbound_pipeline r) ty Transform items l)
               (brd_items bch \<lparr>brd_receiver = bw_sender writer, brd_current_batch = []\<rparr>))
      | None \<Rightarrow> Some (wrap_stream_with_interception ch (tf_outbound_pipeline r) ty Transform (map snd arrivals) l))"

lemmas output_defs = rf_expand_output_def rf_transform_output_def kf_expand_output_def kf_transform_output_def
  cf_expand_output_def cf_transform_output_def tf_expand_output_def tf_transform_output_def

section \<open>Lemmas\<close>

lemma brd_items_queued:
  assumes law: "mpsc_lawful ch queued"
  shows "brd_items ch rd = Some (brd_current_batch rd @ concat (queued (brd_receiver rd)))"
proof (induction "brd_current_batch rd @ concat (queued (brd_receiver rd))" arbitrary: rd)
  case Nil
  then obtain rd1 where "brd_recv ch rd = Some (None, rd1)" using brd_recv_yields [OF law, of rd] unfolding Nil [symmetric] by auto
  then have "brd_items ch rd = Some []" by (subst brd_items.simps) simp
  then show ?case using Nil by simp
next
  case (Cons y ys)
  then obtain rd1 where "brd_recv ch rd = Some (Some y, rd1)" "brd_current_batch rd1 @ concat (queued (brd_receiver rd1)) = ys"
    using brd_recv_yields [OF law, of rd] unfolding Cons(2) [symmetric] by auto
  then have "brd_items ch rd = Some (y # ys)" using Cons(1) [of rd1] by (subst brd_items.simps) simp
  then show ?case using Cons(2) by simp
qed

text \<open>The batching task and the reader together hand on the items of the handler.\<close>

lemma batched_items:
  assumes law: "mpsc_lawful bch bqueued" and b: "\<not> mp_is_closed bch c" "bqueued c = []" and cfg: "0 < bc_max_items config"
    and run: "writer_task bch now (bw_new c config) arrivals end_time = (trace, writer)"
  shows "brd_items bch \<lparr>brd_receiver = bw_sender writer, brd_current_batch = []\<rparr> = Some (map snd arrivals)"
proof -
  have wf: "bw_wf bch bqueued (bw_new c config)" using b cfg by (simp add: bw_wf_def bw_new_def)
  have empty: "in_flight bqueued (bw_new c config) [] = []" using b(2) by (simp add: in_flight_def bw_new_def)
  have "concat (bqueued (bw_sender writer)) = map snd arrivals"
    using writer_task_open [OF law wf, of now arrivals end_time] unfolding run empty by (auto simp: in_flight_def)
  then show ?thesis by (simp add: brd_items_queued [OF law])
qed

section \<open>Properties\<close>

text \<open>C16. Batching a reply stream changes nothing for the caller. In each of the three adapters and in the test runtime, whenever the items of the handler
  arrive, the caller of a batched \<open>expand\<close> or \<open>transform\<close> receives exactly the items, in order, that it would receive without batching.\<close>

theorem reply_batching_transparent:
  assumes laws: "mpsc_lawful ch queued" "mpsc_lawful bch bqueued" and l: "\<not> mp_is_closed ch (il_out l)"
    and b: "\<not> mp_is_closed bch (channel (max buffer 1))" "bqueued (channel (max buffer 1)) = []" and cfg: "0 < bc_max_items config"
    and call: "call \<in> set [rf_expand_output ch bch channel rr, rf_transform_output ch bch channel rr, kf_expand_output ch bch channel kr,
      kf_transform_output ch bch channel kr, cf_expand_output ch bch channel cr, cf_transform_output ch bch channel cr,
      tf_expand_output ch bch channel tr, tf_transform_output ch bch channel tr]"
  shows "\<exists>l1 l2. call ty buffer (Some config) now arrivals end_time l = Some l1 \<and> call ty buffer None now arrivals end_time l = Some l2 \<and>
    queued (il_out l1) = queued (il_out l2)"
proof -
  obtain trace writer where run: "writer_task bch now (bw_new (channel (max buffer 1)) config) arrivals end_time = (trace, writer)" by force
  note items = batched_items [OF laws(2) b cfg run]
  have same: "queued (il_out (wrap_batched_stream_with_interception ch P ty mode (map snd arrivals) l)) =
      queued (il_out (wrap_stream_with_interception ch P ty mode (map snd arrivals) l))" for P mode
    unfolding wrap_batched_stream_with_interception_def wrap_stream_with_interception_def
    by (simp only: intercept_items_open [OF laws(1) l refl refl, THEN conjunct1])
  from call show ?thesis
    unfolding set_simps insert_iff empty_iff by (elim disjE FalseE) (simp_all add: output_defs run [simplified] items same del: writer_task.simps)
qed

definition stream_ref :: "(nat list_channel, nat, nat, nat, nat, drop_notice list, unit) test_ref" where
  "stream_ref = \<lparr>tf_id = ActorId (NodeId ''n'') 1, tf_name = ''t'', tf_sender = MsUnbounded (ListChannel [] 9 False), tf_alive = True,
     tf_outbound_interceptors = [odd_dropper], tf_drop_observer = None, tf_dead_letter_handler = None\<rparr>"

theorem reply_batching_transparent_witness:
  "\<exists>l1 l2. tf_expand_output list_mpsc list_mpsc (\<lambda>n. ListChannel [] n False) stream_ref ''u'' 0 (Some (bc_new 2 10)) 0 [(1, 2), (3, 3), (30, 4)] 40 sample_loop = Some l1 \<and>
     tf_expand_output list_mpsc list_mpsc (\<lambda>n. ListChannel [] n False) stream_ref ''u'' 0 None 0 [(1, 2), (3, 3), (30, 4)] 40 sample_loop = Some l2 \<and>
     lc_items (il_out l1) = lc_items (il_out l2)"
proof -
  let ?ch = "\<lambda>n. ListChannel [] n False :: nat list list_channel"
  let ?call = "tf_expand_output list_mpsc list_mpsc ?ch stream_ref"
  have h: "\<not> mp_is_closed list_mpsc (il_out sample_loop)" "\<not> mp_is_closed list_mpsc (?ch (max 0 1))" "lc_items (?ch (max 0 1)) = []" "0 < bc_max_items (bc_new 2 10)"
    by (simp_all add: list_mpsc_def bc_new_def sample_loop_def)
  have "?call \<in> set [rf_expand_output list_mpsc list_mpsc ?ch rr, rf_transform_output list_mpsc list_mpsc ?ch rr, kf_expand_output list_mpsc list_mpsc ?ch kr,
      kf_transform_output list_mpsc list_mpsc ?ch kr, cf_expand_output list_mpsc list_mpsc ?ch cr, cf_transform_output list_mpsc list_mpsc ?ch cr,
      tf_expand_output list_mpsc list_mpsc ?ch stream_ref, tf_transform_output list_mpsc list_mpsc ?ch stream_ref]" for rr kr cr by simp
  from reply_batching_transparent [OF list_mpsc_lawful list_mpsc_lawful h this, of "''u''" 0 "[(1, 2), (3, 3), (30, 4)]" 40] show ?thesis .
qed

end
