(* ===== verification/Mock_Cluster.thy ===== *)
theory Mock_Cluster
  imports Test_Runtime Remote System_Actors "HOL-Library.List_Lexorder"
begin

text \<open>
  The simulated cluster for tests (\<^verbatim>\<open>dactor-mock\<close>): the network with its partitions (\<^verbatim>\<open>network.rs\<close>), the nodes with a test runtime and the
  system actors each (\<^verbatim>\<open>node.rs\<close>), and the cluster that creates, crashes, restarts, freezes and restores them (\<^verbatim>\<open>cluster.rs\<close>). A method that
  panics on an unknown node gives \<open>None\<close>.
\<close>

section \<open>Network\<close>

record mock_network =
  mn_partitions :: "(node_id \<times> node_id) list"
  mn_delivered :: u64
  mn_dropped :: u64

definition mn_new :: mock_network where
  "mn_new = \<lparr>mn_partitions = [], mn_delivered = 0, mn_dropped = 0\<rparr>"

definition mn_partition :: "mock_network \<Rightarrow> node_id \<Rightarrow> node_id \<Rightarrow> mock_network" where
  "mn_partition net a b = net\<lparr>mn_partitions := mn_partitions net @ [(a, b)]\<rparr>"

definition mn_remove_partition :: "mock_network \<Rightarrow> node_id \<Rightarrow> node_id \<Rightarrow> mock_network" where
  "mn_remove_partition net a b =
     net\<lparr>mn_partitions := filter (\<lambda>(x, y). \<not> (x = a \<and> y = b \<or> x = b \<and> y = a)) (mn_partitions net)\<rparr>"

definition mn_is_partitioned :: "mock_network \<Rightarrow> node_id \<Rightarrow> node_id \<Rightarrow> bool" where
  "mn_is_partitioned net a b = list_ex (\<lambda>(x, y). x = a \<and> y = b \<or> x = b \<and> y = a) (mn_partitions net)"

definition mn_can_deliver :: "mock_network \<Rightarrow> node_id \<Rightarrow> node_id \<Rightarrow> bool" where
  "mn_can_deliver net src dst = (if src = dst then True else \<not> mn_is_partitioned net src dst)"

text \<open>The counters overflow as release builds do; a debug build panics.\<close>

definition mn_record_delivered :: "mock_network \<Rightarrow> mock_network" where
  "mn_record_delivered net = net\<lparr>mn_delivered := mn_delivered net + 1\<rparr>"

definition mn_record_dropped :: "mock_network \<Rightarrow> mock_network" where
  "mn_record_dropped net = net\<lparr>mn_dropped := mn_dropped net + 1\<rparr>"

section \<open>Nodes\<close>

record ('rt, 'v, 'd, 't) mock_node =
  mo_node_id :: node_id
  mo_runtime :: 'rt
  mo_spawn_manager :: "('v, 'd) spawn_manager"
  mo_watch_manager :: watch_manager
  mo_cancel_manager :: "'t cancel_manager"
  mo_node_directory :: node_directory

type_synonym ('p, 'm, 'y, 'i, 'o, 'h, 'q, 'r, 'v, 'd, 't) test_node =
  "(('p, 'm, 'y, 'i, 'o, 'h, 'q, 'r) test_runtime, 'v, 'd, 't) mock_node"

definition mo_new :: "node_id \<Rightarrow> ('p, 'm, 'y, 'i, 'o, 'h, 'q, 'r, 'v, 'd, 't) test_node" where
  "mo_new node_id = \<lparr>mo_node_id = node_id, mo_runtime = tt_with_node_id node_id, mo_spawn_manager = sm_new tr_new,
     mo_watch_manager = wm_new, mo_cancel_manager = cm_new, mo_node_directory = nd_new\<rparr>"

definition mo_register_factory ::
  "string \<Rightarrow> 'v deserializer_fn \<Rightarrow> ('rt, 'v, 'd, 't) mock_node \<Rightarrow> ('rt, 'v, 'd, 't) mock_node" where
  "mo_register_factory type_name factory n =
     n\<lparr>mo_spawn_manager := (mo_spawn_manager n)\<lparr>sm_type_registry := tr_register_factory (sm_type_registry (mo_spawn_manager n)) type_name factory\<rparr>\<rparr>"

definition mo_connect_peer :: "node_id \<Rightarrow> ('rt, 'v, 'd, 't) mock_node \<Rightarrow> ('rt, 'v, 'd, 't) mock_node" where
  "mo_connect_peer peer n = n\<lparr>mo_node_directory := nd_set_status (nd_add_peer (mo_node_directory n) peer None) peer Connected\<rparr>"

definition mo_disconnect_peer :: "node_id \<Rightarrow> ('rt, 'v, 'd, 't) mock_node \<Rightarrow> ('rt, 'v, 'd, 't) mock_node" where
  "mo_disconnect_peer peer n = n\<lparr>mo_node_directory := nd_set_status (mo_node_directory n) peer Disconnected\<rparr>"

section \<open>Cluster\<close>

record 'n mock_cluster =
  mc_nodes :: "(node_id, 'n) hashmap"
  mc_network :: mock_network

text \<open>\<^verbatim>\<open>values_mut\<close>.\<close>

definition hm_map_values :: "('v \<Rightarrow> 'v) \<Rightarrow> ('k, 'v) hashmap \<Rightarrow> ('k, 'v) hashmap" where
  "hm_map_values f m = map (\<lambda>(k, v). (k, f v)) m"

definition mc_new :: "string list \<Rightarrow> ('p, 'm, 'y, 'i, 'o, 'h, 'q, 'r, 'v, 'd, 't) test_node mock_cluster" where
  "mc_new node_ids =
     (let ids = map NodeId node_ids in
      \<lparr>mc_nodes = foldl (\<lambda>nodes id. hm_insert id
          (foldl (\<lambda>node peer. if peer \<noteq> id then mo_connect_peer peer node else node) (mo_new id) ids) nodes) hm_empty ids,
       mc_network = mn_new\<rparr>)"

definition mc_node :: "'n mock_cluster \<Rightarrow> string \<Rightarrow> 'n option" where
  "mc_node c name = hm_get (mc_nodes c) (NodeId name)"

definition mc_node_count :: "'n mock_cluster \<Rightarrow> nat" where
  "mc_node_count c = length (hm_keys (mc_nodes c))"

definition mc_node_ids :: "'n mock_cluster \<Rightarrow> node_id list" where
  "mc_node_ids c = hm_keys (mc_nodes c)"

definition mc_crash_node :: "string \<Rightarrow> ('rt, 'v, 'd, 't) mock_node mock_cluster \<Rightarrow> ('rt, 'v, 'd, 't) mock_node mock_cluster" where
  "mc_crash_node name c = (let crashed = NodeId name in c\<lparr>mc_nodes := hm_map_values (mo_disconnect_peer crashed) (hm_remove crashed (mc_nodes c))\<rparr>)"

definition mc_restart_node ::
  "string \<Rightarrow> ('p, 'm, 'y, 'i, 'o, 'h, 'q, 'r, 'v, 'd, 't) test_node mock_cluster
    \<Rightarrow> ('p, 'm, 'y, 'i, 'o, 'h, 'q, 'r, 'v, 'd, 't) test_node mock_cluster" where
  "mc_restart_node name c =
     (let node_id = NodeId name;
          new_node = foldl (\<lambda>node peer_id. mo_connect_peer peer_id node) (mo_new node_id) (hm_keys (mc_nodes c))
      in c\<lparr>mc_nodes := hm_insert node_id new_node (hm_map_values (mo_connect_peer node_id) (mc_nodes c))\<rparr>)"

definition mc_freeze_node :: "string \<Rightarrow> 'n mock_cluster \<Rightarrow> 'n option \<times> 'n mock_cluster" where
  "mc_freeze_node name c = (hm_get (mc_nodes c) (NodeId name), c\<lparr>mc_nodes := hm_remove (NodeId name) (mc_nodes c)\<rparr>)"

definition mc_unfreeze_node :: "('rt, 'v, 'd, 't) mock_node \<Rightarrow> ('rt, 'v, 'd, 't) mock_node mock_cluster \<Rightarrow> ('rt, 'v, 'd, 't) mock_node mock_cluster" where
  "mc_unfreeze_node node c = c\<lparr>mc_nodes := hm_insert (mo_node_id node) node (mc_nodes c)\<rparr>"

text \<open>The methods that act on one node.\<close>

definition mc_node_mut :: "string \<Rightarrow> ('n \<Rightarrow> 'x \<times> 'n) \<Rightarrow> 'n mock_cluster \<Rightarrow> ('x \<times> 'n mock_cluster) option" where
  "mc_node_mut name f c = (case mc_node c name of
     None \<Rightarrow> None
   | Some n \<Rightarrow> (case f n of (x, n') \<Rightarrow> Some (x, c\<lparr>mc_nodes := hm_insert (NodeId name) n' (mc_nodes c)\<rparr>)))"

definition mc_watch ::
  "string \<Rightarrow> actor_id \<Rightarrow> 'q \<Rightarrow> actor_id \<Rightarrow> ('p, 'm, 'y, 'i, 'o, 'h, 'q, 'r, 'v, 'd, 't) test_node mock_cluster
    \<Rightarrow> (unit \<times> ('p, 'm, 'y, 'i, 'o, 'h, 'q, 'r, 'v, 'd, 't) test_node mock_cluster) option" where
  "mc_watch watcher_node watcher_id watcher_sender target_id =
     mc_node_mut watcher_node (\<lambda>n. ((), n\<lparr>mo_runtime := tt_watch watcher_id watcher_sender target_id (mo_runtime n)\<rparr>))"

definition mc_unwatch ::
  "string \<Rightarrow> actor_id \<Rightarrow> actor_id \<Rightarrow> ('p, 'm, 'y, 'i, 'o, 'h, 'q, 'r, 'v, 'd, 't) test_node mock_cluster
    \<Rightarrow> (unit \<times> ('p, 'm, 'y, 'i, 'o, 'h, 'q, 'r, 'v, 'd, 't) test_node mock_cluster) option" where
  "mc_unwatch node_id watcher_id target_id = mc_node_mut node_id (\<lambda>n. ((), n\<lparr>mo_runtime := tt_unwatch watcher_id target_id (mo_runtime n)\<rparr>))"

definition mc_remote_watch where
  "mc_remote_watch target_node target watcher =
     mc_node_mut target_node (\<lambda>n. ((), n\<lparr>mo_watch_manager := wm_watch (mo_watch_manager n) target watcher\<rparr>))"

definition mc_remote_unwatch where
  "mc_remote_unwatch target_node target watcher =
     mc_node_mut target_node (\<lambda>n. ((), n\<lparr>mo_watch_manager := wm_unwatch (mo_watch_manager n) target watcher\<rparr>))"

definition mc_notify_terminated where
  "mc_notify_terminated node_id terminated =
     mc_node_mut node_id (\<lambda>n. case wm_on_terminated (mo_watch_manager n) terminated of (told, wm) \<Rightarrow> (told, n\<lparr>mo_watch_manager := wm\<rparr>))"

definition mc_register_cancel where
  "mc_register_cancel node_id request_id token =
     mc_node_mut node_id (\<lambda>n. ((), n\<lparr>mo_cancel_manager := cm_register (mo_cancel_manager n) request_id token\<rparr>))"

text \<open>The response comes with the token that is cancelled, if any.\<close>

definition mc_cancel_request where
  "mc_cancel_request node_id request_id =
     mc_node_mut node_id (\<lambda>n. case cm_cancel (mo_cancel_manager n) request_id of
       (response, token, cm) \<Rightarrow> ((response, token), n\<lparr>mo_cancel_manager := cm\<rparr>))"

definition mc_state_for :: "string \<Rightarrow> 'n mock_cluster \<Rightarrow> cluster_state option" where
  "mc_state_for local_node c =
     (let local = NodeId local_node in
      if hm_get (mc_nodes c) local = None then None
      else (let state = cs_new local (hm_keys (mc_nodes c))
            in Some (foldl (\<lambda>s node_id.
                  if node_id \<noteq> local
                  then s\<lparr>cs_peer_versions := hm_insert node_id (PeerVersionInfo own_wire_version None ''mock'') (cs_peer_versions s)\<rparr>
                  else s) state (cs_nodes state))))"

text \<open>Strings are compared by their bytes.\<close>

definition mc_state :: "'n mock_cluster \<Rightarrow> cluster_state option" where
  "mc_state c =
     (if mc_nodes c = [] then None
      else mc_state_for (node_name (sort_key (\<lambda>n. map (of_char :: char \<Rightarrow> nat) (node_name n)) (hm_keys (mc_nodes c)) ! 0)) c)"

section \<open>Lemmas\<close>

datatype net_op = NetPartition node_id node_id | NetHeal node_id node_id | NetDelivered | NetDropped

fun mn_apply :: "mock_network \<Rightarrow> net_op \<Rightarrow> mock_network" where
  "mn_apply net (NetPartition a b) = mn_partition net a b"
| "mn_apply net (NetHeal a b) = mn_remove_partition net a b"
| "mn_apply net NetDelivered = mn_record_delivered net"
| "mn_apply net NetDropped = mn_record_dropped net"

text \<open>The network as a set of unordered pairs.\<close>

fun net_spec :: "node_id set set \<Rightarrow> net_op \<Rightarrow> node_id set set" where
  "net_spec pairs (NetPartition a b) = insert {a, b} pairs"
| "net_spec pairs (NetHeal a b) = pairs - {{a, b}}"
| "net_spec pairs _ = pairs"

definition net_abs :: "mock_network \<Rightarrow> node_id set set" where
  "net_abs net = (\<lambda>(a, b). {a, b}) ` set (mn_partitions net)"

lemma mn_is_partitioned_abs: "mn_is_partitioned net a b \<longleftrightarrow> {a, b} \<in> net_abs net"
  unfolding mn_is_partitioned_def net_abs_def list_ex_iff image_iff
  by (rule bex_cong) (simp_all only: doubleton_eq_iff eq_commute [of a] eq_commute [of b] split_beta conj_commute)

lemma mn_apply_refines: "net_abs (mn_apply net x) = net_spec (net_abs net) x"
proof (cases x)
  case (NetHeal a b)
  have "set (mn_partitions (mn_apply net x)) = {p \<in> set (mn_partitions net). {fst p, snd p} \<noteq> {a, b}}"
    using NetHeal by (simp add: mn_remove_partition_def split_beta doubleton_eq_iff)
  then have "net_abs (mn_apply net x) = (\<lambda>p. {fst p, snd p}) ` set (mn_partitions net) - {{a, b}}" unfolding net_abs_def split_beta by blast
  then show ?thesis unfolding NetHeal net_spec.simps net_abs_def split_beta .
qed (auto simp: net_abs_def mn_partition_def mn_record_delivered_def mn_record_dropped_def)

lemma mn_history_refines: "net_abs (foldl mn_apply net ops) = foldl net_spec (net_abs net) ops"
  by (induction ops arbitrary: net) (simp_all add: mn_apply_refines)

lemma mn_history_counts:
  "mn_delivered (foldl mn_apply net ops) = mn_delivered net + of_nat (count_list ops NetDelivered)"
  "mn_dropped (foldl mn_apply net ops) = mn_dropped net + of_nat (count_list ops NetDropped)"
proof (induction ops arbitrary: net)
  case (Cons x ops)
  case 1 then show ?case using Cons(1) by (cases x) (simp_all add: mn_partition_def mn_remove_partition_def mn_record_delivered_def mn_record_dropped_def)
  case 2 then show ?case using Cons(2) by (cases x) (simp_all add: mn_partition_def mn_remove_partition_def mn_record_delivered_def mn_record_dropped_def)
qed simp_all

lemma hm_get_map_values [simp]: "hm_get (hm_map_values f m) k = map_option f (hm_get m k)"
  by (simp add: hm_map_values_def hm_get_def map_of_map)

lemma mo_connect_connected [simp]:
  "nd_is_connected (mo_node_directory (mo_connect_peer p n)) q \<longleftrightarrow> q = p \<or> nd_is_connected (mo_node_directory n) q"
  by (auto simp: mo_connect_peer_def nd_is_connected_def nd_set_status_def nd_add_peer_def)

lemma mo_disconnect_connected [simp]:
  "nd_is_connected (mo_node_directory (mo_disconnect_peer p n)) q \<longleftrightarrow> q \<noteq> p \<and> nd_is_connected (mo_node_directory n) q"
  by (auto simp: mo_disconnect_peer_def nd_is_connected_def nd_set_status_def split: option.splits)

lemma mo_peer_node_id [simp]: "mo_node_id (mo_connect_peer p n) = mo_node_id n" "mo_node_id (mo_disconnect_peer p n) = mo_node_id n"
  by (simp_all add: mo_connect_peer_def mo_disconnect_peer_def)

lemma mo_new_simps [simp]: "mo_node_id (mo_new i) = i" "\<not> nd_is_connected (mo_node_directory (mo_new i)) q"
  by (simp_all add: mo_new_def nd_new_def nd_is_connected_def)

lemma connect_all:
  "mo_node_id (foldl (\<lambda>node peer. if P peer then mo_connect_peer peer node else node) n ids) = mo_node_id n"
  "nd_is_connected (mo_node_directory (foldl (\<lambda>node peer. if P peer then mo_connect_peer peer node else node) n ids)) q \<longleftrightarrow>
     nd_is_connected (mo_node_directory n) q \<or> q \<in> set ids \<and> P q"
  by (induction ids arbitrary: n) auto

lemmas connect_others = connect_all [where P = "\<lambda>_. True", simplified]

lemma hm_get_keys: "k \<in> set (hm_keys m) \<longleftrightarrow> hm_get m k \<noteq> None"
  by (simp add: hm_keys_def hm_get_def map_of_eq_None_iff)

lemma hm_get_insert_all:
  "hm_get (foldl (\<lambda>m k. hm_insert k (f k) m) m0 ks) k = (if k \<in> set ks then Some (f k) else hm_get m0 k)"
  by (induction ks arbitrary: m0) auto

text \<open>Every node sees as connected exactly the other nodes of the cluster.\<close>

definition mesh :: "('rt, 'v, 'd, 't) mock_node mock_cluster \<Rightarrow> bool" where
  "mesh c \<longleftrightarrow> (\<forall>i n. hm_get (mc_nodes c) i = Some n \<longrightarrow> mo_node_id n = i \<and>
     (\<forall>j. j \<noteq> i \<longrightarrow> (nd_is_connected (mo_node_directory n) j \<longleftrightarrow> hm_get (mc_nodes c) j \<noteq> None)))"

lemma mesh_new: "mesh (mc_new names)"
  by (auto simp: mesh_def mc_new_def Let_def hm_get_insert_all connect_all split: if_splits)

lemma mesh_crash: "mesh c \<Longrightarrow> mesh (mc_crash_node name c)"
  by (auto simp: mesh_def mc_crash_node_def Let_def split: if_splits)

lemma mesh_restart: "mesh c \<Longrightarrow> mesh (mc_restart_node name c)"
  by (auto simp: mesh_def mc_restart_node_def Let_def connect_others hm_get_keys split: if_splits)

datatype cluster_op = OpCrash string | OpRestart string

fun mc_apply ::
  "('p, 'm, 'y, 'i, 'o, 'h, 'q, 'r, 'v, 'd, 't) test_node mock_cluster \<Rightarrow> cluster_op \<Rightarrow> ('p, 'm, 'y, 'i, 'o, 'h, 'q, 'r, 'v, 'd, 't) test_node mock_cluster" where
  "mc_apply c (OpCrash name) = mc_crash_node name c"
| "mc_apply c (OpRestart name) = mc_restart_node name c"

lemma mesh_history: "mesh c \<Longrightarrow> mesh (foldl mc_apply c ops)"
proof (induction ops arbitrary: c)
  case (Cons x ops)
  then show ?case by (cases x) (simp_all add: mesh_crash mesh_restart)
qed simp

lemma mc_state_for_versions:
  "cs_peer_versions (foldl (\<lambda>s n. if n \<noteq> local then s\<lparr>cs_peer_versions := hm_insert n v (cs_peer_versions s)\<rparr> else s) s0 ns) =
     foldl (\<lambda>m n. if n \<noteq> local then hm_insert n v m else m) (cs_peer_versions s0) ns"
  "cs_nodes (foldl (\<lambda>s n. if n \<noteq> local then s\<lparr>cs_peer_versions := hm_insert n v (cs_peer_versions s)\<rparr> else s) s0 ns) = cs_nodes s0"
  "cs_local_node (foldl (\<lambda>s n. if n \<noteq> local then s\<lparr>cs_peer_versions := hm_insert n v (cs_peer_versions s)\<rparr> else s) s0 ns) = cs_local_node s0"
  by (induction ns arbitrary: s0) auto

lemma insert_others:
  "hm_get (foldl (\<lambda>m n. if n \<noteq> local then hm_insert n v m else m) m0 ns) k = (if k \<in> set ns \<and> k \<noteq> local then Some v else hm_get m0 k)"
  by (induction ns arbitrary: m0) auto

lemma mc_state_for_view:
  assumes "mc_state_for name c = Some st"
  shows "cs_local_node st = NodeId name \<and> NodeId name \<in> set (mc_node_ids c) \<and> cs_nodes st = mc_node_ids c \<and>
    (\<forall>n. cs_peer_version st n = (if n \<in> set (mc_node_ids c) \<and> n \<noteq> NodeId name then Some (PeerVersionInfo own_wire_version None ''mock'') else None))"
  using assms
  by (auto simp: mc_state_for_def Let_def mc_state_for_versions insert_others cs_peer_version_def cs_new_def mc_node_ids_def hm_get_keys split: if_splits)

section \<open>Properties\<close>

text \<open>The network cuts exactly what it is told to. After any sequence of partitions, healings and deliveries, a message between two nodes is let
  through if and only if they are the same node or the last partition of that pair, in whichever order it was named, has been healed since; the counters
  are the numbers of recorded deliveries and drops, modulo their width.\<close>

theorem network_partitions:
  "(mn_can_deliver (foldl mn_apply mn_new ops) a b \<longleftrightarrow> a = b \<or> {a, b} \<notin> foldl net_spec {} ops) \<and>
   mn_delivered (foldl mn_apply mn_new ops) = of_nat (count_list ops NetDelivered) \<and>
   mn_dropped (foldl mn_apply mn_new ops) = of_nat (count_list ops NetDropped)"
proof -
  have "net_abs mn_new = {}" "mn_delivered mn_new = 0" "mn_dropped mn_new = 0" by (simp_all add: net_abs_def mn_new_def)
  then show ?thesis by (simp add: mn_can_deliver_def mn_is_partitioned_abs mn_history_refines mn_history_counts)
qed

text \<open>C21. The mock cluster is a full mesh, and stays one through crashes and restarts: after any sequence of them every node of the cluster is registered
  under its own id and has as connected, besides possibly itself, exactly the nodes that are in the cluster.\<close>

theorem mock_cluster_mesh:
  assumes "c = foldl mc_apply (mc_new names) ops" and "hm_get (mc_nodes c) i = Some n"
  shows "mo_node_id n = i \<and> (\<forall>j. j \<noteq> i \<longrightarrow> (nd_is_connected (mo_node_directory n) j \<longleftrightarrow> j \<in> set (mc_node_ids c)))"
proof -
  have "mesh c" unfolding assms(1) by (rule mesh_history [OF mesh_new])
  then show ?thesis using assms(2) unfolding mesh_def mc_node_ids_def hm_get_keys by blast
qed

definition trio :: "(unit, unit, unit, unit, unit, unit, unit, unit, unit, unit, unit) test_node mock_cluster" where
  "trio = foldl mc_apply (mc_new [''a'', ''b'', ''c'']) [OpCrash ''b'']"

lemma trio_ids: "set (mc_node_ids trio) = {NodeId ''a'', NodeId ''c''}"
  by code_simp

lemma trio_node: "\<exists>n. hm_get (mc_nodes trio) (NodeId ''a'') = Some n"
  using hm_get_keys [of "NodeId ''a''" "mc_nodes trio"] trio_ids by (auto simp: mc_node_ids_def)

theorem mock_cluster_mesh_witness:
  "\<exists>n. mc_node trio ''a'' = Some n \<and> nd_is_connected (mo_node_directory n) (NodeId ''c'') \<and> \<not> nd_is_connected (mo_node_directory n) (NodeId ''b'')"
proof -
  obtain n where n: "hm_get (mc_nodes trio) (NodeId ''a'') = Some n" using trio_node by blast
  from mock_cluster_mesh [OF trio_def n] trio_ids n show ?thesis by (auto simp: mc_node_def)
qed

text \<open>Restarting a node that is running makes it a peer of itself, since the cluster's nodes are connected before the old node is replaced.\<close>

theorem restart_running_self_peer:
  assumes "mc_node c name = Some n"
  shows "\<exists>n'. mc_node (mc_restart_node name c) name = Some n' \<and> nd_is_connected (mo_node_directory n') (NodeId name)"
  using assms by (simp add: mc_node_def mc_restart_node_def Let_def connect_others hm_get_keys)

theorem restart_running_self_peer_witness:
  "\<exists>n. mc_node (mc_restart_node ''a'' trio) ''a'' = Some n \<and> nd_is_connected (mo_node_directory n) (NodeId ''a'')"
proof -
  obtain n where "mc_node trio ''a'' = Some n" using trio_node by (auto simp: mc_node_def)
  then show ?thesis by (rule restart_running_self_peer)
qed

text \<open>A node that was frozen while another one crashed is restored with its old view: it has the crashed node as connected, for which the mesh fails.\<close>

theorem unfreeze_stale_view:
  assumes "mesh c" and "i \<noteq> j" and "mc_node c i = Some n" and "mc_node c j = Some m"
    and "mc_freeze_node i c = (Some n, c1)" and "c2 = mc_unfreeze_node n (mc_crash_node j c1)"
  shows "mc_node c2 i = Some n \<and> mc_node c2 j = None \<and> nd_is_connected (mo_node_directory n) (NodeId j)"
  using assms by (auto simp: mesh_def mc_node_def mc_freeze_node_def mc_unfreeze_node_def mc_crash_node_def Let_def)

end
