(* ===== verification/Discovery.thy ===== *)
theory Discovery
  imports Remote
begin

text \<open>
  Node discovery: the crates \<^verbatim>\<open>dactor-discover-k8s\<close> and \<^verbatim>\<open>dactor-discover-aws\<close>, and the contract that every
  backend of \<^verbatim>\<open>ClusterDiscovery\<close> keeps, as a locale. The answers of the cloud services and of the resolver are parameters: a function from
  what is asked for to an error text or a response, whose records have the fields the code reads. Environment variables and the mounted namespace file are
  arguments.
\<close>

section \<open>Backends\<close>

type_synonym u16 = "16 word"

datatype discovery_error = DiscoveryError (de_message: string)

definition discovery_error_display :: "discovery_error \<Rightarrow> string" where
  "discovery_error_display e = de_message e"

text \<open>A backend finds addresses, or fails with an error of its own, or does not return (\<open>None\<close>); \<^verbatim>\<open>discover\<close> makes peers of the addresses and the
  error's text the message.\<close>

locale discovery_backend =
  fixes addresses :: "'c \<Rightarrow> ('e + string list) option"
    and show_error :: "'e \<Rightarrow> string"
    and discover :: "'c \<Rightarrow> (discovery_error + discovered_peer list) option"
  assumes discover_addresses:
    "discover c = map_option (map_sum (\<lambda>e. DiscoveryError (show_error e)) (map dp_from_address)) (addresses c)"
begin

lemma discovered:
  assumes "discover c = Some (Inr peers)"
  shows "addresses c = Some (Inr (map dp_address peers)) \<and> (\<forall>p \<in> set peers. dp_node_id p = NodeId (dp_address p))"
proof -
  obtain as where "addresses c = Some (Inr as)" "peers = map dp_from_address as"
    using assms by (cases "addresses c"; cases "the (addresses c)") (auto simp: discover_addresses)
  then show ?thesis by (simp add: dp_from_address_def comp_def)
qed

text \<open>Peers found at different addresses are different nodes, and one address twice is one node twice.\<close>

lemma discovered_ids:
  assumes "discover c = Some (Inr peers)"
  shows "distinct (map dp_node_id peers) \<longleftrightarrow> distinct (map dp_address peers)"
proof -
  have "map dp_node_id peers = map NodeId (map dp_address peers)" using discovered [OF assms] by simp
  then show ?thesis using distinct_map [of NodeId "map dp_address peers"] by (simp only:) (simp add: inj_on_def)
qed

lemma failed:
  "discover c = Some (Inl (DiscoveryError m)) \<longleftrightarrow> (\<exists>e. addresses c = Some (Inl e) \<and> m = show_error e)"
  by (cases "addresses c"; cases "the (addresses c)") (auto simp: discover_addresses)

end

definition socket_address :: "string \<Rightarrow> u16 \<Rightarrow> string" where
  "socket_address ip port = ip @ '':'' @ show_nat (unat port)"

section \<open>Kubernetes\<close>

datatype k8s_discovery_error = KubeError string | NoPodIp string | K8sIo string

fun k8s_error_display :: "k8s_discovery_error \<Rightarrow> string" where
  "k8s_error_display (KubeError e) = ''Kubernetes API error: '' @ e"
| "k8s_error_display (NoPodIp name) = ''Pod '' @ [CHR 0x27] @ name @ [CHR 0x27] @ '' has no IP assigned''"
| "k8s_error_display (K8sIo e) = ''I/O error: '' @ e"

record k8s_discovery_config =
  kc_namespace :: string
  kc_label_selector :: string
  kc_port :: u16
  kc_port_name :: "string option"

text \<open>\<^verbatim>\<open>trim\<close>, for the ASCII white space.\<close>

definition is_space :: "char \<Rightarrow> bool" where
  "is_space c \<longleftrightarrow> c = CHR '' '' \<or> 9 \<le> (of_char c :: nat) \<and> (of_char c :: nat) \<le> 13"

definition str_trim :: "string \<Rightarrow> string" where
  "str_trim s = rev (dropWhile is_space (rev (dropWhile is_space s)))"

definition current_namespace :: "string option \<Rightarrow> string option" where
  "current_namespace file = map_option str_trim file"

definition pod_ip :: "(string \<Rightarrow> string option) \<Rightarrow> string option" where
  "pod_ip env = (case env ''DACTOR_POD_IP'' of Some ip \<Rightarrow> Some ip | None \<Rightarrow> env ''POD_IP'')"

definition kc_default :: "string option \<Rightarrow> k8s_discovery_config" where
  "kc_default file = \<lparr>kc_namespace = (case current_namespace file of Some ns \<Rightarrow> ns | None \<Rightarrow> ''default''),
     kc_label_selector = [], kc_port = 9000, kc_port_name = None\<rparr>"

text \<open>The fields of a pod that are read.\<close>

record pod_port =
  pp_name :: "string option"
  pp_container_port :: "32 word"

record pod =
  pod_name :: "string option"
  pod_phase :: "string option"
  pod_pod_ip :: "string option"
  pod_containers :: "pod_port list option list option"

fun first_named_port :: "string \<Rightarrow> pod_port list \<Rightarrow> pod_port option" where
  "first_named_port port_name [] = None"
| "first_named_port port_name (p # ps) = (if pp_name p = Some port_name then Some p else first_named_port port_name ps)"

fun first_container_port :: "string \<Rightarrow> pod_port list option list \<Rightarrow> pod_port option" where
  "first_container_port port_name [] = None"
| "first_container_port port_name (None # cs) = first_container_port port_name cs"
| "first_container_port port_name (Some ports # cs) =
     (case first_named_port port_name ports of Some p \<Rightarrow> Some p | None \<Rightarrow> first_container_port port_name cs)"

definition u16_try_from :: "32 word \<Rightarrow> u16 option" where
  "u16_try_from p = (if 0 \<le> sint p \<and> sint p < 65536 then Some (of_int (sint p)) else None)"

definition kd_resolve_port :: "k8s_discovery_config \<Rightarrow> pod \<Rightarrow> u16 option" where
  "kd_resolve_port config pod =
     Option.bind (kc_port_name config) (\<lambda>port_name.
     Option.bind (pod_containers pod) (\<lambda>containers.
     Option.bind (first_container_port port_name containers) (\<lambda>p. u16_try_from (pp_container_port p))))"

fun kd_addresses :: "k8s_discovery_config \<Rightarrow> pod list \<Rightarrow> string list" where
  "kd_addresses config [] = []"
| "kd_addresses config (pod # pods) =
     (if pod_phase pod \<noteq> Some ''Running'' then kd_addresses config pods
      else case pod_pod_ip pod of
             Some ip \<Rightarrow> socket_address ip (case kd_resolve_port config pod of Some port \<Rightarrow> port | None \<Rightarrow> kc_port config) # kd_addresses config pods
           | None \<Rightarrow> kd_addresses config pods)"

text \<open>\<open>list_pods\<close> is the API: for a namespace and a label selector, an error or the pods.\<close>

definition kd_discover_async ::
  "(string \<Rightarrow> string \<Rightarrow> string + pod list) \<Rightarrow> k8s_discovery_config \<Rightarrow> k8s_discovery_error + string list" where
  "kd_discover_async list_pods config =
     (case list_pods (kc_namespace config) (kc_label_selector config) of
        Inl e \<Rightarrow> Inl (KubeError e)
      | Inr pods \<Rightarrow> Inr (kd_addresses config pods))"

definition kd_discover ::
  "(string \<Rightarrow> string \<Rightarrow> string + pod list) \<Rightarrow> k8s_discovery_config \<Rightarrow> (discovery_error + discovered_peer list) option" where
  "kd_discover list_pods config =
     Some (case kd_discover_async list_pods config of
             Inr addrs \<Rightarrow> Inr (map dp_from_address addrs)
           | Inl e \<Rightarrow> Inl (DiscoveryError (k8s_error_display e)))"

definition kb_namespace :: "string \<Rightarrow> k8s_discovery_config \<Rightarrow> k8s_discovery_config" where
  "kb_namespace ns c = c\<lparr>kc_namespace := ns\<rparr>"

definition kb_label_selector :: "string \<Rightarrow> k8s_discovery_config \<Rightarrow> k8s_discovery_config" where
  "kb_label_selector selector c = c\<lparr>kc_label_selector := selector\<rparr>"

definition kb_port :: "u16 \<Rightarrow> k8s_discovery_config \<Rightarrow> k8s_discovery_config" where
  "kb_port port c = c\<lparr>kc_port := port\<rparr>"

definition kb_port_name :: "string \<Rightarrow> k8s_discovery_config \<Rightarrow> k8s_discovery_config" where
  "kb_port_name name c = c\<lparr>kc_port_name := Some name\<rparr>"

record headless_service_discovery =
  hsd_service_name :: string
  hsd_namespace :: string
  hsd_port :: u16
  hsd_cluster_domain :: string

definition hsd_new :: "string \<Rightarrow> string \<Rightarrow> u16 \<Rightarrow> headless_service_discovery" where
  "hsd_new service_name namespace port = \<lparr>hsd_service_name = service_name, hsd_namespace = namespace, hsd_port = port,
     hsd_cluster_domain = ''cluster.local''\<rparr>"

definition hsd_with_cluster_domain :: "string \<Rightarrow> headless_service_discovery \<Rightarrow> headless_service_discovery" where
  "hsd_with_cluster_domain domain d = d\<lparr>hsd_cluster_domain := domain\<rparr>"

definition hsd_dns_name :: "headless_service_discovery \<Rightarrow> string" where
  "hsd_dns_name d = hsd_service_name d @ ''.'' @ hsd_namespace d @ ''.svc.'' @ hsd_cluster_domain d"

text \<open>\<open>resolve\<close> is the blocking lookup in its task: the task's failure, or what the resolver gives. Its addresses are in printed form.\<close>

definition hsd_discover ::
  "(string \<Rightarrow> string + (string + string list)) \<Rightarrow> headless_service_discovery \<Rightarrow> discovery_error + discovered_peer list" where
  "hsd_discover resolve d =
     (case resolve (hsd_dns_name d @ '':'' @ show_nat (unat (hsd_port d))) of
        Inl e \<Rightarrow> Inl (DiscoveryError (''DNS lookup task failed: '' @ e))
      | Inr (Inl e) \<Rightarrow> Inl (DiscoveryError (''DNS resolution failed for '' @ hsd_dns_name d @ '': '' @ e))
      | Inr (Inr addrs) \<Rightarrow> Inr (map dp_from_address addrs))"

section \<open>AWS\<close>

datatype aws_discovery_error = AutoScaling string | Ec2 string | NoInstances | AwsConfig string

fun aws_error_display :: "aws_discovery_error \<Rightarrow> string" where
  "aws_error_display (AutoScaling e) = ''Auto Scaling API error: '' @ e"
| "aws_error_display (Ec2 e) = ''EC2 API error: '' @ e"
| "aws_error_display NoInstances = ''no instances found''"
| "aws_error_display (AwsConfig e) = ''configuration error: '' @ e"

record asg_discovery_config =
  asg_name :: string
  asg_port :: u16
  asg_region :: "string option"
  asg_use_public_ip :: bool

definition asg_default :: asg_discovery_config where
  "asg_default = \<lparr>asg_name = [], asg_port = 9000, asg_region = None, asg_use_public_ip = False\<rparr>"

record asg_instance =
  ai_lifecycle_state :: "string option"
  ai_health_status :: "string option"
  ai_instance_id :: "string option"

record ec2_instance =
  ei_public_ip_address :: "string option"
  ei_private_ip_address :: "string option"

fun instance_addresses :: "bool \<Rightarrow> u16 \<Rightarrow> ec2_instance list \<Rightarrow> string list" where
  "instance_addresses use_public_ip port [] = []"
| "instance_addresses use_public_ip port (i # is) =
     (case (if use_public_ip then ei_public_ip_address i else ei_private_ip_address i) of
        Some ip \<Rightarrow> socket_address ip port # instance_addresses use_public_ip port is
      | None \<Rightarrow> instance_addresses use_public_ip port is)"

text \<open>\<open>groups\<close> and \<open>instances\<close> are the two API calls, for a region: the groups of a name, the reservations of instance ids.\<close>

definition asg_discover_async ::
  "(string option \<Rightarrow> string \<Rightarrow> string + asg_instance list list) \<Rightarrow> (string option \<Rightarrow> string list \<Rightarrow> string + ec2_instance list list)
    \<Rightarrow> asg_discovery_config \<Rightarrow> aws_discovery_error + string list" where
  "asg_discover_async groups instances c =
     (if asg_name c = [] then Inl (AwsConfig ''asg_name must not be empty'')
      else case groups (asg_region c) (asg_name c) of
        Inl e \<Rightarrow> Inl (AutoScaling e)
      | Inr [] \<Rightarrow> Inl NoInstances
      | Inr (asg # _) \<Rightarrow>
          (let instance_ids = List.map_filter ai_instance_id
                 (filter (\<lambda>i. ai_lifecycle_state i = Some ''InService'' \<and> ai_health_status i = Some ''Healthy'') asg)
           in if instance_ids = [] then Inl NoInstances
              else case instances (asg_region c) instance_ids of
                Inl e \<Rightarrow> Inl (Ec2 e)
              | Inr reservations \<Rightarrow> Inr (concat (map (instance_addresses (asg_use_public_ip c) (asg_port c)) reservations))))"

definition asg_discover where
  "asg_discover groups instances c =
     Some (case asg_discover_async groups instances c of
             Inr addrs \<Rightarrow> Inr (map dp_from_address addrs)
           | Inl e \<Rightarrow> Inl (DiscoveryError (aws_error_display e)))"

definition ab_asg_name :: "string \<Rightarrow> asg_discovery_config \<Rightarrow> asg_discovery_config" where
  "ab_asg_name name c = c\<lparr>asg_name := name\<rparr>"

definition ab_port :: "u16 \<Rightarrow> asg_discovery_config \<Rightarrow> asg_discovery_config" where
  "ab_port port c = c\<lparr>asg_port := port\<rparr>"

definition ab_region :: "string \<Rightarrow> asg_discovery_config \<Rightarrow> asg_discovery_config" where
  "ab_region region c = c\<lparr>asg_region := Some region\<rparr>"

definition ab_use_public_ip :: "bool \<Rightarrow> asg_discovery_config \<Rightarrow> asg_discovery_config" where
  "ab_use_public_ip yes c = c\<lparr>asg_use_public_ip := yes\<rparr>"

record ec2_tag_config =
  etc_tag_key :: string
  etc_tag_value :: string
  etc_port :: u16
  etc_region :: "string option"
  etc_use_public_ip :: bool

definition etc_default :: ec2_tag_config where
  "etc_default = \<lparr>etc_tag_key = [], etc_tag_value = [], etc_port = 9000, etc_region = None, etc_use_public_ip = False\<rparr>"

text \<open>The filters are pairs of a name and a value.\<close>

definition etd_discover_async ::
  "(string option \<Rightarrow> (string \<times> string) list \<Rightarrow> string + ec2_instance list list) \<Rightarrow> ec2_tag_config \<Rightarrow> aws_discovery_error + string list" where
  "etd_discover_async instances c =
     (if etc_tag_key c = [] then Inl (AwsConfig ''tag_key must not be empty'')
      else case instances (etc_region c) [(''tag:'' @ etc_tag_key c, etc_tag_value c), (''instance-state-name'', ''running'')] of
        Inl e \<Rightarrow> Inl (Ec2 e)
      | Inr reservations \<Rightarrow>
          (let addresses = concat (map (instance_addresses (etc_use_public_ip c) (etc_port c)) reservations)
           in if addresses = [] then Inl NoInstances else Inr addresses))"

definition etd_discover where
  "etd_discover instances c =
     Some (case etd_discover_async instances c of
             Inr addrs \<Rightarrow> Inr (map dp_from_address addrs)
           | Inl e \<Rightarrow> Inl (DiscoveryError (aws_error_display e)))"

definition eb_tag_key :: "string \<Rightarrow> ec2_tag_config \<Rightarrow> ec2_tag_config" where
  "eb_tag_key key c = c\<lparr>etc_tag_key := key\<rparr>"

definition eb_tag_value :: "string \<Rightarrow> ec2_tag_config \<Rightarrow> ec2_tag_config" where
  "eb_tag_value value c = c\<lparr>etc_tag_value := value\<rparr>"

definition eb_port :: "u16 \<Rightarrow> ec2_tag_config \<Rightarrow> ec2_tag_config" where
  "eb_port port c = c\<lparr>etc_port := port\<rparr>"

definition eb_region :: "string \<Rightarrow> ec2_tag_config \<Rightarrow> ec2_tag_config" where
  "eb_region region c = c\<lparr>etc_region := Some region\<rparr>"

definition eb_use_public_ip :: "bool \<Rightarrow> ec2_tag_config \<Rightarrow> ec2_tag_config" where
  "eb_use_public_ip yes c = c\<lparr>etc_use_public_ip := yes\<rparr>"

definition aws_current_region :: "(string \<Rightarrow> string option) \<Rightarrow> string option" where
  "aws_current_region env = (case env ''AWS_REGION'' of Some r \<Rightarrow> Some r | None \<Rightarrow> env ''AWS_DEFAULT_REGION'')"

definition aws_instance_private_ip :: "(string \<Rightarrow> string option) \<Rightarrow> string option" where
  "aws_instance_private_ip env = env ''DACTOR_INSTANCE_IP''"

definition aws_instance_id :: "(string \<Rightarrow> string option) \<Rightarrow> string option" where
  "aws_instance_id env = env ''DACTOR_INSTANCE_ID''"

section \<open>Lemmas\<close>

interpretation k8s: discovery_backend "\<lambda>c. Some (kd_discover_async list_pods c)" k8s_error_display "kd_discover list_pods" for list_pods
  by unfold_locales (simp add: kd_discover_def split: sum.split)

interpretation asg: discovery_backend "\<lambda>c. Some (asg_discover_async groups instances c)" aws_error_display "asg_discover groups instances" for groups instances
  by unfold_locales (simp add: asg_discover_def split: sum.split)

interpretation ec2_tag: discovery_backend "\<lambda>c. Some (etd_discover_async instances c)" aws_error_display "etd_discover instances" for instances
  by unfold_locales (simp add: etd_discover_def split: sum.split)

lemma kd_addresses_filter:
  "kd_addresses config pods = map (\<lambda>p. socket_address (the (pod_pod_ip p)) (case kd_resolve_port config p of Some port \<Rightarrow> port | None \<Rightarrow> kc_port config))
     (filter (\<lambda>p. pod_phase p = Some ''Running'' \<and> pod_pod_ip p \<noteq> None) pods)"
  by (induction pods) (auto split: option.split)

lemma u16_try_from_value: "u16_try_from p = Some q \<longleftrightarrow> 0 \<le> sint p \<and> sint p < 65536 \<and> uint q = sint p"
proof -
  have "uint (of_int (sint p) :: u16) = sint p" if "0 \<le> sint p" "sint p < 65536"
    unfolding uint_word_of_int_eq by (rule take_bit_int_eq_self) (use that in simp_all)
  then show ?thesis unfolding u16_try_from_def by (metis option.distinct(1) option.inject word_of_int_uint)
qed

lemma instance_addresses_filter:
  "instance_addresses public port is =
     map (\<lambda>ip. socket_address ip port) (List.map_filter (if public then ei_public_ip_address else ei_private_ip_address) is)"
  by (induction "is") (auto simp: List.map_filter_simps split: option.split)

section \<open>Properties\<close>

text \<open>What Kubernetes discovery finds: one peer for each pod of the answer that is running and has an address, in the order of the answer, at that
  address and the value of its first port of the configured name, or the fallback port if there is none or its value is not a port number; a pod
  without an address is passed over, and the error for it is never returned.\<close>

theorem k8s_discovers_running:
  assumes "kd_discover list_pods config = Some r"
  shows "(case list_pods (kc_namespace config) (kc_label_selector config) of
      Inl e \<Rightarrow> r = Inl (DiscoveryError (''Kubernetes API error: '' @ e))
    | Inr pods \<Rightarrow> \<exists>peers. r = Inr peers \<and> (\<forall>p \<in> set peers. dp_node_id p = NodeId (dp_address p)) \<and>
        map dp_address peers = map (\<lambda>p. socket_address (the (pod_pod_ip p)) (case kd_resolve_port config p of Some port \<Rightarrow> port | None \<Rightarrow> kc_port config))
          (filter (\<lambda>p. pod_phase p = Some ''Running'' \<and> pod_pod_ip p \<noteq> None) pods))"
proof (cases "list_pods (kc_namespace config) (kc_label_selector config)")
  case (Inl e)
  then show ?thesis using assms by (simp add: kd_discover_def kd_discover_async_def)
next
  case (Inr pods)
  then have a: "kd_discover_async list_pods config = Inr (kd_addresses config pods)" by (simp add: kd_discover_async_def)
  then obtain peers where r: "r = Inr peers" using assms by (auto simp: kd_discover_def)
  from k8s.discovered [OF assms [unfolded r]] show ?thesis unfolding Inr a kd_addresses_filter using r by auto
qed

definition two_pods :: "pod list" where
  "two_pods = [\<lparr>pod_name = Some ''a'', pod_phase = Some ''Running'', pod_pod_ip = Some ''10.0.0.1'',
      pod_containers = Some [None, Some [\<lparr>pp_name = Some ''dactor'', pp_container_port = 7\<rparr>]]\<rparr>,
    \<lparr>pod_name = Some ''b'', pod_phase = Some ''Pending'', pod_pod_ip = None, pod_containers = None\<rparr>]"

theorem k8s_discovers_running_witness:
  "kd_discover (\<lambda>_ _. Inr two_pods) (kb_port_name ''dactor'' (kc_default None)) = Some (Inr [dp_from_address ''10.0.0.1:7''])"
proof -
  let ?c = "kb_port_name ''dactor'' (kc_default None)"
  let ?f = "\<lambda>_ _. Inr two_pods"
  have seven: "digit_char 7 = CHR ''7''" by code_simp
  obtain r where r: "kd_discover ?f ?c = Some r" by (simp add: kd_discover_def)
  have f: "map (\<lambda>p. socket_address (the (pod_pod_ip p)) (case kd_resolve_port ?c p of Some port \<Rightarrow> port | None \<Rightarrow> kc_port ?c))
      (filter (\<lambda>p. pod_phase p = Some ''Running'' \<and> pod_pod_ip p \<noteq> None) two_pods) = [''10.0.0.1:7'']"
    by (simp add: two_pods_def kb_port_name_def kc_default_def kd_resolve_port_def u16_try_from_def socket_address_def show_nat_small seven)
  from k8s_discovers_running [OF r, unfolded sum.case f] obtain peers where r': "r = Inr peers"
    and peers: "\<forall>p \<in> set peers. dp_node_id p = NodeId (dp_address p)" "map dp_address peers = [''10.0.0.1:7'']" by (elim exE conjE)
  from peers(2) obtain p where p: "peers = [p]" "dp_address p = ''10.0.0.1:7''" by (auto simp: map_eq_Cons_conv)
  then have "p = dp_from_address ''10.0.0.1:7''" using peers(1) by (cases p) (simp add: dp_from_address_def)
  then show ?thesis using r p(1) r' by simp
qed

text \<open>Instances without an address of the wanted kind: the tag backend reports that there are no instances, the scaling-group backend an empty success.\<close>

theorem asg_without_addresses_succeeds:
  assumes "asg_name c \<noteq> []" and "groups (asg_region c) (asg_name c) = Inr [[i]]" and "ai_instance_id i = Some iid"
    and "ai_lifecycle_state i = Some ''InService''" and "ai_health_status i = Some ''Healthy''"
    and "instances (asg_region c) [iid] = Inr [[e]]" and "asg_use_public_ip c" and "ei_public_ip_address e = None"
    and "etc_tag_key d \<noteq> []" and "etc_use_public_ip d" and "\<And>fs. tagged (etc_region d) fs = Inr [[e]]"
  shows "asg_discover_async groups instances c = Inr [] \<and> etd_discover_async tagged d = Inl NoInstances"
  using assms by (simp add: asg_discover_async_def etd_discover_async_def List.map_filter_simps)

end
