(* ===== verification/Azure_Discovery.thy ===== *)
theory Azure_Discovery
  imports Discovery
begin

text \<open>
  Node discovery on Azure (\<^verbatim>\<open>dactor-discover-azure\<close>): peers of a scale set, and peers by tag. The HTTP client is a record of requests; a reply is
  a failure of the client, a status other than success with its body, a body that does not decode, or the decoded value. The list requests are
  answered in pages, each with the link to the next, and the loops over them end only if the links do.
\<close>

section \<open>Errors and replies\<close>

datatype azure_discovery_error = ImdsError string | ArmApiError string | HttpError string | ParseError string | AzureConfig string

fun azure_error_display :: "azure_discovery_error \<Rightarrow> string" where
  "azure_error_display (ImdsError e) = ''IMDS error: '' @ e"
| "azure_error_display (ArmApiError e) = ''ARM API error: '' @ e"
| "azure_error_display (HttpError e) = ''HTTP error: '' @ e"
| "azure_error_display (ParseError e) = ''parse error: '' @ e"
| "azure_error_display (AzureConfig e) = ''configuration error: '' @ e"

datatype 'b http_reply = HttpFailed string | HttpStatus string string | HttpUndecoded string | HttpOk 'b

record imds_compute =
  ic_subscription_id :: string
  ic_resource_group_name :: string
  ic_vmss_name :: "string option"

record 'v arm_page =
  ap_value :: "'v list"
  ap_next_link :: "string option"

text \<open>A network interface: the private addresses of its configurations.\<close>

type_synonym arm_nic = "string option list"

text \<open>The requests: the URL, the query and, for the management API, the token.\<close>

record 'v azure_client =
  az_token :: "string \<Rightarrow> (string \<times> string) list \<Rightarrow> string http_reply"
  az_imds :: "string \<Rightarrow> (string \<times> string) list \<Rightarrow> imds_compute http_reply"
  az_nics :: "string \<Rightarrow> string \<Rightarrow> arm_nic arm_page http_reply"
  az_vms :: "string \<Rightarrow> string \<Rightarrow> 'v arm_page http_reply"
  az_nic :: "string \<Rightarrow> string \<Rightarrow> arm_nic http_reply"

text \<open>What every request does with its reply.\<close>

definition http_decode ::
  "(string \<Rightarrow> azure_discovery_error) \<Rightarrow> (string \<Rightarrow> string \<Rightarrow> string) \<Rightarrow> string \<Rightarrow> 'b http_reply \<Rightarrow> azure_discovery_error + 'b" where
  "http_decode error refused what reply =
     (case reply of
        HttpFailed e \<Rightarrow> Inl (HttpError e)
      | HttpStatus status body \<Rightarrow> Inl (error (refused status body))
      | HttpUndecoded e \<Rightarrow> Inl (ParseError (what @ '': '' @ e))
      | HttpOk b \<Rightarrow> Inr b)"

definition acquire_managed_identity_token :: "'v azure_client \<Rightarrow> azure_discovery_error + string" where
  "acquire_managed_identity_token client =
     http_decode ImdsError (\<lambda>status body. ''token request failed ('' @ status @ ''): '' @ body) ''token response''
       (az_token client ''http://169.254.169.254/metadata/identity/oauth2/token''
          [(''api-version'', ''2019-08-01''), (''resource'', ''https://management.azure.com/'')])"

definition IMDS_BASE :: string where "IMDS_BASE = ''http://169.254.169.254''"

definition IMDS_API_VERSION :: string where "IMDS_API_VERSION = ''2021-02-01''"

definition ARM_API_VERSION_NIC :: string where "ARM_API_VERSION_NIC = ''2023-09-01''"

definition ARM_API_VERSION_VM :: string where "ARM_API_VERSION_VM = ''2023-09-01''"

definition query_imds :: "'v azure_client \<Rightarrow> azure_discovery_error + imds_compute" where
  "query_imds client =
     http_decode ImdsError (\<lambda>status body. ''IMDS returned '' @ status @ '': '' @ body) ''IMDS response''
       (az_imds client (IMDS_BASE @ ''/metadata/instance'') [(''api-version'', IMDS_API_VERSION)])"

definition current_subscription_id :: "'v azure_client \<Rightarrow> string option" where
  "current_subscription_id client = (case query_imds client of Inr r \<Rightarrow> Some (ic_subscription_id r) | Inl _ \<Rightarrow> None)"

definition current_resource_group :: "'v azure_client \<Rightarrow> string option" where
  "current_resource_group client = (case query_imds client of Inr r \<Rightarrow> Some (ic_resource_group_name r) | Inl _ \<Rightarrow> None)"

definition imds_instance_url :: string where
  "imds_instance_url = IMDS_BASE @ ''/metadata/instance?api-version='' @ IMDS_API_VERSION"

section \<open>Scale sets\<close>

record vmss_discovery_config =
  vc_port :: u16
  vc_use_imds :: bool
  vc_subscription_id :: "string option"
  vc_resource_group :: "string option"
  vc_vmss_name :: "string option"

definition vc_default :: vmss_discovery_config where
  "vc_default = \<lparr>vc_port = 9000, vc_use_imds = True, vc_subscription_id = None, vc_resource_group = None, vc_vmss_name = None\<rparr>"

definition vd_resolve_vmss_info :: "'v azure_client \<Rightarrow> vmss_discovery_config \<Rightarrow> azure_discovery_error + string \<times> string \<times> string" where
  "vd_resolve_vmss_info client c =
     (case (vc_subscription_id c, vc_resource_group c, vc_vmss_name c) of
        (Some sub, Some rg, Some vmss) \<Rightarrow> Inr (sub, rg, vmss)
      | (sub, rg, vmss) \<Rightarrow>
          if \<not> vc_use_imds c
          then Inl (AzureConfig ''use_imds is false but subscription_id, resource_group, or vmss_name is missing'')
          else case query_imds client of
            Inl e \<Rightarrow> Inl e
          | Inr imds \<Rightarrow>
              (case (case vmss of Some v \<Rightarrow> Some v | None \<Rightarrow> ic_vmss_name imds) of
                 None \<Rightarrow> Inl (ImdsError ''current VM is not part of a VMSS'')
               | Some v \<Rightarrow> Inr (case sub of Some s \<Rightarrow> s | None \<Rightarrow> ic_subscription_id imds,
                                case rg of Some g \<Rightarrow> g | None \<Rightarrow> ic_resource_group_name imds, v)))"

definition vd_url :: "string \<Rightarrow> string \<Rightarrow> string \<Rightarrow> string" where
  "vd_url subscription_id resource_group vmss_name =
     ''https://management.azure.com/subscriptions/'' @ subscription_id @ ''/resourceGroups/'' @ resource_group @
     ''/providers/Microsoft.Compute/virtualMachineScaleSets/'' @ vmss_name @ ''/networkInterfaces?api-version='' @ ARM_API_VERSION_NIC"

definition nic_addresses :: "u16 \<Rightarrow> arm_nic list \<Rightarrow> string list" where
  "nic_addresses port nics = concat (map (\<lambda>nic. concat (map (\<lambda>ip. case ip of Some ip \<Rightarrow> [socket_address ip port] | None \<Rightarrow> []) nic)) nics)"

partial_function (option) vd_pages ::
  "'v azure_client \<Rightarrow> string \<Rightarrow> u16 \<Rightarrow> string list \<Rightarrow> string option \<Rightarrow> (azure_discovery_error + string list) option" where
  [code]: "vd_pages client token port addresses next_url =
     (case next_url of
        None \<Rightarrow> Some (Inr addresses)
      | Some page_url \<Rightarrow>
          (case http_decode ArmApiError (\<lambda>status body. ''list NICs failed ('' @ status @ ''): '' @ body) ''NIC list'' (az_nics client page_url token) of
             Inl e \<Rightarrow> Some (Inl e)
           | Inr page \<Rightarrow> vd_pages client token port (addresses @ nic_addresses port (ap_value page)) (ap_next_link page)))"

definition vd_discover_instances :: "'v azure_client \<Rightarrow> vmss_discovery_config \<Rightarrow> (azure_discovery_error + string list) option" where
  "vd_discover_instances client c =
     (case vd_resolve_vmss_info client c of
        Inl e \<Rightarrow> Some (Inl e)
      | Inr (sub, rg, vmss) \<Rightarrow>
          (case acquire_managed_identity_token client of
             Inl e \<Rightarrow> Some (Inl e)
           | Inr token \<Rightarrow> vd_pages client token (vc_port c) [] (Some (vd_url sub rg vmss))))"

definition vd_discover :: "'v azure_client \<Rightarrow> vmss_discovery_config \<Rightarrow> (discovery_error + discovered_peer list) option" where
  "vd_discover client c =
     map_option (\<lambda>r. case r of Inr addrs \<Rightarrow> Inr (map dp_from_address addrs) | Inl e \<Rightarrow> Inl (DiscoveryError (azure_error_display e)))
       (vd_discover_instances client c)"

definition vb_port :: "u16 \<Rightarrow> vmss_discovery_config \<Rightarrow> vmss_discovery_config" where
  "vb_port port c = c\<lparr>vc_port := port\<rparr>"

definition vb_use_imds :: "bool \<Rightarrow> vmss_discovery_config \<Rightarrow> vmss_discovery_config" where
  "vb_use_imds yes c = c\<lparr>vc_use_imds := yes\<rparr>"

definition vb_subscription_id :: "string \<Rightarrow> vmss_discovery_config \<Rightarrow> vmss_discovery_config" where
  "vb_subscription_id sub c = c\<lparr>vc_subscription_id := Some sub\<rparr>"

definition vb_resource_group :: "string \<Rightarrow> vmss_discovery_config \<Rightarrow> vmss_discovery_config" where
  "vb_resource_group rg c = c\<lparr>vc_resource_group := Some rg\<rparr>"

definition vb_vmss_name :: "string \<Rightarrow> vmss_discovery_config \<Rightarrow> vmss_discovery_config" where
  "vb_vmss_name name c = c\<lparr>vc_vmss_name := Some name\<rparr>"

section \<open>Tags\<close>

record azure_tag_config =
  atc_tag_key :: string
  atc_tag_value :: string
  atc_port :: u16
  atc_subscription_id :: "string option"
  atc_resource_group :: "string option"

definition atc_default :: azure_tag_config where
  "atc_default = \<lparr>atc_tag_key = [], atc_tag_value = [], atc_port = 9000, atc_subscription_id = None, atc_resource_group = None\<rparr>"

text \<open>A virtual machine is a JSON value, of which two texts are read: that of a tag, and the id of the first network interface.\<close>

record 'v vm_json =
  vj_tag :: "'v \<Rightarrow> string \<Rightarrow> string option"
  vj_nic_id :: "'v \<Rightarrow> string option"

definition atd_resolve_subscription :: "'v azure_client \<Rightarrow> azure_tag_config \<Rightarrow> azure_discovery_error + string" where
  "atd_resolve_subscription client c =
     (case atc_subscription_id c of
        Some sub \<Rightarrow> Inr sub
      | None \<Rightarrow> (case query_imds client of Inl e \<Rightarrow> Inl e | Inr imds \<Rightarrow> Inr (ic_subscription_id imds)))"

definition atd_fetch_nic_private_ip :: "'v azure_client \<Rightarrow> string \<Rightarrow> string \<Rightarrow> azure_discovery_error + string" where
  "atd_fetch_nic_private_ip client nic_id token =
     (case http_decode ArmApiError (\<lambda>status body. ''get NIC failed ('' @ status @ ''): '' @ body) ''NIC details''
         (az_nic client (''https://management.azure.com'' @ nic_id @ ''?api-version='' @ ARM_API_VERSION_NIC) token) of
        Inl e \<Rightarrow> Inl e
      | Inr (Some ip # _) \<Rightarrow> Inr ip
      | Inr _ \<Rightarrow> Inl (ArmApiError ''NIC has no private IP configuration''))"

definition atd_vm_address :: "'v azure_client \<Rightarrow> 'v vm_json \<Rightarrow> string \<Rightarrow> azure_tag_config \<Rightarrow> 'v \<Rightarrow> string list" where
  "atd_vm_address client vj token c vm =
     (if vj_tag vj vm (atc_tag_key c) \<noteq> Some (atc_tag_value c) then []
      else case vj_nic_id vj vm of
             None \<Rightarrow> []
           | Some nic_id \<Rightarrow> (case atd_fetch_nic_private_ip client nic_id token of Inr ip \<Rightarrow> [socket_address ip (atc_port c)] | Inl _ \<Rightarrow> []))"

definition atd_url :: "string \<Rightarrow> string option \<Rightarrow> string" where
  "atd_url subscription_id resource_group =
     ''https://management.azure.com/subscriptions/'' @ subscription_id @
     (case resource_group of Some rg \<Rightarrow> ''/resourceGroups/'' @ rg | None \<Rightarrow> []) @
     ''/providers/Microsoft.Compute/virtualMachines?api-version='' @ ARM_API_VERSION_VM"

partial_function (option) atd_pages ::
  "'v azure_client \<Rightarrow> 'v vm_json \<Rightarrow> string \<Rightarrow> azure_tag_config \<Rightarrow> string list \<Rightarrow> string option \<Rightarrow> (azure_discovery_error + string list) option" where
  [code]: "atd_pages client vj token c addresses next_url =
     (case next_url of
        None \<Rightarrow> Some (Inr addresses)
      | Some page_url \<Rightarrow>
          (case http_decode ArmApiError (\<lambda>status body. ''list VMs failed ('' @ status @ ''): '' @ body) ''VM list'' (az_vms client page_url token) of
             Inl e \<Rightarrow> Some (Inl e)
           | Inr page \<Rightarrow> atd_pages client vj token c (addresses @ concat (map (atd_vm_address client vj token c) (ap_value page))) (ap_next_link page)))"

definition atd_discover_by_tag :: "'v azure_client \<Rightarrow> 'v vm_json \<Rightarrow> azure_tag_config \<Rightarrow> (azure_discovery_error + string list) option" where
  "atd_discover_by_tag client vj c =
     (if atc_tag_key c = [] then Some (Inl (AzureConfig ''tag_key must not be empty''))
      else case atd_resolve_subscription client c of
        Inl e \<Rightarrow> Some (Inl e)
      | Inr sub \<Rightarrow>
          (case acquire_managed_identity_token client of
             Inl e \<Rightarrow> Some (Inl e)
           | Inr token \<Rightarrow> atd_pages client vj token c [] (Some (atd_url sub (atc_resource_group c)))))"

definition atd_discover :: "'v azure_client \<Rightarrow> 'v vm_json \<Rightarrow> azure_tag_config \<Rightarrow> (discovery_error + discovered_peer list) option" where
  "atd_discover client vj c =
     map_option (\<lambda>r. case r of Inr addrs \<Rightarrow> Inr (map dp_from_address addrs) | Inl e \<Rightarrow> Inl (DiscoveryError (azure_error_display e)))
       (atd_discover_by_tag client vj c)"

definition atb_tag_key :: "string \<Rightarrow> azure_tag_config \<Rightarrow> azure_tag_config" where
  "atb_tag_key key c = c\<lparr>atc_tag_key := key\<rparr>"

definition atb_tag_value :: "string \<Rightarrow> azure_tag_config \<Rightarrow> azure_tag_config" where
  "atb_tag_value value c = c\<lparr>atc_tag_value := value\<rparr>"

definition atb_port :: "u16 \<Rightarrow> azure_tag_config \<Rightarrow> azure_tag_config" where
  "atb_port port c = c\<lparr>atc_port := port\<rparr>"

definition atb_subscription_id :: "string \<Rightarrow> azure_tag_config \<Rightarrow> azure_tag_config" where
  "atb_subscription_id sub c = c\<lparr>atc_subscription_id := Some sub\<rparr>"

definition atb_resource_group :: "string \<Rightarrow> azure_tag_config \<Rightarrow> azure_tag_config" where
  "atb_resource_group rg c = c\<lparr>atc_resource_group := Some rg\<rparr>"

definition azure_vm_private_ip :: "(string \<Rightarrow> string option) \<Rightarrow> string option" where
  "azure_vm_private_ip env = env ''DACTOR_VM_IP''"

definition azure_subscription_id :: "(string \<Rightarrow> string option) \<Rightarrow> string option" where
  "azure_subscription_id env = env ''AZURE_SUBSCRIPTION_ID''"

definition azure_resource_group :: "(string \<Rightarrow> string option) \<Rightarrow> string option" where
  "azure_resource_group env = env ''AZURE_RESOURCE_GROUP''"

section \<open>Lemmas\<close>

interpretation vmss: discovery_backend "vd_discover_instances client" azure_error_display "vd_discover client" for client
  by unfold_locales (auto simp: vd_discover_def intro!: option.map_cong0 split: sum.split)

interpretation azure_tag: discovery_backend "atd_discover_by_tag client vj" azure_error_display "atd_discover client vj" for client vj
  by unfold_locales (auto simp: atd_discover_def intro!: option.map_cong0 split: sum.split)

text \<open>Following the links from a page: the pages read, and the link the last of them has.\<close>

fun arm_walk :: "(string \<Rightarrow> 'v arm_page http_reply) \<Rightarrow> string \<Rightarrow> 'v arm_page list \<Rightarrow> string option \<Rightarrow> bool" where
  "arm_walk fetch url [] next_link \<longleftrightarrow> next_link = Some url"
| "arm_walk fetch url (p # ps) next_link \<longleftrightarrow> fetch url = HttpOk p \<and>
     (case ap_next_link p of None \<Rightarrow> ps = [] \<and> next_link = None | Some u \<Rightarrow> arm_walk fetch u ps next_link)"

text \<open>A loop over pages, with what it collects of each.\<close>

locale arm_listing =
  fixes fetch :: "string \<Rightarrow> 'v arm_page http_reply"
    and decode :: "'v arm_page http_reply \<Rightarrow> azure_discovery_error + 'v arm_page"
    and collect :: "'v list \<Rightarrow> string list"
    and loop :: "string list \<Rightarrow> string option \<Rightarrow> (azure_discovery_error + string list) option"
  assumes decode_ok: "decode (HttpOk p) = Inr p"
    and loop_end: "loop acc None = Some (Inr acc)"
    and loop_page: "loop acc (Some url) = (case decode (fetch url) of Inl e \<Rightarrow> Some (Inl e) | Inr p \<Rightarrow> loop (acc @ collect (ap_value p)) (ap_next_link p))"
    and loop_returns: "(\<And>u. P u \<Longrightarrow> \<exists>p u'. fetch u = HttpOk p \<and> ap_next_link p = Some u' \<and> P u') \<Longrightarrow> P u \<Longrightarrow> loop acc (Some u) = None"
begin

lemma loop_walk: "arm_walk fetch url pages next_link \<Longrightarrow> loop acc (Some url) = loop (acc @ concat (map (\<lambda>p. collect (ap_value p)) pages)) next_link"
proof (induction pages arbitrary: url acc)
  case (Cons p ps)
  then show ?case by (cases "ap_next_link p") (auto simp: loop_page decode_ok)
qed simp

lemma loop_cycle:
  assumes "arm_walk fetch url pages (Some url)" and "pages \<noteq> []"
  shows "loop acc (Some url) = None"
proof (rule loop_returns [where P = "\<lambda>u. \<exists>ps. arm_walk fetch u ps (Some url)"])
  fix u
  assume "\<exists>ps. arm_walk fetch u ps (Some url)"
  then obtain ps where "arm_walk fetch u ps (Some url)" "ps \<noteq> []" using assms by (metis arm_walk.simps(1) option.inject)
  then show "\<exists>p u'. fetch u = HttpOk p \<and> ap_next_link p = Some u' \<and> (\<exists>ps. arm_walk fetch u' ps (Some url))"
    by (cases ps) (auto split: option.splits)
next
  show "\<exists>ps. arm_walk fetch url ps (Some url)" using assms(1) by blast
qed

end

abbreviation decode_nics :: "arm_nic arm_page http_reply \<Rightarrow> azure_discovery_error + arm_nic arm_page" where
  "decode_nics \<equiv> http_decode ArmApiError (\<lambda>status body. ''list NICs failed ('' @ status @ ''): '' @ body) ''NIC list''"

lemma vd_pages_diverges:
  assumes step: "\<And>u. P u \<Longrightarrow> \<exists>p u'. az_nics client u token = HttpOk p \<and> ap_next_link p = Some u' \<and> P u'" and "P u"
  shows "vd_pages client token port acc (Some u) = None"
proof -
  have "vd_pages cl tk pt ac next_url = Some r \<Longrightarrow> cl = client \<Longrightarrow> tk = token \<Longrightarrow> next_url = Some u \<Longrightarrow> P u \<Longrightarrow> False" for cl tk pt ac next_url r u
  proof (induction arbitrary: u rule: vd_pages.raw_induct [rotated, consumes 1])
    case (1 rec cl tk pt ac next_url r)
    obtain p u' where "az_nics client u token = HttpOk p" "ap_next_link p = Some u'" "P u'" using step 1 by metis
    then show ?case using 1 by (auto simp: http_decode_def)
  qed
  then show ?thesis using assms(2) by (metis not_None_eq)
qed

interpretation nic_listing: arm_listing "\<lambda>u. az_nics client u token" decode_nics "nic_addresses port" "vd_pages client token port" for client token port
proof unfold_locales
  show "vd_pages client token port acc None = Some (Inr acc)" for acc by (subst vd_pages.simps) simp
  show "vd_pages client token port acc (Some url) = (case decode_nics (az_nics client url token) of Inl e \<Rightarrow> Some (Inl e)
      | Inr p \<Rightarrow> vd_pages client token port (acc @ nic_addresses port (ap_value p)) (ap_next_link p))" for acc url
    by (subst vd_pages.simps) simp
  show "vd_pages client token port acc (Some u) = None"
    if "\<And>u. P u \<Longrightarrow> \<exists>p u'. az_nics client u token = HttpOk p \<and> ap_next_link p = Some u' \<and> P u'" "P u" for P u acc
    using that by (rule vd_pages_diverges)
qed (simp add: http_decode_def)

abbreviation decode_vms :: "'v arm_page http_reply \<Rightarrow> azure_discovery_error + 'v arm_page" where
  "decode_vms \<equiv> http_decode ArmApiError (\<lambda>status body. ''list VMs failed ('' @ status @ ''): '' @ body) ''VM list''"

lemma atd_pages_diverges:
  assumes step: "\<And>u. P u \<Longrightarrow> \<exists>p u'. az_vms client u token = HttpOk p \<and> ap_next_link p = Some u' \<and> P u'" and "P u"
  shows "atd_pages client vj token c acc (Some u) = None"
proof -
  have "atd_pages cl vj' tk c' ac next_url = Some r \<Longrightarrow> cl = client \<Longrightarrow> tk = token \<Longrightarrow> next_url = Some u \<Longrightarrow> P u \<Longrightarrow> False" for cl vj' tk c' ac next_url r u
  proof (induction arbitrary: u rule: atd_pages.raw_induct [rotated, consumes 1])
    case (1 rec cl vj' tk c' ac next_url r)
    obtain p u' where "az_vms client u token = HttpOk p" "ap_next_link p = Some u'" "P u'" using step 1 by metis
    then show ?case using 1 by (auto simp: http_decode_def)
  qed
  then show ?thesis using assms(2) by (metis not_None_eq)
qed

interpretation vm_listing: arm_listing "\<lambda>u. az_vms client u token" decode_vms "\<lambda>vms. concat (map (atd_vm_address client vj token c) vms)"
    "atd_pages client vj token c" for client token vj c
proof unfold_locales
  show "atd_pages client vj token c acc None = Some (Inr acc)" for acc by (subst atd_pages.simps) simp
  show "atd_pages client vj token c acc (Some url) = (case decode_vms (az_vms client url token) of Inl e \<Rightarrow> Some (Inl e)
      | Inr p \<Rightarrow> atd_pages client vj token c (acc @ concat (map (atd_vm_address client vj token c) (ap_value p))) (ap_next_link p))" for acc url
    by (subst atd_pages.simps) simp
  show "atd_pages client vj token c acc (Some u) = None"
    if "\<And>u. P u \<Longrightarrow> \<exists>p u'. az_vms client u token = HttpOk p \<and> ap_next_link p = Some u' \<and> P u'" "P u" for P u acc
    using that by (rule atd_pages_diverges)
qed (simp add: http_decode_def)

lemma nic_addresses_pages: "concat (map (\<lambda>p. nic_addresses port (ap_value p)) pages) = nic_addresses port (concat (map ap_value pages))"
  by (induction pages) (simp_all add: nic_addresses_def)

section \<open>Properties\<close>

text \<open>C25. Discovery of a scale set reads every page. Once the scale set and the token are there, following the links of the management API from the first page:
  if they end, the peers are the private addresses of all the interfaces on all the pages, in order, each with the configured port; if a page fails to
  load, its error is returned and nothing of the pages before it; and if the links lead back to the first page, discovery never returns.\<close>

theorem vmss_reads_all_pages:
  assumes info: "vd_resolve_vmss_info client c = Inr (sub, rg, vmss)" and token: "acquire_managed_identity_token client = Inr token"
    and walk: "arm_walk (\<lambda>u. az_nics client u token) (vd_url sub rg vmss) pages next_link"
  shows "(next_link = None \<longrightarrow> vd_discover client c = Some (Inr (map dp_from_address (nic_addresses (vc_port c) (concat (map ap_value pages)))))) \<and>
    (\<forall>url status body. next_link = Some url \<and> az_nics client url token = HttpStatus status body \<longrightarrow>
       vd_discover client c = Some (Inl (DiscoveryError (''ARM API error: list NICs failed ('' @ status @ ''): '' @ body)))) \<and>
    (next_link = Some (vd_url sub rg vmss) \<and> pages \<noteq> [] \<longrightarrow> vd_discover client c = None)"
proof -
  have start: "vd_discover_instances client c = vd_pages client token (vc_port c) [] (Some (vd_url sub rg vmss))"
    using info token by (simp add: vd_discover_instances_def)
  have walked: "vd_discover_instances client c = vd_pages client token (vc_port c) (nic_addresses (vc_port c) (concat (map ap_value pages))) next_link"
    unfolding start nic_listing.loop_walk [OF walk] nic_addresses_pages by simp
  have 3: "vd_discover_instances client c = None" if "next_link = Some (vd_url sub rg vmss)" "pages \<noteq> []"
    unfolding start using nic_listing.loop_cycle [OF walk [unfolded that(1)] that(2)] .
  show ?thesis
    using walked 3 by (auto simp: vd_discover_def nic_listing.loop_end nic_listing.loop_page http_decode_def)
qed

definition two_page_client :: "unit azure_client" where
  "two_page_client = \<lparr>az_token = (\<lambda>_ _. HttpOk ''t''), az_imds = (\<lambda>_ _. HttpFailed ''no route''),
     az_nics = (\<lambda>u _. if u = ''p2'' then HttpOk \<lparr>ap_value = [[Some ''10.0.0.2'']], ap_next_link = None\<rparr>
                      else HttpOk \<lparr>ap_value = [[None, Some ''10.0.0.1'']], ap_next_link = Some ''p2''\<rparr>),
     az_vms = (\<lambda>_ _. HttpFailed ''no route''), az_nic = (\<lambda>_ _. HttpFailed ''no route'')\<rparr>"

theorem vmss_reads_all_pages_witness:
  "vd_discover two_page_client (vb_port 7 (vb_subscription_id ''s'' (vb_resource_group ''g'' (vb_vmss_name ''v'' vc_default)))) =
     Some (Inr [dp_from_address ''10.0.0.1:7'', dp_from_address ''10.0.0.2:7''])"
proof -
  let ?c = "vb_port 7 (vb_subscription_id ''s'' (vb_resource_group ''g'' (vb_vmss_name ''v'' vc_default)))"
  let ?pages = "[\<lparr>ap_value = [[None, Some ''10.0.0.1'']], ap_next_link = Some ''p2''\<rparr>, \<lparr>ap_value = [[Some ''10.0.0.2'']], ap_next_link = None\<rparr>] :: arm_nic arm_page list"
  have info: "vd_resolve_vmss_info two_page_client ?c = Inr (''s'', ''g'', ''v'')"
    by (simp add: vd_resolve_vmss_info_def vb_port_def vb_subscription_id_def vb_resource_group_def vb_vmss_name_def)
  have token: "acquire_managed_identity_token two_page_client = Inr ''t''"
    by (simp add: acquire_managed_identity_token_def two_page_client_def http_decode_def)
  have walk: "arm_walk (\<lambda>u. az_nics two_page_client u ''t'') (vd_url ''s'' ''g'' ''v'') ?pages None"
    by (simp add: two_page_client_def vd_url_def)
  have seven: "digit_char 7 = CHR ''7''" by code_simp
  have "nic_addresses (vc_port ?c) (concat (map ap_value ?pages)) = [''10.0.0.1:7'', ''10.0.0.2:7'']"
    by (simp add: nic_addresses_def vb_port_def socket_address_def show_nat_small seven)
  with vmss_reads_all_pages [OF info token walk] show ?thesis by simp
qed

text \<open>A machine with the tag whose network interface cannot be read is passed over: the failure of the request is not reported.\<close>

theorem tag_discovery_hides_failures:
  assumes "\<And>u t. az_nic client u t = HttpFailed e"
  shows "atd_vm_address client vj token c vm = []"
  using assms by (simp add: atd_vm_address_def atd_fetch_nic_private_ip_def http_decode_def split: option.split)

end
