(* ===== verification/Timers.thy ===== *)
theory Timers
  imports Core_Types
begin

text \<open>
  Timers (\<^verbatim>\<open>timer.rs\<close>) and the manually advanced clock of the tests (\<^verbatim>\<open>test_support/test_clock.rs\<close>). The tasks of the timers act on a
  state through the actor's \<open>tell\<close>, which is given the time. The interval of the tokio crate, which is not part of the repository, is an argument of the
  timer's task, and \<open>interval_lawful\<close> states what its documentation promises: the first tick at once, the others one period apart, and a panic if the
  period is zero.
\<close>

section \<open>Timers\<close>

type_synonym ('m, 's) timed_tell = "instant \<Rightarrow> 'm \<Rightarrow> 's \<Rightarrow> (actor_send_error + unit) \<times> 's"

definition send_after :: "('m, 's) timed_tell \<Rightarrow> 'm \<Rightarrow> duration \<Rightarrow> instant \<Rightarrow> 's \<Rightarrow> 's" where
  "send_after tell msg delay now s = snd (tell (now + delay) msg s)"

text \<open>An interval: its constructor, \<open>None\<close> for a panic, and the wait for the next tick, which gives the time of the tick.\<close>

record 'i interval_timer =
  iv_new :: "duration \<Rightarrow> instant \<Rightarrow> 'i option"
  iv_tick :: "'i \<Rightarrow> instant \<times> 'i"

fun tick_state :: "'i interval_timer \<Rightarrow> 'i \<Rightarrow> nat \<Rightarrow> 'i" where
  "tick_state iv i 0 = i"
| "tick_state iv i (Suc k) = snd (iv_tick iv (tick_state iv i k))"

definition tick_time :: "'i interval_timer \<Rightarrow> 'i \<Rightarrow> nat \<Rightarrow> instant" where
  "tick_time iv i k = fst (iv_tick iv (tick_state iv i k))"

definition interval_lawful :: "'i interval_timer \<Rightarrow> bool" where
  "interval_lawful iv \<longleftrightarrow> (\<forall>start. iv_new iv 0 start = None) \<and>
     (\<forall>period start. 0 < period \<longrightarrow> (\<exists>i. iv_new iv period start = Some i \<and> (\<forall>k. tick_time iv i k = start + k * period)))"

text \<open>The loop: the times at which it sends, and the state when it ends. \<open>cancelled\<close> tells whether the token is cancelled by a time, \<open>msg_factory\<close> gives
  the \<open>k\<close>-th message.\<close>

partial_function (option) interval_loop ::
  "'i interval_timer \<Rightarrow> ('m, 's) timed_tell \<Rightarrow> (nat \<Rightarrow> 'm) \<Rightarrow> (instant \<Rightarrow> bool) \<Rightarrow> 'i \<Rightarrow> nat \<Rightarrow> 's \<Rightarrow> (instant list \<times> 's) option" where
  [code]: "interval_loop iv tell msg_factory cancelled i k s =
     (case iv_tick iv i of (t, i1) \<Rightarrow>
      if cancelled t then Some ([], s)
      else case tell t (msg_factory k) s of
             (Inl _, s1) \<Rightarrow> Some ([t], s1)
           | (Inr _, s1) \<Rightarrow> Option.bind (interval_loop iv tell msg_factory cancelled i1 (Suc k) s1) (\<lambda>(ts, s2). Some (t # ts, s2)))"

text \<open>The task; when the interval panics it ends before anything is sent.\<close>

definition send_interval ::
  "'i interval_timer \<Rightarrow> ('m, 's) timed_tell \<Rightarrow> (nat \<Rightarrow> 'm) \<Rightarrow> duration \<Rightarrow> (instant \<Rightarrow> bool) \<Rightarrow> instant \<Rightarrow> 's \<Rightarrow> (instant list \<times> 's) option" where
  "send_interval iv tell msg_factory interval cancelled start s =
     (case iv_new iv interval start of None \<Rightarrow> Some ([], s) | Some i \<Rightarrow> interval_loop iv tell msg_factory cancelled i 0 s)"

section \<open>The test clock\<close>

record test_clock =
  tc_start_instant :: instant
  tc_elapsed_ms :: "64 word"
  tc_base_unix_ms :: "64 word"

definition tc_with_base_unix_ms :: "instant \<Rightarrow> 64 word \<Rightarrow> test_clock" where
  "tc_with_base_unix_ms now base = \<lparr>tc_start_instant = now, tc_elapsed_ms = 0, tc_base_unix_ms = base\<rparr>"

text \<open>The time since the epoch is that of the system clock.\<close>

definition tc_new :: "instant \<Rightarrow> duration \<Rightarrow> test_clock" where
  "tc_new now since_epoch = \<lparr>tc_start_instant = now, tc_elapsed_ms = 0, tc_base_unix_ms = of_nat (as_millis since_epoch)\<rparr>"

definition tc_advance :: "duration \<Rightarrow> test_clock \<Rightarrow> test_clock" where
  "tc_advance d c = c\<lparr>tc_elapsed_ms := tc_elapsed_ms c + of_nat (as_millis d)\<rparr>"

definition tc_elapsed :: "test_clock \<Rightarrow> duration" where
  "tc_elapsed c = from_millis (unat (tc_elapsed_ms c))"

definition tc_now :: "test_clock \<Rightarrow> instant" where
  "tc_now c = tc_start_instant c + tc_elapsed c"

text \<open>A signed sum, which a release build wraps.\<close>

definition tc_unix_ms :: "test_clock \<Rightarrow> int" where
  "tc_unix_ms c = sint (tc_base_unix_ms c + tc_elapsed_ms c)"

definition system_unix_ms :: "duration option \<Rightarrow> int" where
  "system_unix_ms since_epoch = sint (of_nat (as_millis (case since_epoch of Some d \<Rightarrow> d | None \<Rightarrow> 0)) :: 64 word)"

section \<open>Lemmas\<close>

text \<open>The state after a number of sends, and whether the task ends before the \<open>n\<close>-th tick.\<close>

fun after_ticks :: "('m, 's) timed_tell \<Rightarrow> (nat \<Rightarrow> 'm) \<Rightarrow> (nat \<Rightarrow> instant) \<Rightarrow> 's \<Rightarrow> nat \<Rightarrow> 's" where
  "after_ticks tell msg tick s 0 = s"
| "after_ticks tell msg tick s (Suc k) = snd (tell (tick k) (msg k) (after_ticks tell msg tick s k))"

definition fails_at :: "('m, 's) timed_tell \<Rightarrow> (nat \<Rightarrow> 'm) \<Rightarrow> (nat \<Rightarrow> instant) \<Rightarrow> 's \<Rightarrow> nat \<Rightarrow> bool" where
  "fails_at tell msg tick s k \<longleftrightarrow> isl (fst (tell (tick k) (msg k) (after_ticks tell msg tick s k)))"

fun ends_at :: "('m, 's) timed_tell \<Rightarrow> (nat \<Rightarrow> 'm) \<Rightarrow> (nat \<Rightarrow> instant) \<Rightarrow> (instant \<Rightarrow> bool) \<Rightarrow> 's \<Rightarrow> nat \<Rightarrow> bool" where
  "ends_at tell msg tick cancelled s 0 \<longleftrightarrow> cancelled (tick 0)"
| "ends_at tell msg tick cancelled s (Suc k) \<longleftrightarrow> cancelled (tick (Suc k)) \<or> fails_at tell msg tick s k"

lemma interval_step:
  assumes "tick = tick_time iv i" and "w = after_ticks tell msg tick s"
  shows "interval_loop iv tell msg cancelled (tick_state iv i k) k (w k) =
    (if cancelled (tick k) then Some ([], w k)
     else if fails_at tell msg tick s k then Some ([tick k], w (Suc k))
     else Option.bind (interval_loop iv tell msg cancelled (tick_state iv i (Suc k)) (Suc k) (w (Suc k))) (\<lambda>(ts, s'). Some (tick k # ts, s')))"
  unfolding assms by (subst interval_loop.simps) (auto simp: fails_at_def tick_time_def split: prod.split sum.split)

lemma interval_ends:
  assumes w: "tick = tick_time iv i" "w = after_ticks tell msg tick s"
  shows "k \<le> n \<Longrightarrow> \<forall>m. k \<le> m \<and> m < n \<longrightarrow> \<not> ends_at tell msg tick cancelled s m \<Longrightarrow>
    cancelled (tick n) \<or> k < n \<and> ends_at tell msg tick cancelled s n \<Longrightarrow>
    interval_loop iv tell msg cancelled (tick_state iv i k) k (w k) = Some (map tick [k..<n], w n)"
proof (induction "n - k" arbitrary: k)
  case 0
  then have "k = n" "cancelled (tick n)" by auto
  then show ?case using interval_step [OF w, of cancelled n] by simp
next
  case (Suc j)
  have k: "k < n" using Suc(2) by simp
  then have going: "\<not> cancelled (tick k)" using Suc.prems(2) by (cases k) auto
  show ?case
  proof (cases "fails_at tell msg tick s k")
    case True
    then have "ends_at tell msg tick cancelled s (Suc k)" by simp
    then have "n = Suc k" using k Suc.prems(2) by (metis Suc_leI le_Suc_eq le_neq_implies_less order_refl)
    then show ?thesis using interval_step [OF w, of cancelled k] going True by simp
  next
    case False
    have "cancelled (tick n) \<or> Suc k < n \<and> ends_at tell msg tick cancelled s n"
      using Suc.prems(3) False k by (cases "n = Suc k") auto
    then have "interval_loop iv tell msg cancelled (tick_state iv i (Suc k)) (Suc k) (w (Suc k)) = Some (map tick [Suc k..<n], w n)"
      using Suc(2) k Suc.prems(2) by (intro Suc.hyps(1)) auto
    then show ?thesis using interval_step [OF w, of cancelled k] going False k by (simp add: upt_conv_Cons)
  qed
qed

lemma interval_forever:
  assumes w: "tick = tick_time iv i" "w = after_ticks tell msg tick s" and never: "\<And>n. \<not> ends_at tell msg tick cancelled s n"
  shows "interval_loop iv tell msg cancelled (tick_state iv i k) k (w k) = None"
proof -
  have open_tick: "\<not> cancelled (tick n)" "\<not> fails_at tell msg tick s n" for n using never [of n] never [of "Suc n"] by (cases n; simp)+
  have "interval_loop iv' tl ms ca j k x = Some r \<Longrightarrow> iv' = iv \<Longrightarrow> tl = tell \<Longrightarrow> ms = msg \<Longrightarrow> ca = cancelled \<Longrightarrow> j = tick_state iv i k \<Longrightarrow> x = w k \<Longrightarrow> False"
    for iv' tl ms ca j k x r
  proof (induction rule: interval_loop.raw_induct [rotated, consumes 1])
    case (1 rec iv' tl ms ca j k x r)
    have "fst (tell (tick k) (msg k) (w k)) = Inr ()" using open_tick(2) [of k] by (cases "fst (tell (tick k) (msg k) (w k))") (auto simp: fails_at_def w)
    then have "tell (tick k) (msg k) (w k) = (Inr (), w (Suc k))" by (simp add: w prod_eq_iff)
    then obtain r' where "rec iv tell msg cancelled (tick_state iv i (Suc k)) (Suc k) (w (Suc k)) = Some r'"
      using 1(2-) open_tick(1) [of k] by (auto simp: w(1) tick_time_def bind_eq_Some_conv split: prod.splits)
    from 1(1) [OF this refl refl refl refl refl refl] show ?case .
  qed
  then show ?thesis by (metis not_None_eq)
qed

lemma tc_history: "tc_elapsed_ms (foldl (\<lambda>c d. tc_advance d c) c ds) = tc_elapsed_ms c + of_nat (sum_list (map as_millis ds))"
  by (induction ds arbitrary: c) (simp_all add: tc_advance_def)

lemma tc_history_base:
  "tc_base_unix_ms (foldl (\<lambda>c d. tc_advance d c) c ds) = tc_base_unix_ms c" "tc_start_instant (foldl (\<lambda>c d. tc_advance d c) c ds) = tc_start_instant c"
  by (induction ds arbitrary: c) (simp_all add: tc_advance_def)

section \<open>Properties\<close>

text \<open>C23. When a periodic timer sends. On an interval that ticks as tokio documents, the task sends one message at the start and one after every period, and
  ends before the first tick at which the token is cancelled or after the first message that is refused, whichever comes first; nothing is sent after
  that. If neither ever happens, it never ends, and if the token is cancelled at some time, it ends. With a period of zero it sends nothing.\<close>

theorem interval_schedule:
  assumes law: "interval_lawful iv" and tick: "tick = (\<lambda>k. start + k * interval)" and ends: "ends = ends_at tell msg tick cancelled s"
  shows "(0 < interval \<longrightarrow>
      (\<forall>n. ends n \<and> (\<forall>m<n. \<not> ends m) \<longrightarrow>
        send_interval iv tell msg interval cancelled start s = Some (map tick [0..<n], after_ticks tell msg tick s n)) \<and>
      ((\<forall>n. \<not> ends n) \<longrightarrow> send_interval iv tell msg interval cancelled start s = None) \<and>
      ((\<exists>c. \<forall>t\<ge>c. cancelled t) \<longrightarrow> (\<exists>n. ends n))) \<and>
    (interval = 0 \<longrightarrow> send_interval iv tell msg interval cancelled start s = Some ([], s))"
proof (intro conjI impI)
  show "send_interval iv tell msg interval cancelled start s = Some ([], s)" if "interval = 0"
    using law that by (simp add: interval_lawful_def send_interval_def)
  assume pos: "0 < interval"
  obtain i where "iv_new iv interval start = Some i" and "\<forall>k. tick_time iv i k = start + k * interval"
    using law pos unfolding interval_lawful_def by blast
  then have i: "iv_new iv interval start = Some i" "tick = tick_time iv i" by (simp_all add: tick fun_eq_iff)
  show "\<forall>n. ends n \<and> (\<forall>m<n. \<not> ends m) \<longrightarrow>
      send_interval iv tell msg interval cancelled start s = Some (map tick [0..<n], after_ticks tell msg tick s n)"
  proof (intro allI impI)
    fix n
    assume n: "ends n \<and> (\<forall>m<n. \<not> ends m)"
    have "cancelled (tick n) \<or> 0 < n \<and> ends_at tell msg tick cancelled s n" using n by (cases n) (auto simp: ends)
    then show "send_interval iv tell msg interval cancelled start s = Some (map tick [0..<n], after_ticks tell msg tick s n)"
      using interval_ends [OF i(2) refl, of 0 n tell msg cancelled s] n i(1) by (simp add: send_interval_def ends)
  qed
  show "send_interval iv tell msg interval cancelled start s = None" if "\<forall>n. \<not> ends n"
    using interval_forever [OF i(2) refl, of tell msg cancelled s 0] that i(1) by (simp add: send_interval_def ends)
  show "\<exists>n. ends n" if c: "\<exists>c. \<forall>t\<ge>c. cancelled t"
  proof -
    obtain c where c: "\<forall>t\<ge>c. cancelled t" using c ..
    have "c \<le> tick c" using pos by (simp add: tick trans_le_add2)
    then have "ends c" using c by (cases c) (auto simp: ends)
    then show ?thesis ..
  qed
qed

definition failing_third :: "(nat, nat list) timed_tell" where
  "failing_third t m s = (if length s < 2 then (Inr (), s @ [m]) else (Inl (ActorSendError ''actor stopped''), s))"

definition steady_interval :: "(instant \<times> duration) interval_timer" where
  "steady_interval = \<lparr>iv_new = (\<lambda>period start. if period = 0 then None else Some (start, period)), iv_tick = (\<lambda>(t, period). (t, t + period, period))\<rparr>"

lemma steady_interval_lawful: "interval_lawful steady_interval"
proof -
  have "tick_state steady_interval (start, period) k = (start + k * period, period)" for start period k
    by (induction k) (simp_all add: steady_interval_def)
  then show ?thesis by (simp add: interval_lawful_def tick_time_def steady_interval_def)
qed

theorem interval_schedule_witness:
  "send_interval steady_interval failing_third (\<lambda>k. k * k) 10 (\<lambda>_. False) 5 [] = Some ([5, 15, 25], [0, 1])"
proof -
  let ?tick = "\<lambda>k. 5 + k * 10"
  have "ends_at failing_third (\<lambda>k. k * k) ?tick (\<lambda>_. False) [] 3 \<and> (\<forall>m<3. \<not> ends_at failing_third (\<lambda>k. k * k) ?tick (\<lambda>_. False) [] m)"
    by (simp add: numeral_3_eq_3 less_Suc_eq fails_at_def failing_third_def all_conj_distrib)
  from interval_schedule [OF steady_interval_lawful refl refl, THEN conjunct1, rule_format, THEN conjunct1, rule_format, OF _ this]
  show ?thesis by (simp add: numeral_3_eq_3 failing_third_def)
qed

text \<open>Both readings of the test clock move together, by the whole milliseconds of what it is advanced by; advances that are shorter than a millisecond do not move
  it, however many they are.\<close>

theorem test_clock_readings:
  assumes "sum_list (map as_millis ds) < 2 ^ 63" and "c = foldl (\<lambda>c d. tc_advance d c) (tc_with_base_unix_ms now base) ds"
  shows "tc_now c = now + from_millis (sum_list (map as_millis ds)) \<and> tc_unix_ms c = sint (base + of_nat (sum_list (map as_millis ds))) \<and>
    ((\<forall>d \<in> set ds. d < from_millis 1) \<longrightarrow> tc_now c = now)"
proof -
  have e: "tc_elapsed_ms c = of_nat (sum_list (map as_millis ds))" unfolding assms(2) tc_history by (simp add: tc_with_base_unix_ms_def)
  then have "tc_elapsed c = from_millis (sum_list (map as_millis ds))" using assms(1) by (simp add: tc_elapsed_def unat_of_nat)
  then have now: "tc_now c = now + from_millis (sum_list (map as_millis ds))"
    unfolding tc_now_def assms(2) tc_history_base by (simp add: tc_with_base_unix_ms_def)
  moreover have "tc_unix_ms c = sint (base + of_nat (sum_list (map as_millis ds)))"
    unfolding tc_unix_ms_def e unfolding assms(2) tc_history_base by (simp add: tc_with_base_unix_ms_def)
  moreover have "tc_now c = now" if "\<forall>d \<in> set ds. d < from_millis 1"
  proof -
    have "sum_list (map as_millis ds) = 0" using that by (simp add: as_millis_def from_millis_def sum_list_eq_0_iff)
    then show ?thesis using now by (simp add: from_millis_def)
  qed
  ultimately show ?thesis by blast
qed

end
