(* ===== verification/Test_Harness.thy ===== *)
theory Test_Harness
  imports Core_Types
begin

text \<open>
  The node side of the multi-process test harness (\<^verbatim>\<open>dactor-test-harness\<close>): the fault injector, the control service of a test node, and the
  client's wait for an event. The gRPC transport and JSON printing are not part of the repository: a request is a function call, a JSON object is
  printed by the argument \<open>to_string\<close>. The adapter behind a node is a record of operations on a state.
\<close>

section \<open>Fault injection\<close>

datatype fault_entry = FaultEntry (fe_fault_type: string) (fe_target: string) (fe_duration_ms: u64) (fe_count: u32)

type_synonym fault_injector = "(string, fault_entry) hashmap"

definition fi_new :: fault_injector where
  "fi_new = hm_empty"

definition fault_key :: "string \<Rightarrow> string \<Rightarrow> string" where
  "fault_key fault_type target = fault_type @ '':'' @ target"

definition fi_add_fault :: "string \<Rightarrow> string \<Rightarrow> u64 \<Rightarrow> u32 \<Rightarrow> fault_injector \<Rightarrow> fault_injector" where
  "fi_add_fault fault_type target duration_ms cnt fi =
     hm_insert (fault_key fault_type target) (FaultEntry fault_type target duration_ms cnt) fi"

definition fi_clear_all :: "fault_injector \<Rightarrow> fault_injector" where
  "fi_clear_all fi = hm_empty"

definition fi_has_fault :: "fault_injector \<Rightarrow> string \<Rightarrow> string \<Rightarrow> bool" where
  "fi_has_fault fi fault_type target \<longleftrightarrow> hm_get fi (fault_key fault_type target) \<noteq> None"

definition fi_active_faults :: "fault_injector \<Rightarrow> string list" where
  "fi_active_faults fi = hm_keys fi"

section \<open>Test nodes\<close>

text \<open>\<^verbatim>\<open>CommandHandler\<close>, with its two default methods.\<close>

record 'k command_handler =
  chd_adapter_name :: string
  chd_spawn_actor :: "string \<Rightarrow> string \<Rightarrow> bytes \<Rightarrow> 'k \<Rightarrow> (string + string) \<times> 'k"
  chd_tell_actor :: "string \<Rightarrow> string \<Rightarrow> bytes \<Rightarrow> 'k \<Rightarrow> (string + unit) \<times> 'k"
  chd_ask_actor :: "string \<Rightarrow> string \<Rightarrow> bytes \<Rightarrow> u64 \<Rightarrow> 'k \<Rightarrow> (string + bytes) \<times> 'k"
  chd_stop_actor :: "string \<Rightarrow> 'k \<Rightarrow> (string + unit) \<times> 'k"
  chd_watch_actor :: "string \<Rightarrow> string \<Rightarrow> 'k \<Rightarrow> (string + unit) \<times> 'k"
  chd_actor_count :: "'k \<Rightarrow> u32"

definition default_watch_actor :: "string \<Rightarrow> string \<Rightarrow> 'k \<Rightarrow> (string + unit) \<times> 'k" where
  "default_watch_actor watcher_name target_name k = (Inl ''watch not supported'', k)"

definition default_actor_count :: "'k \<Rightarrow> u32" where
  "default_actor_count k = 0"

datatype node_event = NodeEvent (ne_event_type: string) (ne_detail: string) (ne_timestamp_ms: u64)

datatype json_value = JsonString string | JsonBool bool | JsonNumber u64

record 'k test_node =
  tn_node_id :: string
  tn_control_port :: "16 word"
  tn_start_time :: instant
  tn_fault_injector :: fault_injector
  tn_events :: "node_event list"
  tn_shutdown_flag :: bool
  tn_shutdown_notify :: bool
  tn_actor_count :: u32
  tn_handler :: "('k command_handler \<times> 'k) option"

definition tn_new :: "string \<Rightarrow> 16 word \<Rightarrow> instant \<Rightarrow> 'k test_node" where
  "tn_new node_id port now = \<lparr>tn_node_id = node_id, tn_control_port = port, tn_start_time = now, tn_fault_injector = fi_new, tn_events = [],
     tn_shutdown_flag = False, tn_shutdown_notify = False, tn_actor_count = 0, tn_handler = None\<rparr>"

definition tn_with_handler :: "string \<Rightarrow> 16 word \<Rightarrow> 'k command_handler \<Rightarrow> 'k \<Rightarrow> instant \<Rightarrow> 'k test_node" where
  "tn_with_handler node_id port handler k now = \<lparr>tn_node_id = node_id, tn_control_port = port, tn_start_time = now, tn_fault_injector = fi_new,
     tn_events = [], tn_shutdown_flag = False, tn_shutdown_notify = False, tn_actor_count = 0, tn_handler = Some (handler, k)\<rparr>"

definition tn_uptime_ms :: "instant \<Rightarrow> 'k test_node \<Rightarrow> u64" where
  "tn_uptime_ms now n = of_nat (as_millis (now - tn_start_time n))"

text \<open>The events go to a broadcast channel; the model keeps what has been sent.\<close>

definition tn_emit_event :: "instant \<Rightarrow> string \<Rightarrow> string \<Rightarrow> 'k test_node \<Rightarrow> 'k test_node" where
  "tn_emit_event now event_type detail n = n\<lparr>tn_events := tn_events n @ [NodeEvent event_type detail (tn_uptime_ms now n)]\<rparr>"

definition tn_ping :: "instant \<Rightarrow> string \<Rightarrow> 'k test_node \<Rightarrow> string \<times> string \<times> u64" where
  "tn_ping now echo n = (echo, tn_node_id n, tn_uptime_ms now n)"

definition tn_get_node_info :: "instant \<Rightarrow> 'k test_node \<Rightarrow> string \<times> u64 \<times> string \<times> u32" where
  "tn_get_node_info now n = (tn_node_id n, tn_uptime_ms now n,
     case tn_handler n of Some (handler, _) \<Rightarrow> chd_adapter_name handler | None \<Rightarrow> ''none'',
     case tn_handler n of Some (handler, k) \<Rightarrow> chd_actor_count handler k | None \<Rightarrow> tn_actor_count n)"

type_synonym json_printer = "(string \<times> json_value) list \<Rightarrow> string"

definition tn_shutdown :: "json_printer \<Rightarrow> instant \<Rightarrow> bool \<Rightarrow> u64 \<Rightarrow> 'k test_node \<Rightarrow> 'k test_node" where
  "tn_shutdown to_string now graceful timeout_ms n =
     (tn_emit_event now ''node_shutdown'' (to_string [(''graceful'', JsonBool graceful), (''timeout_ms'', JsonNumber timeout_ms)])
       (n\<lparr>tn_shutdown_flag := True\<rparr>))\<lparr>tn_shutdown_notify := True\<rparr>"

definition tn_inject_fault :: "json_printer \<Rightarrow> instant \<Rightarrow> string \<Rightarrow> string \<Rightarrow> u64 \<Rightarrow> u32 \<Rightarrow> 'k test_node \<Rightarrow> 'k test_node" where
  "tn_inject_fault to_string now fault_type target duration_ms cnt n =
     tn_emit_event now ''fault_injected'' (to_string [(''fault_type'', JsonString fault_type), (''target'', JsonString target)])
       (n\<lparr>tn_fault_injector := fi_add_fault fault_type target duration_ms cnt (tn_fault_injector n)\<rparr>)"

definition tn_clear_faults :: "instant \<Rightarrow> 'k test_node \<Rightarrow> 'k test_node" where
  "tn_clear_faults now n = tn_emit_event now ''faults_cleared'' ''{}'' (n\<lparr>tn_fault_injector := fi_clear_all (tn_fault_injector n)\<rparr>)"

text \<open>A subscription reads the channel, where a receiver that is too slow finds errors.\<close>

definition tn_subscribe_events :: "string list \<Rightarrow> (string + node_event) list \<Rightarrow> node_event list" where
  "tn_subscribe_events event_types received =
     filter (\<lambda>e. event_types = [] \<or> ne_event_type e \<in> set event_types) (List.map_filter (\<lambda>r. case r of Inr e \<Rightarrow> Some e | Inl _ \<Rightarrow> None) received)"

definition tn_custom_command :: "string \<Rightarrow> string + bytes" where
  "tn_custom_command command_type = Inl (''custom command '' @ [CHR 0x27] @ command_type @ [CHR 0x27] @ '' not registered'')"

text \<open>The requests to the handler give the status \<^verbatim>\<open>unimplemented\<close> with its text, or a response: whether it succeeded, a value and an error text.\<close>

record 'v actor_response =
  ars_success :: bool
  ars_value :: 'v
  ars_error :: string

definition with_handler ::
  "('k command_handler \<Rightarrow> 'k \<Rightarrow> 'x \<times> 'k) \<Rightarrow> 'k test_node \<Rightarrow> string + 'x \<times> 'k test_node" where
  "with_handler call n =
     (case tn_handler n of
        None \<Rightarrow> Inl ''no command handler registered''
      | Some (handler, k) \<Rightarrow> (case call handler k of (x, k1) \<Rightarrow> Inr (x, n\<lparr>tn_handler := Some (handler, k1)\<rparr>)))"

definition tn_spawn_actor ::
  "json_printer \<Rightarrow> instant \<Rightarrow> string \<Rightarrow> string \<Rightarrow> bytes \<Rightarrow> 'k test_node \<Rightarrow> string + string actor_response \<times> 'k test_node" where
  "tn_spawn_actor to_string now actor_type actor_name args n =
     (case with_handler (\<lambda>h. chd_spawn_actor h actor_type actor_name args) n of
        Inl e \<Rightarrow> Inl e
      | Inr (Inr actor_id, n1) \<Rightarrow>
          Inr (\<lparr>ars_success = True, ars_value = actor_id, ars_error = []\<rparr>,
               tn_emit_event now ''actor_spawned'' (to_string [(''actor_type'', JsonString actor_type), (''actor_name'', JsonString actor_name),
                 (''actor_id'', JsonString actor_id)]) n1)
      | Inr (Inl e, n1) \<Rightarrow> Inr (\<lparr>ars_success = False, ars_value = [], ars_error = e\<rparr>, n1))"

definition tn_tell_actor :: "string \<Rightarrow> string \<Rightarrow> bytes \<Rightarrow> 'k test_node \<Rightarrow> string + unit actor_response \<times> 'k test_node" where
  "tn_tell_actor actor_name message_type payload n =
     (if tn_handler n = None then Inl ''no command handler registered''
      else if fi_has_fault (tn_fault_injector n) ''partition'' actor_name
      then Inr (\<lparr>ars_success = False, ars_value = (), ars_error = ''partition: message delivery blocked''\<rparr>, n)
      else case with_handler (\<lambda>h. chd_tell_actor h actor_name message_type payload) n of
        Inl e \<Rightarrow> Inl e
      | Inr (Inr _, n1) \<Rightarrow> Inr (\<lparr>ars_success = True, ars_value = (), ars_error = []\<rparr>, n1)
      | Inr (Inl e, n1) \<Rightarrow> Inr (\<lparr>ars_success = False, ars_value = (), ars_error = e\<rparr>, n1))"

definition tn_ask_actor :: "string \<Rightarrow> string \<Rightarrow> bytes \<Rightarrow> u64 \<Rightarrow> 'k test_node \<Rightarrow> string + bytes actor_response \<times> 'k test_node" where
  "tn_ask_actor actor_name message_type payload timeout_ms n =
     (if tn_handler n = None then Inl ''no command handler registered''
      else if fi_has_fault (tn_fault_injector n) ''partition'' actor_name
      then Inr (\<lparr>ars_success = False, ars_value = [], ars_error = ''partition: message delivery blocked''\<rparr>, n)
      else case with_handler (\<lambda>h. chd_ask_actor h actor_name message_type payload timeout_ms) n of
        Inl e \<Rightarrow> Inl e
      | Inr (Inr reply, n1) \<Rightarrow> Inr (\<lparr>ars_success = True, ars_value = reply, ars_error = []\<rparr>, n1)
      | Inr (Inl e, n1) \<Rightarrow> Inr (\<lparr>ars_success = False, ars_value = [], ars_error = e\<rparr>, n1))"

definition tn_stop_actor :: "json_printer \<Rightarrow> instant \<Rightarrow> string \<Rightarrow> 'k test_node \<Rightarrow> string + unit actor_response \<times> 'k test_node" where
  "tn_stop_actor to_string now actor_name n =
     (case with_handler (\<lambda>h. chd_stop_actor h actor_name) n of
        Inl e \<Rightarrow> Inl e
      | Inr (Inr _, n1) \<Rightarrow>
          Inr (\<lparr>ars_success = True, ars_value = (), ars_error = []\<rparr>,
               tn_emit_event now ''actor_stopped'' (to_string [(''actor_name'', JsonString actor_name)]) n1)
      | Inr (Inl e, n1) \<Rightarrow> Inr (\<lparr>ars_success = False, ars_value = (), ars_error = e\<rparr>, n1))"

definition tn_watch_actor :: "json_printer \<Rightarrow> instant \<Rightarrow> string \<Rightarrow> string \<Rightarrow> 'k test_node \<Rightarrow> string + unit actor_response \<times> 'k test_node" where
  "tn_watch_actor to_string now watcher_name target_name n =
     (case with_handler (\<lambda>h. chd_watch_actor h watcher_name target_name) n of
        Inl e \<Rightarrow> Inl e
      | Inr (Inr _, n1) \<Rightarrow>
          Inr (\<lparr>ars_success = True, ars_value = (), ars_error = []\<rparr>,
               tn_emit_event now ''actor_watch_registered'' (to_string [(''watcher'', JsonString watcher_name), (''target'', JsonString target_name)]) n1)
      | Inr (Inl e, n1) \<Rightarrow> Inr (\<lparr>ars_success = False, ars_value = (), ars_error = e\<rparr>, n1))"

section \<open>Waiting for an event\<close>

text \<open>The stream as the messages still to come with their times; it ends or fails after the last one. A message that is there when the time is up is still
  taken.\<close>

fun next_event :: "instant \<Rightarrow> duration \<Rightarrow> (instant \<times> 'e) list \<Rightarrow> ('e \<times> instant \<times> (instant \<times> 'e) list) option" where
  "next_event now timeout [] = None"
| "next_event now timeout ((t, e) # es) = (if t \<le> now + timeout then Some (e, max now t, es) else None)"

fun expect_loop :: "('e \<Rightarrow> bool) \<Rightarrow> instant \<Rightarrow> instant \<Rightarrow> (instant \<times> 'e) list \<Rightarrow> 'e option" where
  "expect_loop predicate deadline now [] = None"
| "expect_loop predicate deadline now ((t, e) # es) =
     (let remaining = deadline - now in
      if remaining = 0 then None
      else case next_event now remaining ((t, e) # es) of
             Some (event, now1, _) \<Rightarrow> if predicate event then Some event else expect_loop predicate deadline now1 es
           | None \<Rightarrow> None)"

definition expect_event :: "('e \<Rightarrow> bool) \<Rightarrow> duration \<Rightarrow> instant \<Rightarrow> (instant \<times> 'e) list \<Rightarrow> 'e option" where
  "expect_event predicate timeout now es = expect_loop predicate (now + timeout) now es"

section \<open>Lemmas\<close>

datatype node_op =
    OpInject string string u64 u32 | OpClear | OpShutdown bool u64
  | OpSpawn string string bytes | OpTell string string bytes | OpAsk string string bytes u64 | OpStop string | OpWatchActor string string

fun tn_apply :: "json_printer \<Rightarrow> 'k test_node \<Rightarrow> instant \<times> node_op \<Rightarrow> 'k test_node" where
  "tn_apply js n (now, OpInject ty tg dur cnt) = tn_inject_fault js now ty tg dur cnt n"
| "tn_apply js n (now, OpClear) = tn_clear_faults now n"
| "tn_apply js n (now, OpShutdown graceful timeout) = tn_shutdown js now graceful timeout n"
| "tn_apply js n (now, OpSpawn ty name args) = (case tn_spawn_actor js now ty name args n of Inr (_, n1) \<Rightarrow> n1 | Inl _ \<Rightarrow> n)"
| "tn_apply js n (now, OpTell name ty payload) = (case tn_tell_actor name ty payload n of Inr (_, n1) \<Rightarrow> n1 | Inl _ \<Rightarrow> n)"
| "tn_apply js n (now, OpAsk name ty payload timeout) = (case tn_ask_actor name ty payload timeout n of Inr (_, n1) \<Rightarrow> n1 | Inl _ \<Rightarrow> n)"
| "tn_apply js n (now, OpStop name) = (case tn_stop_actor js now name n of Inr (_, n1) \<Rightarrow> n1 | Inl _ \<Rightarrow> n)"
| "tn_apply js n (now, OpWatchActor w t) = (case tn_watch_actor js now w t n of Inr (_, n1) \<Rightarrow> n1 | Inl _ \<Rightarrow> n)"

lemma emit_keeps [simp]: "tn_fault_injector (tn_emit_event now ty d n) = tn_fault_injector n" "tn_handler (tn_emit_event now ty d n) = tn_handler n"
  by (simp_all add: tn_emit_event_def)

lemma with_handler_faults: "with_handler call n = Inr (x, n1) \<Longrightarrow> tn_fault_injector n1 = tn_fault_injector n \<and> tn_handler n \<noteq> None \<and> tn_handler n1 \<noteq> None"
  by (auto simp: with_handler_def split: option.splits prod.splits)

text \<open>What a request does to the faults; that a handler is registered never changes.\<close>

fun fault_effect :: "node_op \<Rightarrow> fault_injector \<Rightarrow> fault_injector" where
  "fault_effect (OpInject ty tg dur cnt) fi = fi_add_fault ty tg dur cnt fi"
| "fault_effect OpClear fi = hm_empty"
| "fault_effect _ fi = fi"

lemma tn_apply_faults: "tn_fault_injector (tn_apply js n (now, x)) = fault_effect x (tn_fault_injector n)"
  by (cases x) (auto simp: tn_inject_fault_def tn_clear_faults_def fi_clear_all_def tn_shutdown_def tn_spawn_actor_def tn_tell_actor_def tn_ask_actor_def tn_stop_actor_def
      tn_watch_actor_def dest: with_handler_faults split: sum.splits prod.splits)

lemma tn_apply_handler: "tn_handler (tn_apply js n (now, x)) = None \<longleftrightarrow> tn_handler n = None"
  by (cases x) (auto simp: tn_inject_fault_def tn_clear_faults_def tn_shutdown_def tn_spawn_actor_def tn_tell_actor_def tn_ask_actor_def tn_stop_actor_def
      tn_watch_actor_def dest: with_handler_faults split: sum.splits prod.splits)

lemma fault_stays:
  "fi_has_fault (tn_fault_injector n) ty tg \<Longrightarrow> OpClear \<notin> snd ` set ops \<Longrightarrow> fi_has_fault (tn_fault_injector (foldl (tn_apply js) n ops)) ty tg"
proof (induction ops arbitrary: n)
  case (Cons a ops)
  obtain now x where a: "a = (now, x)" by force
  have "x \<noteq> OpClear" using Cons.prems(2) a by auto
  then have "fi_has_fault (tn_fault_injector (tn_apply js n a)) ty tg"
    using Cons.prems(1) unfolding a tn_apply_faults by (cases x) (auto simp: fi_has_fault_def fi_add_fault_def)
  then show ?case using Cons by simp
qed simp

lemma handler_stays: "tn_handler n \<noteq> None \<Longrightarrow> tn_handler (foldl (tn_apply js) n ops) \<noteq> None"
proof (induction ops arbitrary: n)
  case (Cons a ops)
  have "tn_handler (tn_apply js n a) \<noteq> None" using Cons.prems tn_apply_handler [of js n "fst a" "snd a"] by simp
  then show ?case using Cons.IH by simp
qed simp

text \<open>The key joins the type and the target with a colon, so two different faults may share one entry.\<close>

lemma fault_keys_collide: "fault_key ''delay'' ''a:b'' = fault_key ''delay:a'' ''b''"
  by (simp add: fault_key_def)

lemma injected_fault_stays:
  assumes "OpClear \<notin> snd ` set ops"
  shows "fi_has_fault (tn_fault_injector (foldl (tn_apply js) (tn_inject_fault js now ty tg dur cnt n) ops)) ty tg"
  by (rule fault_stays [OF _ assms]) (simp add: tn_inject_fault_def fi_has_fault_def fi_add_fault_def)

text \<open>
  A partition fault stays in force. Once it has been injected for an actor, every tell and every ask to that actor is answered with the text of the
  partition and reaches no handler, and this for every later history of requests that does not clear the faults: neither the duration nor the count that
  the fault was injected with ends it.
\<close>

theorem partition_blocks:
  assumes handler: "tn_handler n \<noteq> None" and kept: "OpClear \<notin> snd ` set ops"
    and later: "m = foldl (tn_apply js) (tn_inject_fault js now ''partition'' name dur cnt n) ops"
  shows "tn_tell_actor name ty payload m = Inr (\<lparr>ars_success = False, ars_value = (), ars_error = ''partition: message delivery blocked''\<rparr>, m) \<and>
    tn_ask_actor name ty payload timeout m = Inr (\<lparr>ars_success = False, ars_value = [], ars_error = ''partition: message delivery blocked''\<rparr>, m)"
proof -
  have "tn_handler m \<noteq> None" unfolding later using handler by (intro handler_stays) (simp add: tn_inject_fault_def)
  moreover have "fi_has_fault (tn_fault_injector m) ''partition'' name" unfolding later by (rule injected_fault_stays [OF kept])
  ultimately show ?thesis by (simp add: tn_tell_actor_def tn_ask_actor_def)
qed

text \<open>A node whose handler counts its tells: after a partition of zero duration and count 1, a spawn and a tell, the actor is still cut off.\<close>

definition counting_handler :: "nat command_handler" where
  "counting_handler = \<lparr>chd_adapter_name = ''counting'', chd_spawn_actor = (\<lambda>_ name _ k. (Inr name, k)),
     chd_tell_actor = (\<lambda>_ _ _ k. (Inr (), Suc k)), chd_ask_actor = (\<lambda>_ _ payload _ k. (Inr payload, Suc k)),
     chd_stop_actor = (\<lambda>_ k. (Inr (), k)), chd_watch_actor = default_watch_actor, chd_actor_count = default_actor_count\<rparr>"

theorem partition_blocks_witness:
  "\<exists>m. tn_handler m = Some (counting_handler, 0) \<and>
     m = foldl (tn_apply (\<lambda>_. []))
       (tn_inject_fault (\<lambda>_. []) 0 ''partition'' ''echo'' 0 1 (tn_with_handler ''n1'' 5000 counting_handler 0 0))
       [(1, OpSpawn ''echo'' ''echo'' []), (2, OpTell ''echo'' ''m'' [])] \<and>
     tn_tell_actor ''echo'' ''m'' [] m = Inr (\<lparr>ars_success = False, ars_value = (), ars_error = ''partition: message delivery blocked''\<rparr>, m)"
proof -
  let ?m = "foldl (tn_apply (\<lambda>_. []))
       (tn_inject_fault (\<lambda>_. []) 0 ''partition'' ''echo'' 0 1 (tn_with_handler ''n1'' 5000 counting_handler 0 0))
       [(1, OpSpawn ''echo'' ''echo'' []), (2, OpTell ''echo'' ''m'' [])]"
  have "tn_tell_actor ''echo'' ''m'' [] ?m = Inr (\<lparr>ars_success = False, ars_value = (), ars_error = ''partition: message delivery blocked''\<rparr>, ?m)"
    by (rule conjunct1 [OF partition_blocks [where now = 0 and js = "\<lambda>_. []", OF _ _ refl]]) (auto simp: tn_with_handler_def)
  moreover have "tn_handler ?m = Some (counting_handler, 0)"
    by (simp add: tn_with_handler_def tn_inject_fault_def tn_spawn_actor_def tn_tell_actor_def with_handler_def counting_handler_def fi_has_fault_def fi_add_fault_def)
  ultimately show ?thesis by blast
qed

text \<open>\<^verbatim>\<open>expect\<close> gives the first matching event, and gives it whenever it comes before the deadline.\<close>

lemma expect_loop_first:
  "expect_loop p deadline now es = Some e \<Longrightarrow>
     \<exists>pre t post. es = pre @ (t, e) # post \<and> t \<le> deadline \<and> p e \<and> (\<forall>x\<in>set pre. \<not> p (snd x))"
proof (induction p deadline now es rule: expect_loop.induct)
  case (2 p deadline now t x es)
  have t: "t \<le> deadline" and r: "deadline - now \<noteq> 0" using 2(2) by (auto simp: Let_def split: if_splits)
  show ?case
  proof (cases "p x")
    case True
    then show ?thesis using 2(2) t r by (intro exI [of _ "[]"]) (auto simp: Let_def split: if_splits)
  next
    case False
    then have "expect_loop p deadline (max now t) es = Some e" using 2(2) r by (auto simp: Let_def split: if_splits)
    then obtain pre u post where "es = pre @ (u, e) # post" "u \<le> deadline" "p e" "\<forall>x\<in>set pre. \<not> p (snd x)"
      using 2(1) [of "deadline - now" "(x, max now t, es)" x "(max now t, es)" "max now t" es] r t False by auto
    then show ?thesis using False by (intro exI [of _ "(t, x) # pre"]) auto
  qed
qed simp

lemma expect_loop_finds:
  "now < deadline \<Longrightarrow> \<forall>x\<in>set pre. fst x < deadline \<and> \<not> p (snd x) \<Longrightarrow> t < deadline \<Longrightarrow> p e \<Longrightarrow>
   expect_loop p deadline now (pre @ (t, e) # post) = Some e"
  by (induction pre arbitrary: now) (auto simp: Let_def)

theorem expect_event_first:
  "(expect_event p timeout now es = Some e \<longrightarrow>
      (\<exists>pre t post. es = pre @ (t, e) # post \<and> t \<le> now + timeout \<and> p e \<and> (\<forall>x\<in>set pre. \<not> p (snd x)))) \<and>
   (0 < timeout \<and> p f \<and> u < now + timeout \<and> (\<forall>x\<in>set qs. fst x < now + timeout \<and> \<not> p (snd x)) \<longrightarrow>
      expect_event p timeout now (qs @ (u, f) # rs) = Some f)"
  unfolding expect_event_def using expect_loop_first expect_loop_finds [of now "now + timeout" qs p u f rs] by auto

end
