(* ===== verification/Harness_Cluster.thy ===== *)
theory Harness_Cluster
  imports Test_Harness
begin

text \<open>
  The client side of the test harness (\<^verbatim>\<open>dactor-test-harness/src/cluster.rs\<close>): the cluster builder that launches one process per node and connects to it,
  the requests sent to a node, and the two ways in which a cluster ends. The operating system is a table of the child processes that have not been
  killed and reaped. Whether a launch succeeds, whether a connection attempt succeeds, and what a request over the connection gives are arguments.
\<close>

section \<open>Processes\<close>

record 'w os_state =
  os_running :: "nat list"
  os_next_pid :: nat
  os_clock_ms :: nat
  os_nodes :: 'w

text \<open>A launch gives the error of the operating system, or a new process.\<close>

type_synonym 'w launcher = "string \<Rightarrow> string list \<Rightarrow> (string \<times> string) list \<Rightarrow> 'w os_state \<Rightarrow> string option"

definition command_spawn ::
  "'w launcher \<Rightarrow> string \<Rightarrow> string list \<Rightarrow> (string \<times> string) list \<Rightarrow> 'w os_state \<Rightarrow> (string + nat) \<times> 'w os_state" where
  "command_spawn launch binary args envs os =
     (case launch binary args envs os of
        Some e \<Rightarrow> (Inl e, os)
      | None \<Rightarrow> (Inr (os_next_pid os), os\<lparr>os_running := os_next_pid os # os_running os, os_next_pid := Suc (os_next_pid os)\<rparr>))"

text \<open>\<^verbatim>\<open>kill\<close> followed by \<^verbatim>\<open>wait\<close>, both with their errors ignored.\<close>

definition kill_and_wait :: "nat \<Rightarrow> 'w os_state \<Rightarrow> 'w os_state" where
  "kill_and_wait pid os = os\<lparr>os_running := removeAll pid (os_running os)\<rparr>"

definition os_sleep :: "nat \<Rightarrow> 'w os_state \<Rightarrow> 'w os_state" where
  "os_sleep ms os = os\<lparr>os_clock_ms := os_clock_ms os + ms\<rparr>"

section \<open>The cluster\<close>

record 'c test_node_handle =
  tnh_process :: nat
  tnh_node_id :: string
  tnh_control_port :: "16 word"
  tnh_client :: "'c option"

type_synonym 'c test_cluster = "(string, 'c test_node_handle) hashmap"

type_synonym cluster_builder = "(string \<times> string \<times> string list \<times> 16 word) list"

definition tcb_new :: cluster_builder where
  "tcb_new = []"

definition tcb_node :: "string \<Rightarrow> string \<Rightarrow> string list \<Rightarrow> 16 word \<Rightarrow> cluster_builder \<Rightarrow> cluster_builder" where
  "tcb_node node_id binary args port b = b @ [(node_id, binary, args, port)]"

definition kill_handles :: "'c test_cluster \<Rightarrow> 'w os_state \<Rightarrow> 'w os_state" where
  "kill_handles nodes os = foldl (\<lambda>s h. kill_and_wait (tnh_process h) s) os (hm_values nodes)"

text \<open>The connection loop: each attempt after a sleep of 100 ms, fifty attempts.\<close>

fun connect_retry :: "(string \<Rightarrow> 'w os_state \<Rightarrow> 'c option) \<Rightarrow> string \<Rightarrow> nat \<Rightarrow> 'w os_state \<Rightarrow> 'c option \<times> 'w os_state" where
  "connect_retry connect addr 0 os = (None, os)"
| "connect_retry connect addr (Suc k) os =
     (let os1 = os_sleep 100 os in
      case connect addr os1 of
        Some c \<Rightarrow> (Some c, os1)
      | None \<Rightarrow> connect_retry connect addr k os1)"

definition node_addr :: "16 word \<Rightarrow> string" where
  "node_addr port = ''http://127.0.0.1:'' @ show_nat (unat port)"

text \<open>The loop of \<^verbatim>\<open>build\<close>; \<open>Inl\<close> is the panic with its text.\<close>

fun tcb_launch ::
  "'w launcher \<Rightarrow> (string \<Rightarrow> 'w os_state \<Rightarrow> 'c option) \<Rightarrow> cluster_builder \<Rightarrow> 'c test_cluster \<Rightarrow> 'w os_state \<Rightarrow>
   (string + 'c test_cluster) \<times> 'w os_state" where
  "tcb_launch launch connect [] nodes os = (Inr nodes, os)"
| "tcb_launch launch connect ((node_id, binary, args, port) # rest) nodes os =
     (case command_spawn launch binary args [(''DACTOR_NODE_ID'', node_id), (''DACTOR_CONTROL_PORT'', show_nat (unat port))] os of
        (Inl e, os1) \<Rightarrow>
          (Inl (''Failed to launch test node '' @ [CHR 0x27] @ node_id @ [CHR 0x27] @ '' ('' @ binary @ ''): '' @ e), kill_handles nodes os1)
      | (Inr process, os1) \<Rightarrow>
          (case connect_retry connect (node_addr port) 50 os1 of
             (None, os2) \<Rightarrow>
               (Inl (''Failed to connect to test node '' @ [CHR 0x27] @ node_id @ [CHR 0x27] @ '' at '' @ node_addr port @ '' after 5s of retries''),
                kill_handles nodes (kill_and_wait process os2))
           | (Some client, os2) \<Rightarrow>
               tcb_launch launch connect rest
                 (hm_insert node_id \<lparr>tnh_process = process, tnh_node_id = node_id, tnh_control_port = port, tnh_client = Some client\<rparr> nodes) os2))"

definition tcb_build ::
  "'w launcher \<Rightarrow> (string \<Rightarrow> 'w os_state \<Rightarrow> 'c option) \<Rightarrow> cluster_builder \<Rightarrow> 'w os_state \<Rightarrow> (string + 'c test_cluster) \<times> 'w os_state" where
  "tcb_build launch connect b os = tcb_launch launch connect b hm_empty os"

section \<open>Requests\<close>

datatype node_request =
    PingRequest string | NodeInfoRequest | ShutdownRequest bool u64 | FaultRequest string string u64 u32 string | ClearFaultsRequest
  | EventFilter "string list" | CustomRequest string bytes | SpawnActorRequest string string bytes | TellActorRequest string string bytes
  | AskActorRequest string string bytes u64 | StopActorRequest string | WatchActorRequest string string

datatype node_response =
    PingResponse string string u64 | NodeInfoResponse string u64 string u32 | EmptyResponse | EventStreamResponse "string list" | CustomResponse bytes
  | SpawnActorResponse "string actor_response" | TellActorResponse "unit actor_response" | AskActorResponse "bytes actor_response"
  | StopActorResponse "unit actor_response" | WatchActorResponse "unit actor_response"

text \<open>The generated server hands each request to the method of its name.\<close>

definition respond :: "('v actor_response \<Rightarrow> node_response) \<Rightarrow> 'k test_node \<Rightarrow> string + 'v actor_response \<times> 'k test_node \<Rightarrow> (string + node_response) \<times> 'k test_node" where
  "respond wrap n r = (case r of Inl e \<Rightarrow> (Inl e, n) | Inr (x, n1) \<Rightarrow> (Inr (wrap x), n1))"

fun tn_service :: "json_printer \<Rightarrow> instant \<Rightarrow> node_request \<Rightarrow> 'k test_node \<Rightarrow> (string + node_response) \<times> 'k test_node" where
  "tn_service js now (PingRequest echo) n = (case tn_ping now echo n of (e, i, u) \<Rightarrow> (Inr (PingResponse e i u), n))"
| "tn_service js now NodeInfoRequest n = (case tn_get_node_info now n of (i, u, a, c) \<Rightarrow> (Inr (NodeInfoResponse i u a c), n))"
| "tn_service js now (ShutdownRequest graceful timeout) n = (Inr EmptyResponse, tn_shutdown js now graceful timeout n)"
| "tn_service js now (FaultRequest ty tg dur cnt _) n = (Inr EmptyResponse, tn_inject_fault js now ty tg dur cnt n)"
| "tn_service js now ClearFaultsRequest n = (Inr EmptyResponse, tn_clear_faults now n)"
| "tn_service js now (EventFilter types) n = (Inr (EventStreamResponse types), n)"
| "tn_service js now (CustomRequest ty _) n = (map_sum id CustomResponse (tn_custom_command ty), n)"
| "tn_service js now (SpawnActorRequest ty name args) n = respond SpawnActorResponse n (tn_spawn_actor js now ty name args n)"
| "tn_service js now (TellActorRequest name ty payload) n = respond TellActorResponse n (tn_tell_actor name ty payload n)"
| "tn_service js now (AskActorRequest name ty payload timeout) n = respond AskActorResponse n (tn_ask_actor name ty payload timeout n)"
| "tn_service js now (StopActorRequest name) n = respond StopActorResponse n (tn_stop_actor js now name n)"
| "tn_service js now (WatchActorRequest w t) n = respond WatchActorResponse n (tn_watch_actor js now w t n)"

text \<open>A request over a connection, on the state of the nodes.\<close>

type_synonym ('c, 'w) rpc = "'c \<Rightarrow> node_request \<Rightarrow> 'w \<Rightarrow> (string + node_response) \<times> 'w"

definition tcl_client :: "'c test_cluster \<Rightarrow> string \<Rightarrow> string + 'c" where
  "tcl_client nodes node_id =
     (case hm_get nodes node_id of
        None \<Rightarrow> Inl ''node not found''
      | Some handle \<Rightarrow> (case tnh_client handle of None \<Rightarrow> Inl ''not connected'' | Some client \<Rightarrow> Inr client))"

definition tcl_request :: "('c, 'w) rpc \<Rightarrow> 'c test_cluster \<Rightarrow> string \<Rightarrow> node_request \<Rightarrow> 'w \<Rightarrow> (string + node_response) \<times> 'w" where
  "tcl_request rpc nodes node_id req w = (case tcl_client nodes node_id of Inl e \<Rightarrow> (Inl e, w) | Inr client \<Rightarrow> rpc client req w)"

definition tcl_ping :: "('c, 'w) rpc \<Rightarrow> 'c test_cluster \<Rightarrow> string \<Rightarrow> string \<Rightarrow> 'w \<Rightarrow> (string + node_response) \<times> 'w" where
  "tcl_ping rpc nodes node_id echo = tcl_request rpc nodes node_id (PingRequest echo)"

definition tcl_get_node_info :: "('c, 'w) rpc \<Rightarrow> 'c test_cluster \<Rightarrow> string \<Rightarrow> 'w \<Rightarrow> (string + node_response) \<times> 'w" where
  "tcl_get_node_info rpc nodes node_id = tcl_request rpc nodes node_id NodeInfoRequest"

definition tcl_inject_fault ::
  "('c, 'w) rpc \<Rightarrow> 'c test_cluster \<Rightarrow> string \<Rightarrow> string \<Rightarrow> string \<Rightarrow> u64 \<Rightarrow> u32 \<Rightarrow> 'w \<Rightarrow> (string + unit) \<times> 'w" where
  "tcl_inject_fault rpc nodes node_id fault_type target duration_ms cnt w =
     apfst (map_sum id (\<lambda>_. ())) (tcl_request rpc nodes node_id (FaultRequest fault_type target duration_ms cnt []) w)"

definition tcl_clear_faults :: "('c, 'w) rpc \<Rightarrow> 'c test_cluster \<Rightarrow> string \<Rightarrow> 'w \<Rightarrow> (string + unit) \<times> 'w" where
  "tcl_clear_faults rpc nodes node_id w = apfst (map_sum id (\<lambda>_. ())) (tcl_request rpc nodes node_id ClearFaultsRequest w)"

definition tcl_subscribe_events :: "('c, 'w) rpc \<Rightarrow> 'c test_cluster \<Rightarrow> string \<Rightarrow> string list \<Rightarrow> 'w \<Rightarrow> (string + node_response) \<times> 'w" where
  "tcl_subscribe_events rpc nodes node_id event_types = tcl_request rpc nodes node_id (EventFilter event_types)"

text \<open>A response has the kind of its request; other kinds do not occur.\<close>

definition tcl_custom :: "('c, 'w) rpc \<Rightarrow> 'c test_cluster \<Rightarrow> string \<Rightarrow> string \<Rightarrow> bytes \<Rightarrow> 'w \<Rightarrow> (string + bytes) \<times> 'w" where
  "tcl_custom rpc nodes node_id command_type payload w =
     apfst (map_sum id (\<lambda>r. case r of CustomResponse p \<Rightarrow> p | _ \<Rightarrow> [])) (tcl_request rpc nodes node_id (CustomRequest command_type payload) w)"

definition tcl_spawn_actor ::
  "('c, 'w) rpc \<Rightarrow> 'c test_cluster \<Rightarrow> string \<Rightarrow> string \<Rightarrow> string \<Rightarrow> bytes \<Rightarrow> 'w \<Rightarrow> (string + node_response) \<times> 'w" where
  "tcl_spawn_actor rpc nodes node_id actor_type actor_name args = tcl_request rpc nodes node_id (SpawnActorRequest actor_type actor_name args)"

definition tcl_tell_actor ::
  "('c, 'w) rpc \<Rightarrow> 'c test_cluster \<Rightarrow> string \<Rightarrow> string \<Rightarrow> string \<Rightarrow> bytes \<Rightarrow> 'w \<Rightarrow> (string + node_response) \<times> 'w" where
  "tcl_tell_actor rpc nodes node_id actor_name message_type payload = tcl_request rpc nodes node_id (TellActorRequest actor_name message_type payload)"

definition tcl_ask_actor_with_timeout ::
  "('c, 'w) rpc \<Rightarrow> 'c test_cluster \<Rightarrow> string \<Rightarrow> string \<Rightarrow> string \<Rightarrow> bytes \<Rightarrow> u64 \<Rightarrow> 'w \<Rightarrow> (string + node_response) \<times> 'w" where
  "tcl_ask_actor_with_timeout rpc nodes node_id actor_name message_type payload timeout_ms =
     tcl_request rpc nodes node_id (AskActorRequest actor_name message_type payload timeout_ms)"

definition tcl_ask_actor ::
  "('c, 'w) rpc \<Rightarrow> 'c test_cluster \<Rightarrow> string \<Rightarrow> string \<Rightarrow> string \<Rightarrow> bytes \<Rightarrow> 'w \<Rightarrow> (string + node_response) \<times> 'w" where
  "tcl_ask_actor rpc nodes node_id actor_name message_type payload =
     tcl_request rpc nodes node_id (AskActorRequest actor_name message_type payload 0)"

definition tcl_stop_actor :: "('c, 'w) rpc \<Rightarrow> 'c test_cluster \<Rightarrow> string \<Rightarrow> string \<Rightarrow> 'w \<Rightarrow> (string + node_response) \<times> 'w" where
  "tcl_stop_actor rpc nodes node_id actor_name = tcl_request rpc nodes node_id (StopActorRequest actor_name)"

definition tcl_watch_actor :: "('c, 'w) rpc \<Rightarrow> 'c test_cluster \<Rightarrow> string \<Rightarrow> string \<Rightarrow> string \<Rightarrow> 'w \<Rightarrow> (string + node_response) \<times> 'w" where
  "tcl_watch_actor rpc nodes node_id watcher_name target_name = tcl_request rpc nodes node_id (WatchActorRequest watcher_name target_name)"

text \<open>The two ends of a cluster.\<close>

definition tcl_shutdown_node :: "('c, 'w) rpc \<Rightarrow> 'c test_cluster \<Rightarrow> string \<Rightarrow> 'w os_state \<Rightarrow> 'w os_state" where
  "tcl_shutdown_node rpc nodes node_id os =
     (case hm_get nodes node_id of
        None \<Rightarrow> os
      | Some handle \<Rightarrow>
          kill_and_wait (tnh_process handle)
            (case tnh_client handle of None \<Rightarrow> os | Some client \<Rightarrow> os\<lparr>os_nodes := snd (rpc client (ShutdownRequest True 5000) (os_nodes os))\<rparr>))"

definition tcl_shutdown :: "('c, 'w) rpc \<Rightarrow> 'c test_cluster \<Rightarrow> 'w os_state \<Rightarrow> 'w os_state" where
  "tcl_shutdown rpc nodes os = foldl (\<lambda>s node_id. tcl_shutdown_node rpc nodes node_id s) os (hm_keys nodes)"

definition tcl_drop :: "'c test_cluster \<Rightarrow> 'w os_state \<Rightarrow> 'w os_state" where
  "tcl_drop nodes os = kill_handles nodes os"

section \<open>Processes are not leaked\<close>

text \<open>The processes of a cluster, and the invariant of the building loop: what runs is what ran before and the cluster's own.\<close>

definition cluster_pids :: "'c test_cluster \<Rightarrow> nat set" where
  "cluster_pids nodes = tnh_process ` set (hm_values nodes)"

lemma kill_and_wait_running [simp]: "set (os_running (kill_and_wait pid os)) = set (os_running os) - {pid}"
  by (simp add: kill_and_wait_def set_removeAll)

lemma foldl_kill_running:
  "set (os_running (foldl (\<lambda>s h. kill_and_wait (tnh_process h) s) os hs)) = set (os_running os) - tnh_process ` set hs"
  by (induction hs arbitrary: os) auto

lemma kill_handles_running: "set (os_running (kill_handles nodes os)) = set (os_running os) - cluster_pids nodes"
  by (simp add: kill_handles_def foldl_kill_running cluster_pids_def)

lemma connect_retry_keeps:
  "connect_retry connect addr k os = (c, os1) \<Longrightarrow> os_running os1 = os_running os \<and> os_next_pid os1 = os_next_pid os \<and> os_clock_ms os1 \<le> os_clock_ms os + 100 * k"
  by (induction connect addr k os rule: connect_retry.induct) (auto simp: Let_def os_sleep_def split: option.splits)

lemma cluster_pids_iff: "hm_wf nodes \<Longrightarrow> pid \<in> cluster_pids nodes \<longleftrightarrow> (\<exists>k h. hm_get nodes k = Some h \<and> tnh_process h = pid)"
  by (simp add: cluster_pids_def image_iff Bex_def set_hm_values) blast

lemma cluster_pids_insert:
  assumes "hm_wf nodes" and "hm_get nodes k = None"
  shows "cluster_pids (hm_insert k h nodes) = insert (tnh_process h) (cluster_pids nodes)"
proof (rule set_eqI)
  fix pid
  show "pid \<in> cluster_pids (hm_insert k h nodes) \<longleftrightarrow> pid \<in> insert (tnh_process h) (cluster_pids nodes)"
    unfolding cluster_pids_iff [OF hm.wf_insert [OF assms(1)]] insert_iff cluster_pids_iff [OF assms(1)] using assms(2)
    by (simp add: hm.get_insert split: if_splits) (metis option.distinct(1) option.inject)
qed

lemma tcl_shutdown_node_running:
  "set (os_running (tcl_shutdown_node rpc nodes k os)) = set (os_running os) - (case hm_get nodes k of None \<Rightarrow> {} | Some h \<Rightarrow> {tnh_process h})"
  by (auto simp: tcl_shutdown_node_def split: option.splits)

lemma foldl_shutdown_running:
  "set (os_running (foldl (\<lambda>s k. tcl_shutdown_node rpc nodes k s) os ks)) =
     set (os_running os) - {tnh_process h |k h. k \<in> set ks \<and> hm_get nodes k = Some h}"
  by (induction ks arbitrary: os) (auto simp: tcl_shutdown_node_running split: option.splits)

text \<open>The invariant of the building loop: what runs is what ran before (\<open>R\<close>) and, apart from it, the cluster's own processes.\<close>

definition owned :: "nat set \<Rightarrow> 'c test_cluster \<Rightarrow> 'w os_state \<Rightarrow> bool" where
  "owned R nodes os \<longleftrightarrow> hm_wf nodes \<and> set (os_running os) = R \<union> cluster_pids nodes \<and> R \<inter> cluster_pids nodes = {} \<and> (\<forall>pid\<in>set (os_running os). pid < os_next_pid os)"

lemma owned_kill: "owned R nodes os \<Longrightarrow> set (os_running (kill_handles nodes os)) = R"
  by (auto simp: owned_def kill_handles_running)

lemma owned_step:
  assumes own: "owned R nodes os" and new: "hm_get nodes k = None"
    and os1: "os_running os1 = os_next_pid os # os_running os" "os_next_pid os1 = Suc (os_next_pid os)"
  shows "owned R (hm_insert k \<lparr>tnh_process = os_next_pid os, tnh_node_id = i, tnh_control_port = port, tnh_client = c\<rparr> nodes) os1"
    and "set (os_running (kill_handles nodes (kill_and_wait (os_next_pid os) os1))) = R"
  using own cluster_pids_insert [OF _ new, of "\<lparr>tnh_process = os_next_pid os, tnh_node_id = i, tnh_control_port = port, tnh_client = c\<rparr>"] os1
  by (auto simp: owned_def kill_handles_running intro: less_SucI)

lemma tcb_launch_owned:
  "tcb_launch launch connect b nodes os = (r, os') \<Longrightarrow> owned R nodes os \<Longrightarrow> distinct (map fst b) \<Longrightarrow> \<forall>k\<in>set (map fst b). hm_get nodes k = None \<Longrightarrow>
   (case r of Inl _ \<Rightarrow> set (os_running os') = R
    | Inr nodes' \<Rightarrow> owned R nodes' os' \<and> set (hm_keys nodes') = set (hm_keys nodes) \<union> set (map fst b))"
proof (induction launch connect b nodes os arbitrary: r rule: tcb_launch.induct)
  case (2 launch connect node_id binary args port rest nodes os)
  let ?env = "[(''DACTOR_NODE_ID'', node_id), (''DACTOR_CONTROL_PORT'', show_nat (unat port))]"
  have new: "hm_get nodes node_id = None" using 2(5) by simp
  show ?case
  proof (cases "launch binary args ?env os")
    case (Some e)
    then show ?thesis using 2(2) owned_kill [OF 2(3)] by (auto simp: command_spawn_def)
  next
    case None
    define os1 where "os1 = os\<lparr>os_running := os_next_pid os # os_running os, os_next_pid := Suc (os_next_pid os)\<rparr>"
    obtain c os2 where conn: "connect_retry connect (node_addr port) 50 os1 = (c, os2)" by force
    note kept = connect_retry_keeps [OF conn]
    have os2: "os_running os2 = os_next_pid os # os_running os" "os_next_pid os2 = Suc (os_next_pid os)" using kept by (simp_all add: os1_def)
    note step = owned_step [OF 2(3) new os2]
    have sp: "command_spawn launch binary args ?env os = (Inr (os_next_pid os), os1)" by (simp add: command_spawn_def None os1_def)
    show ?thesis
    proof (cases c)
      case None
      then show ?thesis using 2(2) sp conn step(2) by auto
    next
      case (Some client)
      let ?n = "hm_insert node_id \<lparr>tnh_process = os_next_pid os, tnh_node_id = node_id, tnh_control_port = port, tnh_client = Some client\<rparr> nodes"
      have run: "tcb_launch launch connect rest ?n os2 = (r, os')" using 2(2) sp conn Some by simp
      have "\<forall>k\<in>set (map fst rest). hm_get ?n k = None" using 2(4,5) by auto
      from 2(1) [OF sp [symmetric] refl conn [symmetric] Some run step(1) _ this] 2(4) show ?thesis by (auto simp: hm.keys_insert split: sum.splits)
    qed
  qed
qed (auto simp: owned_def)

text \<open>C31. The harness leaks no process when the node names are distinct. A build that panics, at a launch or after the fifty connection attempts, has killed
  every process it started. A build that succeeds has exactly the named nodes, and both a shutdown of the cluster and its drop leave running what ran
  before the build.
\<close>

theorem cluster_leaks_no_process:
  fixes connect :: "string \<Rightarrow> 'w os_state \<Rightarrow> 'c option"
  assumes "tcb_build launch connect b os = (r, os')" and "distinct (map fst b)" and "\<forall>pid\<in>set (os_running os). pid < os_next_pid os"
  shows "case r of
      Inl _ \<Rightarrow> set (os_running os') = set (os_running os)
    | Inr nodes \<Rightarrow> set (hm_keys nodes) = set (map fst b) \<and>
        set (os_running (tcl_shutdown rpc nodes os')) = set (os_running os) \<and> set (os_running (tcl_drop nodes os')) = set (os_running os)"
proof -
  have "owned (set (os_running os)) (hm_empty :: 'c test_cluster) os"
    using assms(3) by (simp add: owned_def cluster_pids_def hm_values_def hm_empty_def hm_wf_def)
  note built = tcb_launch_owned [OF assms(1) [unfolded tcb_build_def] this assms(2)]
  have shut: "set (os_running (tcl_shutdown rpc nodes os')) = R" if "owned R nodes os'" for R and nodes :: "'c test_cluster"
  proof -
    have "{tnh_process h |k h. k \<in> set (hm_keys nodes) \<and> hm_get nodes k = Some h} = cluster_pids nodes"
      using that unfolding owned_def set_eq_iff by (simp add: cluster_pids_iff hm.keys_iff) blast
    then show ?thesis using that by (auto simp: tcl_shutdown_def foldl_shutdown_running owned_def)
  qed
  have keys: "set (hm_keys (hm_empty :: 'c test_cluster)) = {}" by (simp add: hm_keys_def hm_empty_def)
  show ?thesis
  proof (cases r)
    case (Inl e)
    then show ?thesis using built by simp
  next
    case (Inr nodes)
    then have own: "owned (set (os_running os)) nodes os'" and "set (hm_keys nodes) = set (map fst b)" using built keys by simp_all
    then show ?thesis using shut [OF own] owned_kill [OF own] by (simp add: Inr tcl_drop_def)
  qed
qed

text \<open>A builder of two nodes of which the second never answers: its panic leaves the process 7 that ran before.\<close>

definition one_answers :: "string \<Rightarrow> unit os_state \<Rightarrow> unit option" where
  "one_answers addr os = (if addr = ''http://127.0.0.1:1'' then Some () else None)"

definition busy_os :: "unit os_state" where
  "busy_os = \<lparr>os_running = [7], os_next_pid = 8, os_clock_ms = 0, os_nodes = ()\<rparr>"

lemma connect_retry_refused: "\<forall>s. connect addr s = None \<Longrightarrow> fst (connect_retry connect addr k os) = None"
  by (induction k arbitrary: os) (auto simp: Let_def)

lemma two_nodes_panic:
  "fst (tcb_build (\<lambda>_ _ _ _. None) one_answers (tcb_node ''b'' ''bin'' [] 2 (tcb_node ''a'' ''bin'' [] 1 tcb_new)) busy_os) =
     Inl (''Failed to connect to test node '' @ [CHR 0x27] @ ''b'' @ [CHR 0x27] @ '' at '' @ node_addr 2 @ '' after 5s of retries'')"
proof -
  have a: "one_answers (node_addr 1) s = Some ()" and b: "one_answers (node_addr 2) s = None" for s
    by (simp_all add: one_answers_def node_addr_def show_nat_small) (code_simp+)
  have ra: "connect_retry one_answers (node_addr 1) 50 s = (Some (), os_sleep 100 s)" for s
    using a by (simp add: numeral_eq_Suc)
  have "\<forall>s. \<exists>s'. connect_retry one_answers (node_addr 2) 50 s = (None, s')"
    using connect_retry_refused [of one_answers "node_addr 2" 50] b by (metis prod.collapse)
  then obtain g where rb: "\<And>s. connect_retry one_answers (node_addr 2) 50 s = (None, g s)" by metis
  show ?thesis by (simp add: tcb_build_def tcb_node_def tcb_new_def command_spawn_def ra rb)
qed

theorem cluster_leaks_no_process_witness:
  "\<exists>e os'. tcb_build (\<lambda>_ _ _ _. None) one_answers (tcb_node ''b'' ''bin'' [] 2 (tcb_node ''a'' ''bin'' [] 1 tcb_new)) busy_os = (Inl e, os') \<and>
     set (os_running os') = {7}"
proof -
  obtain e os' where e: "tcb_build (\<lambda>_ _ _ _. None) one_answers (tcb_node ''b'' ''bin'' [] 2 (tcb_node ''a'' ''bin'' [] 1 tcb_new)) busy_os = (Inl e, os')"
    using two_nodes_panic by (metis prod.collapse)
  from cluster_leaks_no_process [OF e] have "set (os_running os') = {7}" by (simp add: tcb_node_def tcb_new_def busy_os_def)
  with e show ?thesis by blast
qed

text \<open>With a name used twice the handle of the first process is replaced, and no later step kills that process.\<close>

lemma namesake_process_leaks:
  "\<exists>nodes os'. tcb_build (\<lambda>_ _ _ _. None) (\<lambda>_ _. Some ()) (tcb_node ''a'' ''bin'' [] 2 (tcb_node ''a'' ''bin'' [] 1 tcb_new)) busy_os = (Inr nodes, os') \<and>
     set (os_running (tcl_drop nodes os')) = {7, 8}"
proof -
  have c: "connect_retry (\<lambda>_ _. Some ()) addr 50 s = (Some (), os_sleep 100 s)" for addr and s :: "unit os_state"
    by (simp add: numeral_eq_Suc)
  show ?thesis
    by (auto simp: tcb_build_def tcb_node_def tcb_new_def command_spawn_def c tcl_drop_def kill_handles_running cluster_pids_def hm_values_def hm_insert_def
        hm_empty_def busy_os_def os_sleep_def)
qed

text \<open>Requests reach one node only: over connections that lead to the nodes of a table, a fault injected on one node leaves the others as they were, and
  cuts off the actor on that node.\<close>

definition table_rpc :: "json_printer \<Rightarrow> instant \<Rightarrow> (string, (string, 'k test_node) hashmap) rpc" where
  "table_rpc js now client req w =
     (case hm_get w client of
        None \<Rightarrow> (Inl ''transport error'', w)
      | Some n \<Rightarrow> (case tn_service js now req n of (r, n1) \<Rightarrow> (r, hm_insert client n1 w)))"

theorem cluster_fault_is_local:
  assumes "tcl_client nodes node_id = Inr client" and "hm_get w client = Some n" and "tn_handler n \<noteq> None"
    and "tcl_inject_fault (table_rpc js now) nodes node_id ''partition'' name dur cnt w = (r, w1)"
  shows "r = Inr ()" and "\<forall>c. c \<noteq> client \<longrightarrow> hm_get w1 c = hm_get w c"
    and "fst (tcl_tell_actor (table_rpc js now') nodes node_id name ty payload w1) =
      Inr (TellActorResponse \<lparr>ars_success = False, ars_value = (), ars_error = ''partition: message delivery blocked''\<rparr>)"
proof -
  have w1: "w1 = hm_insert client (tn_inject_fault js now ''partition'' name dur cnt n) w" and "r = Inr ()"
    using assms by (auto simp: tcl_inject_fault_def tcl_request_def table_rpc_def)
  then show "r = Inr ()" "\<forall>c. c \<noteq> client \<longrightarrow> hm_get w1 c = hm_get w c" by auto
  show "fst (tcl_tell_actor (table_rpc js now') nodes node_id name ty payload w1) =
      Inr (TellActorResponse \<lparr>ars_success = False, ars_value = (), ars_error = ''partition: message delivery blocked''\<rparr>)"
    using assms(1,3) unfolding w1
    by (auto simp: tcl_tell_actor_def tcl_request_def table_rpc_def respond_def tn_tell_actor_def tn_inject_fault_def fi_has_fault_def fi_add_fault_def)
qed

end
