(* ===== verification/Node_Binaries.thy ===== *)
theory Node_Binaries
  imports Harness_Cluster Kameo_Actor
begin

text \<open>
  The programs that run as test nodes (\<^verbatim>\<open>src/bin/test_node_*.rs\<close> of the three adapters): the counter actor and the command handler that spawns such
  actors and passes tells and asks on to them. The three files have the same text over different runtimes, so the handler is modelled once over a
  record of what it calls of the runtime and its references; the JSON library is a record of the conversions used.
\<close>

type_synonym i64 = "64 word"

section \<open>The counter actor\<close>

datatype counter_msg =
    Increment i64 | SetCount i64 | SlowIncrement i64 | GetCount | Echo bytes | SlowEcho bytes | ChildGone child_terminated

datatype counter_reply = UnitReply | CountReply (count_reply: i64) | BytesReply (bytes_reply: bytes)

text \<open>The handlers, on the count and a clock in milliseconds; additions wrap as in a release build.\<close>

fun counter_handle :: "counter_msg \<Rightarrow> (i64, 'p, nat) exec \<Rightarrow> counter_reply handler_run \<times> (i64, 'p, nat) exec" where
  "counter_handle (Increment amount) (cnt, ctx, t) = (Returned UnitReply, cnt + amount, ctx, t)"
| "counter_handle (SetCount value) (cnt, ctx, t) = (Returned UnitReply, value, ctx, t)"
| "counter_handle (SlowIncrement amount) (cnt, ctx, t) = (Returned UnitReply, cnt + amount, ctx, t + 500)"
| "counter_handle GetCount (cnt, ctx, t) = (Returned (CountReply cnt), cnt, ctx, t)"
| "counter_handle (Echo payload) (cnt, ctx, t) = (Returned (BytesReply payload), cnt, ctx, t)"
| "counter_handle (SlowEcho payload) (cnt, ctx, t) = (Returned (BytesReply payload), cnt, ctx, t + 2000)"
| "counter_handle (ChildGone _) (cnt, ctx, t) = (Returned UnitReply, - 999, ctx, t)"

text \<open>The actor has the trait's default hooks and no stream handlers, so no stream envelope can be sent to it.\<close>

definition counter_actor :: "(i64, counter_msg, unit, counter_reply, 'p, nat) actor_impl" where
  "counter_actor = \<lparr>ai_message_type = (\<lambda>m. case m of Increment _ \<Rightarrow> ''Increment'' | SetCount _ \<Rightarrow> ''SetCount'' | SlowIncrement _ \<Rightarrow> ''SlowIncrement''
       | GetCount \<Rightarrow> ''GetCount'' | Echo _ \<Rightarrow> ''Echo'' | SlowEcho _ \<Rightarrow> ''SlowEcho'' | ChildGone _ \<Rightarrow> ''ChildTerminated''),
     ai_item_type = [], ai_on_start = (\<lambda>x. (Returned (), x)), ai_handle = counter_handle,
     ai_handle_expand = (\<lambda>_ _ x. (Returned (), x)), ai_handle_reduce = (\<lambda>_ x. (Returned UnitReply, x)),
     ai_handle_transform = (\<lambda>_ _ x. (Returned (), x)), ai_on_transform_complete = (\<lambda>_ x. (Returned (), x)),
     ai_on_error = (\<lambda>a _. (Stop, a)), ai_on_stop = (\<lambda>a. (Returned (), a))\<rparr>"

section \<open>The command handler\<close>

text \<open>What the handler uses of a runtime \<open>'r\<close> and its references \<open>'f\<close>. An accepted ask is resolved after some milliseconds, with an error or a reply.
  Time passes in the state of the runtime.\<close>

record ('f, 'r) counter_backend =
  cbe_spawn :: "string \<Rightarrow> i64 \<Rightarrow> 'r \<Rightarrow> (string + 'f) \<times> 'r"
  cbe_id :: "'f \<Rightarrow> string"
  cbe_tell :: "'f \<Rightarrow> counter_msg \<Rightarrow> 'r \<Rightarrow> (string + unit) \<times> 'r"
  cbe_ask :: "'f \<Rightarrow> counter_msg \<Rightarrow> 'r \<Rightarrow> (string + nat \<times> (string + counter_reply)) \<times> 'r"
  cbe_stop :: "'f \<Rightarrow> 'r \<Rightarrow> 'r"
  cbe_is_alive :: "'f \<Rightarrow> 'r \<Rightarrow> bool"
  cbe_sleep :: "nat \<Rightarrow> 'r \<Rightarrow> 'r"

text \<open>\<open>js_forward\<close> gives the string under \<^verbatim>\<open>target\<close> and the integer under \<^verbatim>\<open>amount\<close>, if they are there.\<close>

record json_codec =
  js_int :: "bytes \<Rightarrow> string + i64"
  js_forward :: "bytes \<Rightarrow> string + string option \<times> i64 option"
  js_count :: "i64 \<Rightarrow> string + bytes"
  js_state :: "i64 \<Rightarrow> string \<Rightarrow> string + bytes"

record ('f, 'r) counter_node =
  cn_runtime :: 'r
  cn_actors :: "(string, 'f) hashmap"
  cn_watches :: "(string \<times> string) list"
  cn_live_count :: u32

definition cn_new :: "'r \<Rightarrow> ('f, 'r) counter_node" where
  "cn_new runtime = \<lparr>cn_runtime = runtime, cn_actors = hm_empty, cn_watches = [], cn_live_count = 0\<rparr>"

definition quoted :: "string \<Rightarrow> string" where
  "quoted s = [CHR 0x27] @ s @ [CHR 0x27]"

definition cn_spawn_actor ::
  "('f, 'r) counter_backend \<Rightarrow> json_codec \<Rightarrow> string \<Rightarrow> string \<Rightarrow> bytes \<Rightarrow> ('f, 'r) counter_node \<Rightarrow> (string + string) \<times> ('f, 'r) counter_node" where
  "cn_spawn_actor B J actor_type actor_name args n =
     (if actor_type \<noteq> ''counter'' then (Inl (''unknown actor type: '' @ actor_type), n)
      else case (if args = [] then Inr 0 else js_int J args) of
        Inl e \<Rightarrow> (Inl (''bad args: '' @ e), n)
      | Inr initial \<Rightarrow>
          (case cbe_spawn B actor_name initial (cn_runtime n) of
             (Inl e, rt) \<Rightarrow> (Inl (''spawn failed: '' @ e), n\<lparr>cn_runtime := rt\<rparr>)
           | (Inr actor_ref, rt) \<Rightarrow>
               if hm_get (cn_actors n) actor_name \<noteq> None
               then (Inl (''actor '' @ quoted actor_name @ '' already exists''), n\<lparr>cn_runtime := rt\<rparr>)
               else (Inr (cbe_id B actor_ref),
                     n\<lparr>cn_runtime := rt, cn_actors := hm_insert actor_name actor_ref (cn_actors n), cn_live_count := cn_live_count n + 1\<rparr>)))"

text \<open>A tell whose error is given back with a prefix.\<close>

definition cn_send ::
  "('f, 'r) counter_backend \<Rightarrow> string \<Rightarrow> 'f \<Rightarrow> counter_msg \<Rightarrow> ('f, 'r) counter_node \<Rightarrow> (string + unit) \<times> ('f, 'r) counter_node" where
  "cn_send B prefix actor_ref msg n =
     (case cbe_tell B actor_ref msg (cn_runtime n) of (r, rt) \<Rightarrow> (map_sum (\<lambda>e. prefix @ e) id r, n\<lparr>cn_runtime := rt\<rparr>))"

definition cn_send_int ::
  "('f, 'r) counter_backend \<Rightarrow> string + i64 \<Rightarrow> (i64 \<Rightarrow> counter_msg) \<Rightarrow> 'f \<Rightarrow> ('f, 'r) counter_node \<Rightarrow> (string + unit) \<times> ('f, 'r) counter_node" where
  "cn_send_int B parsed msg actor_ref n =
     (case parsed of
        Inl e \<Rightarrow> (Inl (''bad payload: '' @ e), n)
      | Inr amount \<Rightarrow> cn_send B ''tell failed: '' actor_ref (msg amount) n)"

definition cn_tell_actor ::
  "('f, 'r) counter_backend \<Rightarrow> json_codec \<Rightarrow> string \<Rightarrow> string \<Rightarrow> bytes \<Rightarrow> ('f, 'r) counter_node \<Rightarrow> (string + unit) \<times> ('f, 'r) counter_node" where
  "cn_tell_actor B J actor_name message_type payload n =
     (case hm_get (cn_actors n) actor_name of
        None \<Rightarrow> (Inl (''actor '' @ quoted actor_name @ '' not found''), n)
      | Some actor_ref \<Rightarrow>
          if message_type = ''increment'' then cn_send_int B (if payload = [] then Inr 1 else js_int J payload) Increment actor_ref n
          else if message_type = ''set_count'' then cn_send_int B (js_int J payload) SetCount actor_ref n
          else if message_type = ''slow_increment'' then cn_send_int B (js_int J payload) SlowIncrement actor_ref n
          else if message_type = ''forward_increment''
          then (case js_forward J payload of
                  Inl e \<Rightarrow> (Inl (''bad payload: '' @ e), n)
                | Inr (None, _) \<Rightarrow> (Inl ''missing target'', n)
                | Inr (Some target, None) \<Rightarrow> (Inl ''missing amount'', n)
                | Inr (Some target, Some amount) \<Rightarrow>
                    (case hm_get (cn_actors n) target of
                       None \<Rightarrow> (Inl (''forward target '' @ quoted target @ '' not found''), n)
                     | Some target_ref \<Rightarrow> cn_send B ''forward failed: '' target_ref (Increment amount) n))
          else (Inl (''unknown message type: '' @ message_type), n))"

text \<open>The future of one ask under the time limit, if there is one; \<open>finish\<close> makes the payload of the reply.\<close>

definition cn_ask ::
  "('f, 'r) counter_backend \<Rightarrow> 'f \<Rightarrow> counter_msg \<Rightarrow> (counter_reply \<Rightarrow> string + bytes) \<Rightarrow> u64 \<Rightarrow> ('f, 'r) counter_node
    \<Rightarrow> (string + bytes) \<times> ('f, 'r) counter_node" where
  "cn_ask B actor_ref msg finish timeout_ms n =
     (case cbe_ask B actor_ref msg (cn_runtime n) of
        (Inl e, rt) \<Rightarrow> (Inl (''ask failed: '' @ e), n\<lparr>cn_runtime := rt\<rparr>)
      | (Inr (ms, resolved), rt) \<Rightarrow>
          if 0 < timeout_ms \<and> unat timeout_ms < ms
          then (Inl ''ask timed out'', n\<lparr>cn_runtime := cbe_sleep B (unat timeout_ms) rt\<rparr>)
          else (case resolved of Inl e \<Rightarrow> Inl (''reply failed: '' @ e) | Inr reply \<Rightarrow> finish reply, n\<lparr>cn_runtime := cbe_sleep B ms rt\<rparr>))"

definition cn_ask_actor ::
  "('f, 'r) counter_backend \<Rightarrow> json_codec \<Rightarrow> string \<Rightarrow> string \<Rightarrow> bytes \<Rightarrow> u64 \<Rightarrow> ('f, 'r) counter_node \<Rightarrow> (string + bytes) \<times> ('f, 'r) counter_node" where
  "cn_ask_actor B J actor_name message_type payload timeout_ms n =
     (case hm_get (cn_actors n) actor_name of
        None \<Rightarrow> (Inl (''actor '' @ quoted actor_name @ '' not found''), n)
      | Some actor_ref \<Rightarrow>
          let serialized = map_sum (\<lambda>e. ''serialize failed: '' @ e) id in
          if message_type = ''get_count'' then cn_ask B actor_ref GetCount (\<lambda>y. serialized (js_count J (count_reply y))) timeout_ms n
          else if message_type = ''get_state'' then cn_ask B actor_ref GetCount (\<lambda>y. serialized (js_state J (count_reply y) actor_name)) timeout_ms n
          else if message_type = ''echo'' then cn_ask B actor_ref (Echo payload) (\<lambda>y. Inr (bytes_reply y)) timeout_ms n
          else if message_type = ''slow_echo'' then cn_ask B actor_ref (SlowEcho payload) (\<lambda>y. Inr (bytes_reply y)) timeout_ms n
          else (Inl (''unknown message type: '' @ message_type), n))"

text \<open>The wait for a stopped actor: up to a hundred looks, ten milliseconds apart.\<close>

fun cn_await_dead :: "('f, 'r) counter_backend \<Rightarrow> 'f \<Rightarrow> nat \<Rightarrow> 'r \<Rightarrow> bool \<times> 'r" where
  "cn_await_dead B actor_ref 0 rt = (False, rt)"
| "cn_await_dead B actor_ref (Suc k) rt = (if \<not> cbe_is_alive B actor_ref rt then (True, rt) else cn_await_dead B actor_ref k (cbe_sleep B 10 rt))"

definition cn_watcher_refs :: "string \<Rightarrow> ('f, 'r) counter_node \<Rightarrow> 'f list" where
  "cn_watcher_refs actor_name n =
     List.map_filter (\<lambda>(watcher, _). hm_get (cn_actors n) watcher) (filter (\<lambda>(_, target). target = actor_name) (cn_watches n))"

definition cn_stop_actor ::
  "('f, 'r) counter_backend \<Rightarrow> string \<Rightarrow> ('f, 'r) counter_node \<Rightarrow> (string + unit) \<times> ('f, 'r) counter_node" where
  "cn_stop_actor B actor_name n =
     (case hm_get (cn_actors n) actor_name of
        None \<Rightarrow> (Inl (''actor '' @ quoted actor_name @ '' not found''), n)
      | Some actor_ref \<Rightarrow>
          let n1 = n\<lparr>cn_actors := hm_remove actor_name (cn_actors n)\<rparr> in
          case cn_await_dead B actor_ref 100 (cbe_stop B actor_ref (cn_runtime n1)) of
            (True, rt) \<Rightarrow>
              (let n2 = n1\<lparr>cn_runtime := rt, cn_live_count := cn_live_count n1 - 1\<rparr>
               in (Inr (), foldl (\<lambda>m watcher_ref. snd (cn_send B [] watcher_ref (ChildGone (ChildTerminated (ActorId (NodeId ''local'') 0) actor_name None)) m))
                     n2 (cn_watcher_refs actor_name n2)))
          | (False, rt) \<Rightarrow>
              (Inl (''actor '' @ quoted actor_name @ '' did not terminate within 1s''), n1\<lparr>cn_runtime := rt, cn_live_count := cn_live_count n1 - 1\<rparr>))"

definition cn_watch_actor :: "string \<Rightarrow> string \<Rightarrow> ('f, 'r) counter_node \<Rightarrow> (string + unit) \<times> ('f, 'r) counter_node" where
  "cn_watch_actor watcher_name target_name n =
     (if hm_get (cn_actors n) watcher_name = None then (Inl (''watcher '' @ quoted watcher_name @ '' not found''), n)
      else if hm_get (cn_actors n) target_name = None then (Inl (''target '' @ quoted target_name @ '' not found''), n)
      else if (watcher_name, target_name) \<in> set (cn_watches n) then (Inr (), n)
      else (Inr (), n\<lparr>cn_watches := cn_watches n @ [(watcher_name, target_name)]\<rparr>))"

definition counter_command_handler :: "string \<Rightarrow> ('f, 'r) counter_backend \<Rightarrow> json_codec \<Rightarrow> ('f, 'r) counter_node command_handler" where
  "counter_command_handler adapter B J = \<lparr>chd_adapter_name = adapter, chd_spawn_actor = cn_spawn_actor B J, chd_tell_actor = cn_tell_actor B J,
     chd_ask_actor = cn_ask_actor B J, chd_stop_actor = cn_stop_actor B, chd_watch_actor = cn_watch_actor, chd_actor_count = cn_live_count\<rparr>"

definition ractor_command_handler :: "('f, 'r) counter_backend \<Rightarrow> json_codec \<Rightarrow> ('f, 'r) counter_node command_handler" where
  "ractor_command_handler = counter_command_handler ''ractor''"

definition kameo_command_handler :: "('f, 'r) counter_backend \<Rightarrow> json_codec \<Rightarrow> ('f, 'r) counter_node command_handler" where
  "kameo_command_handler = counter_command_handler ''kameo''"

definition coerce_command_handler :: "('f, 'r) counter_backend \<Rightarrow> json_codec \<Rightarrow> ('f, 'r) counter_node command_handler" where
  "coerce_command_handler = counter_command_handler ''coerce''"

section \<open>The interface between a test node and its handler\<close>

text \<open>A handler whose five operations keep a property of its state keeps it behind a test node, whatever requests the node gets.\<close>

locale handler_keeps =
  fixes h :: "'k command_handler" and P :: "'k \<Rightarrow> bool"
  assumes spawn_keeps: "P k \<Longrightarrow> P (snd (chd_spawn_actor h ty name args k))"
    and tell_keeps: "P k \<Longrightarrow> P (snd (chd_tell_actor h name ty payload k))"
    and ask_keeps: "P k \<Longrightarrow> P (snd (chd_ask_actor h name ty payload timeout k))"
    and stop_keeps: "P k \<Longrightarrow> P (snd (chd_stop_actor h name k))"
    and watch_keeps: "P k \<Longrightarrow> P (snd (chd_watch_actor h w t k))"
begin

definition hosts :: "'k test_node \<Rightarrow> bool" where
  "hosts n \<longleftrightarrow> (\<exists>k. tn_handler n = Some (h, k) \<and> P k)"

lemma hosts_emit: "hosts (tn_emit_event now ty d n) = hosts n"
  by (simp add: hosts_def)

lemma hosts_call:
  assumes "hosts n" and "with_handler call n = Inr (x, n1)" and "\<And>k. P k \<Longrightarrow> P (snd (call h k))"
  shows "hosts n1"
  using assms by (fastforce simp: hosts_def with_handler_def split: option.splits prod.splits)

lemma apply_keeps:
  assumes n: "hosts n"
  shows "hosts (tn_apply js n (now, x))"
proof (cases x)
  case (OpInject ty tg dur cnt)
  then show ?thesis using n by (simp add: tn_inject_fault_def hosts_emit) (simp add: hosts_def)
next
  case OpClear
  then show ?thesis using n by (simp add: tn_clear_faults_def hosts_emit) (simp add: hosts_def)
next
  case (OpShutdown graceful timeout)
  then show ?thesis using n by (simp add: tn_shutdown_def hosts_def)
next
  case (OpSpawn ty name args)
  then show ?thesis using n hosts_call [OF n, of "\<lambda>h. chd_spawn_actor h ty name args"] spawn_keeps
    by (auto simp: tn_spawn_actor_def hosts_emit split: sum.splits prod.splits)
next
  case (OpTell name ty payload)
  then show ?thesis using n hosts_call [OF n, of "\<lambda>h. chd_tell_actor h name ty payload"] tell_keeps
    by (auto simp: tn_tell_actor_def split: sum.splits prod.splits if_splits)
next
  case (OpAsk name ty payload timeout)
  then show ?thesis using n hosts_call [OF n, of "\<lambda>h. chd_ask_actor h name ty payload timeout"] ask_keeps
    by (auto simp: tn_ask_actor_def split: sum.splits prod.splits if_splits)
next
  case (OpStop name)
  then show ?thesis using n hosts_call [OF n, of "\<lambda>h. chd_stop_actor h name"] stop_keeps
    by (auto simp: tn_stop_actor_def hosts_emit split: sum.splits prod.splits)
next
  case (OpWatchActor w t)
  then show ?thesis using n hosts_call [OF n, of "\<lambda>h. chd_watch_actor h w t"] watch_keeps
    by (auto simp: tn_watch_actor_def hosts_emit split: sum.splits prod.splits)
qed

lemma run_keeps: "hosts n \<Longrightarrow> hosts (foldl (tn_apply js) n ops)"
proof (induction ops arbitrary: n)
  case (Cons a ops)
  then show ?case using apply_keeps [OF Cons.prems, of js "fst a" "snd a"] by simp
qed simp

end

section \<open>The count of live actors\<close>

definition count_ok :: "('f, 'r) counter_node \<Rightarrow> bool" where
  "count_ok n \<longleftrightarrow> hm_wf (cn_actors n) \<and> cn_live_count n = of_nat (length (hm_keys (cn_actors n)))"

lemma count_ok_runtime [simp]: "count_ok (n\<lparr>cn_runtime := rt\<rparr>) = count_ok n" "count_ok (n\<lparr>cn_watches := ws\<rparr>) = count_ok n"
  by (simp_all add: count_ok_def)

lemma count_ok_send [simp]: "count_ok (snd (cn_send B prefix actor_ref msg n)) = count_ok n"
  by (simp add: cn_send_def split: prod.split)

lemma count_ok_ask [simp]: "count_ok (snd (cn_ask B actor_ref msg finish timeout n)) = count_ok n"
  by (simp add: cn_ask_def split: prod.split sum.split)

lemma count_ok_notify: "count_ok n \<Longrightarrow> count_ok (foldl (\<lambda>m r. snd (cn_send B [] r msg m)) n rs)"
  by (induction rs arbitrary: n) simp_all

lemma count_ok_spawn: "count_ok n \<Longrightarrow> count_ok (snd (cn_spawn_actor B J ty name args n))"
  by (auto simp: cn_spawn_actor_def count_ok_def hm.length_keys_insert split: sum.split prod.split)

lemma count_ok_tell: "count_ok n \<Longrightarrow> count_ok (snd (cn_tell_actor B J name ty payload n))"
  by (auto simp: cn_tell_actor_def cn_send_int_def split: option.split sum.split prod.split)

lemma count_ok_ask_actor: "count_ok n \<Longrightarrow> count_ok (snd (cn_ask_actor B J name ty payload timeout n))"
  by (auto simp: cn_ask_actor_def Let_def split: option.split)

lemma count_ok_removed:
  assumes "count_ok n" and "hm_get (cn_actors n) name = Some r"
  shows "count_ok (n\<lparr>cn_actors := hm_remove name (cn_actors n), cn_runtime := rt, cn_live_count := cn_live_count n - 1\<rparr>)"
proof -
  have "length (hm_keys (cn_actors n)) = Suc (length (hm_keys (hm_remove name (cn_actors n))))"
    using assms hm.length_keys_remove [of "cn_actors n" name] length_pos_if_in_set [of name "hm_keys (cn_actors n)"]
    by (auto simp: count_ok_def hm.keys_iff)
  then show ?thesis using assms(1) by (simp add: count_ok_def)
qed

lemma count_ok_stop:
  assumes ok: "count_ok n"
  shows "count_ok (snd (cn_stop_actor B name n))"
proof (cases "hm_get (cn_actors n) name")
  case None
  then show ?thesis using ok by (simp add: cn_stop_actor_def)
next
  case (Some r)
  obtain dead rt where d: "cn_await_dead B r 100 (cbe_stop B r (cn_runtime n)) = (dead, rt)" by force
  note removed = count_ok_removed [OF ok Some, of rt]
  show ?thesis
  proof (cases dead)
    case True
    then show ?thesis using Some d count_ok_notify [OF removed] by (simp add: cn_stop_actor_def Let_def)
  next
    case False
    then show ?thesis using Some d removed by (simp add: cn_stop_actor_def Let_def)
  qed
qed

interpretation counter: handler_keeps "counter_command_handler adapter B J" count_ok for adapter B J
proof unfold_locales
  fix k :: "('a, 'b) counter_node" and ty name payload args timeout w t
  assume k: "count_ok k"
  show "count_ok (snd (chd_spawn_actor (counter_command_handler adapter B J) ty name args k))"
    using count_ok_spawn [OF k] by (simp add: counter_command_handler_def)
  show "count_ok (snd (chd_tell_actor (counter_command_handler adapter B J) name ty payload k))"
    using count_ok_tell [OF k] by (simp add: counter_command_handler_def)
  show "count_ok (snd (chd_ask_actor (counter_command_handler adapter B J) name ty payload timeout k))"
    using count_ok_ask_actor [OF k] by (simp add: counter_command_handler_def)
  show "count_ok (snd (chd_stop_actor (counter_command_handler adapter B J) name k))"
    using count_ok_stop [OF k] by (simp add: counter_command_handler_def)
  show "count_ok (snd (chd_watch_actor (counter_command_handler adapter B J) w t k))"
    using k by (simp add: counter_command_handler_def cn_watch_actor_def)
qed

text \<open>C34. A test node reports the number of its actors. After any sequence of requests to a new node of a counter handler, over any runtime, the actor count in
  the node's information is the number of names the handler has, and these are distinct: failed and repeated spawns and stops of unknown names do not
  disturb it, and a stop counts the actor out also when it does not terminate in time.
\<close>

theorem node_counts_its_actors:
  "let handler = counter_command_handler adapter B J;
       n = foldl (tn_apply js) (tn_with_handler i port handler (cn_new rt) start) ops
   in \<exists>k. tn_handler n = Some (handler, k) \<and> distinct (hm_keys (cn_actors k)) \<and>
        tn_get_node_info now n = (tn_node_id n, tn_uptime_ms now n, adapter, of_nat (length (hm_keys (cn_actors k))))"
proof -
  let ?n = "foldl (tn_apply js) (tn_with_handler i port (counter_command_handler adapter B J) (cn_new rt) start) ops"
  have "counter.hosts adapter B J (tn_with_handler i port (counter_command_handler adapter B J) (cn_new rt) start)"
    by (simp add: counter.hosts_def tn_with_handler_def cn_new_def count_ok_def hm_keys_def hm_empty_def hm_wf_def)
  from counter.run_keeps [OF this, of js ops] obtain k
    where k: "tn_handler ?n = Some (counter_command_handler adapter B J, k)" "count_ok k" by (auto simp: counter.hosts_def)
  then show ?thesis
    unfolding Let_def by (intro exI [of _ k]) (simp add: tn_get_node_info_def count_ok_def counter_command_handler_def hm.wf_keys)
qed

text \<open>A spawn under a name that is taken fails only after the runtime has spawned the actor: where the runtime takes the name, an actor is left running
  that no request can reach or stop.\<close>

lemma duplicate_spawn_leaves_actor:
  assumes "hm_get (cn_actors n) name \<noteq> None" and "cbe_spawn B name 0 (cn_runtime n) = (Inr r, rt)"
  shows "cn_spawn_actor B J ''counter'' name [] n = (Inl (''actor '' @ quoted name @ '' already exists''), n\<lparr>cn_runtime := rt\<rparr>)"
  using assms by (simp add: cn_spawn_actor_def)

section \<open>The counter behind an adapter\<close>

text \<open>What a message makes of the count.\<close>

fun counted :: "i64 \<Rightarrow> counter_msg \<Rightarrow> i64" where
  "counted c (Increment a) = c + a"
| "counted c (SetCount v) = v"
| "counted c (SlowIncrement a) = c + a"
| "counted c (ChildGone _) = - 999"
| "counted c _ = c"

lemma ra_handle_counter:
  assumes "ras_interceptors st = []" and "ra_handle T counter_actor (TypedDispatch m) (st, su) = (st', su')"
  shows "ras_interceptors st' = []" and "ras_actor st' = counted (ras_actor st) m" and "su_stop su' = su_stop su"
  using assms by (cases m; auto simp: ra_handle_def ra_complete_def run_handler_def collect_handler_wrappers_def counter_actor_def Let_def dr_tell_def)+

lemma ra_run_counter:
  assumes "\<not> su_stop su" and "ras_interceptors st = []"
  shows "\<exists>st' su'. ra_run T counter_actor (st, su) (map TypedDispatch ms @ ds) = ra_run T counter_actor (st', su') ds \<and>
    ras_interceptors st' = [] \<and> ras_actor st' = foldl counted (ras_actor st) ms \<and> \<not> su_stop su'"
  using assms
proof (induction ms arbitrary: st su)
  case (Cons m ms)
  obtain st1 su1 where h: "ra_handle T counter_actor (TypedDispatch m) (st, su) = (st1, su1)" by force
  note one = ra_handle_counter [OF Cons.prems(2) h]
  show ?case using Cons.IH [of su1 st1] one h Cons.prems(1) by simp
qed auto

text \<open>
  The counter counts. Behind the ractor adapter without interceptors, a counter that gets any tells and then an ask for its count answers that ask with
  what the tells make of its count in the order they were sent, modulo 2 to the 64.
\<close>

theorem counter_answers:
  assumes "\<not> su_stop su" and "ras_interceptors st = []"
    and "ra_run T counter_actor (st, su) (map TypedDispatch ms @ [AskDispatch GetCount tx None]) = (st', su')"
  shows "su_oneshots su' tx = OsSent (Inr (CountReply (foldl counted (ras_actor st) ms)))"
proof -
  obtain st1 su1 where r: "ra_run T counter_actor (st1, su1) [AskDispatch GetCount tx None] = (st', su')" "ras_interceptors st1 = []"
      "ras_actor st1 = foldl counted (ras_actor st) ms"
    using ra_run_counter [OF assms(1,2), of T ms "[AskDispatch GetCount tx None]"] assms(3) by metis
  have "su_oneshots (snd (ra_handle T counter_actor (AskDispatch GetCount tx None) (st1, su1))) tx = OsSent (Inr (CountReply (ras_actor st1)))"
    using r(2) by (simp add: ra_handle_def ra_complete_def run_handler_def collect_handler_wrappers_def counter_actor_def Let_def dr_send_reply_def)
  then show ?thesis using r by (simp add: Let_def split: if_splits)
qed

end
