(* ===== verification/Conformance.thy ===== *)
theory Conformance
  imports Test_Runtime "HOL-Library.Monad_Syntax"
begin

text \<open>
  The conformance suite (\<^verbatim>\<open>dactor/src/test_support/conformance.rs\<close>): the tests of tells, asks, stopping, cancellation and recovery from panics, as programs
  over the operations a runtime offers. The locale \<open>conforming_runtime\<close> states what they rely on; that the tests pass is proved from it. The ractor
  adapter is put together from the models of its references and actors over a library with ractor's promises, an argument, and shown to conform; the test
  runtime does not pass the test of tells after a stop. The tests of streams and of concurrent callers are not here.
\<close>

section \<open>The interface of the tests\<close>

text \<open>\<open>api_ask\<close> sends the request and awaits its reply; \<open>api_shared\<close> reads what the actor shares with the test; \<open>None\<close> in a test is a failed
  assertion or an unwrapped error.\<close>

record ('s, 'r, 'a, 'm, 'y) actor_api =
  api_spawn :: "string \<Rightarrow> 'a \<Rightarrow> 's \<Rightarrow> (runtime_error + 'r) \<times> 's"
  api_name :: "'r \<Rightarrow> 's \<Rightarrow> string"
  api_tell :: "'r \<Rightarrow> 'm \<Rightarrow> 's \<Rightarrow> (actor_send_error + unit) \<times> 's"
  api_ask :: "'r \<Rightarrow> 'm \<Rightarrow> cancel_token option \<Rightarrow> 's \<Rightarrow> (actor_send_error + (runtime_error + 'y)) \<times> 's"
  api_stop :: "'r \<Rightarrow> 's \<Rightarrow> 's"
  api_is_alive :: "'r \<Rightarrow> 's \<Rightarrow> bool"
  api_sleep :: "nat \<Rightarrow> 's \<Rightarrow> 's"
  api_shared :: "'r \<Rightarrow> 's \<Rightarrow> 'a"

definition unwrap :: "('e + 'v) \<times> 's \<Rightarrow> ('v \<times> 's) option" where
  "unwrap x = (case x of (Inr v, s) \<Rightarrow> Some (v, s) | (Inl _, _) \<Rightarrow> None)"

definition unwrap_reply :: "('e + ('f + 'v)) \<times> 's \<Rightarrow> ('v \<times> 's) option" where
  "unwrap_reply x = (case x of (Inr (Inr v), s) \<Rightarrow> Some (v, s) | _ \<Rightarrow> None)"

definition assert_that :: "bool \<Rightarrow> 's \<Rightarrow> 's option" where
  "assert_that b s = (if b then Some s else None)"

section \<open>The actors of the suite\<close>

datatype conf_counter_msg = Increment u64 | GetCount
datatype conf_counter_reply = Done | Count u64

datatype conf_resume_msg = PanicMsg | CountMsg

datatype conf_multi_msg = AddValue "64 word" | MulValue "64 word"

text \<open>Their handlers: the reply, or \<open>None\<close> for a panic, and the new state; sums and products wrap.\<close>

fun conf_counter :: "conf_counter_msg \<Rightarrow> u64 \<Rightarrow> conf_counter_reply option \<times> u64" where
  "conf_counter (Increment n) c = (Some Done, c + n)"
| "conf_counter GetCount c = (Some (Count c), c)"

fun conf_resume :: "conf_resume_msg \<Rightarrow> u64 \<Rightarrow> unit option \<times> u64" where
  "conf_resume PanicMsg c = (None, c)"
| "conf_resume CountMsg c = (Some (), c + 1)"

fun conf_multi :: "conf_multi_msg \<Rightarrow> 64 word \<Rightarrow> (64 word) option \<times> 64 word" where
  "conf_multi (AddValue n) v = (Some (v + n), v + n)"
| "conf_multi (MulValue n) v = (Some (v * n), v * n)"

section \<open>The tests\<close>

definition test_tell_and_ask :: "('s, 'r, u64, conf_counter_msg, conf_counter_reply) actor_api \<Rightarrow> 's \<Rightarrow> 's option" where
  "test_tell_and_ask api s = do {
     (actor, s) \<leftarrow> unwrap (api_spawn api ''counter'' 0 s);
     (_, s) \<leftarrow> unwrap (api_tell api actor (Increment 5) s);
     (_, s) \<leftarrow> unwrap (api_tell api actor (Increment 3) s);
     (n, s) \<leftarrow> unwrap_reply (api_ask api actor GetCount None (api_sleep api 50 s));
     s \<leftarrow> assert_that (n = Count 8) s;
     let s = api_sleep api 50 (api_stop api actor s);
     assert_that (\<not> api_is_alive api actor s) s }"

fun tell_times :: "('s, 'r, u64, conf_counter_msg, conf_counter_reply) actor_api \<Rightarrow> 'r \<Rightarrow> conf_counter_msg \<Rightarrow> nat \<Rightarrow> 's \<Rightarrow> 's option" where
  "tell_times api actor msg 0 s = Some s"
| "tell_times api actor msg (Suc k) s = do { (_, s) \<leftarrow> unwrap (api_tell api actor msg s); tell_times api actor msg k s }"

definition test_message_ordering :: "('s, 'r, u64, conf_counter_msg, conf_counter_reply) actor_api \<Rightarrow> 's \<Rightarrow> 's option" where
  "test_message_ordering api s = do {
     (actor, s) \<leftarrow> unwrap (api_spawn api ''ordered'' 0 s);
     s \<leftarrow> tell_times api actor (Increment 1) 100 s;
     (n, s) \<leftarrow> unwrap_reply (api_ask api actor GetCount None (api_sleep api 200 s));
     assert_that (n = Count 100) s }"

definition test_ask_reply :: "('s, 'r, u64, conf_counter_msg, conf_counter_reply) actor_api \<Rightarrow> 's \<Rightarrow> 's option" where
  "test_ask_reply api s = do {
     (actor, s) \<leftarrow> unwrap (api_spawn api ''ask-reply'' 42 s);
     (n, s) \<leftarrow> unwrap_reply (api_ask api actor GetCount None s);
     assert_that (n = Count 42) s }"

definition test_stop :: "('s, 'r, u64, conf_counter_msg, conf_counter_reply) actor_api \<Rightarrow> 's \<Rightarrow> 's option" where
  "test_stop api s = do {
     (actor, s) \<leftarrow> unwrap (api_spawn api ''stopper'' 0 s);
     s \<leftarrow> assert_that (api_is_alive api actor s) s;
     let s = api_sleep api 50 (api_stop api actor s);
     assert_that (\<not> api_is_alive api actor s) s }"

definition test_actor_name :: "('s, 'r, u64, conf_counter_msg, conf_counter_reply) actor_api \<Rightarrow> 's \<Rightarrow> 's option" where
  "test_actor_name api s = do {
     (actor, s) \<leftarrow> unwrap (api_spawn api ''my-counter'' 0 s);
     assert_that (api_name api actor s = ''my-counter'') s }"

text \<open>\<open>token\<close> is a token that is cancelled already.\<close>

definition test_cancel_ask :: "cancel_token \<Rightarrow> ('s, 'r, u64, conf_counter_msg, conf_counter_reply) actor_api \<Rightarrow> 's \<Rightarrow> 's option" where
  "test_cancel_ask token api s = do {
     (actor, s) \<leftarrow> unwrap (api_spawn api ''conf-cancel-counter'' 0 s);
     (result, s) \<leftarrow> unwrap (api_ask api actor GetCount (Some token) s);
     assert_that (result = Inl RE_Cancelled) s }"

definition test_on_error_resume :: "('s, 'r, u64, conf_resume_msg, unit) actor_api \<Rightarrow> 's \<Rightarrow> 's option" where
  "test_on_error_resume api s = do {
     (actor, s) \<leftarrow> unwrap (api_spawn api ''conf-resume'' 0 s);
     (_, s) \<leftarrow> unwrap (api_tell api actor PanicMsg s);
     (_, s) \<leftarrow> unwrap (api_tell api actor CountMsg s);
     let s = api_sleep api 200 s;
     s \<leftarrow> assert_that (api_shared api actor s = 1) s;
     assert_that (api_is_alive api actor s) s }"

text \<open>The polling loop of the tests that stop an actor.\<close>

fun await_stopped :: "('s, 'r, 'a, 'm, 'y) actor_api \<Rightarrow> 'r \<Rightarrow> nat \<Rightarrow> 's \<Rightarrow> 's" where
  "await_stopped api actor 0 s = s"
| "await_stopped api actor (Suc k) s = (if \<not> api_is_alive api actor s then s else await_stopped api actor k (api_sleep api 20 s))"

definition test_tell_after_stop :: "('s, 'r, u64, conf_counter_msg, conf_counter_reply) actor_api \<Rightarrow> 's \<Rightarrow> 's option" where
  "test_tell_after_stop api s = do {
     (actor, s) \<leftarrow> unwrap (api_spawn api ''conf-tell-after-stop'' 0 s);
     let s = await_stopped api actor 50 (api_stop api actor s);
     s \<leftarrow> assert_that (\<not> api_is_alive api actor s) s;
     let (result, s) = api_tell api actor (Increment 1) s;
     assert_that (isl result) s }"

definition test_ask_after_stop :: "('s, 'r, u64, conf_counter_msg, conf_counter_reply) actor_api \<Rightarrow> 's \<Rightarrow> 's option" where
  "test_ask_after_stop api s = do {
     (actor, s) \<leftarrow> unwrap (api_spawn api ''conf-ask-after-stop'' 0 s);
     let s = await_stopped api actor 50 (api_stop api actor s);
     s \<leftarrow> assert_that (\<not> api_is_alive api actor s) s;
     let (result, s) = api_ask api actor GetCount None s;
     assert_that (isl result) s }"

definition test_multiple_handlers :: "('s, 'r, 64 word, conf_multi_msg, 64 word) actor_api \<Rightarrow> 's \<Rightarrow> 's option" where
  "test_multiple_handlers api s = do {
     (actor, s) \<leftarrow> unwrap (api_spawn api ''conf-multi-handler'' 10 s);
     (v1, s) \<leftarrow> unwrap_reply (api_ask api actor (AddValue 5) None s);
     s \<leftarrow> assert_that (v1 = 15) s;
     (v2, s) \<leftarrow> unwrap_reply (api_ask api actor (MulValue 3) None s);
     s \<leftarrow> assert_that (v2 = 45) s;
     (v3, s) \<leftarrow> unwrap_reply (api_ask api actor (AddValue 5) None s);
     assert_that (v3 = 50) s }"

fun ask_sums :: "('s, 'r, u64, conf_counter_msg, conf_counter_reply) actor_api \<Rightarrow> 'r \<Rightarrow> nat list \<Rightarrow> u64 \<Rightarrow> 's \<Rightarrow> 's option" where
  "ask_sums api actor [] expected_sum s = Some s"
| "ask_sums api actor (i # is) expected_sum s = do {
     let expected_sum = expected_sum + of_nat i;
     (_, s) \<leftarrow> unwrap_reply (api_ask api actor (Increment (of_nat i)) None s);
     (n, s) \<leftarrow> unwrap_reply (api_ask api actor GetCount None s);
     s \<leftarrow> assert_that (n = Count expected_sum) s;
     ask_sums api actor is expected_sum s }"

definition test_message_ordering_under_load :: "('s, 'r, u64, conf_counter_msg, conf_counter_reply) actor_api \<Rightarrow> 's \<Rightarrow> 's option" where
  "test_message_ordering_under_load api s = do {
     (actor, s) \<leftarrow> unwrap (api_spawn api ''ordering-load'' 0 s);
     ask_sums api actor [1..<101] 0 s }"

definition test_rapid_stop_and_send :: "('s, 'r, u64, conf_counter_msg, conf_counter_reply) actor_api \<Rightarrow> 's \<Rightarrow> 's option" where
  "test_rapid_stop_and_send api s = do {
     (actor, s) \<leftarrow> unwrap (api_spawn api ''rapid-stop'' 0 s);
     s \<leftarrow> tell_times api actor (Increment 1) 5 s;
     (n, s) \<leftarrow> unwrap_reply (api_ask api actor GetCount None s);
     s \<leftarrow> assert_that (n = Count 5) s;
     let s = await_stopped api actor 50 (api_stop api actor s);
     s \<leftarrow> assert_that (\<not> api_is_alive api actor s) s;
     let (tell_result, s) = api_tell api actor (Increment 1) s;
     s \<leftarrow> assert_that (isl tell_result) s;
     let (ask_result, s) = api_ask api actor GetCount None s;
     assert_that (isl ask_result) s }"

section \<open>What the tests rely on\<close>

text \<open>\<open>react\<close> is the handler of the actor, \<open>heading\<close> the state an actor will have when it has handled all it was sent, \<open>None\<close> for one that has been told to
  stop. An actor that is not reported alive refuses what it is sent.\<close>

locale conforming_runtime =
  fixes api :: "('s, 'r, 'a, 'm, 'y) actor_api" and react :: "'m \<Rightarrow> 'a \<Rightarrow> 'y option \<times> 'a" and heading :: "'r \<Rightarrow> 's \<Rightarrow> 'a option"
    and sound :: "'s \<Rightarrow> bool" and cancelled :: "cancel_token \<Rightarrow> bool"
  assumes spawned: "sound s \<Longrightarrow> \<exists>r s'. api_spawn api n a s = (Inr r, s') \<and> sound s' \<and> heading r s' = Some a \<and> api_name api r s' = n"
    and told: "sound s \<Longrightarrow> heading r s = Some a \<Longrightarrow> \<exists>s'. api_tell api r m s = (Inr (), s') \<and> sound s' \<and> heading r s' = Some (snd (react m a))"
    and asked: "sound s \<Longrightarrow> heading r s = Some a \<Longrightarrow> react m a = (Some y, a') \<Longrightarrow>
      \<exists>s'. api_ask api r m None s = (Inr (Inr y), s') \<and> sound s' \<and> heading r s' = Some a'"
    and asked_cancelled: "sound s \<Longrightarrow> heading r s = Some a \<Longrightarrow> cancelled token \<Longrightarrow>
      \<exists>s'. api_ask api r m (Some token) s = (Inr (Inl RE_Cancelled), s')"
    and slept: "sound s \<Longrightarrow> 0 < ms \<Longrightarrow> heading r s = Some a \<Longrightarrow>
      heading r (api_sleep api ms s) = Some a \<and> api_shared api r (api_sleep api ms s) = a"
    and heading_alive: "heading r s = Some a \<Longrightarrow> api_is_alive api r s"
    and stopped: "sound s \<Longrightarrow> heading r s = Some a \<Longrightarrow> 0 < ms \<Longrightarrow> \<not> api_is_alive api r (api_sleep api ms (api_stop api r s))"
    and sound_stop: "sound s \<Longrightarrow> sound (api_stop api r s)"
    and sound_sleep: "sound s \<Longrightarrow> sound (api_sleep api ms s)"
    and refused: "sound s \<Longrightarrow> \<not> api_is_alive api r s \<Longrightarrow>
      (\<exists>e s'. api_tell api r m s = (Inl e, s') \<and> sound s' \<and> \<not> api_is_alive api r s') \<and> (\<exists>e s'. api_ask api r m None s = (Inl e, s'))"
begin

lemma await_stopped_dead:
  assumes "sound s" "heading r s = Some a"
  shows "\<not> api_is_alive api r (await_stopped api r (Suc (Suc k)) (api_stop api r s))"
  using stopped [OF assms, of 20] by simp

lemma await_stopped_sound: "sound s \<Longrightarrow> sound (await_stopped api r k s)"
  by (induction k arbitrary: s) (simp_all add: sound_sleep)

lemma stop_refuses:
  assumes "sound s" "heading r s = Some c"
  shows "\<not> api_is_alive api r (await_stopped api r 50 (api_stop api r s))" and "sound (await_stopped api r 50 (api_stop api r s))"
proof -
  have n: "Suc (Suc 48) = 50" by simp
  show "\<not> api_is_alive api r (await_stopped api r 50 (api_stop api r s))" using await_stopped_dead [OF assms, of 48] unfolding n .
qed (simp add: await_stopped_sound sound_stop assms(1))

end

lemmas test_simps = unwrap_def unwrap_reply_def assert_that_def Let_def

locale conforming_counter = conforming_runtime api conf_counter heading sound cancelled
  for api :: "('s, 'r, u64, conf_counter_msg, conf_counter_reply) actor_api" and heading sound cancelled
begin

lemma count_asked: "sound s \<Longrightarrow> heading r s = Some c \<Longrightarrow> \<exists>s'. api_ask api r GetCount None s = (Inr (Inr (Count c)), s') \<and> sound s' \<and> heading r s' = Some c"
  by (rule asked) simp_all

lemma tells_counted:
  "sound s \<Longrightarrow> heading r s = Some c \<Longrightarrow> \<exists>s'. tell_times api r (Increment n) k s = Some s' \<and> sound s' \<and> heading r s' = Some (c + of_nat k * n)"
proof (induction k arbitrary: s c)
  case (Suc k)
  obtain s1 where s1: "api_tell api r (Increment n) s = (Inr (), s1)" "sound s1" "heading r s1 = Some (c + n)"
    using told [OF Suc.prems, of "Increment n"] by auto
  from Suc.IH [OF s1(2,3)] show ?case by (auto simp: test_simps s1(1) algebra_simps)
qed simp

lemma sums_asked: "sound s \<Longrightarrow> heading r s = Some c \<Longrightarrow> \<exists>s'. ask_sums api r is c s = Some s'"
proof (induction "is" arbitrary: s c)
  case (Cons i "is")
  obtain s1 where s1: "api_ask api r (Increment (of_nat i)) None s = (Inr (Inr Done), s1)" "sound s1" "heading r s1 = Some (c + of_nat i)"
    using asked [OF Cons.prems, of "Increment (of_nat i)"] by auto
  obtain s2 where s2: "api_ask api r GetCount None s1 = (Inr (Inr (Count (c + of_nat i))), s2)" "sound s2" "heading r s2 = Some (c + of_nat i)"
    using count_asked [OF s1(2,3)] by blast
  from Cons.IH [OF s2(2,3)] show ?case by (simp add: test_simps s1(1) s2(1))
qed simp

lemma spawnE:
  assumes "sound s"
  obtains r s' where "api_spawn api n c s = (Inr r, s')" "sound s'" "heading r s' = Some c" "api_name api r s' = n"
  using spawned [OF assms, of n c] by blast

lemma passes_tell_and_ask:
  assumes "sound s"
  shows "\<exists>s'. test_tell_and_ask api s = Some s'"
proof -
  obtain r s0 where s0: "api_spawn api ''counter'' 0 s = (Inr r, s0)" "sound s0" "heading r s0 = Some 0" using spawnE [OF assms] by metis
  obtain s1 where s1: "api_tell api r (Increment 5) s0 = (Inr (), s1)" "sound s1" "heading r s1 = Some 5" using told [OF s0(2,3), of "Increment 5"] by auto
  obtain s2 where s2: "api_tell api r (Increment 3) s1 = (Inr (), s2)" "sound s2" "heading r s2 = Some 8" using told [OF s1(2,3), of "Increment 3"] by auto
  have s3: "sound (api_sleep api 50 s2)" "heading r (api_sleep api 50 s2) = Some 8" using slept [OF s2(2) _ s2(3), of 50] sound_sleep [OF s2(2)] by simp_all
  obtain s4 where s4: "api_ask api r GetCount None (api_sleep api 50 s2) = (Inr (Inr (Count 8)), s4)" "sound s4" "heading r s4 = Some 8"
    using count_asked [OF s3] by blast
  show ?thesis using stopped [OF s4(2,3), of 50] by (simp add: test_tell_and_ask_def test_simps s0(1) s1(1) s2(1) s4(1))
qed

lemma passes_message_ordering:
  assumes "sound s"
  shows "\<exists>s'. test_message_ordering api s = Some s'"
proof -
  obtain r s0 where s0: "api_spawn api ''ordered'' 0 s = (Inr r, s0)" "sound s0" "heading r s0 = Some 0" using spawnE [OF assms] by metis
  obtain s1 where s1: "tell_times api r (Increment 1) 100 s0 = Some s1" "sound s1" "heading r s1 = Some 100" using tells_counted [OF s0(2,3), of 1 100] by auto
  have s2: "sound (api_sleep api 200 s1)" "heading r (api_sleep api 200 s1) = Some 100" using slept [OF s1(2) _ s1(3), of 200] sound_sleep [OF s1(2)] by simp_all
  from count_asked [OF s2] show ?thesis by (auto simp: test_message_ordering_def test_simps s0(1) s1(1))
qed

lemma passes_ask_reply: "sound s \<Longrightarrow> \<exists>s'. test_ask_reply api s = Some s'"
  by (erule spawnE [of _ "''ask-reply''" 42]) (auto simp: test_ask_reply_def test_simps dest: count_asked)

lemma passes_stop: "sound s \<Longrightarrow> \<exists>s'. test_stop api s = Some s'"
  by (erule spawnE [of _ "''stopper''" 0]) (simp add: test_stop_def test_simps heading_alive stopped)

lemma passes_actor_name: "sound s \<Longrightarrow> \<exists>s'. test_actor_name api s = Some s'"
  by (erule spawnE [of _ "''my-counter''" 0]) (simp add: test_actor_name_def test_simps)

lemma passes_cancel_ask: "cancelled token \<Longrightarrow> sound s \<Longrightarrow> \<exists>s'. test_cancel_ask token api s = Some s'"
  by (erule spawnE [of _ "''conf-cancel-counter''" 0]) (auto simp: test_cancel_ask_def test_simps dest!: asked_cancelled [where m = GetCount])

lemma passes_tell_after_stop:
  assumes "sound s"
  shows "\<exists>s'. test_tell_after_stop api s = Some s'"
proof -
  obtain r s0 where s0: "api_spawn api ''conf-tell-after-stop'' 0 s = (Inr r, s0)" "sound s0" "heading r s0 = Some 0" using spawnE [OF assms] by metis
  note dead = stop_refuses [OF s0(2,3)]
  show ?thesis using refused [OF dead(2,1), of "Increment 1"] dead by (auto simp: test_tell_after_stop_def test_simps s0(1) simp del: await_stopped.simps)
qed

lemma passes_ask_after_stop:
  assumes "sound s"
  shows "\<exists>s'. test_ask_after_stop api s = Some s'"
proof -
  obtain r s0 where s0: "api_spawn api ''conf-ask-after-stop'' 0 s = (Inr r, s0)" "sound s0" "heading r s0 = Some 0" using spawnE [OF assms] by metis
  note dead = stop_refuses [OF s0(2,3)]
  show ?thesis using refused [OF dead(2,1), of GetCount] dead by (auto simp: test_ask_after_stop_def test_simps s0(1) simp del: await_stopped.simps)
qed

lemma passes_ordering_under_load: "sound s \<Longrightarrow> \<exists>s'. test_message_ordering_under_load api s = Some s'"
  by (erule spawnE [of _ "''ordering-load''" 0]) (auto simp: test_message_ordering_under_load_def test_simps simp del: upt_rec_numeral dest: sums_asked)

lemma passes_rapid_stop:
  assumes "sound s"
  shows "\<exists>s'. test_rapid_stop_and_send api s = Some s'"
proof -
  obtain r s0 where s0: "api_spawn api ''rapid-stop'' 0 s = (Inr r, s0)" "sound s0" "heading r s0 = Some 0" using spawnE [OF assms] by metis
  obtain s1 where s1: "tell_times api r (Increment 1) 5 s0 = Some s1" "sound s1" "heading r s1 = Some 5" using tells_counted [OF s0(2,3), of 1 5] by auto
  obtain s2 where s2: "api_ask api r GetCount None s1 = (Inr (Inr (Count 5)), s2)" "sound s2" "heading r s2 = Some 5" using count_asked [OF s1(2,3)] by blast
  note dead = stop_refuses [OF s2(2,3)]
  obtain e s3 where s3: "api_tell api r (Increment 1) (await_stopped api r 50 (api_stop api r s2)) = (Inl e, s3)" "sound s3" "\<not> api_is_alive api r s3"
    using refused [OF dead(2,1)] by blast
  show ?thesis using refused [OF s3(2,3), of GetCount] dead
    by (auto simp: test_rapid_stop_and_send_def test_simps s0(1) s1(1) s2(1) s3(1) simp del: await_stopped.simps tell_times.simps)
qed

lemmas passes = passes_tell_and_ask passes_message_ordering passes_ask_reply passes_stop passes_actor_name passes_tell_after_stop
  passes_ask_after_stop passes_ordering_under_load passes_rapid_stop

end

locale conforming_resume = conforming_runtime api conf_resume heading sound cancelled
  for api :: "('s, 'r, u64, conf_resume_msg, unit) actor_api" and heading sound cancelled
begin

lemma passes_on_error_resume:
  assumes "sound s"
  shows "\<exists>s'. test_on_error_resume api s = Some s'"
proof -
  obtain r s0 where s0: "api_spawn api ''conf-resume'' 0 s = (Inr r, s0)" "sound s0" "heading r s0 = Some 0" using spawned [OF assms] by metis
  obtain s1 where s1: "api_tell api r PanicMsg s0 = (Inr (), s1)" "sound s1" "heading r s1 = Some 0" using told [OF s0(2,3), of PanicMsg] by auto
  obtain s2 where s2: "api_tell api r CountMsg s1 = (Inr (), s2)" "sound s2" "heading r s2 = Some 1" using told [OF s1(2,3), of CountMsg] by auto
  show ?thesis using slept [OF s2(2) _ s2(3), of 200] heading_alive [of r "api_sleep api 200 s2" 1]
    by (simp add: test_on_error_resume_def test_simps s0(1) s1(1) s2(1))
qed

end

locale conforming_multi = conforming_runtime api conf_multi heading sound cancelled
  for api :: "('s, 'r, 64 word, conf_multi_msg, 64 word) actor_api" and heading sound cancelled
begin

lemma passes_multiple_handlers:
  assumes "sound s"
  shows "\<exists>s'. test_multiple_handlers api s = Some s'"
proof -
  obtain r s0 where s0: "api_spawn api ''conf-multi-handler'' 10 s = (Inr r, s0)" "sound s0" "heading r s0 = Some 10" using spawned [OF assms] by metis
  obtain s1 where s1: "api_ask api r (AddValue 5) None s0 = (Inr (Inr 15), s1)" "sound s1" "heading r s1 = Some 15"
    using asked [OF s0(2,3), of "AddValue 5"] by auto
  obtain s2 where s2: "api_ask api r (MulValue 3) None s1 = (Inr (Inr 45), s2)" "sound s2" "heading r s2 = Some 45"
    using asked [OF s1(2,3), of "MulValue 3"] by auto
  obtain s3 where s3: "api_ask api r (AddValue 5) None s2 = (Inr (Inr 50), s3)"
    using asked [OF s2(2,3), of "AddValue 5"] by auto
  show ?thesis by (simp add: test_multiple_handlers_def test_simps s0(1) s1(1) s2(1) s3)
qed

end

section \<open>The ractor adapter under test\<close>

text \<open>An actor of the suite as an implementation of the actor trait: its handler, and what it wants after a panic.\<close>

definition conf_actor :: "('m \<Rightarrow> 'a \<Rightarrow> 'y option \<times> 'a) \<Rightarrow> error_action \<Rightarrow> ('a, 'm, unit, 'y, unit, unit) actor_impl" where
  "conf_actor react action = \<lparr>ai_message_type = (\<lambda>_. []), ai_item_type = [], ai_on_start = (\<lambda>x. (Returned (), x)),
     ai_handle = (\<lambda>m (a, ctx, w). case react m a of (Some y, a') \<Rightarrow> (Returned y, a', ctx, w) | (None, a') \<Rightarrow> (Panicked, a', ctx, w)),
     ai_handle_expand = (\<lambda>_ _ x. (Returned (), x)), ai_handle_reduce = (\<lambda>_ x. (Panicked, x)),
     ai_handle_transform = (\<lambda>_ _ x. (Returned (), x)), ai_on_transform_complete = (\<lambda>_ x. (Returned (), x)),
     ai_on_error = (\<lambda>a _. (action, a)), ai_on_stop = (\<lambda>a. (Returned (), a))\<rparr>"

text \<open>The ractor crate is an argument of the system under test: the ports of an actor that has started, what it hands to the actor when the actor gets its
  turn, the closing of the ports of an actor that asked to be stopped, and which of the actors get their turns during a pause of some milliseconds, given
  how many there are. In its turn an actor has nothing to do, has messages to handle, or is to stop, dropping the messages left in its ports.\<close>

datatype 'x turn = Idle | Handles "'x list" | Stops "'x list"

record ('q, 'x) ractor_lib =
  rl_mailbox :: "('q, 'x) ractor_mailbox"
  rl_open :: 'q
  rl_turn :: "'q \<Rightarrow> 'x turn \<times> 'q"
  rl_halt :: "'q \<Rightarrow> 'q"
  rl_schedule :: "nat \<Rightarrow> nat \<Rightarrow> nat list"

text \<open>What ractor promises, in terms of the messages in the ports, of whether the actor runs and of whether it has been signalled to stop: messages are
  queued in order while it runs; the stop signal goes before the messages; an actor in its turn gets all that is queued; a pause
  gives every actor a turn.\<close>

definition ports_keep_order :: "('q, 'x) ractor_lib \<Rightarrow> ('q \<Rightarrow> 'x list) \<Rightarrow> ('q \<Rightarrow> bool) \<Rightarrow> ('q \<Rightarrow> bool) \<Rightarrow> bool" where
  "ports_keep_order L items up stopping \<longleftrightarrow> mailbox_lawful (rl_mailbox L) items up \<and> rmb_running (rl_mailbox L) = up \<and>
     (\<forall>q x. stopping (snd (rmb_cast (rl_mailbox L) q x)) = stopping q) \<and>
     (\<forall>q. items (rmb_stop (rl_mailbox L) q) = items q \<and> up (rmb_stop (rl_mailbox L) q) = up q \<and> stopping (rmb_stop (rl_mailbox L) q)) \<and>
     items (rl_open L) = [] \<and> up (rl_open L) \<and> \<not> stopping (rl_open L)"

definition turns_serve :: "('q, 'x) ractor_lib \<Rightarrow> ('q \<Rightarrow> 'x list) \<Rightarrow> ('q \<Rightarrow> bool) \<Rightarrow> ('q \<Rightarrow> bool) \<Rightarrow> bool" where
  "turns_serve L items up stopping \<longleftrightarrow>
     (\<forall>q. if \<not> up q then rl_turn L q = (Idle, q)
          else if stopping q then \<exists>q'. rl_turn L q = (Stops (items q), q') \<and> \<not> up q' \<and> items q' = []
          else \<exists>q'. rl_turn L q = (Handles (items q), q') \<and> up q' \<and> \<not> stopping q' \<and> items q' = []) \<and>
     (\<forall>q. \<not> up (rl_halt L q) \<and> items (rl_halt L q) = []) \<and>
     (\<forall>ms n k. 0 < ms \<and> k < n \<longrightarrow> k \<in> set (rl_schedule L ms n))"

definition ractor_promises :: "('q, 'x) ractor_lib \<Rightarrow> ('q \<Rightarrow> 'x list) \<Rightarrow> ('q \<Rightarrow> bool) \<Rightarrow> ('q \<Rightarrow> bool) \<Rightarrow> bool" where
  "ractor_promises L items up stopping \<longleftrightarrow> ports_keep_order L items up stopping \<and> turns_serve L items up stopping"

type_synonym ('q, 'm, 'y) conf_ref = "('q, ('m, unit) dispatch list_channel, unit, 'm, 'y, unit, unit, unit) ractor_ref"

record ('q, 'a, 'm, 'y) cell =
  cell_ref :: "('q, 'm, 'y) conf_ref"
  cell_actor :: "('a, 'm, 'y, unit, unit, unit, unit) ractor_actor_state"

text \<open>A program with its runtime: the actors by number, and what the caller holds.\<close>

record ('q, 'a, 'm, 'y) conf_system =
  sy_node :: "(unit, unit, unit, unit) ractor_runtime"
  sy_receivers :: "(actor_id, nat) hashmap"
  sy_cells :: "nat \<Rightarrow> ('q, 'a, 'm, 'y) cell option"
  sy_next :: nat
  sy_caller :: "('y, unit, unit, unit) caller"

type_synonym ('q, 'm) conf_lib = "('q, ('m, unit) dispatch) ractor_lib"

definition sy_new :: "('q, 'a, 'm, 'y) conf_system" where
  "sy_new = \<lparr>sy_node = rr_create (NodeId ''ractor-node''), sy_receivers = hm_empty, sy_cells = (\<lambda>_. None), sy_next = 0,
     sy_caller = \<lparr>cl_istate = (), cl_observed = (), cl_letters = (), cl_oneshots = (\<lambda>_. OsPending), cl_next = 0\<rparr>\<rparr>"

definition sy_spawn ::
  "('q, 'm) conf_lib \<Rightarrow> ('a, 'm, unit, 'y, unit, unit) actor_impl \<Rightarrow> string \<Rightarrow> 'a \<Rightarrow> ('q, 'a, 'm, 'y) conf_system
    \<Rightarrow> (runtime_error + nat) \<times> ('q, 'a, 'm, 'y) conf_system" where
  "sy_spawn L A name a s =
     (let k = sy_next s;
          started = fst (ra_pre_start A a (fst (rr_take_local_id (sy_node s))) name [] () None k ())
      in case rr_spawn_internal (\<lambda>n. ListChannel [] n False)
                (case started of Some _ \<Rightarrow> Inr (rl_open L) | None \<Rightarrow> Inl ''Startup failed'')
                name Unbounded k [] None None (sy_node s) (sy_receivers s) of
           (Inl e, node, receivers) \<Rightarrow> (Inl e, s\<lparr>sy_node := node, sy_receivers := receivers\<rparr>)
         | (Inr r, node, receivers) \<Rightarrow>
             (Inr k, s\<lparr>sy_node := node, sy_receivers := receivers, sy_next := Suc k,
                sy_cells := (sy_cells s)(k := Some \<lparr>cell_ref = r, cell_actor = the started\<rparr>)\<rparr>))"

text \<open>All tokens of the suite are cancelled before they are used.\<close>

definition all_cancelled :: "('a, 'm, 'i, 'p, 'w) token_env" where
  "all_cancelled = \<lparr>te_is_cancelled = (\<lambda>_ _. True), te_fires = (\<lambda>_ _ _. None)\<rparr>"

text \<open>An actor gets its turn: the adapter's handler runs on the messages it is handed, or its stop hook.\<close>

definition cell_turn ::
  "('q, 'm) conf_lib \<Rightarrow> ('a, 'm, unit, 'y, unit, unit) actor_impl \<Rightarrow> ('q, 'a, 'm, 'y) cell \<Rightarrow> 'y oneshots \<Rightarrow> ('q, 'a, 'm, 'y) cell \<times> 'y oneshots" where
  "cell_turn L A c os =
     (case rl_turn L (rf_inner (cell_ref c)) of
        (Idle, q) \<Rightarrow> (c\<lparr>cell_ref := (cell_ref c)\<lparr>rf_inner := q\<rparr>\<rparr>, os)
      | (Stops ds, q) \<Rightarrow>
          (\<lparr>cell_ref = (cell_ref c)\<lparr>rf_inner := q\<rparr>, cell_actor = fst (snd (snd (ra_post_stop A (cell_actor c) (hm_empty :: unit watcher_map))))\<rparr>,
           foldl (\<lambda>os d. drop_dispatch d os) os ds)
      | (Handles ds, q) \<Rightarrow>
          (case ra_run all_cancelled A (cell_actor c, \<lparr>su_world = (), su_oneshots = os, su_letters = (), su_slept = [], su_stop = False\<rparr>) ds of
             (st, su) \<Rightarrow> (\<lparr>cell_ref = (cell_ref c)\<lparr>rf_inner := if su_stop su then rl_halt L q else q\<rparr>, cell_actor = st\<rparr>, su_oneshots su)))"

definition sy_turn :: "('q, 'm) conf_lib \<Rightarrow> ('a, 'm, unit, 'y, unit, unit) actor_impl \<Rightarrow> nat \<Rightarrow> ('q, 'a, 'm, 'y) conf_system \<Rightarrow> ('q, 'a, 'm, 'y) conf_system" where
  "sy_turn L A k s =
     (case sy_cells s k of
        None \<Rightarrow> s
      | Some c \<Rightarrow> (case cell_turn L A c (cl_oneshots (sy_caller s)) of (c1, os) \<Rightarrow>
          s\<lparr>sy_cells := (sy_cells s)(k := Some c1), sy_caller := (sy_caller s)\<lparr>cl_oneshots := os\<rparr>\<rparr>))"

definition sy_sleep :: "('q, 'm) conf_lib \<Rightarrow> ('a, 'm, unit, 'y, unit, unit) actor_impl \<Rightarrow> nat \<Rightarrow> ('q, 'a, 'm, 'y) conf_system \<Rightarrow> ('q, 'a, 'm, 'y) conf_system" where
  "sy_sleep L A ms s = foldl (\<lambda>s k. sy_turn L A k s) s (rl_schedule L ms (sy_next s))"

definition sy_tell ::
  "('q, 'm) conf_lib \<Rightarrow> ('a, 'm, unit, 'y, unit, unit) actor_impl \<Rightarrow> nat \<Rightarrow> 'm \<Rightarrow> ('q, 'a, 'm, 'y) conf_system
    \<Rightarrow> (actor_send_error + unit) \<times> ('q, 'a, 'm, 'y) conf_system" where
  "sy_tell L A k m s =
     (case sy_cells s k of
        None \<Rightarrow> (Inl (ActorSendError ''no such actor''), s)
      | Some c \<Rightarrow> (case rf_tell (rl_mailbox L) list_mpsc (ai_message_type A) m (cell_ref c) (sy_caller s) of (x, r, cl) \<Rightarrow>
          (x, s\<lparr>sy_cells := (sy_cells s)(k := Some (c\<lparr>cell_ref := r\<rparr>)), sy_caller := cl\<rparr>)))"

text \<open>Awaiting a reply gives the actor its turn.\<close>

definition sy_ask ::
  "('q, 'm) conf_lib \<Rightarrow> ('a, 'm, unit, 'y, unit, unit) actor_impl \<Rightarrow> nat \<Rightarrow> 'm \<Rightarrow> cancel_token option \<Rightarrow> ('q, 'a, 'm, 'y) conf_system
    \<Rightarrow> (actor_send_error + (runtime_error + 'y)) \<times> ('q, 'a, 'm, 'y) conf_system" where
  "sy_ask L A k m token s =
     (case sy_cells s k of
        None \<Rightarrow> (Inl (ActorSendError ''no such actor''), s)
      | Some c \<Rightarrow> (case rf_ask (rl_mailbox L) list_mpsc (ai_message_type A) m token (cell_ref c) (sy_caller s) of (x, r, cl) \<Rightarrow>
          let s1 = s\<lparr>sy_cells := (sy_cells s)(k := Some (c\<lparr>cell_ref := r\<rparr>)), sy_caller := cl\<rparr> in
          (case x of
             Inl e \<Rightarrow> (Inl e, s1)
           | Inr tx \<Rightarrow> (let s2 = sy_turn L A k s1 in (Inr (the (ask_reply_poll (cl_oneshots (sy_caller s2) tx))), s2)))))"

definition sy_stop :: "('q, 'm) conf_lib \<Rightarrow> nat \<Rightarrow> ('q, 'a, 'm, 'y) conf_system \<Rightarrow> ('q, 'a, 'm, 'y) conf_system" where
  "sy_stop L k s =
     (case sy_cells s k of None \<Rightarrow> s | Some c \<Rightarrow> s\<lparr>sy_cells := (sy_cells s)(k := Some (c\<lparr>cell_ref := rf_stop (rl_mailbox L) (cell_ref c)\<rparr>))\<rparr>)"

definition ractor_api ::
  "('q, 'm) conf_lib \<Rightarrow> ('a, 'm, unit, 'y, unit, unit) actor_impl \<Rightarrow> (('q, 'a, 'm, 'y) conf_system, nat, 'a, 'm, 'y) actor_api" where
  "ractor_api L A = \<lparr>api_spawn = sy_spawn L A,
     api_name = (\<lambda>k s. case sy_cells s k of Some c \<Rightarrow> rf_name (cell_ref c) | None \<Rightarrow> []),
     api_tell = sy_tell L A, api_ask = sy_ask L A, api_stop = sy_stop L,
     api_is_alive = (\<lambda>k s. case sy_cells s k of Some c \<Rightarrow> rf_is_alive (rl_mailbox L) list_mpsc (cell_ref c) | None \<Rightarrow> False),
     api_sleep = sy_sleep L A,
     api_shared = (\<lambda>k s. ras_actor (cell_actor (the (sy_cells s k))))\<rparr>"

section \<open>The adapter conforms\<close>

fun plain :: "('m, 'i) dispatch \<Rightarrow> bool" where
  "plain (TypedDispatch _) = True"
| "plain (AskDispatch _ _ _) = True"
| "plain _ = False"

fun reaction :: "('m \<Rightarrow> 'a \<Rightarrow> 'y option \<times> 'a) \<Rightarrow> 'a \<Rightarrow> ('m, 'i) dispatch \<Rightarrow> 'a" where
  "reaction react a (TypedDispatch m) = snd (react m a)"
| "reaction react a (AskDispatch m _ None) = snd (react m a)"
| "reaction react a _ = a"

text \<open>A program whose actors have neither interceptors nor bounded mailboxes, and only tells and asks queued.\<close>

definition cell_sound :: "('q \<Rightarrow> ('m, unit) dispatch list) \<Rightarrow> ('q, 'a, 'm, 'y) cell \<Rightarrow> bool" where
  "cell_sound items c \<longleftrightarrow> ras_interceptors (cell_actor c) = [] \<and> rf_outbound_interceptors (cell_ref c) = [] \<and> rf_bounded_tx (cell_ref c) = None \<and>
     (\<forall>d \<in> set (items (rf_inner (cell_ref c))). plain d)"

definition sy_sound :: "('q \<Rightarrow> ('m, unit) dispatch list) \<Rightarrow> ('q, 'a, 'm, 'y) conf_system \<Rightarrow> bool" where
  "sy_sound items s \<longleftrightarrow> (\<forall>k c. sy_cells s k = Some c \<longrightarrow> k < sy_next s \<and> cell_sound items c)"

definition cell_heading ::
  "('q \<Rightarrow> ('m, unit) dispatch list) \<Rightarrow> ('q \<Rightarrow> bool) \<Rightarrow> ('q \<Rightarrow> bool) \<Rightarrow> ('m \<Rightarrow> 'a \<Rightarrow> 'y option \<times> 'a) \<Rightarrow> ('q, 'a, 'm, 'y) cell \<Rightarrow> 'a option" where
  "cell_heading items up stopping react c =
     (let q = rf_inner (cell_ref c) in
      if cell_sound items c \<and> up q \<and> \<not> stopping q then Some (foldl (reaction react) (ras_actor (cell_actor c)) (items q)) else None)"

definition sy_heading ::
  "('q \<Rightarrow> ('m, unit) dispatch list) \<Rightarrow> ('q \<Rightarrow> bool) \<Rightarrow> ('q \<Rightarrow> bool) \<Rightarrow> ('m \<Rightarrow> 'a \<Rightarrow> 'y option \<times> 'a) \<Rightarrow> nat \<Rightarrow> ('q, 'a, 'm, 'y) conf_system \<Rightarrow> 'a option" where
  "sy_heading items up stopping react k s = Option.bind (sy_cells s k) (cell_heading items up stopping react)"

definition moved_cell :: "'q \<Rightarrow> ('q, 'a, 'm, 'y) cell \<Rightarrow> ('q, 'a, 'm, 'y) cell" where
  "moved_cell q c = c\<lparr>cell_ref := (cell_ref c)\<lparr>rf_inner := q\<rparr>\<rparr>"

text \<open>An actor whose panics, if any, are resumed from, on a library that keeps ractor's promises.\<close>

locale reacting =
  fixes react :: "'m \<Rightarrow> 'a \<Rightarrow> 'y option \<times> 'a" and action :: error_action and L :: "('q, 'm) conf_lib"
    and items :: "'q \<Rightarrow> ('m, unit) dispatch list" and up :: "'q \<Rightarrow> bool" and stopping :: "'q \<Rightarrow> bool"
  assumes resumes: "fst (react m a) = None \<Longrightarrow> action = Resume"
    and promises: "ractor_promises L items up stopping"
begin

abbreviation A where "A \<equiv> conf_actor react action"

abbreviation heads :: "('q, 'a, 'm, 'y) cell \<Rightarrow> 'a option" where "heads \<equiv> cell_heading items up stopping react"

abbreviation heads_at :: "nat \<Rightarrow> ('q, 'a, 'm, 'y) conf_system \<Rightarrow> 'a option" where "heads_at \<equiv> sy_heading items up stopping react"

lemma cast_up:
  assumes "up q"
  obtains q' where "rmb_cast (rl_mailbox L) q x = (Inr (), q')" "items q' = items q @ [x]" "up q'" "stopping q' = stopping q"
proof -
  obtain q' where q': "rmb_cast (rl_mailbox L) q x = (Inr (), q')" "items q' = items q @ [x]" "up q'"
    using promises assms unfolding ractor_promises_def ports_keep_order_def mailbox_lawful_def by metis
  moreover have "stopping (snd (rmb_cast (rl_mailbox L) q x)) = stopping q" using promises by (simp add: ractor_promises_def ports_keep_order_def)
  ultimately show thesis using that by simp
qed

lemma cast_down: "\<not> up q \<Longrightarrow> \<exists>e. rmb_cast (rl_mailbox L) q x = (Inl e, q)"
  using promises unfolding ractor_promises_def ports_keep_order_def mailbox_lawful_def by metis

lemma ports [simp]:
  "rmb_running (rl_mailbox L) = up" "items (rmb_stop (rl_mailbox L) q) = items q" "up (rmb_stop (rl_mailbox L) q) = up q"
  "stopping (rmb_stop (rl_mailbox L) q)" "items (rl_open L) = []" "up (rl_open L)" "\<not> stopping (rl_open L)"
  using promises by (simp_all add: ractor_promises_def ports_keep_order_def)

lemma halts [simp]: "\<not> up (rl_halt L q)" "items (rl_halt L q) = []"
  using promises by (simp_all add: ractor_promises_def turns_serve_def)

lemma scheduled: "0 < ms \<Longrightarrow> k < n \<Longrightarrow> k \<in> set (rl_schedule L ms n)"
  using promises by (simp add: ractor_promises_def turns_serve_def)

lemma turnE [case_names down leaves serves]:
  obtains "\<not> up q" "rl_turn L q = (Idle, q)"
  | q' where "up q" "stopping q" "rl_turn L q = (Stops (items q), q')" "\<not> up q'" "items q' = []"
  | q' where "up q" "\<not> stopping q" "rl_turn L q = (Handles (items q), q')" "up q'" "\<not> stopping q'" "items q' = []"
  using promises unfolding ractor_promises_def turns_serve_def by metis

lemma handle_plain:
  assumes "ras_interceptors st = []" and "plain d" and "\<not> su_stop su" and "ra_handle all_cancelled A d (st, su) = (st', su')"
  shows "ras_interceptors st' = [] \<and> ras_actor st' = reaction react (ras_actor st) d \<and> \<not> su_stop su' \<and>
    (\<forall>m tx y. d = AskDispatch m tx None \<and> fst (react m (ras_actor st)) = Some y \<longrightarrow> su_oneshots su' tx = OsSent (Inr y)) \<and>
    (\<forall>m tx token. d = AskDispatch m tx (Some token) \<longrightarrow> su_oneshots su' tx = OsSent (Inl RE_Cancelled))"
proof -
  have act: "react m a = (None, b) \<Longrightarrow> action = Resume" for m a b using resumes [of m a] by simp
  consider (tell) m where "d = TypedDispatch m" | (ask) m tx where "d = AskDispatch m tx None" | (cancel) m tx token where "d = AskDispatch m tx (Some token)"
    using assms(2) by (cases d rule: plain.cases; metis option.exhaust plain.simps)
  then show ?thesis
  proof cases
    case (tell m)
    then show ?thesis using assms(1,3,4) act [of m "ras_actor st"]
      by (auto simp: ra_handle_def ra_complete_def run_handler_def collect_handler_wrappers_def conf_actor_def Let_def dr_tell_def drop_dispatch_def
          split: prod.splits option.splits)
  next
    case (ask m tx)
    then show ?thesis using assms(1,3,4) act [of m "ras_actor st"]
      by (auto simp: ra_handle_def ra_complete_def run_handler_def collect_handler_wrappers_def conf_actor_def Let_def dr_send_reply_def drop_dispatch_def
          split: prod.splits option.splits)
  next
    case (cancel m tx token)
    then show ?thesis using assms(1,3,4)
      by (auto simp: ra_handle_def all_cancelled_def Let_def dispatch_cancel_def send_error_def)
  qed
qed

lemma run_plain:
  assumes "ras_interceptors st = []" and "\<forall>d \<in> set ds. plain d" and "\<not> su_stop su"
  shows "\<exists>st' su'. ra_run all_cancelled A (st, su) (ds @ es) = ra_run all_cancelled A (st', su') es \<and>
    ras_interceptors st' = [] \<and> ras_actor st' = foldl (reaction react) (ras_actor st) ds \<and> \<not> su_stop su'"
  using assms
proof (induction ds arbitrary: st su)
  case (Cons d ds)
  obtain st1 su1 where h: "ra_handle all_cancelled A d (st, su) = (st1, su1)" by force
  have "ras_interceptors st1 = [] \<and> ras_actor st1 = reaction react (ras_actor st) d \<and> \<not> su_stop su1"
    using handle_plain [OF Cons.prems(1) _ Cons.prems(3) h] Cons.prems(2) by simp
  then show ?case using Cons.IH [of st1 su1] Cons.prems(2) h by (simp add: Let_def)
qed auto

text \<open>A turn of an actor that is heading for a state takes it there; the last request of its queue is answered.\<close>

lemma headsD:
  assumes "heads c = Some a"
  shows "up (rf_inner (cell_ref c))" "\<not> stopping (rf_inner (cell_ref c))" "cell_sound items c"
    "foldl (reaction react) (ras_actor (cell_actor c)) (items (rf_inner (cell_ref c))) = a"
  using assms by (auto simp: cell_heading_def Let_def split: if_splits)

lemma cell_turn_heading:
  assumes c: "heads c = Some a" and t: "cell_turn L A c os = (c', os')"
  shows "heads c' = Some a" and "ras_actor (cell_actor c') = a"
proof -
  let ?q = "rf_inner (cell_ref c)"
  note h = headsD [OF c]
  from h(1,2) obtain q' where q': "rl_turn L ?q = (Handles (items ?q), q')" "up q'" "\<not> stopping q'" "items q' = []" by (cases rule: turnE [of ?q]) auto
  let ?su = "\<lparr>su_world = (), su_oneshots = os, su_letters = (), su_slept = [], su_stop = False\<rparr>"
  obtain st su where r: "ra_run all_cancelled A (cell_actor c, ?su) (items ?q) = (st, su)" "ras_interceptors st = []" "ras_actor st = a" "\<not> su_stop su"
    using run_plain [of "cell_actor c" "items ?q" ?su "[]"] h by (auto simp: cell_sound_def)
  have c': "c' = \<lparr>cell_ref = (cell_ref c)\<lparr>rf_inner := q'\<rparr>, cell_actor = st\<rparr>" using t q' r by (simp add: cell_turn_def)
  show "heads c' = Some a" "ras_actor (cell_actor c') = a" using h q' r by (auto simp: c' cell_heading_def cell_sound_def Let_def)
qed

lemma cell_turn_answers:
  assumes c: "heads c = Some a" and q1: "items q1 = items (rf_inner (cell_ref c)) @ [AskDispatch m tx token]" "up q1" "\<not> stopping q1"
    and t: "cell_turn L A (moved_cell q1 c) os = (c', os')"
  shows "token = None \<Longrightarrow> react m a = (Some y, a') \<Longrightarrow> os' tx = OsSent (Inr y)" and "token = Some k \<Longrightarrow> os' tx = OsSent (Inl RE_Cancelled)"
proof -
  let ?q = "rf_inner (cell_ref c)"
  note h = headsD [OF c]
  from q1(2,3) obtain q' where q': "rl_turn L q1 = (Handles (items q1), q')" by (cases rule: turnE [of q1]) auto
  let ?su = "\<lparr>su_world = (), su_oneshots = os, su_letters = (), su_slept = [], su_stop = False\<rparr>"
  obtain st su where r: "ra_run all_cancelled A (cell_actor c, ?su) (items ?q @ [AskDispatch m tx token]) = ra_run all_cancelled A (st, su) [AskDispatch m tx token]"
      "ras_interceptors st = []" "ras_actor st = a" "\<not> su_stop su"
    using run_plain [of "cell_actor c" "items ?q" ?su "[AskDispatch m tx token]"] h by (auto simp: cell_sound_def)
  obtain st1 su1 where s1: "ra_handle all_cancelled A (AskDispatch m tx token) (st, su) = (st1, su1)" by force
  note one = handle_plain [OF r(2) _ r(4) s1]
  have "os' = su_oneshots su1" using t q' q1(1) r(1) s1 by (simp add: cell_turn_def moved_cell_def Let_def split: if_splits)
  then show "token = None \<Longrightarrow> react m a = (Some y, a') \<Longrightarrow> os' tx = OsSent (Inr y)" and "token = Some k \<Longrightarrow> os' tx = OsSent (Inl RE_Cancelled)"
    using one r(3) by auto
qed

text \<open>Turns keep every actor sound, and an actor that is down stays down.\<close>

lemma run_interceptors: "ras_interceptors st = [] \<Longrightarrow> \<forall>d \<in> set ds. plain d \<Longrightarrow> \<not> su_stop su \<Longrightarrow> ra_run all_cancelled A (st, su) ds = (st', su') \<Longrightarrow> ras_interceptors st' = []"
  using run_plain [of st ds su "[]"] by auto

lemma post_stop_interceptors: "ras_interceptors (fst (snd (snd (ra_post_stop A st w)))) = ras_interceptors st"
  by (simp add: ra_post_stop_def conf_actor_def Let_def)

lemma cell_turn_sound:
  assumes c: "cell_sound items c" and t: "cell_turn L A c os = (c', os')"
  shows "cell_sound items c'"
proof (cases rule: turnE [of "rf_inner (cell_ref c)"])
  case down
  then show ?thesis using c t by (simp add: cell_turn_def)
next
  case (leaves q')
  then show ?thesis using c t post_stop_interceptors [of "cell_actor c" hm_empty] by (auto simp: cell_turn_def cell_sound_def)
next
  case (serves q')
  let ?su = "\<lparr>su_world = (), su_oneshots = os, su_letters = (), su_slept = [], su_stop = False\<rparr>"
  obtain st su where r: "ra_run all_cancelled A (cell_actor c, ?su) (items (rf_inner (cell_ref c))) = (st, su)" by force
  have "ras_interceptors st = []" using run_interceptors [OF _ _ _ r] c by (simp add: cell_sound_def)
  then show ?thesis using c t r serves by (cases "su_stop su") (auto simp: cell_turn_def cell_sound_def)
qed

lemma cell_turn_down:
  assumes "cell_turn L A c os = (c', os')" and "\<not> up (rf_inner (cell_ref c)) \<or> stopping (rf_inner (cell_ref c))"
  shows "\<not> up (rf_inner (cell_ref c'))"
  using assms by (cases rule: turnE [of "rf_inner (cell_ref c)"]) (auto simp: cell_turn_def)

lemma turn_cells: "sy_cells (sy_turn L A i s) k = (if k = i then map_option (\<lambda>c. fst (cell_turn L A c (cl_oneshots (sy_caller s)))) (sy_cells s i) else sy_cells s k)"
  by (auto simp: sy_turn_def split: option.split prod.split)

lemma turn_next [simp]: "sy_next (sy_turn L A i s) = sy_next s"
  by (simp add: sy_turn_def split: option.split prod.split)

lemma turn_sound:
  assumes "sy_sound items s"
  shows "sy_sound items (sy_turn L A i s)"
  unfolding sy_sound_def
proof (intro allI impI)
  fix k c
  assume c: "sy_cells (sy_turn L A i s) k = Some c"
  then obtain c0 where c0: "sy_cells s k = Some c0" "c = c0 \<or> c = fst (cell_turn L A c0 (cl_oneshots (sy_caller s)))"
    unfolding turn_cells by (cases "k = i") auto
  then have "cell_sound items c0" "k < sy_next s" using assms by (auto simp: sy_sound_def)
  moreover have "cell_sound items c" using c0(2) \<open>cell_sound items c0\<close> cell_turn_sound [OF \<open>cell_sound items c0\<close> prod.collapse [symmetric]] by blast
  ultimately show "k < sy_next (sy_turn L A i s) \<and> cell_sound items c" by simp
qed

lemma turn_heading: "heads_at k s = Some a \<Longrightarrow> heads_at k (sy_turn L A i s) = Some a"
  by (cases "sy_cells s k") (auto simp: sy_heading_def turn_cells cell_turn_heading(1) [OF _ prod.collapse [symmetric]])

lemma turns_keep: "(\<And>i s. P s \<Longrightarrow> P (sy_turn L A i s)) \<Longrightarrow> P s \<Longrightarrow> P (foldl (\<lambda>s k. sy_turn L A k s) s ks)"
  by (induction ks arbitrary: s) simp_all

text \<open>What a turn of an actor establishes and turns keep holds after a sleep.\<close>

lemma turns_establish:
  assumes "\<And>i s. P s \<Longrightarrow> P (sy_turn L A i s)" and "\<And>i s. Q s \<Longrightarrow> Q (sy_turn L A i s)" and "\<And>s. P s \<Longrightarrow> Q (sy_turn L A k s)" and "P s" and "k \<in> set ks"
  shows "Q (foldl (\<lambda>s k. sy_turn L A k s) s ks)"
  using assms(4,5)
proof (induction ks arbitrary: s)
  case (Cons i ks)
  show ?case
  proof (cases "i = k")
    case True
    then show ?thesis using turns_keep [of Q "sy_turn L A k s" ks] assms(2,3) Cons.prems(1) by simp
  next
    case False
    then show ?thesis using Cons assms(1) by simp
  qed
qed simp

text \<open>Without interceptors and bounded mailbox a call casts its envelope.\<close>

lemma send_plain:
  assumes "cell_sound items c"
  shows "rf_send_dispatch (rl_mailbox L) list_mpsc (cell_ref c) d =
    (case rmb_cast (rl_mailbox L) (rf_inner (cell_ref c)) d of
       (Inr _, q) \<Rightarrow> (Inr (), (cell_ref c)\<lparr>rf_inner := q\<rparr>) | (Inl e, q) \<Rightarrow> (Inl (ActorSendError e), (cell_ref c)\<lparr>rf_inner := q\<rparr>))"
  using assms by (simp add: cell_sound_def rf_send_dispatch_def)

lemma pipeline_plain:
  assumes "cell_sound items c"
  shows "run_on_send (rf_outbound_pipeline (cell_ref c)) ty mode m i obs = (ir_continued, i, obs)"
  using assms by (simp add: cell_sound_def run_on_send_def rf_outbound_pipeline_def)

lemma queued_heading:
  assumes "heads c = Some a" and "plain d" and "items q = items (rf_inner (cell_ref c)) @ [d]" "up q" "\<not> stopping q"
  shows "heads (moved_cell q c) = Some (reaction react a d)" and "cell_sound items (moved_cell q c)"
  using headsD [OF assms(1)] assms(2-) by (auto simp: moved_cell_def cell_heading_def cell_sound_def Let_def)

lemma headingD:
  assumes "heads_at k s = Some a"
  obtains c where "sy_cells s k = Some c" "heads c = Some a" "cell_sound items c" "up (rf_inner (cell_ref c))" "\<not> stopping (rf_inner (cell_ref c))"
  using assms headsD by (auto simp: sy_heading_def split: bind_splits)

lemma tell_heading:
  assumes "sy_sound items s" "heads_at k s = Some a"
  shows "\<exists>s'. sy_tell L A k m s = (Inr (), s') \<and> sy_sound items s' \<and> heads_at k s' = Some (snd (react m a))"
proof -
  obtain c where c: "sy_cells s k = Some c" "heads c = Some a" "cell_sound items c" "up (rf_inner (cell_ref c))" "\<not> stopping (rf_inner (cell_ref c))"
    using assms(2) by (rule headingD)
  obtain q where q: "rmb_cast (rl_mailbox L) (rf_inner (cell_ref c)) (TypedDispatch m) = (Inr (), q)"
      "items q = items (rf_inner (cell_ref c)) @ [TypedDispatch m]" "up q" "\<not> stopping q"
    using cast_up [OF c(4), of "TypedDispatch m"] c(5) by metis
  note h = queued_heading [OF c(2) _ q(2-4)]
  have "sy_tell L A k m s = (Inr (), s\<lparr>sy_cells := (sy_cells s)(k := Some (moved_cell q c)), sy_caller := (sy_caller s)\<lparr>cl_istate := (), cl_observed := ()\<rparr>\<rparr>)"
    using c q(1) by (simp add: sy_tell_def rf_tell_def pipeline_plain ir_continued_def send_plain moved_cell_def)
  then show ?thesis using assms(1) c(1) h by (auto simp: sy_sound_def sy_heading_def)
qed

lemma ask_heading:
  assumes "sy_sound items s" "heads_at k s = Some a"
  shows "\<exists>x s'. sy_ask L A k m token s = (Inr x, s') \<and> sy_sound items s' \<and> heads_at k s' = Some (if token = None then snd (react m a) else a) \<and>
    (\<forall>y a'. token = None \<and> react m a = (Some y, a') \<longrightarrow> x = Inr y) \<and> (token \<noteq> None \<longrightarrow> x = Inl RE_Cancelled)"
proof -
  obtain c where c: "sy_cells s k = Some c" "heads c = Some a" "cell_sound items c" "up (rf_inner (cell_ref c))" "\<not> stopping (rf_inner (cell_ref c))"
    using assms(2) by (rule headingD)
  let ?tx = "cl_next (sy_caller s)"
  let ?d = "AskDispatch m ?tx token"
  obtain q where q: "rmb_cast (rl_mailbox L) (rf_inner (cell_ref c)) ?d = (Inr (), q)" "items q = items (rf_inner (cell_ref c)) @ [?d]" "up q" "\<not> stopping q"
    using cast_up [OF c(4), of ?d] c(5) by metis
  define cl where "cl = (sy_caller s)\<lparr>cl_istate := (), cl_observed := (), cl_next := ?tx + 1, cl_oneshots := (cl_oneshots (sy_caller s))(?tx := OsPending)\<rparr>"
  define s1 where "s1 = s\<lparr>sy_cells := (sy_cells s)(k := Some (moved_cell q c)), sy_caller := cl\<rparr>"
  have ask: "sy_ask L A k m token s = (Inr (the (ask_reply_poll (cl_oneshots (sy_caller (sy_turn L A k s1)) ?tx))), sy_turn L A k s1)"
    using c q(1) by (simp add: sy_ask_def rf_ask_def pipeline_plain ir_continued_def send_plain s1_def cl_def moved_cell_def Let_def)
  note qh = queued_heading [OF c(2) _ q(2-4)]
  have h: "heads (moved_cell q c) = Some (if token = None then snd (react m a) else a)" using qh(1) by (cases token) simp_all
  obtain c' os' where t: "cell_turn L A (moved_cell q c) (cl_oneshots cl) = (c', os')" by force
  have os': "cl_oneshots (sy_caller (sy_turn L A k s1)) = os'" by (simp add: sy_turn_def s1_def t)
  have "sy_sound items s1" using assms(1) c(1) qh(2) by (auto simp: s1_def sy_sound_def)
  moreover have "heads_at k s1 = Some (if token = None then snd (react m a) else a)" using h by (simp add: s1_def sy_heading_def)
  moreover have "(\<forall>y a'. token = None \<and> react m a = (Some y, a') \<longrightarrow> cl_oneshots (sy_caller (sy_turn L A k s1)) ?tx = OsSent (Inr y)) \<and>
      (token \<noteq> None \<longrightarrow> cl_oneshots (sy_caller (sy_turn L A k s1)) ?tx = OsSent (Inl RE_Cancelled))"
    unfolding os' using cell_turn_answers [OF c(2) q(2-4) t] by auto
  ultimately show ?thesis unfolding ask using turn_sound turn_heading by auto
qed

lemma spawn_heading:
  assumes "sy_sound items s"
  shows "\<exists>k s'. sy_spawn L A n a s = (Inr k, s') \<and> sy_sound items s' \<and> heads_at k s' = Some a \<and> api_name (ractor_api L A) k s' = n"
  using assms by (auto simp: sy_spawn_def ra_pre_start_def conf_actor_def rr_spawn_internal_def Let_def sy_sound_def cell_sound_def sy_heading_def
      cell_heading_def ractor_api_def less_Suc_eq split: prod.split)

lemma turn_settles:
  assumes "heads_at k s = Some a"
  shows "ras_actor (cell_actor (the (sy_cells (sy_turn L A k s) k))) = a"
proof -
  obtain c where c: "sy_cells s k = Some c" "heads c = Some a" using assms by (rule headingD)
  obtain c' os' where t: "cell_turn L A c (cl_oneshots (sy_caller s)) = (c', os')" by force
  show ?thesis using cell_turn_heading(2) [OF c(2) t] by (simp add: turn_cells c(1) t)
qed

definition settled_at :: "nat \<Rightarrow> 'a \<Rightarrow> ('q, 'a, 'm, 'y) conf_system \<Rightarrow> bool" where
  "settled_at k a s \<longleftrightarrow> heads_at k s = Some a \<and> ras_actor (cell_actor (the (sy_cells s k))) = a"

lemma turn_settled: "settled_at k a s \<Longrightarrow> settled_at k a (sy_turn L A i s)"
  using turn_settles [of k s a] turn_heading [of k s a i] by (cases "i = k") (simp_all add: settled_at_def turn_cells)

lemma sleep_heading:
  assumes "sy_sound items s" "heads_at k s = Some a" "0 < ms"
  shows "settled_at k a (sy_sleep L A ms s)"
  unfolding sy_sleep_def
proof (rule turns_establish [where P = "\<lambda>s. heads_at k s = Some a" and k = k])
  show "settled_at k a (sy_turn L A k t)" if "heads_at k t = Some a" for t
    using turn_settles [OF that] turn_heading [OF that, of k] by (simp add: settled_at_def)
  show "k \<in> set (rl_schedule L ms (sy_next s))" using assms by (intro scheduled) (auto simp: sy_sound_def elim!: headingD)
qed (simp_all add: turn_heading turn_settled assms(2))

lemma sleep_sound: "sy_sound items s \<Longrightarrow> sy_sound items (sy_sleep L A ms s)"
  unfolding sy_sleep_def by (rule turns_keep [where P = "sy_sound items", OF turn_sound])

lemma stop_sound: "sy_sound items s \<Longrightarrow> sy_sound items (sy_stop L k s)"
  by (auto simp: sy_stop_def sy_sound_def cell_sound_def rf_stop_def split: option.split)

definition down :: "nat \<Rightarrow> ('q, 'a, 'm, 'y) conf_system \<Rightarrow> bool" where
  "down k s \<longleftrightarrow> (\<forall>c. sy_cells s k = Some c \<longrightarrow> \<not> up (rf_inner (cell_ref c)))"

definition leaving :: "nat \<Rightarrow> ('q, 'a, 'm, 'y) conf_system \<Rightarrow> bool" where
  "leaving k s \<longleftrightarrow> (\<forall>c. sy_cells s k = Some c \<longrightarrow> \<not> up (rf_inner (cell_ref c)) \<or> stopping (rf_inner (cell_ref c)))"

lemma turn_down: "leaving k s \<Longrightarrow> down k (sy_turn L A k s)" "down k s \<Longrightarrow> down k (sy_turn L A i s)" "leaving k s \<Longrightarrow> leaving k (sy_turn L A i s)"
  using cell_turn_down [OF prod.collapse [symmetric]] by (auto simp: down_def leaving_def turn_cells)

lemma alive_iff: "sy_sound items s \<Longrightarrow> api_is_alive (ractor_api L A) k s \<longleftrightarrow> (\<exists>c. sy_cells s k = Some c \<and> up (rf_inner (cell_ref c)))"
  by (auto simp: ractor_api_def rf_is_alive_def sy_sound_def cell_sound_def split: option.split)

lemma sleep_stopped:
  assumes "sy_sound items s" "heads_at k s = Some a" "0 < ms"
  shows "\<not> api_is_alive (ractor_api L A) k (sy_sleep L A ms (sy_stop L k s))"
proof -
  have "k < sy_next (sy_stop L k s)" using assms by (auto simp: sy_sound_def sy_heading_def sy_stop_def split: bind_splits option.splits)
  moreover have "leaving k (sy_stop L k s)" by (auto simp: leaving_def sy_stop_def rf_stop_def split: option.splits)
  ultimately have "down k (sy_sleep L A ms (sy_stop L k s))"
    unfolding sy_sleep_def using turns_establish [of "leaving k" "down k" k, OF turn_down(3) turn_down(2) turn_down(1)] scheduled [OF assms(3)] by blast
  then show ?thesis using alive_iff [OF sleep_sound [OF stop_sound [OF assms(1)]], of k ms k] by (simp add: down_def)
qed

lemma dead_refuses:
  assumes s: "sy_sound items s" and dead: "\<not> api_is_alive (ractor_api L A) k s"
  shows "(\<exists>e s'. sy_tell L A k m s = (Inl e, s') \<and> sy_sound items s' \<and> \<not> api_is_alive (ractor_api L A) k s') \<and> (\<exists>e s'. sy_ask L A k m None s = (Inl e, s'))"
proof (cases "sy_cells s k")
  case None
  then show ?thesis using s dead by (auto simp: sy_tell_def sy_ask_def)
next
  case (Some c)
  then have c: "cell_sound items c" "\<not> up (rf_inner (cell_ref c))" using s dead alive_iff [OF s, of k] by (auto simp: sy_sound_def)
  obtain f where f: "\<And>d. rmb_cast (rl_mailbox L) (rf_inner (cell_ref c)) d = (Inl (f d), rf_inner (cell_ref c))" using cast_down [OF c(2)] by metis
  obtain e cl where t: "sy_tell L A k m s = (Inl e, s\<lparr>sy_cells := (sy_cells s)(k := Some c), sy_caller := cl\<rparr>)"
    using c Some f by (simp add: sy_tell_def rf_tell_def pipeline_plain ir_continued_def send_plain Let_def)
  have s': "sy_sound items (s\<lparr>sy_cells := (sy_cells s)(k := Some c), sy_caller := cl\<rparr>)" using s Some by (auto simp: sy_sound_def)
  then have "\<not> api_is_alive (ractor_api L A) k (s\<lparr>sy_cells := (sy_cells s)(k := Some c), sy_caller := cl\<rparr>)" using c(2) alive_iff [OF s'] by simp
  moreover have "\<exists>e s'. sy_ask L A k m None s = (Inl e, s')"
    using c Some f by (simp add: sy_ask_def rf_ask_def pipeline_plain ir_continued_def send_plain Let_def)
  ultimately show ?thesis using t s' by blast
qed

lemma api_simps [simp]:
  "api_spawn (ractor_api L A) = sy_spawn L A" "api_tell (ractor_api L A) = sy_tell L A" "api_ask (ractor_api L A) = sy_ask L A" "api_stop (ractor_api L A) = sy_stop L"
  "api_sleep (ractor_api L A) = sy_sleep L A" "api_shared (ractor_api L A) k s = ras_actor (cell_actor (the (sy_cells s k)))"
  by (simp_all add: ractor_api_def)

end

sublocale reacting \<subseteq> conforming_runtime "ractor_api L (conf_actor react action)" react "sy_heading items up stopping react" "sy_sound items" "\<lambda>_. True"
proof unfold_locales
  fix s :: "('q, 'a, 'm, 'y) conf_system" and n a k m y a' token and ms :: nat
  show "\<exists>r s'. api_spawn (ractor_api L A) n a s = (Inr r, s') \<and> sy_sound items s' \<and> heads_at r s' = Some a \<and> api_name (ractor_api L A) r s' = n" if "sy_sound items s"
    using spawn_heading [OF that] by simp
  show "\<exists>s'. api_tell (ractor_api L A) k m s = (Inr (), s') \<and> sy_sound items s' \<and> heads_at k s' = Some (snd (react m a))"
    if "sy_sound items s" "heads_at k s = Some a" using tell_heading [OF that] by simp
  show "\<exists>s'. api_ask (ractor_api L A) k m None s = (Inr (Inr y), s') \<and> sy_sound items s' \<and> heads_at k s' = Some a'"
    if "sy_sound items s" "heads_at k s = Some a" "react m a = (Some y, a')" using ask_heading [OF that(1,2), of m None] that(3) by auto
  show "\<exists>s'. api_ask (ractor_api L A) k m (Some token) s = (Inr (Inl RE_Cancelled), s')"
    if "sy_sound items s" "heads_at k s = Some a" using ask_heading [OF that, of m "Some token"] by auto
  show "heads_at k (api_sleep (ractor_api L A) ms s) = Some a \<and> api_shared (ractor_api L A) k (api_sleep (ractor_api L A) ms s) = a"
    if "sy_sound items s" "0 < ms" "heads_at k s = Some a" using sleep_heading [OF that(1,3,2)] by (simp add: settled_at_def)
  show "api_is_alive (ractor_api L A) k s" if "heads_at k s = Some a"
    using that by (auto simp: ractor_api_def rf_is_alive_def cell_sound_def elim!: headingD)
  show "\<not> api_is_alive (ractor_api L A) k (api_sleep (ractor_api L A) ms (api_stop (ractor_api L A) k s))"
    if "sy_sound items s" "heads_at k s = Some a" "0 < ms" using sleep_stopped [OF that] by simp
  show "sy_sound items (api_stop (ractor_api L A) k s)" "sy_sound items (api_sleep (ractor_api L A) ms s)" if "sy_sound items s"
    using stop_sound [OF that] sleep_sound [OF that] by simp_all
  show "(\<exists>e s'. api_tell (ractor_api L A) k m s = (Inl e, s') \<and> sy_sound items s' \<and> \<not> api_is_alive (ractor_api L A) k s') \<and>
      (\<exists>e s'. api_ask (ractor_api L A) k m None s = (Inl e, s'))"
    if "sy_sound items s" "\<not> api_is_alive (ractor_api L A) k s" using dead_refuses [OF that] by simp
qed

lemma conf_counter_total: "fst (conf_counter m c) \<noteq> None"
  by (cases m) simp_all

lemma conf_multi_total: "fst (conf_multi m v) \<noteq> None"
  by (cases m) simp_all

text \<open>On every library with ractor's promises the actors of the suite conform.\<close>

lemma counting_reacts: "ractor_promises L items up stopping \<Longrightarrow> reacting conf_counter Stop L items up stopping"
  by unfold_locales (simp_all add: conf_counter_total)

lemma resuming_reacts: "ractor_promises L items up stopping \<Longrightarrow> reacting conf_resume Resume L items up stopping"
  by unfold_locales simp_all

lemma multiplying_reacts: "ractor_promises L items up stopping \<Longrightarrow> reacting conf_multi Stop L items up stopping"
  by unfold_locales (simp_all add: conf_multi_total)

context reacting
begin

lemma conforms: "conforming_runtime (ractor_api L (conf_actor react action)) react (sy_heading items up stopping react) (sy_sound items) (\<lambda>_. True)"
  by (rule conforming_runtime_axioms)

end

lemma ractor_counter_conforms:
  assumes "ractor_promises L items up stopping"
  shows "conforming_counter (ractor_api L (conf_actor conf_counter Stop)) (sy_heading items up stopping conf_counter) (sy_sound items) (\<lambda>_. True)"
  using reacting.conforms [OF counting_reacts [OF assms]] by (rule conforming_counter.intro)

lemma ractor_resume_conforms:
  assumes "ractor_promises L items up stopping"
  shows "conforming_resume (ractor_api L (conf_actor conf_resume Resume)) (sy_heading items up stopping conf_resume) (sy_sound items) (\<lambda>_. True)"
  using reacting.conforms [OF resuming_reacts [OF assms]] by (rule conforming_resume.intro)

lemma ractor_multi_conforms:
  assumes "ractor_promises L items up stopping"
  shows "conforming_multi (ractor_api L (conf_actor conf_multi Stop)) (sy_heading items up stopping conf_multi) (sy_sound items) (\<lambda>_. True)"
  using reacting.conforms [OF multiplying_reacts [OF assms]] by (rule conforming_multi.intro)

lemma passesI: "\<exists>s'. t = Some s' \<Longrightarrow> t \<noteq> None"
  by fastforce

text \<open>C6. The ractor adapter passes the conformance suite. Let the references, actors and spawning of the adapter be put together over any library with ractor's
  promises: messages are queued in order while the actor runs, the stop signal goes before them, an actor in its turn gets all that is queued, and
  pauses and awaited replies give turns. Then every test of tells, asks, ordering, names, stopping, cancellation, recovery from a panic and several
  handlers passes, whatever other actors the program has already running, as long as these have neither interceptors nor bounded mailboxes and
  only tells and asks queued.\<close>

theorem ractor_passes_conformance:
  assumes counter: "ractor_promises L items up stopping" and "sy_sound items s"
    and resume: "ractor_promises L' items' up' stopping'" and "sy_sound items' s'"
    and multi: "ractor_promises L'' items'' up'' stopping''" and "sy_sound items'' s''"
  shows "list_all (\<lambda>test. test (ractor_api L (conf_actor conf_counter Stop)) s \<noteq> None)
     [test_tell_and_ask, test_message_ordering, test_ask_reply, test_stop, test_actor_name, test_cancel_ask token, test_tell_after_stop,
      test_ask_after_stop, test_message_ordering_under_load, test_rapid_stop_and_send] \<and>
   test_on_error_resume (ractor_api L' (conf_actor conf_resume Resume)) s' \<noteq> None \<and>
   test_multiple_handlers (ractor_api L'' (conf_actor conf_multi Stop)) s'' \<noteq> None"
proof (intro conjI)
  note c = ractor_counter_conforms [OF counter]
  show "list_all (\<lambda>test. test (ractor_api L (conf_actor conf_counter Stop)) s \<noteq> None)
     [test_tell_and_ask, test_message_ordering, test_ask_reply, test_stop, test_actor_name, test_cancel_ask token, test_tell_after_stop,
      test_ask_after_stop, test_message_ordering_under_load, test_rapid_stop_and_send]"
    unfolding list.pred_inject(2)
    by (intro conjI list.pred_inject(1)) (rule passesI, rule conforming_counter.passes [OF c] conforming_counter.passes_cancel_ask [OF c TrueI], rule assms(2))+
  show "test_on_error_resume (ractor_api L' (conf_actor conf_resume Resume)) s' \<noteq> None"
    by (rule passesI [OF conforming_resume.passes_on_error_resume [OF ractor_resume_conforms [OF resume] assms(4)]])
  show "test_multiple_handlers (ractor_api L'' (conf_actor conf_multi Stop)) s'' \<noteq> None"
    by (rule passesI [OF conforming_multi.passes_multiple_handlers [OF ractor_multi_conforms [OF multi] assms(6)]])
qed

text \<open>A library that keeps the promises: ports as lists, and turns for the actors in the order of their numbers.\<close>

record 'x port =
  pt_items :: "'x list"
  pt_up :: bool
  pt_stopping :: bool

definition list_ports :: "('x port, 'x) ractor_lib" where
  "list_ports = \<lparr>rl_mailbox =
     \<lparr>rmb_cast = (\<lambda>q x. if pt_up q then (Inr (), q\<lparr>pt_items := pt_items q @ [x]\<rparr>) else (Inl ''Messaging failed to enqueue the message'', q)),
       rmb_stop = (\<lambda>q. q\<lparr>pt_stopping := True\<rparr>), rmb_running = pt_up\<rparr>,
     rl_open = \<lparr>pt_items = [], pt_up = True, pt_stopping = False\<rparr>,
     rl_turn = (\<lambda>q. if \<not> pt_up q then (Idle, q)
       else if pt_stopping q then (Stops (pt_items q), q\<lparr>pt_items := [], pt_up := False\<rparr>) else (Handles (pt_items q), q\<lparr>pt_items := []\<rparr>)),
     rl_halt = (\<lambda>q. q\<lparr>pt_items := [], pt_up := False\<rparr>), rl_schedule = (\<lambda>_ n. [0..<n])\<rparr>"

lemma list_ports_promise: "ractor_promises list_ports pt_items pt_up pt_stopping"
  by (auto simp: ractor_promises_def ports_keep_order_def turns_serve_def mailbox_lawful_def list_ports_def)

interpretation counting: reacting conf_counter Stop list_ports pt_items pt_up pt_stopping
  by (rule counting_reacts [OF list_ports_promise])

interpretation ractor_counter: conforming_counter "ractor_api list_ports (conf_actor conf_counter Stop)"
  "sy_heading pt_items pt_up pt_stopping conf_counter" "sy_sound pt_items" "\<lambda>_. True"
  by (rule ractor_counter_conforms [OF list_ports_promise])

interpretation ractor_resume: conforming_resume "ractor_api list_ports (conf_actor conf_resume Resume)"
  "sy_heading pt_items pt_up pt_stopping conf_resume" "sy_sound pt_items" "\<lambda>_. True"
  by (rule ractor_resume_conforms [OF list_ports_promise])

interpretation ractor_multi: conforming_multi "ractor_api list_ports (conf_actor conf_multi Stop)"
  "sy_heading pt_items pt_up pt_stopping conf_multi" "sy_sound pt_items" "\<lambda>_. True"
  by (rule ractor_multi_conforms [OF list_ports_promise])

lemma sy_new_sound: "sy_sound items sy_new"
  by (simp add: sy_sound_def sy_new_def)

theorem ractor_passes_conformance_witness:
  "test_tell_and_ask (ractor_api list_ports (conf_actor conf_counter Stop)) sy_new \<noteq> None \<and>
   test_on_error_resume (ractor_api list_ports (conf_actor conf_resume Resume)) sy_new \<noteq> None"
  using ractor_passes_conformance [OF list_ports_promise sy_new_sound list_ports_promise sy_new_sound list_ports_promise sy_new_sound]
  by simp

section \<open>The test runtime does not conform\<close>

text \<open>A reference of the test runtime reports its actor as not alive as soon as it is told to stop, while the mailbox is open until the actor's task gets
  its turn: a tell right after the stop is accepted, and lost. The test of tells after a stop looks at the reference without a pause in between and
  asserts that the tell is refused.\<close>

lemma test_runtime_tell_after_stop:
  assumes "tf_sender r = MsUnbounded c" and "\<not> lc_closed c" and "tf_outbound_interceptors r = []"
  shows "\<not> tf_is_alive list_mpsc (tf_stop list_mpsc r)" and "fst (tf_tell list_mpsc type_name m (tf_stop list_mpsc r) cl) = Inr ()"
  using assms by (simp_all add: tf_stop_def tf_is_alive_def tf_tell_def tf_outbound_pipeline_def run_on_send_def ir_continued_def tf_send_def list_mpsc_def Let_def)

end
