(* ===== verification/Spec2Isabelle.thy ===== *)
theory Spec2Isabelle
  imports Circuit_Breaker Supervision Wire_Interceptor Outbound_Scheduling Cluster Proto Ractor_Node Persistence Broadcast Virtual_Pool Transport Interceptors Remote_Ref Metrics Runtimes Stream_Calls Mock_Cluster Azure_Discovery Timers Node_Binaries Conformance
begin

text \<open>
  A verification library for dactor, an actor framework in Rust that puts one API (actors, handlers, references, interceptors, pools,
  remote calls) over several actor crates.

  \<^bold>\<open>The program.\<close> The crate \<^verbatim>\<open>dactor\<close> holds the vocabulary and everything that does not depend on an actor crate. A caller has an
  \<^verbatim>\<open>ActorRef\<close>; its five calls (tell, ask, expand, reduce, transform) run the outbound interceptors, wrap the message in a dispatch
  envelope and put it in the actor's mailbox. The adapter's actor takes envelopes one at a time, runs the inbound interceptors, the user's
  handler and the interceptors' completion hooks, and answers the caller. Pools, virtual pools, broadcasts, groups and worker references are
  built on references. Between nodes, messages travel as wire envelopes through wire interceptors, an outbound queue and a transport; system
  actors keep spawns, watches, cancellations and peers. Persistence and supervision serve the user's actors.
  The crates \<^verbatim>\<open>dactor-ractor\<close>, \<^verbatim>\<open>dactor-kameo\<close> and \<^verbatim>\<open>dactor-coerce\<close> are the adapters for three actor crates. For tests there are a runtime of its own in
  \<^verbatim>\<open>dactor/src/test_support\<close>, a mock cluster (\<^verbatim>\<open>dactor-mock\<close>) and a harness of node processes (\<^verbatim>\<open>dactor-test-harness\<close>); the
  \<^verbatim>\<open>dactor-discover\<close> crates find the peers of a node.

  \<^bold>\<open>The theories\<close>, with the files under \<^verbatim>\<open>src/\<close> they model.

  \<^item> \<open>Prelude\<close>: machine types, saturating time, decimal printing, the hash map with the locale \<open>hash_map\<close> its clients rely on.
  \<^item> \<open>Core_Types\<close>: \<^verbatim>\<open>node.rs\<close>, \<^verbatim>\<open>errors.rs\<close>, parts of \<^verbatim>\<open>interceptor.rs\<close>, \<^verbatim>\<open>message.rs\<close>, \<^verbatim>\<open>remote.rs\<close>. \<open>Channels\<close>: the bounded channel of
    tokio as a parameter with its laws.
  \<^item> \<open>Wire_Version\<close> (\<^verbatim>\<open>version.rs\<close>): parsing accepts exactly what is printed.
  \<^item> \<open>Time_Window\<close>: sliding windows, as a locale; \<open>Circuit_Breaker\<close> (\<^verbatim>\<open>circuit_breaker.rs\<close>): refinement of a specification that never
    forgets an error, the invariant, one probe at a time, recovery; \<open>Supervision\<close> (\<^verbatim>\<open>supervision.rs\<close>): refinement and restart budget.
  \<^item> \<open>Rate_Limit\<close> (\<^verbatim>\<open>throttle.rs\<close> and the limiter of \<^verbatim>\<open>wire_interceptor.rs\<close>), \<open>Wire_Interceptor\<close> (\<^verbatim>\<open>wire_interceptor.rs\<close>): decisions, bounds, short circuit.
  \<^item> \<open>Outbound_Queue\<close>, \<open>Outbound_Scheduling\<close> (\<^verbatim>\<open>outbound_queue.rs\<close>): over all histories of pushes, pops, drains and clears nothing is lost,
    duplicated or reordered within a lane or among streams; progress; the order of the comparer; the histories in which fairness fails.
  \<^item> \<open>Float64\<close>, \<open>Metrics\<close> (\<^verbatim>\<open>metrics.rs\<close>): correctly rounded arithmetic; what a snapshot reports of the events recorded, the percentile.
  \<^item> \<open>Registries\<close> (\<^verbatim>\<open>registry.rs\<close>, \<^verbatim>\<open>type_registry.rs\<close>), \<open>Remote\<close> (\<^verbatim>\<open>message.rs\<close>, \<^verbatim>\<open>remote.rs\<close>): header and envelope round trips with version
    migration; \<open>Proto\<close> (\<^verbatim>\<open>proto.rs\<close>, \<^verbatim>\<open>system.proto\<close>): round trips and refusals, a handshake over the wire.
  \<^item> \<open>System_Actors\<close> (\<^verbatim>\<open>system_actors.rs\<close>, \<^verbatim>\<open>system_router.rs\<close>, \<^verbatim>\<open>mailbox.rs\<close>): the watch manager refines a relation, handshake decisions are symmetric;
    \<open>Cluster\<close> (\<^verbatim>\<open>cluster.rs\<close>): who is told of an event.
  \<^item> \<open>Persistence\<close> (\<^verbatim>\<open>persistence.rs\<close>): what is persisted is recovered, failures change nothing, retries are bounded.
  \<^item> \<open>Pool\<close> (\<^verbatim>\<open>pool.rs\<close>), \<open>Virtual_Pool\<close> (\<^verbatim>\<open>virtual_pool.rs\<close>), \<open>Broadcast\<close> (\<^verbatim>\<open>broadcast.rs\<close>, \<^verbatim>\<open>dead_letter.rs\<close>, \<^verbatim>\<open>group.rs\<close>, \<^verbatim>\<open>worker_ref.rs\<close>):
    round-robin tells are tells to the workers in rotation, a virtual pool refines direct calls on a pool in the order of acceptance, every member
    is told once.
  \<^item> \<open>Streams\<close> (\<^verbatim>\<open>stream.rs\<close>), \<open>Transport\<close> (\<^verbatim>\<open>transport.rs\<close>, \<^verbatim>\<open>batched_transport.rs\<close>), \<open>Interceptors\<close> (\<^verbatim>\<open>interceptor.rs\<close>, \<^verbatim>\<open>runtime_support.rs\<close>):
    batching keeps the order, requests get their replies, interception delivers exactly what is let pass.
  \<^item> \<open>Remote_Ref\<close> (\<^verbatim>\<open>remote_ref.rs\<close>): what is told or asked through a remote reference is decoded at the target, and the reply comes back.
  \<^item> \<open>Dispatch\<close> (\<^verbatim>\<open>dispatch.rs\<close>, \<^verbatim>\<open>actor.rs\<close>), \<open>Ractor_Actor\<close> and \<open>Ractor_Ref\<close> (\<^verbatim>\<open>dactor-ractor/src/runtime.rs\<close>): every request is answered, what
    becomes of a tell, what a cancelled probe does to an actor behind the circuit breaker; \<open>Ractor_Node\<close> (the same file and
    \<^verbatim>\<open>dactor-ractor/src/system_actors.rs\<close>): unique ids, alternating peer events, routing of system envelopes.
  \<^item> \<open>Kameo_Node\<close>, \<open>Kameo_Actor\<close>, \<open>Coerce_Node\<close>, \<open>Coerce_Actor\<close> (\<^verbatim>\<open>runtime.rs\<close> and \<^verbatim>\<open>system_actors.rs\<close> of \<^verbatim>\<open>dactor-kameo\<close> and
    \<^verbatim>\<open>dactor-coerce\<close>): translated on their own; the actors are shown to refine those of the ractor adapter, and a coerce node to answer the calls of
    \<open>node_op\<close> as a ractor node does (locales \<open>peer_runtime\<close> and \<open>node_simulation\<close>); where they differ is stated (the adapter named in a
    handshake, routed spawns on kameo of types not registered natively, the reason of a failed stop).
  \<^item> \<open>Runtimes\<close> (the same files): the configuration of a runtime and its spawning operations, with the locale \<open>spawning_host\<close> of what the three
    spawns promise; all live references run the same interceptors. \<open>Stream_Calls\<close>: the reply side of streaming calls, where batching is not visible.
  \<^item> \<open>Test_Runtime\<close> (\<^verbatim>\<open>test_support/test_runtime.rs\<close>): its actors refine those of the ractor adapter, a stopped actor has answered what it took and
    the callers of the rest learn that it is gone, and when a stop is lost. \<open>Timers\<close> (\<^verbatim>\<open>timer.rs\<close>, \<^verbatim>\<open>clock.rs\<close>, \<^verbatim>\<open>test_support/test_clock.rs\<close>): when a periodic timer sends and ends
    on any interval that ticks as tokio documents.
  \<^item> \<open>Mock_Cluster\<close> (\<^verbatim>\<open>dactor-mock/src\<close>): the network refines a set of cut pairs, the cluster stays a full mesh through crashes and restarts.
  \<^item> \<open>Discovery\<close> (\<^verbatim>\<open>dactor-discover-k8s\<close>, \<^verbatim>\<open>dactor-discover-aws\<close>), \<open>Azure_Discovery\<close> (\<^verbatim>\<open>dactor-discover-azure\<close>): the locale \<open>discovery_backend\<close> of
    what the backends promise, the locale \<open>arm_listing\<close> of a paged listing; every page is read.
  \<^item> \<open>Test_Harness\<close>, \<open>Harness_Cluster\<close> (\<^verbatim>\<open>dactor-test-harness/src\<close>): faults stay in force, the client waits for the first matching event, no process is
    leaked; \<open>Node_Binaries\<close> (\<^verbatim>\<open>src/bin/test_node_*.rs\<close> of the adapters): the command handlers, with the locale \<open>handler_keeps\<close> between node and
    handler, and the counter actor behind the ractor adapter.
  \<^item> \<open>Conformance\<close> (\<^verbatim>\<open>test_support/conformance.rs\<close>): tests of a runtime as programs over its operations, the locale \<open>conforming_runtime\<close> they rely on, the
    ractor adapter put together from its parts over any library with the promises of ractor (locale \<open>reacting\<close>) and shown to pass them, and the test the
    test runtime does not pass.

  \<^bold>\<open>Conventions.\<close> A struct is a record, its methods are functions that return it updated. What a mutex or an atomic makes one step is one
  function; interleavings are lists of such steps. Integers keep their width where the code can overflow, and are natural numbers where they
  count elements of a collection in memory. Times are natural numbers; the clock is an argument. A \<^verbatim>\<open>HashMap\<close> is an association list whose
  order stands for the map's arbitrary one. Panics are values. Code outside the repository is a parameter with named laws and an instance
  that satisfies them: channels, interval timers and cancellation tokens (tokio), mailboxes and
  the turns of actors (ractor, kameo, coerce), the protobuf codec (prost), serializers, JSON, HTTP,
  cloud and gRPC clients, and the user's handlers, interceptors and dead letter handlers.

  \<^bold>\<open>Bounds.\<close> Loops over data are structural recursions. The reader of a batch stream waits in a loop and is a partial function into
  \<open>option\<close> that is shown to return. The transform loop and the item tasks run over the list of items their input yields.
  The retry loop of recovery counts its attempts down, as do the connection loop (fifty attempts) and the stop loop (a hundred looks) of the harness.
  A periodic timer and the walk along the pages of a listing may run for ever and are partial functions into \<open>option\<close>; when they end is
  stated as a theorem.

  \<^bold>\<open>Not modelled.\<close> Logging, tracing and the \<^verbatim>\<open>Debug\<close> implementations; the conformance tests of streams and concurrent callers, the other tests and the
  examples; accessors that only give a field; the startup code of the node programs and the gRPC server around a node's methods.
\<close>

end
